(* ===== verification/LLM_Prelude.thy ===== *)
theory LLM_Prelude
  imports Complex_Main "HOL-Library.Signed_Division"
begin

text \<open>
  Shared vocabulary of the development: errors as values, C++ integer and floating-point
  arithmetic, loops that can fail, and the list lemmas the components share.

  A \<^verbatim>\<open>double\<close> of the source is a \<open>real\<close> (rounding is not modelled), an
  \<^verbatim>\<open>int\<close>, \<^verbatim>\<open>long\<close> or \<^verbatim>\<open>long long\<close> is an
  \<open>int\<close>: signed overflow is undefined in C++, so every theorem speaks of executions
  without it, and where the width decides the result (a narrowing conversion) it is written
  out with \<open>to_int32\<close>. A division by zero is left unspecified (\<open>undefined\<close>), so no
  theorem can use HOL's \<open>x / 0 = 0\<close>.
\<close>

named_theorems sim_defs \<open>definitions of the model that a functional proof unfolds\<close>

section \<open>Errors as values\<close>

datatype sim_error =
    Fail string          \<comment> \<open>\<^verbatim>\<open>fail\<close> of common/assert.h: message, then exit\<close>
  | OutOfRange           \<comment> \<open>\<^verbatim>\<open>std::out_of_range\<close> from \<^verbatim>\<open>at\<close>\<close>
  | BadFunctionCall      \<comment> \<open>\<^verbatim>\<open>std::bad_function_call\<close>\<close>
  | NullPointer          \<comment> \<open>a null pointer is dereferenced\<close>
  | UndefinedAccess      \<comment> \<open>an access C++ leaves undefined, such as \<^verbatim>\<open>v[i]\<close> past the end\<close>
  | InvalidArgument      \<comment> \<open>\<^verbatim>\<open>std::invalid_argument\<close> from \<^verbatim>\<open>std::stoi\<close>\<close>
  | LengthError          \<comment> \<open>\<^verbatim>\<open>std::length_error\<close>: a vector of negative size\<close>
  | OutOfFuel            \<comment> \<open>a loop that need not end used up the fuel of the model\<close>

type_synonym 'a res = "sim_error + 'a"

definition rbind :: "'a res \<Rightarrow> ('a \<Rightarrow> 'b res) \<Rightarrow> 'b res" where
  "rbind m f = (case m of Inl e \<Rightarrow> Inl e | Inr x \<Rightarrow> f x)"

lemma rbind_simps [simp]: "rbind (Inl e) f = Inl e" "rbind (Inr x) f = f x"
  by (simp_all add: rbind_def)

lemma rbind_eq_Inr: "rbind m f = Inr y \<longleftrightarrow> (\<exists>x. m = Inr x \<and> f x = Inr y)"
  by (cases m) auto

definition fail :: "string \<Rightarrow> 'a res" where
  "fail msg = Inl (Fail msg)"

definition assertTrue :: "bool \<Rightarrow> string \<Rightarrow> unit res" where
  "assertTrue expr msg = (if \<not> expr then fail msg else Inr ())"

definition assertFalse :: "bool \<Rightarrow> string \<Rightarrow> unit res" where
  "assertFalse expr msg = assertTrue (\<not> expr) msg"

lemma assertTrue_simps [simp]:
  "b \<Longrightarrow> assertTrue b msg = Inr ()" "\<not> b \<Longrightarrow> assertTrue b msg = Inl (Fail msg)"
  by (simp_all add: assertTrue_def fail_def)

lemma assertTrue_Inr_iff [simp]: "assertTrue b msg = Inr u \<longleftrightarrow> b"
  by (simp add: assertTrue_def fail_def)

text \<open>A loop whose body may fail: the first failure ends it.\<close>

fun rfold :: "('x \<Rightarrow> 's \<Rightarrow> 's res) \<Rightarrow> 'x list \<Rightarrow> 's \<Rightarrow> 's res" where
  "rfold f [] s = Inr s"
| "rfold f (x # xs) s = rbind (f x s) (rfold f xs)"

lemma rfold_append: "rfold f (xs @ ys) s = rbind (rfold f xs s) (rfold f ys)"
  by (induction xs arbitrary: s) (auto simp: rbind_def split: sum.splits)

lemma rfold_ok:
  assumes "\<And>x s. x \<in> set xs \<Longrightarrow> f x s = Inr (g x s)"
  shows "rfold f xs s = Inr (fold g xs s)"
  using assms by (induction xs arbitrary: s) auto

lemma rfold_invariant:
  assumes "rfold f xs s = Inr t" "P s" "\<And>x s t. x \<in> set xs \<Longrightarrow> P s \<Longrightarrow> f x s = Inr t \<Longrightarrow> P t"
  shows "P t"
  using assms
proof (induction xs arbitrary: s)
  case Nil
  then show ?case by simp
next
  case (Cons x xs)
  from Cons.prems(1) obtain u where u: "f x s = Inr u" and t: "rfold f xs u = Inr t"
    by (auto simp: rbind_eq_Inr)
  have "P u"
    using Cons.prems(2) Cons.prems(3) [of x s u] u by simp
  with t show ?case
  proof (rule Cons.IH)
    fix y s t
    assume "y \<in> set xs" "P s" "f y s = Inr t"
    then show "P t" using Cons.prems(3) [of y s t] by simp
  qed
qed

text \<open>\<^verbatim>\<open>vec.at(i)\<close>: bounds-checked access.\<close>

definition vec_at :: "'a list \<Rightarrow> int \<Rightarrow> 'a res" where
  "vec_at xs i = (if 0 \<le> i \<and> i < int (length xs) then Inr (xs ! nat i) else Inl OutOfRange)"

lemma vec_at_nat [simp]: "i < length xs \<Longrightarrow> vec_at xs (int i) = Inr (xs ! i)"
  by (simp add: vec_at_def)

lemma vec_at_Inr_iff: "vec_at xs i = Inr x \<longleftrightarrow> 0 \<le> i \<and> i < int (length xs) \<and> x = xs ! nat i"
  by (auto simp: vec_at_def)

text \<open>\<^verbatim>\<open>vec[i]\<close>: the unchecked access.\<close>

definition vec_ix :: "'a list \<Rightarrow> int \<Rightarrow> 'a res" where
  "vec_ix xs i = (if 0 \<le> i \<and> i < int (length xs) then Inr (xs ! nat i) else Inl UndefinedAccess)"

lemma vec_ix_Inr_iff: "vec_ix xs i = Inr x \<longleftrightarrow> 0 \<le> i \<and> i < int (length xs) \<and> x = xs ! nat i"
  by (auto simp: vec_ix_def)

section \<open>C++ arithmetic\<close>

text \<open>Integer division and remainder truncate towards zero; the zero divisor is unspecified.\<close>

definition cdiv :: "int \<Rightarrow> int \<Rightarrow> int" where
  "cdiv a b = (if b = 0 then undefined else a sdiv b)"

definition cmod :: "int \<Rightarrow> int \<Rightarrow> int" where
  "cmod a b = (if b = 0 then undefined else a smod b)"

lemma cdiv_nonneg [simp]: "0 \<le> a \<Longrightarrow> 0 < b \<Longrightarrow> cdiv a b = a div b"
  by (cases "a = 0") (auto simp: cdiv_def signed_divide_int_def sgn_if)

lemma cmod_nonneg [simp]: "0 \<le> a \<Longrightarrow> 0 < b \<Longrightarrow> cmod a b = a mod b"
  by (cases "a = 0")
    (auto simp: cmod_def signed_modulo_int_def signed_divide_int_def sgn_if minus_div_mult_eq_mod)

lemma cdiv_mod_bounds:
  "0 \<le> a \<Longrightarrow> 0 < b \<Longrightarrow> 0 \<le> cmod a b" "0 \<le> a \<Longrightarrow> 0 < b \<Longrightarrow> cmod a b < b"
  "0 \<le> a \<Longrightarrow> 0 < b \<Longrightarrow> 0 \<le> cdiv a b"
  by (simp_all add: pos_imp_zdiv_nonneg_iff)

text \<open>The conversion \<^verbatim>\<open>long long\<close> to \<^verbatim>\<open>int\<close> keeps the low 32 bits.\<close>

definition to_int32 :: "int \<Rightarrow> int" where
  "to_int32 x = (x + 2147483648) mod 4294967296 - 2147483648"

lemma to_int32_id [simp]: "- 2147483648 \<le> x \<Longrightarrow> x < 2147483648 \<Longrightarrow> to_int32 x = x"
  by (simp add: to_int32_def)

definition int32_range :: "int \<Rightarrow> bool" where
  "int32_range x \<longleftrightarrow> - 2147483648 \<le> x \<and> x < 2147483648"

text \<open>Floating-point division; \<^verbatim>\<open>static_cast<int>\<close> and \<^verbatim>\<open>(int)\<close> truncate.\<close>

definition fdiv :: "real \<Rightarrow> real \<Rightarrow> real" where
  "fdiv x y = (if y = 0 then undefined else x / y)"

lemma fdiv_nz [simp]: "y \<noteq> 0 \<Longrightarrow> fdiv x y = x / y"
  by (simp add: fdiv_def)

definition ctrunc :: "real \<Rightarrow> int" where
  "ctrunc x = (if x \<ge> 0 then \<lfloor>x\<rfloor> else \<lceil>x\<rceil>)"

lemma ctrunc_of_int [simp]: "ctrunc (of_int i) = i"
  by (simp add: ctrunc_def)

lemma ctrunc_nonneg: "0 \<le> x \<Longrightarrow> 0 \<le> ctrunc x" "0 \<le> x \<Longrightarrow> of_int (ctrunc x) \<le> x"
  by (auto simp: ctrunc_def)

section \<open>Lists\<close>

text \<open>The indices of a loop \<^verbatim>\<open>for (int i = a; i < b; i++)\<close>.\<close>

definition irange :: "int \<Rightarrow> int \<Rightarrow> int list" where
  "irange a b = map (\<lambda>i. a + int i) [0..<nat (b - a)]"

lemma set_irange [simp]: "set (irange a b) = {a..<b}"
proof -
  have "x \<in> (\<lambda>i. a + int i) ` {0..<nat (b - a)}" if "a \<le> x" "x < b" for x
    using that by (intro image_eqI [of _ _ "nat (x - a)"]) auto
  then show ?thesis by (auto simp: irange_def)
qed

lemma length_irange [simp]: "length (irange a b) = nat (b - a)"
  by (simp add: irange_def)

lemma distinct_irange [simp]: "distinct (irange a b)"
  by (simp add: irange_def distinct_map inj_on_def)

lemma irange_nth [simp]: "i < nat (b - a) \<Longrightarrow> irange a b ! i = a + int i"
  by (simp add: irange_def)

lemma irange_empty [simp]: "b \<le> a \<Longrightarrow> irange a b = []"
  by (simp add: irange_def)

lemma irange_Cons: "a < b \<Longrightarrow> irange a b = a # irange (a + 1) b"
proof -
  assume "a < b"
  then have n: "nat (b - a) = Suc (nat (b - (a + 1)))" by simp
  show ?thesis
    by (simp add: irange_def n map_upt_Suc algebra_simps del: upt_Suc)
qed

lemma fold_filter_snoc:
  "fold (\<lambda>x acc. if P x then acc @ [f x] else acc) xs acc = acc @ map f (filter P xs)"
  by (induction xs arbitrary: acc) auto

lemma sum_list_nonneg_int: "(\<And>x. x \<in> set xs \<Longrightarrow> 0 \<le> (f x :: int)) \<Longrightarrow> 0 \<le> sum_list (map f xs)"
  by (induction xs) auto

lemma fold_plus_sum_list: "fold (\<lambda>x (s::'a::comm_monoid_add). s + f x) xs a = a + sum_list (map f xs)"
  by (induction xs arbitrary: a) (auto simp: add.assoc)

lemma sum_list_pos_real:
  assumes "xs \<noteq> []" "\<And>x. x \<in> set xs \<Longrightarrow> 0 < (f x :: real)"
  shows "0 < sum_list (map f xs)"
  using assms
proof (induction xs)
  case (Cons x xs)
  then show ?case by (cases xs) (auto intro: add_pos_pos)
qed simp

section \<open>\<^verbatim>\<open>std::to_string\<close>\<close>

fun nat_digits :: "nat \<Rightarrow> string" where
  "nat_digits n = (if n < 10 then [char_of (48 + n)] else nat_digits (n div 10) @ [char_of (48 + n mod 10)])"

declare nat_digits.simps [simp del]

definition to_string :: "int \<Rightarrow> string" where
  "to_string i = (if i < 0 then CHR 0x2D # nat_digits (nat (- i)) else nat_digits (nat i))"

definition digits_value :: "string \<Rightarrow> nat" where
  "digits_value s = foldl (\<lambda>a c. a * 10 + (of_char c - 48)) 0 s"

lemma digits_value_nat_digits [simp]: "digits_value (nat_digits n) = n"
proof (induction n rule: nat_digits.induct)
  case (1 n)
  show ?case
  proof (cases "n < 10")
    case True
    then show ?thesis by (subst nat_digits.simps) (simp add: digits_value_def)
  next
    case False
    then have "digits_value (nat_digits n) = digits_value (nat_digits (n div 10)) * 10 + n mod 10"
      by (subst nat_digits.simps) (simp add: digits_value_def)
    with 1 False show ?thesis by simp
  qed
qed

lemma nat_digits_first: "\<exists>c cs. nat_digits n = c # cs \<and> c \<noteq> CHR 0x2D"
proof (induction n rule: nat_digits.induct)
  case (1 n)
  have "char_of (48 + n) \<noteq> CHR 0x2D" if "n < 10"
  proof
    assume "char_of (48 + n) = CHR 0x2D"
    then have "(of_char (char_of (48 + n) :: char) :: nat) = 45" by simp
    with that show False by simp
  qed
  with 1 show ?case
    by (subst (1) nat_digits.simps) (cases "n < 10", auto)
qed

lemma to_string_inject [simp]: "to_string i = to_string j \<longleftrightarrow> i = j"
proof
  assume eq: "to_string i = to_string j"
  have neg: "to_string k = CHR 0x2D # nat_digits (nat (- k))" if "k < 0" for k
    using that by (simp add: to_string_def)
  have nneg: "to_string k = nat_digits (nat k)" if "0 \<le> k" for k
    using that by (simp add: to_string_def)
  have sgn: "i < 0 \<longleftrightarrow> j < 0"
    using eq neg nneg nat_digits_first by (metis list.inject linorder_not_le)
  have "nat_digits (nat \<bar>i\<bar>) = nat_digits (nat \<bar>j\<bar>)"
    using eq sgn neg [of i] neg [of j] nneg [of i] nneg [of j] by (cases "i < 0") auto
  then have "nat \<bar>i\<bar> = nat \<bar>j\<bar>" by (metis digits_value_nat_digits)
  with sgn show "i = j" by linarith
qed simp

end
