(* ===== verification/Dram_Map.thy ===== *)
theory Dram_Map
  imports LLM_Prelude
begin

text \<open>
  The DRAM address mapping: \<^verbatim>\<open>src/dram/memory_config.h\<close>,
  \<^verbatim>\<open>src/dram/mmap_controller.cpp\<close> and \<^verbatim>\<open>src/dram/memory_object.cpp\<close>.
  A flat byte address is cut into bundles of \<open>granul\<close> bytes and a bundle number is decoded,
  digit by digit, into cube, channel, rank, bank group, bank, column and row. The locale
  \<open>bundle_decoder\<close> states what the PIM kernels rely on; it is interpreted on the GPU mapping
  and on the LOGIC mapping of the controller.
\<close>

section \<open>Geometry\<close>

record memory_config =
  num_cube :: int
  num_logic_cube :: int
  num_channel :: int
  num_rank :: int
  num_bankgroup :: int
  num_bank :: int
  num_row :: int
  num_col :: int
  granul :: int

definition hbm3_80GB :: memory_config where
  "hbm3_80GB = \<lparr>num_cube = 5, num_logic_cube = 5, num_channel = 32, num_rank = 2,
     num_bankgroup = 4, num_bank = 4, num_row = 16384, num_col = 32, granul = 32\<rparr>"

definition hbm3e_192GB :: memory_config where
  "hbm3e_192GB = \<lparr>num_cube = 8, num_logic_cube = 8, num_channel = 32, num_rank = 3,
     num_bankgroup = 4, num_bank = 4, num_row = 16384, num_col = 32, granul = 32\<rparr>"

text \<open>\<^verbatim>\<open>Device::Device\<close>: the configuration by GPU generation, cubes from the system config.\<close>

definition wf_mc :: "memory_config \<Rightarrow> bool" where
  "wf_mc mc \<longleftrightarrow> 0 < num_cube mc \<and> 0 < num_logic_cube mc \<and> 0 < num_channel mc \<and> 0 < num_rank mc \<and>
     0 < num_bankgroup mc \<and> 0 < num_bank mc \<and> 0 < num_row mc \<and> 0 < num_col mc \<and> 0 < granul mc \<and>
     num_row mc < 2147483648"

lemma wf_presets [simp]: "wf_mc hbm3_80GB" "wf_mc hbm3e_192GB"
  by (simp_all add: wf_mc_def hbm3_80GB_def hbm3e_192GB_def)

text \<open>Bytes addressable through the GPU mapping.\<close>

definition capacity :: "memory_config \<Rightarrow> int" where
  "capacity mc = granul mc * (num_cube mc * (num_channel mc * (num_rank mc *
     (num_bankgroup mc * (num_bank mc * (num_col mc * num_row mc))))))"

text \<open>Bytes addressable through the LOGIC mapping, which has two half-banks per bank digit pair.\<close>

definition capacity_logic :: "memory_config \<Rightarrow> int" where
  "capacity_logic mc = granul mc * (num_logic_cube mc * (num_channel mc * (num_bankgroup mc *
     (2 * (num_col mc * (num_row mc * (2 * num_rank mc)))))))"

lemma capacity_presets:
  "capacity hbm3_80GB = 80 * 1024 ^ 3" "capacity hbm3e_192GB = 192 * 1024 ^ 3"
  by (simp_all add: capacity_def hbm3_80GB_def hbm3e_192GB_def)

section \<open>Address vectors\<close>

record addr_vec =
  av_cube :: int
  av_channel :: int
  av_rank :: int
  av_bankgroup :: int
  av_bank :: int
  av_row :: int
  av_col :: int

definition addrToVec :: "memory_config \<Rightarrow> int \<Rightarrow> addr_vec res" where
  "addrToVec mc address =
    rbind (assertTrue (address \<ge> 0) ''Address is not valid'') (\<lambda>_.
    let address = cdiv address (granul mc);
        cube_idx = cmod address (num_cube mc);
        address = cdiv address (num_cube mc);
        channel_idx = cmod address (num_channel mc);
        address = cdiv address (num_channel mc);
        rank_idx = cmod address (num_rank mc);
        address = cdiv address (num_rank mc);
        bg_idx = cmod address (num_bankgroup mc);
        address = cdiv address (num_bankgroup mc);
        bank_idx = cmod address (num_bank mc);
        address = cdiv address (num_bank mc);
        col_idx = cmod address (num_col mc);
        address = cdiv address (num_col mc);
        row_idx = to_int32 address
    in rbind (assertTrue (row_idx < num_row mc) ''Unvalid memory hasing'') (\<lambda>_.
       Inr \<lparr>av_cube = cube_idx, av_channel = channel_idx, av_rank = rank_idx,
            av_bankgroup = bg_idx, av_bank = bank_idx, av_row = row_idx, av_col = col_idx\<rparr>))"

definition addrToVecLOGIC :: "memory_config \<Rightarrow> int \<Rightarrow> addr_vec res" where
  "addrToVecLOGIC mc address =
    (let address = cdiv address (granul mc);
         cube_idx = cmod address (num_logic_cube mc);
         address = cdiv address (num_logic_cube mc);
         channel_idx = cmod address (num_channel mc);
         address = cdiv address (num_channel mc);
         bg_idx = cmod address (num_bankgroup mc);
         address = cdiv address (num_bankgroup mc);
         bank_under_idx = cmod address 2;
         address = cdiv address 2;
         col_idx = cmod address (num_col mc);
         address = cdiv address (num_col mc);
         row_idx = cmod address (num_row mc);
         address = cdiv address (num_row mc);
         bank_upper_idx = cmod address 2;
         address = cdiv address 2;
         rank_idx = cmod address (num_rank mc);
         bank_idx = bank_upper_idx * 2 + bank_under_idx
     in rbind (assertTrue (rank_idx < num_rank mc) ''Unvalid memory hasing'') (\<lambda>_.
        Inr \<lparr>av_cube = cube_idx, av_channel = channel_idx, av_rank = rank_idx,
             av_bankgroup = bg_idx, av_bank = bank_idx, av_row = row_idx, av_col = col_idx\<rparr>))"

definition vecToAddrLOGIC :: "memory_config \<Rightarrow> addr_vec \<Rightarrow> int" where
  "vecToAddrLOGIC mc v =
    (let bank_upper_idx = cdiv (av_bank v) 2;
         bank_under_idx = cmod (av_bank v) 2;
         address = 0 + av_rank v;
         address = address * 2 + bank_upper_idx;
         address = address * num_row mc + av_row v;
         address = address * num_col mc + av_col v;
         address = address * 2 + bank_under_idx;
         address = address * num_bankgroup mc + av_bankgroup v;
         address = address * num_channel mc + av_channel v;
         address = address * num_cube mc + av_cube v
     in address * granul mc)"

text \<open>
  The vector handed to Ramulator: \<^verbatim>\<open>{channel / 2, channel % 2, rank, bankgroup, bank, row, col}\<close>
  with the channels of all cubes numbered consecutively.
\<close>

definition ramul_vec :: "memory_config \<Rightarrow> addr_vec \<Rightarrow> int list" where
  "ramul_vec mc v =
    (let channel = num_channel mc * av_cube v + av_channel v
     in [cdiv channel 2, cmod channel 2, av_rank v, av_bankgroup v, av_bank v, av_row v, av_col v])"

definition getAddrVec :: "memory_config \<Rightarrow> int \<Rightarrow> int \<Rightarrow> int list res" where
  "getAddrVec mc address bundle_idx =
    rbind (addrToVec mc (address + bundle_idx * granul mc)) (\<lambda>v. Inr (ramul_vec mc v))"

definition getAddrVecLOGIC :: "memory_config \<Rightarrow> int \<Rightarrow> int \<Rightarrow> int list res" where
  "getAddrVecLOGIC mc address bundle_idx =
    rbind (addrToVecLOGIC mc (address + bundle_idx * granul mc)) (\<lambda>v. Inr (ramul_vec mc v))"

section \<open>What a decoder promises\<close>

text \<open>The components of a vector lie in the geometry.\<close>

definition in_geometry :: "memory_config \<Rightarrow> int \<Rightarrow> int \<Rightarrow> addr_vec \<Rightarrow> bool" where
  "in_geometry mc ncube nbank v \<longleftrightarrow>
     0 \<le> av_cube v \<and> av_cube v < ncube \<and> 0 \<le> av_channel v \<and> av_channel v < num_channel mc \<and>
     0 \<le> av_rank v \<and> av_rank v < num_rank mc \<and> 0 \<le> av_bankgroup v \<and> av_bankgroup v < num_bankgroup mc \<and>
     0 \<le> av_bank v \<and> av_bank v < nbank \<and> 0 \<le> av_row v \<and> av_row v < num_row mc \<and>
     0 \<le> av_col v \<and> av_col v < num_col mc"

definition geom_gpu :: "memory_config \<Rightarrow> addr_vec \<Rightarrow> bool" where
  "geom_gpu mc = in_geometry mc (num_cube mc) (num_bank mc)"

definition geom_logic :: "memory_config \<Rightarrow> addr_vec \<Rightarrow> bool" where
  "geom_logic mc = in_geometry mc (num_logic_cube mc) 4"

locale bundle_decoder =
  fixes dec :: "memory_config \<Rightarrow> int \<Rightarrow> addr_vec res"
    and cap :: "memory_config \<Rightarrow> int"
    and geom :: "memory_config \<Rightarrow> addr_vec \<Rightarrow> bool"
  assumes dec_ok: "wf_mc mc \<Longrightarrow> 0 \<le> a \<Longrightarrow> a < cap mc \<Longrightarrow> \<exists>v. dec mc a = Inr v \<and> geom mc v"
    and dec_inj: "wf_mc mc \<Longrightarrow> 0 \<le> a \<Longrightarrow> a < cap mc \<Longrightarrow> 0 \<le> b \<Longrightarrow> b < cap mc \<Longrightarrow>
       dec mc a = dec mc b \<Longrightarrow> a div granul mc = b div granul mc"
    and geom_bounds: "wf_mc mc \<Longrightarrow> geom mc v \<Longrightarrow>
       0 \<le> av_cube v \<and> 0 \<le> av_channel v \<and> av_channel v < num_channel mc"
begin

text \<open>The Ramulator vector of a bundle.\<close>

definition bundle_vec :: "memory_config \<Rightarrow> int \<Rightarrow> int \<Rightarrow> int list res" where
  "bundle_vec mc address i = rbind (dec mc (address + i * granul mc)) (\<lambda>v. Inr (ramul_vec mc v))"

lemma ramul_vec_inj:
  assumes "wf_mc mc" "geom mc v" "geom mc w" "ramul_vec mc v = ramul_vec mc w"
  shows "v = w"
proof -
  let ?c = "num_channel mc"
  note b = geom_bounds [OF assms(1,2)] geom_bounds [OF assms(1,3)]
  define x y where "x = ?c * av_cube v + av_channel v" and "y = ?c * av_cube w + av_channel w"
  have pos: "0 < ?c" using assms(1) by (simp add: wf_mc_def)
  have "0 \<le> x" "0 \<le> y" using b pos by (simp_all add: x_def y_def)
  moreover have "cdiv x 2 = cdiv y 2" "cmod x 2 = cmod y 2"
    and rest: "av_rank v = av_rank w" "av_bankgroup v = av_bankgroup w" "av_bank v = av_bank w"
      "av_row v = av_row w" "av_col v = av_col w"
    using assms(4) by (simp_all add: ramul_vec_def x_def y_def Let_def)
  ultimately have "x = y" by simp presburger
  moreover have "x div ?c = av_cube v" "x mod ?c = av_channel v" "y div ?c = av_cube w" "y mod ?c = av_channel w"
    using b pos by (simp_all add: x_def y_def)
  ultimately show ?thesis using rest by simp
qed

text \<open>All bundles of an object inside the capacity decode, and to pairwise different vectors.\<close>

lemma bundle_vec_ok:
  assumes "wf_mc mc" "0 \<le> address" "0 \<le> i" "address + i * granul mc < cap mc"
  obtains v where "bundle_vec mc address i = Inr (ramul_vec mc v)" "geom mc v"
proof -
  have "0 \<le> address + i * granul mc" using assms by (simp add: wf_mc_def)
  from dec_ok [OF assms(1) this assms(4)] that show thesis by (auto simp: bundle_vec_def)
qed

lemma bundle_vec_inj:
  assumes "wf_mc mc" "0 \<le> address" "0 \<le> i" "0 \<le> j"
    "address + i * granul mc < cap mc" "address + j * granul mc < cap mc"
    "bundle_vec mc address i = bundle_vec mc address j"
  shows "i = j"
proof -
  have g: "0 < granul mc" using assms(1) by (simp add: wf_mc_def)
  let ?a = "address + i * granul mc" and ?b = "address + j * granul mc"
  have nn: "0 \<le> ?a" "0 \<le> ?b" using assms g by simp_all
  obtain v w where v: "dec mc ?a = Inr v" "geom mc v" and w: "dec mc ?b = Inr w" "geom mc w"
    using dec_ok [OF assms(1) nn(1) assms(5)] dec_ok [OF assms(1) nn(2) assms(6)] by blast
  then have "ramul_vec mc v = ramul_vec mc w" using assms(7) by (simp add: bundle_vec_def)
  then have "v = w" using ramul_vec_inj assms(1) v w by blast
  then have "?a div granul mc = ?b div granul mc"
    using dec_inj [OF assms(1) nn(1) assms(5) nn(2) assms(6)] v w by simp
  then show ?thesis using g by simp
qed

end

section \<open>The two mappings keep the promise\<close>

lemma div_in_range: "0 \<le> a \<Longrightarrow> a < m * n \<Longrightarrow> 0 < m \<Longrightarrow> 0 \<le> a div m \<and> a div m < (n::int)"
proof -
  assume a: "0 \<le> a" "a < m * n" and m: "0 < m"
  have "m * (a div m) \<le> a" using m by (simp add: minus_mod_eq_mult_div [symmetric])
  then have "m * (a div m) < m * n" using a by linarith
  then show ?thesis using a m by (simp add: pos_imp_zdiv_nonneg_iff)
qed

text \<open>Digit-wise encoding, the abstract inverse of the GPU mapping.\<close>

definition bundle_of :: "memory_config \<Rightarrow> addr_vec \<Rightarrow> int" where
  "bundle_of mc v = av_cube v + num_cube mc * (av_channel v + num_channel mc * (av_rank v +
     num_rank mc * (av_bankgroup v + num_bankgroup mc * (av_bank v + num_bank mc * (av_col v +
     num_col mc * av_row v)))))"

lemma addrToVec_spec:
  assumes wf: "wf_mc mc" and a: "0 \<le> a" "a < capacity mc"
  shows "\<exists>v. addrToVec mc a = Inr v \<and> geom_gpu mc v \<and> bundle_of mc v = a div granul mc"
proof -
  define a1 where "a1 = a div granul mc"
  define a2 where "a2 = a1 div num_cube mc"
  define a3 where "a3 = a2 div num_channel mc"
  define a4 where "a4 = a3 div num_rank mc"
  define a5 where "a5 = a4 div num_bankgroup mc"
  define a6 where "a6 = a5 div num_bank mc"
  define a7 where "a7 = a6 div num_col mc"
  note p = wf [unfolded wf_mc_def]
  have r1: "0 \<le> a1 \<and> a1 < num_cube mc * (num_channel mc * (num_rank mc *
      (num_bankgroup mc * (num_bank mc * (num_col mc * num_row mc)))))"
    unfolding a1_def by (rule div_in_range) (use a p in \<open>auto simp: capacity_def\<close>)
  then have r2: "0 \<le> a2 \<and> a2 < num_channel mc * (num_rank mc *
      (num_bankgroup mc * (num_bank mc * (num_col mc * num_row mc))))"
    unfolding a2_def by (intro div_in_range) (use p in auto)
  then have r3: "0 \<le> a3 \<and> a3 < num_rank mc * (num_bankgroup mc * (num_bank mc * (num_col mc * num_row mc)))"
    unfolding a3_def by (intro div_in_range) (use p in auto)
  then have r4: "0 \<le> a4 \<and> a4 < num_bankgroup mc * (num_bank mc * (num_col mc * num_row mc))"
    unfolding a4_def by (intro div_in_range) (use p in auto)
  then have r5: "0 \<le> a5 \<and> a5 < num_bank mc * (num_col mc * num_row mc)"
    unfolding a5_def by (intro div_in_range) (use p in auto)
  then have r6: "0 \<le> a6 \<and> a6 < num_col mc * num_row mc"
    unfolding a6_def by (intro div_in_range) (use p in auto)
  then have r7: "0 \<le> a7 \<and> a7 < num_row mc"
    unfolding a7_def by (intro div_in_range) (use p in auto)
  have dec: "addrToVec mc a = Inr \<lparr>av_cube = a1 mod num_cube mc, av_channel = a2 mod num_channel mc,
      av_rank = a3 mod num_rank mc, av_bankgroup = a4 mod num_bankgroup mc,
      av_bank = a5 mod num_bank mc, av_row = a7, av_col = a6 mod num_col mc\<rparr>" (is "_ = Inr ?v")
    using a(1) p r1 r2 r3 r4 r5 r6 r7
    by (simp add: addrToVec_def Let_def flip: a1_def a2_def a3_def a4_def a5_def a6_def a7_def)
  have "geom_gpu mc ?v"
    using p r7 by (simp add: geom_gpu_def in_geometry_def)
  moreover have "bundle_of mc ?v = a1"
    by (simp add: bundle_of_def a2_def a3_def a4_def a5_def a6_def a7_def)
  ultimately show ?thesis using dec by (auto simp: a1_def)
qed

interpretation gpu_map: bundle_decoder addrToVec capacity geom_gpu
proof unfold_locales
  fix mc a
  assume "wf_mc mc" "0 \<le> a" "a < capacity mc"
  then show "\<exists>v. addrToVec mc a = Inr v \<and> geom_gpu mc v"
    using addrToVec_spec by blast
next
  fix mc a b
  assume "wf_mc mc" "0 \<le> a" "a < capacity mc" "0 \<le> b" "b < capacity mc"
    and eq: "addrToVec mc a = addrToVec mc b"
  then obtain v w where "addrToVec mc a = Inr v" "bundle_of mc v = a div granul mc"
    "addrToVec mc b = Inr w" "bundle_of mc w = b div granul mc"
    using addrToVec_spec [of mc a] addrToVec_spec [of mc b] by blast
  with eq show "a div granul mc = b div granul mc" by simp
qed (auto simp: geom_gpu_def in_geometry_def)

text \<open>Digit-wise encoding for the LOGIC mapping.\<close>

definition bundle_of_logic :: "memory_config \<Rightarrow> addr_vec \<Rightarrow> int" where
  "bundle_of_logic mc v = av_cube v + num_logic_cube mc * (av_channel v + num_channel mc * (av_bankgroup v +
     num_bankgroup mc * (av_bank v mod 2 + 2 * (av_col v + num_col mc * (av_row v +
     num_row mc * (av_bank v div 2 + 2 * av_rank v))))))"

lemma addrToVecLOGIC_spec:
  assumes wf: "wf_mc mc" and a: "0 \<le> a" "a < capacity_logic mc"
  shows "\<exists>v. addrToVecLOGIC mc a = Inr v \<and> geom_logic mc v \<and> bundle_of_logic mc v = a div granul mc"
proof -
  define a1 where "a1 = a div granul mc"
  define a2 where "a2 = a1 div num_logic_cube mc"
  define a3 where "a3 = a2 div num_channel mc"
  define a4 where "a4 = a3 div num_bankgroup mc"
  define a5 where "a5 = a4 div 2"
  define a6 where "a6 = a5 div num_col mc"
  define a7 where "a7 = a6 div num_row mc"
  define a8 where "a8 = a7 div 2"
  note p = wf [unfolded wf_mc_def]
  have r1: "0 \<le> a1 \<and> a1 < num_logic_cube mc * (num_channel mc * (num_bankgroup mc *
      (2 * (num_col mc * (num_row mc * (2 * num_rank mc))))))"
    unfolding a1_def by (rule div_in_range) (use a p in \<open>auto simp: capacity_logic_def\<close>)
  then have r2: "0 \<le> a2 \<and> a2 < num_channel mc * (num_bankgroup mc *
      (2 * (num_col mc * (num_row mc * (2 * num_rank mc)))))"
    unfolding a2_def by (intro div_in_range) (use p in auto)
  then have r3: "0 \<le> a3 \<and> a3 < num_bankgroup mc * (2 * (num_col mc * (num_row mc * (2 * num_rank mc))))"
    unfolding a3_def by (intro div_in_range) (use p in auto)
  then have r4: "0 \<le> a4 \<and> a4 < 2 * (num_col mc * (num_row mc * (2 * num_rank mc)))"
    unfolding a4_def by (intro div_in_range) (use p in auto)
  then have r5: "0 \<le> a5 \<and> a5 < num_col mc * (num_row mc * (2 * num_rank mc))"
    unfolding a5_def by (intro div_in_range) (use p in auto)
  then have r6: "0 \<le> a6 \<and> a6 < num_row mc * (2 * num_rank mc)"
    unfolding a6_def by (intro div_in_range) (use p in auto)
  then have r7: "0 \<le> a7 \<and> a7 < 2 * num_rank mc"
    unfolding a7_def by (intro div_in_range) (use p in auto)
  then have r8: "0 \<le> a8 \<and> a8 < num_rank mc"
    unfolding a8_def by (intro div_in_range) (use p in auto)
  have dec: "addrToVecLOGIC mc a = Inr \<lparr>av_cube = a1 mod num_logic_cube mc, av_channel = a2 mod num_channel mc,
      av_rank = a8, av_bankgroup = a3 mod num_bankgroup mc,
      av_bank = a7 mod 2 * 2 + a4 mod 2, av_row = a6 mod num_row mc, av_col = a5 mod num_col mc\<rparr>" (is "_ = Inr ?v")
    using a(1) p r1 r2 r3 r4 r5 r6 r7 r8
    by (simp add: addrToVecLOGIC_def Let_def flip: a1_def a2_def a3_def a4_def a5_def a6_def a7_def a8_def)
  have bank: "0 \<le> a7 mod 2 * 2 + a4 mod 2" "a7 mod 2 * 2 + a4 mod 2 < 4"
    "(a7 mod 2 * 2 + a4 mod 2) div 2 = a7 mod 2" "(a7 mod 2 * 2 + a4 mod 2) mod 2 = a4 mod 2"
    by presburger+
  have "geom_logic mc ?v"
    using p r8 bank(1,2) by (simp add: geom_logic_def in_geometry_def)
  moreover have "bundle_of_logic mc ?v = a1"
  proof -
    have "a7 mod 2 + 2 * a8 = a7" "a6 mod num_row mc + num_row mc * a7 = a6"
      "a5 mod num_col mc + num_col mc * a6 = a5" "a4 mod 2 + 2 * a5 = a4"
      "a3 mod num_bankgroup mc + num_bankgroup mc * a4 = a3"
      "a2 mod num_channel mc + num_channel mc * a3 = a2"
      "a1 mod num_logic_cube mc + num_logic_cube mc * a2 = a1"
      by (simp_all add: a2_def a3_def a4_def a5_def a6_def a7_def a8_def)
    then show ?thesis by (simp add: bundle_of_logic_def bank(3,4))
  qed
  ultimately show ?thesis using dec by (auto simp: a1_def)
qed

interpretation logic_map: bundle_decoder addrToVecLOGIC capacity_logic geom_logic
proof unfold_locales
  fix mc a
  assume "wf_mc mc" "0 \<le> a" "a < capacity_logic mc"
  then show "\<exists>v. addrToVecLOGIC mc a = Inr v \<and> geom_logic mc v"
    using addrToVecLOGIC_spec by blast
next
  fix mc a b
  assume "wf_mc mc" "0 \<le> a" "a < capacity_logic mc" "0 \<le> b" "b < capacity_logic mc"
    and eq: "addrToVecLOGIC mc a = addrToVecLOGIC mc b"
  then obtain v w where "addrToVecLOGIC mc a = Inr v" "bundle_of_logic mc v = a div granul mc"
    "addrToVecLOGIC mc b = Inr w" "bundle_of_logic mc w = b div granul mc"
    using addrToVecLOGIC_spec [of mc a] addrToVecLOGIC_spec [of mc b] by blast
  with eq show "a div granul mc = b div granul mc" by simp
qed (auto simp: geom_logic_def in_geometry_def)

lemma getAddrVec_bundle: "getAddrVec = gpu_map.bundle_vec"
  by (intro ext) (simp add: getAddrVec_def gpu_map.bundle_vec_def)

lemma getAddrVecLOGIC_bundle: "getAddrVecLOGIC = logic_map.bundle_vec"
  by (intro ext) (simp add: getAddrVecLOGIC_def logic_map.bundle_vec_def)

lemma vecToAddrLOGIC_bundle:
  assumes "num_cube mc = num_logic_cube mc" "0 \<le> av_bank v"
  shows "vecToAddrLOGIC mc v = bundle_of_logic mc v * granul mc"
proof -
  have "cdiv (av_bank v) 2 = av_bank v div 2" "cmod (av_bank v) 2 = av_bank v mod 2"
    using assms by simp_all
  then show ?thesis
    using assms(1) by (simp add: vecToAddrLOGIC_def bundle_of_logic_def Let_def algebra_simps)
qed

section \<open>Properties of the address mapping\<close>

text \<open>
  C4: the GPU mapping is total on the memory it is configured for (80 GiB and 192 GiB for the
  presets), its vectors stay inside the geometry, and two addresses share a vector only when
  they lie in the same bundle.
\<close>

theorem addrToVec_total_injective:
  assumes "wf_mc mc" "0 \<le> a" "a < capacity mc" "0 \<le> b" "b < capacity mc"
  shows "\<exists>v w. addrToVec mc a = Inr v \<and> geom_gpu mc v \<and> addrToVec mc b = Inr w \<and>
    (v = w \<longleftrightarrow> a div granul mc = b div granul mc)"
proof -
  obtain v where v: "addrToVec mc a = Inr v" "geom_gpu mc v" "bundle_of mc v = a div granul mc"
    using addrToVec_spec [OF assms(1-3)] by blast
  obtain w where w: "addrToVec mc b = Inr w" "bundle_of mc w = b div granul mc"
    using addrToVec_spec [OF assms(1,4,5)] by blast
  have "v = w" if "a div granul mc = b div granul mc"
  proof -
    have "cdiv a (granul mc) = cdiv b (granul mc)"
      using that assms by (simp add: wf_mc_def)
    then have "addrToVec mc a = addrToVec mc b"
      using assms(2,4) by (simp add: addrToVec_def del: cdiv_nonneg cmod_nonneg)
    then show ?thesis using v(1) w(1) by simp
  qed
  moreover have "a div granul mc = b div granul mc" if "v = w"
    using that v(3) w(2) by simp
  ultimately show ?thesis using v(1,2) w(1) by blast
qed

theorem addrToVec_total_injective_witness:
  "\<exists>v w. addrToVec hbm3_80GB 64 = Inr v \<and> geom_gpu hbm3_80GB v \<and> addrToVec hbm3_80GB 4096 = Inr w \<and>
    (v = w \<longleftrightarrow> 64 div granul hbm3_80GB = 4096 div granul hbm3_80GB)"
  by (rule addrToVec_total_injective) (simp_all add: capacity_presets)

text \<open>
  C27: the LOGIC mapping and its inverse \<^verbatim>\<open>vecToAddrLOGIC\<close> round-trip to the start of the
  bundle whenever the device uses every cube for LOGIC (\<open>num_cube = num_logic_cube\<close>, the setting
  of all presets; the inverse multiplies by \<^verbatim>\<open>num_cube\<close> where the mapping divides by
  \<^verbatim>\<open>num_logic_cube\<close>).
\<close>

theorem logic_mapping_roundtrip:
  assumes "wf_mc mc" "num_cube mc = num_logic_cube mc" "0 \<le> a" "a < capacity_logic mc"
  shows "\<exists>v. addrToVecLOGIC mc a = Inr v \<and> vecToAddrLOGIC mc v = a - a mod granul mc"
proof -
  obtain v where v: "addrToVecLOGIC mc a = Inr v" "geom_logic mc v" "bundle_of_logic mc v = a div granul mc"
    using addrToVecLOGIC_spec assms by blast
  then have "vecToAddrLOGIC mc v = a div granul mc * granul mc"
    using vecToAddrLOGIC_bundle assms(2) by (simp add: geom_logic_def in_geometry_def)
  with v show ?thesis by (simp add: minus_mod_eq_div_mult)
qed

theorem logic_mapping_roundtrip_witness:
  "\<exists>v. addrToVecLOGIC hbm3e_192GB 123456 = Inr v \<and>
     vecToAddrLOGIC hbm3e_192GB v = 123456 - 123456 mod granul hbm3e_192GB"
  by (rule logic_mapping_roundtrip) (simp_all add: capacity_logic_def hbm3e_192GB_def wf_mc_def)

text \<open>
  the round trip is lost as soon as the two cube counts differ: with one LOGIC cube out of
  five, the encoded address of byte 32 is not byte 32.
\<close>

theorem logic_mapping_cube_mismatch:
  "let mc = hbm3_80GB\<lparr>num_logic_cube := 1\<rparr>
   in \<exists>v. addrToVecLOGIC mc 32 = Inr v \<and> vecToAddrLOGIC mc v = 160"
  by (simp add: addrToVecLOGIC_def vecToAddrLOGIC_def hbm3_80GB_def Let_def)

text \<open>
  the row index is narrowed to 32 bits before it is checked against
  \<^verbatim>\<open>num_row\<close>, so the check does not reject every address outside the memory: an address
  \<open>2^32\<close> rows above the memory aliases address 0.
\<close>

theorem addrToVec_row_narrowing:
  "addrToVec hbm3_80GB (capacity hbm3_80GB * 262144) = addrToVec hbm3_80GB 0"
  by (simp add: addrToVec_def hbm3_80GB_def capacity_def Let_def to_int32_def)

end
