(* ===== verification/Sim_Config.thy ===== *)
theory Sim_Config
  imports LLM_Prelude
begin

text \<open>
  The configuration data of the simulator: the enumerations of \<^verbatim>\<open>src/hardware/base.h\<close>
  and \<^verbatim>\<open>src/dram/dram_type.h\<close>, \<^verbatim>\<open>SystemConfig\<close> with its GPU presets
  (\<^verbatim>\<open>src/hardware/hardware_config.h\<close>), \<^verbatim>\<open>NearbankPIMConfig\<close>
  (\<^verbatim>\<open>src/dram/nearbank/nearbank_config.h\<close>), \<^verbatim>\<open>ModelConfig\<close> with its model
  presets (\<^verbatim>\<open>src/model/model_config.h\<close>) and \<^verbatim>\<open>set_device_list\<close>
  (\<^verbatim>\<open>src/model/util.h\<close>).
\<close>

section \<open>Enumerations\<close>

datatype ProcessorType = PT_NONE | PIM | LOGIC | GPU | PT_MAX

fun ptype_int :: "ProcessorType \<Rightarrow> int" where
  "ptype_int PT_NONE = 0"
| "ptype_int PIM = 1"
| "ptype_int LOGIC = 2"
| "ptype_int GPU = 3"
| "ptype_int PT_MAX = 4"

datatype LayerType = LINEAR | BATCHED_LINEAR | ACTIVATION | ATTENTION_GEN | ATTENTION_SUM
  | ATTENTION_MIXED | MLA_GEN | MLA_SUM | MLA_MIXED | ABSORBED_MLA_GEN | ABSORBED_MLA_SUM | LT_MAX

datatype MMap = ALL_CHANNEL | CUBE_CHANNEL | CHANNEL

datatype DRAMRequestType = kRead | kWrite | kMove | kMult | kAdd | kMAD | kPMult | kCMult | kCAdd
  | kCMAD | kTensor | kTensor_Square | kModup_Evkmult | kModDownEpilogue | kPMult_Accum
  | kCMult_Accum | kGEMV | kReqMAX

datatype PIMCommandType = pAdd | pSub | pMult | pMAC | pDRAM2RF | pRF2DRAM | pRead | pWrite | pMAX

datatype DRAMCommandType = cACT | cPRE | cPREA | cALL_PRE | cREAD | cWRITE | cALL_ACT | cALL_READ
  | cALL_WRITE | cREF | cMAX

datatype PIMOperandType = oRF | oDRAM | oSrc | oPrecomputed | oDest | oModUp | oEvk | oMAX

fun pimcmd_int :: "PIMCommandType \<Rightarrow> nat" where
  "pimcmd_int pAdd = 0" | "pimcmd_int pSub = 1" | "pimcmd_int pMult = 2" | "pimcmd_int pMAC = 3"
| "pimcmd_int pDRAM2RF = 4" | "pimcmd_int pRF2DRAM = 5" | "pimcmd_int pRead = 6"
| "pimcmd_int pWrite = 7" | "pimcmd_int pMAX = 8"

lemma pimcmd_int_eq_iff [simp]: "pimcmd_int a = pimcmd_int b \<longleftrightarrow> a = b"
  by (cases a; cases b) simp_all

lemma pimcmd_int_less: "a \<noteq> pMAX \<Longrightarrow> pimcmd_int a < pimcmd_int pMAX"
  by (cases a) simp_all

section \<open>Layer and near-bank PIM configuration\<close>

record layer_info =
  li_processor_type :: "ProcessorType list"
  li_attention_group_size :: int
  li_num_heads :: int
  li_num_kv_heads :: int
  li_head_dim :: int
  li_qk_rope_head_dim :: int
  li_kv_lora_rank :: int
  li_parallel_num :: int
  li_decoder_idx :: int
  li_parallel_execution :: bool
  li_duplicated_input :: bool
  li_use_flash_mla :: bool
  li_use_flash_attention :: bool

text \<open>\<^verbatim>\<open>LayerInfo info;\<close> takes the default member initialisers.\<close>

definition LayerInfo_default :: layer_info where
  "LayerInfo_default = \<lparr>li_processor_type = [], li_attention_group_size = 8, li_num_heads = 64,
     li_num_kv_heads = 8, li_head_dim = 1, li_qk_rope_head_dim = 0, li_kv_lora_rank = 0,
     li_parallel_num = 0, li_decoder_idx = 0, li_parallel_execution = False,
     li_duplicated_input = False, li_use_flash_mla = True, li_use_flash_attention = True\<rparr>"

record nearbank_config =
  num_pim_banks :: int
  num_pim_cubes :: int
  channels_per_cube :: int
  rowbuffer_size_bytes :: real
  pe_width_bytes :: real
  pe_cycle_time_ns :: real
  pe_lowbit_width_bytes :: real
  pe_lowbit_cycle_time_ns :: real
  dram_to_rb_bw_per_bank :: real
  enable_nearbank_model :: bool
  enable_softmax_in_pim :: bool
  enable_context_in_pim :: bool
  enable_scoring_in_pim :: bool
  enable_asymmetric_quant :: bool
  zero_point_q :: real
  zero_point_k :: real
  enable_pim_dequant :: bool
  kv_cache_bits :: int

definition NearbankPIMConfig_default :: nearbank_config where
  "NearbankPIMConfig_default = \<lparr>num_pim_banks = 2048, num_pim_cubes = 8, channels_per_cube = 32,
     rowbuffer_size_bytes = 2048, pe_width_bytes = 16, pe_cycle_time_ns = 1 / 2,
     pe_lowbit_width_bytes = 32, pe_lowbit_cycle_time_ns = 1 / 2,
     dram_to_rb_bw_per_bank = 32 * 10 ^ 9, enable_nearbank_model = True,
     enable_softmax_in_pim = False, enable_context_in_pim = True, enable_scoring_in_pim = True,
     enable_asymmetric_quant = False, zero_point_q = 0, zero_point_k = 0,
     enable_pim_dequant = False, kv_cache_bits = 2\<rparr>"

definition getPEThroughput :: "nearbank_config \<Rightarrow> real" where
  "getPEThroughput c = fdiv (pe_width_bytes c) (pe_cycle_time_ns c) * 10 ^ 9"

definition getTotalBanks :: "nearbank_config \<Rightarrow> int" where
  "getTotalBanks c = num_pim_banks c"

section \<open>System configuration\<close>

record system_config =
  gpu_gen :: string
  num_node :: int
  num_device :: int
  node_ict_latency :: real
  node_ict_bandwidth :: real
  device_ict_latency :: real
  device_ict_bandwidth :: real
  compute_peak_flops :: real
  memory_bandwidth :: real
  memory_capacity :: real
  logic_x :: int
  logic_memory_bandwidth :: real
  logic_op_b :: real
  pim_x :: int
  pim_memory_bandwidth :: real
  pim_op_b :: real
  processor_type :: "ProcessorType list"
  parallel_execution :: bool
  hetero_subbatch :: bool
  high_processor_type :: ProcessorType
  low_processor_type :: ProcessorType
  communication_hiding :: bool
  disagg_system :: bool
  use_low_unit_moe_only :: bool
  use_ramulator :: bool
  exit_out_of_memory :: bool
  mem_cap_limit :: bool
  use_flash_mla :: bool
  use_flash_attention :: bool
  reuse_kv_cache :: bool
  kv_cache_reuse_rate :: real
  prefill_mode :: bool
  decode_mode :: bool
  use_inject_rate :: bool
  request_per_second :: int
  sc_num_cube :: int
  sc_num_logic_cube :: int
  nearbank_pim_config :: nearbank_config

text \<open>
  The constructor's part that computes: the LOGIC and PIM bandwidths are multiples of the memory
  bandwidth.
\<close>

definition SystemConfig_ctor :: "system_config \<Rightarrow> system_config" where
  "SystemConfig_ctor c = c\<lparr>logic_memory_bandwidth := memory_bandwidth c * of_int (logic_x c),
     pim_memory_bandwidth := memory_bandwidth c * of_int (pim_x c)\<rparr>"

definition A100 :: system_config where
  "A100 = SystemConfig_ctor \<lparr>gpu_gen = ''A100'', num_node = 1, num_device = 2,
     node_ict_latency = 130, node_ict_bandwidth = 50 * 10 ^ 9,
     device_ict_latency = 3 * 1000, device_ict_bandwidth = 150 * 10 ^ 9,
     compute_peak_flops = 312 * 10 ^ 12, memory_bandwidth = 2039 * 10 ^ 9,
     memory_capacity = 80 * 1024 ^ 3, logic_x = 4, logic_memory_bandwidth = 0, logic_op_b = 8,
     pim_x = 16, pim_memory_bandwidth = 0, pim_op_b = 1, processor_type = [],
     parallel_execution = False, hetero_subbatch = False, high_processor_type = GPU,
     low_processor_type = LOGIC, communication_hiding = False, disagg_system = False,
     use_low_unit_moe_only = False, use_ramulator = False, exit_out_of_memory = True,
     mem_cap_limit = False, use_flash_mla = True, use_flash_attention = True,
     reuse_kv_cache = False, kv_cache_reuse_rate = 0, prefill_mode = False, decode_mode = False,
     use_inject_rate = False, request_per_second = 10, sc_num_cube = 5, sc_num_logic_cube = 5,
     nearbank_pim_config = NearbankPIMConfig_default\<rparr>"

definition H100 :: system_config where
  "H100 = SystemConfig_ctor \<lparr>gpu_gen = ''H100'', num_node = 1, num_device = 2,
     node_ict_latency = 130, node_ict_bandwidth = 50 * 10 ^ 9,
     device_ict_latency = 8 / 10 * 1000, device_ict_bandwidth = 450 * 10 ^ 9,
     compute_peak_flops = 9894 * 10 ^ 11, memory_bandwidth = 3352 * 10 ^ 9,
     memory_capacity = 80 * 1024 ^ 3, logic_x = 4, logic_memory_bandwidth = 0, logic_op_b = 8,
     pim_x = 16, pim_memory_bandwidth = 0, pim_op_b = 1, processor_type = [],
     parallel_execution = False, hetero_subbatch = False, high_processor_type = GPU,
     low_processor_type = LOGIC, communication_hiding = False, disagg_system = False,
     use_low_unit_moe_only = False, use_ramulator = False, exit_out_of_memory = True,
     mem_cap_limit = False, use_flash_mla = True, use_flash_attention = True,
     reuse_kv_cache = False, kv_cache_reuse_rate = 0, prefill_mode = False, decode_mode = False,
     use_inject_rate = False, request_per_second = 10, sc_num_cube = 5, sc_num_logic_cube = 5,
     nearbank_pim_config = NearbankPIMConfig_default\<rparr>"

definition B100 :: system_config where
  "B100 = SystemConfig_ctor \<lparr>gpu_gen = ''B100'', num_node = 1, num_device = 2,
     node_ict_latency = 130, node_ict_bandwidth = 50 * 10 ^ 9,
     device_ict_latency = 8 / 10 * 1000, device_ict_bandwidth = 900 * 10 ^ 9,
     compute_peak_flops = 1750 * 10 ^ 12, memory_bandwidth = 8 * 10 ^ 12,
     memory_capacity = 192 * 1024 ^ 3, logic_x = 4, logic_memory_bandwidth = 0, logic_op_b = 8,
     pim_x = 16, pim_memory_bandwidth = 0, pim_op_b = 1, processor_type = [],
     parallel_execution = False, hetero_subbatch = False, high_processor_type = GPU,
     low_processor_type = LOGIC, communication_hiding = False, disagg_system = False,
     use_low_unit_moe_only = False, use_ramulator = False, exit_out_of_memory = True,
     mem_cap_limit = False, use_flash_mla = True, use_flash_attention = True,
     reuse_kv_cache = False, kv_cache_reuse_rate = 0, prefill_mode = False, decode_mode = False,
     use_inject_rate = False, request_per_second = 10, sc_num_cube = 8, sc_num_logic_cube = 8,
     nearbank_pim_config = NearbankPIMConfig_default\<rparr>"

definition B200 :: system_config where
  "B200 = SystemConfig_ctor \<lparr>gpu_gen = ''B200'', num_node = 1, num_device = 2,
     node_ict_latency = 130, node_ict_bandwidth = 50 * 10 ^ 9,
     device_ict_latency = 8 / 10 * 1000, device_ict_bandwidth = 900 * 10 ^ 9,
     compute_peak_flops = 2250 * 10 ^ 12, memory_bandwidth = 8 * 10 ^ 12,
     memory_capacity = 192 * 1024 ^ 3, logic_x = 4, logic_memory_bandwidth = 0, logic_op_b = 8,
     pim_x = 16, pim_memory_bandwidth = 0, pim_op_b = 1, processor_type = [],
     parallel_execution = False, hetero_subbatch = False, high_processor_type = GPU,
     low_processor_type = LOGIC, communication_hiding = False, disagg_system = False,
     use_low_unit_moe_only = False, use_ramulator = False, exit_out_of_memory = True,
     mem_cap_limit = False, use_flash_mla = True, use_flash_attention = True,
     reuse_kv_cache = False, kv_cache_reuse_rate = 0, prefill_mode = False, decode_mode = False,
     use_inject_rate = False, request_per_second = 10, sc_num_cube = 8, sc_num_logic_cube = 8,
     nearbank_pim_config = NearbankPIMConfig_default\<rparr>"

text \<open>The hardware rates a duration is divided by are positive.\<close>

definition wf_system :: "system_config \<Rightarrow> bool" where
  "wf_system c \<longleftrightarrow> 0 < num_node c \<and> 0 < num_device c \<and> 0 < node_ict_bandwidth c \<and>
     0 < device_ict_bandwidth c \<and> 0 \<le> node_ict_latency c \<and> 0 \<le> device_ict_latency c \<and>
     0 < compute_peak_flops c \<and> 0 < memory_bandwidth c \<and> 0 < logic_memory_bandwidth c \<and>
     0 < logic_op_b c \<and> 0 < pim_memory_bandwidth c \<and> 0 < pim_op_b c \<and> 0 < logic_x c \<and> 0 < pim_x c"

lemma wf_system_presets [simp]: "wf_system A100" "wf_system H100" "wf_system B100" "wf_system B200"
  by (simp_all add: wf_system_def A100_def H100_def B100_def B200_def SystemConfig_ctor_def)

section \<open>Model configuration\<close>

record model_config =
  hidden_dim :: int
  head_dim :: int
  num_layers :: int
  num_heads :: int
  num_kv_heads :: int
  max_seq_len :: int
  intermediate_dim :: int
  expert_intermediate_dim :: int
  activation_factor :: int
  precision_byte :: int
  num_routed_expert :: int
  num_shared_expert :: int
  expert_freq :: int
  top_k :: int
  ffn_way :: int
  first_k_dense :: int
  q_lora_rank :: int
  kv_lora_rank :: int
  qk_nope_head_dim :: int
  qk_rope_head_dim :: int
  n_vocab :: int
  compressed_kv :: bool
  use_absorb :: bool
  skewness :: real
  model_name :: string
  ne_tp_dg :: int
  e_tp_dg :: int
  mc_input_len :: int
  mc_output_len :: int

text \<open>
  The constructor: the last four fields are set later by the driver and are zero in the presets,
  which have static storage.
\<close>

definition ModelConfig_ctor ::
  "int \<Rightarrow> int \<Rightarrow> int \<Rightarrow> int \<Rightarrow> int \<Rightarrow> int \<Rightarrow> int \<Rightarrow> int \<Rightarrow> int \<Rightarrow> int \<Rightarrow> int \<Rightarrow> int \<Rightarrow> int \<Rightarrow> int \<Rightarrow> int \<Rightarrow>
   int \<Rightarrow> int \<Rightarrow> int \<Rightarrow> int \<Rightarrow> int \<Rightarrow> int \<Rightarrow> bool \<Rightarrow> bool \<Rightarrow> real \<Rightarrow> string \<Rightarrow> model_config res" where
  "ModelConfig_ctor hid hdim nl nh nkv msl idim eid af pb nre nse ef tk fw fkd qlr klr qnope qrope nv ckv ua sk nm =
    rbind (if qlr = 0 then assertTrue (hid = hdim * nh) ''hidden_dim != head_dim * num_heads'' else Inr ())
    (\<lambda>_. Inr \<lparr>hidden_dim = hid, head_dim = hdim, num_layers = nl, num_heads = nh, num_kv_heads = nkv,
      max_seq_len = msl, intermediate_dim = idim, expert_intermediate_dim = eid, activation_factor = af,
      precision_byte = pb, num_routed_expert = nre, num_shared_expert = nse, expert_freq = ef,
      top_k = tk, ffn_way = fw, first_k_dense = fkd, q_lora_rank = qlr, kv_lora_rank = klr,
      qk_nope_head_dim = qnope, qk_rope_head_dim = qrope, n_vocab = nv, compressed_kv = ckv,
      use_absorb = ua, skewness = sk, model_name = nm, ne_tp_dg = 0, e_tp_dg = 0,
      mc_input_len = 0, mc_output_len = 0\<rparr>)"

definition mixtral :: "model_config res" where
  "mixtral = ModelConfig_ctor 4096 128 32 32 8 32768 14336 14336 1 2 8 0 1 2 3 0 0 0 0 0 32000 False False 0 ''mixtral''"

definition openMoE :: "model_config res" where
  "openMoE = ModelConfig_ctor 3072 128 32 24 24 2048 12288 12288 2 2 32 0 4 2 3 0 0 0 0 0 32000 False False 0 ''openMoE''"

definition llama7bMoE :: "model_config res" where
  "llama7bMoE = ModelConfig_ctor 4096 128 32 32 32 4096 11008 688 1 2 16 0 1 2 3 0 0 0 0 0 32000 False False 0 ''llama7bMoE''"

definition grok1 :: "model_config res" where
  "grok1 = ModelConfig_ctor 6144 128 64 48 8 8192 32768 32768 1 2 8 0 1 2 3 0 0 0 0 0 131072 False False 0 ''grok1''"

definition glam :: "model_config res" where
  "glam = ModelConfig_ctor 4096 128 32 32 32 8192 16384 16384 1 2 64 0 2 2 2 0 0 0 0 0 256000 False False 0 ''glam''"

definition deepseekV3 :: "model_config res" where
  "deepseekV3 = ModelConfig_ctor 7168 128 60 128 128 131072 18432 2048 1 1 256 1 1 8 3 3 1536 512 128 64 129280 True True 0 ''deepseekV3''"

definition llama3_405B :: "model_config res" where
  "llama3_405B = ModelConfig_ctor 16384 128 126 128 8 131072 53248 53248 1 1 0 0 0 0 3 0 0 0 0 0 128256 False False 0 ''llama3_405B''"

definition llama3_8B :: "model_config res" where
  "llama3_8B = ModelConfig_ctor 4096 128 32 32 8 32768 14336 14336 1 2 0 0 0 0 3 0 0 0 0 0 128256 False False 0 ''llama3_8B''"

definition llama4_scout :: "model_config res" where
  "llama4_scout = ModelConfig_ctor 5120 128 48 40 8 10485760 16384 8192 1 2 16 1 1 1 3 0 0 0 0 0 202048 False False 0 ''llama4_scout''"

definition llama4_maverick :: "model_config res" where
  "llama4_maverick = ModelConfig_ctor 5120 128 48 40 8 1048576 16384 8192 1 2 128 1 2 1 3 0 0 0 0 0 202048 False False 0 ''llama4_maverick''"

definition opt_6_7B :: "model_config res" where
  "opt_6_7B = ModelConfig_ctor 4096 128 32 32 32 2048 16384 16384 1 2 0 0 0 0 3 0 0 0 0 0 50272 False False 0 ''opt_6_7B''"

definition qwen3_8B :: "model_config res" where
  "qwen3_8B = ModelConfig_ctor 4096 128 36 32 8 131072 14336 14336 1 2 0 0 0 0 3 0 0 0 0 0 151936 False False 0 ''qwen3_8B''"

definition glm4_9B :: "model_config res" where
  "glm4_9B = ModelConfig_ctor 4096 128 40 32 4 131072 14336 14336 1 2 0 0 0 0 3 0 0 0 0 0 151552 False False 0 ''glm4_9B''"

definition model_presets :: "model_config res list" where
  "model_presets = [mixtral, openMoE, llama7bMoE, grok1, glam, deepseekV3, llama3_405B, llama3_8B,
     llama4_scout, llama4_maverick, opt_6_7B, qwen3_8B, glm4_9B]"

lemmas model_preset_defs = mixtral_def openMoE_def llama7bMoE_def grok1_def glam_def deepseekV3_def
  llama3_405B_def llama3_8B_def llama4_scout_def llama4_maverick_def opt_6_7B_def qwen3_8B_def glm4_9B_def

section \<open>Device lists\<close>

definition set_device_list :: "int \<Rightarrow> int \<Rightarrow> int list" where
  "set_device_list device_offset n = irange device_offset (device_offset + n)"

end
