(* ===== verification/Tensor_Model.thy ===== *)
theory Tensor_Model
  imports Dram_Map Sim_Config "HOL-Library.AList"
begin

text \<open>
  Tensors, their memory objects and the module tree that owns them:
  \<^verbatim>\<open>src/module/tensor.h\<close>, \<^verbatim>\<open>src/module/tensor.cpp\<close>,
  \<^verbatim>\<open>src/dram/memory_object.cpp\<close>, the allocating half of
  \<^verbatim>\<open>src/dram/mmap_controller.cpp\<close> and the tensor bookkeeping of
  \<^verbatim>\<open>src/module/module.cpp\<close>. A \<^verbatim>\<open>std::map\<close> keyed by names is an
  association list with distinct keys; sums over it do not depend on the order.
\<close>

section \<open>Memory objects\<close>

record memory_object =
  mo_mmap :: MMap
  mo_address :: int
  mo_size :: int
  mo_num_bundle :: int

definition MemoryObject_ctor :: "memory_config \<Rightarrow> MMap \<Rightarrow> int \<Rightarrow> int \<Rightarrow> memory_object" where
  "MemoryObject_ctor mc m a sz =
     \<lparr>mo_mmap = m, mo_address = a, mo_size = sz, mo_num_bundle = cdiv sz (granul mc)\<rparr>"

definition mo_setSize :: "memory_config \<Rightarrow> int \<Rightarrow> memory_object \<Rightarrow> memory_object" where
  "mo_setSize mc sz mo = mo\<lparr>mo_size := sz, mo_num_bundle := cdiv sz (granul mc)\<rparr>"

definition mo_getAddrVec :: "memory_config \<Rightarrow> memory_object \<Rightarrow> int \<Rightarrow> ProcessorType \<Rightarrow> int list res" where
  "mo_getAddrVec mc mo bundle_idx type =
     (if type = LOGIC then getAddrVecLOGIC mc (mo_address mo) bundle_idx
      else getAddrVec mc (mo_address mo) bundle_idx)"

definition getBundleSize :: "memory_object \<Rightarrow> int" where
  "getBundleSize mo = mo_num_bundle mo"

section \<open>Tensors\<close>

record tensor =
  t_name :: string
  t_shape :: "int list"
  t_tag :: string
  t_precision_byte :: int
  t_ready :: bool
  t_perform_with_optimal :: bool
  t_parallel_execution :: bool
  t_perform_at_high :: bool
  t_timeboard_synced :: bool
  t_mmap :: MMap
  t_memory_object :: "memory_object option"
  t_device :: "nat option"

definition Tensor_ctor :: "string \<Rightarrow> int list \<Rightarrow> string \<Rightarrow> nat option \<Rightarrow> int \<Rightarrow> MMap \<Rightarrow> tensor" where
  "Tensor_ctor nm shp tg dev pb m = \<lparr>t_name = nm, t_shape = shp, t_tag = tg, t_precision_byte = pb,
     t_ready = False, t_perform_with_optimal = False, t_parallel_execution = False,
     t_perform_at_high = True, t_timeboard_synced = False, t_mmap = m, t_memory_object = None,
     t_device = dev\<rparr>"

definition getSize :: "tensor \<Rightarrow> int" where
  "getSize t = fold (\<lambda>d s. s * d) (t_shape t) (t_precision_byte t)"

definition tensor_dim :: "tensor \<Rightarrow> int \<Rightarrow> int res" where
  "tensor_dim t i = (if 0 \<le> i \<and> i < int (length (t_shape t)) then Inr (t_shape t ! nat i)
     else fail ''assert'')"

definition tensor_set :: "memory_config \<Rightarrow> tensor \<Rightarrow> tensor res" where
  "tensor_set mc t =
     (case t_memory_object t of
        None \<Rightarrow> Inl NullPointer
      | Some mo \<Rightarrow> Inr (t\<lparr>t_ready := True, t_memory_object := Some (mo_setSize mc (getSize t) mo)\<rparr>))"

definition tensor_unset :: "tensor \<Rightarrow> tensor" where
  "tensor_unset t = t\<lparr>t_ready := False\<rparr>"

definition setPerformHigh :: "tensor \<Rightarrow> tensor" where
  "setPerformHigh t = t\<lparr>t_parallel_execution := True, t_perform_at_high := True\<rparr>"

definition setPerformLow :: "tensor \<Rightarrow> tensor" where
  "setPerformLow t = t\<lparr>t_parallel_execution := True, t_perform_at_high := False\<rparr>"

definition isPerformHigh :: "tensor \<Rightarrow> bool" where
  "isPerformHigh t = t_perform_at_high t"

definition setShape :: "memory_config \<Rightarrow> int list \<Rightarrow> tensor \<Rightarrow> tensor res" where
  "setShape mc shp t =
     (let t = t\<lparr>t_shape := shp\<rparr> in
      case t_memory_object t of
        None \<Rightarrow> Inl NullPointer
      | Some mo \<Rightarrow> Inr (t\<lparr>t_memory_object := Some (mo_setSize mc (getSize t) mo)\<rparr>))"

lemma getSize_prod: "getSize t = t_precision_byte t * prod_list (t_shape t)"
proof -
  have "fold (\<lambda>d s. s * d) xs a = a * prod_list xs" for xs :: "int list" and a
    by (induction xs arbitrary: a) auto
  then show ?thesis by (simp add: getSize_def)
qed

lemma getSize_nonneg:
  assumes "0 \<le> t_precision_byte t" "\<forall>d \<in> set (t_shape t). 0 \<le> d"
  shows "0 \<le> getSize t"
proof -
  have "0 \<le> prod_list xs" if "\<forall>d \<in> set xs. 0 \<le> d" for xs :: "int list"
    using that by (induction xs) auto
  then show ?thesis using assms by (simp add: getSize_prod)
qed

section \<open>Allocation\<close>

text \<open>The controller's bump pointers; \<^verbatim>\<open>tag.compare(s)\<close> is true when the tag differs.\<close>

record mmap_ctl =
  ctl_config :: memory_config
  start_addr_normal :: int
  start_addr_logic :: int

definition MMapController_ctor :: "memory_config \<Rightarrow> mmap_ctl" where
  "MMapController_ctor mc = \<lparr>ctl_config = mc, start_addr_normal = 0, start_addr_logic = 0\<rparr>"

definition setNormal :: "mmap_ctl \<Rightarrow> tensor \<Rightarrow> mmap_ctl \<times> tensor" where
  "setNormal ctl t =
     (let start_address = start_addr_normal ctl;
          (ctl, start_address) =
            (if t_tag t \<noteq> ''act'' \<and> t_tag t \<noteq> ''cache''
             then (ctl\<lparr>start_addr_normal := start_addr_normal ctl + getSize t\<rparr>, start_address)
             else (ctl, 0))
      in (ctl, t\<lparr>t_memory_object :=
                 Some (MemoryObject_ctor (ctl_config ctl) (t_mmap t) start_address (getSize t))\<rparr>))"

definition setLOGIC :: "mmap_ctl \<Rightarrow> tensor \<Rightarrow> mmap_ctl \<times> tensor" where
  "setLOGIC ctl t =
     (ctl\<lparr>start_addr_logic := start_addr_logic ctl + getSize t\<rparr>,
      t\<lparr>t_memory_object := Some (MemoryObject_ctor (ctl_config ctl) (t_mmap t) (start_addr_logic ctl) (getSize t))\<rparr>)"

definition ctl_setMemoryObject :: "mmap_ctl \<Rightarrow> tensor \<Rightarrow> mmap_ctl \<times> tensor" where
  "ctl_setMemoryObject ctl t = (if t_mmap t = ALL_CHANNEL then setNormal ctl t else (ctl, t))"

definition tensor_setMemoryObject :: "mmap_ctl \<Rightarrow> tensor \<Rightarrow> (mmap_ctl \<times> tensor) res" where
  "tensor_setMemoryObject ctl t =
     rbind (assertFalse (t_device t = None) ''Tensor is not allocated in device'')
       (\<lambda>_. Inr (ctl_setMemoryObject ctl t))"

definition Tensor_Create ::
  "mmap_ctl \<Rightarrow> string \<Rightarrow> int list \<Rightarrow> string \<Rightarrow> nat option \<Rightarrow> int \<Rightarrow> MMap \<Rightarrow> (mmap_ctl \<times> tensor) res" where
  "Tensor_Create ctl nm shp tg dev pb m = tensor_setMemoryObject ctl (Tensor_ctor nm shp tg dev pb m)"

text \<open>Allocating a sequence of tensors, as building a model does.\<close>

fun alloc_all :: "mmap_ctl \<Rightarrow> tensor list \<Rightarrow> mmap_ctl \<times> tensor list" where
  "alloc_all ctl [] = (ctl, [])"
| "alloc_all ctl (t # ts) =
     (let (ctl, t) = ctl_setMemoryObject ctl t; (ctl, ts) = alloc_all ctl ts in (ctl, t # ts))"

declare alloc_all.simps(2) [simp del]

text \<open>Weights: everything that is neither an activation nor a cache.\<close>

definition is_weight :: "tensor \<Rightarrow> bool" where
  "is_weight t \<longleftrightarrow> t_tag t \<noteq> ''act'' \<and> t_tag t \<noteq> ''cache''"

definition obj_start :: "tensor \<Rightarrow> int" where
  "obj_start t = mo_address (the (t_memory_object t))"

definition obj_end :: "tensor \<Rightarrow> int" where
  "obj_end t = obj_start t + mo_size (the (t_memory_object t))"

lemma alloc_all_Cons:
  "ctl_setMemoryObject ctl t = (ctl', t') \<Longrightarrow> snd (alloc_all ctl (t # ts)) = t' # snd (alloc_all ctl' ts)"
  by (simp add: alloc_all.simps(2) Let_def case_prod_beta)

lemma setMemoryObject_facts:
  assumes "ctl_setMemoryObject ctl t = (ctbl', t')" "t_mmap t = ALL_CHANNEL"
  shows "t_tag t' = t_tag t" "getSize t' = getSize t"
    "is_weight t \<Longrightarrow> obj_start t' = start_addr_normal ctl \<and> obj_end t' = start_addr_normal ctbl'"
    "\<not> is_weight t \<Longrightarrow> obj_start t' = 0 \<and> ctbl' = ctl"
    "0 \<le> getSize t \<Longrightarrow> start_addr_normal ctl \<le> start_addr_normal ctbl'"
  using assms
  by (auto simp: ctl_setMemoryObject_def setNormal_def Let_def is_weight_def obj_start_def obj_end_def
      MemoryObject_ctor_def getSize_def split: if_splits)

text \<open>Weights of a later allocation start at or after the bump pointer.\<close>

lemma alloc_all_starts:
  assumes "\<forall>t \<in> set ts. t_mmap t = ALL_CHANNEL \<and> 0 \<le> getSize t" "i < length ts" "is_weight (ts ! i)"
  shows "start_addr_normal ctl \<le> obj_start (snd (alloc_all ctl ts) ! i)"
  using assms
proof (induction ts arbitrary: ctl i)
  case Nil
  then show ?case by simp
next
  case (Cons t ts)
  obtain ctbl' t' where st: "ctl_setMemoryObject ctl t = (ctbl', t')" by fastforce
  note f = setMemoryObject_facts [OF st]
  show ?case
  proof (cases i)
    case 0
    then show ?thesis using Cons.prems f alloc_all_Cons [OF st] by simp
  next
    case (Suc j)
    have "start_addr_normal ctbl' \<le> obj_start (snd (alloc_all ctbl' ts) ! j)"
      using Cons.prems Suc by (intro Cons.IH) auto
    moreover have "start_addr_normal ctl \<le> start_addr_normal ctbl'"
      using f(5) Cons.prems by simp
    ultimately show ?thesis using Suc alloc_all_Cons [OF st] by simp
  qed
qed

text \<open>
  C38: tensors allocated one after another by \<^verbatim>\<open>MMapController::setMemoryObject\<close> never
  overlap when both are weights: the earlier one ends where the later one may start.
\<close>

theorem weights_do_not_overlap:
  assumes "\<forall>t \<in> set ts. t_mmap t = ALL_CHANNEL \<and> 0 \<le> getSize t"
    and "i < j" "j < length ts" "is_weight (ts ! i)" "is_weight (ts ! j)"
  shows "obj_end (snd (alloc_all ctl ts) ! i) \<le> obj_start (snd (alloc_all ctl ts) ! j)"
  using assms
proof (induction ts arbitrary: ctl i j)
  case Nil
  then show ?case by simp
next
  case (Cons t ts)
  obtain ctbl' t' where st: "ctl_setMemoryObject ctl t = (ctbl', t')" by fastforce
  note f = setMemoryObject_facts [OF st]
  obtain k where k: "j = Suc k" using Cons.prems(2) by (cases j) auto
  show ?case
  proof (cases i)
    case 0
    have "start_addr_normal ctbl' \<le> obj_start (snd (alloc_all ctbl' ts) ! k)"
      using Cons.prems k by (intro alloc_all_starts) auto
    then show ?thesis
      using 0 k f Cons.prems alloc_all_Cons [OF st] by simp
  next
    case (Suc m)
    have "obj_end (snd (alloc_all ctbl' ts) ! m) \<le> obj_start (snd (alloc_all ctbl' ts) ! k)"
      using Cons.prems k Suc by (intro Cons.IH) auto
    then show ?thesis using Suc k alloc_all_Cons [OF st] by simp
  qed
qed

definition weight_A :: tensor where
  "weight_A = Tensor_ctor ''A'' [4096, 128] ''weight'' (Some 0) 2 ALL_CHANNEL"

definition weight_B :: tensor where
  "weight_B = Tensor_ctor ''B'' [128, 64] ''weight'' (Some 0) 2 ALL_CHANNEL"

theorem weights_do_not_overlap_witness:
  "obj_end (snd (alloc_all (MMapController_ctor hbm3_80GB) [weight_A, weight_B]) ! 0)
     \<le> obj_start (snd (alloc_all (MMapController_ctor hbm3_80GB) [weight_A, weight_B]) ! 1)"
  by (rule weights_do_not_overlap)
    (simp_all add: weight_A_def weight_B_def Tensor_ctor_def getSize_def is_weight_def)

section \<open>The module tree\<close>

datatype module_tree = Mod
  (m_name: string)
  (m_tensors: "(string \<times> tensor) list")
  (m_modules: "(string \<times> module_tree) list")

text \<open>\<^verbatim>\<open>Module::get_size\<close>: activation, weight and cache bytes of the tensors and submodules.\<close>

definition size_vec :: "tensor \<Rightarrow> int \<times> int \<times> int" where
  "size_vec t =
     (if t_tag t = ''act'' then (getSize t, 0, 0)
      else if t_tag t = ''weight'' then (0, getSize t, 0)
      else if t_tag t = ''cache'' then (0, 0, getSize t)
      else (0, 0, 0))"

definition add_vec :: "int \<times> int \<times> int \<Rightarrow> int \<times> int \<times> int \<Rightarrow> int \<times> int \<times> int" where
  "add_vec x y = (fst x + fst y, fst (snd x) + fst (snd y), snd (snd x) + snd (snd y))"

fun get_size :: "module_tree \<Rightarrow> int \<times> int \<times> int" and
    get_size_list :: "(string \<times> module_tree) list \<Rightarrow> int \<times> int \<times> int" where
  "get_size (Mod nm ts ms) =
     add_vec (fold (\<lambda>(_, t) acc. add_vec acc (size_vec t)) ts (0, 0, 0)) (get_size_list ms)"
| "get_size_list [] = (0, 0, 0)"
| "get_size_list ((_, m) # ms) = add_vec (get_size m) (get_size_list ms)"

definition module_size :: "string list \<Rightarrow> module_tree \<Rightarrow> int" where
  "module_size tags m =
     (let (act, weight, cache) = get_size m in
      fold (\<lambda>tag total.
        if tag = ''act'' then total + act
        else if tag = ''weight'' then total + weight
        else if tag = ''cache'' then total + cache else total) tags 0)"

fun unset_tensors :: "module_tree \<Rightarrow> module_tree" and
    unset_tensors_list :: "(string \<times> module_tree) list \<Rightarrow> (string \<times> module_tree) list" where
  "unset_tensors (Mod nm ts ms) =
     Mod nm (map (\<lambda>(k, t). (k, tensor_unset t)) ts) (unset_tensors_list ms)"
| "unset_tensors_list [] = []"
| "unset_tensors_list ((k, m) # ms) = (k, unset_tensors m) # unset_tensors_list ms"

text \<open>All tensors of a tree.\<close>

fun tree_tensors :: "module_tree \<Rightarrow> tensor list" and
    tree_tensors_list :: "(string \<times> module_tree) list \<Rightarrow> tensor list" where
  "tree_tensors (Mod nm ts ms) = map snd ts @ tree_tensors_list ms"
| "tree_tensors_list [] = []"
| "tree_tensors_list ((_, m) # ms) = tree_tensors m @ tree_tensors_list ms"

definition tag_bytes :: "string \<Rightarrow> tensor list \<Rightarrow> int" where
  "tag_bytes tag ts = sum_list (map getSize (filter (\<lambda>t. t_tag t = tag) ts))"

lemma tag_bytes_simps [simp]:
  "tag_bytes tag [] = 0"
  "tag_bytes tag (t # ts) = (if t_tag t = tag then getSize t else 0) + tag_bytes tag ts"
  "tag_bytes tag (xs @ ys) = tag_bytes tag xs + tag_bytes tag ys"
  by (simp_all add: tag_bytes_def)

lemma size_vec_fold:
  "fold (\<lambda>(_, t) acc. add_vec acc (size_vec t)) ts acc =
     add_vec acc (tag_bytes ''act'' (map snd ts), tag_bytes ''weight'' (map snd ts), tag_bytes ''cache'' (map snd ts))"
  by (induction ts arbitrary: acc) (auto simp: add_vec_def size_vec_def)

lemma get_size_tree:
  "get_size m = (tag_bytes ''act'' (tree_tensors m), tag_bytes ''weight'' (tree_tensors m),
     tag_bytes ''cache'' (tree_tensors m))"
  "get_size_list ms = (tag_bytes ''act'' (tree_tensors_list ms), tag_bytes ''weight'' (tree_tensors_list ms),
     tag_bytes ''cache'' (tree_tensors_list ms))"
  by (induction m and ms rule: get_size_get_size_list.induct)
    (simp_all add: size_vec_fold, simp_all add: add_vec_def)

lemma tree_tensors_unset:
  "tree_tensors (unset_tensors m) = map tensor_unset (tree_tensors m)"
  "tree_tensors_list (unset_tensors_list ms) = map tensor_unset (tree_tensors_list ms)"
  by (induction m and ms rule: unset_tensors_unset_tensors_list.induct) (auto simp: comp_def case_prod_beta)

text \<open>
  \<^verbatim>\<open>Module::size\<close> with its default tags is the total footprint of every act, weight
  and cache tensor anywhere below the module, and \<^verbatim>\<open>unset_tensor\<close> clears the ready flag of
  all of them without changing that footprint.
\<close>

theorem module_size_footprint:
  "module_size [''weight'', ''act'', ''cache''] m =
     sum_list (map getSize (filter (\<lambda>t. t_tag t \<in> {''act'', ''weight'', ''cache''}) (tree_tensors m)))
   \<and> module_size tags (unset_tensors m) = module_size tags m
   \<and> list_all (\<lambda>t. \<not> t_ready t) (tree_tensors (unset_tensors m))"
proof -
  have "tag_bytes ''weight'' ts + tag_bytes ''act'' ts + tag_bytes ''cache'' ts =
      sum_list (map getSize (filter (\<lambda>t. t_tag t \<in> {''act'', ''weight'', ''cache''}) ts))" for ts
    by (induction ts) auto
  moreover have "tag_bytes tag (map tensor_unset ts) = tag_bytes tag ts" for tag ts
    by (induction ts) (auto simp: tensor_unset_def getSize_def)
  moreover have "list_all (\<lambda>t. \<not> t_ready t) (map tensor_unset ts)" for ts
    by (simp add: list_all_iff tensor_unset_def)
  ultimately show ?thesis
    by (simp add: module_size_def get_size_tree tree_tensors_unset)
qed

section \<open>A module's tensor table\<close>

definition add_tensor :: "string \<Rightarrow> tensor \<Rightarrow> (string \<times> tensor) list \<Rightarrow> (string \<times> tensor) list" where
  "add_tensor nm t tbl = AList.update nm t tbl"

text \<open>\<^verbatim>\<open>get_activation\<close> returns the tensor itself, so the table and the result agree.\<close>

definition get_activation ::
  "mmap_ctl \<Rightarrow> (string \<times> tensor) list \<Rightarrow> string \<Rightarrow> int list \<Rightarrow> bool
    \<Rightarrow> (mmap_ctl \<times> (string \<times> tensor) list \<times> tensor) res" where
  "get_activation ctl tbl nm shp ready =
     (case map_of tbl nm of
        Some t \<Rightarrow>
          rbind (tensor_setMemoryObject ctl (t\<lparr>t_shape := shp\<rparr>)) (\<lambda>(ctl, t).
          rbind (if ready then tensor_set (ctl_config ctl) t else Inr t) (\<lambda>t.
          Inr (ctl, AList.update nm t tbl, t)))
      | None \<Rightarrow> fail ''Unvalid activation tensor request'')"

definition cache_name :: "string \<Rightarrow> int \<Rightarrow> int \<Rightarrow> bool \<Rightarrow> string" where
  "cache_name nm seq_idx kv_idx ckv =
     (if ckv then nm @ ''_'' @ to_string seq_idx
      else nm @ ''_'' @ to_string seq_idx @ ''_'' @ to_string kv_idx)"

definition get_cache ::
  "mmap_ctl \<Rightarrow> (string \<times> tensor) list \<Rightarrow> string \<Rightarrow> int \<Rightarrow> int \<Rightarrow> bool
    \<Rightarrow> (mmap_ctl \<times> (string \<times> tensor) list \<times> tensor) res" where
  "get_cache ctl tbl nm seq_idx kv_idx ckv =
     (let nm = cache_name nm seq_idx kv_idx ckv in
      case map_of tbl nm of
        Some t \<Rightarrow>
          rbind (tensor_setMemoryObject ctl t) (\<lambda>(ctl, t). Inr (ctl, AList.update nm t tbl, t))
      | None \<Rightarrow> fail ''Unvalid cached tensor request'')"

text \<open>
  requesting an activation that the module owns gives a tensor of the requested shape, ready,
  whose memory object covers exactly its bytes, visible under the same name; requesting a name the
  module does not own fails.
\<close>

theorem get_activation_spec:
  assumes "map_of tbl nm = Some t" "t_device t \<noteq> None" "t_mmap t = ALL_CHANNEL"
  shows "\<exists>ctbl' tbl' t'. get_activation ctl tbl nm shp True = Inr (ctbl', tbl', t') \<and> map_of tbl' nm = Some t' \<and>
    t_shape t' = shp \<and> t_ready t' \<and> getSize t' = t_precision_byte t * prod_list shp \<and>
    map_option mo_size (t_memory_object t') = Some (getSize t') \<and>
    (\<forall>k. k \<noteq> nm \<longrightarrow> map_of tbl' k = map_of tbl k) \<and>
    (map_of tbl other = None \<longrightarrow> get_activation ctl tbl other shp True = Inl (Fail ''Unvalid activation tensor request''))"
  using assms
  by (auto simp: get_activation_def tensor_setMemoryObject_def assertFalse_def ctl_setMemoryObject_def
      setNormal_def Let_def tensor_set_def update_conv' getSize_prod mo_setSize_def fail_def)

theorem get_activation_spec_witness:
  "\<exists>ctbl' tbl' t'. get_activation (MMapController_ctor hbm3_80GB)
      [(''Y'', Tensor_ctor ''Y'' [1, 1] ''act'' (Some 0) 2 ALL_CHANNEL)] ''Y'' [64, 4096] True = Inr (ctbl', tbl', t') \<and>
    map_of tbl' ''Y'' = Some t' \<and> t_shape t' = [64, 4096] \<and> t_ready t' \<and>
    getSize t' = t_precision_byte (Tensor_ctor ''Y'' [1, 1] ''act'' (Some 0) 2 ALL_CHANNEL) * prod_list [64, 4096] \<and>
    map_option mo_size (t_memory_object t') = Some (getSize t') \<and>
    (\<forall>k. k \<noteq> ''Y'' \<longrightarrow> map_of tbl' k = map_of [(''Y'', Tensor_ctor ''Y'' [1, 1] ''act'' (Some 0) 2 ALL_CHANNEL)] k) \<and>
    (map_of [(''Y'', Tensor_ctor ''Y'' [1, 1] ''act'' (Some 0) 2 ALL_CHANNEL)] ''Z'' = None \<longrightarrow>
      get_activation (MMapController_ctor hbm3_80GB)
        [(''Y'', Tensor_ctor ''Y'' [1, 1] ''act'' (Some 0) 2 ALL_CHANNEL)] ''Z'' [64, 4096] True
        = Inl (Fail ''Unvalid activation tensor request''))"
  by (rule get_activation_spec) (simp_all add: Tensor_ctor_def)

end
