(* ===== verification/Pim_Kernel.thy ===== *)
theory Pim_Kernel
  imports Tensor_Model
begin

text \<open>
  Requests to the memory and the kernels that expand them into commands:
  \<^verbatim>\<open>src/dram/dram_request.h\<close>, \<^verbatim>\<open>src/dram/pim_request.cpp\<close>,
  \<^verbatim>\<open>src/dram/pimkernel/*.cpp\<close> and \<^verbatim>\<open>DRAMInterface::GeneratePIMCommand\<close>.
  The back pointer of a command to its request is not modelled.
\<close>

section \<open>Requests and commands\<close>

record pim_command =
  pc_dramreq_type :: DRAMRequestType
  pc_type :: PIMCommandType
  pc_op_type :: PIMOperandType
  pc_addr_vec :: "int list"

record pim_request =
  command_queue :: "pim_command list"
  issued_pim_cmd :: "int list"
  issued_dram_cmd :: "int list"
  pr_start :: int
  pr_end :: int

definition PIMRequest_ctor :: pim_request where
  "PIMRequest_ctor = \<lparr>command_queue = [], issued_pim_cmd = replicate (pimcmd_int pMAX) 0,
     issued_dram_cmd = replicate 10 0, pr_start = 0, pr_end = 0\<rparr>"

definition AddCommand :: "pim_command \<Rightarrow> pim_request \<Rightarrow> pim_request" where
  "AddCommand c r =
     (let i = pimcmd_int (pc_type c) in
      r\<lparr>command_queue := command_queue r @ [c],
        issued_pim_cmd := (issued_pim_cmd r)[i := issued_pim_cmd r ! i + 1]\<rparr>)"

type_synonym pim_operand = "PIMOperandType \<rightharpoonup> memory_object list"

record dram_request =
  dr_type :: DRAMRequestType
  dr_operands :: pim_operand

definition DRAMRequest_ctor :: "DRAMRequestType \<Rightarrow> dram_request" where
  "DRAMRequest_ctor t = \<lparr>dr_type = t, dr_operands = Map.empty\<rparr>"

definition AddOperand :: "memory_object \<Rightarrow> PIMOperandType \<Rightarrow> dram_request \<Rightarrow> dram_request" where
  "AddOperand arg type r =
     (let ops = dr_operands r;
          ops = (if ops type = None then ops(type \<mapsto> []) else ops)
      in r\<lparr>dr_operands := ops(type \<mapsto> the (ops type) @ [arg])\<rparr>)"

record pim_hw_config =
  hw_type :: ProcessorType
  hw_bandwidth_x :: int

section \<open>Kernels\<close>

definition get_operand :: "pim_operand \<Rightarrow> PIMOperandType \<Rightarrow> memory_object list res" where
  "get_operand operand type =
     (case operand type of Some ops \<Rightarrow> Inr ops | None \<Rightarrow> fail ''get_operand: invalid operand'')"

text \<open>
  The loop all kernels share: for every bundle of the operand, fetch its address vector and, if
  the kernel's condition selects it, add one command.
\<close>

definition bundle_loop ::
  "memory_config \<Rightarrow> ProcessorType \<Rightarrow> (int list \<Rightarrow> bool) \<Rightarrow> (int list \<Rightarrow> pim_command)
    \<Rightarrow> memory_object \<Rightarrow> pim_request \<Rightarrow> pim_request res" where
  "bundle_loop mc type cond mk opnd =
     rfold (\<lambda>bundle_idx r.
       rbind (mo_getAddrVec mc opnd bundle_idx type) (\<lambda>addr_vec.
       Inr (if cond addr_vec then AddCommand (mk addr_vec) r else r)))
     (irange 0 (getBundleSize opnd))"

definition Read_kernel ::
  "memory_config \<Rightarrow> DRAMRequestType \<Rightarrow> pim_operand \<Rightarrow> pim_hw_config \<Rightarrow> pim_request \<Rightarrow> pim_request res" where
  "Read_kernel mc dramreq_type operand hw r =
     rbind (get_operand operand oDRAM) (\<lambda>read_operand.
     rbind (assertTrue (length read_operand = 1) ''only one request can be read'') (\<lambda>_.
     rfold (bundle_loop mc (hw_type hw) (\<lambda>addr_vec. addr_vec ! 0 = 0)
       (\<lambda>addr_vec. \<lparr>pc_dramreq_type = dramreq_type, pc_type = pRead, pc_op_type = oDRAM, pc_addr_vec = addr_vec\<rparr>))
       read_operand r))"

definition Write_kernel ::
  "memory_config \<Rightarrow> DRAMRequestType \<Rightarrow> pim_operand \<Rightarrow> pim_hw_config \<Rightarrow> pim_request \<Rightarrow> pim_request res" where
  "Write_kernel mc dramreq_type operand hw r =
     rbind (get_operand operand oDRAM) (\<lambda>write_operand.
     rbind (assertTrue (length write_operand = 1) ''only one request can be written'') (\<lambda>_.
     rfold (bundle_loop mc (hw_type hw) (\<lambda>addr_vec. addr_vec ! 0 = 0)
       (\<lambda>addr_vec. \<lparr>pc_dramreq_type = dramreq_type, pc_type = pWrite, pc_op_type = oDRAM, pc_addr_vec = addr_vec\<rparr>))
       write_operand r))"

text \<open>The banks one GEMV command stands for, by bandwidth factor.\<close>

definition gemv_x16 :: "int list \<Rightarrow> bool" where
  "gemv_x16 v \<longleftrightarrow> v ! 0 = 0 \<and> v ! 1 = 0 \<and> v ! 2 = 0 \<and> v ! 3 = 0 \<and> v ! 4 = 0"

definition gemv_x8 :: "int list \<Rightarrow> bool" where
  "gemv_x8 v \<longleftrightarrow> v ! 0 = 0 \<and> v ! 1 = 0 \<and> v ! 2 = 0 \<and> v ! 3 = 0 \<and> cmod (v ! 4) 2 = 0"

definition gemv_x4 :: "int list \<Rightarrow> bool" where
  "gemv_x4 v \<longleftrightarrow> v ! 0 = 0 \<and> v ! 1 = 0 \<and> v ! 2 = 0 \<and> v ! 3 = 0"

definition gemv_logic_x4 :: "int list \<Rightarrow> bool" where
  "gemv_logic_x4 v \<longleftrightarrow> v ! 0 = 0 \<and> v ! 1 = 0 \<and> cmod (v ! 4) 2 = 0 \<and> v ! 3 = 0"

definition GEMV ::
  "memory_config \<Rightarrow> DRAMRequestType \<Rightarrow> pim_operand \<Rightarrow> pim_hw_config \<Rightarrow> pim_request \<Rightarrow> pim_request res" where
  "GEMV mc dramreq_type operand hw r =
     (let bandwidth_x = hw_bandwidth_x hw; type = hw_type hw;
          mk = (\<lambda>addr_vec. \<lparr>pc_dramreq_type = dramreq_type, pc_type = pMAC, pc_op_type = oSrc, pc_addr_vec = addr_vec\<rparr>)
      in
      rbind (get_operand operand oSrc) (\<lambda>src.
      rbind (assertTrue (length src = 1) ''GEMV operands are not valid'') (\<lambda>_.
      rbind (vec_at src 0) (\<lambda>opnd.
      if type = PIM then
        (if bandwidth_x = 16 then bundle_loop mc GPU gemv_x16 mk opnd r
         else if bandwidth_x = 8 then bundle_loop mc GPU gemv_x8 mk opnd r
         else if bandwidth_x = 4 then bundle_loop mc GPU gemv_x4 mk opnd r
         else fail ''Not supported bandwidth_x configuration'')
      else if type = LOGIC then
        (if bandwidth_x = 4 then bundle_loop mc type gemv_logic_x4 mk opnd r
         else fail ''Not supported bandwidth_x configuration'')
      else Inr r))))"

type_synonym pim_kernel =
  "memory_config \<Rightarrow> DRAMRequestType \<Rightarrow> pim_operand \<Rightarrow> pim_hw_config \<Rightarrow> pim_request \<Rightarrow> pim_request res"

text \<open>\<^verbatim>\<open>PIM_KERNEL::init\<close>: the entries that are installed.\<close>

definition kernel_table :: "DRAMRequestType \<Rightarrow> pim_kernel option" where
  "kernel_table t = (if t = kRead then Some Read_kernel else if t = kWrite then Some Write_kernel
     else if t = kGEMV then Some GEMV else None)"

text \<open>A type without a kernel only warns and leaves the request as it is.\<close>

definition GeneratePIMCommand ::
  "memory_config \<Rightarrow> pim_hw_config \<Rightarrow> dram_request \<Rightarrow> pim_request \<Rightarrow> pim_request res" where
  "GeneratePIMCommand mc hw request r =
     (case kernel_table (dr_type request) of
        Some krn \<Rightarrow> krn mc (dr_type request) (dr_operands request) hw r
      | None \<Rightarrow> Inr r)"

section \<open>The counters agree with the queue\<close>

definition count_cmd :: "PIMCommandType \<Rightarrow> pim_command list \<Rightarrow> int" where
  "count_cmd t cs = int (length (filter (\<lambda>c. pc_type c = t) cs))"

definition request_wf :: "pim_request \<Rightarrow> bool" where
  "request_wf r \<longleftrightarrow> length (issued_pim_cmd r) = pimcmd_int pMAX \<and>
     (\<forall>t. t \<noteq> pMAX \<longrightarrow> issued_pim_cmd r ! pimcmd_int t = count_cmd t (command_queue r)) \<and>
     list_all (\<lambda>c. pc_type c \<noteq> pMAX) (command_queue r)"

lemma request_wf_ctor [simp]: "request_wf PIMRequest_ctor"
proof -
  have "replicate 8 (0::int) ! pimcmd_int t = 0" if "t \<noteq> pMAX" for t
    using pimcmd_int_less [OF that] by (simp only: nth_replicate pimcmd_int.simps)
  then show ?thesis by (simp add: request_wf_def PIMRequest_ctor_def count_cmd_def)
qed

lemma request_wf_AddCommand:
  assumes "request_wf r" "pc_type c \<noteq> pMAX"
  shows "request_wf (AddCommand c r)"
proof -
  have "(issued_pim_cmd r)[pimcmd_int (pc_type c) := issued_pim_cmd r ! pimcmd_int (pc_type c) + 1] ! pimcmd_int t
      = count_cmd t (command_queue r @ [c])" if "t \<noteq> pMAX" for t
    using assms that pimcmd_int_less [OF that]
    by (cases "t = pc_type c") (auto simp: request_wf_def count_cmd_def)
  then show ?thesis using assms by (auto simp: request_wf_def AddCommand_def Let_def)
qed

lemma request_wf_bundle_loop:
  assumes "bundle_loop mc type cond mk opnd r = Inr r'" "request_wf r" "\<And>v. pc_type (mk v) \<noteq> pMAX"
  shows "request_wf r'"
  using assms(1,2) unfolding bundle_loop_def
  by (rule rfold_invariant [where P = request_wf]) (auto simp: rbind_eq_Inr request_wf_AddCommand assms(3))

lemma request_wf_rfold_bundle_loop:
  assumes "rfold (bundle_loop mc type cond mk) ops r = Inr r'" "request_wf r" "\<And>v. pc_type (mk v) \<noteq> pMAX"
  shows "request_wf r'"
  using assms(1,2) by (rule rfold_invariant [where P = request_wf])
    (erule request_wf_bundle_loop, assumption, rule assms(3))

lemma kernels_keep_wf:
  "Read_kernel mc t ops hw r = Inr r' \<Longrightarrow> request_wf r \<Longrightarrow> request_wf r'"
  "Write_kernel mc t ops hw r = Inr r' \<Longrightarrow> request_wf r \<Longrightarrow> request_wf r'"
  "GEMV mc t ops hw r = Inr r' \<Longrightarrow> request_wf r \<Longrightarrow> request_wf r'"
  by (auto simp: Read_kernel_def Write_kernel_def GEMV_def Let_def rbind_eq_Inr fail_def
      split: if_splits elim: request_wf_rfold_bundle_loop request_wf_bundle_loop)

text \<open>
  whatever request is expanded, on whatever processor, the per-command counters of the
  resulting PIM request equal the number of queued commands of that type.
\<close>

theorem GeneratePIMCommand_counters:
  assumes "GeneratePIMCommand mc hw request PIMRequest_ctor = Inr r"
  shows "\<forall>t. t \<noteq> pMAX \<longrightarrow> issued_pim_cmd r ! pimcmd_int t = count_cmd t (command_queue r)"
proof -
  have "request_wf r"
    using assms kernels_keep_wf [OF _ request_wf_ctor]
    by (auto simp: GeneratePIMCommand_def kernel_table_def split: if_splits)
  then show ?thesis by (simp add: request_wf_def)
qed

section \<open>Which commands a kernel issues\<close>

lemma bundle_loop_result:
  assumes "\<And>i. 0 \<le> i \<Longrightarrow> i < getBundleSize opnd \<Longrightarrow> mo_getAddrVec mc opnd i type = Inr (vec i)"
  shows "\<exists>r'. bundle_loop mc type cond mk opnd r = Inr r' \<and>
    command_queue r' = command_queue r @ map mk (filter cond (map vec (irange 0 (getBundleSize opnd))))"
proof -
  have "\<exists>r'. rfold (\<lambda>bundle_idx r. rbind (mo_getAddrVec mc opnd bundle_idx type) (\<lambda>addr_vec.
        Inr (if cond addr_vec then AddCommand (mk addr_vec) r else r))) xs r = Inr r' \<and>
      command_queue r' = command_queue r @ map mk (filter cond (map vec xs))"
    if "set xs \<subseteq> {0..<getBundleSize opnd}" for xs
    using that
  proof (induction xs arbitrary: r)
    case Nil
    then show ?case by simp
  next
    case (Cons i xs)
    have i: "mo_getAddrVec mc opnd i type = Inr (vec i)" using Cons.prems by (intro assms) auto
    show ?case
      using Cons.IH [of "if cond (vec i) then AddCommand (mk (vec i)) r else r"] Cons.prems
      by (auto simp: i AddCommand_def Let_def)
  qed
  then show ?thesis by (simp add: bundle_loop_def)
qed

text \<open>An object inside the memory, for the mapping its kernel uses.\<close>

definition in_memory :: "memory_config \<Rightarrow> ProcessorType \<Rightarrow> memory_object \<Rightarrow> bool" where
  "in_memory mc type mo \<longleftrightarrow> wf_mc mc \<and> 0 \<le> mo_address mo \<and>
     mo_address mo + mo_num_bundle mo * granul mc \<le> (if type = LOGIC then capacity_logic mc else capacity mc)"

lemma in_memory_bundle:
  assumes "in_memory mc type mo" "0 \<le> i" "i < mo_num_bundle mo"
  shows "mo_address mo + i * granul mc < (if type = LOGIC then capacity_logic mc else capacity mc)"
proof -
  have "0 < granul mc" using assms(1) by (simp add: in_memory_def wf_mc_def)
  then have "i * granul mc < mo_num_bundle mo * granul mc" using assms by simp
  then show ?thesis using assms(1) unfolding in_memory_def by linarith
qed

lemma in_memory_vectors:
  assumes "in_memory mc type mo"
  shows "\<exists>vec. (\<forall>i. 0 \<le> i \<longrightarrow> i < getBundleSize mo \<longrightarrow> mo_getAddrVec mc mo i type = Inr (vec i)) \<and>
    inj_on vec {0..<getBundleSize mo}"
proof -
  define vec where "vec i = projr (mo_getAddrVec mc mo i type)" for i
  note m = assms [unfolded in_memory_def]
  have ok: "mo_getAddrVec mc mo i type = Inr (vec i)" if i: "0 \<le> i" "i < mo_num_bundle mo" for i
  proof (cases "type = LOGIC")
    case True
    obtain v where "logic_map.bundle_vec mc (mo_address mo) i = Inr (ramul_vec mc v)"
      using in_memory_bundle [OF assms i] m i True by (auto intro: logic_map.bundle_vec_ok)
    then show ?thesis using True by (simp add: vec_def mo_getAddrVec_def getAddrVecLOGIC_bundle)
  next
    case False
    obtain v where "gpu_map.bundle_vec mc (mo_address mo) i = Inr (ramul_vec mc v)"
      using in_memory_bundle [OF assms i] m i False by (auto intro: gpu_map.bundle_vec_ok)
    then show ?thesis using False by (simp add: vec_def mo_getAddrVec_def getAddrVec_bundle)
  qed
  have inj: "i = j" if i: "0 \<le> i" "i < mo_num_bundle mo" and j: "0 \<le> j" "j < mo_num_bundle mo"
    and eq: "vec i = vec j" for i j
  proof (cases "type = LOGIC")
    case True
    then show ?thesis
      using in_memory_bundle [OF assms i] in_memory_bundle [OF assms j] m i j eq ok [OF i] ok [OF j]
      by (intro logic_map.bundle_vec_inj [of mc "mo_address mo"])
        (auto simp: mo_getAddrVec_def getAddrVecLOGIC_bundle)
  next
    case False
    then show ?thesis
      using in_memory_bundle [OF assms i] in_memory_bundle [OF assms j] m i j eq ok [OF i] ok [OF j]
      by (intro gpu_map.bundle_vec_inj [of mc "mo_address mo"])
        (auto simp: mo_getAddrVec_def getAddrVec_bundle)
  qed
  have "inj_on vec {0..<getBundleSize mo}"
    by (rule inj_onI) (auto simp: getBundleSize_def intro: inj)
  then show ?thesis using ok by (auto simp: getBundleSize_def)
qed

text \<open>
  reading an object that lies in the memory succeeds, and the queue receives exactly the
  bundles on channel 0 of cube 0, in address order and each once.
\<close>

theorem Read_kernel_commands:
  assumes "in_memory mc (hw_type hw) mo" "operand oDRAM = Some [mo]"
  shows "\<exists>r' vecs. Read_kernel mc kRead operand hw r = Inr r' \<and>
    map (\<lambda>i. mo_getAddrVec mc mo i (hw_type hw)) (irange 0 (getBundleSize mo)) = map Inr vecs \<and>
    map pc_addr_vec (command_queue r') = map pc_addr_vec (command_queue r) @ filter (\<lambda>v. v ! 0 = 0) vecs \<and>
    distinct vecs"
proof -
  obtain vec where vec: "\<forall>i. 0 \<le> i \<longrightarrow> i < getBundleSize mo \<longrightarrow> mo_getAddrVec mc mo i (hw_type hw) = Inr (vec i)"
    and inj: "inj_on vec {0..<getBundleSize mo}"
    using in_memory_vectors [OF assms(1)] by blast
  obtain r' where "bundle_loop mc (hw_type hw) (\<lambda>addr_vec. addr_vec ! 0 = 0)
      (\<lambda>addr_vec. \<lparr>pc_dramreq_type = kRead, pc_type = pRead, pc_op_type = oDRAM, pc_addr_vec = addr_vec\<rparr>) mo r = Inr r'"
    "command_queue r' = command_queue r @ map (\<lambda>addr_vec. \<lparr>pc_dramreq_type = kRead, pc_type = pRead,
      pc_op_type = oDRAM, pc_addr_vec = addr_vec\<rparr>) (filter (\<lambda>v. v ! 0 = 0) (map vec (irange 0 (getBundleSize mo))))"
    using bundle_loop_result [of mo mc "hw_type hw" vec] vec by blast
  then show ?thesis
    using assms(2) vec inj
    by (intro exI [of _ r'] exI [of _ "map vec (irange 0 (getBundleSize mo))"])
      (auto simp: Read_kernel_def get_operand_def comp_def distinct_map)
qed

definition sample_object :: memory_object where
  "sample_object = MemoryObject_ctor hbm3_80GB ALL_CHANNEL 0 8192"

theorem Read_kernel_commands_witness:
  "\<exists>r' vecs. Read_kernel hbm3_80GB kRead [oDRAM \<mapsto> [sample_object]] \<lparr>hw_type = GPU, hw_bandwidth_x = 0\<rparr> PIMRequest_ctor = Inr r' \<and>
    map (\<lambda>i. mo_getAddrVec hbm3_80GB sample_object i (hw_type \<lparr>hw_type = GPU, hw_bandwidth_x = 0\<rparr>))
      (irange 0 (getBundleSize sample_object)) = map Inr vecs \<and>
    map pc_addr_vec (command_queue r') = map pc_addr_vec (command_queue PIMRequest_ctor) @ filter (\<lambda>v. v ! 0 = 0) vecs \<and>
    distinct vecs"
proof (rule Read_kernel_commands)
  show "in_memory hbm3_80GB (hw_type \<lparr>hw_type = GPU, hw_bandwidth_x = 0\<rparr>) sample_object"
    by (simp add: in_memory_def sample_object_def MemoryObject_ctor_def capacity_presets) (simp add: hbm3_80GB_def)
qed simp

text \<open>
  a wider PIM issues fewer commands for the same data: on an object in the memory every
  command of the x16 configuration is issued by x8, and every command of x8 by x4; other bandwidth
  factors are rejected and a GPU issues no GEMV command at all.
\<close>

theorem GEMV_bandwidth_monotone:
  assumes "in_memory mc PIM mo" "operand oSrc = Some [mo]"
  shows "\<exists>r16 r8 r4.
    GEMV mc kGEMV operand \<lparr>hw_type = PIM, hw_bandwidth_x = 16\<rparr> PIMRequest_ctor = Inr r16 \<and>
    GEMV mc kGEMV operand \<lparr>hw_type = PIM, hw_bandwidth_x = 8\<rparr> PIMRequest_ctor = Inr r8 \<and>
    GEMV mc kGEMV operand \<lparr>hw_type = PIM, hw_bandwidth_x = 4\<rparr> PIMRequest_ctor = Inr r4 \<and>
    set (command_queue r16) \<subseteq> set (command_queue r8) \<and> set (command_queue r8) \<subseteq> set (command_queue r4) \<and>
    length (command_queue r16) \<le> length (command_queue r8) \<and> length (command_queue r8) \<le> length (command_queue r4) \<and>
    GEMV mc kGEMV operand \<lparr>hw_type = PIM, hw_bandwidth_x = 2\<rparr> PIMRequest_ctor
      = Inl (Fail ''Not supported bandwidth_x configuration'') \<and>
    GEMV mc kGEMV operand \<lparr>hw_type = GPU, hw_bandwidth_x = x\<rparr> PIMRequest_ctor = Inr PIMRequest_ctor"
proof -
  let ?mk = "\<lambda>addr_vec. \<lparr>pc_dramreq_type = kGEMV, pc_type = pMAC, pc_op_type = oSrc, pc_addr_vec = addr_vec\<rparr>"
  have gpu: "in_memory mc GPU mo" using assms(1) by (simp add: in_memory_def)
  obtain vec where vec: "\<forall>i. 0 \<le> i \<longrightarrow> i < getBundleSize mo \<longrightarrow> mo_getAddrVec mc mo i GPU = Inr (vec i)"
    using in_memory_vectors [OF gpu] by blast
  define vs where "vs = map vec (irange 0 (getBundleSize mo))"
  have loop: "\<exists>r'. bundle_loop mc GPU cond ?mk mo PIMRequest_ctor = Inr r' \<and>
      command_queue r' = map ?mk (filter cond vs)" for cond
    using bundle_loop_result [of mo mc GPU vec cond ?mk PIMRequest_ctor] vec
    by (auto simp: PIMRequest_ctor_def vs_def)
  obtain r16 r8 r4 where r: "bundle_loop mc GPU gemv_x16 ?mk mo PIMRequest_ctor = Inr r16"
    "command_queue r16 = map ?mk (filter gemv_x16 vs)"
    "bundle_loop mc GPU gemv_x8 ?mk mo PIMRequest_ctor = Inr r8"
    "command_queue r8 = map ?mk (filter gemv_x8 vs)"
    "bundle_loop mc GPU gemv_x4 ?mk mo PIMRequest_ctor = Inr r4"
    "command_queue r4 = map ?mk (filter gemv_x4 vs)"
    using loop [of gemv_x16] loop [of gemv_x8] loop [of gemv_x4] by blast
  have imp: "gemv_x16 v \<Longrightarrow> gemv_x8 v" "gemv_x8 v \<Longrightarrow> gemv_x4 v" for v
    by (simp_all add: gemv_x16_def gemv_x8_def gemv_x4_def)
  then have "length (filter gemv_x16 vs) \<le> length (filter gemv_x8 vs)"
    "length (filter gemv_x8 vs) \<le> length (filter gemv_x4 vs)"
    by (induction vs) auto
  moreover have "set (filter gemv_x16 vs) \<subseteq> set (filter gemv_x8 vs)" "set (filter gemv_x8 vs) \<subseteq> set (filter gemv_x4 vs)"
    using imp by auto
  ultimately show ?thesis
    using assms(2) r
    by (intro exI [of _ r16] exI [of _ r8] exI [of _ r4])
      (auto simp: GEMV_def get_operand_def vec_at_def fail_def)
qed

theorem GEMV_bandwidth_monotone_witness:
  "\<exists>r16 r8 r4.
    GEMV hbm3_80GB kGEMV [oSrc \<mapsto> [sample_object]] \<lparr>hw_type = PIM, hw_bandwidth_x = 16\<rparr> PIMRequest_ctor = Inr r16 \<and>
    GEMV hbm3_80GB kGEMV [oSrc \<mapsto> [sample_object]] \<lparr>hw_type = PIM, hw_bandwidth_x = 8\<rparr> PIMRequest_ctor = Inr r8 \<and>
    GEMV hbm3_80GB kGEMV [oSrc \<mapsto> [sample_object]] \<lparr>hw_type = PIM, hw_bandwidth_x = 4\<rparr> PIMRequest_ctor = Inr r4 \<and>
    set (command_queue r16) \<subseteq> set (command_queue r8) \<and> set (command_queue r8) \<subseteq> set (command_queue r4) \<and>
    length (command_queue r16) \<le> length (command_queue r8) \<and> length (command_queue r8) \<le> length (command_queue r4) \<and>
    GEMV hbm3_80GB kGEMV [oSrc \<mapsto> [sample_object]] \<lparr>hw_type = PIM, hw_bandwidth_x = 2\<rparr> PIMRequest_ctor
      = Inl (Fail ''Not supported bandwidth_x configuration'') \<and>
    GEMV hbm3_80GB kGEMV [oSrc \<mapsto> [sample_object]] \<lparr>hw_type = GPU, hw_bandwidth_x = 0\<rparr> PIMRequest_ctor = Inr PIMRequest_ctor"
proof (rule GEMV_bandwidth_monotone)
  show "in_memory hbm3_80GB PIM sample_object"
    by (simp add: in_memory_def sample_object_def MemoryObject_ctor_def capacity_presets) (simp add: hbm3_80GB_def)
qed simp

theorem GeneratePIMCommand_counters_witness:
  "\<exists>r. GeneratePIMCommand hbm3_80GB \<lparr>hw_type = GPU, hw_bandwidth_x = 0\<rparr>
      (AddOperand sample_object oDRAM (DRAMRequest_ctor kRead)) PIMRequest_ctor = Inr r \<and>
    issued_pim_cmd r ! pimcmd_int pRead = count_cmd pRead (command_queue r) \<and>
    issued_pim_cmd r ! pimcmd_int pMAC = count_cmd pMAC (command_queue r)"
proof -
  let ?hw = "\<lparr>hw_type = GPU, hw_bandwidth_x = 0\<rparr>"
  let ?req = "AddOperand sample_object oDRAM (DRAMRequest_ctor kRead)"
  have "in_memory hbm3_80GB GPU sample_object"
    by (simp add: in_memory_def sample_object_def MemoryObject_ctor_def capacity_presets) (simp add: hbm3_80GB_def)
  then obtain vec where
    "\<forall>i. 0 \<le> i \<longrightarrow> i < getBundleSize sample_object \<longrightarrow> mo_getAddrVec hbm3_80GB sample_object i GPU = Inr (vec i)"
    using in_memory_vectors by blast
  then have "\<exists>r. bundle_loop hbm3_80GB GPU cond mk sample_object PIMRequest_ctor = Inr r" for cond mk
    using bundle_loop_result [of sample_object hbm3_80GB GPU vec cond mk PIMRequest_ctor] by blast
  then obtain r where "bundle_loop hbm3_80GB GPU (\<lambda>addr_vec. addr_vec ! 0 = 0)
      (\<lambda>addr_vec. \<lparr>pc_dramreq_type = kRead, pc_type = pRead, pc_op_type = oDRAM, pc_addr_vec = addr_vec\<rparr>)
      sample_object PIMRequest_ctor = Inr r"
    by blast
  then have "GeneratePIMCommand hbm3_80GB ?hw ?req PIMRequest_ctor = Inr r"
    by (simp add: GeneratePIMCommand_def kernel_table_def DRAMRequest_ctor_def AddOperand_def
        Read_kernel_def get_operand_def)
  then show ?thesis
    using GeneratePIMCommand_counters [of hbm3_80GB ?hw ?req r] by auto
qed

end
