(* ===== verification/Exec_Status.thy ===== *)
theory Exec_Status
  imports Tensor_Model
begin

text \<open>
  What executing an operation costs and where a device stands: \<^verbatim>\<open>ExecStatus\<close> and
  \<^verbatim>\<open>StatusBoard\<close> of \<^verbatim>\<open>src/module/status.h\<close> and the DRAM
  energy table of \<^verbatim>\<open>src/dram/power.h\<close>. Tensors are referred to by their number in
  the device's tensor store; a null pointer is \<open>None\<close>.
\<close>

section \<open>\<^verbatim>\<open>ExecStatus\<close>\<close>

record exec_status =
  es_processor_type :: ProcessorType
  es_time :: real
  es_total_duration :: real
  es_compute_duration :: real
  es_memory_duration :: real
  es_qk_duration :: real
  es_softmax_duration :: real
  es_score_v_duration :: real
  es_kv_quant_duration :: real
  es_kv_quant_bytes :: real
  es_pim_rb_duration :: real
  es_pim_pe_duration :: real
  es_pim_rb_qk :: real
  es_pim_pe_qk :: real
  es_pim_rb_sv :: real
  es_pim_pe_sv :: real
  es_flops :: real
  es_memory_size :: real
  es_opb :: real
  es_compute_util :: real
  es_memory_util :: real
  es_generic_read_cmd :: int
  es_generic_write_cmd :: int
  es_compute_pim_cmd :: int
  es_move_pim_cmd :: int
  es_act_count :: int
  es_read_count :: int
  es_write_count :: int
  es_all_act_count :: int
  es_all_read_count :: int
  es_all_write_count :: int
  es_ref_count :: int
  es_parallel_execution :: bool

definition ExecStatus_ctor :: exec_status where
  "ExecStatus_ctor = \<lparr>es_processor_type = PT_NONE, es_time = 0, es_total_duration = 0,
     es_compute_duration = 0, es_memory_duration = 0, es_qk_duration = 0, es_softmax_duration = 0,
     es_score_v_duration = 0, es_kv_quant_duration = 0, es_kv_quant_bytes = 0,
     es_pim_rb_duration = 0, es_pim_pe_duration = 0, es_pim_rb_qk = 0, es_pim_pe_qk = 0,
     es_pim_rb_sv = 0, es_pim_pe_sv = 0, es_flops = 0, es_memory_size = 0, es_opb = 0,
     es_compute_util = 0, es_memory_util = 0, es_generic_read_cmd = 0, es_generic_write_cmd = 0,
     es_compute_pim_cmd = 0, es_move_pim_cmd = 0, es_act_count = 0, es_read_count = 0,
     es_write_count = 0, es_all_act_count = 0, es_all_read_count = 0, es_all_write_count = 0,
     es_ref_count = 0, es_parallel_execution = False\<rparr>"

text \<open>
  \<^verbatim>\<open>operator+=\<close>, statement by statement: the compute duration, the flops, the sizes
  and the utilisations of the left operand stay, and the move counter is increased by the compute
  counter of the right operand.
\<close>

definition exec_status_add :: "exec_status \<Rightarrow> exec_status \<Rightarrow> exec_status" where
  "exec_status_add s rhs = s\<lparr>
     es_total_duration := es_total_duration s + es_total_duration rhs,
     es_memory_duration := es_memory_duration s + es_memory_duration rhs,
     es_qk_duration := es_qk_duration s + es_qk_duration rhs,
     es_softmax_duration := es_softmax_duration s + es_softmax_duration rhs,
     es_score_v_duration := es_score_v_duration s + es_score_v_duration rhs,
     es_kv_quant_duration := es_kv_quant_duration s + es_kv_quant_duration rhs,
     es_kv_quant_bytes := es_kv_quant_bytes s + es_kv_quant_bytes rhs,
     es_pim_rb_duration := es_pim_rb_duration s + es_pim_rb_duration rhs,
     es_pim_pe_duration := es_pim_pe_duration s + es_pim_pe_duration rhs,
     es_pim_rb_qk := es_pim_rb_qk s + es_pim_rb_qk rhs,
     es_pim_pe_qk := es_pim_pe_qk s + es_pim_pe_qk rhs,
     es_pim_rb_sv := es_pim_rb_sv s + es_pim_rb_sv rhs,
     es_pim_pe_sv := es_pim_pe_sv s + es_pim_pe_sv rhs,
     es_generic_read_cmd := es_generic_read_cmd s + es_generic_read_cmd rhs,
     es_compute_pim_cmd := es_compute_pim_cmd s + es_compute_pim_cmd rhs,
     es_move_pim_cmd := es_move_pim_cmd s + es_compute_pim_cmd rhs,
     es_act_count := es_act_count s + es_act_count rhs,
     es_read_count := es_read_count s + es_read_count rhs,
     es_write_count := es_write_count s + es_write_count rhs,
     es_all_act_count := es_all_act_count s + es_all_act_count rhs,
     es_all_read_count := es_all_read_count s + es_all_read_count rhs,
     es_all_write_count := es_all_write_count s + es_all_write_count rhs,
     es_ref_count := es_ref_count s + es_ref_count rhs\<rparr>"

section \<open>\<^verbatim>\<open>StatusBoard\<close>\<close>

record status_board =
  sb_device_time :: real
  sb_high_time :: real
  sb_low_time :: real
  sb_tensor :: "nat option"
  sb_tensor_vec :: "nat list"
  sb_act_energy :: real
  sb_read_energy :: real
  sb_write_energy :: real
  sb_all_act_energy :: real
  sb_all_read_energy :: real
  sb_all_write_energy :: real
  sb_mac_energy :: real
  sb_compute_util :: real
  sb_memory_util :: real
  sb_start_time :: real
  sb_end_time :: real
  sb_flops :: real
  sb_memory_size :: real
  sb_opb :: real
  sb_isTensorVec :: bool
  sb_input_tensor_shape :: "int list"
  sb_output_tensor_shape :: "int list"
  sb_input_tensor_vec_shape :: "int list list"
  sb_output_tensor_vec_shape :: "int list list"
  sb_processor_type :: ProcessorType
  sb_parallel_execution :: bool
  sb_qk_duration :: real
  sb_softmax_duration :: real
  sb_score_v_duration :: real
  sb_kv_quant_duration :: real
  sb_pim_rb_duration :: real
  sb_pim_pe_duration :: real
  sb_pim_rb_qk :: real
  sb_pim_pe_qk :: real
  sb_pim_rb_sv :: real
  sb_pim_pe_sv :: real

definition StatusBoard_ctor :: status_board where
  "StatusBoard_ctor = \<lparr>sb_device_time = 0, sb_high_time = 0, sb_low_time = 0, sb_tensor = None,
     sb_tensor_vec = [], sb_act_energy = 0, sb_read_energy = 0, sb_write_energy = 0,
     sb_all_act_energy = 0, sb_all_read_energy = 0, sb_all_write_energy = 0, sb_mac_energy = 0,
     sb_compute_util = 0, sb_memory_util = 0, sb_start_time = 0, sb_end_time = 0, sb_flops = 0,
     sb_memory_size = 0, sb_opb = 0, sb_isTensorVec = False, sb_input_tensor_shape = [],
     sb_output_tensor_shape = [], sb_input_tensor_vec_shape = [], sb_output_tensor_vec_shape = [],
     sb_processor_type = PT_NONE, sb_parallel_execution = False, sb_qk_duration = 0,
     sb_softmax_duration = 0, sb_score_v_duration = 0, sb_kv_quant_duration = 0,
     sb_pim_rb_duration = 0, sb_pim_pe_duration = 0, sb_pim_rb_qk = 0, sb_pim_pe_qk = 0,
     sb_pim_rb_sv = 0, sb_pim_pe_sv = 0\<rparr>"

section \<open>DRAM energy\<close>

record dram_energy =
  kACT_energy :: real
  kREAD_energy :: real
  kWRITE_energy :: real
  kALL_ACT_energy :: real
  kALL_READ_energy :: real
  kALL_WRITE_energy :: real
  kMAC_energy :: real

definition gpuEnergy :: dram_energy where
  "gpuEnergy = \<lparr>kACT_energy = 909 / 1000, kREAD_energy = 891 / 1000, kWRITE_energy = 891 / 1000,
     kALL_ACT_energy = 0, kALL_READ_energy = 0, kALL_WRITE_energy = 0,
     kMAC_energy = 46 / 100 / 2 / 1000\<rparr>"

definition logicEnergy :: dram_energy where
  "logicEnergy = \<lparr>kACT_energy = 909 / 1000, kREAD_energy = 464 / 1000, kWRITE_energy = 464 / 1000,
     kALL_ACT_energy = 909 / 1000 * 8, kALL_READ_energy = 464 / 1000 * 8,
     kALL_WRITE_energy = 464 / 1000 * 8, kMAC_energy = 46 / 100 / 2 / 1000\<rparr>"

definition pimBankgroupEnergy :: dram_energy where
  "pimBankgroupEnergy = \<lparr>kACT_energy = 909 / 1000, kREAD_energy = 686 / 1000, kWRITE_energy = 686 / 1000,
     kALL_ACT_energy = 909 / 1000 * 8, kALL_READ_energy = 686 / 1000 * 8,
     kALL_WRITE_energy = 686 / 1000 * 8, kMAC_energy = 46 / 100 / 2 / 1000\<rparr>"

definition pimEnergy :: dram_energy where
  "pimEnergy = \<lparr>kACT_energy = 909 / 1000, kREAD_energy = 187 / 1000, kWRITE_energy = 187 / 1000,
     kALL_ACT_energy = 909 / 1000 * 32, kALL_READ_energy = 187 / 1000 * 32,
     kALL_WRITE_energy = 187 / 1000 * 32, kMAC_energy = 46 / 100 / 2 / 1000\<rparr>"

text \<open>
  \<^verbatim>\<open>Device::initializeDRAM\<close>: per-command energies times the pseudo channels a
  command of that processor reaches.
\<close>

definition initializeDRAM :: "memory_config \<Rightarrow> ProcessorType \<Rightarrow> dram_energy \<Rightarrow> dram_energy" where
  "initializeDRAM mc pt e =
     (let num_pseudo_ch = (if pt = GPU then cdiv (num_cube mc * num_channel mc) 2
                           else num_cube mc * num_channel mc);
          n = real_of_int num_pseudo_ch
      in e\<lparr>kACT_energy := kACT_energy e * n, kREAD_energy := kREAD_energy e * n,
           kWRITE_energy := kWRITE_energy e * n, kALL_ACT_energy := kALL_ACT_energy e * n,
           kALL_READ_energy := kALL_READ_energy e * n, kALL_WRITE_energy := kALL_WRITE_energy e * n\<rparr>)"

end
