(* ===== verification/Device_Model.thy ===== *)
theory Device_Model
  imports Pim_Kernel Exec_Status
begin

text \<open>
  A device and its DRAM interface: the state of \<^verbatim>\<open>src/hardware/device.h\<close> and
  \<^verbatim>\<open>device.cpp\<close>, \<^verbatim>\<open>src/dram/dram_interface.cpp\<close>, and
  \<^verbatim>\<open>src/hardware/layer_impl.cpp\<close>. Ramulator is not part of the repository: it is
  the parameter \<open>ram\<close>, which completes a request (its start and end cycle and its DRAM
  command counters) from the requests sent before and the request itself. The execution cache, which
  the cluster owns, is a field of the device that uses it.
\<close>

section \<open>State\<close>

type_synonym cache_key = "LayerType \<times> ProcessorType \<times> DRAMRequestType \<times> int"

type_synonym ramulator = "pim_request list \<Rightarrow> pim_request \<Rightarrow> pim_request"

record device =
  dv_config :: system_config
  dv_total_rank :: int
  dv_mc :: memory_config
  dv_cache :: "cache_key \<rightharpoonup> exec_status"
  dv_dram_exec :: exec_status
  dv_dram_time :: real
  dv_scale :: real
  dv_hw :: pim_hw_config
  dv_log :: "pim_request list"
  dv_exec_status :: exec_status
  dv_high_exec_status :: exec_status
  dv_low_exec_status :: exec_status
  dv_status :: status_board
  dv_perform_execution :: bool

text \<open>
  \<^verbatim>\<open>Device::Device\<close>: the memory of the GPU generation with the cube counts of the
  configuration; an unknown generation (the A100 preset is one) keeps the defaults of
  \<^verbatim>\<open>MemoryConfig\<close> and the scale factor 0, and its YAML path is empty, so loading
  the DRAM configuration throws.
\<close>

definition device_memory :: "system_config \<Rightarrow> (memory_config \<times> real) option" where
  "device_memory c =
     (if gpu_gen c = ''H100'' then
        Some (hbm3_80GB\<lparr>num_cube := sc_num_cube c, num_logic_cube := sc_num_logic_cube c\<rparr>, 76923 / 100000)
      else if gpu_gen c = ''B100'' \<or> gpu_gen c = ''B200'' then
        Some (hbm3e_192GB\<lparr>num_cube := sc_num_cube c, num_logic_cube := sc_num_logic_cube c\<rparr>, 1 / 2)
      else None)"

definition Device_ctor :: "system_config \<Rightarrow> int \<Rightarrow> device res" where
  "Device_ctor c rank =
     (case device_memory c of
        None \<Rightarrow> fail ''bad file''
      | Some (mc, scale) \<Rightarrow> Inr \<lparr>dv_config = c, dv_total_rank = rank, dv_mc = mc, dv_cache = Map.empty,
          dv_dram_exec = ExecStatus_ctor, dv_dram_time = 0, dv_scale = scale,
          dv_hw = \<lparr>hw_type = GPU, hw_bandwidth_x = 0\<rparr>, dv_log = [],
          dv_exec_status = ExecStatus_ctor, dv_high_exec_status = ExecStatus_ctor,
          dv_low_exec_status = ExecStatus_ctor, dv_status = StatusBoard_ctor,
          dv_perform_execution = False\<rparr>)"

definition device_local_rank :: "device \<Rightarrow> int" where
  "device_local_rank d = cmod (dv_total_rank d) (num_device (dv_config d))"

definition reset_status :: "device \<Rightarrow> device" where
  "reset_status d = d\<lparr>dv_status := StatusBoard_ctor\<rparr>"

definition get_time :: "device \<Rightarrow> real" where
  "get_time d = sb_device_time (dv_status d)"

definition set_time :: "real \<Rightarrow> device \<Rightarrow> device" where
  "set_time t d = d\<lparr>dv_status := (dv_status d)\<lparr>sb_device_time := t\<rparr>\<rparr>"

definition setPerformExecution :: "bool \<Rightarrow> device \<Rightarrow> device" where
  "setPerformExecution p d = d\<lparr>dv_perform_execution := p\<rparr>"

definition setExecStatus :: "exec_status \<Rightarrow> device \<Rightarrow> device" where
  "setExecStatus es d = d\<lparr>dv_exec_status := es\<rparr>"

text \<open>The three getters read once: they leave an empty status behind.\<close>

definition getExecStatus :: "device \<Rightarrow> exec_status \<times> device" where
  "getExecStatus d = (dv_exec_status d, d\<lparr>dv_exec_status := ExecStatus_ctor\<rparr>)"

definition getHighExecStatus :: "device \<Rightarrow> exec_status \<times> device" where
  "getHighExecStatus d = (dv_high_exec_status d, d\<lparr>dv_high_exec_status := ExecStatus_ctor\<rparr>)"

definition getLowExecStatus :: "device \<Rightarrow> exec_status \<times> device" where
  "getLowExecStatus d = (dv_low_exec_status d, d\<lparr>dv_low_exec_status := ExecStatus_ctor\<rparr>)"

text \<open>\<^verbatim>\<open>emplace\<close> does not replace an entry.\<close>

definition addExecutionCache :: "exec_status \<Rightarrow> cache_key \<Rightarrow> device \<Rightarrow> device" where
  "addExecutionCache es key d =
     (if dv_cache d key = None then d\<lparr>dv_cache := (dv_cache d)(key \<mapsto> es)\<rparr> else d)"

definition checkExecutionCache :: "cache_key \<Rightarrow> device \<Rightarrow> exec_status option" where
  "checkExecutionCache key d = dv_cache d key"

section \<open>The DRAM interface\<close>

definition resetCounter :: "device \<Rightarrow> device" where
  "resetCounter d = d\<lparr>dv_dram_exec := ExecStatus_ctor\<rparr>"

definition setPIMHWConfig :: "ProcessorType \<Rightarrow> int \<Rightarrow> device \<Rightarrow> device" where
  "setPIMHWConfig t bandwidth_x d = d\<lparr>dv_hw := \<lparr>hw_type = t, hw_bandwidth_x = bandwidth_x\<rparr>\<rparr>"

definition updateStatus :: "pim_request \<Rightarrow> device \<Rightarrow> device" where
  "updateStatus r d =
     (let duration = real_of_int (pr_end r - pr_start r) * dv_scale d;
          c = (\<lambda>i. issued_dram_cmd r ! i); es = dv_dram_exec d
      in d\<lparr>dv_dram_time := dv_dram_time d + duration,
           dv_dram_exec := es\<lparr>es_memory_duration := es_memory_duration es + duration,
             es_act_count := es_act_count es + c 0,
             es_read_count := es_read_count es + c 4,
             es_write_count := es_write_count es + c 5,
             es_all_act_count := es_all_act_count es + c 6,
             es_all_read_count := es_all_read_count es + c 7,
             es_all_write_count := es_all_write_count es + c 8,
             es_ref_count := es_ref_count es + c 9\<rparr>\<rparr>)"

text \<open>One request: expand it, let the memory system run it, read the counters.\<close>

definition handle_one :: "ramulator \<Rightarrow> dram_request \<Rightarrow> device \<Rightarrow> device res" where
  "handle_one ram req d =
     rbind (GeneratePIMCommand (dv_mc d) (dv_hw d) req PIMRequest_ctor) (\<lambda>r.
     Inr (updateStatus (ram (dv_log d) r) (d\<lparr>dv_log := dv_log d @ [r]\<rparr>)))"

definition HandleRequest :: "ramulator \<Rightarrow> dram_request list \<Rightarrow> device \<Rightarrow> device res" where
  "HandleRequest ram requests d = rfold (handle_one ram) requests (resetCounter d)"

definition run_ramulator :: "ramulator \<Rightarrow> dram_request \<Rightarrow> device \<Rightarrow> device res" where
  "run_ramulator ram req d = HandleRequest ram [req] d"

text \<open>
  \<^verbatim>\<open>run_ideal\<close>: command counts of an ideally interleaved transfer. For an empty tensor
  it returns at once and the counters stay what they were.
\<close>

definition run_ideal :: "DRAMRequestType \<Rightarrow> tensor \<Rightarrow> device \<Rightarrow> device" where
  "run_ideal req t d =
     (let total_size = getSize t; mc = dv_mc d in
      if total_size = 0 then d else
      let total_read = cdiv total_size (granul mc);
          to_cube_0 = (if cmod total_read (num_cube mc) = 0 then cdiv total_read (num_cube mc)
                       else cdiv total_read (num_cube mc) + 1);
          to_pCH_0 = (if cmod to_cube_0 (num_channel mc) = 0 then cdiv to_cube_0 (num_channel mc)
                      else cdiv to_cube_0 (num_channel mc) + 1);
          to_pCH_1 = (if cmod to_cube_0 (num_channel mc) = 1 then cdiv to_cube_0 (num_channel mc)
                      else cdiv to_cube_0 (num_channel mc) + 1);
          d = resetCounter d;
          es = (dv_dram_exec d)\<lparr>es_act_count :=
            (if to_pCH_0 + to_pCH_1 < num_col mc then 1 else cdiv (to_pCH_0 + to_pCH_1) (num_col mc))\<rparr>;
          es = (if req = kRead then es\<lparr>es_read_count := to_pCH_0 + to_pCH_1\<rparr>
                else if req = kWrite then es\<lparr>es_write_count := to_pCH_0 + to_pCH_1\<rparr>
                else es)
      in d\<lparr>dv_dram_exec := es\<rparr>)"

section \<open>Memory costs of a layer\<close>

text \<open>
  \<^verbatim>\<open>issueRamulator\<close>: simulate a transfer once per key. The local
  \<^verbatim>\<open>ExecStatus\<close> of the code is overwritten on both paths.
\<close>

definition issueRamulator ::
  "ramulator \<Rightarrow> LayerType \<Rightarrow> ProcessorType \<Rightarrow> DRAMRequestType \<Rightarrow> PIMOperandType \<Rightarrow> tensor \<Rightarrow> device \<Rightarrow> (exec_status \<times> device) res" where
  "issueRamulator ram layer pt req opnd t d =
     (let key = (layer, pt, req, getSize t) in
      case checkExecutionCache key d of
        Some es \<Rightarrow> Inr (es, d)
      | None \<Rightarrow>
          (case t_memory_object t of
             None \<Rightarrow> Inl NullPointer
           | Some mo \<Rightarrow>
               rbind (run_ramulator ram (AddOperand mo opnd (DRAMRequest_ctor req)) d) (\<lambda>d.
               let es = dv_dram_exec d in Inr (es, addExecutionCache es key d))))"

definition getIdealMemoryStatus :: "DRAMRequestType \<Rightarrow> tensor \<Rightarrow> device \<Rightarrow> exec_status \<times> device" where
  "getIdealMemoryStatus req t d = (let d = run_ideal req t d in (dv_dram_exec d, d))"

section \<open>The cache\<close>

lemma handle_one_keeps:
  assumes "handle_one ram req d = Inr d'"
  shows "dv_config d' = dv_config d \<and> dv_cache d' = dv_cache d \<and> dv_mc d' = dv_mc d"
  using assms by (auto simp: handle_one_def rbind_eq_Inr updateStatus_def Let_def)

lemma run_ramulator_keeps:
  assumes "run_ramulator ram req d = Inr d'"
  shows "dv_config d' = dv_config d \<and> dv_cache d' = dv_cache d \<and> dv_mc d' = dv_mc d"
  using assms
  by (auto simp: run_ramulator_def HandleRequest_def resetCounter_def rbind_eq_Inr dest!: handle_one_keeps)

lemma issueRamulator_keeps:
  assumes "issueRamulator ram layer pt req opnd t d = Inr (es, d')"
  shows "dv_config d' = dv_config d \<and> dv_mc d' = dv_mc d \<and> dv_cache d \<subseteq>\<^sub>m dv_cache d' \<and>
    dv_cache d' (layer, pt, req, getSize t) = Some es"
proof (cases "dv_cache d (layer, pt, req, getSize t)")
  case (Some x)
  with assms show ?thesis by (simp add: issueRamulator_def checkExecutionCache_def Let_def)
next
  case None
  with assms obtain mo d1 where "run_ramulator ram (AddOperand mo opnd (DRAMRequest_ctor req)) d = Inr d1"
    and es: "es = dv_dram_exec d1" and d': "d' = addExecutionCache es (layer, pt, req, getSize t) d1"
    by (auto simp: issueRamulator_def checkExecutionCache_def Let_def rbind_eq_Inr split: option.splits)
  from run_ramulator_keeps [OF this(1)] None show ?thesis
    by (auto simp: d' addExecutionCache_def map_le_def)
qed

text \<open>
  C28: once a transfer has been simulated, any later transfer with the same layer, processor,
  request type and size, even after other transfers, costs the same, is not simulated again and
  changes nothing.
\<close>

theorem issueRamulator_simulates_once:
  assumes "issueRamulator ram layer pt req opnd t d = Inr (es, d1)"
    and "dv_cache d1 \<subseteq>\<^sub>m dv_cache d2" "getSize u = getSize t"
  shows "issueRamulator ram layer pt req opnd' u d2 = Inr (es, d2)"
proof -
  have "dv_cache d1 (layer, pt, req, getSize t) = Some es"
    using issueRamulator_keeps [OF assms(1)] by blast
  then have "dv_cache d2 (layer, pt, req, getSize u) = Some es"
    using assms(2,3) by (force simp: map_le_def dom_def)
  then show ?thesis by (simp add: issueRamulator_def checkExecutionCache_def Let_def)
qed

definition example_device :: device where
  "example_device = (case Device_ctor H100 0 of Inr d \<Rightarrow> d | Inl _ \<Rightarrow> undefined)"

definition example_tensor :: tensor where
  "example_tensor = (Tensor_ctor ''x'' [16, 64] ''act'' (Some 0) 2 ALL_CHANNEL)
     \<lparr>t_memory_object := Some (MemoryObject_ctor hbm3_80GB ALL_CHANNEL 0 64)\<rparr>"

definition example_ramulator :: ramulator where
  "example_ramulator hist r = r\<lparr>pr_end := 100 + int (length hist)\<rparr>"

lemma example_issue_runs:
  "\<exists>es d. issueRamulator example_ramulator LINEAR GPU kRead oDRAM example_tensor example_device = Inr (es, d)"
proof -
  have "\<exists>r. GeneratePIMCommand hbm3_80GB hw (AddOperand (MemoryObject_ctor hbm3_80GB ALL_CHANNEL 0 64) oDRAM (DRAMRequest_ctor kRead))
      PIMRequest_ctor = Inr r" if "hw = \<lparr>hw_type = GPU, hw_bandwidth_x = 0\<rparr>" for hw
    using that by (simp add: GeneratePIMCommand_def kernel_table_def AddOperand_def DRAMRequest_ctor_def Let_def
      Read_kernel_def get_operand_def bundle_loop_def getBundleSize_def MemoryObject_ctor_def hbm3_80GB_def
      irange_Cons mo_getAddrVec_def getAddrVec_def addrToVec_def)
  moreover have "dv_mc example_device = hbm3_80GB" "dv_cache example_device = Map.empty"
    "dv_hw example_device = \<lparr>hw_type = GPU, hw_bandwidth_x = 0\<rparr>"
    by (simp_all add: example_device_def Device_ctor_def device_memory_def H100_def SystemConfig_ctor_def hbm3_80GB_def)
  ultimately show ?thesis
    by (auto simp: issueRamulator_def checkExecutionCache_def Let_def example_tensor_def run_ramulator_def
        HandleRequest_def handle_one_def resetCounter_def)
qed

theorem issueRamulator_simulates_once_witness:
  "\<exists>es d. issueRamulator example_ramulator LINEAR GPU kRead oDRAM example_tensor example_device = Inr (es, d) \<and>
     issueRamulator example_ramulator LINEAR GPU kRead oSrc example_tensor d = Inr (es, d)"
proof -
  obtain es d where run: "issueRamulator example_ramulator LINEAR GPU kRead oDRAM example_tensor example_device = Inr (es, d)"
    using example_issue_runs by blast
  have "issueRamulator example_ramulator LINEAR GPU kRead oSrc example_tensor d = Inr (es, d)"
    by (rule issueRamulator_simulates_once [OF run]) simp_all
  with run show ?thesis by blast
qed

section \<open>The ideal command counts\<close>

text \<open>
  the number of read commands \<^verbatim>\<open>run_ideal\<close> charges: the commands \<open>c\<close>
  of cube 0 are spread over the channels and counted for the two first ones, with one command too
  many whenever \<open>c\<close> divides evenly (the remainder test for the second channel should be the
  test for at most one command left). An empty tensor leaves the counters of the previous transfer.
\<close>

theorem run_ideal_read_count:
  assumes "wf_mc (dv_mc d)" "1 < num_channel (dv_mc d)" "0 \<le> getSize t"
  defines "tot \<equiv> getSize t div granul (dv_mc d)"
  defines "c \<equiv> tot div num_cube (dv_mc d) + (if tot mod num_cube (dv_mc d) = 0 then 0 else 1)"
  shows "(getSize t \<noteq> 0 \<longrightarrow> es_read_count (dv_dram_exec (run_ideal kRead t d)) =
      2 * (c div num_channel (dv_mc d)) + (if c mod num_channel (dv_mc d) \<le> 1 then 1 else 2)) \<and>
    (getSize t = 0 \<longrightarrow> run_ideal kRead t d = d)"
proof -
  let ?mc = "dv_mc d"
  have pos: "0 < granul ?mc" "0 < num_cube ?mc" "0 < num_channel ?mc"
    using assms(1,2) by (simp_all add: wf_mc_def)
  have tot: "cdiv (getSize t) (granul ?mc) = tot" "0 \<le> tot"
    using pos assms(3) by (simp_all add: tot_def pos_imp_zdiv_nonneg_iff)
  have c: "(if cmod tot (num_cube ?mc) = 0 then cdiv tot (num_cube ?mc) else cdiv tot (num_cube ?mc) + 1) = c"
    "0 \<le> c"
    using pos tot(2) by (simp_all add: c_def pos_imp_zdiv_nonneg_iff)
  have "0 \<le> c mod num_channel ?mc" using pos by simp
  then have "c mod num_channel ?mc \<le> 1 \<longleftrightarrow> c mod num_channel ?mc = 0 \<or> c mod num_channel ?mc = 1" by linarith
  then show ?thesis
    unfolding run_ideal_def Let_def tot c(1)
    using pos c(2) by auto
qed

theorem run_ideal_read_count_witness:
  "es_read_count (dv_dram_exec (run_ideal kRead (Tensor_ctor ''x'' [32, 160] ''act'' (Some 0) 32 ALL_CHANNEL) example_device)) = 65"
proof -
  let ?t = "Tensor_ctor ''x'' [32, 160] ''act'' (Some 0) 32 ALL_CHANNEL"
  have mc: "dv_mc example_device = hbm3_80GB"
    by (simp add: example_device_def Device_ctor_def device_memory_def H100_def SystemConfig_ctor_def hbm3_80GB_def)
  have sz: "getSize ?t = 163840" by (simp add: Tensor_ctor_def getSize_def)
  have "wf_mc (dv_mc example_device)" "1 < num_channel (dv_mc example_device)" "0 \<le> getSize ?t"
    by (simp_all add: mc sz, simp add: hbm3_80GB_def)
  from run_ideal_read_count [OF this] show ?thesis
    unfolding mc sz by (simp add: hbm3_80GB_def)
qed

end
