(* ===== verification/Batch_Sequence.thy ===== *)
theory Batch_Sequence
  imports Sim_Config
begin

text \<open>
  Sequences and batches of sequences: \<^verbatim>\<open>src/scheduler/sequence.h\<close>,
  \<^verbatim>\<open>sequence.cpp\<close> and the expert routes drawn by
  \<^verbatim>\<open>Scheduler::getRandomExpert\<close> and its variants. A batch holds its sequences by
  value; the unique \<open>id\<close> stands for the pointer. The static random generators are streams of
  draws with a position; the set of distinct experts a loop collects is a list without duplicates.
\<close>

section \<open>\<^verbatim>\<open>Sequence\<close>\<close>

record sequence_info =
  si_Lin :: int
  si_Lout :: int
  si_expert_list :: "int list list"

record sequence =
  sq_id :: int
  sq_expert_seq_id :: int
  sq_input_len :: int
  sq_output_len :: int
  sq_total_len :: int
  sq_num_process_token :: int
  sq_current_len :: int
  sq_num_sum_iter :: int
  sq_gen_start_time :: real
  sq_arrival_time :: real
  sq_first_token_time :: real
  sq_end_token_time :: real
  sq_queueing_delay :: real
  sq_record :: bool
  sq_sum_stage :: bool
  sq_get_expert_from_list :: bool

text \<open>The first argument is the static \<^verbatim>\<open>count_id\<close>, returned incremented.\<close>

definition Sequence_Create :: "int \<Rightarrow> int \<Rightarrow> int \<Rightarrow> int \<Rightarrow> (sequence \<times> int) res" where
  "Sequence_Create count_id expert_seq_id input_len output_len =
     rbind (assertTrue (input_len > 0) (''input len is not valid, input len is '' @ to_string input_len)) (\<lambda>_.
     rbind (assertTrue (output_len > 0) (''output len is not valid, output len is '' @ to_string output_len)) (\<lambda>_.
     Inr (\<lparr>sq_id = count_id, sq_expert_seq_id = expert_seq_id, sq_input_len = input_len,
       sq_output_len = output_len, sq_total_len = input_len + output_len - 1,
       sq_num_process_token = 0, sq_current_len = 0, sq_num_sum_iter = 0, sq_gen_start_time = 0,
       sq_arrival_time = 0, sq_first_token_time = 0, sq_end_token_time = 0, sq_queueing_delay = 0,
       sq_record = False, sq_sum_stage = True, sq_get_expert_from_list = True\<rparr>, count_id + 1)))"

definition setGenStartTime :: "real \<Rightarrow> sequence \<Rightarrow> sequence" where
  "setGenStartTime time s = s\<lparr>sq_gen_start_time := time\<rparr>"

definition seq_update :: "real \<Rightarrow> sequence \<Rightarrow> sequence" where
  "seq_update time s =
     (let s = s\<lparr>sq_end_token_time := sq_end_token_time s + time\<rparr>;
          s = (if sq_sum_stage s then
                 s\<lparr>sq_first_token_time := sq_first_token_time s + time,
                   sq_num_sum_iter := sq_num_sum_iter s + 1\<rparr>
               else s);
          s = s\<lparr>sq_current_len := sq_current_len s + sq_num_process_token s, sq_num_process_token := 0\<rparr>
      in if sq_sum_stage s \<and> sq_current_len s = sq_input_len s then s\<lparr>sq_sum_stage := False\<rparr> else s)"

lemma seq_update_fields [simp]:
  "sq_id (seq_update t s) = sq_id s" "sq_input_len (seq_update t s) = sq_input_len s"
  "sq_total_len (seq_update t s) = sq_total_len s"
  "sq_current_len (seq_update t s) = sq_current_len s + sq_num_process_token s"
  "sq_num_process_token (seq_update t s) = 0" "sq_record (seq_update t s) = sq_record s"
  "sq_gen_start_time (seq_update t s) = sq_gen_start_time s"
  by (simp_all add: seq_update_def Let_def)

text \<open>A sequence still in its prompt, and one that generates.\<close>

definition is_sum :: "sequence \<Rightarrow> bool" where
  "is_sum s \<longleftrightarrow> sq_current_len s < sq_input_len s"

definition is_gen :: "sequence \<Rightarrow> bool" where
  "is_gen s \<longleftrightarrow> sq_current_len s \<ge> sq_input_len s"

section \<open>\<^verbatim>\<open>BatchedSequence\<close>\<close>

record batched_sequence =
  bs_cur_layer :: int
  bs_num_expert :: int
  bs_top_k :: int
  bs_local_num_token_in_expert :: "int list"
  bs_num_token_in_expert :: "int list"
  bs_sequence :: "sequence list"

definition BatchedSequence_Create :: "int \<Rightarrow> int \<Rightarrow> batched_sequence" where
  "BatchedSequence_Create num_expert topk =
     \<lparr>bs_cur_layer = 0, bs_num_expert = num_expert, bs_top_k = topk,
       bs_local_num_token_in_expert = replicate (nat num_expert) 0,
       bs_num_token_in_expert = replicate (nat num_expert) 0, bs_sequence = []\<rparr>"

definition bs_add :: "sequence \<Rightarrow> batched_sequence \<Rightarrow> batched_sequence" where
  "bs_add s b = b\<lparr>bs_sequence := bs_sequence b @ [s]\<rparr>"

definition get_seq :: "batched_sequence \<Rightarrow> sequence list" where
  "get_seq b = bs_sequence b"

definition get_sum :: "batched_sequence \<Rightarrow> sequence list" where
  "get_sum b = filter is_sum (bs_sequence b)"

definition get_gen :: "batched_sequence \<Rightarrow> sequence list" where
  "get_gen b = filter is_gen (bs_sequence b)"

definition bs_update :: "real \<Rightarrow> batched_sequence \<Rightarrow> batched_sequence" where
  "bs_update time b = b\<lparr>bs_sequence := map (seq_update time) (bs_sequence b)\<rparr>"

text \<open>\<^verbatim>\<open>pop\<close> erases every sequence with that id.\<close>

definition bs_pop :: "sequence \<Rightarrow> batched_sequence \<Rightarrow> batched_sequence" where
  "bs_pop s b = b\<lparr>bs_sequence := filter (\<lambda>target. sq_id target \<noteq> sq_id s) (bs_sequence b)\<rparr>"

text \<open>An assignment through a \<^verbatim>\<open>Sequence::Ptr\<close> that the batch shares.\<close>

definition bs_modify :: "int \<Rightarrow> (sequence \<Rightarrow> sequence) \<Rightarrow> batched_sequence \<Rightarrow> batched_sequence" where
  "bs_modify i f b = b\<lparr>bs_sequence := map (\<lambda>s. if sq_id s = i then f s else s) (bs_sequence b)\<rparr>"

definition get_num_seq :: "batched_sequence \<Rightarrow> int" where
  "get_num_seq b = int (length (bs_sequence b))"

definition sum_tokens :: "sequence list \<Rightarrow> int" where
  "sum_tokens ss = fold (\<lambda>s token. token + sq_num_process_token s) ss 0"

definition get_process_token :: "batched_sequence \<Rightarrow> int" where
  "get_process_token b = sum_tokens (bs_sequence b)"

definition get_gen_process_token :: "batched_sequence \<Rightarrow> int" where
  "get_gen_process_token b = sum_tokens (get_gen b)"

definition get_sum_process_token :: "batched_sequence \<Rightarrow> int" where
  "get_sum_process_token b = sum_tokens (get_sum b)"

definition get_total_sequence_length :: "batched_sequence \<Rightarrow> int" where
  "get_total_sequence_length b = fold (\<lambda>s total. total + sq_current_len s) (get_gen b) 0"

definition get_average_sequence_length :: "batched_sequence \<Rightarrow> int" where
  "get_average_sequence_length b =
     (let total_length = get_total_sequence_length b; n = int (length (get_gen b))
      in if n \<noteq> 0 then cdiv total_length n else 0)"

definition clear_expert :: "int list \<Rightarrow> int list" where
  "clear_expert counts = map (\<lambda>_. 0) counts"

definition add_dummy_sequence ::
  "int \<Rightarrow> int \<Rightarrow> int \<Rightarrow> int \<times> batched_sequence \<Rightarrow> (int \<times> batched_sequence) res" where
  "add_dummy_sequence num_seq input_len output_len =
     rfold (\<lambda>_ (count_id, b).
       rbind (Sequence_Create count_id 0 input_len output_len) (\<lambda>(s, count_id).
       Inr (count_id, bs_add (s\<lparr>sq_get_expert_from_list := False\<rparr>) b)))
     (irange 0 num_seq)"

definition add_sequence ::
  "sequence_info list \<Rightarrow> int list \<Rightarrow> int \<times> batched_sequence \<Rightarrow> (int \<times> batched_sequence) res" where
  "add_sequence sequences_info expert_seq_ids =
     rfold (\<lambda>seq_id (count_id, b).
       rbind (vec_at sequences_info seq_id) (\<lambda>info.
       rbind (Sequence_Create count_id seq_id (si_Lin info) (si_Lout info)) (\<lambda>(s, count_id).
       Inr (count_id, bs_add s b))))
     expert_seq_ids"

section \<open>Drawing experts\<close>

text \<open>
  \<^verbatim>\<open>while (route.size() < top_k) route.insert(draw)\<close>: the loop of the three route
  functions. The comparison is unsigned, so a negative \<open>top_k\<close> is never reached. The loop
  need not end, so it has fuel; \<open>pos\<close> counts the draws.
\<close>

fun draw_route :: "nat \<Rightarrow> (nat \<Rightarrow> int) \<Rightarrow> nat \<Rightarrow> int \<Rightarrow> int list \<Rightarrow> (int list \<times> nat) res" where
  "draw_route fuel draw pos topk route =
     (if topk < 0 \<or> int (length route) < topk then
        (case fuel of
           0 \<Rightarrow> Inl OutOfFuel
         | Suc f \<Rightarrow> draw_route f draw (Suc pos) topk (List.insert (draw pos) route))
      else Inr (route, pos))"

declare draw_route.simps [simp del]

record rng =
  rng_fuel :: nat
  rng_expert :: "nat \<Rightarrow> int"
  rng_expert_pos :: nat
  rng_zipf :: "real list \<Rightarrow> nat \<Rightarrow> int"
  rng_zipf_weight :: "real list option"
  rng_zipf_pos :: nat
  rng_seq_id :: "nat \<Rightarrow> int"
  rng_seq_id_pos :: nat
  rng_injection :: "nat \<Rightarrow> int"
  rng_injection_pos :: nat

definition getRandomExpert :: "model_config \<Rightarrow> int \<Rightarrow> rng \<Rightarrow> (int list \<times> rng) res" where
  "getRandomExpert m topk g =
     rbind (draw_route (rng_fuel g) (\<lambda>i. cmod (rng_expert g i) (num_routed_expert m)) (rng_expert_pos g) topk [])
       (\<lambda>(route, pos). Inr (route, g\<lparr>rng_expert_pos := pos\<rparr>))"

text \<open>The distribution is static: the weights of the first call stay in use.\<close>

definition getZipfianRandomExpert :: "model_config \<Rightarrow> real list \<Rightarrow> int \<Rightarrow> rng \<Rightarrow> (int list \<times> rng) res" where
  "getZipfianRandomExpert m weight topk g =
     (let w = (case rng_zipf_weight g of Some w \<Rightarrow> w | None \<Rightarrow> weight);
          g = g\<lparr>rng_zipf_weight := Some w\<rparr>
      in rbind (draw_route (rng_fuel g) (\<lambda>i. cmod (rng_zipf g w i) (num_routed_expert m)) (rng_zipf_pos g) topk [])
           (\<lambda>(route, pos). Inr (route, g\<lparr>rng_zipf_pos := pos\<rparr>)))"

definition getEquallyDistributedExpert :: "nat \<Rightarrow> model_config \<Rightarrow> int \<Rightarrow> int \<Rightarrow> int list res" where
  "getEquallyDistributedExpert fuel m token_id topk =
     rbind (draw_route fuel (\<lambda>i. cmod (token_id + int i) (num_routed_expert m)) 0 topk [])
       (\<lambda>(route, _). Inr route)"

text \<open>\<^verbatim>\<open>getRandomExpertSeqId\<close>\<close>

definition getRandomExpertSeqId :: "int \<Rightarrow> rng \<Rightarrow> int \<times> rng" where
  "getRandomExpertSeqId total_seq_num g =
     (cmod (rng_seq_id g (rng_seq_id_pos g)) total_seq_num, g\<lparr>rng_seq_id_pos := Suc (rng_seq_id_pos g)\<rparr>)"

definition getNumInjection :: "rng \<Rightarrow> int \<times> rng" where
  "getNumInjection g =
     (let p = rng_injection_pos g in
      if rng_injection g p = 0 then (rng_injection g (Suc p), g\<lparr>rng_injection_pos := Suc (Suc p)\<rparr>)
      else (0, g\<lparr>rng_injection_pos := Suc p\<rparr>))"

section \<open>\<^verbatim>\<open>update_expert\<close>\<close>

definition incr_count :: "int \<Rightarrow> int list \<Rightarrow> int list res" where
  "incr_count e counts = rbind (vec_ix counts e) (\<lambda>n. Inr (counts[nat e := n + 1]))"

text \<open>The experts of one token: from the trace, or drawn.\<close>

definition token_experts ::
  "model_config \<Rightarrow> sequence_info list \<Rightarrow> int \<Rightarrow> int \<Rightarrow> real list \<Rightarrow> int \<Rightarrow> sequence \<Rightarrow> int \<Rightarrow> rng \<Rightarrow> (int list \<times> rng) res" where
  "token_experts m infos num_layer cur_layer weight topk s token_id g =
     (if sq_get_expert_from_list s then
        rbind (if 0 < topk then vec_ix infos (sq_expert_seq_id s) else Inr \<lparr>si_Lin = 0, si_Lout = 0, si_expert_list = []\<rparr>) (\<lambda>info.
        rbind (if 0 < topk then vec_ix (si_expert_list info) (token_id * num_layer + cur_layer) else Inr []) (\<lambda>row.
        rbind (rfold (\<lambda>k acc. rbind (vec_ix row k) (\<lambda>e. Inr (acc @ [e]))) (irange 0 topk) []) (\<lambda>es.
        Inr (es, g))))
      else if skewness m > 0 then getZipfianRandomExpert m weight topk g
      else getRandomExpert m topk g)"

definition token_step ::
  "model_config \<Rightarrow> sequence_info list \<Rightarrow> int \<Rightarrow> int \<Rightarrow> real list \<Rightarrow> int \<Rightarrow> sequence \<Rightarrow> int \<Rightarrow> int list \<times> rng \<Rightarrow> (int list \<times> rng) res" where
  "token_step m infos num_layer cur_layer weight topk s token_id cg =
     rbind (token_experts m infos num_layer cur_layer weight topk s token_id (snd cg)) (\<lambda>(es, g).
     rbind (rfold incr_count es (fst cg)) (\<lambda>counts. Inr (counts, g)))"

definition seq_step ::
  "model_config \<Rightarrow> sequence_info list \<Rightarrow> int \<Rightarrow> int \<Rightarrow> real list \<Rightarrow> int \<Rightarrow> sequence \<Rightarrow> int list \<times> rng \<Rightarrow> (int list \<times> rng) res" where
  "seq_step m infos num_layer cur_layer weight topk s cg =
     (if sq_num_process_token s = 0 then Inr cg
      else rfold (token_step m infos num_layer cur_layer weight topk s)
        (irange (sq_current_len s) (sq_current_len s + sq_num_process_token s)) cg)"

definition skewness_weight :: "model_config \<Rightarrow> int \<Rightarrow> real list" where
  "skewness_weight m num_expert = map (\<lambda>i. fdiv 1 (of_int (i + 1) powr skewness m)) (irange 0 num_expert)"

definition update_expert ::
  "model_config \<Rightarrow> sequence_info list \<Rightarrow> int \<Rightarrow> int \<Rightarrow> batched_sequence \<Rightarrow> rng \<Rightarrow> (batched_sequence \<times> rng) res" where
  "update_expert m infos num_expert topk b g =
     (let num_layer = cdiv (num_layers m) (expert_freq m);
          counts = clear_expert (replicate (nat num_expert) 0);
          weight = skewness_weight m num_expert
      in rbind (rfold (seq_step m infos num_layer (bs_cur_layer b) weight topk) (bs_sequence b) (counts, g))
           (\<lambda>(counts, g).
           Inr (b\<lparr>bs_num_token_in_expert := counts, bs_cur_layer := cmod (bs_cur_layer b + 1) num_layer\<rparr>, g)))"

section \<open>Routes\<close>

lemma draw_route_inv:
  assumes "draw_route fuel draw pos k route = Inr (es, pos')" "distinct route" "int (length route) \<le> k"
    "set route \<subseteq> A" "\<And>i. draw i \<in> A"
  shows "distinct es \<and> int (length es) = k \<and> set es \<subseteq> A"
  using assms
proof (induction fuel arbitrary: pos route)
  case 0
  then show ?case by (simp add: draw_route.simps [of 0] split: if_splits)
next
  case (Suc fuel)
  show ?case
  proof (cases "int (length route) < k")
    case True
    have "draw_route fuel draw (Suc pos) k (List.insert (draw pos) route) = Inr (es, pos')"
      using Suc.prems(1) True by (simp add: draw_route.simps [of "Suc fuel"])
    then show ?thesis
      by (rule Suc.IH) (use Suc.prems True in \<open>auto simp: List.insert_def\<close>)
  next
    case False
    with Suc.prems show ?thesis by (simp add: draw_route.simps [of "Suc fuel"])
  qed
qed

lemma draw_route_negative: "k < 0 \<Longrightarrow> draw_route fuel draw pos k route = Inl OutOfFuel"
proof (induction fuel arbitrary: pos route)
  case (Suc fuel)
  then show ?case by (simp add: draw_route.simps [of "Suc fuel"])
qed (simp add: draw_route.simps [of 0])

lemma cmod_range: "0 < n \<Longrightarrow> 0 \<le> a \<Longrightarrow> cmod a n \<in> {0..<n}"
  by simp

text \<open>Consecutive draws modulo \<open>n\<close> are distinct for the first \<open>n\<close> of them.\<close>

lemma mod_window_distinct:
  assumes "0 < (n::int)" "i < n" "0 \<le> j" "j < i"
  shows "(t + i) mod n \<noteq> (t + j) mod n"
proof
  assume "(t + i) mod n = (t + j) mod n"
  then have "n dvd (i - j)" by (metis add_diff_cancel_left mod_eq_dvd_iff)
  with zdvd_not_zless [of "i - j" n] assms show False by simp
qed

lemma equal_route_run:
  assumes "0 < n" "0 \<le> t" "k \<le> n" "int p \<le> k" "nat k - p \<le> fuel" "0 \<le> k"
    and "route = rev (map (\<lambda>i. (t + int i) mod n) [0..<p])"
  shows "draw_route fuel (\<lambda>i. cmod (t + int i) n) p k route =
     Inr (rev (map (\<lambda>i. (t + int i) mod n) [0..<nat k]), nat k)"
  using assms(4-7)
proof (induction fuel arbitrary: p route)
  case 0
  then have "p = nat k" by simp
  with 0 assms show ?case by (simp add: draw_route.simps [of 0])
next
  case (Suc fuel)
  show ?case
  proof (cases "int p < k")
    case True
    have "(t + int p) mod n \<notin> set route"
      using mod_window_distinct [OF assms(1), of "int p"] True assms(3) by (auto simp: Suc.prems(4))
    then have "List.insert ((t + int p) mod n) route = rev (map (\<lambda>i. (t + int i) mod n) [0..<Suc p])"
      by (simp add: Suc.prems(4))
    then have "draw_route fuel (\<lambda>i. cmod (t + int i) n) (Suc p) k (List.insert ((t + int p) mod n) route)
        = Inr (rev (map (\<lambda>i. (t + int i) mod n) [0..<nat k]), nat k)"
      using True Suc.prems by (intro Suc.IH) auto
    then show ?thesis
      using True assms(1,2) Suc.prems(4) by (simp add: draw_route.simps [of "Suc fuel"])
  next
    case False
    then have "p = nat k" using Suc.prems(1) by simp
    with False Suc.prems show ?thesis by (simp add: draw_route.simps [of "Suc fuel"])
  qed
qed

lemma draw_route_starves:
  assumes "distinct route" "set route \<subseteq> A" "\<And>i. draw i \<in> A" "finite A" "int (card A) < k"
  shows "draw_route fuel draw pos k route = Inl OutOfFuel"
  using assms(1,2)
proof (induction fuel arbitrary: pos route)
  case 0
  have "length route \<le> card A" using 0 assms(4) by (metis card_mono distinct_card)
  with assms(5) show ?case by (simp add: draw_route.simps [of 0])
next
  case (Suc fuel)
  have "length route \<le> card A" using Suc.prems assms(4) by (metis card_mono distinct_card)
  moreover have "draw_route fuel draw (Suc pos) k (List.insert (draw pos) route) = Inl OutOfFuel"
    using Suc.prems assms(3) by (intro Suc.IH) auto
  ultimately show ?case
    using assms(5) by (simp add: draw_route.simps [of "Suc fuel"])
qed

text \<open>
  the round-robin route returns \<open>topk\<close> distinct experts, the ones following the token id,
  with \<open>topk\<close> rounds of the loop exactly when there are that many experts; with fewer experts
  it never returns, whatever the fuel.
\<close>

theorem getEquallyDistributedExpert_total:
  assumes "0 < num_routed_expert m" "0 \<le> token_id" "0 \<le> topk"
  shows "(topk \<le> num_routed_expert m \<longrightarrow>
      (\<exists>es. getEquallyDistributedExpert (nat topk) m token_id topk = Inr es \<and> distinct es \<and>
        set es = {(token_id + i) mod num_routed_expert m |i. 0 \<le> i \<and> i < topk} \<and> int (length es) = topk)) \<and>
    (num_routed_expert m < topk \<longrightarrow> getEquallyDistributedExpert fuel m token_id topk = Inl OutOfFuel)"
proof (intro conjI impI)
  let ?n = "num_routed_expert m"
  assume le: "topk \<le> ?n"
  let ?es = "rev (map (\<lambda>i. (token_id + int i) mod ?n) [0..<nat topk])"
  have run: "draw_route (nat topk) (\<lambda>i. cmod (token_id + int i) ?n) 0 topk [] = Inr (?es, nat topk)"
    using assms le by (intro equal_route_run) auto
  have "distinct ?es \<and> int (length ?es) = topk \<and> set ?es \<subseteq> {0..<?n}"
    using run assms by (intro draw_route_inv [OF run]) (auto simp: cmod_range)
  moreover have "set ?es = {(token_id + i) mod ?n |i. 0 \<le> i \<and> i < topk}"
  proof -
    have "int ` {0..<nat topk} = {0..<topk}" using assms(3) by (simp add: image_int_atLeastLessThan)
    then have "(\<lambda>i. (token_id + i) mod ?n) ` (int ` {0..<nat topk}) = (\<lambda>i. (token_id + i) mod ?n) ` {0..<topk}"
      by (rule arg_cong)
    then show ?thesis by (simp add: image_image) auto
  qed
  ultimately show "\<exists>es. getEquallyDistributedExpert (nat topk) m token_id topk = Inr es \<and> distinct es \<and>
      set es = {(token_id + i) mod ?n |i. 0 \<le> i \<and> i < topk} \<and> int (length es) = topk"
    using run by (auto simp: getEquallyDistributedExpert_def)
next
  let ?n = "num_routed_expert m"
  assume lt: "?n < topk"
  have "draw_route fuel (\<lambda>i. cmod (token_id + int i) ?n) 0 topk [] = Inl OutOfFuel"
    using assms lt by (intro draw_route_starves [where A = "{0..<?n}"]) auto
  then show "getEquallyDistributedExpert fuel m token_id topk = Inl OutOfFuel"
    by (simp add: getEquallyDistributedExpert_def)
qed

theorem getEquallyDistributedExpert_total_witness:
  "\<exists>m es. mixtral = Inr m \<and> getEquallyDistributedExpert 2 m 7 2 = Inr es \<and> distinct es \<and> int (length es) = 2 \<and>
     getEquallyDistributedExpert 1000 m 0 9 = Inl OutOfFuel"
proof -
  obtain m where m: "mixtral = Inr m" "num_routed_expert m = 8"
    by (auto simp: mixtral_def ModelConfig_ctor_def)
  have "\<exists>es. getEquallyDistributedExpert 2 m 7 2 = Inr es \<and> distinct es \<and> int (length es) = 2"
    using getEquallyDistributedExpert_total [of m 7 2] m by auto
  moreover have "getEquallyDistributedExpert 1000 m 0 9 = Inl OutOfFuel"
    using getEquallyDistributedExpert_total [of m 0 9 1000] m by simp
  ultimately show ?thesis using m(1) by blast
qed

section \<open>Expert counts\<close>

lemma sum_list_update_incr:
  "i < length (xs :: int list) \<Longrightarrow> sum_list (xs[i := xs ! i + 1]) = sum_list xs + 1"
  by (induction xs arbitrary: i) (auto split: nat.splits)

lemma incr_count_sum:
  "incr_count e counts = Inr c \<Longrightarrow> sum_list c = sum_list counts + 1 \<and> length c = length counts"
  by (auto simp: incr_count_def rbind_eq_Inr vec_ix_Inr_iff sum_list_update_incr nat_less_iff)

lemma rfold_incr_count_sum:
  "rfold incr_count es counts = Inr c \<Longrightarrow> sum_list c = sum_list counts + int (length es) \<and> length c = length counts"
proof (induction es arbitrary: counts)
  case (Cons e es)
  then obtain c1 where c1: "incr_count e counts = Inr c1" and "rfold incr_count es c1 = Inr c"
    by (auto simp: rbind_eq_Inr)
  with Cons.IH [of c1] incr_count_sum [OF c1] show ?case by simp
qed simp

lemma rfold_collect_length:
  "rfold (\<lambda>k acc. rbind (vec_ix row k) (\<lambda>e. Inr (acc @ [e]))) ks acc = Inr es \<Longrightarrow>
     length es = length acc + length ks"
  by (induction ks arbitrary: acc) (auto simp: rbind_eq_Inr)

lemma draw_route_length:
  "draw_route fuel draw pos k [] = Inr (es, pos') \<Longrightarrow> 0 \<le> k \<Longrightarrow> int (length es) = k"
  using draw_route_inv [of fuel draw pos k "[]" es pos' UNIV] by simp

lemma token_experts_length:
  assumes "token_experts m infos nl cl weight k s t g = Inr (es, g')" "0 \<le> k"
  shows "int (length es) = k"
  using assms
  by (auto simp: token_experts_def getZipfianRandomExpert_def getRandomExpert_def Let_def rbind_eq_Inr
      split: if_splits dest!: rfold_collect_length draw_route_length)

lemma token_step_sum:
  assumes "token_step m infos nl cl weight k s t cg = Inr cg'" "0 \<le> k"
  shows "sum_list (fst cg') = sum_list (fst cg) + k \<and> length (fst cg') = length (fst cg)"
  using assms
  by (auto simp: token_step_def rbind_eq_Inr dest!: token_experts_length rfold_incr_count_sum)

lemma rfold_token_step_sum:
  assumes "rfold (token_step m infos nl cl weight k s) ts cg = Inr cg'" "0 \<le> k"
  shows "sum_list (fst cg') = sum_list (fst cg) + k * int (length ts) \<and> length (fst cg') = length (fst cg)"
  using assms(1)
proof (induction ts arbitrary: cg)
  case (Cons t ts)
  then obtain c1 where c1: "token_step m infos nl cl weight k s t cg = Inr c1"
    and r: "rfold (token_step m infos nl cl weight k s) ts c1 = Inr cg'"
    by (auto simp: rbind_eq_Inr)
  show ?case using Cons.IH [OF r] token_step_sum [OF c1 assms(2)] by (simp add: algebra_simps)
qed simp

lemma rfold_seq_step_sum:
  assumes "rfold (seq_step m infos nl cl weight k) ss cg = Inr cg'" "0 \<le> k"
    "list_all (\<lambda>s. 0 \<le> sq_num_process_token s) ss"
  shows "sum_list (fst cg') = sum_list (fst cg) + k * sum_list (map sq_num_process_token ss) \<and>
    length (fst cg') = length (fst cg)"
  using assms(1,3)
proof (induction ss arbitrary: cg)
  case (Cons s ss)
  then obtain c1 where c1: "seq_step m infos nl cl weight k s cg = Inr c1"
    and r: "rfold (seq_step m infos nl cl weight k) ss c1 = Inr cg'"
    by (auto simp: rbind_eq_Inr)
  have "sum_list (fst c1) = sum_list (fst cg) + k * sq_num_process_token s \<and> length (fst c1) = length (fst cg)"
    using c1 Cons.prems(2) assms(2)
    by (auto simp: seq_step_def split: if_splits dest!: rfold_token_step_sum)
  then show ?case using Cons.IH [OF r] Cons.prems(2) by (simp add: algebra_simps)
qed simp

lemma sum_tokens_sum_list: "sum_tokens ss = sum_list (map sq_num_process_token ss)"
  by (simp add: sum_tokens_def fold_plus_sum_list)

lemma update_expert_counts:
  assumes "update_expert m infos n k b g = Inr (b', g')" "0 \<le> k" "0 \<le> n"
    and "list_all (\<lambda>s. 0 \<le> sq_num_process_token s) (bs_sequence b)"
  shows "sum_list (bs_num_token_in_expert b') = k * get_process_token b \<and>
    int (length (bs_num_token_in_expert b')) = n \<and> bs_sequence b' = bs_sequence b"
proof -
  obtain counts where r: "rfold (seq_step m infos (cdiv (num_layers m) (expert_freq m)) (bs_cur_layer b)
      (skewness_weight m n) k) (bs_sequence b) (clear_expert (replicate (nat n) 0), g) = Inr (counts, g')"
    and b': "b' = b\<lparr>bs_num_token_in_expert := counts,
      bs_cur_layer := cmod (bs_cur_layer b + 1) (cdiv (num_layers m) (expert_freq m))\<rparr>"
    using assms(1) by (auto simp: update_expert_def Let_def rbind_eq_Inr)
  have "sum_list (clear_expert (replicate (nat n) 0)) = 0" "length (clear_expert (replicate (nat n) 0)) = nat n"
    by (simp_all add: clear_expert_def map_replicate_const sum_list_replicate)
  with rfold_seq_step_sum [OF r assms(2,4)] assms(3) show ?thesis
    by (simp add: b' get_process_token_def sum_tokens_sum_list)
qed

text \<open>
  C23: whether the experts come from a trace or are drawn, a returning \<^verbatim>\<open>update_expert\<close>
  assigns every processed token to \<open>topk\<close> expert slots: the counters of the
  \<open>num_expert\<close> experts add up to \<open>topk\<close> times the tokens of the batch.
\<close>

theorem update_expert_conserves_tokens:
  assumes "update_expert m infos n k b g = Inr (b', g')" "0 \<le> k" "0 \<le> n"
    and "list_all (\<lambda>s. 0 \<le> sq_num_process_token s) (bs_sequence b)"
  shows "sum_list (bs_num_token_in_expert b') = k * get_process_token b \<and>
    int (length (bs_num_token_in_expert b')) = n \<and> bs_sequence b' = bs_sequence b"
  using assms by (rule update_expert_counts)

text \<open>A two-token prompt of a traced sequence on four experts.\<close>

definition example_trace_info :: sequence_info where
  "example_trace_info = \<lparr>si_Lin = 2, si_Lout = 1, si_expert_list = [[0, 3], [3, 1]]\<rparr>"

definition example_sequence :: sequence where
  "example_sequence = (case Sequence_Create 0 0 2 1 of Inr (s, _) \<Rightarrow> s\<lparr>sq_num_process_token := 2\<rparr>
     | Inl _ \<Rightarrow> undefined)"

definition example_model :: model_config where
  "example_model = (case ModelConfig_ctor 8 4 1 2 2 64 8 8 1 2 4 0 1 2 3 0 0 0 0 0 100 False False 0 ''tiny'' of
     Inr m \<Rightarrow> m | Inl _ \<Rightarrow> undefined)"

definition example_rng :: rng where
  "example_rng = \<lparr>rng_fuel = 100, rng_expert = int, rng_expert_pos = 0, rng_zipf = (\<lambda>_. int), rng_zipf_weight = None,
     rng_zipf_pos = 0, rng_seq_id = int, rng_seq_id_pos = 0, rng_injection = int, rng_injection_pos = 0\<rparr>"

lemma irange_02: "irange 0 2 = [0, 1]"
  by (simp add: irange_def upt_rec)

lemma example_update_expert:
  "\<exists>b'. update_expert example_model [example_trace_info] 4 2 (bs_add example_sequence (BatchedSequence_Create 4 2)) example_rng
     = Inr (b', example_rng) \<and> bs_num_token_in_expert b' = [1, 1, 0, 2]"
  by (simp add: update_expert_def example_model_def ModelConfig_ctor_def bs_add_def BatchedSequence_Create_def
      example_sequence_def Sequence_Create_def Let_def clear_expert_def seq_step_def token_step_def token_experts_def
      example_trace_info_def irange_02 vec_ix_def incr_count_def numeral_eq_Suc)

theorem update_expert_conserves_tokens_witness:
  "\<exists>b'. update_expert example_model [example_trace_info] 4 2 (bs_add example_sequence (BatchedSequence_Create 4 2)) example_rng
       = Inr (b', example_rng) \<and>
    sum_list (bs_num_token_in_expert b') = 2 * get_process_token (bs_add example_sequence (BatchedSequence_Create 4 2)) \<and>
    int (length (bs_num_token_in_expert b')) = 4"
proof -
  let ?b = "bs_add example_sequence (BatchedSequence_Create 4 2)"
  obtain b' where run: "update_expert example_model [example_trace_info] 4 2 ?b example_rng = Inr (b', example_rng)"
    using example_update_expert by blast
  have "list_all (\<lambda>s. 0 \<le> sq_num_process_token s) (bs_sequence ?b)"
    by (simp add: bs_add_def BatchedSequence_Create_def example_sequence_def Sequence_Create_def)
  from update_expert_conserves_tokens [OF run _ _ this] run show ?thesis by auto
qed

end
