(* ===== verification/Layer_Exec.thy ===== *)
theory Layer_Exec
  imports Device_Model Batch_Sequence
begin

text \<open>
  The cost functions of the dense layers: \<^verbatim>\<open>src/hardware/linear_impl.cpp\<close> and
  \<^verbatim>\<open>activation_impl.cpp\<close>. Each is a roofline: the time of the operations at the
  peak rate against the time of the bytes at the memory bandwidth (or as Ramulator simulates them),
  and the longer one is the duration. Tensors are passed by value and returned with the shapes and
  memory objects the function leaves.
\<close>

section \<open>The parts the functions share\<close>

text \<open>An entry of the executor's attention tables; tensors are returned as the function leaves them.\<close>

type_synonym layer_fn =
  "device \<Rightarrow> tensor list \<Rightarrow> batched_sequence \<Rightarrow> layer_info \<Rightarrow> bool \<Rightarrow> (exec_status \<times> device \<times> tensor list) res"

text \<open>Peak rate and bandwidth of a processor; LOGIC and PIM double the rate on one-byte operands.\<close>

definition gpu_rates :: "system_config \<Rightarrow> tensor \<Rightarrow> real \<times> real" where
  "gpu_rates c input = (compute_peak_flops c, memory_bandwidth c)"

definition logic_rates :: "system_config \<Rightarrow> tensor \<Rightarrow> real \<times> real" where
  "logic_rates c input =
     (let peak = logic_memory_bandwidth c * logic_op_b c
      in (if t_precision_byte input = 1 then peak * 2 else peak, logic_memory_bandwidth c))"

definition pim_rates :: "system_config \<Rightarrow> tensor \<Rightarrow> real \<times> real" where
  "pim_rates c input =
     (let peak = pim_memory_bandwidth c * pim_op_b c
      in (if t_precision_byte input = 1 then peak * 2 else peak, pim_memory_bandwidth c))"

text \<open>
  One transfer: processor, request type and operand type for Ramulator, processor and request type
  for the ideal count, and the tensor.
\<close>

type_synonym transfer = "(ProcessorType \<times> DRAMRequestType \<times> PIMOperandType) \<times> DRAMRequestType \<times> tensor"

definition simulated_transfers ::
  "ramulator \<Rightarrow> LayerType \<Rightarrow> transfer list \<Rightarrow> exec_status \<times> device \<Rightarrow> (exec_status \<times> device) res" where
  "simulated_transfers ram layer =
     rfold (\<lambda>((pt, req, opnd), _, t) (es, d).
       rbind (issueRamulator ram layer pt req opnd t d) (\<lambda>(e, d). Inr (exec_status_add es e, d)))"

definition ideal_transfers :: "transfer list \<Rightarrow> exec_status \<times> device \<Rightarrow> exec_status \<times> device" where
  "ideal_transfers =
     fold (\<lambda>(_, req, t) (es, d). let (e, d) = getIdealMemoryStatus req t d in (exec_status_add es e, d))"

definition memory_phase ::
  "ramulator \<Rightarrow> bool \<Rightarrow> LayerType \<Rightarrow> real \<Rightarrow> transfer list \<Rightarrow> exec_status \<times> device \<Rightarrow> (exec_status \<times> device) res" where
  "memory_phase ram use_ram layer memory_duration ts es_d =
     (if use_ram then simulated_transfers ram layer ts es_d
      else Inr (ideal_transfers ts (fst es_d\<lparr>es_memory_duration := memory_duration\<rparr>, snd es_d)))"

text \<open>The end of every function: duration, utilisations and work.\<close>

definition roofline :: "real \<Rightarrow> real \<Rightarrow> real \<Rightarrow> real \<Rightarrow> exec_status \<Rightarrow> exec_status" where
  "roofline peak bw total_flops total_memory_size es =
     (let es = es\<lparr>es_total_duration := max (es_compute_duration es) (es_memory_duration es)\<rparr>
      in es\<lparr>es_compute_util := fdiv (fdiv (1000 * 1000 * 1000 * total_flops) peak) (es_total_duration es),
           es_memory_util := fdiv (fdiv (1000 * 1000 * 1000 * total_memory_size) bw) (es_total_duration es),
           es_flops := total_flops, es_memory_size := total_memory_size\<rparr>)"

definition ns_of :: "real \<Rightarrow> real \<Rightarrow> real" where
  "ns_of amount rate = fdiv amount rate * 1000 * 1000 * 1000"

text \<open>The common body: skip empty inputs, charge the transfers, apply the roofline.\<close>

definition layer_body ::
  "ramulator \<Rightarrow> bool \<Rightarrow> LayerType \<Rightarrow> real \<times> real \<Rightarrow> real \<Rightarrow> real \<Rightarrow> tensor \<Rightarrow> transfer list \<Rightarrow> device \<Rightarrow> (exec_status \<times> device) res" where
  "layer_body ram use_ram layer rates total_flops total_memory_size input ts d =
     (if getSize input = 0 then Inr (ExecStatus_ctor, d) else
      rbind (memory_phase ram use_ram layer (ns_of total_memory_size (snd rates)) ts
          (ExecStatus_ctor\<lparr>es_compute_duration := ns_of total_flops (fst rates)\<rparr>, d))
        (\<lambda>(es, d). Inr (roofline (fst rates) (snd rates) total_flops total_memory_size es, d)))"

definition with_opb :: "real \<Rightarrow> real \<Rightarrow> tensor \<Rightarrow> exec_status \<Rightarrow> exec_status" where
  "with_opb total_flops total_memory_size input es =
     (if getSize input = 0 then es else es\<lparr>es_opb := fdiv total_flops total_memory_size\<rparr>)"

section \<open>Linear layers\<close>

definition matmul_flops :: "int \<Rightarrow> int \<Rightarrow> int \<Rightarrow> real" where
  "matmul_flops m k n = 2 * of_int m * of_int k * of_int n"

definition matmul_bytes :: "int \<Rightarrow> int \<Rightarrow> int \<Rightarrow> int \<Rightarrow> real" where
  "matmul_bytes m k n pb = (of_int m * of_int k + of_int k * of_int n + of_int m * of_int n) * of_int pb"

definition LinearExecutionGPU ::
  "ramulator \<Rightarrow> device \<Rightarrow> tensor \<Rightarrow> tensor \<Rightarrow> tensor \<Rightarrow> bool \<Rightarrow> (exec_status \<times> device) res" where
  "LinearExecutionGPU ram d input weight output use_ram =
     rbind (vec_ix (t_shape input) 0) (\<lambda>m.
     rbind (vec_ix (t_shape input) 1) (\<lambda>k.
     rbind (vec_ix (t_shape weight) 1) (\<lambda>n.
     let flops = matmul_flops m k n; bytes = matmul_bytes m k n (t_precision_byte weight) in
     rbind (layer_body ram use_ram LINEAR (gpu_rates (dv_config d) input) flops bytes input
       [((GPU, kRead, oDRAM), kRead, input), ((GPU, kRead, oDRAM), kRead, weight),
        ((GPU, kWrite, oDRAM), kWrite, output)] d)
       (\<lambda>(es, d). Inr (with_opb flops bytes input es, d)))))"

definition LinearExecutionLogic ::
  "ramulator \<Rightarrow> device \<Rightarrow> tensor \<Rightarrow> tensor \<Rightarrow> tensor \<Rightarrow> bool \<Rightarrow> (exec_status \<times> device) res" where
  "LinearExecutionLogic ram d input weight output use_ram =
     rbind (vec_ix (t_shape input) 0) (\<lambda>m.
     rbind (vec_ix (t_shape input) 1) (\<lambda>k.
     rbind (vec_ix (t_shape weight) 1) (\<lambda>n.
     layer_body ram use_ram LINEAR (logic_rates (dv_config d) input) (matmul_flops m k n)
       (matmul_bytes m k n (t_precision_byte weight)) input
       [((GPU, kRead, oDRAM), kRead, input), ((LOGIC, kGEMV, oSrc), kRead, weight),
        ((GPU, kWrite, oDRAM), kWrite, output)] d)))"

definition LinearExecutionPIM ::
  "ramulator \<Rightarrow> device \<Rightarrow> tensor \<Rightarrow> tensor \<Rightarrow> tensor \<Rightarrow> bool \<Rightarrow> (exec_status \<times> device) res" where
  "LinearExecutionPIM ram d input weight output use_ram =
     rbind (vec_ix (t_shape input) 0) (\<lambda>m.
     rbind (vec_ix (t_shape input) 1) (\<lambda>k.
     rbind (vec_ix (t_shape weight) 1) (\<lambda>n.
     layer_body ram use_ram LINEAR (pim_rates (dv_config d) input) (matmul_flops m k n)
       (matmul_bytes m k n (t_precision_byte weight)) input
       [((GPU, kRead, oDRAM), kRead, input), ((PIM, kGEMV, oSrc), kRead, weight),
        ((GPU, kWrite, oDRAM), kWrite, output)] d)))"

text \<open>
  The batched linear layer on the GPU reads three-dimensional tensors and, to simulate it, reshapes
  them to two dimensions and back; an empty input returns before either.
\<close>

definition BatchedLinearExecutionGPU ::
  "ramulator \<Rightarrow> device \<Rightarrow> tensor \<Rightarrow> tensor \<Rightarrow> tensor \<Rightarrow> bool \<Rightarrow> bool \<Rightarrow> (exec_status \<times> device \<times> tensor list) res" where
  "BatchedLinearExecutionGPU ram d input weight output use_ram duplicated_input =
     rbind (assertTrue (length (t_shape input) = 3) ''input tensor is not 3D tensor'') (\<lambda>_.
     rbind (assertTrue (length (t_shape weight) = 3) ''weight tensor is not 3D tensor'') (\<lambda>_.
     rbind (assertTrue (length (t_shape output) = 3) ''output tensor is not 3D tensor'') (\<lambda>_.
     let heads = t_shape input ! 0; m = t_shape input ! 1; k = t_shape input ! 2; n = t_shape weight ! 2;
         pb = real_of_int (t_precision_byte weight); mc = dv_mc d;
         flops = 2 * of_int m * of_int k * of_int n * of_int heads;
         bytes = (if duplicated_input
           then (of_int (m * k) + of_int (k * n) * of_int heads + of_int (m * n) * of_int heads) * pb
           else of_int (m * k + k * n + m * n) * of_int heads * pb);
         restore = (\<lambda>i w out. rbind (setShape mc (t_shape input) i) (\<lambda>i.
           rbind (setShape mc (t_shape weight) w) (\<lambda>w.
           rbind (setShape mc (t_shape output) out) (\<lambda>out. Inr [i, w, out]))))
     in if getSize input = 0 then Inr (ExecStatus_ctor, d, [input, weight, output]) else
     rbind (if use_ram
       then rbind (setShape mc (if duplicated_input then [m, k] else [m, k * heads]) input) (\<lambda>i.
            rbind (setShape mc [k * heads, n] weight) (\<lambda>w.
            rbind (setShape mc [m, n * heads] output) (\<lambda>out. Inr (i, w, out))))
       else Inr (input, weight, output)) (\<lambda>(i, w, out).
     rbind (memory_phase ram use_ram LINEAR (ns_of bytes (memory_bandwidth (dv_config d)))
         [((GPU, kRead, oDRAM), kRead, i), ((GPU, kRead, oDRAM), kRead, w), ((GPU, kWrite, oDRAM), kWrite, out)]
         (ExecStatus_ctor\<lparr>es_compute_duration := ns_of flops (compute_peak_flops (dv_config d))\<rparr>, d)) (\<lambda>(es, d).
     rbind (restore i w out) (\<lambda>ts.
     Inr ((roofline (compute_peak_flops (dv_config d)) (memory_bandwidth (dv_config d)) flops bytes es)
         \<lparr>es_opb := fdiv flops bytes\<rparr>, d, ts)))))))"

text \<open>On LOGIC and PIM the batched layer takes the first two dimensions, as the plain one does.\<close>

definition BatchedLinearExecutionLogic ::
  "ramulator \<Rightarrow> device \<Rightarrow> tensor \<Rightarrow> tensor \<Rightarrow> tensor \<Rightarrow> bool \<Rightarrow> bool \<Rightarrow> (exec_status \<times> device) res" where
  "BatchedLinearExecutionLogic ram d input weight output use_ram duplicated_input =
     rbind (vec_ix (t_shape input) 0) (\<lambda>m.
     rbind (vec_ix (t_shape input) 1) (\<lambda>k.
     rbind (vec_ix (t_shape weight) 1) (\<lambda>n.
     layer_body ram use_ram LINEAR (logic_rates (dv_config d) input) (matmul_flops m k n)
       (matmul_bytes m k n (t_precision_byte weight)) input
       [((GPU, kRead, oDRAM), kRead, input), ((LOGIC, kGEMV, oSrc), kRead, weight),
        ((GPU, kWrite, oDRAM), kWrite, output)] d)))"

definition BatchedLinearExecutionPIM ::
  "ramulator \<Rightarrow> device \<Rightarrow> tensor \<Rightarrow> tensor \<Rightarrow> tensor \<Rightarrow> bool \<Rightarrow> bool \<Rightarrow> (exec_status \<times> device) res" where
  "BatchedLinearExecutionPIM ram d input weight output use_ram duplicated_input =
     rbind (vec_ix (t_shape input) 0) (\<lambda>m.
     rbind (vec_ix (t_shape input) 1) (\<lambda>k.
     rbind (vec_ix (t_shape weight) 1) (\<lambda>n.
     layer_body ram use_ram LINEAR (pim_rates (dv_config d) input) (matmul_flops m k n)
       (matmul_bytes m k n (t_precision_byte weight)) input
       [((GPU, kRead, oDRAM), kRead, input), ((PIM, kGEMV, oSrc), kRead, weight),
        ((GPU, kWrite, oDRAM), kWrite, output)] d)))"

section \<open>Activation layers\<close>

definition activation_bytes :: "tensor \<Rightarrow> tensor \<Rightarrow> tensor \<Rightarrow> real" where
  "activation_bytes gate_output input output = of_int (getSize gate_output + getSize input + getSize output)"

definition ActivationExecutionGPU ::
  "ramulator \<Rightarrow> device \<Rightarrow> tensor \<Rightarrow> tensor \<Rightarrow> tensor \<Rightarrow> bool \<Rightarrow> (exec_status \<times> device) res" where
  "ActivationExecutionGPU ram d gate_output input output use_ram =
     (let bytes = activation_bytes gate_output input output in
      rbind (layer_body ram use_ram ACTIVATION (gpu_rates (dv_config d) input) 0 bytes input
        [((GPU, kRead, oDRAM), kRead, gate_output), ((GPU, kRead, oDRAM), kRead, input),
         ((GPU, kWrite, oDRAM), kWrite, output)] d)
        (\<lambda>(es, d). Inr (with_opb 0 bytes input es, d)))"

definition ActivationExecutionLogic ::
  "ramulator \<Rightarrow> device \<Rightarrow> tensor \<Rightarrow> tensor \<Rightarrow> tensor \<Rightarrow> bool \<Rightarrow> (exec_status \<times> device) res" where
  "ActivationExecutionLogic ram d gate_output input output use_ram =
     (let bytes = activation_bytes gate_output input output in
      layer_body ram use_ram ACTIVATION (logic_rates (dv_config d) input) bytes bytes input
        [((LOGIC, kGEMV, oSrc), kRead, gate_output), ((LOGIC, kGEMV, oSrc), kRead, input),
         ((LOGIC, kGEMV, oSrc), kWrite, output)] d)"

definition ActivationExecutionPIM ::
  "ramulator \<Rightarrow> device \<Rightarrow> tensor \<Rightarrow> tensor \<Rightarrow> tensor \<Rightarrow> bool \<Rightarrow> (exec_status \<times> device) res" where
  "ActivationExecutionPIM ram d gate_output input output use_ram =
     (let bytes = activation_bytes gate_output input output in
      layer_body ram use_ram ACTIVATION (pim_rates (dv_config d) input) bytes bytes input
        [((PIM, kRead, oDRAM), kRead, gate_output), ((PIM, kRead, oDRAM), kRead, input),
         ((PIM, kWrite, oDRAM), kWrite, output)] d)"

section \<open>The roofline without Ramulator\<close>

text \<open>The ideal counts never add time: \<^verbatim>\<open>run_ideal\<close> leaves durations at zero.\<close>

definition dram_quiet :: "device \<Rightarrow> bool" where
  "dram_quiet d \<longleftrightarrow> es_memory_duration (dv_dram_exec d) = 0 \<and> es_total_duration (dv_dram_exec d) = 0 \<and>
     es_qk_duration (dv_dram_exec d) = 0 \<and> es_softmax_duration (dv_dram_exec d) = 0 \<and> es_score_v_duration (dv_dram_exec d) = 0"

lemma run_ideal_quiet:
  "dram_quiet d \<Longrightarrow> dram_quiet (run_ideal req t d)"
  by (simp add: dram_quiet_def run_ideal_def Let_def resetCounter_def ExecStatus_ctor_def)

lemma run_ideal_config [simp]:
  "dv_config (run_ideal req t d) = dv_config d" "dv_cache (run_ideal req t d) = dv_cache d"
  by (simp_all add: run_ideal_def Let_def resetCounter_def)

lemma exec_status_add_quiet:
  "es_memory_duration e = 0 \<Longrightarrow> es_memory_duration (exec_status_add s e) = es_memory_duration s"
  "es_compute_duration (exec_status_add s e) = es_compute_duration s"
  by (simp_all add: exec_status_add_def)

lemma ideal_transfers_facts:
  assumes "dram_quiet d" "ideal_transfers ts (es, d) = (es', d')"
  shows "es_memory_duration es' = es_memory_duration es \<and> es_compute_duration es' = es_compute_duration es \<and>
    dram_quiet d' \<and> dv_config d' = dv_config d \<and> dv_cache d' = dv_cache d"
  using assms
proof (induction ts arbitrary: es d)
  case Nil
  then show ?case by (simp add: ideal_transfers_def)
next
  case (Cons x ts)
  obtain r req t where x: "x = (r, req, t)" by (cases x) auto
  let ?d = "run_ideal req t d"
  have q: "dram_quiet ?d" using Cons.prems(1) by (rule run_ideal_quiet)
  have "ideal_transfers ts (exec_status_add es (dv_dram_exec ?d), ?d) = (es', d')"
    using Cons.prems(2) by (simp add: ideal_transfers_def x getIdealMemoryStatus_def Let_def)
  from Cons.IH [OF q this] q show ?case
    by (simp add: exec_status_add_quiet dram_quiet_def)
qed

text \<open>A function with this body, on a device with an idle DRAM interface.\<close>

lemma layer_body_roofline:
  assumes "layer_body ram False layer rates total_flops bytes input ts d = Inr (es, d')"
    and "dram_quiet d" "getSize input \<noteq> 0" "0 < fst rates" "0 < snd rates" "0 \<le> total_flops" "0 < bytes"
  shows "es_total_duration es = max (total_flops / fst rates * 10 ^ 9) (bytes / snd rates * 10 ^ 9) \<and>
    0 \<le> es_compute_util es \<and> es_compute_util es \<le> 1 \<and> 0 < es_memory_util es \<and> es_memory_util es \<le> 1 \<and>
    (es_compute_util es = 1 \<or> es_memory_util es = 1) \<and> dv_config d' = dv_config d \<and> dv_cache d' = dv_cache d"
proof -
  let ?c = "total_flops / fst rates * 10 ^ 9" and ?m = "bytes / snd rates * 10 ^ 9"
  obtain es1 where tr: "ideal_transfers ts (ExecStatus_ctor\<lparr>es_compute_duration := ns_of total_flops (fst rates),
      es_memory_duration := ns_of bytes (snd rates)\<rparr>, d) = (es1, d')"
    and es: "es = roofline (fst rates) (snd rates) total_flops bytes es1"
    using assms(1,3) by (auto simp: layer_body_def memory_phase_def split: prod.splits)
  have ns: "ns_of total_flops (fst rates) = ?c" "ns_of bytes (snd rates) = ?m"
    using assms(4,5) by (simp_all add: ns_of_def)
  have f: "es_compute_duration es1 = ?c" "es_memory_duration es1 = ?m"
    "dv_config d' = dv_config d" "dv_cache d' = dv_cache d"
    using ideal_transfers_facts [OF assms(2) tr] by (simp_all add: ns)
  have m: "0 < ?m" and c: "0 \<le> ?c" using assms(4-7) by simp_all
  define t C M where "t = max ?c ?m" and "C = ?c" and "M = ?m"
  have t: "0 < t" "C \<le> t" "M \<le> t" "C = t \<or> M = t" "0 \<le> C" "0 < M"
    using m c by (auto simp: t_def C_def M_def)
  have tot: "max (es_compute_duration es1) (es_memory_duration es1) = t" by (simp only: f t_def)
  have eq: "es_total_duration es = t" "es_compute_util es = C / t" "es_memory_util es = M / t"
    using assms(4,5) t(1) by (simp_all add: es roofline_def Let_def tot C_def M_def)
  have "0 \<le> C / t" "C / t \<le> 1" "0 < M / t" "M / t \<le> 1" "C / t = 1 \<or> M / t = 1"
    using t by auto
  then show ?thesis
    unfolding eq f(3,4) by (simp add: t_def)
qed

lemma rates_positive:
  assumes "wf_system c"
  shows "0 < fst (gpu_rates c t)" "0 < snd (gpu_rates c t)" "0 < fst (logic_rates c t)" "0 < snd (logic_rates c t)"
    "0 < fst (pim_rates c t)" "0 < snd (pim_rates c t)"
  using assms by (simp_all add: gpu_rates_def logic_rates_def pim_rates_def wf_system_def Let_def)

text \<open>Two-dimensional operands of a matrix product.\<close>

definition matmul_tensors :: "tensor \<Rightarrow> tensor \<Rightarrow> int \<Rightarrow> int \<Rightarrow> int \<Rightarrow> bool" where
  "matmul_tensors input weight m k n \<longleftrightarrow> t_shape input = [m, k] \<and> t_shape weight = [k, n] \<and>
     0 < m \<and> 0 < k \<and> 0 < n \<and> 0 < t_precision_byte input \<and> 0 < t_precision_byte weight"

lemma matmul_tensors_size: "matmul_tensors input weight m k n \<Longrightarrow> getSize input \<noteq> 0"
  by (auto simp: matmul_tensors_def getSize_def)

lemma matmul_positive:
  "matmul_tensors input weight m k n \<Longrightarrow> 0 \<le> matmul_flops m k n"
  "matmul_tensors input weight m k n \<Longrightarrow> 0 < matmul_bytes m k n (t_precision_byte weight)"
  by (auto simp: matmul_tensors_def matmul_flops_def matmul_bytes_def intro!: mult_pos_pos add_pos_pos)

lemma vec_ix_Cons [simp]: "vec_ix (x # xs) 0 = Inr x" "vec_ix (x # y # xs) 1 = Inr y"
  by (simp_all add: vec_ix_def)

lemma layer_body_returns:
  "\<exists>es d'. layer_body ram False layer rates total_flops bytes input ts d = Inr (es, d')"
  by (simp add: layer_body_def memory_phase_def case_prod_beta)

lemma LinearExecutionGPU_returns:
  assumes "matmul_tensors input weight m k n"
  shows "\<exists>es d'. LinearExecutionGPU ram d input weight output False = Inr (es, d')"
proof -
  obtain es d' where "layer_body ram False LINEAR (gpu_rates (dv_config d) input) (matmul_flops m k n)
      (matmul_bytes m k n (t_precision_byte weight)) input
      [((GPU, kRead, oDRAM), kRead, input), ((GPU, kRead, oDRAM), kRead, weight),
        ((GPU, kWrite, oDRAM), kWrite, output)] d = Inr (es, d')"
    using layer_body_returns by blast
  with assms show ?thesis by (simp add: LinearExecutionGPU_def matmul_tensors_def Let_def)
qed

text \<open>
  C37: without Ramulator a linear layer on the GPU takes exactly the longer of its compute and
  memory times, both utilisations are at most one, the bound resource is fully used, and the
  configuration and the cache of the device are untouched.
\<close>

theorem LinearExecutionGPU_roofline:
  assumes "LinearExecutionGPU ram d input weight output False = Inr (es, d')"
    and "matmul_tensors input weight m k n" "wf_system (dv_config d)" "dram_quiet d"
  shows "es_total_duration es = max (matmul_flops m k n / compute_peak_flops (dv_config d) * 10 ^ 9)
      (matmul_bytes m k n (t_precision_byte weight) / memory_bandwidth (dv_config d) * 10 ^ 9) \<and>
    es_compute_util es \<le> 1 \<and> es_memory_util es \<le> 1 \<and> (es_compute_util es = 1 \<or> es_memory_util es = 1) \<and>
    dv_config d' = dv_config d \<and> dv_cache d' = dv_cache d"
proof -
  obtain es1 where b: "layer_body ram False LINEAR (gpu_rates (dv_config d) input) (matmul_flops m k n)
      (matmul_bytes m k n (t_precision_byte weight)) input
      [((GPU, kRead, oDRAM), kRead, input), ((GPU, kRead, oDRAM), kRead, weight),
        ((GPU, kWrite, oDRAM), kWrite, output)] d = Inr (es1, d')"
    and es: "es = with_opb (matmul_flops m k n) (matmul_bytes m k n (t_precision_byte weight)) input es1"
    using assms(1,2) by (auto simp: LinearExecutionGPU_def matmul_tensors_def Let_def rbind_eq_Inr)
  from layer_body_roofline [OF b assms(4) matmul_tensors_size [OF assms(2)] rates_positive(1,2) [OF assms(3)]
      matmul_positive [OF assms(2)]]
  show ?thesis by (simp add: es with_opb_def gpu_rates_def)
qed

theorem LinearExecutionGPU_roofline_witness:
  "\<exists>es d'. LinearExecutionGPU example_ramulator example_device (Tensor_ctor ''x'' [16, 4096] ''act'' (Some 0) 2 ALL_CHANNEL)
      (Tensor_ctor ''w'' [4096, 4096] ''weight'' (Some 0) 2 ALL_CHANNEL) (Tensor_ctor ''y'' [16, 4096] ''act'' (Some 0) 2 ALL_CHANNEL)
      False = Inr (es, d') \<and> es_compute_util es \<le> 1 \<and> es_memory_util es \<le> 1 \<and>
    (es_compute_util es = 1 \<or> es_memory_util es = 1)"
proof -
  let ?x = "Tensor_ctor ''x'' [16, 4096] ''act'' (Some 0) 2 ALL_CHANNEL"
  let ?w = "Tensor_ctor ''w'' [4096, 4096] ''weight'' (Some 0) 2 ALL_CHANNEL"
  let ?y = "Tensor_ctor ''y'' [16, 4096] ''act'' (Some 0) 2 ALL_CHANNEL"
  have mm: "matmul_tensors ?x ?w 16 4096 4096" by (simp add: matmul_tensors_def Tensor_ctor_def)
  have dev: "dv_config example_device = H100" "dram_quiet example_device"
    by (simp_all add: example_device_def Device_ctor_def device_memory_def H100_def SystemConfig_ctor_def
        dram_quiet_def ExecStatus_ctor_def)
  obtain es d' where run: "LinearExecutionGPU example_ramulator example_device ?x ?w ?y False = Inr (es, d')"
    using LinearExecutionGPU_returns [OF mm] by blast
  show ?thesis using LinearExecutionGPU_roofline [OF run mm _ dev(2)] run dev(1) by auto
qed

end
