(* ===== verification/Nearbank_Pim.thy ===== *)
theory Nearbank_Pim
  imports Sim_Config
begin

text \<open>
  The near-bank PIM unit: \<^verbatim>\<open>src/dram/nearbank/nearbank_pim.h\<close> and
  \<^verbatim>\<open>nearbank_pim.cpp\<close>. The latency of a matrix-vector product on one bank is
  that of a two-stage pipeline of row-buffer fills and PE cycles. The textual
  \<^verbatim>\<open>description\<close> of a result is not modelled.
\<close>

record gemv_result =
  gr_latency_ns :: real
  gr_rowbuffer_time_ns :: real
  gr_pe_compute_time_ns :: real
  gr_base_gemv_time_ns :: real
  gr_reduction_time_ns :: real
  gr_total_bytes :: real
  gr_bytes_per_bank :: real
  gr_reduction_ops :: real
  gr_num_rowbuffer_fills :: int

definition gemv_result_add :: "gemv_result \<Rightarrow> gemv_result \<Rightarrow> gemv_result" where
  "gemv_result_add r rhs = r\<lparr>
     gr_latency_ns := gr_latency_ns r + gr_latency_ns rhs,
     gr_rowbuffer_time_ns := gr_rowbuffer_time_ns r + gr_rowbuffer_time_ns rhs,
     gr_pe_compute_time_ns := gr_pe_compute_time_ns r + gr_pe_compute_time_ns rhs,
     gr_base_gemv_time_ns := gr_base_gemv_time_ns r + gr_base_gemv_time_ns rhs,
     gr_reduction_time_ns := gr_reduction_time_ns r + gr_reduction_time_ns rhs,
     gr_total_bytes := gr_total_bytes r + gr_total_bytes rhs,
     gr_reduction_ops := gr_reduction_ops r + gr_reduction_ops rhs\<rparr>"

section \<open>The parts of \<^verbatim>\<open>computeGEMVLatency\<close>\<close>

text \<open>Bytes per stored element, and elements a PE consumes per cycle.\<close>

definition gemv_bytes_per_element :: "nearbank_config \<Rightarrow> int \<Rightarrow> real" where
  "gemv_bytes_per_element c data_size =
     (if data_size \<le> 1 then fdiv (of_int (kv_cache_bits c)) 8 else of_int data_size)"

definition gemv_elements_per_cycle :: "nearbank_config \<Rightarrow> int \<Rightarrow> int \<Rightarrow> real" where
  "gemv_elements_per_cycle c data_size compute_size =
     (if data_size \<le> 1 then
        (let pe_width = (if compute_size \<le> 1 then pe_lowbit_width_bytes c else pe_width_bytes c)
         in pe_width * fdiv 8 (of_int (kv_cache_bits c)))
      else fdiv (pe_width_bytes c) (of_int compute_size))"

definition gemv_cycle_time :: "nearbank_config \<Rightarrow> int \<Rightarrow> real" where
  "gemv_cycle_time c compute_size =
     (if compute_size \<le> 1 then pe_lowbit_cycle_time_ns c else pe_cycle_time_ns c)"

definition implicit_dequant :: "int \<Rightarrow> int \<Rightarrow> bool" where
  "implicit_dequant data_size compute_size \<longleftrightarrow> data_size \<le> 1 \<and> compute_size \<ge> 2"

definition gemv_elements :: "int \<Rightarrow> int \<Rightarrow> int \<Rightarrow> real" where
  "gemv_elements M K N = of_int M * of_int K + of_int K * of_int N + of_int M * of_int N"

definition rowbuffer_fills :: "nearbank_config \<Rightarrow> real \<Rightarrow> int" where
  "rowbuffer_fills c bytes_per_bank =
     (let n = \<lceil>fdiv bytes_per_bank (rowbuffer_size_bytes c)\<rceil> in if n < 1 then 1 else n)"

text \<open>
  The pipelined latency of the given PE time: one buffer overlaps fill and computation, several
  buffers start computing after the first fill.
\<close>

definition pipelined_latency :: "nearbank_config \<Rightarrow> real \<Rightarrow> int \<Rightarrow> real \<Rightarrow> real" where
  "pipelined_latency c bytes_per_bank fills total_pe =
     (let rb_size = rowbuffer_size_bytes c; dram_bw = dram_to_rb_bw_per_bank c;
          time_per_rb_fill = fdiv rb_size dram_bw * 10 ^ 9
      in if bytes_per_bank \<le> rb_size then max (fdiv bytes_per_bank dram_bw * 10 ^ 9) total_pe
         else time_per_rb_fill + max (of_int (fills - 1) * time_per_rb_fill) total_pe)"

definition dequant_time :: "nearbank_config \<Rightarrow> int \<Rightarrow> int \<Rightarrow> real" where
  "dequant_time c K N =
     (let dequant_ops = 2 * (of_int K * of_int N);
          dequant_per_bank = fdiv dequant_ops (of_int (getTotalBanks c));
          lowbit_pe_rate = pe_lowbit_width_bytes c * fdiv 8 (of_int (kv_cache_bits c))
      in fdiv dequant_per_bank lowbit_pe_rate * pe_lowbit_cycle_time_ns c)"

definition computeGEMVLatency :: "nearbank_config \<Rightarrow> int \<Rightarrow> int \<Rightarrow> int \<Rightarrow> int \<Rightarrow> int \<Rightarrow> gemv_result" where
  "computeGEMVLatency c M K N data_size compute_size =
     (let per_cycle = gemv_elements_per_cycle c data_size compute_size;
          cycle = gemv_cycle_time c compute_size;
          total_elements = gemv_elements M K N;
          total_bytes = total_elements * gemv_bytes_per_element c data_size;
          banks = real_of_int (getTotalBanks c);
          bytes_per_bank = fdiv total_bytes banks;
          elements_per_bank = fdiv total_elements banks;
          fills = rowbuffer_fills c bytes_per_bank;
          rowbuffer_time = fdiv bytes_per_bank (dram_to_rb_bw_per_bank c) * 10 ^ 9;
          pe_time = fdiv elements_per_bank per_cycle * cycle;
          base = pipelined_latency c bytes_per_bank fills pe_time;
          reduction_elements = (if enable_asymmetric_quant c
            then of_int M * of_int K + of_int N * of_int K else 0);
          reduction_time = (if enable_asymmetric_quant c
            then fdiv (fdiv reduction_elements banks) per_cycle * cycle else 0);
          latency = (if enable_asymmetric_quant c
            then pipelined_latency c bytes_per_bank fills (pe_time + reduction_time) else base);
          need_dequant = (implicit_dequant data_size compute_size \<or>
            (enable_pim_dequant c \<and> data_size \<le> 1 \<and> compute_size \<ge> 2));
          dequant = (if need_dequant then dequant_time c K N else 0);
          latency = (if need_dequant
            then pipelined_latency c bytes_per_bank fills (pe_time + reduction_time + dequant) else latency)
      in \<lparr>gr_latency_ns = latency, gr_rowbuffer_time_ns = rowbuffer_time,
          gr_pe_compute_time_ns = pe_time + dequant, gr_base_gemv_time_ns = base,
          gr_reduction_time_ns = reduction_time, gr_total_bytes = total_bytes,
          gr_bytes_per_bank = bytes_per_bank, gr_reduction_ops = reduction_elements,
          gr_num_rowbuffer_fills = fills\<rparr>)"

text \<open>The overload with one element size.\<close>

definition computeGEMVLatency1 :: "nearbank_config \<Rightarrow> int \<Rightarrow> int \<Rightarrow> int \<Rightarrow> int \<Rightarrow> gemv_result" where
  "computeGEMVLatency1 c M K N elem = computeGEMVLatency c M K N elem elem"

section \<open>Latency bounds\<close>

definition wf_nearbank :: "nearbank_config \<Rightarrow> bool" where
  "wf_nearbank c \<longleftrightarrow> 0 < num_pim_banks c \<and> 0 < rowbuffer_size_bytes c \<and> 0 < pe_width_bytes c \<and>
     0 < pe_cycle_time_ns c \<and> 0 < pe_lowbit_width_bytes c \<and> 0 < pe_lowbit_cycle_time_ns c \<and>
     0 < dram_to_rb_bw_per_bank c \<and> 0 < kv_cache_bits c"

lemma wf_nearbank_default [simp]: "wf_nearbank NearbankPIMConfig_default"
  by (simp add: wf_nearbank_def NearbankPIMConfig_default_def)

lemma gemv_elements_per_cycle_pos:
  assumes "wf_nearbank c" "2 \<le> data_size \<longrightarrow> 0 < compute_size"
  shows "0 < gemv_elements_per_cycle c data_size compute_size"
  using assms by (auto simp: gemv_elements_per_cycle_def wf_nearbank_def Let_def)

lemma gemv_elements_nonneg: "0 \<le> M \<Longrightarrow> 0 \<le> K \<Longrightarrow> 0 \<le> N \<Longrightarrow> 0 \<le> gemv_elements M K N"
  by (simp add: gemv_elements_def)

lemma gemv_bytes_nonneg: "wf_nearbank c \<Longrightarrow> 0 \<le> gemv_bytes_per_element c data_size"
  by (simp add: gemv_bytes_per_element_def wf_nearbank_def)

text \<open>The fills cover the bank's data, with less than one buffer to spare when it spans several.\<close>

lemma rowbuffer_fills_bounds:
  assumes "wf_nearbank c"
  shows "1 \<le> rowbuffer_fills c b" "b \<le> of_int (rowbuffer_fills c b) * rowbuffer_size_bytes c"
    "rowbuffer_size_bytes c < b \<Longrightarrow> of_int (rowbuffer_fills c b - 1) * rowbuffer_size_bytes c \<le> b"
proof -
  have rb: "0 < rowbuffer_size_bytes c" using assms by (simp add: wf_nearbank_def)
  show "1 \<le> rowbuffer_fills c b" by (simp add: rowbuffer_fills_def Let_def)
  have eq: "rowbuffer_fills c b = max 1 \<lceil>b / rowbuffer_size_bytes c\<rceil>"
    using rb by (simp add: rowbuffer_fills_def Let_def max_def)
  have "\<lceil>b / rowbuffer_size_bytes c\<rceil> \<le> rowbuffer_fills c b" by (simp add: eq)
  then have "b / rowbuffer_size_bytes c \<le> of_int (rowbuffer_fills c b)"
    by (simp add: ceiling_le_iff)
  then show "b \<le> of_int (rowbuffer_fills c b) * rowbuffer_size_bytes c"
    using rb by (simp add: divide_le_eq)
  assume "rowbuffer_size_bytes c < b"
  then have "1 < b / rowbuffer_size_bytes c" using rb by simp
  then have "1 \<le> \<lceil>b / rowbuffer_size_bytes c\<rceil>" by linarith
  then have "rowbuffer_fills c b = \<lceil>b / rowbuffer_size_bytes c\<rceil>" by (simp add: eq)
  then have "of_int (rowbuffer_fills c b - 1) \<le> b / rowbuffer_size_bytes c" by linarith
  then show "of_int (rowbuffer_fills c b - 1) * rowbuffer_size_bytes c \<le> b"
    using rb by (simp add: le_divide_eq)
qed

lemma pipelined_latency_mono:
  "x \<le> y \<Longrightarrow> pipelined_latency c b f x \<le> pipelined_latency c b f y"
  by (auto simp: pipelined_latency_def Let_def)

lemma pipelined_latency_bounds:
  assumes "wf_nearbank c" "0 \<le> t" "0 \<le> b"
  defines "fill \<equiv> b / dram_to_rb_bw_per_bank c * 10 ^ 9"
    and "one \<equiv> rowbuffer_size_bytes c / dram_to_rb_bw_per_bank c * 10 ^ 9"
  shows "fill \<le> pipelined_latency c b (rowbuffer_fills c b) t"
    "t \<le> pipelined_latency c b (rowbuffer_fills c b) t"
    "pipelined_latency c b (rowbuffer_fills c b) t \<le> one + fill + t"
proof -
  let ?f = "rowbuffer_fills c b"
  have bw: "0 < dram_to_rb_bw_per_bank c" and rb: "0 < rowbuffer_size_bytes c"
    using assms(1) by (simp_all add: wf_nearbank_def)
  have one: "0 < one" using bw rb by (simp add: one_def)
  have fill: "0 \<le> fill" using bw assms(3) by (simp add: fill_def)
  have eq: "pipelined_latency c b ?f t =
      (if b \<le> rowbuffer_size_bytes c then max fill t else one + max (of_int (?f - 1) * one) t)"
    using bw by (simp add: pipelined_latency_def Let_def fill_def one_def)
  have "fill \<le> of_int ?f * one"
    using rowbuffer_fills_bounds(2) [OF assms(1), of b] bw
    by (simp add: fill_def one_def divide_le_cancel mult.assoc [symmetric])
  also have "\<dots> = one + of_int (?f - 1) * one" by (simp add: algebra_simps)
  finally have lo: "fill \<le> one + of_int (?f - 1) * one" .
  have hi: "of_int (?f - 1) * one \<le> fill" if "\<not> b \<le> rowbuffer_size_bytes c"
  proof -
    have "of_int (?f - 1) * rowbuffer_size_bytes c \<le> b"
      using rowbuffer_fills_bounds(3) [OF assms(1), of b] that by simp
    then have "of_int (?f - 1) * rowbuffer_size_bytes c / dram_to_rb_bw_per_bank c * 10 ^ 9 \<le> fill"
      using bw unfolding fill_def by (intro mult_right_mono divide_right_mono) auto
    then show ?thesis by (simp add: one_def)
  qed
  show "fill \<le> pipelined_latency c b ?f t" using lo by (auto simp: eq)
  show "t \<le> pipelined_latency c b ?f t" using one by (auto simp: eq)
  show "pipelined_latency c b ?f t \<le> one + fill + t"
    using hi one fill assms(2) by (auto simp: eq max_def)
qed

text \<open>The latency is the pipelined latency of all PE work, whatever features are enabled.\<close>

lemma computeGEMVLatency_latency:
  "gr_latency_ns (computeGEMVLatency c M K N d q) =
     pipelined_latency c (gr_bytes_per_bank (computeGEMVLatency c M K N d q))
       (rowbuffer_fills c (gr_bytes_per_bank (computeGEMVLatency c M K N d q)))
       (gr_pe_compute_time_ns (computeGEMVLatency c M K N d q) + gr_reduction_time_ns (computeGEMVLatency c M K N d q))"
  by (auto simp: computeGEMVLatency_def Let_def add_ac)

lemma dequant_time_nonneg:
  assumes "wf_nearbank c" "0 \<le> K" "0 \<le> N"
  shows "0 \<le> dequant_time c K N"
  using assms by (simp add: dequant_time_def Let_def wf_nearbank_def getTotalBanks_def)

lemma gemv_cycle_time_pos: "wf_nearbank c \<Longrightarrow> 0 < gemv_cycle_time c q"
  by (simp add: gemv_cycle_time_def wf_nearbank_def)

lemma computeGEMVLatency_nonneg:
  assumes "wf_nearbank c" "0 \<le> M" "0 \<le> K" "0 \<le> N" "2 \<le> d \<longrightarrow> 0 < q"
  shows "0 \<le> gr_bytes_per_bank (computeGEMVLatency c M K N d q)"
    "0 \<le> gr_pe_compute_time_ns (computeGEMVLatency c M K N d q)"
    "0 \<le> gr_reduction_time_ns (computeGEMVLatency c M K N d q)"
    "gr_rowbuffer_time_ns (computeGEMVLatency c M K N d q) =
       gr_bytes_per_bank (computeGEMVLatency c M K N d q) / dram_to_rb_bw_per_bank c * 10 ^ 9"
    "gr_base_gemv_time_ns (computeGEMVLatency c M K N d q) \<le> gr_latency_ns (computeGEMVLatency c M K N d q)"
proof -
  have banks: "0 < real_of_int (getTotalBanks c)" and bw: "dram_to_rb_bw_per_bank c \<noteq> 0"
    using assms(1) by (simp_all add: wf_nearbank_def getTotalBanks_def)
  note pos = gemv_elements_per_cycle_pos [OF assms(1,5)] gemv_elements_nonneg [OF assms(2-4)]
    gemv_bytes_nonneg [OF assms(1), of d] dequant_time_nonneg [OF assms(1,3,4)] gemv_cycle_time_pos [OF assms(1), of q]
  have red: "0 \<le> real_of_int M * of_int K + of_int N * of_int K" using assms by simp
  show "0 \<le> gr_bytes_per_bank (computeGEMVLatency c M K N d q)"
    using pos banks by (simp add: computeGEMVLatency_def Let_def)
  show "0 \<le> gr_pe_compute_time_ns (computeGEMVLatency c M K N d q)"
    using pos banks by (auto simp: computeGEMVLatency_def Let_def intro!: add_nonneg_nonneg mult_nonneg_nonneg)
  show r: "0 \<le> gr_reduction_time_ns (computeGEMVLatency c M K N d q)"
    using pos banks red by (auto simp: computeGEMVLatency_def Let_def)
  show "gr_rowbuffer_time_ns (computeGEMVLatency c M K N d q) =
       gr_bytes_per_bank (computeGEMVLatency c M K N d q) / dram_to_rb_bw_per_bank c * 10 ^ 9"
    using bw by (simp add: computeGEMVLatency_def Let_def)
  have base: "gr_base_gemv_time_ns (computeGEMVLatency c M K N d q) =
      pipelined_latency c (gr_bytes_per_bank (computeGEMVLatency c M K N d q))
       (rowbuffer_fills c (gr_bytes_per_bank (computeGEMVLatency c M K N d q)))
       (fdiv (fdiv (gemv_elements M K N) (of_int (getTotalBanks c))) (gemv_elements_per_cycle c d q) * gemv_cycle_time c q)"
    by (simp add: computeGEMVLatency_def Let_def)
  show "gr_base_gemv_time_ns (computeGEMVLatency c M K N d q) \<le> gr_latency_ns (computeGEMVLatency c M K N d q)"
    unfolding base computeGEMVLatency_latency
    using r pos(4) by (intro pipelined_latency_mono) (auto simp: computeGEMVLatency_def Let_def)
qed

text \<open>
  C39: the latency of a near-bank GEMV is at least the time to stream the bank's data, at least
  the whole PE time with reduction and dequantisation and at least the base GEMV; pipelining never
  loses more than one row-buffer fill against running both stages one after the other.
\<close>

theorem computeGEMVLatency_bounds:
  assumes "wf_nearbank c" "0 \<le> M" "0 \<le> K" "0 \<le> N" "2 \<le> d \<longrightarrow> 0 < q"
  defines "r \<equiv> computeGEMVLatency c M K N d q"
  shows "gr_rowbuffer_time_ns r \<le> gr_latency_ns r \<and>
    gr_pe_compute_time_ns r + gr_reduction_time_ns r \<le> gr_latency_ns r \<and>
    gr_base_gemv_time_ns r \<le> gr_latency_ns r \<and>
    gr_latency_ns r \<le> rowbuffer_size_bytes c / dram_to_rb_bw_per_bank c * 10 ^ 9 +
      gr_rowbuffer_time_ns r + (gr_pe_compute_time_ns r + gr_reduction_time_ns r)"
proof -
  note nn = computeGEMVLatency_nonneg [OF assms(1-5), folded r_def]
  have "0 \<le> gr_pe_compute_time_ns r + gr_reduction_time_ns r" using nn by simp
  note b = pipelined_latency_bounds [OF assms(1) this nn(1)]
  show ?thesis
    using b nn(5) computeGEMVLatency_latency [of c M K N d q, folded r_def] by (simp add: nn(4))
qed

theorem computeGEMVLatency_bounds_witness:
  "gr_rowbuffer_time_ns (computeGEMVLatency NearbankPIMConfig_default 1 128 4096 2 2) \<le>
     gr_latency_ns (computeGEMVLatency NearbankPIMConfig_default 1 128 4096 2 2)"
  using computeGEMVLatency_bounds [of NearbankPIMConfig_default 1 128 4096 2 2] by simp

text \<open>
  the flag \<^verbatim>\<open>enable_pim_dequant\<close> never changes a latency: its condition is
  implied by the implicit dequantisation, which the element sizes alone decide.
\<close>

theorem pim_dequant_flag_irrelevant:
  "computeGEMVLatency (c\<lparr>enable_pim_dequant := flag\<rparr>) M K N d q = computeGEMVLatency c M K N d q"
  by (auto simp: computeGEMVLatency_def Let_def gemv_elements_per_cycle_def gemv_cycle_time_def
      gemv_bytes_per_element_def rowbuffer_fills_def pipelined_latency_def dequant_time_def
      getTotalBanks_def implicit_dequant_def)

end
