(* ===== verification/Attention_Stage.thy ===== *)
theory Attention_Stage
  imports Layer_Exec Nearbank_Pim
begin

text \<open>
  What the attention cost functions of \<^verbatim>\<open>src/hardware/attention_gen_impl.cpp\<close>,
  \<^verbatim>\<open>attention_sum_impl.cpp\<close> and \<^verbatim>\<open>attention_mixed_impl.cpp\<close>
  have in common. A function is a few stages (scoring, softmax, context); a stage charges the
  operations and the bytes of every sequence and passes shapes of its tensors to the memory system.
  The tensors are a list, so that \<^verbatim>\<open>k_cache = tensor.at(0)\<close> is the index 0 and an
  aliased cache is reshaped with the input. Products of \<^verbatim>\<open>int\<close>s are exact here; C++
  leaves the overflow of a long prompt undefined.
\<close>

section \<open>Accesses\<close>

text \<open>
  Before an access the tensor keeps its shape, is given a whole new one, or has its first dimensions
  overwritten with \<^verbatim>\<open>at\<close>, which throws when there are fewer.
\<close>

datatype reshape = Same | Whole "int list" | Dims "int list"

fun reshaped :: "reshape \<Rightarrow> int list \<Rightarrow> int list res" where
  "reshaped Same shp = Inr shp"
| "reshaped (Whole dims) shp = Inr dims"
| "reshaped (Dims dims) shp =
     (if length dims \<le> length shp then Inr (dims @ drop (length dims) shp) else Inl OutOfRange)"

definition reshape_tensor :: "memory_config \<Rightarrow> reshape \<Rightarrow> tensor \<Rightarrow> tensor res" where
  "reshape_tensor mc rs t =
     (if rs = Same then Inr t else rbind (reshaped rs (t_shape t)) (\<lambda>shp. setShape mc shp t))"

text \<open>
  Index of the tensor, its new shape, the request and operand type to simulate, and the request type
  to count when nothing is simulated.
\<close>

type_synonym access = "int \<times> reshape \<times> (DRAMRequestType \<times> PIMOperandType) \<times> DRAMRequestType"

abbreviation read_whole :: "int \<Rightarrow> int list \<Rightarrow> access" where
  "read_whole i dims \<equiv> (i, Whole dims, (kRead, oDRAM), kRead)"

abbreviation write_whole :: "int \<Rightarrow> int list \<Rightarrow> access" where
  "write_whole i dims \<equiv> (i, Whole dims, (kWrite, oDRAM), kWrite)"

abbreviation gemv_whole :: "int \<Rightarrow> int list \<Rightarrow> access" where
  "gemv_whole i dims \<equiv> (i, Whole dims, (kGEMV, oSrc), kRead)"

abbreviation read_dims :: "int list \<Rightarrow> access" where
  "read_dims dims \<equiv> (0, Dims dims, (kRead, oDRAM), kRead)"

abbreviation write_dims :: "int list \<Rightarrow> access" where
  "write_dims dims \<equiv> (0, Dims dims, (kWrite, oDRAM), kWrite)"

abbreviation gemv_dims :: "int list \<Rightarrow> access" where
  "gemv_dims dims \<equiv> (0, Dims dims, (kGEMV, oSrc), kRead)"

abbreviation write_same :: access where
  "write_same \<equiv> (0, Same, (kWrite, oDRAM), kWrite)"

definition access_one ::
  "ramulator \<Rightarrow> bool \<Rightarrow> LayerType \<Rightarrow> ProcessorType \<Rightarrow> access
    \<Rightarrow> exec_status list \<times> device \<times> tensor list \<Rightarrow> (exec_status list \<times> device \<times> tensor list) res" where
  "access_one ram use_ram layer pt acc st =
     (let (i, rs, (req, opnd), ideal) = acc; (temps, d, ts) = st in
      rbind (vec_at ts i) (\<lambda>t.
      rbind (reshape_tensor (dv_mc d) rs t) (\<lambda>t.
      rbind (if use_ram then issueRamulator ram layer pt req opnd t d else Inr (getIdealMemoryStatus ideal t d)) (\<lambda>(temp, d).
      Inr (temps @ [temp], d, ts[nat i := t])))))"

definition run_accesses ::
  "ramulator \<Rightarrow> bool \<Rightarrow> LayerType \<Rightarrow> ProcessorType \<Rightarrow> access list \<Rightarrow> device \<times> tensor list
    \<Rightarrow> (exec_status list \<times> device \<times> tensor list) res" where
  "run_accesses ram use_ram layer pt accs dts = rfold (access_one ram use_ram layer pt) accs ([], fst dts, snd dts)"

definition add_temps :: "exec_status list \<Rightarrow> exec_status \<Rightarrow> exec_status" where
  "add_temps temps es = fold (\<lambda>temp es. exec_status_add es temp) temps es"

definition temp_times :: "exec_status list \<Rightarrow> real list" where
  "temp_times temps = map es_memory_duration temps"

section \<open>Stages over the prompts\<close>

text \<open>
  A stage of the prompt functions, by sequence: operations; bytes that take time; bytes added to
  \<^verbatim>\<open>total_memory_size\<close>; whether the compute time goes into
  \<^verbatim>\<open>exec_status.compute_duration\<close>; accesses; the memory time from the analytic one and
  the simulated ones; and what of the two times goes into the total.
\<close>

record sum_stage =
  sg_flops :: "sequence \<Rightarrow> real"
  sg_bytes :: "sequence \<Rightarrow> real"
  sg_counted :: "sequence \<Rightarrow> real"
  sg_compute :: bool
  sg_accesses :: "sequence \<Rightarrow> access list"
  sg_time :: "real \<Rightarrow> real list \<Rightarrow> real"
  sg_total :: "real \<Rightarrow> real \<Rightarrow> real"

record sum_state =
  ss_es :: exec_status
  ss_flops :: real
  ss_bytes :: real

definition sum_start :: sum_state where
  "sum_start = \<lparr>ss_es = ExecStatus_ctor, ss_flops = 0, ss_bytes = 0\<rparr>"

definition stage_seq ::
  "ramulator \<Rightarrow> bool \<Rightarrow> LayerType \<Rightarrow> ProcessorType \<Rightarrow> real \<times> real \<Rightarrow> sum_stage \<Rightarrow> sequence
    \<Rightarrow> sum_state \<times> device \<times> tensor list \<Rightarrow> (sum_state \<times> device \<times> tensor list) res" where
  "stage_seq ram use_ram layer pt rates sg q st =
     (let (s, d, ts) = st; cd = ns_of (sg_flops sg q) (fst rates); md = ns_of (sg_bytes sg q) (snd rates);
          es = ss_es s;
          es = (if sg_compute sg then es\<lparr>es_compute_duration := es_compute_duration es + cd\<rparr> else es)
      in rbind (run_accesses ram use_ram layer pt (sg_accesses sg q) (d, ts)) (\<lambda>(temps, d, ts).
      let es = add_temps temps es; md = (if use_ram then sg_time sg md (temp_times temps) else md)
      in Inr (\<lparr>ss_es = es\<lparr>es_total_duration := es_total_duration es + sg_total sg cd md\<rparr>,
               ss_flops = ss_flops s + sg_flops sg q, ss_bytes = ss_bytes s + sg_counted sg q\<rparr>, d, ts)))"

definition run_stage ::
  "ramulator \<Rightarrow> bool \<Rightarrow> LayerType \<Rightarrow> ProcessorType \<Rightarrow> real \<times> real \<Rightarrow> sequence list \<Rightarrow> sum_stage
    \<Rightarrow> sum_state \<times> device \<times> tensor list \<Rightarrow> (sum_state \<times> device \<times> tensor list) res" where
  "run_stage ram use_ram layer pt rates seqs sg = rfold (stage_seq ram use_ram layer pt rates sg) seqs"

definition run_stages ::
  "ramulator \<Rightarrow> bool \<Rightarrow> LayerType \<Rightarrow> ProcessorType \<Rightarrow> real \<times> real \<Rightarrow> sequence list \<Rightarrow> sum_stage list
    \<Rightarrow> sum_state \<times> device \<times> tensor list \<Rightarrow> (sum_state \<times> device \<times> tensor list) res" where
  "run_stages ram use_ram layer pt rates seqs = rfold (run_stage ram use_ram layer pt rates seqs)"

text \<open>The end of every attention function: the total stays, utilisations and work are filled in.\<close>

definition attention_finish :: "real \<times> real \<Rightarrow> real \<Rightarrow> real \<Rightarrow> exec_status \<Rightarrow> exec_status" where
  "attention_finish rates total_flops total_memory_size es =
     es\<lparr>es_compute_util := fdiv (fdiv (1000 * 1000 * 1000 * total_flops) (fst rates)) (es_total_duration es),
        es_memory_util := fdiv (fdiv (1000 * 1000 * 1000 * total_memory_size) (snd rates)) (es_total_duration es),
        es_flops := total_flops, es_memory_size := total_memory_size\<rparr>"

section \<open>Stages over the decoding sequences\<close>

text \<open>
  The functions of the decoding step sum the times of a stage over sequences and heads first and
  access the memory once, with the accumulated length.
\<close>

record gen_state =
  gs_es :: exec_status
  gs_flops :: real
  gs_bytes :: real
  gs_compute :: real
  gs_memory :: real
  gs_len :: int

definition gen_start :: gen_state where
  "gen_start = \<lparr>gs_es = ExecStatus_ctor, gs_flops = 0, gs_bytes = 0, gs_compute = 0, gs_memory = 0, gs_len = 0\<rparr>"

definition gen_reset :: "gen_state \<Rightarrow> gen_state" where
  "gen_reset g = g\<lparr>gs_compute := 0, gs_memory := 0, gs_len := 0\<rparr>"

definition gen_charge :: "real \<times> real \<Rightarrow> real \<Rightarrow> real \<Rightarrow> gen_state \<Rightarrow> gen_state" where
  "gen_charge rates flops memory_size g =
     (let cd = ns_of flops (fst rates); es = gs_es g in
      g\<lparr>gs_flops := gs_flops g + flops, gs_bytes := gs_bytes g + memory_size,
        gs_es := es\<lparr>es_compute_duration := es_compute_duration es + cd\<rparr>,
        gs_compute := gs_compute g + cd, gs_memory := gs_memory g + ns_of memory_size (snd rates)\<rparr>)"

definition gen_loop ::
  "real \<times> real \<Rightarrow> int \<Rightarrow> (sequence \<Rightarrow> real \<times> real) \<Rightarrow> (sequence \<Rightarrow> int) \<Rightarrow> sequence list \<Rightarrow> gen_state \<Rightarrow> gen_state" where
  "gen_loop rates heads work len =
     fold (\<lambda>q g. let g = fold (\<lambda>_. gen_charge rates (fst (work q)) (snd (work q))) (irange 0 heads) g
                 in g\<lparr>gs_len := gs_len g + len q\<rparr>)"

text \<open>
  The accesses of a stage. Where the code gathers them in \<^verbatim>\<open>temp\<close> and adds that once,
  the sums are the same, since \<^verbatim>\<open>operator+=\<close> only adds.
\<close>

definition gen_memory ::
  "ramulator \<Rightarrow> bool \<Rightarrow> LayerType \<Rightarrow> ProcessorType \<Rightarrow> access list \<Rightarrow> (real list \<Rightarrow> real)
    \<Rightarrow> gen_state \<times> device \<times> tensor list \<Rightarrow> (gen_state \<times> device \<times> tensor list) res" where
  "gen_memory ram use_ram layer pt accs time st =
     (let (g, d, ts) = st in
      rbind (run_accesses ram use_ram layer pt accs (d, ts)) (\<lambda>(temps, d, ts).
      Inr (g\<lparr>gs_es := add_temps temps (gs_es g),
             gs_memory := if use_ram then time (temp_times temps) else gs_memory g\<rparr>, d, ts)))"

definition gen_total :: "real \<Rightarrow> gen_state \<Rightarrow> gen_state" where
  "gen_total t g = g\<lparr>gs_es := (gs_es g)\<lparr>es_total_duration := es_total_duration (gs_es g) + t\<rparr>\<rparr>"

abbreviation gen_longer :: "gen_state \<Rightarrow> real" where
  "gen_longer g \<equiv> max (gs_compute g) (gs_memory g)"

text \<open>The softmax of a decoding step goes sequence by sequence, as in the prompt functions.\<close>

definition gen_run_stage ::
  "ramulator \<Rightarrow> bool \<Rightarrow> LayerType \<Rightarrow> ProcessorType \<Rightarrow> real \<times> real \<Rightarrow> sequence list \<Rightarrow> sum_stage
    \<Rightarrow> gen_state \<times> device \<times> tensor list \<Rightarrow> (gen_state \<times> device \<times> tensor list) res" where
  "gen_run_stage ram use_ram layer pt rates seqs sg st =
     (let (g, d, ts) = st in
      rbind (run_stage ram use_ram layer pt rates seqs sg
          (\<lparr>ss_es = gs_es g, ss_flops = gs_flops g, ss_bytes = gs_bytes g\<rparr>, d, ts)) (\<lambda>(s, d, ts).
      Inr (g\<lparr>gs_es := ss_es s, gs_flops := ss_flops s, gs_bytes := ss_bytes s\<rparr>, d, ts)))"

text \<open>\<^verbatim>\<open>seq->current_len + seq->num_process_token\<close>, and its multiple of four.\<close>

definition seq_span :: "sequence \<Rightarrow> int" where
  "seq_span q = sq_current_len q + sq_num_process_token q"

definition round4 :: "int \<Rightarrow> int" where
  "round4 n = cdiv (n + 3) 4 * 4"

text \<open>Scale, mask and softmax: seven operations per score.\<close>

definition softmax_flops :: "layer_info \<Rightarrow> sequence \<Rightarrow> real" where
  "softmax_flops info q = 7 * of_int (sq_num_process_token q) * of_int (seq_span q) * of_int (li_num_heads info)"

section \<open>What every stage keeps\<close>

text \<open>Configuration, costs already cached and the number of tensors.\<close>

definition device_keeps :: "device \<times> tensor list \<Rightarrow> device \<times> tensor list \<Rightarrow> bool" where
  "device_keeps st st' \<longleftrightarrow> dv_config (fst st') = dv_config (fst st) \<and> dv_cache (fst st) \<subseteq>\<^sub>m dv_cache (fst st') \<and>
     length (snd st') = length (snd st)"

lemma device_keeps_refl [simp]: "device_keeps st st"
  by (simp add: device_keeps_def)

lemma device_keeps_trans: "device_keeps a b \<Longrightarrow> device_keeps b c \<Longrightarrow> device_keeps a c"
  by (auto simp: device_keeps_def intro: map_le_trans)

lemma getIdealMemoryStatus_keeps:
  "getIdealMemoryStatus req t d = (e, d') \<Longrightarrow> dv_config d' = dv_config d \<and> dv_cache d' = dv_cache d"
  by (auto simp: getIdealMemoryStatus_def Let_def)

lemma access_one_keeps:
  assumes "access_one ram use_ram layer pt acc (temps, d, ts) = Inr (temps', d', ts')"
  shows "device_keeps (d, ts) (d', ts') \<and> length temps' = Suc (length temps)"
  using assms
  by (cases acc)
    (auto simp: access_one_def rbind_eq_Inr device_keeps_def split: if_splits prod.splits
      dest!: issueRamulator_keeps getIdealMemoryStatus_keeps)

lemma access_loop_keeps:
  assumes "rfold (access_one ram use_ram layer pt) accs (temps, d, ts) = Inr (temps', d', ts')"
  shows "device_keeps (d, ts) (d', ts') \<and> length temps' = length temps + length accs"
  using assms
proof (induction accs arbitrary: temps d ts)
  case (Cons a accs)
  then obtain t1 d1 ts1 where one: "access_one ram use_ram layer pt a (temps, d, ts) = Inr (t1, d1, ts1)"
    and rest: "rfold (access_one ram use_ram layer pt) accs (t1, d1, ts1) = Inr (temps', d', ts')"
    by (auto simp: rbind_eq_Inr)
  show ?case using access_one_keeps [OF one] Cons.IH [OF rest] device_keeps_trans by auto
qed simp

lemma run_accesses_keeps:
  "run_accesses ram use_ram layer pt accs (d, ts) = Inr (temps, d', ts') \<Longrightarrow>
    device_keeps (d, ts) (d', ts') \<and> length temps = length accs"
  by (auto simp: run_accesses_def dest: access_loop_keeps)

lemma stage_seq_keeps:
  "stage_seq ram use_ram layer pt rates sg q (s, d, ts) = Inr (s', d', ts') \<Longrightarrow> device_keeps (d, ts) (d', ts')"
  by (auto simp: stage_seq_def Let_def rbind_eq_Inr dest: run_accesses_keeps)

lemma run_stage_keeps:
  assumes "run_stage ram use_ram layer pt rates seqs sg (s, d, ts) = Inr (s', d', ts')"
  shows "device_keeps (d, ts) (d', ts')"
proof -
  have "device_keeps (d, ts) (snd (s', d', ts'))"
    using assms unfolding run_stage_def
    by (rule rfold_invariant [where P = "\<lambda>st. device_keeps (d, ts) (snd st)"])
      (auto, blast intro: device_keeps_trans stage_seq_keeps)
  then show ?thesis by simp
qed

lemma run_stages_keeps:
  assumes "run_stages ram use_ram layer pt rates seqs sgs (s, d, ts) = Inr (s', d', ts')"
  shows "device_keeps (d, ts) (d', ts')"
proof -
  have "device_keeps (d, ts) (snd (s', d', ts'))"
    using assms unfolding run_stages_def
    by (rule rfold_invariant [where P = "\<lambda>st. device_keeps (d, ts) (snd st)"])
      (auto, blast intro: device_keeps_trans run_stage_keeps)
  then show ?thesis by simp
qed

lemma gen_memory_keeps:
  "gen_memory ram use_ram layer pt accs time (g, d, ts) = Inr (g', d', ts') \<Longrightarrow> device_keeps (d, ts) (d', ts')"
  by (auto simp: gen_memory_def rbind_eq_Inr dest: run_accesses_keeps)

lemma gen_run_stage_keeps:
  "gen_run_stage ram use_ram layer pt rates seqs sg (g, d, ts) = Inr (g', d', ts') \<Longrightarrow> device_keeps (d, ts) (d', ts')"
  by (auto simp: gen_run_stage_def rbind_eq_Inr dest: run_stage_keeps)

section \<open>Times without Ramulator\<close>

text \<open>On a device with an idle DRAM interface the counted accesses add no time.\<close>

definition no_time :: "exec_status \<Rightarrow> bool" where
  "no_time e \<longleftrightarrow> es_memory_duration e = 0 \<and> es_total_duration e = 0 \<and> es_qk_duration e = 0 \<and>
     es_softmax_duration e = 0 \<and> es_score_v_duration e = 0"

lemma dram_quiet_no_time: "dram_quiet d \<longleftrightarrow> no_time (dv_dram_exec d)"
  by (simp add: dram_quiet_def no_time_def)

lemma access_loop_quiet:
  assumes "rfold (access_one ram False layer pt) accs (temps, d, ts) = Inr (temps', d', ts')" "dram_quiet d"
    and "list_all no_time temps"
  shows "dram_quiet d' \<and> list_all no_time temps'"
  using assms
proof (induction accs arbitrary: temps d ts)
  case (Cons a accs)
  obtain i rs rq ideal where a: "a = (i, rs, rq, ideal)" by (cases a) auto
  obtain t1 d1 ts1 where one: "access_one ram False layer pt a (temps, d, ts) = Inr (t1, d1, ts1)"
    and rest: "rfold (access_one ram False layer pt) accs (t1, d1, ts1) = Inr (temps', d', ts')"
    using Cons.prems(1) by (auto simp: rbind_eq_Inr)
  obtain t where "t1 = temps @ [dv_dram_exec (run_ideal ideal t d)]" "d1 = run_ideal ideal t d"
    using one by (auto simp: a access_one_def rbind_eq_Inr getIdealMemoryStatus_def Let_def split: prod.splits)
  moreover have "dram_quiet (run_ideal ideal t d)" using Cons.prems(2) by (rule run_ideal_quiet)
  ultimately have "dram_quiet d1" "list_all no_time t1"
    using Cons.prems(3) by (simp_all add: dram_quiet_no_time)
  then show ?case by (rule Cons.IH [OF rest])
qed simp

lemma add_temps_no_time:
  assumes "list_all no_time temps"
  shows "es_total_duration (add_temps temps es) = es_total_duration es \<and>
    es_memory_duration (add_temps temps es) = es_memory_duration es \<and>
    es_qk_duration (add_temps temps es) = es_qk_duration es \<and>
    es_softmax_duration (add_temps temps es) = es_softmax_duration es \<and>
    es_score_v_duration (add_temps temps es) = es_score_v_duration es"
  using assms unfolding add_temps_def
  by (induction temps arbitrary: es) (auto simp: exec_status_add_def no_time_def)

lemma run_accesses_quiet:
  assumes "run_accesses ram False layer pt accs (d, ts) = Inr (temps, d', ts')" "dram_quiet d"
  shows "dram_quiet d' \<and> list_all no_time temps"
  using access_loop_quiet [of ram layer pt accs "[]" d ts temps d' ts'] assms by (simp add: run_accesses_def)

lemma add_temps_compute [simp]: "es_compute_duration (add_temps temps es) = es_compute_duration es"
  unfolding add_temps_def by (induction temps arbitrary: es) (auto simp: exec_status_add_def)

definition stage_time :: "real \<times> real \<Rightarrow> sum_stage \<Rightarrow> sequence \<Rightarrow> real" where
  "stage_time rates sg q = sg_total sg (ns_of (sg_flops sg q) (fst rates)) (ns_of (sg_bytes sg q) (snd rates))"

lemma stage_seq_time:
  assumes "stage_seq ram False layer pt rates sg q (s, d, ts) = Inr (s', d', ts')" "dram_quiet d"
  shows "dram_quiet d' \<and> es_total_duration (ss_es s') = es_total_duration (ss_es s) + stage_time rates sg q \<and>
    ss_flops s' = ss_flops s + sg_flops sg q \<and> ss_bytes s' = ss_bytes s + sg_counted sg q"
proof -
  obtain temps where run: "run_accesses ram False layer pt (sg_accesses sg q) (d, ts) = Inr (temps, d', ts')"
    using assms(1) by (auto simp: stage_seq_def Let_def rbind_eq_Inr)
  show ?thesis
    using assms(1) run_accesses_quiet [OF run assms(2)]
    by (auto simp: stage_seq_def Let_def run stage_time_def add_temps_no_time)
qed

lemma run_stage_time:
  assumes "run_stage ram False layer pt rates seqs sg (s, d, ts) = Inr (s', d', ts')" "dram_quiet d"
  shows "dram_quiet d' \<and>
    es_total_duration (ss_es s') = es_total_duration (ss_es s) + sum_list (map (stage_time rates sg) seqs) \<and>
    ss_flops s' = ss_flops s + sum_list (map (sg_flops sg) seqs) \<and>
    ss_bytes s' = ss_bytes s + sum_list (map (sg_counted sg) seqs)"
  using assms unfolding run_stage_def
proof (induction seqs arbitrary: s d ts)
  case (Cons q seqs)
  obtain s1 d1 ts1 where one: "stage_seq ram False layer pt rates sg q (s, d, ts) = Inr (s1, d1, ts1)"
    and rest: "rfold (stage_seq ram False layer pt rates sg) seqs (s1, d1, ts1) = Inr (s', d', ts')"
    using Cons.prems(1) by (auto simp: rbind_eq_Inr)
  note f = stage_seq_time [OF one Cons.prems(2)]
  show ?case using f Cons.IH [OF rest] by simp
qed simp

lemma run_stages_time:
  assumes "run_stages ram False layer pt rates seqs sgs (s, d, ts) = Inr (s', d', ts')" "dram_quiet d"
  shows "es_total_duration (ss_es s') = es_total_duration (ss_es s) +
      sum_list (map (\<lambda>sg. sum_list (map (stage_time rates sg) seqs)) sgs) \<and>
    ss_flops s' = ss_flops s + sum_list (map (\<lambda>sg. sum_list (map (sg_flops sg) seqs)) sgs) \<and>
    ss_bytes s' = ss_bytes s + sum_list (map (\<lambda>sg. sum_list (map (sg_counted sg) seqs)) sgs)"
  using assms unfolding run_stages_def
proof (induction sgs arbitrary: s d ts)
  case (Cons sg sgs)
  obtain s1 d1 ts1 where one: "run_stage ram False layer pt rates seqs sg (s, d, ts) = Inr (s1, d1, ts1)"
    and rest: "rfold (run_stage ram False layer pt rates seqs) sgs (s1, d1, ts1) = Inr (s', d', ts')"
    using Cons.prems(1) by (auto simp: rbind_eq_Inr)
  note f = run_stage_time [OF one Cons.prems(2)]
  show ?case using f Cons.IH [OF rest] by simp
qed simp

text \<open>The stages of a decoding step.\<close>

lemma charge_heads:
  "fold (\<lambda>_. gen_charge rates fl by) xs g = g\<lparr>gs_flops := gs_flops g + real (length xs) * fl,
     gs_bytes := gs_bytes g + real (length xs) * by, gs_compute := gs_compute g + real (length xs) * ns_of fl (fst rates),
     gs_memory := gs_memory g + real (length xs) * ns_of by (snd rates),
     gs_es := (gs_es g)\<lparr>es_compute_duration := es_compute_duration (gs_es g) + real (length xs) * ns_of fl (fst rates)\<rparr>\<rparr>"
  by (induction xs arbitrary: g) (simp_all add: gen_charge_def Let_def algebra_simps)

lemma gen_loop_sums:
  fixes heads :: int and work :: "sequence \<Rightarrow> real \<times> real"
  defines "n \<equiv> real (nat heads)"
  shows "gen_loop rates heads work len qs g = g\<lparr>gs_flops := gs_flops g + n * (\<Sum>q\<leftarrow>qs. fst (work q)),
     gs_bytes := gs_bytes g + n * (\<Sum>q\<leftarrow>qs. snd (work q)), gs_compute := gs_compute g + n * (\<Sum>q\<leftarrow>qs. ns_of (fst (work q)) (fst rates)),
     gs_memory := gs_memory g + n * (\<Sum>q\<leftarrow>qs. ns_of (snd (work q)) (snd rates)), gs_len := gs_len g + sum_list (map len qs),
     gs_es := (gs_es g)\<lparr>es_compute_duration := es_compute_duration (gs_es g) + n * (\<Sum>q\<leftarrow>qs. ns_of (fst (work q)) (fst rates))\<rparr>\<rparr>"
  unfolding gen_loop_def
  by (induction qs arbitrary: g) (simp_all add: charge_heads Let_def n_def algebra_simps)

lemma gen_memory_time:
  assumes "gen_memory ram False layer pt accs time (g, d, ts) = Inr (g', d', ts')" "dram_quiet d"
  shows "dram_quiet d' \<and> gs_flops g' = gs_flops g \<and> gs_bytes g' = gs_bytes g \<and> gs_compute g' = gs_compute g \<and>
    gs_memory g' = gs_memory g \<and> gs_len g' = gs_len g \<and>
    es_total_duration (gs_es g') = es_total_duration (gs_es g) \<and> es_qk_duration (gs_es g') = es_qk_duration (gs_es g) \<and>
    es_softmax_duration (gs_es g') = es_softmax_duration (gs_es g) \<and>
    es_score_v_duration (gs_es g') = es_score_v_duration (gs_es g) \<and>
    es_compute_duration (gs_es g') = es_compute_duration (gs_es g)"
proof -
  obtain temps where run: "run_accesses ram False layer pt accs (d, ts) = Inr (temps, d', ts')"
    and g': "g' = g\<lparr>gs_es := add_temps temps (gs_es g)\<rparr>"
    using assms(1) by (auto simp: gen_memory_def rbind_eq_Inr)
  show ?thesis using run_accesses_quiet [OF run assms(2)] by (simp add: g' add_temps_no_time)
qed

text \<open>A single access leaves its shape behind.\<close>

lemma gen_memory_shape:
  assumes "gen_memory ram use_ram layer pt [(i, Whole dims, rq)] time (g, d, ts) = Inr (g', d', ts')"
  shows "\<exists>u. ts' = ts[nat i := u] \<and> t_shape u = dims \<and> 0 \<le> i \<and> i < int (length ts)"
  using assms
  by (cases rq)
    (auto simp: gen_memory_def run_accesses_def access_one_def reshape_tensor_def rbind_eq_Inr vec_at_Inr_iff
      setShape_def Let_def split: option.splits prod.splits)

text \<open>A stage that charges at least its compute time and the time of the bytes it counts.\<close>

definition stage_covers :: "real \<times> real \<Rightarrow> sum_stage \<Rightarrow> sequence \<Rightarrow> bool" where
  "stage_covers rates sg q \<longleftrightarrow> 0 \<le> sg_flops sg q \<and> 0 \<le> sg_counted sg q \<and>
     ns_of (sg_flops sg q) (fst rates) \<le> stage_time rates sg q \<and>
     ns_of (sg_counted sg q) (snd rates) \<le> stage_time rates sg q"

lemma stage_covers_max:
  assumes "sg_total sg = max" "sg_bytes sg q = sg_counted sg q" "0 \<le> sg_flops sg q" "0 \<le> sg_counted sg q"
  shows "stage_covers rates sg q"
  using assms by (simp add: stage_covers_def stage_time_def)

lemma ns_of_linear:
  assumes "0 < r"
  shows "ns_of 0 r = 0" "ns_of (x + y) r = ns_of x r + ns_of y r" "0 < x \<Longrightarrow> 0 < ns_of x r"
  using assms by (simp_all add: ns_of_def add_divide_distrib)

lemma ns_of_scale: "0 < r \<Longrightarrow> ns_of (c * x) r = c * ns_of x r"
  by (simp add: ns_of_def)

lemma ns_of_sum_list: "0 < r \<Longrightarrow> sum_list (map (\<lambda>x. ns_of (f x) r) xs) = ns_of (sum_list (map f xs)) r"
  by (induction xs) (simp_all add: ns_of_linear)

lemma ns_of_nonneg: "0 < r \<Longrightarrow> 0 \<le> x \<Longrightarrow> 0 \<le> ns_of x r"
  by (simp add: ns_of_def)

lemma ns_of_sum_list_le:
  assumes "0 < r" "\<And>x. x \<in> set xs \<Longrightarrow> ns_of (f x) r \<le> g x"
  shows "ns_of (sum_list (map f xs)) r \<le> sum_list (map g xs)"
  using assms(2) by (induction xs) (auto simp: ns_of_linear [OF assms(1)] intro!: add_mono)

lemma stages_cover:
  assumes "0 < fst rates" "0 < snd rates"
    and "\<And>sg q. sg \<in> set sgs \<Longrightarrow> q \<in> set seqs \<Longrightarrow> stage_covers rates sg q"
  shows "ns_of (sum_list (map (\<lambda>sg. sum_list (map (sg_flops sg) seqs)) sgs)) (fst rates) \<le>
      sum_list (map (\<lambda>sg. sum_list (map (stage_time rates sg) seqs)) sgs) \<and>
    ns_of (sum_list (map (\<lambda>sg. sum_list (map (sg_counted sg) seqs)) sgs)) (snd rates) \<le>
      sum_list (map (\<lambda>sg. sum_list (map (stage_time rates sg) seqs)) sgs) \<and>
    0 \<le> sum_list (map (\<lambda>sg. sum_list (map (sg_flops sg) seqs)) sgs) \<and>
    0 \<le> sum_list (map (\<lambda>sg. sum_list (map (sg_counted sg) seqs)) sgs)"
proof -
  have "ns_of (sum_list (map (sg_flops sg) seqs)) (fst rates) \<le> sum_list (map (stage_time rates sg) seqs)"
    "ns_of (sum_list (map (sg_counted sg) seqs)) (snd rates) \<le> sum_list (map (stage_time rates sg) seqs)"
    if "sg \<in> set sgs" for sg
    using assms that by (auto simp: stage_covers_def intro!: ns_of_sum_list_le)
  then show ?thesis
    using assms by (auto simp: stage_covers_def intro!: ns_of_sum_list_le sum_list_nonneg)
qed

lemma attention_finish_fields [simp]:
  "es_total_duration (attention_finish rates fl by es) = es_total_duration es"
  "es_flops (attention_finish rates fl by es) = fl"
  "es_memory_size (attention_finish rates fl by es) = by"
  "es_qk_duration (attention_finish rates fl by es) = es_qk_duration es"
  "es_score_v_duration (attention_finish rates fl by es) = es_score_v_duration es"
  "es_compute_duration (attention_finish rates fl by es) = es_compute_duration es"
  by (simp_all add: attention_finish_def)

lemma attention_finish_utils:
  assumes "0 < fst rates" "0 < snd rates" "0 \<le> fl" "0 \<le> by" "ns_of fl (fst rates) \<le> es_total_duration es"
    and "ns_of by (snd rates) \<le> es_total_duration es" "0 < es_total_duration es"
  shows "0 \<le> es_compute_util (attention_finish rates fl by es) \<and> es_compute_util (attention_finish rates fl by es) \<le> 1 \<and>
    0 \<le> es_memory_util (attention_finish rates fl by es) \<and> es_memory_util (attention_finish rates fl by es) \<le> 1"
proof -
  have "es_compute_util (attention_finish rates fl by es) = ns_of fl (fst rates) / es_total_duration es"
    "es_memory_util (attention_finish rates fl by es) = ns_of by (snd rates) / es_total_duration es"
    "0 \<le> ns_of fl (fst rates)" "0 \<le> ns_of by (snd rates)"
    using assms by (simp_all add: attention_finish_def ns_of_def)
  then show ?thesis using assms(5-7) by simp
qed

text \<open>The prompt functions as one: their utilisations are at most one.\<close>

lemma run_stages_bounded:
  assumes "run_stages ram False layer pt rates seqs sgs (sum_start, d, ts) = Inr (s, d', ts')" "dram_quiet d"
    and "\<And>sg q. sg \<in> set sgs \<Longrightarrow> q \<in> set seqs \<Longrightarrow> stage_covers rates sg q" "0 < fst rates" "0 < snd rates" "0 < ss_flops s"
  defines "es \<equiv> attention_finish rates (ss_flops s) (ss_bytes s) (ss_es s)"
  shows "es_total_duration es = sum_list (map (\<lambda>sg. sum_list (map (stage_time rates sg) seqs)) sgs) \<and>
    es_flops es = sum_list (map (\<lambda>sg. sum_list (map (sg_flops sg) seqs)) sgs) \<and>
    es_memory_size es = sum_list (map (\<lambda>sg. sum_list (map (sg_counted sg) seqs)) sgs) \<and>
    es_compute_util es \<le> 1 \<and> es_memory_util es \<le> 1"
proof -
  have f: "es_total_duration (ss_es s) = sum_list (map (\<lambda>sg. sum_list (map (stage_time rates sg) seqs)) sgs)"
    "ss_flops s = sum_list (map (\<lambda>sg. sum_list (map (sg_flops sg) seqs)) sgs)"
    "ss_bytes s = sum_list (map (\<lambda>sg. sum_list (map (sg_counted sg) seqs)) sgs)"
    using run_stages_time [OF assms(1,2)] by (simp_all add: sum_start_def ExecStatus_ctor_def)
  note c = stages_cover [of rates sgs seqs, OF assms(4,5,3), folded f]
  have "0 < ns_of (ss_flops s) (fst rates)" using assms(4,6) by (simp add: ns_of_linear)
  then have "0 < es_total_duration (ss_es s)" using c by linarith
  then show ?thesis
    using attention_finish_utils [of rates "ss_flops s" "ss_bytes s" "ss_es s"] assms(4,5) c
    by (simp add: es_def f)
qed

section \<open>Runs that succeed\<close>

text \<open>Tensors that live in memory and have two dimensions, and the accesses the functions make.\<close>

definition good_tensors :: "tensor list \<Rightarrow> bool" where
  "good_tensors ts \<longleftrightarrow> (\<forall>t\<in>set ts. t_memory_object t \<noteq> None \<and> 2 \<le> length (t_shape t))"

definition good_access :: "nat \<Rightarrow> access \<Rightarrow> bool" where
  "good_access n acc = (let (i, rs, _, _) = acc in 0 \<le> i \<and> i < int n \<and>
     (case rs of Same \<Rightarrow> True | Whole dims \<Rightarrow> 2 \<le> length dims | Dims dims \<Rightarrow> length dims \<le> 2))"

lemma setShape_mem: "t_memory_object t \<noteq> None \<Longrightarrow>
    \<exists>u. setShape mc shp t = Inr u \<and> t_shape u = shp \<and> t_memory_object u \<noteq> None \<and> t_precision_byte u = t_precision_byte t"
  by (auto simp: setShape_def Let_def)

lemma reshape_tensor_good:
  assumes "t_memory_object t \<noteq> None" "2 \<le> length (t_shape t)"
    and "case rs of Same \<Rightarrow> True | Whole dims \<Rightarrow> 2 \<le> length dims | Dims dims \<Rightarrow> length dims \<le> 2"
  shows "\<exists>u. reshape_tensor mc rs t = Inr u \<and> t_memory_object u \<noteq> None \<and> 2 \<le> length (t_shape u)"
proof (cases rs)
  case Same
  then show ?thesis using assms by (simp add: reshape_tensor_def)
next
  case (Whole dims)
  then show ?thesis using assms setShape_mem [OF assms(1), of mc dims] by (auto simp: reshape_tensor_def)
next
  case (Dims dims)
  then show ?thesis
    using assms setShape_mem [OF assms(1), of mc "dims @ drop (length dims) (t_shape t)"]
    by (auto simp: reshape_tensor_def)
qed

lemma access_one_good:
  assumes "good_tensors ts" "good_access (length ts) acc"
  shows "\<exists>temps' d' ts'. access_one ram False layer pt acc (temps, d, ts) = Inr (temps', d', ts') \<and>
    good_tensors ts' \<and> length ts' = length ts"
proof -
  obtain i rs req opnd ideal where a: "acc = (i, rs, (req, opnd), ideal)" by (metis prod.collapse)
  have i: "0 \<le> i" "i < int (length ts)"
    and rs: "case rs of Same \<Rightarrow> True | Whole dims \<Rightarrow> 2 \<le> length dims | Dims dims \<Rightarrow> length dims \<le> 2"
    using assms(2) by (simp_all add: good_access_def a)
  have "ts ! nat i \<in> set ts" using i by simp
  then obtain u where u: "reshape_tensor (dv_mc d) rs (ts ! nat i) = Inr u" "t_memory_object u \<noteq> None" "2 \<le> length (t_shape u)"
    using reshape_tensor_good [of "ts ! nat i" rs "dv_mc d", OF _ _ rs] assms(1) by (auto simp: good_tensors_def)
  have "good_tensors (ts[nat i := u])"
    using assms(1) u(2,3) set_update_subset_insert [of ts "nat i" u] by (auto simp: good_tensors_def)
  then show ?thesis using i u(1) by (simp add: access_one_def a vec_at_def getIdealMemoryStatus_def Let_def)
qed

lemma access_loop_good:
  assumes "good_tensors ts" "\<forall>a\<in>set accs. good_access (length ts) a"
  shows "\<exists>temps' d' ts'. rfold (access_one ram False layer pt) accs (temps, d, ts) = Inr (temps', d', ts') \<and>
    good_tensors ts' \<and> length ts' = length ts"
  using assms
proof (induction accs arbitrary: temps d ts)
  case (Cons a accs)
  then obtain t1 d1 ts1 where one: "access_one ram False layer pt a (temps, d, ts) = Inr (t1, d1, ts1)"
      "good_tensors ts1" "length ts1 = length ts"
    using access_one_good [of ts a ram layer pt temps d] by auto
  with Cons.IH [of ts1 t1 d1] Cons.prems(2) show ?case by simp
qed simp

lemma run_accesses_good:
  "good_tensors ts \<Longrightarrow> \<forall>a\<in>set accs. good_access (length ts) a \<Longrightarrow>
    \<exists>temps' d' ts'. run_accesses ram False layer pt accs (d, ts) = Inr (temps', d', ts') \<and>
      good_tensors ts' \<and> length ts' = length ts"
  using access_loop_good [of ts accs ram layer pt "[]" d] by (simp add: run_accesses_def)

lemma run_stage_returns:
  assumes "good_tensors ts" "\<forall>q\<in>set seqs. \<forall>a\<in>set (sg_accesses sg q). good_access (length ts) a"
  shows "\<exists>s' d' ts'. run_stage ram False layer pt rates seqs sg (s, d, ts) = Inr (s', d', ts') \<and>
    good_tensors ts' \<and> length ts' = length ts"
  using assms unfolding run_stage_def
proof (induction seqs arbitrary: s d ts)
  case (Cons q seqs)
  then obtain temps d1 ts1 where one: "run_accesses ram False layer pt (sg_accesses sg q) (d, ts) = Inr (temps, d1, ts1)"
      "good_tensors ts1" "length ts1 = length ts"
    using run_accesses_good [of ts "sg_accesses sg q" ram layer pt d] by auto
  then obtain s1 where "stage_seq ram False layer pt rates sg q (s, d, ts) = Inr (s1, d1, ts1)"
    by (simp add: stage_seq_def Let_def)
  with Cons.IH [of ts1 s1 d1] Cons.prems(2) one show ?case by simp
qed simp

lemma run_stages_returns:
  assumes "good_tensors ts" "\<forall>sg\<in>set sgs. \<forall>q\<in>set seqs. \<forall>a\<in>set (sg_accesses sg q). good_access (length ts) a"
  shows "\<exists>s' d' ts'. run_stages ram False layer pt rates seqs sgs (s, d, ts) = Inr (s', d', ts') \<and>
    good_tensors ts' \<and> length ts' = length ts"
  using assms unfolding run_stages_def
proof (induction sgs arbitrary: s d ts)
  case (Cons sg sgs)
  then obtain s1 d1 ts1 where "run_stage ram False layer pt rates seqs sg (s, d, ts) = Inr (s1, d1, ts1)"
      "good_tensors ts1" "length ts1 = length ts"
    using run_stage_returns [of ts seqs sg ram layer pt rates s d] by auto
  with Cons.IH [of ts1 s1 d1] Cons.prems(2) show ?case by simp
qed simp

lemma example_device_facts:
  "dv_config example_device = H100" "dram_quiet example_device" "dv_mc example_device = hbm3_80GB"
  by (simp_all add: example_device_def Device_ctor_def device_memory_def H100_def SystemConfig_ctor_def
      dram_quiet_def ExecStatus_ctor_def hbm3_80GB_def)

lemma gen_memory_good:
  assumes "good_tensors ts" "\<forall>a\<in>set accs. good_access (length ts) a"
  shows "\<exists>g' d' ts'. gen_memory ram False layer pt accs time (g, d, ts) = Inr (g', d', ts') \<and>
    good_tensors ts' \<and> length ts' = length ts"
proof -
  obtain temps d' ts' where "run_accesses ram False layer pt accs (d, ts) = Inr (temps, d', ts')" "good_tensors ts'" "length ts' = length ts"
    using run_accesses_good [OF assms, of ram layer pt d] by auto
  then show ?thesis by (simp add: gen_memory_def)
qed

end
