(* ===== verification/Mla_Exec.thy ===== *)
theory Mla_Exec
  imports Attention_Stage
begin

text \<open>
  Multi-head latent attention: the \<^verbatim>\<open>MultiLatentAttentionGenExecution*\<close> functions
  of \<^verbatim>\<open>src/hardware/attention_gen_impl.cpp\<close> and
  \<^verbatim>\<open>MultiLatentAttentionSumExecution*\<close> of \<^verbatim>\<open>attention_sum_impl.cpp\<close>.
  The three functions of a step have one text but for the processor type, the rates and the tile
  sizes of the prompt kernel, so each is an instance of one body. With a compressed cache there is only one
  tensor, and the caches are the input itself.
\<close>

section \<open>The decoding step\<close>

text \<open>
  One pass of the fused kernel over a sequence. The sums so far, not the times of the sequence, are
  added to the durations of the status.
\<close>

definition mla_flash_step :: "real \<times> real \<Rightarrow> (sequence \<Rightarrow> real \<times> real) \<Rightarrow> sequence \<Rightarrow> gen_state \<Rightarrow> gen_state" where
  "mla_flash_step rates work q g =
     (let (flops, memory_size) = work q; compute = gs_compute g + ns_of flops (fst rates);
          memory = gs_memory g + ns_of memory_size (snd rates); es = gs_es g
      in g\<lparr>gs_len := gs_len g + seq_span q, gs_flops := gs_flops g + flops, gs_bytes := gs_bytes g + memory_size,
           gs_compute := compute, gs_memory := memory,
           gs_es := es\<lparr>es_compute_duration := es_compute_duration es + compute,
                       es_memory_duration := es_memory_duration es + memory\<rparr>\<rparr>)"

definition mla_flash_work :: "layer_info \<Rightarrow> tensor \<Rightarrow> sequence \<Rightarrow> real \<times> real" where
  "mla_flash_work info input q =
     (let m = real_of_int (sq_num_process_token q); n = real_of_int (seq_span q); hd = real_of_int (li_head_dim info);
          qk = real_of_int (li_head_dim info + li_qk_rope_head_dim info); h = real_of_int (li_num_heads info)
      in (2 * m * qk * n * h + 2 * m * hd * n * h,
          (m * qk + n * qk + n * hd + m * hd) * h * of_int (t_precision_byte input)))"

definition mla_gen_flash ::
  "ramulator \<Rightarrow> bool \<Rightarrow> ProcessorType \<Rightarrow> real \<times> real \<Rightarrow> layer_info \<Rightarrow> tensor \<Rightarrow> sequence list
    \<Rightarrow> gen_state \<times> device \<times> tensor list \<Rightarrow> (gen_state \<times> device \<times> tensor list) res" where
  "mla_gen_flash ram use_ram pt rates info input qs st =
     (let (g, d, ts) = st; g = fold (mla_flash_step rates (mla_flash_work info input)) qs g; num_seq = int (length qs);
          hd = li_head_dim info; qk = hd + li_qk_rope_head_dim info; h = li_num_heads info
      in rbind (gen_memory ram use_ram MLA_GEN pt
          [read_whole 0 [num_seq * h, qk], read_whole 0 [gs_len g, qk * h], read_whole 0 [gs_len g, hd * h],
           write_whole 0 [num_seq, h * hd]] sum_list (g, d, ts)) (\<lambda>(g, d, ts).
      Inr (gen_total (gen_longer g) g, d, ts)))"

text \<open>Scoring and context charge every head of every sequence.\<close>

definition mla_head_work :: "int \<Rightarrow> tensor \<Rightarrow> sequence \<Rightarrow> real \<times> real" where
  "mla_head_work width input q =
     (let m = sq_num_process_token q; n = seq_span q
      in (of_int (m * width * n) * 2, of_int ((m * width + width * n + m * n) * t_precision_byte input)))"

definition mla_gen_scoring ::
  "ramulator \<Rightarrow> bool \<Rightarrow> ProcessorType \<Rightarrow> real \<times> real \<Rightarrow> layer_info \<Rightarrow> tensor \<Rightarrow> int \<Rightarrow> sequence list
    \<Rightarrow> gen_state \<times> device \<times> tensor list \<Rightarrow> (gen_state \<times> device \<times> tensor list) res" where
  "mla_gen_scoring ram use_ram pt rates info input k_cache qs st =
     (let (g, d, ts) = st; qk = li_head_dim info + li_qk_rope_head_dim info; h = li_num_heads info;
          g = gen_loop rates h (mla_head_work qk input) seq_span qs g
      in rbind (gen_memory ram use_ram MLA_GEN pt
          [read_whole 0 [int (length qs) * h, qk], read_whole k_cache [gs_len g, qk * h], write_whole 0 [h, gs_len g]]
          sum_list (g, d, ts)) (\<lambda>(g, d, ts).
      Inr (gen_total (gen_longer g) g, d, ts)))"

text \<open>The softmax takes time for its bytes, which are not counted.\<close>

definition mla_gen_softmax :: "layer_info \<Rightarrow> tensor \<Rightarrow> sum_stage" where
  "mla_gen_softmax info input =
     \<lparr>sg_flops = softmax_flops info,
      sg_bytes = (\<lambda>q. 2 * of_int (sq_num_process_token q) * of_int (seq_span q) * of_int (li_num_heads info)
        * of_int (t_precision_byte input)),
      sg_counted = (\<lambda>_. 0), sg_compute = False,
      sg_accesses = (\<lambda>q. [read_whole 0 [sq_num_process_token q, seq_span q * li_num_heads info], write_same]),
      sg_time = (\<lambda>_ ts. sum_list ts), sg_total = max\<rparr>"

definition mla_gen_context ::
  "ramulator \<Rightarrow> bool \<Rightarrow> ProcessorType \<Rightarrow> real \<times> real \<Rightarrow> layer_info \<Rightarrow> tensor \<Rightarrow> int \<Rightarrow> sequence list
    \<Rightarrow> gen_state \<times> device \<times> tensor list \<Rightarrow> (gen_state \<times> device \<times> tensor list) res" where
  "mla_gen_context ram use_ram pt rates info input v_cache qs st =
     (let (g, d, ts) = st; hd = li_head_dim info; h = li_num_heads info;
          g = gen_loop rates h (mla_head_work hd input) seq_span qs (gen_reset g)
      in rbind (gen_memory ram use_ram MLA_GEN pt
          [read_whole 0 [h, gs_len g], read_whole v_cache [gs_len g, hd * h], write_whole 0 [int (length qs), h * hd]]
          sum_list (g, d, ts)) (\<lambda>(g, d, ts).
      Inr (gen_total (gen_longer g) g, d, ts)))"

text \<open>\<^verbatim>\<open>input->setShape(orig_shape)\<close>.\<close>

definition restore_input :: "int list \<Rightarrow> device \<Rightarrow> tensor list \<Rightarrow> tensor list res" where
  "restore_input orig_shape d ts =
     rbind (vec_at ts 0) (\<lambda>input. rbind (setShape (dv_mc d) orig_shape input) (\<lambda>input. Inr (ts[0 := input])))"

definition mla_gen_body :: "ramulator \<Rightarrow> ProcessorType \<Rightarrow> (system_config \<Rightarrow> tensor \<Rightarrow> real \<times> real) \<Rightarrow> layer_fn" where
  "mla_gen_body ram pt rates_of d ts seqs info use_ram =
     (let (k_cache, v_cache) = (if length ts > 1 then (1, 2) else (0, 0)) in
      rbind (vec_at ts 0) (\<lambda>input. rbind (vec_at ts k_cache) (\<lambda>_. rbind (vec_at ts v_cache) (\<lambda>_.
      let rates = rates_of (dv_config d) input; qs = get_gen seqs in
      if get_gen_process_token seqs = 0 then Inr (ExecStatus_ctor, d, ts) else
      rbind (if li_use_flash_mla info then mla_gen_flash ram use_ram pt rates info input qs (gen_start, d, ts)
        else rbind (mla_gen_scoring ram use_ram pt rates info input k_cache qs (gen_start, d, ts)) (\<lambda>st.
             rbind (gen_run_stage ram use_ram MLA_GEN pt rates qs (mla_gen_softmax info input) st)
               (mla_gen_context ram use_ram pt rates info input v_cache qs))) (\<lambda>(g, d, ts).
      rbind (restore_input (t_shape input) d ts) (\<lambda>ts.
      Inr (attention_finish rates (gs_flops g) (gs_bytes g) (gs_es g), d, ts)))))))"

definition MultiLatentAttentionGenExecutionGPU :: "ramulator \<Rightarrow> layer_fn" where
  "MultiLatentAttentionGenExecutionGPU ram = mla_gen_body ram GPU gpu_rates"

definition MultiLatentAttentionGenExecutionLogic :: "ramulator \<Rightarrow> layer_fn" where
  "MultiLatentAttentionGenExecutionLogic ram = mla_gen_body ram LOGIC logic_rates"

definition MultiLatentAttentionGenExecutionPIM :: "ramulator \<Rightarrow> layer_fn" where
  "MultiLatentAttentionGenExecutionPIM ram = mla_gen_body ram PIM pim_rates"

definition mla_gen_function :: "ramulator \<Rightarrow> ProcessorType \<Rightarrow> layer_fn" where
  "mla_gen_function ram pt = (if pt = GPU then MultiLatentAttentionGenExecutionGPU ram
     else if pt = LOGIC then MultiLatentAttentionGenExecutionLogic ram else MultiLatentAttentionGenExecutionPIM ram)"

section \<open>Prompts\<close>

text \<open>
  Rows and columns of a tile. The shared memory holds 256 KiB, and the quotient is one of doubles;
  the GPU caps the rows by the head dimension, the other two take it for the columns.
\<close>

definition flash_rows :: "int \<Rightarrow> int \<Rightarrow> real" where
  "flash_rows k pb = fdiv (256 * 1024) (of_int (4 * k * pb))"

definition gpu_tile :: "int \<Rightarrow> int \<Rightarrow> int \<times> int" where
  "gpu_tile k pb = (ctrunc (min (flash_rows k pb) (of_int k)), ctrunc (flash_rows k pb))"

definition near_tile :: "int \<Rightarrow> int \<Rightarrow> int \<times> int" where
  "near_tile k pb = (ctrunc (flash_rows k pb), k)"

definition flash_tiles :: "(int \<Rightarrow> int \<Rightarrow> int \<times> int) \<Rightarrow> layer_info \<Rightarrow> tensor \<Rightarrow> sequence \<Rightarrow> (int \<times> int) \<times> (int \<times> int)" where
  "flash_tiles tile info input q =
     (let (r, c) = tile (li_head_dim info + li_qk_rope_head_dim info) (t_precision_byte input); m = sq_num_process_token q
      in ((r, c), (cdiv (m + r - 1) r, cdiv (m + c - 1) c)))"

definition flash_stage :: "(int \<Rightarrow> int \<Rightarrow> int \<times> int) \<Rightarrow> layer_info \<Rightarrow> tensor \<Rightarrow> sum_stage" where
  "flash_stage tile info input =
     (let hd = li_head_dim info; qk = hd + li_qk_rope_head_dim info; h = li_num_heads info;
          bytes = (\<lambda>q. let ((r, c), (tr, tc)) = flash_tiles tile info input q
            in (real_of_int (r * qk) * of_int tr * of_int tc + real_of_int (c * qk + c * hd) * of_int tc
                + 2 * real_of_int (r * hd) * of_int tr * of_int tc + 2 * real_of_int (r + r) * of_int tr * of_int tc)
               * of_int h * of_int (t_precision_byte input))
      in \<lparr>sg_flops = (\<lambda>q. let ((r, c), (tr, tc)) = flash_tiles tile info input q
            in real_of_int tr * of_int tc * (2 * of_int r * of_int qk * of_int c + 2 * of_int r * of_int hd * of_int c) * of_int h),
          sg_bytes = bytes, sg_counted = bytes, sg_compute = False,
          sg_accesses = (\<lambda>q. let ((r, c), (tr, tc)) = flash_tiles tile info input q
            in [read_dims [r * qk * tr, tc * h], read_dims [c * qk + c * hd, tc * h], read_dims [r * hd * tr, tc * h], write_same,
                read_dims [(r + r) * tr, tc * h], write_same]),
          sg_time = (\<lambda>_ ts. sum_list ts), sg_total = max\<rparr>)"

text \<open>Operations and bytes of a product over all heads.\<close>

definition heads_flops :: "int \<Rightarrow> layer_info \<Rightarrow> sequence \<Rightarrow> real" where
  "heads_flops width info q =
     of_int (sq_num_process_token q) * of_int width * of_int (seq_span q) * 2 * of_int (li_num_heads info)"

definition heads_bytes :: "int \<Rightarrow> layer_info \<Rightarrow> tensor \<Rightarrow> sequence \<Rightarrow> real" where
  "heads_bytes width info input q =
     (let m = real_of_int (sq_num_process_token q); n = real_of_int (seq_span q); w = real_of_int width; h = real_of_int (li_num_heads info)
      in (m * w * h + w * n * h + m * n * h) * of_int (t_precision_byte input))"

text \<open>
  The keys are read with all heads when the memory is simulated and with the KV heads when its
  commands are only counted.
\<close>

definition mla_sum_scoring :: "bool \<Rightarrow> layer_info \<Rightarrow> tensor \<Rightarrow> sum_stage" where
  "mla_sum_scoring use_ram info input =
     (let k = li_head_dim info + li_qk_rope_head_dim info; h = li_num_heads info
      in \<lparr>sg_flops = heads_flops k info, sg_bytes = heads_bytes k info input, sg_counted = heads_bytes k info input,
          sg_compute = False,
          sg_accesses = (\<lambda>q. let m = sq_num_process_token q; n = seq_span q in
            [read_dims [m, k * h], read_dims [k, n * (if use_ram then h else li_num_kv_heads info)], write_dims [m, n * h]]),
          sg_time = (\<lambda>_ ts. sum_list ts), sg_total = max\<rparr>)"

definition mla_sum_softmax :: "layer_info \<Rightarrow> tensor \<Rightarrow> sum_stage" where
  "mla_sum_softmax info input =
     (let bytes = (\<lambda>q. 2 * (of_int (sq_num_process_token q) * of_int (seq_span q) * of_int (li_num_heads info))
            * of_int (t_precision_byte input))
      in \<lparr>sg_flops = softmax_flops info, sg_bytes = bytes, sg_counted = bytes, sg_compute = False,
          sg_accesses = (\<lambda>q. [read_dims [sq_num_process_token q, seq_span q * li_num_heads info], write_same]),
          sg_time = (\<lambda>_ ts. sum_list ts), sg_total = max\<rparr>)"

definition mla_sum_context :: "layer_info \<Rightarrow> tensor \<Rightarrow> sum_stage" where
  "mla_sum_context info input =
     (let n = li_head_dim info; h = li_num_heads info
      in \<lparr>sg_flops = heads_flops n info, sg_bytes = heads_bytes n info input, sg_counted = heads_bytes n info input,
          sg_compute = False,
          sg_accesses = (\<lambda>q. let m = sq_num_process_token q; k = seq_span q in
            [read_dims [m, k * h], read_dims [k, n * li_num_kv_heads info], write_dims [m, n * h]]),
          sg_time = (\<lambda>_ ts. sum_list ts), sg_total = max\<rparr>)"

definition mla_sum_stages :: "(int \<Rightarrow> int \<Rightarrow> int \<times> int) \<Rightarrow> bool \<Rightarrow> layer_info \<Rightarrow> tensor \<Rightarrow> sum_stage list" where
  "mla_sum_stages tile use_ram info input =
     (if li_use_flash_attention info then [flash_stage tile info input]
      else [mla_sum_scoring use_ram info input, mla_sum_softmax info input, mla_sum_context info input])"

definition mla_sum_body ::
  "ramulator \<Rightarrow> ProcessorType \<Rightarrow> (system_config \<Rightarrow> tensor \<Rightarrow> real \<times> real) \<Rightarrow> (int \<Rightarrow> int \<Rightarrow> int \<times> int) \<Rightarrow> layer_fn" where
  "mla_sum_body ram pt rates_of tile d ts seqs info use_ram =
     rbind (vec_at ts 0) (\<lambda>input. rbind (vec_at ts 1) (\<lambda>output.
     let rates = rates_of (dv_config d) input in
     if getSize input = 0 then Inr (ExecStatus_ctor, d, ts) else
     rbind (run_stages ram use_ram MLA_SUM pt rates (get_sum seqs) (mla_sum_stages tile use_ram info input) (sum_start, d, ts)) (\<lambda>(s, d, ts).
     rbind (restore_input (t_shape input) d ts) (\<lambda>ts.
     rbind (assertTrue (ss_flops s > 0) ''fail'') (\<lambda>_.
     rbind (assertTrue (ss_bytes s > 0) ''fail'') (\<lambda>_.
     Inr (attention_finish rates (ss_flops s) (ss_bytes s) (ss_es s), d, ts)))))))"

text \<open>LOGIC and PIM are given the rates of the GPU, doubled for one-byte operands.\<close>

definition doubled_gpu_rates :: "system_config \<Rightarrow> tensor \<Rightarrow> real \<times> real" where
  "doubled_gpu_rates c input =
     (if t_precision_byte input = 1 then compute_peak_flops c * 2 else compute_peak_flops c, memory_bandwidth c)"

definition MultiLatentAttentionSumExecutionGPU :: "ramulator \<Rightarrow> layer_fn" where
  "MultiLatentAttentionSumExecutionGPU ram = mla_sum_body ram GPU gpu_rates gpu_tile"

definition MultiLatentAttentionSumExecutionLogic :: "ramulator \<Rightarrow> layer_fn" where
  "MultiLatentAttentionSumExecutionLogic ram = mla_sum_body ram LOGIC doubled_gpu_rates near_tile"

definition MultiLatentAttentionSumExecutionPIM :: "ramulator \<Rightarrow> layer_fn" where
  "MultiLatentAttentionSumExecutionPIM ram = mla_sum_body ram PIM doubled_gpu_rates near_tile"

definition mla_sum_function :: "ramulator \<Rightarrow> ProcessorType \<Rightarrow> layer_fn" where
  "mla_sum_function ram pt = (if pt = GPU then MultiLatentAttentionSumExecutionGPU ram
     else if pt = LOGIC then MultiLatentAttentionSumExecutionLogic ram else MultiLatentAttentionSumExecutionPIM ram)"

section \<open>What the functions keep\<close>

lemma restore_input_keeps:
  "restore_input shp d ts = Inr ts' \<Longrightarrow> device_keeps (d, ts) (d, ts') \<and> t_shape (ts' ! 0) = shp"
  by (auto simp: restore_input_def rbind_eq_Inr vec_at_Inr_iff device_keeps_def setShape_def Let_def split: option.splits)

lemma gen_stages_keep:
  "mla_gen_flash ram use_ram pt rates info input qs (g, d, ts) = Inr (g', d', ts') \<Longrightarrow> device_keeps (d, ts) (d', ts')"
  "mla_gen_scoring ram use_ram pt rates info input k_cache qs (g, d, ts) = Inr (g', d', ts') \<Longrightarrow> device_keeps (d, ts) (d', ts')"
  "mla_gen_context ram use_ram pt rates info input v_cache qs (g, d, ts) = Inr (g', d', ts') \<Longrightarrow> device_keeps (d, ts) (d', ts')"
  by (auto simp: mla_gen_flash_def mla_gen_scoring_def mla_gen_context_def Let_def rbind_eq_Inr dest: gen_memory_keeps)

lemma mla_gen_body_keeps:
  assumes "mla_gen_body ram pt rates_of d ts seqs info use_ram = Inr (es, d', ts')"
  shows "device_keeps (d, ts) (d', ts')"
  using assms unfolding mla_gen_body_def
  by (auto simp: Let_def rbind_eq_Inr split: if_splits prod.splits
      dest!: gen_stages_keep gen_run_stage_keeps restore_input_keeps intro: device_keeps_trans)

lemma mla_sum_body_keeps:
  assumes "mla_sum_body ram pt rates_of tile d ts seqs info use_ram = Inr (es, d', ts')"
  shows "device_keeps (d, ts) (d', ts')"
  using assms unfolding mla_sum_body_def
  by (auto simp: Let_def rbind_eq_Inr split: if_splits dest!: run_stages_keeps restore_input_keeps intro: device_keeps_trans)

lemma mla_function_keeps:
  "mla_gen_function ram pt d ts seqs info use_ram = Inr (es, d', ts') \<Longrightarrow> device_keeps (d, ts) (d', ts')"
  "mla_sum_function ram pt d ts seqs info use_ram = Inr (es, d', ts') \<Longrightarrow> device_keeps (d, ts) (d', ts')"
  by (auto simp: mla_gen_function_def mla_sum_function_def MultiLatentAttentionGenExecutionGPU_def
      MultiLatentAttentionGenExecutionLogic_def MultiLatentAttentionGenExecutionPIM_def
      MultiLatentAttentionSumExecutionGPU_def MultiLatentAttentionSumExecutionLogic_def
      MultiLatentAttentionSumExecutionPIM_def split: if_splits dest: mla_gen_body_keeps mla_sum_body_keeps)

section \<open>Tiles of the fused prompt kernel\<close>

lemma ctrunc_pos_bounds:
  assumes "1 \<le> x"
  shows "1 \<le> ctrunc x" "of_int (ctrunc x) \<le> x"
  using assms by (simp_all add: ctrunc_def le_floor_iff)

lemma ceil_div_bounds:
  assumes "0 < m" "0 < r"
  shows "m \<le> cdiv (m + r - 1) r * r" "cdiv (m + r - 1) r * r < m + r"
proof -
  have d: "cdiv (m + r - 1) r = (m + r - 1) div r" using assms by simp
  have "(m + r - 1) div r * r + (m + r - 1) mod r = m + r - 1" by simp
  moreover have "0 \<le> (m + r - 1) mod r" "(m + r - 1) mod r < r" using assms by simp_all
  ultimately show "m \<le> cdiv (m + r - 1) r * r" "cdiv (m + r - 1) r * r < m + r" unfolding d by linarith+
qed

text \<open>
  as long as one row fits, a tile of the fused prompt kernel on the GPU fits in the 256 KiB
  of shared memory, its rows are at most the head dimension, and rows and columns of tiles cover the
  new tokens with less than one tile to spare; but the tokens already cached are not covered: the cost
  of the kernel is the same however long the cached context is.
\<close>

theorem flash_tiles_cover:
  assumes "4 * k * pb \<le> 256 * 1024" "0 < k" "0 < pb" "k = li_head_dim info + li_qk_rope_head_dim info"
    and "pb = t_precision_byte input" "0 < sq_num_process_token q"
  shows "\<exists>r c tr tc. flash_tiles gpu_tile info input q = ((r, c), (tr, tc)) \<and> 1 \<le> r \<and> r \<le> k \<and> r \<le> c \<and>
      4 * k * pb * c \<le> 256 * 1024 \<and>
      sq_num_process_token q \<le> tr * r \<and> tr * r < sq_num_process_token q + r \<and>
      sq_num_process_token q \<le> tc * c \<and> tc * c < sq_num_process_token q + c \<and>
      sg_flops (flash_stage gpu_tile info input) (q\<lparr>sq_current_len := cached\<rparr>) = sg_flops (flash_stage gpu_tile info input) q \<and>
      sg_bytes (flash_stage gpu_tile info input) (q\<lparr>sq_current_len := cached\<rparr>) = sg_bytes (flash_stage gpu_tile info input) q"
proof -
  define x where "x = flash_rows k pb"
  define r where "r = ctrunc (min x (of_int k))"
  define c where "c = ctrunc x"
  have kp: "0 < 4 * k * pb" using assms(2,3) by simp
  have "k \<noteq> 0" "pb \<noteq> 0" using assms(2,3) by simp_all
  then have x: "x = 262144 / of_int (4 * k * pb)" by (simp add: x_def flash_rows_def)
  have "real_of_int (4 * k * pb) \<le> 262144" using assms(1) by linarith
  then have x1: "1 \<le> x" using kp by (simp add: x del: of_int_mult)
  have k1: "1 \<le> real_of_int k" using assms(2) by simp
  have r: "1 \<le> r" "real_of_int r \<le> min x (of_int k)" using ctrunc_pos_bounds [of "min x (of_int k)"] x1 k1 by (simp_all add: r_def)
  have c: "1 \<le> c" "real_of_int c \<le> x" using ctrunc_pos_bounds [of x] x1 by (simp_all add: c_def)
  have "r \<le> c" using x1 k1 by (simp add: r_def c_def ctrunc_def floor_mono)
  moreover have "real_of_int (4 * k * pb) * real_of_int c \<le> 262144"
  proof -
    have "real_of_int (4 * k * pb) * real_of_int c \<le> real_of_int (4 * k * pb) * x"
      using c(2) kp by (intro mult_left_mono) (simp_all del: of_int_mult)
    also have "\<dots> = 262144" using assms(2,3) by (simp add: x)
    finally show ?thesis .
  qed
  then have "real_of_int (4 * k * pb * c) \<le> real_of_int 262144" by simp
  then have "4 * k * pb * c \<le> 262144" by (simp only: of_int_le_iff)
  moreover have "flash_tiles gpu_tile info input q =
      ((r, c), (cdiv (sq_num_process_token q + r - 1) r, cdiv (sq_num_process_token q + c - 1) c))"
    using assms(4,5) by (simp add: flash_tiles_def gpu_tile_def Let_def r_def c_def x_def)
  moreover have "flash_tiles gpu_tile info input (q\<lparr>sq_current_len := cached\<rparr>) = flash_tiles gpu_tile info input q"
    by (simp add: flash_tiles_def)
  ultimately show ?thesis
    using r c ceil_div_bounds [of "sq_num_process_token q" r] ceil_div_bounds [of "sq_num_process_token q" c] assms(6)
    by (simp add: flash_stage_def Let_def)
qed

definition latent_info :: layer_info where
  "latent_info = LayerInfo_default\<lparr>li_num_heads := 16, li_num_kv_heads := 16, li_head_dim := 128, li_qk_rope_head_dim := 64, li_kv_lora_rank := 512\<rparr>"

theorem flash_tiles_cover_witness:
  "\<exists>r c tr tc. flash_tiles gpu_tile latent_info example_tensor (example_sequence\<lparr>sq_num_process_token := 1000\<rparr>) = ((r, c), (tr, tc)) \<and>
    1 \<le> r \<and> r \<le> c \<and> 4 * 192 * 2 * c \<le> 256 * 1024 \<and> 1000 \<le> tr * r \<and> 1000 \<le> tc * c"
proof -
  let ?q = "example_sequence\<lparr>sq_num_process_token := 1000\<rparr>"
  have pb: "2 = t_precision_byte example_tensor" by (simp add: example_tensor_def Tensor_ctor_def)
  have k: "192 = li_head_dim latent_info + li_qk_rope_head_dim latent_info" by (simp add: latent_info_def LayerInfo_default_def)
  have tok: "sq_num_process_token ?q = 1000" by simp
  obtain r c tr tc where "flash_tiles gpu_tile latent_info example_tensor ?q = ((r, c), (tr, tc))"
    "1 \<le> r" "r \<le> c" "4 * 192 * 2 * c \<le> 256 * 1024" "1000 \<le> tr * r" "1000 \<le> tc * c"
    using flash_tiles_cover [OF _ _ _ k pb, of ?q 0, unfolded tok] by auto
  then show ?thesis by blast
qed

section \<open>The fused decoding kernel\<close>

lemma flash_loop_sums:
  fixes work :: "sequence \<Rightarrow> real \<times> real" and rates :: "real \<times> real"
  defines "c \<equiv> \<lambda>q. ns_of (fst (work q)) (fst rates)" and "m \<equiv> \<lambda>q. ns_of (snd (work q)) (snd rates)"
  shows "let g' = fold (mla_flash_step rates work) qs g in
    gs_compute g' = gs_compute g + sum_list (map c qs) \<and> gs_memory g' = gs_memory g + sum_list (map m qs) \<and>
    gs_flops g' = gs_flops g + (\<Sum>q\<leftarrow>qs. fst (work q)) \<and>
    es_total_duration (gs_es g') = es_total_duration (gs_es g) \<and>
    es_compute_duration (gs_es g') = es_compute_duration (gs_es g) + real (length qs) * gs_compute g +
      (\<Sum>i<length qs. real (length qs - i) * c (qs ! i))"
proof (induction qs arbitrary: g)
  case (Cons q qs)
  obtain f b where w: "work q = (f, b)" by (cases "work q")
  define h where "h = mla_flash_step rates work q g"
  have h: "gs_compute h = gs_compute g + c q" "gs_memory h = gs_memory g + m q" "gs_flops h = gs_flops g + fst (work q)"
    "es_total_duration (gs_es h) = es_total_duration (gs_es g)"
    "es_compute_duration (gs_es h) = es_compute_duration (gs_es g) + (gs_compute g + c q)"
    by (simp_all add: h_def mla_flash_step_def Let_def w c_def m_def)
  have "(\<Sum>i<length (q # qs). real (length (q # qs) - i) * c ((q # qs) ! i)) =
      real (Suc (length qs)) * c q + (\<Sum>i<length qs. real (length qs - i) * c (qs ! i))"
    by (simp add: sum.lessThan_Suc_shift del: sum.lessThan_Suc)
  with Cons.IH [of h] show ?case by (simp add: h_def [symmetric] h Let_def algebra_simps)
qed (simp add: Let_def)

text \<open>
  C33: without Ramulator the fused decoding kernel takes the longer of its total compute and
  memory times; the compute duration it reports is not that total: it is the sum of all partial sums, so the
  first of \<open>n\<close> sequences is counted \<open>n\<close> times.
\<close>

theorem flash_decode_partial_sums:
  assumes "mla_gen_body ram pt rates_of d ts seqs info False = Inr (es, d', ts')" "vec_at ts 0 = Inr input"
    and "li_use_flash_mla info" "get_gen_process_token seqs \<noteq> 0" "dram_quiet d"
  defines "qs \<equiv> get_gen seqs" and "r \<equiv> rates_of (dv_config d) input"
  shows "es_total_duration es = max (\<Sum>q\<leftarrow>qs. ns_of (fst (mla_flash_work info input q)) (fst r))
      (\<Sum>q\<leftarrow>qs. ns_of (snd (mla_flash_work info input q)) (snd r)) \<and>
    es_compute_duration es = (\<Sum>i<length qs. real (length qs - i) * ns_of (fst (mla_flash_work info input (qs ! i))) (fst r))"
proof -
  define A where "A = fold (mla_flash_step r (mla_flash_work info input)) qs gen_start"
  obtain accs B d1 ts1 where m: "gen_memory ram False MLA_GEN pt accs sum_list (A, d, ts) = Inr (B, d1, ts1)"
    and es: "es = attention_finish r (gs_flops (gen_total (gen_longer B) B)) (gs_bytes (gen_total (gen_longer B) B)) (gs_es (gen_total (gen_longer B) B))"
    using assms(1-4) by (auto simp: mla_gen_body_def mla_gen_flash_def Let_def rbind_eq_Inr A_def r_def qs_def split: if_splits)
  note f = flash_loop_sums [of r "mla_flash_work info input" qs gen_start, folded A_def, unfolded Let_def]
  from gen_memory_time [OF m assms(5)] f show ?thesis
    by (simp add: es gen_total_def gen_start_def ExecStatus_ctor_def)
qed

lemma restore_input_good:
  assumes "good_tensors ts" "ts \<noteq> []"
  shows "\<exists>ts'. restore_input shp d ts = Inr ts'"
proof -
  have "t_memory_object (ts ! 0) \<noteq> None" using assms by (auto simp: good_tensors_def)
  then show ?thesis using assms(2) by (auto simp: restore_input_def vec_at_def setShape_def Let_def)
qed

lemma mla_gen_flash_good:
  assumes "good_tensors ts" "ts \<noteq> []"
  shows "\<exists>g' d' ts'. mla_gen_flash ram False pt rates info input qs (g, d, ts) = Inr (g', d', ts') \<and> good_tensors ts' \<and> ts' \<noteq> []"
proof -
  define A where "A = fold (mla_flash_step rates (mla_flash_work info input)) qs g"
  define accs where "accs = [read_whole 0 [int (length qs) * li_num_heads info, li_head_dim info + li_qk_rope_head_dim info],
      read_whole 0 [gs_len A, (li_head_dim info + li_qk_rope_head_dim info) * li_num_heads info],
      read_whole 0 [gs_len A, li_head_dim info * li_num_heads info], write_whole 0 [int (length qs), li_num_heads info * li_head_dim info]]"
  have "\<forall>a\<in>set accs. good_access (length ts) a" using assms(2) by (simp add: accs_def good_access_def)
  then obtain B d1 ts1 where "gen_memory ram False MLA_GEN pt accs sum_list (A, d, ts) = Inr (B, d1, ts1)" "good_tensors ts1" "length ts1 = length ts"
    using gen_memory_good [OF assms(1)] by blast
  then show ?thesis using assms(2) by (auto simp: mla_gen_flash_def Let_def A_def accs_def)
qed

definition latent_batch :: batched_sequence where
  "latent_batch = (BatchedSequence_Create 4 2)\<lparr>bs_sequence :=
     [example_sequence\<lparr>sq_input_len := 3, sq_current_len := 5, sq_num_process_token := 1\<rparr>,
      example_sequence\<lparr>sq_id := 1, sq_input_len := 3, sq_current_len := 7, sq_num_process_token := 1\<rparr>]\<rparr>"

theorem flash_decode_partial_sums_witness:
  "\<exists>es d' ts' c. mla_gen_body example_ramulator GPU gpu_rates example_device [example_tensor] latent_batch latent_info False = Inr (es, d', ts') \<and>
    c = (\<lambda>n. ns_of (fst (mla_flash_work latent_info example_tensor (example_sequence\<lparr>sq_current_len := n, sq_num_process_token := 1\<rparr>)))
      (compute_peak_flops H100)) \<and> es_compute_duration es = 2 * c 5 + c 7"
proof -
  have ts: "good_tensors [example_tensor]" by (simp add: good_tensors_def example_tensor_def Tensor_ctor_def)
  have gen: "get_gen latent_batch = bs_sequence latent_batch"
    by (simp add: latent_batch_def get_gen_def is_gen_def)
  have tok: "get_gen_process_token latent_batch \<noteq> 0"
    by (simp add: get_gen_process_token_def sum_tokens_def gen) (simp add: latent_batch_def)
  have fl: "li_use_flash_mla latent_info" by (simp add: latent_info_def LayerInfo_default_def)
  obtain g d1 ts1 where "mla_gen_flash example_ramulator False GPU (gpu_rates (dv_config example_device) example_tensor) latent_info
      example_tensor (get_gen latent_batch) (gen_start, example_device, [example_tensor]) = Inr (g, d1, ts1)" "good_tensors ts1" "ts1 \<noteq> []"
    using mla_gen_flash_good [OF ts] by blast
  moreover from this obtain ts2 where "restore_input (t_shape example_tensor) d1 ts1 = Inr ts2" using restore_input_good by blast
  ultimately obtain es where run: "mla_gen_body example_ramulator GPU gpu_rates example_device [example_tensor] latent_batch latent_info False = Inr (es, d1, ts2)"
    using tok fl by (simp add: mla_gen_body_def Let_def vec_at_def)
  have w: "mla_flash_work latent_info example_tensor (example_sequence\<lparr>sq_input_len := i, sq_current_len := n, sq_num_process_token := 1\<rparr>) =
      mla_flash_work latent_info example_tensor (example_sequence\<lparr>sq_current_len := n, sq_num_process_token := 1\<rparr>)"
    "mla_flash_work latent_info example_tensor (example_sequence\<lparr>sq_id := j, sq_input_len := i, sq_current_len := n, sq_num_process_token := 1\<rparr>) =
      mla_flash_work latent_info example_tensor (example_sequence\<lparr>sq_current_len := n, sq_num_process_token := 1\<rparr>)" for i j n
    by (simp_all add: mla_flash_work_def Let_def seq_span_def)
  have two: "bs_sequence latent_batch = [example_sequence\<lparr>sq_input_len := 3, sq_current_len := 5, sq_num_process_token := 1\<rparr>,
      example_sequence\<lparr>sq_id := 1, sq_input_len := 3, sq_current_len := 7, sq_num_process_token := 1\<rparr>]"
    by (simp add: latent_batch_def)
  show ?thesis
    using flash_decode_partial_sums [OF run _ fl tok example_device_facts(2)] run
    by (simp add: vec_at_def gen two w example_device_facts gpu_rates_def numeral_2_eq_2)
qed

end
