(* ===== verification/Absorb_Exec.thy ===== *)
theory Absorb_Exec
  imports Mla_Exec
begin

text \<open>
  Latent attention with absorbed weights: the \<^verbatim>\<open>AbsorbMLAGenExecution*\<close> functions
  of \<^verbatim>\<open>src/hardware/attention_gen_impl.cpp\<close> and
  \<^verbatim>\<open>AbsorbMLASumExecution*\<close> of \<^verbatim>\<open>attention_sum_impl.cpp\<close>. The
  cache is the compressed one: its rows have \<^verbatim>\<open>kv_lora_rank\<close> and
  \<^verbatim>\<open>qk_rope_head_dim\<close> columns and are shared by all heads.
\<close>

section \<open>Operations and bytes\<close>

text \<open>A product of every head with a shared operand of that width.\<close>

definition shared_bytes :: "int \<Rightarrow> layer_info \<Rightarrow> tensor \<Rightarrow> sequence \<Rightarrow> real" where
  "shared_bytes width info input q =
     (let m = real_of_int (sq_num_process_token q); n = real_of_int (seq_span q); w = real_of_int width; h = real_of_int (li_num_heads info)
      in (m * w * h + w * n + m * n * h) * of_int (t_precision_byte input))"

section \<open>The decoding step\<close>

text \<open>The fused kernel takes one token per sequence, whatever \<^verbatim>\<open>num_process_token\<close> is.\<close>

definition absorb_flash_work :: "layer_info \<Rightarrow> tensor \<Rightarrow> sequence \<Rightarrow> real \<times> real" where
  "absorb_flash_work info input q =
     (let n = real_of_int (seq_span q); h = real_of_int (li_num_heads info); lora = real_of_int (li_kv_lora_rank info);
          width = real_of_int (li_kv_lora_rank info + li_qk_rope_head_dim info)
      in (2 * h * width * n + 2 * h * lora * n, (h * width + n * width + h * lora) * of_int (t_precision_byte input)))"

definition absorb_gen_flash ::
  "ramulator \<Rightarrow> bool \<Rightarrow> ProcessorType \<Rightarrow> real \<times> real \<Rightarrow> layer_info \<Rightarrow> tensor \<Rightarrow> sequence list
    \<Rightarrow> gen_state \<times> device \<times> tensor list \<Rightarrow> (gen_state \<times> device \<times> tensor list) res" where
  "absorb_gen_flash ram use_ram pt rates info input qs st =
     (let (g, d, ts) = st; g = fold (mla_flash_step rates (absorb_flash_work info input)) qs g; num_seq = int (length qs);
          width = li_kv_lora_rank info + li_qk_rope_head_dim info; h = li_num_heads info
      in rbind (gen_memory ram use_ram ABSORBED_MLA_GEN pt
          [read_whole 0 [num_seq * h, width], read_whole 0 [gs_len g, width], write_whole 0 [num_seq, h * li_kv_lora_rank info]]
          sum_list (g, d, ts)) (\<lambda>(g, d, ts).
      Inr (gen_total (gen_longer g) g, d, ts)))"

text \<open>Scoring against the latent rows; all simulated times are added.\<close>

definition absorb_gen_nope ::
  "ramulator \<Rightarrow> bool \<Rightarrow> ProcessorType \<Rightarrow> real \<times> real \<Rightarrow> layer_info \<Rightarrow> tensor \<Rightarrow> sequence list
    \<Rightarrow> gen_state \<times> device \<times> tensor list \<Rightarrow> (gen_state \<times> device \<times> tensor list) res" where
  "absorb_gen_nope ram use_ram pt rates info input qs st =
     (let (g, d, ts) = st; lora = li_kv_lora_rank info; h = li_num_heads info;
          g = gen_loop rates 1 (\<lambda>q. (heads_flops lora info q, shared_bytes lora info input q)) seq_span qs g
      in rbind (gen_memory ram use_ram ABSORBED_MLA_GEN pt
          [read_whole 0 [int (length qs), lora * h], read_whole 0 [lora, gs_len g], write_whole 0 [h, gs_len g]]
          sum_list (g, d, ts)) (\<lambda>(g, d, ts).
      Inr (gen_total (gen_longer g) g, d, ts)))"

text \<open>Scoring against the positions: here the time of the write replaces the sum.\<close>

definition absorb_gen_rope ::
  "ramulator \<Rightarrow> bool \<Rightarrow> ProcessorType \<Rightarrow> real \<times> real \<Rightarrow> layer_info \<Rightarrow> tensor \<Rightarrow> sequence list
    \<Rightarrow> gen_state \<times> device \<times> tensor list \<Rightarrow> (gen_state \<times> device \<times> tensor list) res" where
  "absorb_gen_rope ram use_ram pt rates info input qs st =
     (let (g, d, ts) = st; rope = li_qk_rope_head_dim info; h = li_num_heads info;
          g = gen_loop rates 1 (\<lambda>q. (heads_flops rope info q, shared_bytes rope info input q)) seq_span qs (gen_reset g)
      in rbind (gen_memory ram use_ram ABSORBED_MLA_GEN pt
          [read_whole 0 [int (length qs), rope * h], read_whole 0 [rope, gs_len g], write_whole 0 [h, gs_len g]]
          (\<lambda>ts. ts ! 2) (g, d, ts)) (\<lambda>(g, d, ts).
      Inr (gen_total (gen_longer g) g, d, ts)))"

definition absorb_gen_softmax :: "layer_info \<Rightarrow> tensor \<Rightarrow> sum_stage" where
  "absorb_gen_softmax info input = (mla_gen_softmax info input)\<lparr>sg_counted := sg_bytes (mla_gen_softmax info input)\<rparr>"

definition absorb_gen_context ::
  "ramulator \<Rightarrow> bool \<Rightarrow> ProcessorType \<Rightarrow> real \<times> real \<Rightarrow> layer_info \<Rightarrow> tensor \<Rightarrow> sequence list
    \<Rightarrow> gen_state \<times> device \<times> tensor list \<Rightarrow> (gen_state \<times> device \<times> tensor list) res" where
  "absorb_gen_context ram use_ram pt rates info input qs st =
     (let (g, d, ts) = st; lora = li_kv_lora_rank info; h = li_num_heads info;
          g = gen_loop rates 1 (\<lambda>q. (heads_flops lora info q, shared_bytes lora info input q)) seq_span qs (gen_reset g)
      in rbind (gen_memory ram use_ram ABSORBED_MLA_GEN pt
          [read_whole 0 [h, gs_len g], read_whole 0 [gs_len g, lora], write_whole 0 [int (length qs) * lora, h]]
          sum_list (g, d, ts)) (\<lambda>(g, d, ts).
      Inr (gen_total (gen_longer g) g, d, ts)))"

definition absorb_gen_body :: "ramulator \<Rightarrow> ProcessorType \<Rightarrow> (system_config \<Rightarrow> tensor \<Rightarrow> real \<times> real) \<Rightarrow> layer_fn" where
  "absorb_gen_body ram pt rates_of d ts seqs info use_ram =
     rbind (vec_at ts 0) (\<lambda>input.
     let rates = rates_of (dv_config d) input; qs = get_gen seqs in
     if get_gen_process_token seqs = 0 then Inr (ExecStatus_ctor, d, ts) else
     rbind (if li_use_flash_mla info then absorb_gen_flash ram use_ram pt rates info input qs (gen_start, d, ts)
       else rbind (absorb_gen_nope ram use_ram pt rates info input qs (gen_start, d, ts)) (\<lambda>st.
            rbind (absorb_gen_rope ram use_ram pt rates info input qs st) (\<lambda>st.
            rbind (gen_run_stage ram use_ram ABSORBED_MLA_GEN pt rates qs (absorb_gen_softmax info input) st)
              (absorb_gen_context ram use_ram pt rates info input qs)))) (\<lambda>(g, d, ts).
     rbind (restore_input (t_shape input) d ts) (\<lambda>ts.
     Inr (attention_finish rates (gs_flops g) (gs_bytes g) (gs_es g), d, ts))))"

definition AbsorbMLAGenExecutionGPU :: "ramulator \<Rightarrow> layer_fn" where
  "AbsorbMLAGenExecutionGPU ram = absorb_gen_body ram GPU gpu_rates"

definition AbsorbMLAGenExecutionLogic :: "ramulator \<Rightarrow> layer_fn" where
  "AbsorbMLAGenExecutionLogic ram = absorb_gen_body ram LOGIC logic_rates"

definition AbsorbMLAGenExecutionPIM :: "ramulator \<Rightarrow> layer_fn" where
  "AbsorbMLAGenExecutionPIM ram = absorb_gen_body ram PIM pim_rates"

definition absorb_gen_function :: "ramulator \<Rightarrow> ProcessorType \<Rightarrow> layer_fn" where
  "absorb_gen_function ram pt = (if pt = GPU then AbsorbMLAGenExecutionGPU ram
     else if pt = LOGIC then AbsorbMLAGenExecutionLogic ram else AbsorbMLAGenExecutionPIM ram)"

section \<open>Prompts\<close>

definition absorb_product :: "int \<Rightarrow> bool \<Rightarrow> layer_info \<Rightarrow> tensor \<Rightarrow> (sequence \<Rightarrow> access list) \<Rightarrow> (real list \<Rightarrow> real) \<Rightarrow> sum_stage" where
  "absorb_product width counts_compute info input accs time =
     \<lparr>sg_flops = heads_flops width info, sg_bytes = shared_bytes width info input, sg_counted = shared_bytes width info input,
      sg_compute = counts_compute, sg_accesses = accs, sg_time = (\<lambda>_. time), sg_total = max\<rparr>"

definition absorb_softmax_bytes :: "layer_info \<Rightarrow> tensor \<Rightarrow> sequence \<Rightarrow> real" where
  "absorb_softmax_bytes info input q =
     2 * (of_int (sq_num_process_token q) * of_int (seq_span q) * of_int (li_num_heads info)) * of_int (t_precision_byte input)"

text \<open>A scoring stage on the GPU: queries, shared operand, scores.\<close>

definition absorb_gpu_scoring :: "int \<Rightarrow> layer_info \<Rightarrow> tensor \<Rightarrow> sum_stage" where
  "absorb_gpu_scoring k info input = (let h = li_num_heads info in
     absorb_product k True info input
       (\<lambda>q. let m = sq_num_process_token q; n = seq_span q in
         [read_whole 0 [m, k * h], read_whole 0 [k, n], write_whole 0 [m, n * h]]) sum_list)"

definition absorb_gpu_softmax :: "layer_info \<Rightarrow> tensor \<Rightarrow> sum_stage" where
  "absorb_gpu_softmax info input =
     \<lparr>sg_flops = softmax_flops info, sg_bytes = absorb_softmax_bytes info input, sg_counted = absorb_softmax_bytes info input,
      sg_compute = True,
      sg_accesses = (\<lambda>q. [read_whole 0 [sq_num_process_token q, seq_span q * li_num_heads info], write_same]),
      sg_time = (\<lambda>_ ts. sum_list ts), sg_total = max\<rparr>"

definition absorb_gpu_context :: "layer_info \<Rightarrow> tensor \<Rightarrow> sum_stage" where
  "absorb_gpu_context info input = (let n = li_kv_lora_rank info; h = li_num_heads info in
     absorb_product n True info input
       (\<lambda>q. let m = sq_num_process_token q; k = seq_span q in
         [read_whole 0 [m, k * h], read_whole 0 [k, n], write_whole 0 [m, n * h]]) sum_list)"

definition AbsorbMLASumExecutionGPU :: "ramulator \<Rightarrow> layer_fn" where
  "AbsorbMLASumExecutionGPU ram d ts seqs info use_ram =
     rbind (vec_at ts 0) (\<lambda>input. rbind (vec_at ts 1) (\<lambda>output.
     let rates = gpu_rates (dv_config d) input in
     if getSize input = 0 then Inr (ExecStatus_ctor, d, ts) else
     rbind (vec_ix (t_shape input) 0) (\<lambda>heads.
     rbind (assertTrue (li_num_heads info = heads) ''input tensor shape is not match in num_head'') (\<lambda>_.
     rbind (run_stages ram use_ram ABSORBED_MLA_SUM GPU rates (get_sum seqs)
         [absorb_gpu_scoring (li_kv_lora_rank info) info input, absorb_gpu_scoring (li_qk_rope_head_dim info) info input,
          absorb_gpu_softmax info input, absorb_gpu_context info input] (sum_start, d, ts)) (\<lambda>(s, d, ts).
     rbind (assertTrue (ss_flops s > 0) ''fail'') (\<lambda>_.
     rbind (assertTrue (ss_bytes s > 0) ''fail'') (\<lambda>_.
     rbind (restore_input (t_shape input) d ts) (\<lambda>ts.
     Inr (attention_finish rates (ss_flops s) (ss_bytes s) (ss_es s), d, ts)))))))))"

text \<open>
  LOGIC reads the latent rows in memory; for the positions it counts the write twice and leaves the
  read of the rows out; in the context stage the last time stands alone and the compute time is not
  added to the status. The shape of the input is not restored.
\<close>

definition absorb_logic_nope :: "layer_info \<Rightarrow> tensor \<Rightarrow> sum_stage" where
  "absorb_logic_nope info input = (let k = li_kv_lora_rank info; h = li_num_heads info in
     absorb_product k True info input
       (\<lambda>q. [read_whole 0 [sq_num_process_token q, k * h], gemv_whole 0 [k, seq_span q]]) sum_list)"

definition absorb_logic_rope :: "layer_info \<Rightarrow> tensor \<Rightarrow> sum_stage" where
  "absorb_logic_rope info input = (let k = li_qk_rope_head_dim info; h = li_num_heads info in
     absorb_product k True info input
       (\<lambda>q. let m = sq_num_process_token q; n = seq_span q in
         [read_whole 0 [m, k * h], read_whole 0 [k, n], write_whole 0 [m, n * h]]) (\<lambda>ts. ts ! 0 + ts ! 2 + ts ! 2))"

definition absorb_logic_softmax :: "layer_info \<Rightarrow> tensor \<Rightarrow> sum_stage" where
  "absorb_logic_softmax info input =
     \<lparr>sg_flops = softmax_flops info, sg_bytes = (\<lambda>_. 0), sg_counted = absorb_softmax_bytes info input, sg_compute = True,
      sg_accesses = (\<lambda>_. []), sg_time = (\<lambda>md _. md), sg_total = (\<lambda>cd _. cd)\<rparr>"

definition absorb_logic_context :: "layer_info \<Rightarrow> tensor \<Rightarrow> sum_stage" where
  "absorb_logic_context info input = (let n = li_kv_lora_rank info; h = li_num_heads info in
     absorb_product n False info input
       (\<lambda>q. let m = sq_num_process_token q; k = seq_span q in
         [read_whole 0 [m, k * h], read_whole 0 [k, n], write_whole 0 [m, n * h]]) (\<lambda>ts. ts ! 2))"

text \<open>The two near-memory functions, which differ in rates and stages.\<close>

definition absorb_near_body ::
  "ramulator \<Rightarrow> ProcessorType \<Rightarrow> (system_config \<Rightarrow> tensor \<Rightarrow> real \<times> real) \<Rightarrow> (layer_info \<Rightarrow> tensor \<Rightarrow> sum_stage list) \<Rightarrow> layer_fn" where
  "absorb_near_body ram pt rates_of stages d ts seqs info use_ram =
     rbind (vec_at ts 0) (\<lambda>input.
     let rates = rates_of (dv_config d) input in
     if getSize input = 0 then Inr (ExecStatus_ctor, d, ts) else
     rbind (vec_ix (t_shape input) 0) (\<lambda>heads.
     rbind (assertTrue (li_num_heads info = heads) ''input tensor shape is not match in num_head'') (\<lambda>_.
     rbind (run_stages ram use_ram ABSORBED_MLA_SUM pt rates (get_sum seqs) (stages info input) (sum_start, d, ts)) (\<lambda>(s, d, ts).
     Inr (attention_finish rates (ss_flops s) (ss_bytes s) (ss_es s), d, ts)))))"

definition AbsorbMLASumExecutionLogic :: "ramulator \<Rightarrow> layer_fn" where
  "AbsorbMLASumExecutionLogic ram = absorb_near_body ram LOGIC logic_rates (\<lambda>info input.
     [absorb_logic_nope info input, absorb_logic_rope info input, absorb_logic_softmax info input, absorb_logic_context info input])"

text \<open>On PIM an access has the shape \<^verbatim>\<open>{m, 1}\<close>, whatever the operands are.\<close>

definition absorb_pim_scoring :: "int \<Rightarrow> layer_info \<Rightarrow> tensor \<Rightarrow> sum_stage" where
  "absorb_pim_scoring k info input =
     absorb_product k True info input (\<lambda>q. [gemv_whole 0 [sq_num_process_token q, 1]]) (\<lambda>ts. ts ! 0)"

definition absorb_pim_softmax :: "layer_info \<Rightarrow> sum_stage" where
  "absorb_pim_softmax info =
     \<lparr>sg_flops = softmax_flops info, sg_bytes = (\<lambda>_. 0), sg_counted = (\<lambda>_. 0), sg_compute = True,
      sg_accesses = (\<lambda>_. []), sg_time = (\<lambda>md _. md), sg_total = (\<lambda>cd _. cd)\<rparr>"

definition absorb_pim_context :: "layer_info \<Rightarrow> tensor \<Rightarrow> sum_stage" where
  "absorb_pim_context info input =
     absorb_product (li_kv_lora_rank info) True info input (\<lambda>q. [gemv_whole 0 [seq_span q, 1]]) (\<lambda>ts. ts ! 0)"

definition AbsorbMLASumExecutionPIM :: "ramulator \<Rightarrow> layer_fn" where
  "AbsorbMLASumExecutionPIM ram = absorb_near_body ram PIM pim_rates (\<lambda>info input.
     [absorb_pim_scoring (li_kv_lora_rank info) info input, absorb_pim_scoring (li_qk_rope_head_dim info) info input,
      absorb_pim_softmax info, absorb_pim_context info input])"

definition absorb_sum_function :: "ramulator \<Rightarrow> ProcessorType \<Rightarrow> layer_fn" where
  "absorb_sum_function ram pt = (if pt = GPU then AbsorbMLASumExecutionGPU ram
     else if pt = LOGIC then AbsorbMLASumExecutionLogic ram else AbsorbMLASumExecutionPIM ram)"

section \<open>What the functions keep\<close>

lemma absorb_stages_keep:
  "absorb_gen_flash ram use_ram pt rates info input qs (g, d, ts) = Inr (g', d', ts') \<Longrightarrow> device_keeps (d, ts) (d', ts')"
  "absorb_gen_nope ram use_ram pt rates info input qs (g, d, ts) = Inr (g', d', ts') \<Longrightarrow> device_keeps (d, ts) (d', ts')"
  "absorb_gen_rope ram use_ram pt rates info input qs (g, d, ts) = Inr (g', d', ts') \<Longrightarrow> device_keeps (d, ts) (d', ts')"
  "absorb_gen_context ram use_ram pt rates info input qs (g, d, ts) = Inr (g', d', ts') \<Longrightarrow> device_keeps (d, ts) (d', ts')"
  by (auto simp: absorb_gen_flash_def absorb_gen_nope_def absorb_gen_rope_def absorb_gen_context_def Let_def rbind_eq_Inr
      dest: gen_memory_keeps)

lemma absorb_gen_body_keeps:
  assumes "absorb_gen_body ram pt rates_of d ts seqs info use_ram = Inr (es, d', ts')"
  shows "device_keeps (d, ts) (d', ts')"
  using assms unfolding absorb_gen_body_def
  by (auto simp: Let_def rbind_eq_Inr split: if_splits
      dest!: absorb_stages_keep gen_run_stage_keeps restore_input_keeps) (meson device_keeps_trans)+

lemma absorb_near_body_keeps:
  "absorb_near_body ram pt rates_of stages d ts seqs info use_ram = Inr (es, d', ts') \<Longrightarrow> device_keeps (d, ts) (d', ts')"
  by (auto simp: absorb_near_body_def Let_def rbind_eq_Inr split: if_splits dest!: run_stages_keeps)

lemma absorb_sum_GPU_keeps:
  "AbsorbMLASumExecutionGPU ram d ts seqs info use_ram = Inr (es, d', ts') \<Longrightarrow> device_keeps (d, ts) (d', ts')"
  by (auto simp: AbsorbMLASumExecutionGPU_def Let_def rbind_eq_Inr split: if_splits
      dest!: run_stages_keeps restore_input_keeps intro: device_keeps_trans)

lemma absorb_function_keeps:
  "absorb_gen_function ram pt d ts seqs info use_ram = Inr (es, d', ts') \<Longrightarrow> device_keeps (d, ts) (d', ts')"
  "absorb_sum_function ram pt d ts seqs info use_ram = Inr (es, d', ts') \<Longrightarrow> device_keeps (d, ts) (d', ts')"
  by (auto simp: absorb_gen_function_def absorb_sum_function_def AbsorbMLAGenExecutionGPU_def AbsorbMLAGenExecutionLogic_def
      AbsorbMLAGenExecutionPIM_def AbsorbMLASumExecutionLogic_def AbsorbMLASumExecutionPIM_def
      split: if_splits dest: absorb_gen_body_keeps absorb_near_body_keeps absorb_sum_GPU_keeps)

section \<open>Shapes\<close>

text \<open>
  C22: the latent attention functions hand the input back with the shape it came with, whatever
  shapes they gave it for their accesses, for every processor, cached or compressed, fused or not; the absorbed
  prompt functions do so on the GPU.
\<close>

theorem latent_attention_restores_input:
  assumes "f \<in> {mla_gen_function ram pt, mla_sum_function ram pt, absorb_gen_function ram pt, AbsorbMLASumExecutionGPU ram}"
    and "f d ts seqs info use_ram = Inr (es, d', ts')"
  shows "t_shape (ts' ! 0) = t_shape (ts ! 0) \<and> length ts' = length ts \<and> dv_config d' = dv_config d"
proof -
  have keep: "device_keeps (d, ts) (d', ts')"
    using assms by (auto dest: mla_function_keeps absorb_function_keeps absorb_sum_GPU_keeps)
  have g: "t_shape (ts' ! 0) = t_shape (ts ! 0)" if "mla_gen_body ram p rates_of d ts seqs info use_ram = Inr (es, d', ts')" for p rates_of
    using that by (auto simp: mla_gen_body_def Let_def rbind_eq_Inr vec_at_Inr_iff dest: restore_input_keeps split: if_splits prod.splits)
  have s: "t_shape (ts' ! 0) = t_shape (ts ! 0)" if "mla_sum_body ram p rates_of tile d ts seqs info use_ram = Inr (es, d', ts')" for p rates_of tile
    using that by (auto simp: mla_sum_body_def Let_def rbind_eq_Inr vec_at_Inr_iff dest: restore_input_keeps split: if_splits)
  have a: "t_shape (ts' ! 0) = t_shape (ts ! 0)" if "absorb_gen_body ram p rates_of d ts seqs info use_ram = Inr (es, d', ts')" for p rates_of
    using that by (auto simp: absorb_gen_body_def Let_def rbind_eq_Inr vec_at_Inr_iff dest: restore_input_keeps split: if_splits)
  have b: "t_shape (ts' ! 0) = t_shape (ts ! 0)" if "AbsorbMLASumExecutionGPU ram d ts seqs info use_ram = Inr (es, d', ts')"
    using that by (auto simp: AbsorbMLASumExecutionGPU_def Let_def rbind_eq_Inr vec_at_Inr_iff dest: restore_input_keeps split: if_splits)
  have "t_shape (ts' ! 0) = t_shape (ts ! 0)"
    using assms g s a b
    by (auto simp: mla_gen_function_def mla_sum_function_def absorb_gen_function_def MultiLatentAttentionGenExecutionGPU_def
      MultiLatentAttentionGenExecutionLogic_def MultiLatentAttentionGenExecutionPIM_def
      MultiLatentAttentionSumExecutionGPU_def MultiLatentAttentionSumExecutionLogic_def
      MultiLatentAttentionSumExecutionPIM_def AbsorbMLAGenExecutionGPU_def AbsorbMLAGenExecutionLogic_def
      AbsorbMLAGenExecutionPIM_def split: if_splits)
  with keep show ?thesis by (simp add: device_keeps_def)
qed

theorem latent_attention_restores_input_witness:
  "\<exists>es d' ts'. mla_gen_function example_ramulator PIM example_device [example_tensor] latent_batch latent_info False = Inr (es, d', ts') \<and>
    t_shape (ts' ! 0) = [16, 64]"
proof -
  have ts: "good_tensors [example_tensor]" by (simp add: good_tensors_def example_tensor_def Tensor_ctor_def)
  have fl: "li_use_flash_mla latent_info" by (simp add: latent_info_def LayerInfo_default_def)
  obtain g d1 ts1 where "mla_gen_flash example_ramulator False PIM (pim_rates (dv_config example_device) example_tensor) latent_info
      example_tensor (get_gen latent_batch) (gen_start, example_device, [example_tensor]) = Inr (g, d1, ts1)" "good_tensors ts1" "ts1 \<noteq> []"
    using mla_gen_flash_good [OF ts] by blast
  moreover from this obtain ts2 where "restore_input (t_shape example_tensor) d1 ts1 = Inr ts2" using restore_input_good by blast
  ultimately have "\<exists>es d' ts'. mla_gen_function example_ramulator PIM example_device [example_tensor] latent_batch latent_info False = Inr (es, d', ts')"
    using fl by (simp add: mla_gen_function_def MultiLatentAttentionGenExecutionPIM_def mla_gen_body_def Let_def vec_at_def)
  then obtain es d' ts' where run: "mla_gen_function example_ramulator PIM example_device [example_tensor] latent_batch latent_info False = Inr (es, d', ts')"
    by blast
  have "t_shape example_tensor = [16, 64]" by (simp add: example_tensor_def Tensor_ctor_def)
  moreover have "t_shape (ts' ! 0) = t_shape ([example_tensor] ! 0)"
    using latent_attention_restores_input [where f = "mla_gen_function example_ramulator PIM" and ram = example_ramulator and pt = PIM, OF _ run]
    by simp
  ultimately show ?thesis using run by auto
qed

end
