(* ===== verification/Attention_Gen.thy ===== *)
theory Attention_Gen
  imports Attention_Stage
begin

text \<open>
  Attention of a decoding step: \<^verbatim>\<open>AttentionGenExecutionGPU\<close>, \<^verbatim>\<open>Logic\<close>
  and \<^verbatim>\<open>PIM\<close> of \<^verbatim>\<open>src/hardware/attention_gen_impl.cpp\<close>. The K
  cache is tensor 1, the V cache tensor 2. On PIM the near-bank units take over the stages the
  configuration hands to them.
\<close>

section \<open>GPU\<close>

definition gen_flops :: "layer_info \<Rightarrow> sequence \<Rightarrow> real" where
  "gen_flops info q = of_int (sq_num_process_token q * li_head_dim info * seq_span q) * 2 * of_int (li_attention_group_size info)"

text \<open>Query, cache and result of one KV head; the two quotients are those of \<^verbatim>\<open>int\<close>.\<close>

definition gen_gpu_bytes :: "layer_info \<Rightarrow> tensor \<Rightarrow> sequence \<Rightarrow> real" where
  "gen_gpu_bytes info input q =
     (let m = sq_num_process_token q; k = li_head_dim info; n = seq_span q; h = li_num_heads info; kv = li_num_kv_heads info
      in of_int (cdiv (m * k * h) kv + k * n + cdiv (m * n * h) kv) * of_int (t_precision_byte input))"

text \<open>Two operations per cached element when the cache is narrower than two bytes.\<close>

definition gen_dequant :: "real \<times> real \<Rightarrow> layer_info \<Rightarrow> tensor \<Rightarrow> gen_state \<Rightarrow> gen_state" where
  "gen_dequant rates info input g =
     (if t_precision_byte input \<le> 1 then
        let t = ns_of (2 * (of_int (gs_len g) * of_int (li_head_dim info))) (fst rates); es = gs_es g
        in g\<lparr>gs_compute := gs_compute g + t, gs_es := es\<lparr>es_compute_duration := es_compute_duration es + t\<rparr>\<rparr>
      else g)"

definition AttentionGenExecutionGPU :: "ramulator \<Rightarrow> layer_fn" where
  "AttentionGenExecutionGPU ram d ts seqs info use_ram =
     rbind (vec_at ts 0) (\<lambda>input. rbind (vec_at ts 1) (\<lambda>_. rbind (vec_at ts 2) (\<lambda>_.
     let c = dv_config d; rates = (compute_peak_flops c * (1 / 2), memory_bandwidth c); qs = get_gen seqs;
         kv = li_num_kv_heads info; row = li_head_dim info * kv;
         work = (\<lambda>q. (gen_flops info q, gen_gpu_bytes info input q))
     in if get_gen_process_token seqs = 0 then Inr (ExecStatus_ctor, d, ts) else
     let g = gen_loop rates kv work seq_span qs gen_start in
     rbind (gen_memory ram use_ram ATTENTION_GEN GPU [read_whole 1 [gs_len g, row]] (\<lambda>ts. ts ! 0) (g, d, ts)) (\<lambda>(g, d, ts).
     let g = gen_dequant rates info input g; qk_total = gen_longer g; g = gen_total qk_total g;
         g = g\<lparr>gs_es := (gs_es g)\<lparr>es_qk_duration := qk_total\<rparr>\<rparr>;
         g = gen_loop rates kv work (\<lambda>q. round4 (seq_span q)) qs (gen_reset g)
     in rbind (gen_memory ram use_ram ATTENTION_GEN GPU [read_whole 2 [gs_len g, row]] (\<lambda>ts. ts ! 0) (g, d, ts)) (\<lambda>(g, d, ts).
     let g = gen_dequant rates info input g; ctx_total = gen_longer g; g = gen_total ctx_total g;
         g = g\<lparr>gs_es := (gs_es g)\<lparr>es_score_v_duration := ctx_total\<rparr>\<rparr>
     in Inr (attention_finish (compute_peak_flops c, memory_bandwidth c) (gs_flops g) (gs_bytes g) (gs_es g), d, ts))))))"

section \<open>LOGIC\<close>

text \<open>Next to memory only the cache is read; its rows are rounded to multiples of four.\<close>

definition gen_near_bytes :: "layer_info \<Rightarrow> tensor \<Rightarrow> sequence \<Rightarrow> real" where
  "gen_near_bytes info input q = of_int (li_head_dim info * seq_span q * t_precision_byte input)"

definition AttentionGenExecutionLogic :: "ramulator \<Rightarrow> layer_fn" where
  "AttentionGenExecutionLogic ram d ts seqs info use_ram =
     rbind (vec_at ts 0) (\<lambda>input. rbind (vec_at ts 1) (\<lambda>_. rbind (vec_at ts 2) (\<lambda>_.
     let rates = logic_rates (dv_config d) input; qs = get_gen seqs;
         kv = li_num_kv_heads info; row = li_head_dim info * kv;
         loop = gen_loop rates kv (\<lambda>q. (gen_flops info q, gen_near_bytes info input q)) (\<lambda>q. round4 (seq_span q)) qs
     in if get_gen_process_token seqs = 0 then Inr (ExecStatus_ctor, d, ts) else
     let g = loop gen_start in
     rbind (gen_memory ram use_ram ATTENTION_GEN LOGIC [gemv_whole 1 [gs_len g, row]] (\<lambda>ts. ts ! 0) (g, d, ts)) (\<lambda>(g, d, ts).
     let g = gen_total (gen_longer g) g; g = loop (gen_reset g) in
     rbind (gen_memory ram use_ram ATTENTION_GEN LOGIC [gemv_whole 2 [gs_len g, row]] (\<lambda>ts. ts ! 0) (g, d, ts)) (\<lambda>(g, d, ts).
     let g = gen_total (gen_longer g) g in
     Inr (attention_finish rates (gs_flops g) (gs_bytes g) (gs_es g), d, ts))))))"

section \<open>PIM\<close>

text \<open>
  One KV head on the near-bank units: the cache is loaded once and multiplied once per query head
  of the group, loading and computing overlapped. Latency, row-buffer time, compute time.
\<close>

definition nearbank_head ::
  "nearbank_config \<Rightarrow> layer_info \<Rightarrow> int \<Rightarrow> int \<Rightarrow> int \<Rightarrow> int \<Rightarrow> int \<Rightarrow> real \<times> real \<times> real" where
  "nearbank_head nb info pb comp_pb m k n =
     (let r = computeGEMVLatency nb m k n pb comp_pb; group = real_of_int (li_attention_group_size info);
          rb = gr_rowbuffer_time_ns r;
          pe_all = gr_pe_compute_time_ns r + (if enable_asymmetric_quant nb then gr_reduction_time_ns r else 0)
      in (max rb (pe_all * group), rb, gr_pe_compute_time_ns r * group))"

text \<open>Rates of PIM and of the GPU, both doubled for one-byte operands.\<close>

definition gen_pim_rates :: "system_config \<Rightarrow> tensor \<Rightarrow> (real \<times> real) \<times> (real \<times> real)" where
  "gen_pim_rates c input =
     (let two = (if t_precision_byte input = 1 then 2 else 1)
      in ((pim_memory_bandwidth c * pim_op_b c * two, pim_memory_bandwidth c), (compute_peak_flops c * two, memory_bandwidth c)))"

definition pim_scoring_head ::
  "nearbank_config \<Rightarrow> (real \<times> real) \<times> (real \<times> real) \<Rightarrow> layer_info \<Rightarrow> tensor \<Rightarrow> sequence \<Rightarrow> gen_state \<Rightarrow> gen_state" where
  "pim_scoring_head nb rates info input q g =
     (let flops = gen_flops info q; memory_size = gen_near_bytes info input q; pb = t_precision_byte input in
      if enable_nearbank_model nb \<and> enable_scoring_in_pim nb then
        let comp_pb = (if enable_pim_dequant nb \<and> pb \<le> 1 then 2 else pb);
            (kv_latency, rb, pe) = nearbank_head nb info pb comp_pb (sq_num_process_token q) (li_head_dim info) (seq_span q);
            es = gs_es g
        in g\<lparr>gs_flops := gs_flops g + flops, gs_bytes := gs_bytes g + memory_size,
             gs_compute := gs_compute g + kv_latency, gs_memory := gs_memory g + rb,
             gs_es := es\<lparr>es_compute_duration := es_compute_duration es + kv_latency,
               es_pim_rb_duration := es_pim_rb_duration es + rb, es_pim_pe_duration := es_pim_pe_duration es + pe,
               es_pim_rb_qk := es_pim_rb_qk es + rb, es_pim_pe_qk := es_pim_pe_qk es + pe\<rparr>\<rparr>
      else gen_charge (if enable_nearbank_model nb then snd rates else fst rates) flops memory_size g)"

text \<open>
  The context stage widens narrow operands whether dequantisation is enabled or not, and charges its
  compute time to the status only at the end of the stage.
\<close>

definition pim_context_head ::
  "nearbank_config \<Rightarrow> (real \<times> real) \<times> (real \<times> real) \<Rightarrow> layer_info \<Rightarrow> tensor \<Rightarrow> sequence \<Rightarrow> gen_state \<Rightarrow> gen_state" where
  "pim_context_head nb rates info input q g =
     (let flops = gen_flops info q; memory_size = gen_near_bytes info input q; pb = t_precision_byte input;
          g = g\<lparr>gs_flops := gs_flops g + flops, gs_bytes := gs_bytes g + memory_size\<rparr> in
      if enable_nearbank_model nb \<and> enable_context_in_pim nb then
        let comp_pb = (if pb \<le> 1 then 2 else pb);
            (kv_latency, rb, pe) = nearbank_head nb info pb comp_pb (sq_num_process_token q) (seq_span q) (li_head_dim info);
            es = gs_es g
        in g\<lparr>gs_compute := gs_compute g + kv_latency, gs_memory := gs_memory g + rb,
             gs_es := es\<lparr>es_pim_rb_duration := es_pim_rb_duration es + rb, es_pim_pe_duration := es_pim_pe_duration es + pe,
               es_pim_rb_sv := es_pim_rb_sv es + rb, es_pim_pe_sv := es_pim_pe_sv es + pe\<rparr>\<rparr>
      else let r = (if enable_nearbank_model nb then snd rates else fst rates)
        in g\<lparr>gs_compute := gs_compute g + ns_of flops (fst r), gs_memory := gs_memory g + ns_of memory_size (snd r)\<rparr>)"

definition pim_loop :: "int \<Rightarrow> (sequence \<Rightarrow> gen_state \<Rightarrow> gen_state) \<Rightarrow> sequence list \<Rightarrow> gen_state \<Rightarrow> gen_state" where
  "pim_loop heads head =
     fold (\<lambda>q g. let g = fold (\<lambda>_. head q) (irange 0 heads) g in g\<lparr>gs_len := gs_len g + round4 (seq_span q)\<rparr>)"

text \<open>The cache access: with the near-bank model the simulated time is not used.\<close>

definition pim_memory ::
  "ramulator \<Rightarrow> bool \<Rightarrow> nearbank_config \<Rightarrow> int \<Rightarrow> int \<Rightarrow> gen_state \<times> device \<times> tensor list \<Rightarrow> (gen_state \<times> device \<times> tensor list) res" where
  "pim_memory ram use_ram nb i row st =
     (let (g, d, ts) = st in
      gen_memory ram use_ram ATTENTION_GEN PIM [gemv_whole i [gs_len g, row]]
        (\<lambda>ts. if enable_nearbank_model nb then gs_memory g else ts ! 0) st)"

definition pim_stage_total :: "nearbank_config \<Rightarrow> gen_state \<Rightarrow> gen_state" where
  "pim_stage_total nb g =
     gen_total (if enable_nearbank_model nb then gen_longer g else gs_memory g * fdiv (gs_flops g) (gs_bytes g)) g"

text \<open>
  The softmax runs on PIM without the near-bank model and on the GPU with it, unless it is handed to
  the near-bank units, which take no time for it.
\<close>

definition pim_softmax :: "nearbank_config \<Rightarrow> (real \<times> real) \<times> (real \<times> real) \<Rightarrow> layer_info \<Rightarrow> sequence list \<Rightarrow> gen_state \<Rightarrow> gen_state" where
  "pim_softmax nb rates info qs g =
     (let dur = (\<lambda>q. ns_of (softmax_flops info q) (if enable_nearbank_model nb then fst (snd rates) else fst (fst rates)));
          free = (enable_nearbank_model nb \<and> enable_softmax_in_pim nb);
          (es, softmax_accum) = fold (\<lambda>q (es, acc). if free then (es, acc)
              else (es\<lparr>es_total_duration := es_total_duration es + dur q\<rparr>, acc + dur q)) qs (gs_es g, 0)
      in g\<lparr>gs_es := es\<lparr>es_softmax_duration := softmax_accum\<rparr>\<rparr>)"

text \<open>Quantising the new K and V rows, on the GPU; it is not part of the total.\<close>

definition kv_quant :: "real \<times> real \<Rightarrow> layer_info \<Rightarrow> int \<Rightarrow> exec_status \<Rightarrow> exec_status" where
  "kv_quant gpu info num_seq es =
     (let d_kv = li_num_kv_heads info * li_head_dim info; elements = 2 * of_int d_kv * of_int num_seq;
          kv_bytes = elements * 2
      in es\<lparr>es_kv_quant_duration := max (ns_of (4 * elements) (fst gpu)) (ns_of kv_bytes (snd gpu)),
            es_kv_quant_bytes := kv_bytes\<rparr>)"

definition AttentionGenExecutionPIM :: "ramulator \<Rightarrow> layer_fn" where
  "AttentionGenExecutionPIM ram d ts seqs info use_ram =
     rbind (vec_at ts 0) (\<lambda>input. rbind (vec_at ts 1) (\<lambda>_. rbind (vec_at ts 2) (\<lambda>_.
     let nb = nearbank_pim_config (dv_config d); rates = gen_pim_rates (dv_config d) input; qs = get_gen seqs;
         kv = li_num_kv_heads info; row = li_head_dim info * kv
     in if get_gen_process_token seqs = 0 then Inr (ExecStatus_ctor, d, ts) else
     let g = pim_loop kv (pim_scoring_head nb rates info input) qs gen_start in
     rbind (pim_memory ram use_ram nb 1 row (g, d, ts)) (\<lambda>(g, d, ts).
     let qk = gen_longer g; g = pim_softmax nb rates info qs (pim_stage_total nb g);
         g = pim_loop kv (pim_context_head nb rates info input) qs (gen_reset g) in
     rbind (pim_memory ram use_ram nb 2 row (g, d, ts)) (\<lambda>(g, d, ts).
     let sv = gen_longer g; g = pim_stage_total nb g; es = gs_es g;
         es = (if enable_nearbank_model nb then es\<lparr>es_compute_duration := es_compute_duration es + gs_compute g\<rparr> else es);
         es = attention_finish (fst rates) (gs_flops g) (gs_bytes g) es;
         es = (if enable_nearbank_model nb then es\<lparr>es_qk_duration := qk, es_score_v_duration := sv\<rparr> else es)
     in Inr (kv_quant (snd rates) info (int (length qs)) es, d, ts))))))"

definition attention_gen_function :: "ramulator \<Rightarrow> ProcessorType \<Rightarrow> layer_fn" where
  "attention_gen_function ram pt = (if pt = GPU then AttentionGenExecutionGPU ram
     else if pt = LOGIC then AttentionGenExecutionLogic ram else AttentionGenExecutionPIM ram)"

section \<open>What the functions keep\<close>

lemma pim_memory_keeps:
  "pim_memory ram use_ram nb i row (g, d, ts) = Inr (g', d', ts') \<Longrightarrow> device_keeps (d, ts) (d', ts')"
  unfolding pim_memory_def by (auto dest: gen_memory_keeps)

lemma attention_gen_function_keeps:
  "attention_gen_function ram pt d ts seqs info use_ram = Inr (es, d', ts') \<Longrightarrow> device_keeps (d, ts) (d', ts')"
  by (auto simp: attention_gen_function_def AttentionGenExecutionGPU_def AttentionGenExecutionLogic_def
      AttentionGenExecutionPIM_def Let_def rbind_eq_Inr split: if_splits
      dest!: gen_memory_keeps pim_memory_keeps intro: device_keeps_trans)

section \<open>The cost of a decoding step\<close>

text \<open>Decoding sequences and dimensions as the scheduler and the model configuration give them.\<close>

definition wf_decode :: "sequence list \<Rightarrow> layer_info \<Rightarrow> tensor \<Rightarrow> bool" where
  "wf_decode qs info input \<longleftrightarrow> qs \<noteq> [] \<and> (\<forall>q\<in>set qs. 0 < sq_num_process_token q \<and> 0 \<le> sq_current_len q) \<and>
     0 < li_head_dim info \<and> 0 < li_num_kv_heads info \<and> 0 < li_attention_group_size info \<and> 0 \<le> t_precision_byte input"

lemma wf_decode_flops: "wf_decode qs info input \<Longrightarrow> 0 < (\<Sum>q\<leftarrow>qs. gen_flops info q)"
  by (intro sum_list_pos_real) (auto simp: wf_decode_def gen_flops_def seq_span_def)

lemma gen_dequant_fields:
  "gs_flops (gen_dequant rates info input g) = gs_flops g" "gs_bytes (gen_dequant rates info input g) = gs_bytes g"
  "es_total_duration (gs_es (gen_dequant rates info input g)) = es_total_duration (gs_es g)"
  "es_qk_duration (gs_es (gen_dequant rates info input g)) = es_qk_duration (gs_es g)"
  by (simp_all add: gen_dequant_def Let_def)

lemma gen_dequant_compute:
  assumes "0 < fst rates" "0 \<le> gs_len g" "0 \<le> li_head_dim info"
  shows "gs_compute g \<le> gs_compute (gen_dequant rates info input g)"
  using assms by (simp add: gen_dequant_def Let_def ns_of_nonneg)

lemma gen_total_fields [simp]:
  "gs_flops (gen_total t g) = gs_flops g" "gs_bytes (gen_total t g) = gs_bytes g" "gs_len (gen_total t g) = gs_len g"
  "es_total_duration (gs_es (gen_total t g)) = es_total_duration (gs_es g) + t"
  "es_qk_duration (gs_es (gen_total t g)) = es_qk_duration (gs_es g)"
  by (simp_all add: gen_total_def)

lemma sum_list_spans: "\<forall>q\<in>set qs. 0 < sq_num_process_token q \<and> 0 \<le> sq_current_len q \<Longrightarrow>
    0 \<le> sum_list (map seq_span qs) \<and> 0 \<le> (\<Sum>q\<leftarrow>qs. round4 (seq_span q))"
proof -
  assume a: "\<forall>q\<in>set qs. 0 < sq_num_process_token q \<and> 0 \<le> sq_current_len q"
  have "0 \<le> seq_span q" if "q \<in> set qs" for q using a that by (force simp: seq_span_def)
  moreover have "0 \<le> round4 n" if "0 \<le> n" for n
    using that by (simp add: round4_def pos_imp_zdiv_nonneg_iff)
  ultimately show ?thesis by (auto intro!: sum_list_nonneg_int)
qed

text \<open>
  C15: without Ramulator a decoding step on the GPU for a non-empty, well-formed batch takes its score time plus its context time;
  it charges the operations of both products once per KV head, at half the peak rate (the comment above the
  factor and \<^verbatim>\<open>docs/gpu_gemv_model_analysis.md\<close> say the peak rate is used as it is, but the
  factor is one half for every precision), so its compute
  utilisation is at most one half; afterwards the K cache has one row per cached token and the V cache a multiple
  of four rows per sequence.
\<close>

theorem decode_attention_accounts:
  assumes "AttentionGenExecutionGPU ram d ts seqs info False = Inr (es, d', ts')" "vec_at ts 0 = Inr input"
    and "wf_decode (get_gen seqs) info input" "wf_system (dv_config d)" "dram_quiet d" "get_gen_process_token seqs \<noteq> 0"
  shows "es_total_duration es = es_qk_duration es + es_score_v_duration es \<and>
    es_flops es = 2 * of_int (li_num_kv_heads info) * (\<Sum>q\<leftarrow>get_gen seqs. gen_flops info q) \<and>
    es_compute_util es \<le> 1 / 2 \<and>
    t_shape (ts' ! 1) = [\<Sum>q\<leftarrow>get_gen seqs. seq_span q, li_head_dim info * li_num_kv_heads info] \<and>
    t_shape (ts' ! 2) = [\<Sum>q\<leftarrow>get_gen seqs. round4 (seq_span q), li_head_dim info * li_num_kv_heads info]"
proof -
  let ?qs = "get_gen seqs" and ?c = "dv_config d"
  define rates where "rates = (compute_peak_flops ?c * (1 / 2), memory_bandwidth ?c)"
  define work where "work = (\<lambda>q. (gen_flops info q, gen_gpu_bytes info input q))"
  define row where "row = li_head_dim info * li_num_kv_heads info"
  define n where "n = real (nat (li_num_kv_heads info))"
  define F where "F = (\<Sum>q\<leftarrow>?qs. gen_flops info q)"
  define A where "A = gen_loop rates (li_num_kv_heads info) work seq_span ?qs gen_start"
  have r: "0 < fst rates" "fst rates = compute_peak_flops ?c / 2" "0 < compute_peak_flops ?c" and n: "n = of_int (li_num_kv_heads info)"
    using rates_positive [OF assms(4), of input] assms(3) by (simp_all add: rates_def gpu_rates_def n_def wf_decode_def)
  have F: "0 < F" and nn: "0 < n" using wf_decode_flops [OF assms(3)] assms(3) n by (simp_all add: F_def wf_decode_def)
  have hd: "0 \<le> li_head_dim info" and lens: "0 \<le> sum_list (map seq_span ?qs)" "0 \<le> (\<Sum>q\<leftarrow>?qs. round4 (seq_span q))"
    using assms(3) sum_list_spans by (auto simp: wf_decode_def)
  have cF: "(\<Sum>q\<leftarrow>?qs. ns_of (gen_flops info q) (fst rates)) = ns_of F (fst rates)"
    using r(1) by (simp add: ns_of_sum_list F_def)
  obtain B d1 ts1 C ts2 where m1: "gen_memory ram False ATTENTION_GEN GPU [read_whole 1 [gs_len A, row]] (\<lambda>ts. ts ! 0) (A, d, ts) = Inr (B, d1, ts1)"
    and m2: "gen_memory ram False ATTENTION_GEN GPU [read_whole 2 [gs_len C, row]] (\<lambda>ts. ts ! 0) (C, d1, ts1) = Inr (ts2, d', ts')"
    and C: "C = (let g = gen_dequant rates info input B; q = gen_longer g; g = gen_total q g; g = g\<lparr>gs_es := (gs_es g)\<lparr>es_qk_duration := q\<rparr>\<rparr>
        in gen_loop rates (li_num_kv_heads info) work (\<lambda>q. round4 (seq_span q)) ?qs (gen_reset g))"
    and es: "es = (let g = gen_dequant rates info input ts2; t = gen_longer g; g = gen_total t g; g = g\<lparr>gs_es := (gs_es g)\<lparr>es_score_v_duration := t\<rparr>\<rparr>
        in attention_finish (compute_peak_flops ?c, memory_bandwidth ?c) (gs_flops g) (gs_bytes g) (gs_es g))"
    using assms(1,2,6) by (auto simp: AttentionGenExecutionGPU_def Let_def rbind_eq_Inr A_def rates_def work_def row_def)
  note A = A_def [unfolded gen_loop_sums, folded n_def]
  note B = gen_memory_time [OF m1 assms(5)] and S1 = gen_memory_shape [OF m1]
  define q where "q = gen_longer (gen_dequant rates info input B)"
  note C' = C [unfolded Let_def gen_loop_sums, folded n_def q_def]
  have q1: "dram_quiet d1" using B by simp
  note D = gen_memory_time [OF m2 q1] and S2 = gen_memory_shape [OF m2]
  define t where "t = gen_longer (gen_dequant rates info input ts2)"
  have len: "gs_len A = sum_list (map seq_span ?qs)" "gs_len C = (\<Sum>q\<leftarrow>?qs. round4 (seq_span q))"
    by (simp_all add: A C' gen_start_def gen_reset_def)
  have fl: "gs_flops ts2 = 2 * n * F"
    using B D by (simp add: A C' gen_start_def gen_reset_def gen_dequant_fields work_def F_def)
  have cmp: "gs_compute B = n * ns_of F (fst rates)" "gs_compute ts2 = n * ns_of F (fst rates)"
    using B D by (simp_all add: A C' gen_start_def gen_reset_def work_def cF)
  have "n * ns_of F (fst rates) \<le> q" "n * ns_of F (fst rates) \<le> t"
    using gen_dequant_compute [of rates B info input] gen_dequant_compute [of rates ts2 info input] r(1) hd lens B D cmp
    by (simp_all add: q_def t_def len le_max_iff_disj)
  moreover have "ns_of F (fst rates) = 2 * ns_of F (compute_peak_flops ?c)" using r(3) by (simp add: ns_of_def rates_def)
  ultimately have low: "2 * ns_of (2 * n * F) (compute_peak_flops ?c) \<le> q + t"
    using r(3) ns_of_scale [of "compute_peak_flops ?c" "2 * n" F] by (simp add: mult.assoc)
  have tot: "es_total_duration es = q + t" "es_qk_duration es = q" "es_score_v_duration es = t" "es_flops es = 2 * n * F"
    using B D by (simp_all add: es Let_def A C' gen_start_def gen_reset_def gen_dequant_fields q_def [symmetric] t_def [symmetric] fl ExecStatus_ctor_def)
  have pos: "0 < ns_of (2 * n * F) (compute_peak_flops ?c)" using F nn r(3) by (simp add: ns_of_linear)
  have "es_compute_util es = ns_of (2 * n * F) (compute_peak_flops ?c) / (q + t)"
    using pos low r(3) tot fl by (simp add: es Let_def attention_finish_def ns_of_def gen_dequant_fields)
  moreover have "ns_of (2 * n * F) (compute_peak_flops ?c) / (q + t) \<le> 1 / 2"
    using low pos by (simp add: field_simps)
  moreover have "t_shape (ts' ! 1) = [gs_len A, row]" "t_shape (ts' ! 2) = [gs_len C, row]"
    using S1 S2 by auto
  ultimately show ?thesis using tot by (simp add: len row_def F_def n)
qed

definition decode_info :: layer_info where
  "decode_info = LayerInfo_default\<lparr>li_num_heads := 2, li_num_kv_heads := 1, li_head_dim := 4, li_attention_group_size := 2\<rparr>"

definition decode_batch :: batched_sequence where
  "decode_batch = (BatchedSequence_Create 4 2)\<lparr>bs_sequence := [example_sequence\<lparr>sq_input_len := 3,
     sq_current_len := 5, sq_num_process_token := 1\<rparr>]\<rparr>"

lemma decode_batch_gen: "get_gen decode_batch = [example_sequence\<lparr>sq_input_len := 3, sq_current_len := 5, sq_num_process_token := 1\<rparr>]"
  by (simp add: decode_batch_def get_gen_def is_gen_def)

lemma AttentionGen_GPU_returns:
  assumes "good_tensors ts" "length ts = 3"
  shows "\<exists>es d' ts'. AttentionGenExecutionGPU ram d ts seqs info False = Inr (es, d', ts')"
proof -
  have acc: "good_access 3 (read_whole 1 [a, b])" "good_access 3 (read_whole 2 [a, b])" for a b
    by (simp_all add: good_access_def)
  have at: "vec_at ts 0 = Inr (ts ! 0)" "vec_at ts 1 = Inr (ts ! 1)" "vec_at ts 2 = Inr (ts ! 2)"
    using assms(2) by (simp_all add: vec_at_def)
  have one: "\<exists>g' d' ts'. gen_memory ram False ATTENTION_GEN GPU [read_whole 1 [a, b]] time (g, d, ts) = Inr (g', d', ts') \<and>
      good_tensors ts' \<and> length ts' = 3" for a b time g d
    using gen_memory_good [OF assms(1), of "[read_whole 1 [a, b]]"] acc assms(2) by simp
  have two: "\<exists>g' d' ts'. gen_memory ram False ATTENTION_GEN GPU [read_whole 2 [a, b]] time (g, d, us) = Inr (g', d', ts')"
    if "good_tensors us" "length us = 3" for a b time g d us
    using gen_memory_good [OF that(1), of "[read_whole 2 [a, b]]"] acc that(2) by fastforce
  define g0 where "g0 = gen_loop (compute_peak_flops (dv_config d) * (1 / 2), memory_bandwidth (dv_config d)) (li_num_kv_heads info)
      (\<lambda>q. (gen_flops info q, gen_gpu_bytes info (ts ! 0) q)) seq_span (get_gen seqs) gen_start"
  obtain g1 d1 us where g1: "gen_memory ram False ATTENTION_GEN GPU [read_whole 1 [gs_len g0, li_head_dim info * li_num_kv_heads info]]
      (\<lambda>ts. ts ! 0) (g0, d, ts) = Inr (g1, d1, us)" and us: "good_tensors us" "length us = 3"
    using one by blast
  note t = two [OF us]
  show ?thesis
    unfolding AttentionGenExecutionGPU_def Let_def at rbind_simps g0_def [symmetric] g1 prod.case
    by (auto simp: rbind_eq_Inr split: prod.splits) (meson t)
qed

theorem decode_attention_accounts_witness:
  "\<exists>es d' ts'. AttentionGenExecutionGPU example_ramulator example_device [example_tensor, example_tensor, example_tensor]
      decode_batch decode_info False = Inr (es, d', ts') \<and> es_flops es = 192 \<and> es_compute_util es \<le> 1 / 2 \<and>
    t_shape (ts' ! 1) = [6, 4] \<and> t_shape (ts' ! 2) = [8, 4]"
proof -
  let ?ts = "[example_tensor, example_tensor, example_tensor]"
  have ts: "good_tensors ?ts" and pb: "0 \<le> t_precision_byte example_tensor"
    by (simp_all add: good_tensors_def example_tensor_def Tensor_ctor_def)
  have w: "wf_decode (get_gen decode_batch) decode_info example_tensor"
    using pb by (simp add: wf_decode_def decode_batch_gen decode_info_def LayerInfo_default_def)
  have tok: "get_gen_process_token decode_batch \<noteq> 0" by (simp add: get_gen_process_token_def sum_tokens_def decode_batch_gen)
  have sys: "wf_system (dv_config example_device)" by (simp add: example_device_facts)
  obtain es d' ts' where run: "AttentionGenExecutionGPU example_ramulator example_device ?ts decode_batch decode_info False = Inr (es, d', ts')"
    using AttentionGen_GPU_returns [OF ts, of example_ramulator example_device decode_batch decode_info] by auto
  from decode_attention_accounts [OF run _ w sys example_device_facts(2) tok] run show ?thesis
    by (auto simp: vec_at_def decode_batch_gen decode_info_def LayerInfo_default_def seq_span_def round4_def gen_flops_def)
qed

section \<open>The near-bank decoding step\<close>

definition step_times :: "gen_state \<Rightarrow> real \<times> real" where
  "step_times g = (es_total_duration (gs_es g), es_softmax_duration (gs_es g))"

lemma pim_heads_times:
  "step_times (pim_scoring_head nb rates info input q g) = step_times g"
  "step_times (pim_context_head nb rates info input q g) = step_times g"
  by (simp_all add: step_times_def pim_scoring_head_def pim_context_head_def gen_charge_def Let_def split: prod.splits)

lemma fold_times:
  assumes "\<And>x g. step_times (f x g) = step_times g"
  shows "step_times (fold f xs g) = step_times g"
  by (induction xs arbitrary: g) (simp_all add: assms)

lemma pim_loop_times:
  assumes "\<And>q g. step_times (head q g) = step_times g"
  shows "step_times (pim_loop heads head qs g) = step_times g"
  unfolding pim_loop_def
proof (rule fold_times)
  fix q g
  have "step_times (g\<lparr>gs_len := l\<rparr>) = step_times g" for g l by (simp add: step_times_def)
  then show "step_times (let g = fold (\<lambda>_. head q) (irange 0 heads) g in g\<lparr>gs_len := gs_len g + round4 (seq_span q)\<rparr>) = step_times g"
    by (simp add: Let_def fold_times assms)
qed

lemma pim_memory_times:
  assumes "pim_memory ram False nb i row (g, d, ts) = Inr (g', d', ts')" "dram_quiet d"
  shows "dram_quiet d' \<and> step_times g' = step_times g \<and> gs_compute g' = gs_compute g \<and> gs_memory g' = gs_memory g"
proof -
  have "gen_memory ram False ATTENTION_GEN PIM [gemv_whole i [gs_len g, row]]
      (\<lambda>ts. if enable_nearbank_model nb then gs_memory g else ts ! 0) (g, d, ts) = Inr (g', d', ts')"
    using assms(1) by (simp add: pim_memory_def)
  from gen_memory_time [OF this assms(2)] show ?thesis by (simp add: step_times_def)
qed

lemma pim_softmax_times:
  "step_times (pim_softmax nb rates info qs g) = (es_total_duration (gs_es g) + es_softmax_duration (gs_es (pim_softmax nb rates info qs g)),
     es_softmax_duration (gs_es (pim_softmax nb rates info qs g)))"
  "enable_nearbank_model nb \<Longrightarrow> enable_softmax_in_pim nb \<Longrightarrow> es_softmax_duration (gs_es (pim_softmax nb rates info qs g)) = 0"
proof -
  let ?f = "\<lambda>free dur q (es, acc). if free then (es, acc) else (es\<lparr>es_total_duration := es_total_duration es + dur q\<rparr>, acc + dur q)"
  have "es_total_duration (fst (fold (?f free dur) qs (es, acc))) = es_total_duration es + (snd (fold (?f free dur) qs (es, acc)) - acc)"
    for free dur and es :: exec_status and acc :: real
    by (induction qs arbitrary: es acc) auto
  note total = this [of _ _ "gs_es g" 0]
  show "step_times (pim_softmax nb rates info qs g) = (es_total_duration (gs_es g) + es_softmax_duration (gs_es (pim_softmax nb rates info qs g)),
     es_softmax_duration (gs_es (pim_softmax nb rates info qs g)))"
    using total by (simp add: step_times_def pim_softmax_def Let_def case_prod_beta)
  have "fold (?f True dur) qs (es, acc) = (es, acc)" for dur and es :: exec_status and acc :: real
    by (induction qs) auto
  then show "enable_nearbank_model nb \<Longrightarrow> enable_softmax_in_pim nb \<Longrightarrow> es_softmax_duration (gs_es (pim_softmax nb rates info qs g)) = 0"
    by (simp add: pim_softmax_def Let_def)
qed

text \<open>
  C20: with the near-bank model and without Ramulator a decoding step on PIM takes the times it
  reports for scores, softmax and context, and nothing else; a softmax handed to the near-bank units
  costs no time at all, and quantising the new K and V rows is reported but never part of the duration.
\<close>

theorem pim_decode_accounts:
  assumes "AttentionGenExecutionPIM ram d ts seqs info False = Inr (es, d', ts')" "dram_quiet d" "get_gen_process_token seqs \<noteq> 0"
    and "enable_nearbank_model (nearbank_pim_config (dv_config d))"
  shows "es_total_duration es = es_qk_duration es + es_softmax_duration es + es_score_v_duration es \<and>
    (enable_softmax_in_pim (nearbank_pim_config (dv_config d)) \<longrightarrow> es_softmax_duration es = 0) \<and>
    es_kv_quant_bytes es = 4 * of_int (li_num_kv_heads info * li_head_dim info) * of_int (int (length (get_gen seqs)))"
proof -
  let ?nb = "nearbank_pim_config (dv_config d)" and ?qs = "get_gen seqs" and ?kv = "li_num_kv_heads info"
  let ?row = "li_head_dim info * li_num_kv_heads info"
  obtain input where input: "vec_at ts 0 = Inr input" using assms(1) by (auto simp: AttentionGenExecutionPIM_def rbind_eq_Inr)
  define rates where "rates = gen_pim_rates (dv_config d) input"
  define A where "A = pim_loop ?kv (pim_scoring_head ?nb rates info input) ?qs gen_start"
  obtain B d1 ts1 C E where m1: "pim_memory ram False ?nb 1 ?row (A, d, ts) = Inr (B, d1, ts1)"
    and C: "C = pim_loop ?kv (pim_context_head ?nb rates info input) ?qs
        (gen_reset (pim_softmax ?nb rates info ?qs (pim_stage_total ?nb B)))"
    and m2: "pim_memory ram False ?nb 2 ?row (C, d1, ts1) = Inr (E, d', ts')"
    and es: "es_total_duration es = es_total_duration (gs_es (pim_stage_total ?nb E))" "es_qk_duration es = gen_longer B"
      "es_softmax_duration es = es_softmax_duration (gs_es E)" "es_score_v_duration es = gen_longer E"
      "es_kv_quant_bytes es = 2 * of_int (li_num_kv_heads info * li_head_dim info) * of_int (int (length ?qs)) * 2"
    using assms(1,3,4) input
    by (auto simp: AttentionGenExecutionPIM_def Let_def rbind_eq_Inr A_def rates_def kv_quant_def attention_finish_def
        pim_stage_total_def gen_total_def)
  have reset: "step_times (gen_reset g) = step_times g" for g by (simp add: step_times_def gen_reset_def)
  note B = pim_memory_times [OF m1 assms(2)]
  have q1: "dram_quiet d1" using B by simp
  note E = pim_memory_times [OF m2 q1]
  have A0: "step_times A = (0, 0)"
    by (simp add: A_def pim_loop_times pim_heads_times) (simp add: step_times_def gen_start_def ExecStatus_ctor_def)
  have st: "es_total_duration (gs_es (pim_stage_total ?nb g)) = es_total_duration (gs_es g) + gen_longer g" for g
    using assms(4) by (simp add: pim_stage_total_def)
  have "step_times E = step_times (pim_softmax ?nb rates info ?qs (pim_stage_total ?nb B))"
    using E by (simp add: C pim_loop_times pim_heads_times reset)
  then have "es_total_duration (gs_es E) = es_total_duration (gs_es B) + gen_longer B + es_softmax_duration (gs_es E)"
    "es_softmax_duration (gs_es E) = es_softmax_duration (gs_es (pim_softmax ?nb rates info ?qs (pim_stage_total ?nb B)))"
    unfolding pim_softmax_times(1) by (simp_all add: step_times_def st)
  then show ?thesis
    using A0 B es pim_softmax_times(2) [OF assms(4)] by (simp add: st step_times_def)
qed

lemma pim_memory_good:
  assumes "good_tensors ts" "0 \<le> i" "i < int (length ts)"
  shows "\<exists>g' d' ts'. pim_memory ram False nb i row (g, d, ts) = Inr (g', d', ts') \<and> good_tensors ts' \<and> length ts' = length ts"
  using gen_memory_good [OF assms(1), of "[gemv_whole i [gs_len g, row]]"] assms(2,3)
  by (simp add: pim_memory_def good_access_def)

lemma AttentionGen_PIM_returns:
  assumes "good_tensors ts" "length ts = 3"
  shows "\<exists>es d' ts'. AttentionGenExecutionPIM ram d ts seqs info False = Inr (es, d', ts')"
proof -
  let ?nb = "nearbank_pim_config (dv_config d)" and ?row = "li_head_dim info * li_num_kv_heads info"
  have at: "vec_at ts 0 = Inr (ts ! 0)" "vec_at ts 1 = Inr (ts ! 1)" "vec_at ts 2 = Inr (ts ! 2)"
    using assms(2) by (simp_all add: vec_at_def)
  define g0 where "g0 = pim_loop (li_num_kv_heads info)
      (pim_scoring_head ?nb (gen_pim_rates (dv_config d) (ts ! 0)) info (ts ! 0)) (get_gen seqs) gen_start"
  obtain g1 d1 us where g1: "pim_memory ram False ?nb 1 ?row (g0, d, ts) = Inr (g1, d1, us)"
    and us: "good_tensors us" "length us = 3"
    using pim_memory_good [OF assms(1), of 1 ram ?nb ?row g0 d] assms(2) by auto
  have t: "\<exists>g' d' ts'. pim_memory ram False ?nb 2 ?row (g, d1, us) = Inr (g', d', ts')" for g
    using pim_memory_good [OF us(1), of 2 ram ?nb ?row g d1] us(2) by auto
  show ?thesis
    unfolding AttentionGenExecutionPIM_def Let_def at rbind_simps g0_def [symmetric] g1 prod.case
    by (auto simp: rbind_eq_Inr split: prod.splits) (meson t)+
qed

theorem pim_decode_accounts_witness:
  "\<exists>es d' ts'. AttentionGenExecutionPIM example_ramulator example_device [example_tensor, example_tensor, example_tensor]
      decode_batch decode_info False = Inr (es, d', ts') \<and> es_kv_quant_bytes es = 16 \<and>
    es_total_duration es = es_qk_duration es + es_softmax_duration es + es_score_v_duration es"
proof -
  let ?ts = "[example_tensor, example_tensor, example_tensor]"
  have ts: "good_tensors ?ts" by (simp add: good_tensors_def example_tensor_def Tensor_ctor_def)
  have tok: "get_gen_process_token decode_batch \<noteq> 0" by (simp add: get_gen_process_token_def sum_tokens_def decode_batch_gen)
  have nb: "enable_nearbank_model (nearbank_pim_config (dv_config example_device))"
    by (simp add: example_device_facts H100_def SystemConfig_ctor_def NearbankPIMConfig_default_def)
  obtain es d' ts' where run: "AttentionGenExecutionPIM example_ramulator example_device ?ts decode_batch decode_info False = Inr (es, d', ts')"
    using AttentionGen_PIM_returns [OF ts, of example_ramulator example_device decode_batch decode_info] by auto
  from pim_decode_accounts [OF run example_device_facts(2) tok nb] run show ?thesis
    by (auto simp: decode_batch_gen decode_info_def LayerInfo_default_def)
qed

end
