(* ===== verification/Attention_Mixed.thy ===== *)
theory Attention_Mixed
  imports Attention_Gen
begin

text \<open>
  The cost functions for batches that mix prompts and decoding sequences:
  \<^verbatim>\<open>src/hardware/attention_mixed_impl.cpp\<close>. They touch neither the memory nor the
  tensors, and the two LOGIC functions are stubs that cost nothing.
\<close>

text \<open>Operations and bytes of one product: scores and context have the same.\<close>

definition mixed_flops :: "int \<Rightarrow> layer_info \<Rightarrow> sequence \<Rightarrow> real" where
  "mixed_flops width info q = of_int (sq_num_process_token q * width * seq_span q) * 2 * of_int (li_num_heads info)"

definition mixed_score_bytes :: "int \<Rightarrow> layer_info \<Rightarrow> tensor \<Rightarrow> sequence \<Rightarrow> real" where
  "mixed_score_bytes k info input q =
     (let m = sq_num_process_token q; n = seq_span q
      in of_int ((m * k * li_num_heads info + k * n * li_num_kv_heads info) * t_precision_byte input))"

definition mixed_context_bytes :: "layer_info \<Rightarrow> tensor \<Rightarrow> sequence \<Rightarrow> real" where
  "mixed_context_bytes info input q =
     (let m = sq_num_process_token q; k = seq_span q; n = li_head_dim info
      in of_int ((m * k * li_num_heads info + k * n * li_num_kv_heads info) * t_precision_byte input))"

definition mixed_time :: "real \<times> real \<Rightarrow> real \<Rightarrow> real \<Rightarrow> real" where
  "mixed_time rates flops memory_size = max (ns_of flops (fst rates)) (ns_of memory_size (snd rates))"

text \<open>
  A loop over all sequences: total duration, operations and bytes. The time of a sequence is given
  by its operations and bytes.
\<close>

definition mixed_loop ::
  "(sequence \<Rightarrow> real) \<Rightarrow> (sequence \<Rightarrow> real) \<Rightarrow> (sequence \<Rightarrow> real) \<Rightarrow> sequence list \<Rightarrow> real \<times> real \<times> real \<Rightarrow> real \<times> real \<times> real" where
  "mixed_loop time flops memory_size =
     fold (\<lambda>q (t, f, b). (t + time q, f + flops q, b + memory_size q))"

definition mixed_status :: "real \<times> real \<Rightarrow> real \<times> real \<times> real \<Rightarrow> exec_status" where
  "mixed_status rates totals =
     (let (t, f, b) = totals; es = ExecStatus_ctor\<lparr>es_total_duration := t\<rparr>
      in es\<lparr>es_compute_util := fdiv (fdiv (1000 * 1000 * 1000 * f) (fst rates)) (es_total_duration es),
            es_memory_util := fdiv (fdiv (1000 * 1000 * 1000 * b) (snd rates)) (es_total_duration es)\<rparr>)"

text \<open>Both products at the given rates; the scores have the given width.\<close>

definition mixed_sums :: "real \<times> real \<Rightarrow> int \<Rightarrow> layer_info \<Rightarrow> tensor \<Rightarrow> sequence list \<Rightarrow> real \<times> real \<times> real" where
  "mixed_sums rates width info input qs =
     (let fs = mixed_flops width info; bs = mixed_score_bytes width info input;
          fc = mixed_flops (li_head_dim info) info; bc = mixed_context_bytes info input
      in mixed_loop (\<lambda>q. mixed_time rates (fc q) (bc q)) fc bc qs
           (mixed_loop (\<lambda>q. mixed_time rates (fs q) (bs q)) fs bs qs (0, 0, 0)))"

definition AttentionMixedExecutionGPU :: layer_fn where
  "AttentionMixedExecutionGPU d ts seqs info use_ram =
     rbind (vec_at ts 0) (\<lambda>input. let rates = gpu_rates (dv_config d) input in
     Inr (mixed_status rates (mixed_sums rates (li_head_dim info) info input (bs_sequence seqs)), d, ts))"

definition AttentionMixedExecutionLogic :: layer_fn where
  "AttentionMixedExecutionLogic d ts seqs info use_ram = Inr (ExecStatus_ctor, d, ts)"

text \<open>PIM rates, which a one-byte operand does not double here.\<close>

definition plain_pim_rates :: "system_config \<Rightarrow> real \<times> real" where
  "plain_pim_rates c = (pim_memory_bandwidth c * pim_op_b c, pim_memory_bandwidth c)"

definition AttentionMixedExecutionPIM :: layer_fn where
  "AttentionMixedExecutionPIM d ts seqs info use_ram =
     rbind (vec_at ts 0) (\<lambda>input.
     let nb = nearbank_pim_config (dv_config d); rates = plain_pim_rates (dv_config d); pb = t_precision_byte input;
         hd = li_head_dim info; kv = real_of_int (li_num_kv_heads info);
         f = mixed_flops hd info; bs = mixed_score_bytes hd info input; bc = mixed_context_bytes info input;
         score_time = (\<lambda>q. if enable_nearbank_model nb \<and> enable_scoring_in_pim nb
           then fst (nearbank_head nb info pb (if enable_pim_dequant nb \<and> pb \<le> 1 then 2 else pb)
                  (sq_num_process_token q) hd (seq_span q)) * kv
           else mixed_time rates (f q) (bs q));
         context_time = (\<lambda>q. if enable_nearbank_model nb \<and> enable_context_in_pim nb
           then fst (nearbank_head nb info pb (if pb \<le> 1 then 2 else pb) (sq_num_process_token q) (seq_span q) hd) * kv
           else mixed_time rates (f q) (bc q));
         totals = mixed_loop context_time f bc (bs_sequence seqs) (mixed_loop score_time f bs (bs_sequence seqs) (0, 0, 0))
     in Inr ((mixed_status rates totals)\<lparr>es_opb := fdiv (fst (snd totals)) (snd (snd totals))\<rparr>, d, ts))"

definition MultiLatentAttentionMixedExecutionGPU :: layer_fn where
  "MultiLatentAttentionMixedExecutionGPU d ts seqs info use_ram =
     rbind (vec_at ts 0) (\<lambda>input. let rates = gpu_rates (dv_config d) input in
     Inr (mixed_status rates (mixed_sums rates (li_head_dim info + li_qk_rope_head_dim info) info input (bs_sequence seqs)), d, ts))"

definition MultiLatentAttentionMixedExecutionLogic :: layer_fn where
  "MultiLatentAttentionMixedExecutionLogic d ts seqs info use_ram = Inr (ExecStatus_ctor, d, ts)"

definition MultiLatentAttentionMixedExecutionPIM :: layer_fn where
  "MultiLatentAttentionMixedExecutionPIM d ts seqs info use_ram =
     rbind (vec_at ts 0) (\<lambda>input.
     let rates = plain_pim_rates (dv_config d);
         totals = mixed_sums rates (li_head_dim info + li_qk_rope_head_dim info) info input (bs_sequence seqs)
     in Inr ((mixed_status rates totals)\<lparr>es_opb := fdiv (fst (snd totals)) (snd (snd totals))\<rparr>, d, ts))"

definition attention_mixed_function :: "ProcessorType \<Rightarrow> layer_fn" where
  "attention_mixed_function pt = (if pt = GPU then AttentionMixedExecutionGPU
     else if pt = LOGIC then AttentionMixedExecutionLogic else AttentionMixedExecutionPIM)"

definition mla_mixed_function :: "ProcessorType \<Rightarrow> layer_fn" where
  "mla_mixed_function pt = (if pt = GPU then MultiLatentAttentionMixedExecutionGPU
     else if pt = LOGIC then MultiLatentAttentionMixedExecutionLogic else MultiLatentAttentionMixedExecutionPIM)"

section \<open>What the functions keep\<close>

text \<open>Device and tensors are returned as they came.\<close>

lemma mixed_functions_pure:
  "attention_mixed_function pt d ts seqs info use_ram = Inr (es, d', ts') \<Longrightarrow> d' = d \<and> ts' = ts"
  "mla_mixed_function pt d ts seqs info use_ram = Inr (es, d', ts') \<Longrightarrow> d' = d \<and> ts' = ts"
  by (auto simp: attention_mixed_function_def mla_mixed_function_def AttentionMixedExecutionGPU_def
      AttentionMixedExecutionLogic_def AttentionMixedExecutionPIM_def MultiLatentAttentionMixedExecutionGPU_def
      MultiLatentAttentionMixedExecutionLogic_def MultiLatentAttentionMixedExecutionPIM_def Let_def rbind_eq_Inr
      split: if_splits)

section \<open>The cost of a mixed batch\<close>

lemma mixed_loop_sums:
  "mixed_loop time flops bytes qs (t, f, b) =
     (t + (\<Sum>q\<leftarrow>qs. time q), f + (\<Sum>q\<leftarrow>qs. flops q), b + (\<Sum>q\<leftarrow>qs. bytes q))"
  unfolding mixed_loop_def by (induction qs arbitrary: t f b) (simp_all add: algebra_simps)

definition wf_mixed :: "sequence list \<Rightarrow> layer_info \<Rightarrow> tensor \<Rightarrow> bool" where
  "wf_mixed qs info input \<longleftrightarrow> qs \<noteq> [] \<and> (\<forall>q\<in>set qs. 0 < sq_num_process_token q \<and> 0 \<le> sq_current_len q) \<and>
     0 < li_head_dim info \<and> 0 < li_num_heads info"

lemma mixed_time_pos: "0 < fst rates \<Longrightarrow> 0 < f \<Longrightarrow> 0 < mixed_time rates f b"
  by (simp add: mixed_time_def ns_of_linear less_max_iff_disj)

lemma mixed_GPU_takes_time:
  assumes "AttentionMixedExecutionGPU d ts seqs info use_ram = Inr (es, d', ts')" "vec_at ts 0 = Inr input"
    and "wf_mixed (bs_sequence seqs) info input" "wf_system (dv_config d)"
  shows "0 < es_total_duration es"
proof -
  let ?r = "gpu_rates (dv_config d) input" and ?qs = "bs_sequence seqs"
  have r: "0 < fst ?r" using rates_positive [OF assms(4)] by blast
  have f: "0 < mixed_flops (li_head_dim info) info q" if "q \<in> set ?qs" for q
    using assms(3) that by (auto simp: wf_mixed_def mixed_flops_def seq_span_def)
  have t: "0 < (\<Sum>q\<leftarrow>?qs. mixed_time ?r (mixed_flops (li_head_dim info) info q) (b q))" for b
    using assms(3) by (intro sum_list_pos_real mixed_time_pos [OF r] f) (simp add: wf_mixed_def)
  show ?thesis
    using assms(1,2) add_pos_pos [OF t t]
    by (auto simp: AttentionMixedExecutionGPU_def Let_def mixed_status_def mixed_sums_def mixed_loop_sums)
qed

end
