(* ===== verification/Attention_Sum.thy ===== *)
theory Attention_Sum
  imports Attention_Stage
begin

text \<open>
  Attention over prompts: \<^verbatim>\<open>AttentionSumExecutionGPU\<close>, \<^verbatim>\<open>Logic\<close>
  and \<^verbatim>\<open>PIM\<close> of \<^verbatim>\<open>src/hardware/attention_sum_impl.cpp\<close>. The
  three charge the same operations and different bytes and accesses.
\<close>

section \<open>Grouped-query attention\<close>

definition gqa_flops :: "layer_info \<Rightarrow> sequence \<Rightarrow> real" where
  "gqa_flops info q = of_int (sq_num_process_token q) * of_int (li_head_dim info) * of_int (seq_span q) * 2
     * of_int (li_num_heads info)"

text \<open>
  On the GPU the three transfers of the scores are a read of the queries, of the keys and a write
  of the scores; the simulated time of the second is left out.
\<close>

definition sum_gpu_scoring :: "layer_info \<Rightarrow> tensor \<Rightarrow> sum_stage" where
  "sum_gpu_scoring info input =
     (let k = li_head_dim info; h = li_num_heads info; kv = li_num_kv_heads info;
          bytes = (\<lambda>q. let m = sq_num_process_token q; n = seq_span q in
            of_int (m * k * h + k * n * kv + m * n * h) * real_of_int (t_precision_byte input))
      in \<lparr>sg_flops = gqa_flops info, sg_bytes = bytes, sg_counted = bytes, sg_compute = False,
          sg_accesses = (\<lambda>q. let m = sq_num_process_token q; n = seq_span q in
            [read_dims [m, k * h], read_dims [k, n * kv], write_dims [m, n * h]]),
          sg_time = (\<lambda>_ ts. ts ! 0 + ts ! 2), sg_total = max\<rparr>)"

text \<open>The bytes of the softmax are set to zero, and its simulated time is not used.\<close>

definition sum_gpu_softmax :: "layer_info \<Rightarrow> sum_stage" where
  "sum_gpu_softmax info =
     \<lparr>sg_flops = softmax_flops info, sg_bytes = (\<lambda>_. 0), sg_counted = (\<lambda>_. 0), sg_compute = False,
      sg_accesses = (\<lambda>q. [read_dims [sq_num_process_token q, seq_span q * li_num_heads info], write_same]),
      sg_time = (\<lambda>md _. md), sg_total = max\<rparr>"

text \<open>In the context stage every simulated time overwrites the one before.\<close>

definition sum_gpu_context :: "layer_info \<Rightarrow> tensor \<Rightarrow> sum_stage" where
  "sum_gpu_context info input =
     (let n = li_head_dim info; h = li_num_heads info; kv = li_num_kv_heads info;
          bytes = (\<lambda>q. let m = sq_num_process_token q; k = seq_span q in
            of_int (m * k * h + k * n * kv + m * n * h) * real_of_int (t_precision_byte input))
      in \<lparr>sg_flops = gqa_flops info, sg_bytes = bytes, sg_counted = bytes, sg_compute = False,
          sg_accesses = (\<lambda>q. let m = sq_num_process_token q; k = seq_span q in
            [read_dims [m, k * h], read_dims [k, n * kv], write_dims [m, n * h]]),
          sg_time = (\<lambda>_ ts. ts ! 2), sg_total = max\<rparr>)"

definition AttentionSumExecutionGPU :: "ramulator \<Rightarrow> layer_fn" where
  "AttentionSumExecutionGPU ram d ts seqs info use_ram =
     rbind (vec_at ts 0) (\<lambda>input. rbind (vec_at ts 1) (\<lambda>output.
     let rates = gpu_rates (dv_config d) input in
     if getSize input = 0 then Inr (ExecStatus_ctor, d, ts) else
     rbind (run_stages ram use_ram ATTENTION_SUM GPU rates (get_sum seqs)
         [sum_gpu_scoring info input, sum_gpu_softmax info, sum_gpu_context info input] (sum_start, d, ts)) (\<lambda>(s, d, ts).
     rbind (assertTrue (ss_flops s > 0) ''fail'') (\<lambda>_.
     rbind (assertTrue (ss_bytes s > 0) ''fail'') (\<lambda>_.
     Inr (attention_finish rates (ss_flops s) (ss_bytes s) (ss_es s), d, ts))))))"

definition sum_logic_scoring :: "layer_info \<Rightarrow> tensor \<Rightarrow> sum_stage" where
  "sum_logic_scoring info input =
     (let k = li_head_dim info; h = li_num_heads info; kv = li_num_kv_heads info;
          bytes = (\<lambda>q. let m = sq_num_process_token q; n = seq_span q in
            real_of_int ((m * k * h + k * n * kv) * t_precision_byte input))
      in \<lparr>sg_flops = gqa_flops info, sg_bytes = bytes, sg_counted = bytes, sg_compute = False,
          sg_accesses = (\<lambda>q. [read_dims [sq_num_process_token q, k * h], gemv_dims [k, seq_span q * kv]]),
          sg_time = (\<lambda>_ ts. ts ! 0 + ts ! 1), sg_total = max\<rparr>)"

text \<open>Next to memory the softmax takes compute time only.\<close>

definition sum_near_softmax :: "layer_info \<Rightarrow> sum_stage" where
  "sum_near_softmax info =
     \<lparr>sg_flops = softmax_flops info, sg_bytes = (\<lambda>_. 0), sg_counted = (\<lambda>_. 0), sg_compute = False,
      sg_accesses = (\<lambda>_. []), sg_time = (\<lambda>md _. md), sg_total = (\<lambda>cd _. cd)\<rparr>"

definition sum_logic_context :: "layer_info \<Rightarrow> tensor \<Rightarrow> sum_stage" where
  "sum_logic_context info input =
     (let n = li_head_dim info; kv = li_num_kv_heads info;
          bytes = (\<lambda>q. real_of_int ((seq_span q * n * kv) * t_precision_byte input))
      in \<lparr>sg_flops = gqa_flops info, sg_bytes = bytes, sg_counted = bytes, sg_compute = False,
          sg_accesses = (\<lambda>q. [gemv_dims [seq_span q, n * kv]]),
          sg_time = (\<lambda>_ ts. ts ! 0), sg_total = max\<rparr>)"

definition AttentionSumExecutionLogic :: "ramulator \<Rightarrow> layer_fn" where
  "AttentionSumExecutionLogic ram d ts seqs info use_ram =
     rbind (vec_at ts 0) (\<lambda>input.
     let rates = logic_rates (dv_config d) input in
     if getSize input = 0 then Inr (ExecStatus_ctor, d, ts) else
     rbind (run_stages ram use_ram ATTENTION_SUM LOGIC rates (get_sum seqs)
         [sum_logic_scoring info input, sum_near_softmax info, sum_logic_context info input] (sum_start, d, ts)) (\<lambda>(s, d, ts).
     Inr (attention_finish rates (ss_flops s) (ss_bytes s) (ss_es s), d, ts)))"

text \<open>On PIM only the first dimension of the input is replaced before an access.\<close>

definition sum_pim_scoring :: "layer_info \<Rightarrow> tensor \<Rightarrow> sum_stage" where
  "sum_pim_scoring info input = (sum_logic_scoring info input)
     \<lparr>sg_accesses := (\<lambda>q. [gemv_dims [sq_num_process_token q]]), sg_time := (\<lambda>_ ts. ts ! 0)\<rparr>"

definition sum_pim_context :: "layer_info \<Rightarrow> tensor \<Rightarrow> sum_stage" where
  "sum_pim_context info input = (sum_logic_context info input)
     \<lparr>sg_accesses := (\<lambda>q. [gemv_dims [seq_span q]])\<rparr>"

definition AttentionSumExecutionPIM :: "ramulator \<Rightarrow> layer_fn" where
  "AttentionSumExecutionPIM ram d ts seqs info use_ram =
     rbind (vec_at ts 0) (\<lambda>input.
     let rates = pim_rates (dv_config d) input in
     if getSize input = 0 then Inr (ExecStatus_ctor, d, ts) else
     rbind (run_stages ram use_ram ATTENTION_SUM PIM rates (get_sum seqs)
         [sum_pim_scoring info input, sum_near_softmax info, sum_pim_context info input] (sum_start, d, ts)) (\<lambda>(s, d, ts).
     Inr (attention_finish rates (ss_flops s) (ss_bytes s) (ss_es s), d, ts)))"

definition attention_sum_function :: "ramulator \<Rightarrow> ProcessorType \<Rightarrow> layer_fn" where
  "attention_sum_function ram pt = (if pt = GPU then AttentionSumExecutionGPU ram
     else if pt = LOGIC then AttentionSumExecutionLogic ram else AttentionSumExecutionPIM ram)"

section \<open>The cost of a prompt\<close>

lemma attention_sum_function_keeps:
  "attention_sum_function ram pt d ts seqs info use_ram = Inr (es, d', ts') \<Longrightarrow> device_keeps (d, ts) (d', ts')"
  by (auto simp: attention_sum_function_def AttentionSumExecutionGPU_def AttentionSumExecutionLogic_def
      AttentionSumExecutionPIM_def Let_def rbind_eq_Inr split: if_splits dest: run_stages_keeps)

text \<open>Prompts and dimensions as the scheduler and the model configuration give them.\<close>

definition wf_prompts :: "sequence list \<Rightarrow> layer_info \<Rightarrow> tensor \<Rightarrow> bool" where
  "wf_prompts qs info input \<longleftrightarrow> qs \<noteq> [] \<and> (\<forall>q\<in>set qs. 0 < sq_num_process_token q \<and> 0 \<le> sq_current_len q) \<and>
     0 < li_head_dim info \<and> 0 < li_num_heads info \<and> 0 \<le> li_num_kv_heads info \<and> 0 \<le> t_precision_byte input"

definition sum_rates :: "ProcessorType \<Rightarrow> system_config \<Rightarrow> tensor \<Rightarrow> real \<times> real" where
  "sum_rates pt c input = (if pt = GPU then gpu_rates c input else if pt = LOGIC then logic_rates c input else pim_rates c input)"

definition sum_stages :: "ProcessorType \<Rightarrow> layer_info \<Rightarrow> tensor \<Rightarrow> sum_stage list" where
  "sum_stages pt info input = (if pt = GPU then [sum_gpu_scoring info input, sum_gpu_softmax info, sum_gpu_context info input]
     else if pt = LOGIC then [sum_logic_scoring info input, sum_near_softmax info, sum_logic_context info input]
     else [sum_pim_scoring info input, sum_near_softmax info, sum_pim_context info input])"

lemmas sum_stage_defs = sum_stages_def sum_gpu_scoring_def sum_gpu_softmax_def sum_gpu_context_def
  sum_logic_scoring_def sum_near_softmax_def sum_logic_context_def sum_pim_scoring_def sum_pim_context_def

lemma sum_stages_flops:
  "map sg_flops (sum_stages pt info input) = [gqa_flops info, softmax_flops info, gqa_flops info]"
  by (simp add: sum_stage_defs Let_def)

lemma sum_stages_cover:
  assumes "wf_prompts qs info input" "wf_system c" "q \<in> set qs" "sg \<in> set (sum_stages pt info input)"
  shows "stage_covers (sum_rates pt c input) sg q"
proof -
  have pos: "0 < fst (sum_rates pt c input)" "0 < snd (sum_rates pt c input)"
    using rates_positive [OF assms(2), of input] by (auto simp: sum_rates_def)
  have q: "0 \<le> sq_num_process_token q" "0 \<le> seq_span q" "0 \<le> li_head_dim info" "0 \<le> li_num_heads info"
      "0 \<le> li_num_kv_heads info" "0 \<le> t_precision_byte input"
    using assms(1,3) by (auto simp: wf_prompts_def seq_span_def)
  have fl: "0 \<le> gqa_flops info q" "0 \<le> softmax_flops info q"
    using q by (simp_all add: gqa_flops_def softmax_flops_def)
  show ?thesis
  proof (cases "sg = sum_near_softmax info")
    case True
    moreover have "0 \<le> ns_of (softmax_flops info q) (fst (sum_rates pt c input))" using fl pos by (simp add: ns_of_def)
    ultimately show ?thesis
      using fl pos by (simp add: stage_covers_def stage_time_def sum_near_softmax_def ns_of_linear)
  next
    case False
    with assms(4) have "sg_total sg = max" "sg_bytes sg q = sg_counted sg q" "0 \<le> sg_flops sg q" "0 \<le> sg_counted sg q"
      using q fl by (auto simp: sum_stage_defs Let_def split: if_splits simp del: of_int_mult of_int_add)
    then show ?thesis by (intro stage_covers_max)
  qed
qed

lemma attention_sum_function_stages:
  assumes "attention_sum_function ram pt d ts seqs info use_ram = Inr (es, d', ts')" "vec_at ts 0 = Inr input" "getSize input \<noteq> 0"
  shows "\<exists>s. run_stages ram use_ram ATTENTION_SUM (if pt = GPU \<or> pt = LOGIC then pt else PIM)
      (sum_rates pt (dv_config d) input) (get_sum seqs) (sum_stages pt info input) (sum_start, d, ts) = Inr (s, d', ts') \<and>
    es = attention_finish (sum_rates pt (dv_config d) input) (ss_flops s) (ss_bytes s) (ss_es s)"
  using assms
  by (auto simp: attention_sum_function_def AttentionSumExecutionGPU_def AttentionSumExecutionLogic_def
      AttentionSumExecutionPIM_def sum_rates_def sum_stages_def Let_def rbind_eq_Inr split: if_splits)

text \<open>
  C16: prompt attention is charged the same operations on the GPU, on LOGIC and on PIM, four
  per score and head dimension and seven for the softmax; without Ramulator its duration is the sum
  of the stages' rooflines, so neither utilisation exceeds one.
\<close>

theorem prompt_attention_roofline:
  assumes "attention_sum_function ram pt d ts seqs info False = Inr (es, d', ts')" "vec_at ts 0 = Inr input"
    and "wf_prompts (get_sum seqs) info input" "wf_system (dv_config d)" "dram_quiet d" "getSize input \<noteq> 0"
  shows "es_flops es = (\<Sum>q\<leftarrow>get_sum seqs. (4 * of_int (li_head_dim info) + 7) *
      of_int (sq_num_process_token q * seq_span q * li_num_heads info)) \<and>
    es_total_duration es = (\<Sum>sg\<leftarrow>sum_stages pt info input. \<Sum>q\<leftarrow>get_sum seqs. stage_time (sum_rates pt (dv_config d) input) sg q) \<and>
    es_compute_util es \<le> 1 \<and> es_memory_util es \<le> 1 \<and> dv_config d' = dv_config d"
proof -
  let ?r = "sum_rates pt (dv_config d) input" and ?qs = "get_sum seqs"
  obtain s where run: "run_stages ram False ATTENTION_SUM (if pt = GPU \<or> pt = LOGIC then pt else PIM) ?r ?qs
      (sum_stages pt info input) (sum_start, d, ts) = Inr (s, d', ts')"
    and es: "es = attention_finish ?r (ss_flops s) (ss_bytes s) (ss_es s)"
    using attention_sum_function_stages [OF assms(1,2,6)] by blast
  have fl: "(\<Sum>sg\<leftarrow>sum_stages pt info input. \<Sum>q\<leftarrow>?qs. sg_flops sg q) = (\<Sum>f\<leftarrow>map sg_flops (sum_stages pt info input). \<Sum>q\<leftarrow>?qs. f q)"
    by (simp add: comp_def)
  also have "\<dots> = (\<Sum>q\<leftarrow>?qs. (4 * of_int (li_head_dim info) + 7) * of_int (sq_num_process_token q * seq_span q * li_num_heads info))"
    by (simp add: sum_stages_flops sum_list_addf [symmetric]) (simp add: gqa_flops_def softmax_flops_def algebra_simps)
  finally have fl: "(\<Sum>sg\<leftarrow>sum_stages pt info input. \<Sum>q\<leftarrow>?qs. sg_flops sg q) =
      (\<Sum>q\<leftarrow>?qs. (4 * of_int (li_head_dim info) + 7) * of_int (sq_num_process_token q * seq_span q * li_num_heads info))" .
  have F: "ss_flops s = (\<Sum>q\<leftarrow>?qs. (4 * of_int (li_head_dim info) + 7) * of_int (sq_num_process_token q * seq_span q * li_num_heads info))"
    using run_stages_time [OF run assms(5)] by (simp add: sum_start_def fl)
  have "0 < ss_flops s"
    unfolding F using assms(3) by (intro sum_list_pos_real) (auto simp: wf_prompts_def seq_span_def intro!: mult_pos_pos)
  moreover have "0 < fst ?r" "0 < snd ?r" using rates_positive [OF assms(4), of input] by (auto simp: sum_rates_def)
  ultimately show ?thesis
    using run_stages_bounded [OF run assms(5) sum_stages_cover [OF assms(3,4)]] run_stages_keeps [OF run]
    by (simp add: es [symmetric] fl device_keeps_def)
qed

lemma sum_stages_accesses:
  "sg \<in> set (sum_stages pt info input) \<Longrightarrow> a \<in> set (sg_accesses sg q) \<Longrightarrow> 0 < n \<Longrightarrow> good_access n a"
  by (auto simp: sum_stage_defs Let_def good_access_def split: if_splits)

lemma attention_sum_LOGIC_returns:
  assumes "good_tensors ts" "ts \<noteq> []" "getSize (ts ! 0) \<noteq> 0"
  shows "\<exists>es d' ts'. attention_sum_function ram LOGIC d ts seqs info False = Inr (es, d', ts')"
proof -
  obtain s d' ts' where "run_stages ram False ATTENTION_SUM LOGIC (logic_rates (dv_config d) (ts ! 0)) (get_sum seqs)
      (sum_stages LOGIC info (ts ! 0)) (sum_start, d, ts) = Inr (s, d', ts')"
    using run_stages_returns [of ts "sum_stages LOGIC info (ts ! 0)" "get_sum seqs"] assms(1,2) sum_stages_accesses by blast
  then show ?thesis
    using assms by (simp add: attention_sum_function_def AttentionSumExecutionLogic_def Let_def vec_at_def sum_stages_def)
qed

definition prompt_info :: layer_info where
  "prompt_info = LayerInfo_default\<lparr>li_num_heads := 2, li_num_kv_heads := 1, li_head_dim := 4\<rparr>"

definition prompt_batch :: batched_sequence where
  "prompt_batch = (BatchedSequence_Create 4 2)\<lparr>bs_sequence := [example_sequence\<lparr>sq_input_len := 3,
     sq_current_len := 0, sq_num_process_token := 3\<rparr>]\<rparr>"

lemma prompt_batch_sum: "get_sum prompt_batch = [example_sequence\<lparr>sq_input_len := 3, sq_current_len := 0, sq_num_process_token := 3\<rparr>]"
  by (simp add: prompt_batch_def get_sum_def is_sum_def)

theorem prompt_attention_roofline_witness:
  "\<exists>es d' ts'. attention_sum_function example_ramulator LOGIC example_device [example_tensor, example_tensor] prompt_batch prompt_info False
      = Inr (es, d', ts') \<and> es_flops es = 414 \<and> es_compute_util es \<le> 1 \<and> es_memory_util es \<le> 1"
proof -
  let ?ts = "[example_tensor, example_tensor]"
  have ts: "good_tensors ?ts" "getSize (?ts ! 0) \<noteq> 0" "0 < t_precision_byte (?ts ! 0)"
    by (simp_all add: good_tensors_def example_tensor_def Tensor_ctor_def getSize_def)
  have p: "wf_prompts (get_sum prompt_batch) prompt_info (?ts ! 0)"
    using ts(3) by (simp add: wf_prompts_def prompt_batch_sum prompt_info_def LayerInfo_default_def)
  obtain es d' ts' where run: "attention_sum_function example_ramulator LOGIC example_device ?ts prompt_batch prompt_info False = Inr (es, d', ts')"
    using attention_sum_LOGIC_returns [OF ts(1) _ ts(2)] by blast
  have "wf_system (dv_config example_device)" by (simp add: example_device_facts)
  from prompt_attention_roofline [OF run _ p this example_device_facts(2) ts(2)] run show ?thesis
    by (auto simp: vec_at_def prompt_batch_sum prompt_info_def LayerInfo_default_def seq_span_def)
qed

end
