(* ===== verification/Executor_Model.thy ===== *)
theory Executor_Model
  imports Absorb_Exec Attention_Mixed Attention_Sum
begin

text \<open>
  The executor: \<^verbatim>\<open>src/hardware/executor.cpp\<close> and \<^verbatim>\<open>Device::execution\<close>.
  For every processor type the layer allows, the function of the layer's table is run and the
  cheapest status is kept. What the executor needs of any table entry is the locale
  \<open>cost_function\<close>, which the entries of all eleven tables are shown to satisfy.
\<close>

section \<open>Tables\<close>

text \<open>\<^verbatim>\<open>table.at(int(type))\<close> has one slot below \<^verbatim>\<open>MAX\<close>; the slot of \<^verbatim>\<open>NONE\<close> is empty.\<close>

definition table_at :: "(ProcessorType \<Rightarrow> 'f) \<Rightarrow> ProcessorType \<Rightarrow> 'f res" where
  "table_at f pt = (if pt = PT_MAX then Inl OutOfRange
     else if pt = PT_NONE then Inl BadFunctionCall else Inr (f pt))"

definition linear_function :: "ramulator \<Rightarrow> ProcessorType \<Rightarrow> device \<Rightarrow> tensor \<Rightarrow> tensor \<Rightarrow> tensor \<Rightarrow> bool \<Rightarrow> (exec_status \<times> device) res" where
  "linear_function ram pt = (if pt = GPU then LinearExecutionGPU ram
     else if pt = LOGIC then LinearExecutionLogic ram else LinearExecutionPIM ram)"

definition batched_linear_function ::
  "ramulator \<Rightarrow> ProcessorType \<Rightarrow> device \<Rightarrow> tensor \<Rightarrow> tensor \<Rightarrow> tensor \<Rightarrow> bool \<Rightarrow> bool \<Rightarrow> (exec_status \<times> device \<times> tensor list) res" where
  "batched_linear_function ram pt d i w out use_ram dup =
     (if pt = GPU then BatchedLinearExecutionGPU ram d i w out use_ram dup
      else rbind ((if pt = LOGIC then BatchedLinearExecutionLogic else BatchedLinearExecutionPIM) ram d i w out use_ram dup)
        (\<lambda>(es, d). Inr (es, d, [i, w, out])))"

definition activation_function :: "ramulator \<Rightarrow> ProcessorType \<Rightarrow> device \<Rightarrow> tensor \<Rightarrow> tensor \<Rightarrow> tensor \<Rightarrow> bool \<Rightarrow> (exec_status \<times> device) res" where
  "activation_function ram pt = (if pt = GPU then ActivationExecutionGPU ram
     else if pt = LOGIC then ActivationExecutionLogic ram else ActivationExecutionPIM ram)"

section \<open>Running one processor type\<close>

definition executeLinear :: "ramulator \<Rightarrow> ProcessorType \<Rightarrow> layer_fn" where
  "executeLinear ram pt d ts seqs info use_ram =
     rbind (vec_at ts 0) (\<lambda>input. rbind (vec_at ts 1) (\<lambda>weight. rbind (vec_at ts 2) (\<lambda>output.
     rbind (table_at (linear_function ram) pt) (\<lambda>f.
     rbind (f d input weight output use_ram) (\<lambda>(es, d). Inr (es, d, ts))))))"

definition executeBatchedLinear :: "ramulator \<Rightarrow> ProcessorType \<Rightarrow> layer_fn" where
  "executeBatchedLinear ram pt d ts seqs info use_ram =
     rbind (vec_at ts 0) (\<lambda>input. rbind (vec_at ts 1) (\<lambda>weight. rbind (vec_at ts 2) (\<lambda>output.
     rbind (table_at (batched_linear_function ram) pt) (\<lambda>f.
     rbind (f d input weight output use_ram (li_duplicated_input info)) (\<lambda>(es, d, ts').
     Inr (es, d, ts' @ drop 3 ts))))))"

definition executeActivation :: "ramulator \<Rightarrow> ProcessorType \<Rightarrow> layer_fn" where
  "executeActivation ram pt d ts seqs info use_ram =
     rbind (vec_at ts 0) (\<lambda>gate_output. rbind (vec_at ts 1) (\<lambda>input. rbind (vec_at ts 2) (\<lambda>output.
     rbind (table_at (activation_function ram) pt) (\<lambda>f.
     rbind (f d gate_output input output use_ram) (\<lambda>(es, d). Inr (es, d, ts))))))"

definition executeAttentionGen :: "ramulator \<Rightarrow> ProcessorType \<Rightarrow> layer_fn" where
  "executeAttentionGen ram pt d ts seqs info use_ram =
     rbind (table_at (attention_gen_function ram) pt) (\<lambda>f. f d ts seqs info use_ram)"

definition executeAttentionSum :: "ramulator \<Rightarrow> ProcessorType \<Rightarrow> layer_fn" where
  "executeAttentionSum ram pt d ts seqs info use_ram =
     rbind (table_at (attention_sum_function ram) pt) (\<lambda>f. f d ts seqs info use_ram)"

definition executeAttentionMixed :: "ramulator \<Rightarrow> ProcessorType \<Rightarrow> layer_fn" where
  "executeAttentionMixed ram pt d ts seqs info use_ram =
     rbind (table_at (attention_mixed_function) pt) (\<lambda>f. f d ts seqs info use_ram)"

definition executeMultiLatentAttentionGen :: "ramulator \<Rightarrow> ProcessorType \<Rightarrow> layer_fn" where
  "executeMultiLatentAttentionGen ram pt d ts seqs info use_ram =
     rbind (table_at (mla_gen_function ram) pt) (\<lambda>f. f d ts seqs info use_ram)"

definition executeMultiLatentAttentionSum :: "ramulator \<Rightarrow> ProcessorType \<Rightarrow> layer_fn" where
  "executeMultiLatentAttentionSum ram pt d ts seqs info use_ram =
     rbind (table_at (mla_sum_function ram) pt) (\<lambda>f. f d ts seqs info use_ram)"

definition executeMultiLatentAttentionMixed :: "ramulator \<Rightarrow> ProcessorType \<Rightarrow> layer_fn" where
  "executeMultiLatentAttentionMixed ram pt d ts seqs info use_ram =
     rbind (table_at (mla_mixed_function) pt) (\<lambda>f. f d ts seqs info use_ram)"

definition executeAbsorbMLAGen :: "ramulator \<Rightarrow> ProcessorType \<Rightarrow> layer_fn" where
  "executeAbsorbMLAGen ram pt d ts seqs info use_ram =
     rbind (table_at (absorb_gen_function ram) pt) (\<lambda>f. f d ts seqs info use_ram)"

definition executeAbsorbMLASum :: "ramulator \<Rightarrow> ProcessorType \<Rightarrow> layer_fn" where
  "executeAbsorbMLASum ram pt d ts seqs info use_ram =
     rbind (table_at (absorb_sum_function ram) pt) (\<lambda>f. f d ts seqs info use_ram)"

definition executePType ::
  "ramulator \<Rightarrow> LayerType \<Rightarrow> ProcessorType \<Rightarrow> layer_fn" where
  "executePType ram layer pt d ts seqs info use_ram =
     (let bandwidth_x = (if pt = LOGIC then logic_x (dv_config d) else if pt = PIM then pim_x (dv_config d) else 0);
          d = setPIMHWConfig pt bandwidth_x d
      in rbind (case layer of
            LINEAR \<Rightarrow> executeLinear ram pt d ts seqs info use_ram
          | BATCHED_LINEAR \<Rightarrow> executeBatchedLinear ram pt d ts seqs info use_ram
          | ACTIVATION \<Rightarrow> executeActivation ram pt d ts seqs info use_ram
          | ATTENTION_SUM \<Rightarrow> executeAttentionSum ram pt d ts seqs info use_ram
          | ATTENTION_GEN \<Rightarrow> executeAttentionGen ram pt d ts seqs info use_ram
          | ATTENTION_MIXED \<Rightarrow> executeAttentionMixed ram pt d ts seqs info use_ram
          | MLA_SUM \<Rightarrow> executeMultiLatentAttentionSum ram pt d ts seqs info use_ram
          | MLA_GEN \<Rightarrow> executeMultiLatentAttentionGen ram pt d ts seqs info use_ram
          | MLA_MIXED \<Rightarrow> executeMultiLatentAttentionMixed ram pt d ts seqs info use_ram
          | ABSORBED_MLA_SUM \<Rightarrow> executeAbsorbMLASum ram pt d ts seqs info use_ram
          | ABSORBED_MLA_GEN \<Rightarrow> executeAbsorbMLAGen ram pt d ts seqs info use_ram
          | LT_MAX \<Rightarrow> Inr (ExecStatus_ctor, d, ts))
        (\<lambda>(es, d, ts). Inr (es\<lparr>es_processor_type := pt\<rparr>, d, ts)))"

section \<open>Choosing the cheapest\<close>

definition select :: "exec_status \<Rightarrow> exec_status \<times> real \<Rightarrow> exec_status \<times> real" where
  "select status best =
     (if snd best = 0 \<or> snd best > es_total_duration status then (status, es_total_duration status) else best)"

definition execution_step ::
  "ramulator \<Rightarrow> LayerType \<Rightarrow> batched_sequence \<Rightarrow> layer_info \<Rightarrow> bool \<Rightarrow> ProcessorType
    \<Rightarrow> (exec_status \<times> real) \<times> device \<times> tensor list \<Rightarrow> ((exec_status \<times> real) \<times> device \<times> tensor list) res" where
  "execution_step ram layer seqs info use_ram pt st =
     (let (best, d, ts) = st in
      rbind (executePType ram layer pt d ts seqs info use_ram) (\<lambda>(status, d, ts).
      Inr (select status best, d, ts)))"

definition execution ::
  "ramulator \<Rightarrow> LayerType \<Rightarrow> tensor list \<Rightarrow> batched_sequence \<Rightarrow> layer_info
    \<Rightarrow> bool \<Rightarrow> device \<Rightarrow> (device \<times> tensor list) res" where
  "execution ram layer ts seqs info use_ram d =
     rbind (rfold (execution_step ram layer seqs info use_ram) (li_processor_type info) ((ExecStatus_ctor, 0), d, ts))
       (\<lambda>(best, d, ts).
       Inr (setExecStatus ((fst best)\<lparr>es_parallel_execution := li_parallel_execution info\<rparr>) d, ts))"

text \<open>\<^verbatim>\<open>Device::execution\<close>: nothing happens unless execution is to be performed.\<close>

definition device_execution ::
  "ramulator \<Rightarrow> LayerType \<Rightarrow> tensor list \<Rightarrow> batched_sequence \<Rightarrow> layer_info
    \<Rightarrow> device \<Rightarrow> (device \<times> tensor list) res" where
  "device_execution ram layer ts seqs info d =
     (if dv_perform_execution d
      then execution ram layer ts seqs info (use_ramulator (dv_config d)) (resetCounter d)
      else Inr (d, ts))"

section \<open>What a table entry promises\<close>

lemma map_le_Some: "f \<subseteq>\<^sub>m g \<Longrightarrow> f k = Some v \<Longrightarrow> g k = Some v"
  by (metis domI map_le_def)

locale cost_function =
  fixes impl :: layer_fn
  assumes keeps: "impl d ts seqs info use_ram = Inr (es, d', ts') \<Longrightarrow>
    dv_config d' = dv_config d \<and> dv_cache d \<subseteq>\<^sub>m dv_cache d' \<and> length ts' = length ts"
begin

text \<open>A cached cost stays what it was through any number of calls.\<close>

lemma cache_stable:
  "impl d ts seqs info use_ram = Inr (es, d', ts') \<Longrightarrow> dv_cache d key = Some c \<Longrightarrow> dv_cache d' key = Some c"
  using keeps map_le_Some by metis

lemma iterate_keeps:
  assumes "rfold (\<lambda>info st. rbind (impl (fst st) (snd st) seqs info use_ram) (\<lambda>(es, d, ts). Inr (d, ts))) infos (d, ts) = Inr (d', ts')"
  shows "dv_config d' = dv_config d \<and> dv_cache d \<subseteq>\<^sub>m dv_cache d' \<and> length ts' = length ts"
  using assms
proof (induction infos arbitrary: d ts)
  case Nil
  then show ?case by (simp add: map_le_refl)
next
  case (Cons i infos)
  then obtain es d1 ts1 where one: "impl d ts seqs i use_ram = Inr (es, d1, ts1)"
    and rest: "rfold (\<lambda>info st. rbind (impl (fst st) (snd st) seqs info use_ram) (\<lambda>(es, d, ts). Inr (d, ts))) infos (d1, ts1) = Inr (d', ts')"
    by (auto simp: rbind_eq_Inr)
  from keeps [OF one] Cons.IH [OF rest] show ?case by (auto intro: map_le_trans)
qed

end

lemma simulated_transfers_keeps:
  assumes "simulated_transfers ram layer ts (es, d) = Inr (es', d')"
  shows "dv_config d' = dv_config d \<and> dv_cache d \<subseteq>\<^sub>m dv_cache d'"
  using assms
proof (induction ts arbitrary: es d)
  case Nil
  then show ?case by (simp add: simulated_transfers_def map_le_refl)
next
  case (Cons x ts)
  obtain pt req opnd ri t where x: "x = ((pt, req, opnd), ri, t)" by (metis prod.collapse)
  from Cons.prems obtain e d1 where one: "issueRamulator ram layer pt req opnd t d = Inr (e, d1)"
    and rest: "simulated_transfers ram layer ts (exec_status_add es e, d1) = Inr (es', d')"
    by (auto simp: simulated_transfers_def x rbind_eq_Inr)
  from issueRamulator_keeps [OF one] Cons.IH [OF rest] show ?case by (auto intro: map_le_trans)
qed

lemma ideal_transfers_keeps:
  "ideal_transfers ts (es, d) = (es', d') \<Longrightarrow> dv_config d' = dv_config d \<and> dv_cache d' = dv_cache d"
proof (induction ts arbitrary: es d)
  case Nil
  then show ?case by (simp add: ideal_transfers_def)
next
  case (Cons x ts)
  obtain r req t where x: "x = (r, req, t)" by (metis prod.collapse)
  have "ideal_transfers ts (exec_status_add es (dv_dram_exec (run_ideal req t d)), run_ideal req t d) = (es', d')"
    using Cons.prems by (simp add: ideal_transfers_def x getIdealMemoryStatus_def Let_def)
  from Cons.IH [OF this] show ?case by simp
qed

lemma memory_phase_keeps:
  assumes "memory_phase ram use_ram layer md ts (es, d) = Inr (es', d')"
  shows "dv_config d' = dv_config d \<and> dv_cache d \<subseteq>\<^sub>m dv_cache d'"
proof (cases use_ram)
  case True
  with assms show ?thesis
    by (intro simulated_transfers_keeps [of ram layer ts es d es' d']) (simp add: memory_phase_def)
next
  case False
  with assms ideal_transfers_keeps [of ts _ d es' d'] show ?thesis
    by (auto simp: memory_phase_def map_le_refl)
qed

lemma layer_body_keeps:
  assumes "layer_body ram use_ram layer rates fl by inp ts d = Inr (es, d')"
  shows "dv_config d' = dv_config d \<and> dv_cache d \<subseteq>\<^sub>m dv_cache d'"
  using assms by (auto simp: layer_body_def rbind_eq_Inr map_le_refl split: if_splits dest: memory_phase_keeps)

lemma table_at_Inr: "table_at f pt = Inr g \<longleftrightarrow> g = f pt \<and> pt \<noteq> PT_MAX \<and> pt \<noteq> PT_NONE"
  by (auto simp: table_at_def)

lemma linear_function_keeps:
  "linear_function ram pt d i w out use_ram = Inr (es, d') \<Longrightarrow> dv_config d' = dv_config d \<and> dv_cache d \<subseteq>\<^sub>m dv_cache d'"
  by (auto simp: linear_function_def LinearExecutionGPU_def LinearExecutionLogic_def LinearExecutionPIM_def
      Let_def rbind_eq_Inr split: if_splits dest: layer_body_keeps)

lemma activation_function_keeps:
  "activation_function ram pt d i w out use_ram = Inr (es, d') \<Longrightarrow> dv_config d' = dv_config d \<and> dv_cache d \<subseteq>\<^sub>m dv_cache d'"
  by (auto simp: activation_function_def ActivationExecutionGPU_def ActivationExecutionLogic_def
      ActivationExecutionPIM_def Let_def rbind_eq_Inr split: if_splits dest: layer_body_keeps)

lemma batched_gpu_keeps:
  assumes "BatchedLinearExecutionGPU ram d i w out use_ram dup = Inr (es, d', ts)"
  shows "dv_config d' = dv_config d \<and> dv_cache d \<subseteq>\<^sub>m dv_cache d' \<and> length ts = 3"
  using assms unfolding BatchedLinearExecutionGPU_def Let_def
  by (auto simp: rbind_eq_Inr map_le_refl split: if_splits dest!: memory_phase_keeps)

lemma batched_linear_function_keeps:
  assumes "batched_linear_function ram pt d i w out use_ram dup = Inr (es, d', ts)"
  shows "dv_config d' = dv_config d \<and> dv_cache d \<subseteq>\<^sub>m dv_cache d' \<and> length ts = 3"
proof (cases "pt = GPU")
  case True
  with assms batched_gpu_keeps show ?thesis by (simp add: batched_linear_function_def)
next
  case False
  with assms show ?thesis
    by (auto simp: batched_linear_function_def BatchedLinearExecutionLogic_def BatchedLinearExecutionPIM_def
        rbind_eq_Inr split: if_splits dest: layer_body_keeps)
qed

interpretation linear_cost: cost_function "executeLinear ram pt" for ram pt
  by unfold_locales (auto simp: executeLinear_def rbind_eq_Inr table_at_Inr dest!: linear_function_keeps)

interpretation activation_cost: cost_function "executeActivation ram pt" for ram pt
  by unfold_locales (auto simp: executeActivation_def rbind_eq_Inr table_at_Inr dest!: activation_function_keeps)

interpretation batched_cost: cost_function "executeBatchedLinear ram pt" for ram pt
  by unfold_locales
    (auto simp: executeBatchedLinear_def rbind_eq_Inr table_at_Inr vec_at_Inr_iff dest!: batched_linear_function_keeps)

lemmas attention_tables_keep = attention_gen_function_keeps attention_sum_function_keeps mla_function_keeps absorb_function_keeps

interpretation gen_cost: cost_function "executeAttentionGen ram pt" for ram pt
  by unfold_locales (auto simp: executeAttentionGen_def rbind_eq_Inr table_at_Inr device_keeps_def dest!: attention_tables_keep)

interpretation sum_cost: cost_function "executeAttentionSum ram pt" for ram pt
  by unfold_locales (auto simp: executeAttentionSum_def rbind_eq_Inr table_at_Inr device_keeps_def dest!: attention_tables_keep)

interpretation mixed_cost: cost_function "executeAttentionMixed ram pt" for ram pt
  by unfold_locales (auto simp: executeAttentionMixed_def rbind_eq_Inr table_at_Inr map_le_refl dest!: mixed_functions_pure)

interpretation mla_gen_cost: cost_function "executeMultiLatentAttentionGen ram pt" for ram pt
  by unfold_locales (auto simp: executeMultiLatentAttentionGen_def rbind_eq_Inr table_at_Inr device_keeps_def dest!: attention_tables_keep)

interpretation mla_sum_cost: cost_function "executeMultiLatentAttentionSum ram pt" for ram pt
  by unfold_locales (auto simp: executeMultiLatentAttentionSum_def rbind_eq_Inr table_at_Inr device_keeps_def dest!: attention_tables_keep)

interpretation mla_mixed_cost: cost_function "executeMultiLatentAttentionMixed ram pt" for ram pt
  by unfold_locales (auto simp: executeMultiLatentAttentionMixed_def rbind_eq_Inr table_at_Inr map_le_refl dest!: mixed_functions_pure)

interpretation absorb_gen_cost: cost_function "executeAbsorbMLAGen ram pt" for ram pt
  by unfold_locales (auto simp: executeAbsorbMLAGen_def rbind_eq_Inr table_at_Inr device_keeps_def dest!: attention_tables_keep)

interpretation absorb_sum_cost: cost_function "executeAbsorbMLASum ram pt" for ram pt
  by unfold_locales (auto simp: executeAbsorbMLASum_def rbind_eq_Inr table_at_Inr device_keeps_def dest!: attention_tables_keep)

lemmas costs_keep = linear_cost.keeps batched_cost.keeps activation_cost.keeps gen_cost.keeps sum_cost.keeps mixed_cost.keeps
  mla_gen_cost.keeps mla_sum_cost.keeps mla_mixed_cost.keeps absorb_gen_cost.keeps absorb_sum_cost.keeps

section \<open>The executor keeps the promise\<close>

lemma executePType_keeps:
  assumes "executePType ram layer pt d ts seqs info use_ram = Inr (es, d', ts')"
  shows "dv_config d' = dv_config d \<and> dv_cache d \<subseteq>\<^sub>m dv_cache d' \<and> length ts' = length ts"
  using assms
  by (cases layer) (auto simp: executePType_def Let_def rbind_eq_Inr setPIMHWConfig_def map_le_refl dest!: costs_keep)

text \<open>The statuses of all processor types, in the order they are tried.\<close>

definition run_types ::
  "ramulator \<Rightarrow> LayerType \<Rightarrow> batched_sequence \<Rightarrow> layer_info \<Rightarrow> bool
    \<Rightarrow> ProcessorType list \<Rightarrow> exec_status list \<times> device \<times> tensor list \<Rightarrow> (exec_status list \<times> device \<times> tensor list) res" where
  "run_types ram layer seqs info use_ram =
     rfold (\<lambda>pt (sts, d, ts). rbind (executePType ram layer pt d ts seqs info use_ram)
       (\<lambda>(status, d, ts). Inr (sts @ [status], d, ts)))"

lemma execution_step_eq:
  "execution_step ram layer seqs info use_ram pt (best, d, ts) =
     rbind (executePType ram layer pt d ts seqs info use_ram) (\<lambda>(status, d, ts). Inr (select status best, d, ts))"
  by (simp add: execution_step_def)

lemma execution_run_types:
  assumes "rfold (execution_step ram layer seqs info use_ram) pts (best, d, ts) = Inr (best', d', ts')"
  shows "\<exists>sts. run_types ram layer seqs info use_ram pts (old, d, ts) = Inr (old @ sts, d', ts') \<and>
    length sts = length pts \<and> best' = fold select sts best"
  using assms
proof (induction pts arbitrary: best d ts old)
  case Nil
  then show ?case by (simp add: run_types_def)
next
  case (Cons pt pts)
  then obtain s d1 ts1 where one: "executePType ram layer pt d ts seqs info use_ram = Inr (s, d1, ts1)"
    and rest: "rfold (execution_step ram layer seqs info use_ram) pts (select s best, d1, ts1) = Inr (best', d', ts')"
    by (auto simp: execution_step_eq rbind_eq_Inr)
  from Cons.IH [OF rest, of "old @ [s]"] obtain sts where
    "run_types ram layer seqs info use_ram pts (old @ [s], d1, ts1) = Inr ((old @ [s]) @ sts, d', ts')"
    "length sts = length pts" "best' = fold select sts (select s best)" by blast
  then show ?case by (intro exI [of _ "s # sts"]) (simp add: run_types_def one)
qed

text \<open>
  The statuses tried after the last one that takes no time, and what choosing among statuses
  gives: the first cheapest of those, or the last status when it is itself free.
\<close>

definition after_zero :: "exec_status list \<Rightarrow> exec_status list" where
  "after_zero sts = rev (takeWhile (\<lambda>s. 0 < es_total_duration s) (rev sts))"

definition first_cheapest :: "exec_status list \<Rightarrow> exec_status \<Rightarrow> bool" where
  "first_cheapest sts s \<longleftrightarrow> (\<exists>i < length sts. s = sts ! i \<and>
     (\<forall>j < length sts. es_total_duration (sts ! i) \<le> es_total_duration (sts ! j)) \<and>
     (\<forall>j < i. es_total_duration (sts ! i) < es_total_duration (sts ! j)))"

definition chosen_status :: "exec_status list \<Rightarrow> exec_status \<Rightarrow> bool" where
  "chosen_status sts s \<longleftrightarrow> (if after_zero sts = [] then s = last sts else first_cheapest (after_zero sts) s)"

lemma after_zero_snoc: "after_zero (sts @ [x]) = (if 0 < es_total_duration x then after_zero sts @ [x] else [])"
  by (simp add: after_zero_def)

lemma after_zero_set: "set (after_zero sts) \<subseteq> {s \<in> set sts. 0 < es_total_duration s}"
  by (auto simp: after_zero_def dest: set_takeWhileD)

lemma after_zero_positive: "\<forall>s \<in> set sts. 0 < es_total_duration s \<Longrightarrow> after_zero sts = sts"
proof -
  assume "\<forall>s \<in> set sts. 0 < es_total_duration s"
  then have eq: "takeWhile (\<lambda>s. 0 < es_total_duration s) (rev sts) = rev sts" by (simp add: takeWhile_eq_all_conv)
  show "after_zero sts = sts" unfolding after_zero_def eq by simp
qed

lemma first_cheapest_snoc:
  assumes "first_cheapest sts s"
  shows "first_cheapest (sts @ [x]) (if es_total_duration s > es_total_duration x then x else s)"
proof -
  obtain i where i: "i < length sts" "s = sts ! i"
    and min: "\<forall>j < length sts. es_total_duration (sts ! i) \<le> es_total_duration (sts ! j)"
    and first: "\<forall>j < i. es_total_duration (sts ! i) < es_total_duration (sts ! j)"
    using assms by (auto simp: first_cheapest_def)
  show ?thesis
  proof (cases "es_total_duration s > es_total_duration x")
    case True
    with i min have "es_total_duration x < es_total_duration (sts ! j)" if "j < length sts" for j
      using that by (force intro: less_le_trans)
    with True show ?thesis
      unfolding first_cheapest_def by (intro exI [of _ "length sts"]) (auto simp: nth_append less_Suc_eq intro: less_imp_le)
  next
    case False
    with i min first show ?thesis
      unfolding first_cheapest_def by (intro exI [of _ i]) (auto simp: nth_append less_Suc_eq)
  qed
qed

lemma chosen_status_in: "chosen_status sts s \<Longrightarrow> sts \<noteq> [] \<Longrightarrow> s \<in> set sts"
  using after_zero_set [of sts] by (auto simp: chosen_status_def first_cheapest_def split: if_splits dest!: nth_mem)

lemma fold_select_chosen:
  assumes "\<forall>s \<in> set sts. 0 \<le> es_total_duration s" "sts \<noteq> []"
  shows "\<exists>s. fold select sts (b, 0) = (s, es_total_duration s) \<and> chosen_status sts s"
  using assms
proof (induction sts rule: rev_induct)
  case (snoc x sts)
  show ?case
  proof (cases "sts = []")
    case True
    then show ?thesis
      by (auto simp: select_def chosen_status_def after_zero_def first_cheapest_def)
  next
    case False
    with snoc obtain s where s: "fold select sts (b, 0) = (s, es_total_duration s)" "chosen_status sts s" by auto
    let ?t = "if es_total_duration s = 0 \<or> es_total_duration s > es_total_duration x then x else s"
    have run: "fold select (sts @ [x]) (b, 0) = (?t, es_total_duration ?t)" by (simp add: s select_def)
    have pos: "0 \<le> es_total_duration s" "0 \<le> es_total_duration x"
      using chosen_status_in [OF s(2) False] snoc.prems by auto
    have "chosen_status (sts @ [x]) ?t"
    proof (cases "after_zero sts = []")
      case True
      with s(2) have "s = last sts" by (simp add: chosen_status_def)
      with True False pos have "es_total_duration s = 0"
        by (cases sts rule: rev_cases) (auto simp: after_zero_snoc split: if_splits)
      with True pos show ?thesis by (auto simp: chosen_status_def after_zero_snoc first_cheapest_def)
    next
      case False
      with s(2) have c: "first_cheapest (after_zero sts) s" by (simp add: chosen_status_def)
      then have "s \<in> set (after_zero sts)" by (auto simp: first_cheapest_def)
      with after_zero_set [of sts] have "0 < es_total_duration s" by auto
      with first_cheapest_snoc [OF c, of x] pos show ?thesis
        by (auto simp: chosen_status_def after_zero_snoc split: if_splits)
    qed
    with run show ?thesis by blast
  qed
qed simp

text \<open>
  C5: when the executor returns, every allowed processor type has been tried in order. When all of
  them take time, a status of least duration is recorded. In general, for durations that are not
  negative, a type that takes no time loses against whichever type is tried after it, since a zero
  duration also means that nothing has been chosen yet: recorded is the first cheapest of the types tried
  after the last free one, and a free type only when it is tried last.
\<close>

theorem execution_records_cheapest:
  assumes "execution ram layer ts seqs info use_ram d = Inr (d', ts')" "li_processor_type info \<noteq> []"
  shows "\<exists>sts d1. run_types ram layer seqs info use_ram (li_processor_type info) ([], d, ts) = Inr (sts, d1, ts') \<and>
    length sts = length (li_processor_type info) \<and>
    ((\<forall>s \<in> set sts. 0 < es_total_duration s) \<longrightarrow>
      (\<exists>s \<in> set sts. dv_exec_status d' = s\<lparr>es_parallel_execution := li_parallel_execution info\<rparr> \<and>
        (\<forall>u \<in> set sts. es_total_duration s \<le> es_total_duration u))) \<and>
    ((\<forall>s \<in> set sts. 0 \<le> es_total_duration s) \<longrightarrow>
      (\<exists>s. dv_exec_status d' = s\<lparr>es_parallel_execution := li_parallel_execution info\<rparr> \<and>
        (if after_zero sts = [] then s = last sts else first_cheapest (after_zero sts) s)))"
proof -
  obtain best d1 where run: "rfold (execution_step ram layer seqs info use_ram) (li_processor_type info)
      ((ExecStatus_ctor, 0), d, ts) = Inr (best, d1, ts')"
    and d': "d' = setExecStatus ((fst best)\<lparr>es_parallel_execution := li_parallel_execution info\<rparr>) d1"
    using assms(1) by (auto simp: execution_def rbind_eq_Inr)
  obtain sts where sts: "run_types ram layer seqs info use_ram (li_processor_type info) ([], d, ts) = Inr (sts, d1, ts')"
    "length sts = length (li_processor_type info)" and best: "best = fold select sts (ExecStatus_ctor, 0)"
    using execution_run_types [OF run, of "[]"] by auto
  have ne: "sts \<noteq> []" using sts(2) assms(2) by auto
  have chosen: "\<exists>s. dv_exec_status d' = s\<lparr>es_parallel_execution := li_parallel_execution info\<rparr> \<and> chosen_status sts s"
    if "\<forall>s \<in> set sts. 0 \<le> es_total_duration s"
    using fold_select_chosen [OF that ne, of ExecStatus_ctor] by (auto simp: best d' setExecStatus_def)
  moreover have "\<exists>s \<in> set sts. dv_exec_status d' = s\<lparr>es_parallel_execution := li_parallel_execution info\<rparr> \<and>
      (\<forall>u \<in> set sts. es_total_duration s \<le> es_total_duration u)" if pos: "\<forall>s \<in> set sts. 0 < es_total_duration s"
  proof -
    obtain s where "dv_exec_status d' = s\<lparr>es_parallel_execution := li_parallel_execution info\<rparr>" "chosen_status sts s"
      using chosen pos by (auto intro: less_imp_le)
    then show ?thesis
      using after_zero_positive [OF pos] ne by (intro bexI [of _ s])
        (auto simp: chosen_status_def first_cheapest_def in_set_conv_nth)
  qed
  ultimately show ?thesis using sts by (auto simp: chosen_status_def)
qed

lemma tagged_processor:
  "rbind m (\<lambda>(es, d, ts). Inr (es\<lparr>es_processor_type := pt\<rparr>, d, ts)) = Inr (es', d', ts') \<Longrightarrow> es_processor_type es' = pt"
  by (cases m) auto

lemmas execute_defs = executeLinear_def executeBatchedLinear_def executeActivation_def executeAttentionGen_def
  executeAttentionSum_def executeAttentionMixed_def executeMultiLatentAttentionGen_def executeMultiLatentAttentionSum_def
  executeMultiLatentAttentionMixed_def executeAbsorbMLAGen_def executeAbsorbMLASum_def

text \<open>
  running any layer on one processor type never changes a cost already in the execution
  cache nor the configuration nor the number of tensors, and a type without an entry fails:
  \<^verbatim>\<open>NONE\<close> with an empty function, \<^verbatim>\<open>MAX\<close> out of range.
\<close>

theorem executePType_cache_stable:
  assumes "layer \<noteq> LT_MAX" "3 \<le> length ts"
  shows "(\<forall>es d' ts'. executePType ram layer pt d ts seqs info use_ram = Inr (es, d', ts') \<longrightarrow>
      dv_config d' = dv_config d \<and> length ts' = length ts \<and> es_processor_type es = pt \<and>
      (\<forall>key c. dv_cache d key = Some c \<longrightarrow> dv_cache d' key = Some c)) \<and>
    executePType ram layer PT_NONE d ts seqs info use_ram = Inl BadFunctionCall \<and>
    executePType ram layer PT_MAX d ts seqs info use_ram = Inl OutOfRange"
proof (intro conjI allI impI)
  fix es d' ts' key c
  assume run: "executePType ram layer pt d ts seqs info use_ram = Inr (es, d', ts')"
  note k = executePType_keeps [OF run]
  show "dv_config d' = dv_config d" "length ts' = length ts" using k by simp_all
  show "es_processor_type es = pt" using run unfolding executePType_def Let_def by (rule tagged_processor)
  assume "dv_cache d key = Some c"
  moreover have "dv_cache d \<subseteq>\<^sub>m dv_cache d'" using k by simp
  ultimately show "dv_cache d' key = Some c" by (rule map_le_Some [rotated])
next
  have at: "vec_at ts 0 = Inr (ts ! 0)" "vec_at ts 1 = Inr (ts ! 1)" "vec_at ts 2 = Inr (ts ! 2)"
    using assms(2) by (auto simp: vec_at_def)
  show "executePType ram layer PT_NONE d ts seqs info use_ram = Inl BadFunctionCall"
    "executePType ram layer PT_MAX d ts seqs info use_ram = Inl OutOfRange"
    using assms(1) by (cases layer; simp add: executePType_def execute_defs Let_def at table_at_def)+
qed

definition example_x :: tensor where
  "example_x = Tensor_ctor ''x'' [16, 4096] ''act'' (Some 0) 2 ALL_CHANNEL"

definition example_w :: tensor where
  "example_w = Tensor_ctor ''w'' [4096, 4096] ''weight'' (Some 0) 2 ALL_CHANNEL"

definition example_batch :: batched_sequence where
  "example_batch = BatchedSequence_Create 4 2"

lemma example_linear_runs:
  assumes "pt = GPU \<or> pt = LOGIC"
  shows "\<exists>es d'. executePType ram LINEAR pt d [example_x, example_w, example_x] seqs info False
    = Inr (es, d', [example_x, example_w, example_x])"
proof -
  have shapes: "t_shape example_x = [16, 4096]" "t_shape example_w = [4096, 4096]"
    by (simp_all add: example_x_def example_w_def Tensor_ctor_def)
  have "\<forall>d. \<exists>d' es. linear_function ram pt d example_x example_w example_x False = Inr (es, d')"
  proof (cases "pt = GPU")
    case True
    have "matmul_tensors example_x example_w 16 4096 4096"
      by (simp add: matmul_tensors_def example_x_def example_w_def Tensor_ctor_def)
    with True LinearExecutionGPU_returns show ?thesis by (simp add: linear_function_def) blast
  next
    case False
    with assms layer_body_returns show ?thesis
      by (simp add: linear_function_def LinearExecutionLogic_def shapes) blast
  qed
  with assms show ?thesis
    by (auto simp: executePType_def executeLinear_def Let_def vec_at_def table_at_def rbind_eq_Inr)
qed

theorem executePType_cache_stable_witness:
  "(\<exists>es d'. executePType example_ramulator LINEAR GPU example_device [example_x, example_w, example_x] example_batch
      LayerInfo_default False = Inr (es, d', [example_x, example_w, example_x]) \<and> dv_config d' = dv_config example_device) \<and>
    executePType example_ramulator LINEAR PT_MAX example_device [example_x, example_w, example_x] example_batch
      LayerInfo_default False = Inl OutOfRange"
  using executePType_cache_stable [of LINEAR "[example_x, example_w, example_x]" example_ramulator GPU
      example_device example_batch LayerInfo_default False]
    example_linear_runs [of GPU example_ramulator example_device example_batch LayerInfo_default]
  by auto

section \<open>Mixed batches\<close>

text \<open>
  the LOGIC entry of the mixed-attention table is a stub that costs nothing, and the executor
  believes it: when a layer may run on the GPU and on LOGIC, tried in that order, LOGIC is recorded with no time
  at all, although the GPU alone takes time.
\<close>

theorem mixed_attention_free_on_logic:
  assumes "execution ram ATTENTION_MIXED ts seqs (info\<lparr>li_processor_type := [GPU, LOGIC]\<rparr>) use_ram d = Inr (d', ts')"
    and "vec_at ts 0 = Inr input" "wf_mixed (bs_sequence seqs) info input" "wf_system (dv_config d)"
  shows "es_processor_type (dv_exec_status d') = LOGIC \<and> es_total_duration (dv_exec_status d') = 0 \<and>
    (\<exists>es d1. executePType ram ATTENTION_MIXED GPU d ts seqs (info\<lparr>li_processor_type := [GPU, LOGIC]\<rparr>) use_ram = Inr (es, d1, ts) \<and>
      0 < es_total_duration es)"
proof -
  let ?info = "info\<lparr>li_processor_type := [GPU, LOGIC]\<rparr>"
  let ?d = "setPIMHWConfig GPU 0 d"
  obtain e where gpu: "AttentionMixedExecutionGPU ?d ts seqs ?info use_ram = Inr (e, ?d, ts)"
    using assms(2) by (auto simp: AttentionMixedExecutionGPU_def Let_def)
  have pos: "0 < es_total_duration e"
    using mixed_GPU_takes_time [OF gpu assms(2)] assms(3,4) by (simp add: wf_mixed_def setPIMHWConfig_def)
  have g: "executePType ram ATTENTION_MIXED GPU d ts seqs ?info use_ram = Inr (e\<lparr>es_processor_type := GPU\<rparr>, ?d, ts)"
    using gpu by (simp add: executePType_def Let_def executeAttentionMixed_def table_at_def attention_mixed_function_def)
  have l: "executePType ram ATTENTION_MIXED LOGIC ?d ts seqs ?info use_ram =
      Inr (ExecStatus_ctor\<lparr>es_processor_type := LOGIC\<rparr>, setPIMHWConfig LOGIC (logic_x (dv_config ?d)) ?d, ts)"
    by (simp add: executePType_def Let_def executeAttentionMixed_def table_at_def attention_mixed_function_def
        AttentionMixedExecutionLogic_def)
  have "es_total_duration ExecStatus_ctor = 0" by (simp add: ExecStatus_ctor_def)
  with assms(1) pos have "dv_exec_status d' = ExecStatus_ctor\<lparr>es_processor_type := LOGIC, es_parallel_execution := li_parallel_execution info\<rparr>"
    by (auto simp: execution_def execution_step_eq g l select_def setExecStatus_def)
  then show ?thesis using g pos by (simp add: ExecStatus_ctor_def)
qed

theorem mixed_attention_free_on_logic_witness:
  "\<exists>d' ts'. execution example_ramulator ATTENTION_MIXED [example_tensor] decode_batch (decode_info\<lparr>li_processor_type := [GPU, LOGIC]\<rparr>) False
      example_device = Inr (d', ts') \<and> es_total_duration (dv_exec_status d') = 0"
proof -
  have w: "wf_mixed (bs_sequence decode_batch) decode_info example_tensor"
    by (simp add: wf_mixed_def decode_batch_def decode_info_def LayerInfo_default_def)
  have s: "wf_system (dv_config example_device)" by (simp add: example_device_facts)
  have "\<exists>d' ts'. execution example_ramulator ATTENTION_MIXED [example_tensor] decode_batch (decode_info\<lparr>li_processor_type := [GPU, LOGIC]\<rparr>) False
      example_device = Inr (d', ts')"
    by (simp add: execution_def execution_step_eq executePType_def Let_def executeAttentionMixed_def table_at_def
        attention_mixed_function_def AttentionMixedExecutionGPU_def AttentionMixedExecutionLogic_def vec_at_def)
  then obtain d' ts' where run: "execution example_ramulator ATTENTION_MIXED [example_tensor] decode_batch
      (decode_info\<lparr>li_processor_type := [GPU, LOGIC]\<rparr>) False example_device = Inr (d', ts')" by blast
  from mixed_attention_free_on_logic [OF run _ w s] run show ?thesis by (auto simp: vec_at_def)
qed

text \<open>
  A linear layer that takes time on the GPU and on LOGIC, and a mixed batch tried on the GPU, then on the
  free LOGIC entry, then on the GPU again.
\<close>

lemma layer_body_takes_time:
  assumes "layer_body ram False layer rates total_flops bytes input ts d = Inr (es, d')"
    and "dram_quiet d" "getSize input \<noteq> 0" "0 < fst rates" "0 < snd rates" "0 \<le> total_flops" "0 < bytes"
  shows "0 < es_total_duration es \<and> dram_quiet d' \<and> dv_config d' = dv_config d"
proof -
  have "0 < bytes / snd rates * 10 ^ 9" using assms(5,7) by simp
  moreover obtain es1 where "ideal_transfers ts (ExecStatus_ctor\<lparr>es_compute_duration := ns_of total_flops (fst rates),
      es_memory_duration := ns_of bytes (snd rates)\<rparr>, d) = (es1, d')"
    using assms(1,3) by (auto simp: layer_body_def memory_phase_def split: prod.splits)
  ultimately show ?thesis
    using layer_body_roofline [OF assms] ideal_transfers_facts [OF assms(2)] by auto
qed

lemma example_linear_takes_time:
  assumes "pt = GPU \<or> pt = LOGIC" "dram_quiet d" "dv_config d = dv_config example_device"
  shows "\<exists>es d'. executePType example_ramulator LINEAR pt d [example_x, example_w, example_x] seqs info False
    = Inr (es, d', [example_x, example_w, example_x]) \<and> 0 < es_total_duration es \<and> dram_quiet d' \<and>
      dv_config d' = dv_config example_device"
proof -
  let ?d = "setPIMHWConfig pt (if pt = GPU then 0 else logic_x (dv_config d)) d"
  have d: "dram_quiet ?d" "dv_config ?d = dv_config example_device"
    using assms(2,3) by (simp_all add: dram_quiet_def setPIMHWConfig_def)
  have mm: "matmul_tensors example_x example_w 16 4096 4096"
    by (simp add: matmul_tensors_def example_x_def example_w_def Tensor_ctor_def)
  have shapes: "t_shape example_x = [16, 4096]" "t_shape example_w = [4096, 4096]"
    using mm by (simp_all add: matmul_tensors_def)
  note pos = matmul_tensors_size [OF mm] matmul_positive [OF mm]
  have sys: "wf_system (dv_config ?d)" using example_device_facts(1) by (simp add: d(2))
  have body: "\<exists>es d'. layer_body example_ramulator False LINEAR rates (matmul_flops 16 4096 4096)
      (matmul_bytes 16 4096 4096 (t_precision_byte example_w)) example_x trs ?d = Inr (es, d') \<and>
      0 < es_total_duration es \<and> dram_quiet d' \<and> dv_config d' = dv_config example_device"
    if "0 < fst rates" "0 < snd rates" for rates trs
    using layer_body_returns [of example_ramulator LINEAR rates _ _ example_x trs ?d]
      layer_body_takes_time [OF _ d(1) pos(1) that pos(2,3), of example_ramulator LINEAR] d(2) by metis
  have "\<exists>es d'. linear_function example_ramulator pt ?d example_x example_w example_x False = Inr (es, d') \<and>
      0 < es_total_duration es \<and> dram_quiet d' \<and> dv_config d' = dv_config example_device"
  proof (cases "pt = GPU")
    case True
    obtain es d' where "layer_body example_ramulator False LINEAR (gpu_rates (dv_config ?d) example_x) (matmul_flops 16 4096 4096)
        (matmul_bytes 16 4096 4096 (t_precision_byte example_w)) example_x
        [((GPU, kRead, oDRAM), kRead, example_x), ((GPU, kRead, oDRAM), kRead, example_w), ((GPU, kWrite, oDRAM), kWrite, example_x)] ?d
        = Inr (es, d')" "0 < es_total_duration es" "dram_quiet d'" "dv_config d' = dv_config example_device"
      using body [OF rates_positive(1,2) [OF sys]] by blast
    with True show ?thesis
      by (simp add: linear_function_def LinearExecutionGPU_def shapes Let_def with_opb_def)
  next
    case False
    with assms(1) body [OF rates_positive(3,4) [OF sys], of example_x] show ?thesis
      by (simp add: linear_function_def LinearExecutionLogic_def shapes)
  qed
  then show ?thesis using assms(1)
    by (auto simp: executePType_def executeLinear_def Let_def vec_at_def table_at_def)
qed

lemma example_mixed_on_GPU:
  assumes "dv_config d = dv_config example_device"
  shows "\<exists>es. executePType example_ramulator ATTENTION_MIXED GPU d [example_tensor] decode_batch (decode_info\<lparr>li_processor_type := pts\<rparr>) False
    = Inr (es, setPIMHWConfig GPU 0 d, [example_tensor]) \<and> 0 < es_total_duration es"
proof -
  obtain e where gpu: "AttentionMixedExecutionGPU (setPIMHWConfig GPU 0 d) [example_tensor] decode_batch (decode_info\<lparr>li_processor_type := pts\<rparr>) False
      = Inr (e, setPIMHWConfig GPU 0 d, [example_tensor])"
    by (auto simp: AttentionMixedExecutionGPU_def Let_def vec_at_def)
  have "wf_mixed (bs_sequence decode_batch) (decode_info\<lparr>li_processor_type := pts\<rparr>) example_tensor"
    by (simp add: wf_mixed_def decode_batch_def decode_info_def LayerInfo_default_def)
  moreover have "wf_system (dv_config (setPIMHWConfig GPU 0 d))"
    using assms by (simp add: setPIMHWConfig_def example_device_facts)
  ultimately have "0 < es_total_duration e"
    using mixed_GPU_takes_time [OF gpu] by (simp add: vec_at_def)
  then show ?thesis
    using gpu by (simp add: executePType_def Let_def executeAttentionMixed_def table_at_def attention_mixed_function_def)
qed

lemma mixed_on_LOGIC:
  "executePType ram ATTENTION_MIXED LOGIC d ts seqs info use_ram =
    Inr (ExecStatus_ctor\<lparr>es_processor_type := LOGIC\<rparr>, setPIMHWConfig LOGIC (logic_x (dv_config d)) d, ts)"
  by (simp add: executePType_def Let_def executeAttentionMixed_def table_at_def attention_mixed_function_def
      AttentionMixedExecutionLogic_def)

theorem execution_records_cheapest_witness:
  "(\<exists>d' ts' s1 s2 d1. execution example_ramulator LINEAR [example_x, example_w, example_x] example_batch
      (LayerInfo_default\<lparr>li_processor_type := [GPU, LOGIC]\<rparr>) False example_device = Inr (d', ts') \<and>
    run_types example_ramulator LINEAR example_batch (LayerInfo_default\<lparr>li_processor_type := [GPU, LOGIC]\<rparr>)
      False [GPU, LOGIC] ([], example_device, [example_x, example_w, example_x]) = Inr ([s1, s2], d1, ts') \<and>
    0 < es_total_duration s1 \<and> 0 < es_total_duration s2 \<and>
    es_total_duration (dv_exec_status d') = min (es_total_duration s1) (es_total_duration s2)) \<and>
   (\<exists>d' ts' s1 s2 s3 d1. execution example_ramulator ATTENTION_MIXED [example_tensor] decode_batch
      (decode_info\<lparr>li_processor_type := [GPU, LOGIC, GPU]\<rparr>) False example_device = Inr (d', ts') \<and>
    run_types example_ramulator ATTENTION_MIXED decode_batch (decode_info\<lparr>li_processor_type := [GPU, LOGIC, GPU]\<rparr>) False
      [GPU, LOGIC, GPU] ([], example_device, [example_tensor]) = Inr ([s1, s2, s3], d1, ts') \<and>
    0 < es_total_duration s1 \<and> es_total_duration s2 = 0 \<and> 0 < es_total_duration s3 \<and>
    dv_exec_status d' = s3\<lparr>es_parallel_execution := False\<rparr>)"
proof
  let ?info = "LayerInfo_default\<lparr>li_processor_type := [GPU, LOGIC]\<rparr>" and ?ts = "[example_x, example_w, example_x]"
  obtain e1 d1 where r1: "executePType example_ramulator LINEAR GPU example_device ?ts example_batch ?info False = Inr (e1, d1, ?ts)"
    and p1: "0 < es_total_duration e1" "dram_quiet d1" "dv_config d1 = dv_config example_device"
    using example_linear_takes_time example_device_facts(2) by blast
  obtain e2 d2 where r2: "executePType example_ramulator LINEAR LOGIC d1 ?ts example_batch ?info False = Inr (e2, d2, ?ts)"
    and p2: "0 < es_total_duration e2"
    using example_linear_takes_time [OF _ p1(2,3)] by blast
  have types: "run_types example_ramulator LINEAR example_batch ?info False [GPU, LOGIC] ([], example_device, ?ts) = Inr ([e1, e2], d2, ?ts)"
    by (simp add: run_types_def r1 r2)
  obtain d' ts' where run: "execution example_ramulator LINEAR ?ts example_batch ?info False example_device = Inr (d', ts')"
    by (simp add: execution_def execution_step_def r1 r2)
  obtain s where s: "s \<in> {e1, e2}" "dv_exec_status d' = s\<lparr>es_parallel_execution := False\<rparr>"
      "\<forall>u \<in> {e1, e2}. es_total_duration s \<le> es_total_duration u" and "ts' = ?ts"
    using execution_records_cheapest [OF run] types p1(1) p2 by (fastforce simp: LayerInfo_default_def)
  moreover have "es_total_duration (dv_exec_status d') = min (es_total_duration e1) (es_total_duration e2)"
    using s by (auto simp: min_def)
  ultimately show "\<exists>d' ts' s1 s2 d1. execution example_ramulator LINEAR ?ts example_batch ?info False example_device = Inr (d', ts') \<and>
    run_types example_ramulator LINEAR example_batch ?info False [GPU, LOGIC] ([], example_device, ?ts) = Inr ([s1, s2], d1, ts') \<and>
    0 < es_total_duration s1 \<and> 0 < es_total_duration s2 \<and>
    es_total_duration (dv_exec_status d') = min (es_total_duration s1) (es_total_duration s2)"
    using run types p1(1) p2 by blast
next
  let ?pts = "[GPU, LOGIC, GPU]"
  let ?info = "decode_info\<lparr>li_processor_type := ?pts\<rparr>" and ?ts = "[example_tensor]"
  let ?d1 = "setPIMHWConfig GPU 0 example_device"
  let ?d2 = "setPIMHWConfig LOGIC (logic_x (dv_config ?d1)) ?d1"
  obtain e1 where r1: "executePType example_ramulator ATTENTION_MIXED GPU example_device ?ts decode_batch ?info False = Inr (e1, ?d1, ?ts)"
    and p1: "0 < es_total_duration e1" using example_mixed_on_GPU by blast
  have "dv_config ?d2 = dv_config example_device" by (simp add: setPIMHWConfig_def)
  then obtain e3 where r3: "executePType example_ramulator ATTENTION_MIXED GPU ?d2 ?ts decode_batch ?info False
      = Inr (e3, setPIMHWConfig GPU 0 ?d2, ?ts)" and p3: "0 < es_total_duration e3" using example_mixed_on_GPU by blast
  define e2 where "e2 = ExecStatus_ctor\<lparr>es_processor_type := LOGIC\<rparr>"
  have r2: "executePType example_ramulator ATTENTION_MIXED LOGIC ?d1 ?ts decode_batch ?info False = Inr (e2, ?d2, ?ts)"
    by (simp add: mixed_on_LOGIC e2_def)
  have z: "es_total_duration e2 = 0" by (simp add: e2_def ExecStatus_ctor_def)
  have types: "run_types example_ramulator ATTENTION_MIXED decode_batch ?info False ?pts ([], example_device, ?ts)
      = Inr ([e1, e2, e3], setPIMHWConfig GPU 0 ?d2, ?ts)"
    by (simp add: run_types_def r1 r2 r3)
  obtain d' ts' where run: "execution example_ramulator ATTENTION_MIXED ?ts decode_batch ?info False example_device = Inr (d', ts')"
    by (simp add: execution_def execution_step_def r1 r2 r3)
  have tail: "after_zero [e1, e2, e3] = [e3]" using z p3 by (simp add: after_zero_def)
  from execution_records_cheapest [OF run] types p1 z p3 tail have "ts' = ?ts"
    "dv_exec_status d' = e3\<lparr>es_parallel_execution := False\<rparr>"
    by (auto simp: first_cheapest_def decode_info_def LayerInfo_default_def)
  with run types p1 z p3 show "\<exists>d' ts' s1 s2 s3 d1. execution example_ramulator ATTENTION_MIXED ?ts decode_batch ?info False example_device = Inr (d', ts') \<and>
    run_types example_ramulator ATTENTION_MIXED decode_batch ?info False ?pts ([], example_device, ?ts) = Inr ([s1, s2, s3], d1, ts') \<and>
    0 < es_total_duration s1 \<and> es_total_duration s2 = 0 \<and> 0 < es_total_duration s3 \<and>
    dv_exec_status d' = s3\<lparr>es_parallel_execution := False\<rparr>" by blast
qed

end
