(* ===== verification/Leaf_Modules.thy ===== *)
theory Leaf_Modules
  imports Executor_Model
begin

text \<open>
  Leaf modules that only compute: \<^verbatim>\<open>src/module/linear.cpp\<close>,
  \<^verbatim>\<open>layernorm.cpp\<close> and \<^verbatim>\<open>residual.cpp\<close>. A leaf
  works on its own tensor table and its device; it returns its output, the address controller, the
  table and the device. The attention functions the executor may call stay parameters.
\<close>

type_synonym leaf_result = "(tensor \<times> mmap_ctl \<times> (string \<times> tensor) list \<times> device) res"

section \<open>Clocks\<close>

text \<open>Time a leaf adds itself: to the clock of its side when it runs in parallel, and to the device clock.\<close>

definition add_side_time :: "tensor \<Rightarrow> real \<Rightarrow> status_board \<Rightarrow> status_board" where
  "add_side_time input time st =
     (if isPerformHigh input then st\<lparr>sb_high_time := sb_high_time st + time\<rparr>
      else st\<lparr>sb_low_time := sb_low_time st + time\<rparr>)"

definition add_leaf_time :: "bool \<Rightarrow> tensor \<Rightarrow> real \<Rightarrow> device \<Rightarrow> device" where
  "add_leaf_time on_side input time d =
     (let st = (if on_side then add_side_time input time (dv_status d) else dv_status d)
      in d\<lparr>dv_status := st\<lparr>sb_device_time := sb_device_time st + time\<rparr>\<rparr>)"

lemma add_leaf_time_clocks:
  "sb_device_time (dv_status (add_leaf_time s input time d)) = sb_device_time (dv_status d) + time"
  "sb_high_time (dv_status (add_leaf_time s input time d)) =
     sb_high_time (dv_status d) + (if s \<and> isPerformHigh input then time else 0)"
  "sb_low_time (dv_status (add_leaf_time s input time d)) =
     sb_low_time (dv_status d) + (if s \<and> \<not> isPerformHigh input then time else 0)"
  by (simp_all add: add_leaf_time_def add_side_time_def Let_def)

section \<open>Elementwise layers\<close>

definition elementwise_time :: "system_config \<Rightarrow> real \<Rightarrow> real \<Rightarrow> real" where
  "elementwise_time c flops memory_size =
     max (ns_of flops (compute_peak_flops c)) (ns_of memory_size (memory_bandwidth c))"

definition LayerNorm_forward :: "tensor \<Rightarrow> mmap_ctl \<Rightarrow> (string \<times> tensor) list \<Rightarrow> device \<Rightarrow> leaf_result" where
  "LayerNorm_forward input ctl tbl d =
     rbind (vec_ix (t_shape input) 0) (\<lambda>m. rbind (vec_ix (t_shape input) 1) (\<lambda>k.
     rbind (case map_of tbl ''layer_norm_weight'' of None \<Rightarrow> Inl OutOfRange | Some w \<Rightarrow> Inr w) (\<lambda>w.
     rbind (get_activation ctl tbl ''layer_norm_output'' (t_shape input) True) (\<lambda>(ctl, tbl, output).
     rbind (vec_ix (t_shape w) 0) (\<lambda>kw.
     rbind (assertTrue (k = kw) ''input shape doesn't match with layer norm weight (= hidden dim)'') (\<lambda>_.
     if getSize input = 0 then Inr (output, ctl, tbl, d)
     else let flops = 4 * of_int m * of_int k;
              memory_size = (2 * of_int m * of_int k + of_int k) * of_int (t_precision_byte input)
          in Inr (output, ctl, tbl, add_leaf_time (t_parallel_execution input) input
               (elementwise_time (dv_config d) flops memory_size) d)))))))"

definition Residual_forward :: "tensor \<Rightarrow> mmap_ctl \<Rightarrow> (string \<times> tensor) list \<Rightarrow> device \<Rightarrow> leaf_result" where
  "Residual_forward input ctl tbl d =
     rbind (vec_ix (t_shape input) 0) (\<lambda>m. rbind (vec_ix (t_shape input) 1) (\<lambda>k.
     rbind (get_activation ctl tbl ''residual_out'' (t_shape input) True) (\<lambda>(ctl, tbl, output).
     if getSize input = 0 then Inr (output, ctl, tbl, d)
     else let flops = of_int (m * k);
              memory_size = 3 * of_int m * of_int k * of_int (t_precision_byte input)
          in Inr (output, ctl, tbl, add_leaf_time (t_parallel_execution input) input
               (elementwise_time (dv_config d) flops memory_size) d))))"

section \<open>Linear layers\<close>

text \<open>Which processors may run the layer, and the mark the output takes from the input.\<close>

definition linear_info :: "system_config \<Rightarrow> tensor \<Rightarrow> layer_info" where
  "linear_info c input =
     (let info = LayerInfo_default\<lparr>li_processor_type := processor_type c\<rparr> in
      if t_parallel_execution input then
        info\<lparr>li_parallel_execution := True,
          li_processor_type := [if isPerformHigh input then high_processor_type c else low_processor_type c]\<rparr>
      else if hetero_subbatch c then info\<lparr>li_processor_type := [high_processor_type c]\<rparr>
      else if length (processor_type c) \<noteq> 1 \<and> \<not> t_perform_with_optimal input
      then info\<lparr>li_processor_type := [high_processor_type c]\<rparr>
      else info)"

definition pass_side :: "tensor \<Rightarrow> tensor \<Rightarrow> tensor" where
  "pass_side input output = (if t_parallel_execution input
     then (if isPerformHigh input then setPerformHigh output else setPerformLow output) else output)"

definition dimension_message :: "string \<Rightarrow> int \<Rightarrow> int \<Rightarrow> string" where
  "dimension_message module_map_name expected got =
     module_map_name @ '': Dimension of input tensor for Linear is not matched, expected '' @
       to_string expected @ '' but '' @ to_string got"

definition Linear_forward ::
  "ramulator \<Rightarrow> string \<Rightarrow> batched_sequence \<Rightarrow> tensor \<Rightarrow>
     mmap_ctl \<Rightarrow> (string \<times> tensor) list \<Rightarrow> device \<Rightarrow> leaf_result" where
  "Linear_forward ram module_map_name seqs input ctl tbl d =
     rbind (case map_of tbl ''A'' of None \<Rightarrow> Inl OutOfRange | Some a \<Rightarrow> Inr a) (\<lambda>A.
     rbind (vec_ix (t_shape input) 0) (\<lambda>m. rbind (vec_ix (t_shape input) 1) (\<lambda>k.
     rbind (vec_ix (t_shape A) 1) (\<lambda>n. rbind (vec_ix (t_shape A) 0) (\<lambda>ka.
     rbind (assertTrue (k = ka) (dimension_message module_map_name ka k)) (\<lambda>_.
     rbind (get_activation ctl tbl ''Y'' [m, n] True) (\<lambda>(ctl, tbl, output).
     let output = pass_side input (output\<lparr>t_perform_with_optimal := t_perform_with_optimal input\<rparr>);
         tbl = AList.update ''Y'' output tbl
     in rbind (device_execution ram LINEAR [input, A, output] seqs (linear_info (dv_config d) input) d) (\<lambda>(d, _).
     Inr (output, ctl, tbl, d)))))))))"

text \<open>
  \<^verbatim>\<open>BatchedLinear::forward\<close>: as one batched product of three-dimensional tensors, whose
  output every head gets, or as a plain product over the concatenated heads. Heterogeneous
  sub-batches are not looked at here.
\<close>

definition batched_info :: "bool \<Rightarrow> system_config \<Rightarrow> tensor \<Rightarrow> layer_info" where
  "batched_info dup c input =
     (let info = LayerInfo_default\<lparr>li_processor_type := processor_type c, li_duplicated_input := dup\<rparr> in
      if t_parallel_execution input then
        info\<lparr>li_parallel_execution := True,
          li_processor_type := [if isPerformHigh input then high_processor_type c else low_processor_type c]\<rparr>
      else if length (processor_type c) \<noteq> 1 \<and> \<not> t_perform_with_optimal input
      then info\<lparr>li_processor_type := [high_processor_type c]\<rparr>
      else info)"

definition BatchedLinear_forward ::
  "ramulator \<Rightarrow> string \<Rightarrow> bool \<Rightarrow> bool \<Rightarrow> batched_sequence \<Rightarrow> tensor list \<Rightarrow>
     mmap_ctl \<Rightarrow> (string \<times> tensor) list \<Rightarrow> device \<Rightarrow> (tensor list \<times> mmap_ctl \<times> (string \<times> tensor) list \<times> device) res" where
  "BatchedLinear_forward ram module_map_name dup use_plain seqs inputs ctl tbl d =
     rbind (case map_of tbl ''weight'' of None \<Rightarrow> Inl OutOfRange | Some w \<Rightarrow> Inr w) (\<lambda>weight.
     rbind (vec_ix inputs 0) (\<lambda>input.
     rbind (vec_ix (t_shape input) 0) (\<lambda>m. rbind (vec_ix (t_shape input) 1) (\<lambda>k.
     if \<not> use_plain then
       (let heads = int (length inputs) in
        rbind (vec_ix (t_shape weight) 2) (\<lambda>n.
        rbind (get_activation ctl tbl ''batched_linear_input'' [heads, m, k] True) (\<lambda>(ctl, tbl, x).
        rbind (get_activation ctl tbl ''batched_linear_output'' [heads, m, n] True) (\<lambda>(ctl, tbl, y).
        rbind (vec_ix (t_shape weight) 1) (\<lambda>kw.
        rbind (assertTrue (k = kw) (dimension_message module_map_name kw k)) (\<lambda>_.
        rbind (get_activation ctl tbl ''output'' [m, n] True) (\<lambda>(ctl, tbl, output).
        let output = pass_side input output; tbl = AList.update ''output'' output tbl
        in rbind (device_execution ram BATCHED_LINEAR [x, weight, y] seqs (batched_info dup (dv_config d) input) d)
          (\<lambda>(d, ts). Inr (replicate (length inputs) output, ctl,
             AList.update ''batched_linear_output'' (ts ! 2) (AList.update ''batched_linear_input'' (ts ! 0)
               (AList.update ''weight'' (ts ! 1) tbl)), d)))))))))
     else
       (let col = k * int (length inputs) in
        rbind (vec_ix (t_shape weight) 0) (\<lambda>weight_row. rbind (vec_ix (t_shape weight) 1) (\<lambda>weight_col.
        rbind (get_activation ctl tbl ''plain_linear_input'' [m, col] True) (\<lambda>(ctl, tbl, x).
        rbind (get_activation ctl tbl ''plain_linear_output'' [m, weight_col] True) (\<lambda>(ctl, tbl, y).
        rbind (assertTrue (col = weight_row) (dimension_message module_map_name weight_row col)) (\<lambda>_.
        let y = pass_side input y; tbl = AList.update ''plain_linear_output'' y tbl
        in rbind (device_execution ram LINEAR [x, weight, y] seqs (batched_info dup (dv_config d) input) d)
          (\<lambda>(d, _). Inr ([y], ctl, tbl, d))))))))))))"

section \<open>A layer runs where its input is marked\<close>

lemma execution_single:
  assumes "execution ram layer ts seqs info use_ram d = Inr (d', ts')" "li_processor_type info = [pt]"
  shows "es_processor_type (dv_exec_status d') = pt \<and>
    es_parallel_execution (dv_exec_status d') = li_parallel_execution info"
proof -
  obtain es d1 where one: "executePType ram layer pt d ts seqs info use_ram = Inr (es, d1, ts')"
    and d': "d' = setExecStatus (es\<lparr>es_parallel_execution := li_parallel_execution info\<rparr>) d1"
    using assms by (auto simp: execution_def execution_step_eq rbind_eq_Inr select_def)
  have "es_processor_type es = pt" using one unfolding executePType_def Let_def by (rule tagged_processor)
  then show ?thesis by (simp add: d' setExecStatus_def)
qed

lemma get_activation_keeps_shape: "get_activation ctl tbl nm shp r = Inr (ctl', tbl', t) \<Longrightarrow> t_shape t = shp"
  by (auto simp: get_activation_def rbind_eq_Inr tensor_setMemoryObject_def ctl_setMemoryObject_def setNormal_def
      tensor_set_def Let_def fail_def split: option.splits if_splits)

lemma pass_side_facts:
  "t_shape (pass_side x y) = t_shape y"
  "t_parallel_execution x \<Longrightarrow> t_parallel_execution (pass_side x y) \<and> isPerformHigh (pass_side x y) = isPerformHigh x"
  "t_perform_with_optimal (pass_side x y) = t_perform_with_optimal y"
  by (auto simp: pass_side_def setPerformHigh_def setPerformLow_def isPerformHigh_def)

lemma Linear_forward_parts:
  assumes "Linear_forward ram nm seqs input ctl tbl d = Inr (output, ctl', tbl', d')"
  shows "\<exists>A m k n y ctl1 tbl1 ts. map_of tbl ''A'' = Some A \<and> vec_ix (t_shape input) 0 = Inr m \<and> vec_ix (t_shape input) 1 = Inr k \<and>
    vec_ix (t_shape A) 0 = Inr k \<and> vec_ix (t_shape A) 1 = Inr n \<and> get_activation ctl tbl ''Y'' [m, n] True = Inr (ctl1, tbl1, y) \<and>
    output = pass_side input (y\<lparr>t_perform_with_optimal := t_perform_with_optimal input\<rparr>) \<and>
    device_execution ram LINEAR [input, A, output] seqs (linear_info (dv_config d) input) d = Inr (d', ts)"
  using assms by (auto simp: Linear_forward_def rbind_eq_Inr Let_def split: option.splits)

text \<open>
  a linear layer that returns matched its dimensions; its output has the rows of the input
  and the columns of the weight and keeps the marks of the input; an input marked for a side is executed
  on exactly the processor configured for that side.
\<close>

theorem Linear_forward_side:
  assumes "Linear_forward ram nm seqs input ctl tbl d = Inr (output, ctl', tbl', d')"
  shows "(\<exists>A m k n. map_of tbl ''A'' = Some A \<and> vec_ix (t_shape input) 0 = Inr m \<and> vec_ix (t_shape input) 1 = Inr k \<and>
      vec_ix (t_shape A) 0 = Inr k \<and> vec_ix (t_shape A) 1 = Inr n \<and> t_shape output = [m, n]) \<and>
    t_perform_with_optimal output = t_perform_with_optimal input \<and>
    (t_parallel_execution input \<longrightarrow> t_parallel_execution output \<and> isPerformHigh output = isPerformHigh input) \<and>
    (t_parallel_execution input \<and> dv_perform_execution d \<longrightarrow> es_parallel_execution (dv_exec_status d') \<and>
      es_processor_type (dv_exec_status d') =
        (if isPerformHigh input then high_processor_type (dv_config d) else low_processor_type (dv_config d)))"
proof -
  obtain A m k n y ctl1 tbl1 ts where p: "map_of tbl ''A'' = Some A" "vec_ix (t_shape input) 0 = Inr m"
    "vec_ix (t_shape input) 1 = Inr k" "vec_ix (t_shape A) 0 = Inr k" "vec_ix (t_shape A) 1 = Inr n"
    and y: "get_activation ctl tbl ''Y'' [m, n] True = Inr (ctl1, tbl1, y)"
    and out: "output = pass_side input (y\<lparr>t_perform_with_optimal := t_perform_with_optimal input\<rparr>)"
    and ex: "device_execution ram LINEAR [input, A, output] seqs (linear_info (dv_config d) input) d = Inr (d', ts)"
    using Linear_forward_parts [OF assms] by blast
  have "t_shape output = [m, n]" using get_activation_keeps_shape [OF y] by (simp add: out pass_side_facts)
  moreover have "es_parallel_execution (dv_exec_status d') \<and> es_processor_type (dv_exec_status d') =
      (if isPerformHigh input then high_processor_type (dv_config d) else low_processor_type (dv_config d))"
    if "t_parallel_execution input" "dv_perform_execution d"
    using ex execution_single [of ram LINEAR "[input, A, output]" seqs "linear_info (dv_config d) input"] that
    by (simp add: device_execution_def linear_info_def Let_def)
  ultimately show ?thesis using p by (auto simp: out pass_side_facts)
qed

definition linear_table :: "(string \<times> tensor) list" where
  "linear_table = [(''A'', Tensor_ctor ''A'' [4096, 4096] ''weight'' (Some 0) 2 ALL_CHANNEL),
     (''Y'', Tensor_ctor ''Y'' [1, 1] ''act'' (Some 0) 2 ALL_CHANNEL)]"

definition linear_input :: tensor where
  "linear_input = setPerformHigh (Tensor_ctor ''x'' [16, 4096] ''act'' (Some 0) 2 ALL_CHANNEL)"

lemma linear_example:
  "\<exists>output ctl' tbl' d'. Linear_forward example_ramulator ''fc'' (BatchedSequence_Create 8 2) linear_input
     (MMapController_ctor hbm3_80GB) linear_table (setPerformExecution True example_device) = Inr (output, ctl', tbl', d')"
proof -
  let ?d = "setPerformExecution True example_device" and ?x = linear_input
  let ?w = "Tensor_ctor ''A'' [4096, 4096] ''weight'' (Some 0) 2 ALL_CHANNEL"
  have c: "dv_config ?d = H100" "dv_perform_execution ?d" "use_ramulator H100 = False" "high_processor_type H100 = GPU"
    by (simp_all add: setPerformExecution_def example_device_def Device_ctor_def device_memory_def H100_def SystemConfig_ctor_def)
  have info: "li_processor_type (linear_info H100 ?x) = [GPU]"
    by (simp add: linear_info_def linear_input_def setPerformHigh_def isPerformHigh_def c Let_def)
  have mm: "matmul_tensors ?x ?w 16 4096 4096" by (simp add: matmul_tensors_def linear_input_def setPerformHigh_def Tensor_ctor_def)
  have run: "\<exists>d' ts. device_execution example_ramulator LINEAR [?x, ?w, y] (BatchedSequence_Create 8 2) (linear_info H100 ?x) ?d
      = Inr (d', ts)" for y
  proof -
    obtain es d1 where "LinearExecutionGPU example_ramulator (setPIMHWConfig GPU 0 (resetCounter ?d)) ?x ?w y False = Inr (es, d1)"
      using LinearExecutionGPU_returns [OF mm] by blast
    then show ?thesis
      by (simp add: device_execution_def c info execution_def execution_step_eq executePType_def executeLinear_def
          vec_at_def table_at_def linear_function_def Let_def resetCounter_def)
  qed
  obtain ctl1 tbl1 y where y: "get_activation (MMapController_ctor hbm3_80GB) linear_table ''Y'' [16, 4096] True = Inr (ctl1, tbl1, y)"
    by (simp add: get_activation_def linear_table_def Tensor_ctor_def tensor_setMemoryObject_def assertFalse_def
        ctl_setMemoryObject_def setNormal_def tensor_set_def Let_def)
  have shp: "t_shape ?x = [16, 4096]" "t_shape ?w = [4096, 4096]" "map_of linear_table ''A'' = Some ?w"
    by (simp_all add: linear_input_def setPerformHigh_def Tensor_ctor_def linear_table_def)
  obtain d' ts where "device_execution example_ramulator LINEAR
      [?x, ?w, pass_side ?x (y\<lparr>t_perform_with_optimal := t_perform_with_optimal ?x\<rparr>)] (BatchedSequence_Create 8 2) (linear_info H100 ?x) ?d
      = Inr (d', ts)" using run by blast
  then show ?thesis by (simp add: Linear_forward_def shp vec_ix_def y c Let_def)
qed

theorem Linear_forward_side_witness:
  "\<exists>output ctl' tbl' d'. Linear_forward example_ramulator ''fc'' (BatchedSequence_Create 8 2) linear_input
     (MMapController_ctor hbm3_80GB) linear_table (setPerformExecution True example_device) = Inr (output, ctl', tbl', d') \<and>
   t_shape output = [16, 4096] \<and> isPerformHigh output \<and> es_processor_type (dv_exec_status d') = GPU"
proof -
  obtain outp ctl' tbl' d' where run: "Linear_forward example_ramulator ''fc'' (BatchedSequence_Create 8 2) linear_input
     (MMapController_ctor hbm3_80GB) linear_table (setPerformExecution True example_device) = Inr (outp, ctl', tbl', d')"
    using linear_example by blast
  have c: "high_processor_type (dv_config (setPerformExecution True example_device)) = GPU"
    "dv_perform_execution (setPerformExecution True example_device)"
    by (simp_all add: setPerformExecution_def example_device_def Device_ctor_def device_memory_def H100_def SystemConfig_ctor_def)
  have x: "t_parallel_execution linear_input" "isPerformHigh linear_input" "t_shape linear_input = [16, 4096]"
    by (simp_all add: linear_input_def setPerformHigh_def isPerformHigh_def Tensor_ctor_def)
  from Linear_forward_side [OF run] c x run show ?thesis
    by (auto simp: linear_table_def Tensor_ctor_def vec_ix_Inr_iff)
qed

end
