(* ===== verification/Batch_Scheduler.thy ===== *)
theory Batch_Scheduler
  imports Batch_Sequence "HOL-Library.Multiset"
begin

text \<open>
  Continuous batching: \<^verbatim>\<open>src/scheduler/scheduler.h\<close> and
  \<^verbatim>\<open>scheduler.cpp\<close>. Statics of the code (\<^verbatim>\<open>Sequence::count_id\<close>,
  the rotation of \<^verbatim>\<open>fillRunningQueue\<close>) are fields of the scheduler. The list that
  \<^verbatim>\<open>updateScheduler\<close> returns holds the sequences as they are when the function
  returns. The traces and the arrival
  times are fields here; \<^theory_text>\<open>Trace_Loader\<close> fills them from a trace file and from the draws
  of the generator.
\<close>

section \<open>State\<close>

record scheduler =
  sch_total_seq_num :: int
  sch_total_time :: real
  sch_total_batch_size :: int
  sch_batch_size_per_dp :: int
  sch_num_max_batched_token :: int
  sch_max_process_token :: int
  sch_dp_degree :: int
  sch_real_data :: bool
  sch_sequence_queue :: "sequence list"
  sch_running_queue :: "batched_sequence list"
  sch_actual_arrival_time :: "real list"
  sch_cur_arrival_time_idx :: int
  sch_system_config :: system_config
  sch_model_config :: model_config
  sch_sequences_info :: "sequence_info list"
  sch_disagg_system :: bool
  sch_count_id :: int
  sch_rotate :: nat
  sch_rng :: rng

text \<open>\<^verbatim>\<open>initRunningQueue\<close>: one batch per data-parallel rank.\<close>

definition initRunningQueue :: "scheduler \<Rightarrow> scheduler" where
  "initRunningQueue s = s\<lparr>sch_running_queue :=
     map (\<lambda>_. BatchedSequence_Create (num_routed_expert (sch_model_config s)) (top_k (sch_model_config s)))
       (irange 0 (sch_dp_degree s))\<rparr>"

definition Scheduler_ctor ::
  "system_config \<Rightarrow> model_config \<Rightarrow> bool \<Rightarrow> sequence_info list \<Rightarrow> int \<Rightarrow> int \<Rightarrow> int \<Rightarrow> int \<Rightarrow> rng \<Rightarrow> scheduler" where
  "Scheduler_ctor sc m real_trace infos total_seq batch_size max_batched max_process g =
     (let dp = cdiv (num_device sc * num_node sc) (ne_tp_dg m) in
      initRunningQueue \<lparr>sch_total_seq_num = total_seq, sch_total_time = 0, sch_total_batch_size = batch_size,
        sch_batch_size_per_dp = cdiv batch_size dp, sch_num_max_batched_token = max_batched,
        sch_max_process_token = max_process, sch_dp_degree = dp, sch_real_data = real_trace,
        sch_sequence_queue = [], sch_running_queue = [], sch_actual_arrival_time = [],
        sch_cur_arrival_time_idx = 0, sch_system_config = sc, sch_model_config = m,
        sch_sequences_info = infos, sch_disagg_system = disagg_system sc, sch_count_id = 0,
        sch_rotate = 0, sch_rng = g\<rparr>)"

definition scheduler_clear :: "scheduler \<Rightarrow> scheduler" where
  "scheduler_clear s = s\<lparr>sch_sequence_queue := [], sch_running_queue := []\<rparr>"

section \<open>Queries\<close>

definition hasSumSeq :: "scheduler \<Rightarrow> bool" where
  "hasSumSeq s \<longleftrightarrow> list_ex (\<lambda>b. get_sum b \<noteq> []) (sch_running_queue s)"

definition getAllMetadata :: "scheduler \<Rightarrow> batched_sequence list" where
  "getAllMetadata s = sch_running_queue s"

definition getMetadata :: "scheduler \<Rightarrow> int \<Rightarrow> batched_sequence res" where
  "getMetadata s dp_rank = vec_at (sch_running_queue s) dp_rank"

definition getBatchSize :: "scheduler \<Rightarrow> int" where
  "getBatchSize s = fold (\<lambda>b n. n + get_num_seq b) (sch_running_queue s) 0"

definition getSumSize :: "scheduler \<Rightarrow> int" where
  "getSumSize s = fold (\<lambda>b n. n + int (length (filter (\<lambda>q. sq_num_process_token q \<noteq> 0) (get_sum b))))
     (sch_running_queue s) 0"

definition getGenSize :: "scheduler \<Rightarrow> int" where
  "getGenSize s = fold (\<lambda>b n. n + int (length (filter (\<lambda>q. sq_num_process_token q \<noteq> 0) (get_gen b))))
     (sch_running_queue s) 0"

definition getAverageSeqlen :: "scheduler \<Rightarrow> int" where
  "getAverageSeqlen s =
     (let len = fold (\<lambda>b n. n + get_total_sequence_length b) (sch_running_queue s) 0;
          total_batch = getBatchSize s
      in if total_batch \<noteq> 0 then cdiv len total_batch else 0)"

definition getNumProcessToken :: "scheduler \<Rightarrow> int" where
  "getNumProcessToken s = fold (\<lambda>b n. n + get_process_token b) (sch_running_queue s) 0"

text \<open>
  The largest batch. \<^verbatim>\<open>Create(seq_len, seq_len)\<close> passes the length as the expert
  sequence number and as the input length; the output length is the default 256.
\<close>

definition getMaxMetadata :: "int \<Rightarrow> int \<Rightarrow> scheduler \<Rightarrow> (batched_sequence \<times> scheduler) res" where
  "getMaxMetadata num_expert k s =
     (let seq_len = cdiv (sch_num_max_batched_token s) (sch_batch_size_per_dp s) in
      rbind (rfold (\<lambda>_ (count_id, b).
               rbind (Sequence_Create count_id seq_len seq_len 256) (\<lambda>(q, count_id).
               Inr (count_id, bs_add (q\<lparr>sq_num_process_token := seq_len\<rparr>) b)))
             (irange 0 (sch_batch_size_per_dp s)) (sch_count_id s, BatchedSequence_Create num_expert k))
        (\<lambda>(count_id, b). Inr (b, s\<lparr>sch_count_id := count_id\<rparr>)))"

section \<open>Choosing the tokens of an iteration\<close>

text \<open>
  \<^verbatim>\<open>setMetadata\<close>: which stages run, then per batch one token per ready generating
  sequence and an equal share of \<^verbatim>\<open>max_process_token\<close> per prompt. The remaining budget
  \<^verbatim>\<open>process_token\<close> the code computes between the two is not used.
\<close>

definition stages :: "scheduler \<Rightarrow> bool \<times> bool" where
  "stages s = (if \<not> sch_disagg_system s then (if hasSumSeq s then (False, True) else (True, False))
     else (True, True))"

definition gen_tokens :: "bool \<Rightarrow> real \<Rightarrow> sequence \<Rightarrow> sequence" where
  "gen_tokens process_gen total_time q =
     (if is_gen q \<and> process_gen then
        (if sq_gen_start_time q = 0 then q\<lparr>sq_num_process_token := 1\<rparr>
         else if sq_gen_start_time q \<le> total_time then q\<lparr>sq_num_process_token := 1\<rparr>
         else q)
      else q)"

definition sum_share :: "bool \<Rightarrow> int \<Rightarrow> sequence \<Rightarrow> sequence" where
  "sum_share process_sum num_process q =
     (if is_sum q \<and> process_sum then
        q\<lparr>sq_num_process_token := min num_process (sq_input_len q - sq_current_len q)\<rparr>
      else q)"

definition batch_metadata :: "bool \<Rightarrow> bool \<Rightarrow> real \<Rightarrow> int \<Rightarrow> batched_sequence \<Rightarrow> batched_sequence" where
  "batch_metadata process_gen process_sum total_time max_process b =
     (let b = b\<lparr>bs_sequence := map (gen_tokens process_gen total_time) (bs_sequence b)\<rparr>;
          n = int (length (get_sum b))
      in if n \<noteq> 0 then
           b\<lparr>bs_sequence := map (sum_share process_sum (cdiv max_process n)) (bs_sequence b)\<rparr>
         else b)"

definition setMetadata :: "scheduler \<Rightarrow> scheduler" where
  "setMetadata s =
     (let (process_gen, process_sum) = stages s in
      s\<lparr>sch_running_queue :=
        map (batch_metadata process_gen process_sum (sch_total_time s) (sch_max_process_token s))
          (sch_running_queue s)\<rparr>)"

section \<open>Ending an iteration\<close>

text \<open>The loop over a copy of the batch that retires finished sequences and records first tokens.\<close>

definition retire_step :: "sequence \<Rightarrow> batched_sequence \<times> sequence list \<Rightarrow> batched_sequence \<times> sequence list" where
  "retire_step q st =
     (let (b, token_list) = st in
      if sq_current_len q = sq_total_len q then (bs_pop q b, token_list @ [q])
      else if sq_current_len q = sq_input_len q then
        (if \<not> sq_record q then
           (bs_modify (sq_id q) (\<lambda>q. q\<lparr>sq_record := True\<rparr>) b, token_list @ [q\<lparr>sq_record := True\<rparr>])
         else (b, token_list))
      else (b, token_list))"

definition updateBatch :: "real \<Rightarrow> batched_sequence \<Rightarrow> batched_sequence \<times> sequence list" where
  "updateBatch time b =
     (let b = bs_update time b in fold retire_step (get_seq b) (b, []))"

definition updateScheduler :: "real \<Rightarrow> scheduler \<Rightarrow> scheduler \<times> sequence list" where
  "updateScheduler time s =
     (let rs = map (updateBatch time) (sch_running_queue s)
      in (s\<lparr>sch_running_queue := map fst rs\<rparr>, concat (map snd rs)))"

text \<open>The disaggregated update touches the prompts only and dates their generation.\<close>

definition split_step ::
  "real \<Rightarrow> real \<Rightarrow> sequence \<Rightarrow> batched_sequence \<times> sequence list \<Rightarrow> batched_sequence \<times> sequence list" where
  "split_step total_time time q st =
     (let q' = setGenStartTime (total_time + time) (seq_update time q);
          b = bs_modify (sq_id q) (\<lambda>_. q') (fst st)
      in retire_step q' (b, snd st))"

definition updateSchedulerSumGenSplit :: "real \<Rightarrow> scheduler \<Rightarrow> scheduler \<times> sequence list" where
  "updateSchedulerSumGenSplit time s =
     (let rs = map (\<lambda>b. fold (split_step (sch_total_time s) time) (get_sum b) (b, [])) (sch_running_queue s)
      in (s\<lparr>sch_running_queue := map fst rs\<rparr>, concat (map snd rs)))"

section \<open>Filling the queues\<close>

text \<open>
  The inner loop of \<^verbatim>\<open>fillRunningQueue\<close>: at most one round over the batches, from
  where the rotation stands, until one has a free slot.
\<close>

fun find_slot :: "nat \<Rightarrow> int \<Rightarrow> batched_sequence list \<Rightarrow> nat \<Rightarrow> nat option \<times> nat" where
  "find_slot 0 cap bs rot = (None, rot)"
| "find_slot (Suc n) cap bs rot =
     (let i = rot mod length bs in
      if get_num_seq (bs ! i) < cap then (Some i, Suc rot) else find_slot n cap bs (Suc rot))"

definition fill_one :: "scheduler \<Rightarrow> scheduler" where
  "fill_one s =
     (case sch_sequence_queue s of
        [] \<Rightarrow> s
      | q # queue \<Rightarrow>
          (let bs = sch_running_queue s;
               (slot, rot) = find_slot (length bs) (sch_batch_size_per_dp s) bs (sch_rotate s);
               s = s\<lparr>sch_rotate := rot\<rparr>
           in case slot of
                None \<Rightarrow> s
              | Some i \<Rightarrow>
                  let q = (if use_inject_rate (sch_system_config s)
                           then q\<lparr>sq_queueing_delay := sch_total_time s - sq_arrival_time q\<rparr> else q)
                  in s\<lparr>sch_sequence_queue := queue, sch_running_queue := bs[i := bs_add q (bs ! i)]\<rparr>))"

definition fillRunningQueue :: "scheduler \<Rightarrow> scheduler" where
  "fillRunningQueue s =
     (let num_empty_seq = min (sch_total_batch_size s - getBatchSize s) (int (length (sch_sequence_queue s)))
      in (fill_one ^^ nat num_empty_seq) s)"

text \<open>
  \<^verbatim>\<open>pushDummySeq\<close>: the normally distributed \<^verbatim>\<open>delta\<close> it draws first
  is not used afterwards and is left out.
\<close>

definition pushDummySeq :: "int \<Rightarrow> int \<Rightarrow> scheduler \<Rightarrow> scheduler res" where
  "pushDummySeq input_len output_len s =
     (if output_len = 0 then Inr s else
      rbind (Sequence_Create (sch_count_id s) 0 input_len output_len) (\<lambda>(q, count_id).
      let sc = sch_system_config s;
          s = s\<lparr>sch_count_id := count_id\<rparr>;
          (q, s) = (if sch_total_time s > 0 then
              (let i = sch_cur_arrival_time_idx s;
                   t = (case vec_at (sch_actual_arrival_time s) i of Inr t \<Rightarrow> t | Inl _ \<Rightarrow> 1)
               in (q\<lparr>sq_arrival_time := t\<rparr>, s\<lparr>sch_cur_arrival_time_idx := i + 1\<rparr>))
            else (q, s));
          q = (if reuse_kv_cache sc then q\<lparr>sq_current_len := ctrunc (of_int input_len * kv_cache_reuse_rate sc)\<rparr> else q);
          q = (if prefill_mode sc then q\<lparr>sq_output_len := input_len, sq_total_len := input_len\<rparr>
               else if decode_mode sc then q\<lparr>sq_current_len := input_len\<rparr> else q);
          q = q\<lparr>sq_get_expert_from_list := False\<rparr>
      in Inr (s\<lparr>sch_sequence_queue := sch_sequence_queue s @ [q]\<rparr>)))"

text \<open>A trace entry with 512 output tokens is drawn again; the redraw has fuel.\<close>

fun draw_real_seq :: "nat \<Rightarrow> scheduler \<Rightarrow> (int \<times> sequence_info \<times> rng) res" where
  "draw_real_seq fuel s =
     (let (seq_id, g) = getRandomExpertSeqId (sch_total_seq_num s) (sch_rng s) in
      rbind (vec_at (sch_sequences_info s) seq_id) (\<lambda>info.
      if si_Lout info = 512 then
        (case fuel of 0 \<Rightarrow> Inl OutOfFuel | Suc f \<Rightarrow> draw_real_seq f (s\<lparr>sch_rng := g\<rparr>))
      else Inr (seq_id, info, g)))"

declare draw_real_seq.simps [simp del]

definition pushRealSeq :: "int \<Rightarrow> scheduler \<Rightarrow> scheduler res" where
  "pushRealSeq num_seq s =
     rbind (assertTrue (sch_sequences_info s \<noteq> []) ''Input trace is not set'') (\<lambda>_.
     rfold (\<lambda>_ s.
       rbind (draw_real_seq (rng_fuel (sch_rng s)) s) (\<lambda>(seq_id, info, g).
       rbind (Sequence_Create (sch_count_id s) seq_id (si_Lin info) (si_Lout info)) (\<lambda>(q, count_id).
       Inr (s\<lparr>sch_count_id := count_id, sch_rng := g, sch_sequence_queue := sch_sequence_queue s @ [q]\<rparr>))))
     (irange 0 num_seq) s)"

definition pushSeq :: "int \<Rightarrow> scheduler \<Rightarrow> scheduler res" where
  "pushSeq num_seq s =
     (if \<not> sch_real_data s then
        (let m = sch_model_config s in
         rbind (assertTrue (mc_input_len m < max_seq_len m)
             (''Invalid input_len (= '' @ to_string (mc_input_len m) @ '')'')) (\<lambda>_.
         let m = (if mc_input_len m + mc_output_len m > max_seq_len m
                  then m\<lparr>mc_output_len := max_seq_len m - mc_input_len m\<rparr> else m)
         in rfold (\<lambda>_. pushDummySeq (mc_input_len m) (mc_output_len m)) (irange 0 num_seq)
              (s\<lparr>sch_model_config := m\<rparr>)))
      else pushRealSeq num_seq s)"

definition initializeDummyInput :: "int \<Rightarrow> int \<Rightarrow> int \<Rightarrow> scheduler \<Rightarrow> scheduler res" where
  "initializeDummyInput num_seq input_len output_len s =
     rfold (\<lambda>batch_idx s.
       let each_num_seq = cdiv (num_seq + sch_dp_degree s - 1) (sch_dp_degree s) in
       rbind (vec_at (sch_running_queue s) batch_idx) (\<lambda>b.
       rbind (add_dummy_sequence each_num_seq input_len output_len (sch_count_id s, b)) (\<lambda>(count_id, b).
       Inr (s\<lparr>sch_count_id := count_id, sch_running_queue := (sch_running_queue s)[nat batch_idx := b]\<rparr>))))
     (irange 0 (sch_dp_degree s)) s"

definition initializeRealInput :: "int \<Rightarrow> scheduler \<Rightarrow> scheduler res" where
  "initializeRealInput num_seq s =
     rfold (\<lambda>batch_idx s.
       let each_num_seq = cdiv (num_seq + sch_dp_degree s - 1) (sch_dp_degree s) in
       rbind (vec_at (sch_running_queue s) batch_idx) (\<lambda>b.
       let (seq_ids, g) = fold (\<lambda>_ (ids, g).
             let (i, g) = getRandomExpertSeqId (sch_total_seq_num s) g in (ids @ [i], g))
             (irange 0 each_num_seq) ([], sch_rng s)
       in rbind (add_sequence (sch_sequences_info s) seq_ids (sch_count_id s, b)) (\<lambda>(count_id, b).
          Inr (s\<lparr>sch_count_id := count_id, sch_rng := g,
            sch_running_queue := (sch_running_queue s)[nat batch_idx := b]\<rparr>))))
     (irange 0 (sch_dp_degree s)) s"

definition fillSequenceQueue :: "real \<Rightarrow> real \<Rightarrow> scheduler \<Rightarrow> scheduler res" where
  "fillSequenceQueue iter_time total_time s =
     (let num_request_to_inject =
        (if use_inject_rate (sch_system_config s) then
           (if iter_time \<noteq> 0 then
              int (length (filter (\<lambda>t. t \<ge> total_time - iter_time \<and> t < total_time) (sch_actual_arrival_time s)))
            else max (ctrunc (of_int (sch_total_batch_size s) * (7 / 10) - of_int (getBatchSize s))) 0)
         else sch_total_batch_size s - getBatchSize s)
      in pushSeq num_request_to_inject s)"

definition hittingQueue :: "int \<Rightarrow> scheduler \<Rightarrow> scheduler res" where
  "hittingQueue iter s =
     rfold (\<lambda>_ s.
       let s = setMetadata s; (s, _) = updateScheduler 0 s in
       rbind (fillSequenceQueue 0 0 s) (\<lambda>s. Inr (fillRunningQueue s)))
     (irange 0 iter) s"

section \<open>One iteration, batch by batch\<close>

text \<open>What the assignment of tokens does to a single sequence, and a finished update to a batch.\<close>

definition assign :: "bool \<Rightarrow> bool \<Rightarrow> real \<Rightarrow> int \<Rightarrow> sequence \<Rightarrow> sequence" where
  "assign pg ps tt share q = sum_share ps share (gen_tokens pg tt q)"

definition batch_share :: "int \<Rightarrow> batched_sequence \<Rightarrow> int" where
  "batch_share mp b = (if get_sum b = [] then 0 else cdiv mp (int (length (get_sum b))))"

lemma gen_tokens_fields [simp]:
  "sq_id (gen_tokens pg tt q) = sq_id q" "sq_current_len (gen_tokens pg tt q) = sq_current_len q"
  "sq_input_len (gen_tokens pg tt q) = sq_input_len q" "sq_total_len (gen_tokens pg tt q) = sq_total_len q"
  "sq_record (gen_tokens pg tt q) = sq_record q" "sq_gen_start_time (gen_tokens pg tt q) = sq_gen_start_time q"
  by (simp_all add: gen_tokens_def)

lemma sum_share_fields [simp]:
  "sq_id (sum_share ps sh q) = sq_id q" "sq_current_len (sum_share ps sh q) = sq_current_len q"
  "sq_input_len (sum_share ps sh q) = sq_input_len q" "sq_total_len (sum_share ps sh q) = sq_total_len q"
  "sq_record (sum_share ps sh q) = sq_record q" "sq_gen_start_time (sum_share ps sh q) = sq_gen_start_time q"
  by (simp_all add: sum_share_def)

lemma assign_fields [simp]:
  "sq_id (assign pg ps tt sh q) = sq_id q" "sq_current_len (assign pg ps tt sh q) = sq_current_len q"
  "sq_input_len (assign pg ps tt sh q) = sq_input_len q" "sq_total_len (assign pg ps tt sh q) = sq_total_len q"
  "sq_record (assign pg ps tt sh q) = sq_record q" "sq_gen_start_time (assign pg ps tt sh q) = sq_gen_start_time q"
  by (simp_all add: assign_def)

lemma stage_fields [simp]:
  "is_sum (gen_tokens pg tt q) = is_sum q" "is_gen (gen_tokens pg tt q) = is_gen q"
  "is_sum (assign pg ps tt sh q) = is_sum q" "is_gen (assign pg ps tt sh q) = is_gen q"
  by (simp_all add: is_sum_def is_gen_def)

lemma is_gen_iff [simp]: "is_gen q \<longleftrightarrow> \<not> is_sum q"
  by (auto simp: is_gen_def is_sum_def)

lemma filter_map_keeps:
  "(\<And>x. P (f x) = P x) \<Longrightarrow> filter P (map f xs) = map f (filter P xs)"
  by (induction xs) auto

lemma batch_metadata_eq:
  "batch_metadata pg ps tt mp b = b\<lparr>bs_sequence := map (assign pg ps tt (batch_share mp b)) (bs_sequence b)\<rparr>"
proof -
  have len: "length (filter is_sum (map (gen_tokens pg tt) xs)) = length (filter is_sum xs)" for xs
    by (simp add: filter_map_keeps)
  have none: "filter is_sum xs = [] \<Longrightarrow> map (gen_tokens pg tt) xs = map (assign pg ps tt sh) xs" for xs sh
    by (induction xs) (auto simp: assign_def sum_share_def split: if_splits)
  show ?thesis
  proof (cases "filter is_sum (bs_sequence b) = []")
    case True
    then have "filter is_sum (map (gen_tokens pg tt) (bs_sequence b)) = []"
      by (metis len length_0_conv)
    with True show ?thesis
      by (simp add: batch_metadata_def Let_def get_sum_def batch_share_def none [OF True, of 0])
  next
    case False
    then have "filter is_sum (map (gen_tokens pg tt) (bs_sequence b)) \<noteq> []"
      by (metis len length_0_conv)
    with False show ?thesis
      by (simp add: batch_metadata_def Let_def get_sum_def len batch_share_def assign_def [abs_def] comp_def)
  qed
qed

definition finished :: "sequence \<Rightarrow> bool" where
  "finished q \<longleftrightarrow> sq_current_len q = sq_total_len q"

definition first_token :: "sequence \<Rightarrow> bool" where
  "first_token q \<longleftrightarrow> sq_current_len q = sq_input_len q \<and> \<not> sq_record q"

definition mark :: "sequence \<Rightarrow> sequence" where
  "mark q = (if \<not> finished q \<and> first_token q then q\<lparr>sq_record := True\<rparr> else q)"

lemma mark_fields [simp]:
  "sq_id (mark q) = sq_id q" "sq_current_len (mark q) = sq_current_len q"
  "sq_input_len (mark q) = sq_input_len q" "sq_total_len (mark q) = sq_total_len q"
  "sq_num_process_token (mark q) = sq_num_process_token q" "sq_gen_start_time (mark q) = sq_gen_start_time q"
  by (simp_all add: mark_def)

lemma retire_step_cases:
  "finished q \<Longrightarrow> retire_step q (b, outs) = (bs_pop q b, outs @ [mark q])"
  "\<not> finished q \<Longrightarrow> first_token q \<Longrightarrow>
     retire_step q (b, outs) = (bs_modify (sq_id q) (\<lambda>q. q\<lparr>sq_record := True\<rparr>) b, outs @ [mark q])"
  "\<not> finished q \<Longrightarrow> \<not> first_token q \<Longrightarrow> retire_step q (b, outs) = (b, outs)"
  by (auto simp: retire_step_def finished_def first_token_def mark_def)

lemma fold_retire_step:
  assumes "bs_sequence b = pre @ qs" "distinct (map sq_id (pre @ qs))"
  shows "fold retire_step qs (b, outs) =
    (b\<lparr>bs_sequence := pre @ map mark (filter (\<lambda>q. \<not> finished q) qs)\<rparr>,
     outs @ map mark (filter (\<lambda>q. finished q \<or> first_token q) qs))"
  using assms
proof (induction qs arbitrary: b pre outs)
  case Nil
  then show ?case by simp
next
  case (Cons q qs)
  have other: "sq_id t \<noteq> sq_id q" if "t \<in> set pre \<or> t \<in> set qs" for t
    using Cons.prems(2) that by (auto simp: image_iff)
  have pre: "filter (\<lambda>t. sq_id t \<noteq> sq_id q) pre = pre" and qs: "filter (\<lambda>t. sq_id t \<noteq> sq_id q) qs = qs"
    by (simp_all add: filter_id_conv other)
  have mod: "map (\<lambda>s. if sq_id s = sq_id q then f s else s) pre = pre"
    "map (\<lambda>s. if sq_id s = sq_id q then f s else s) qs = qs" for f
    using other by (auto intro!: map_idI)
  consider "finished q" | "\<not> finished q" "first_token q" | "\<not> finished q" "\<not> first_token q" by blast
  then show ?case
  proof cases
    case 1
    have "fold retire_step qs (bs_pop q b, outs @ [mark q]) =
        ((bs_pop q b)\<lparr>bs_sequence := pre @ map mark (filter (\<lambda>q. \<not> finished q) qs)\<rparr>,
         (outs @ [mark q]) @ map mark (filter (\<lambda>q. finished q \<or> first_token q) qs))"
      using Cons.prems pre qs by (intro Cons.IH) (auto simp: bs_pop_def)
    with 1 show ?thesis by (simp add: retire_step_cases bs_pop_def)
  next
    case 2
    have "fold retire_step qs (bs_modify (sq_id q) (\<lambda>q. q\<lparr>sq_record := True\<rparr>) b, outs @ [mark q]) =
        ((bs_modify (sq_id q) (\<lambda>q. q\<lparr>sq_record := True\<rparr>) b)\<lparr>bs_sequence :=
           (pre @ [mark q]) @ map mark (filter (\<lambda>q. \<not> finished q) qs)\<rparr>,
         (outs @ [mark q]) @ map mark (filter (\<lambda>q. finished q \<or> first_token q) qs))"
      using Cons.prems mod 2 by (intro Cons.IH) (auto simp: bs_modify_def mark_def)
    with 2 show ?thesis by (simp add: retire_step_cases bs_modify_def)
  next
    case 3
    have "fold retire_step qs (b, outs) =
        (b\<lparr>bs_sequence := (pre @ [q]) @ map mark (filter (\<lambda>q. \<not> finished q) qs)\<rparr>,
         outs @ map mark (filter (\<lambda>q. finished q \<or> first_token q) qs))"
      using Cons.prems by (intro Cons.IH) auto
    moreover have "mark q = q" using 3 by (simp add: mark_def)
    ultimately show ?thesis using 3 by (simp add: retire_step_cases)
  qed
qed

lemma updateBatch_eq:
  assumes "distinct (map sq_id (bs_sequence b))"
  shows "updateBatch t b =
    (b\<lparr>bs_sequence := map mark (filter (\<lambda>q. \<not> finished q) (map (seq_update t) (bs_sequence b)))\<rparr>,
     map mark (filter (\<lambda>q. finished q \<or> first_token q) (map (seq_update t) (bs_sequence b))))"
proof -
  have "distinct (map sq_id ([] @ bs_sequence (bs_update t b)))"
    using assms by (simp add: bs_update_def comp_def)
  from fold_retire_step [OF _ this, of "bs_update t b" "[]"] show ?thesis
    by (simp add: updateBatch_def get_seq_def bs_update_def)
qed

text \<open>Assignment and update in one function on sequences.\<close>

definition advance :: "bool \<Rightarrow> bool \<Rightarrow> real \<Rightarrow> real \<Rightarrow> int \<Rightarrow> sequence \<Rightarrow> sequence" where
  "advance pg ps tt t sh q = seq_update t (assign pg ps tt sh q)"

lemma advance_fields [simp]:
  "sq_id (advance pg ps tt t sh q) = sq_id q" "sq_input_len (advance pg ps tt t sh q) = sq_input_len q"
  "sq_total_len (advance pg ps tt t sh q) = sq_total_len q" "sq_num_process_token (advance pg ps tt t sh q) = 0"
  "sq_gen_start_time (advance pg ps tt t sh q) = sq_gen_start_time q"
  by (simp_all add: advance_def)

definition iterate_batch :: "scheduler \<Rightarrow> real \<Rightarrow> batched_sequence \<Rightarrow> batched_sequence \<times> sequence list" where
  "iterate_batch s t b =
     (let qs = map (advance (fst (stages s)) (snd (stages s)) (sch_total_time s) t
            (batch_share (sch_max_process_token s) b)) (bs_sequence b)
      in (b\<lparr>bs_sequence := map mark (filter (\<lambda>q. \<not> finished q) qs)\<rparr>,
          map mark (filter (\<lambda>q. finished q \<or> first_token q) qs)))"

definition ids_distinct :: "scheduler \<Rightarrow> bool" where
  "ids_distinct s \<longleftrightarrow> list_all (\<lambda>b. distinct (map sq_id (bs_sequence b))) (sch_running_queue s)"

lemma iteration_eq:
  assumes "ids_distinct s"
  shows "updateScheduler t (setMetadata s) =
    (s\<lparr>sch_running_queue := map (fst \<circ> iterate_batch s t) (sch_running_queue s)\<rparr>,
     concat (map (snd \<circ> iterate_batch s t) (sch_running_queue s)))"
proof -
  have "updateBatch t (batch_metadata (fst (stages s)) (snd (stages s)) (sch_total_time s) (sch_max_process_token s) b)
      = iterate_batch s t b" if "b \<in> set (sch_running_queue s)" for b
  proof -
    have "distinct (map sq_id (bs_sequence b))"
      using assms that by (simp add: ids_distinct_def list_all_iff)
    then show ?thesis
      by (simp add: batch_metadata_eq updateBatch_eq comp_def iterate_batch_def advance_def [abs_def] Let_def)
  qed
  then show ?thesis
    by (auto simp: updateScheduler_def setMetadata_def Let_def case_prod_beta comp_def
        intro!: map_cong arg_cong [of _ _ concat])
qed

section \<open>The invariant of the running queue\<close>

definition seq_ok :: "sequence \<Rightarrow> bool" where
  "seq_ok q \<longleftrightarrow> 0 < sq_input_len q \<and> sq_input_len q \<le> sq_total_len q \<and> 0 \<le> sq_current_len q \<and>
     sq_current_len q < sq_total_len q \<and> sq_num_process_token q = 0"

definition sched_inv :: "scheduler \<Rightarrow> bool" where
  "sched_inv s \<longleftrightarrow> ids_distinct s \<and> 0 \<le> sch_max_process_token s \<and>
     list_all (\<lambda>b. list_all seq_ok (bs_sequence b)) (sch_running_queue s)"

lemma batch_share_nonneg: "0 \<le> mp \<Longrightarrow> 0 \<le> batch_share mp b"
  by (simp add: batch_share_def pos_imp_zdiv_nonneg_iff)

lemma assign_tokens:
  assumes "seq_ok q" "0 \<le> sh"
  shows "0 \<le> sq_num_process_token (assign pg ps tt sh q)"
    "sq_current_len q + sq_num_process_token (assign pg ps tt sh q) \<le> sq_total_len q"
    "is_sum q \<Longrightarrow> sq_current_len q + sq_num_process_token (assign pg ps tt sh q) \<le> sq_input_len q"
  using assms by (auto simp: seq_ok_def assign_def gen_tokens_def sum_share_def is_sum_def)

lemma advance_current:
  "sq_current_len (advance pg ps tt t sh q) = sq_current_len q + sq_num_process_token (assign pg ps tt sh q)"
  by (simp add: advance_def)

lemma advance_ok:
  assumes "seq_ok q" "0 \<le> sh" "\<not> finished (advance pg ps tt t sh q)"
  shows "seq_ok (mark (advance pg ps tt t sh q))"
  using assms assign_tokens [OF assms(1,2), of pg ps tt]
  by (auto simp: seq_ok_def advance_current finished_def)

lemma set_iterate_batch:
  "q \<in> set (bs_sequence (fst (iterate_batch s t b))) \<longleftrightarrow> (\<exists>p \<in> set (bs_sequence b).
     q = mark (advance (fst (stages s)) (snd (stages s)) (sch_total_time s) t (batch_share (sch_max_process_token s) b) p)
     \<and> \<not> finished (advance (fst (stages s)) (snd (stages s)) (sch_total_time s) t (batch_share (sch_max_process_token s) b) p))"
  by (auto simp: iterate_batch_def Let_def)

lemma iterate_batch_distinct:
  "distinct (map sq_id (bs_sequence b)) \<Longrightarrow> distinct (map sq_id (bs_sequence (fst (iterate_batch s t b))))"
  by (simp add: iterate_batch_def Let_def comp_def filter_map distinct_map inj_on_def)

lemma iteration_keeps_inv:
  assumes "sched_inv s"
  shows "sched_inv (fst (updateScheduler t (setMetadata s)))"
proof -
  have d: "ids_distinct s" and mp: "0 \<le> sch_max_process_token s"
    using assms by (simp_all add: sched_inv_def)
  have ok: "seq_ok q" if "q \<in> set (bs_sequence (fst (iterate_batch s t b)))" "b \<in> set (sch_running_queue s)" for q b
  proof -
    have "list_all seq_ok (bs_sequence b)" using assms that(2) by (simp add: sched_inv_def list_all_iff)
    with that(1) show ?thesis
      by (auto simp: set_iterate_batch list_all_iff intro!: advance_ok batch_share_nonneg mp)
  qed
  have "distinct (map sq_id (bs_sequence (fst (iterate_batch s t b))))" if "b \<in> set (sch_running_queue s)" for b
    using d that iterate_batch_distinct by (simp add: ids_distinct_def list_all_iff)
  with ok mp show ?thesis
    by (simp add: iteration_eq [OF d] sched_inv_def ids_distinct_def list_all_iff)
qed

end
