(* ===== verification/Comm_Model.thy ===== *)
theory Comm_Model
  imports Leaf_Modules Batch_Scheduler
begin

text \<open>
  Communication between devices: \<^verbatim>\<open>src/module/communication.cpp\<close>. Each
  \<^verbatim>\<open>forward\<close> charges the clocks of its device for the bytes it exchanges, over
  the link inside a node or the one between nodes. The other devices are seen only through the token
  counters of their batches in the scheduler.
\<close>

section \<open>Collective operations of tensor parallelism\<close>

text \<open>Ring all-reduce: \<^verbatim>\<open>2 (n - 1)\<close> hops, each of one \<open>n\<close>-th of the bytes.\<close>

definition allreduce_time :: "system_config \<Rightarrow> int \<Rightarrow> int \<Rightarrow> real" where
  "allreduce_time c n bytes =
     (let hop = (n - 1) * 2; chunk = cdiv bytes n;
          one_hop = device_ict_latency c + ns_of (of_int chunk) (device_ict_bandwidth c)
      in one_hop * of_int hop)"

definition AllReduce_forward :: "int list \<Rightarrow> tensor \<Rightarrow> mmap_ctl \<Rightarrow> (string \<times> tensor) list \<Rightarrow> device \<Rightarrow> leaf_result" where
  "AllReduce_forward device_list input ctl tbl d =
     rbind (vec_ix (t_shape input) 0) (\<lambda>_. rbind (vec_ix (t_shape input) 1) (\<lambda>_.
     rbind (get_activation ctl tbl ''allreduce_output'' (t_shape input) True) (\<lambda>(ctl, tbl, output).
     if getSize input = 0 then Inr (output, ctl, tbl, d)
     else Inr (output, ctl, tbl,
       add_leaf_time (t_parallel_execution input \<and> \<not> communication_hiding (dv_config d)) input
         (allreduce_time (dv_config d) (int (length device_list)) (getSize input)) d))))"

definition AllGather_forward :: "tensor \<Rightarrow> mmap_ctl \<Rightarrow> (string \<times> tensor) list \<Rightarrow> device \<Rightarrow> leaf_result" where
  "AllGather_forward input ctl tbl d =
     rbind (get_activation ctl tbl ''allgather_output'' (t_shape input) True) (\<lambda>(ctl, tbl, output).
     Inr (output, ctl, tbl, d))"

definition AllScatter_forward :: "int \<Rightarrow> tensor \<Rightarrow> mmap_ctl \<Rightarrow> (string \<times> tensor) list \<Rightarrow> device \<Rightarrow> leaf_result" where
  "AllScatter_forward parallel_num input ctl tbl d =
     rbind (vec_ix (t_shape input) 0) (\<lambda>m. rbind (vec_ix (t_shape input) 1) (\<lambda>k.
     rbind (get_activation ctl tbl ''allscatter_output'' [m, cdiv k parallel_num] True) (\<lambda>(ctl, tbl, output).
     Inr (output, ctl, tbl, d))))"

text \<open>\<^verbatim>\<open>Sync__Set\<close>: all clocks of the device move to the latest of them.\<close>

definition sync_set_status :: "status_board \<Rightarrow> status_board" where
  "sync_set_status st =
     (let t = max (sb_device_time st) (max (sb_low_time st) (sb_high_time st))
      in st\<lparr>sb_device_time := t, sb_high_time := t, sb_low_time := t\<rparr>)"

definition Sync_Set_forward :: "mmap_ctl \<Rightarrow> (string \<times> tensor) list \<Rightarrow> device \<Rightarrow> leaf_result" where
  "Sync_Set_forward ctl tbl d =
     rbind (get_activation ctl tbl ''sync'' [1, 1] True) (\<lambda>(ctl, tbl, output).
     Inr (output, ctl, tbl, d\<lparr>dv_status := sync_set_status (dv_status d)\<rparr>))"

section \<open>Expert parallelism\<close>

text \<open>The experts of a device; devices of one expert tensor-parallel group hold the same ones.\<close>

definition expert_range :: "model_config \<Rightarrow> int \<Rightarrow> int \<Rightarrow> int list" where
  "expert_range m total_num_device dev =
     (let offset = cdiv (num_routed_expert m) total_num_device * cdiv dev (e_tp_dg m) * e_tp_dg m;
          n = cdiv (num_routed_expert m) total_num_device * e_tp_dg m
      in irange offset (offset + n))"

definition count_tokens :: "int list res \<Rightarrow> int list \<Rightarrow> int res" where
  "count_tokens counts es =
     rfold (\<lambda>e t. rbind counts (\<lambda>counts. rbind (vec_ix counts e) (\<lambda>n. Inr (t + n)))) es 0"

definition add_traffic :: "bool \<Rightarrow> int \<Rightarrow> int \<times> int \<Rightarrow> int \<times> int" where
  "add_traffic intra n t = (if intra then (fst t + n, snd t) else (fst t, snd t + n))"

text \<open>
  Tokens exchanged with the devices outside the group of \<open>tp\<close> devices that contains
  \<open>rank\<close>, by the batch's own counters: inside the node and across nodes. The node of the other
  device is computed with eight devices per node, whatever \<^verbatim>\<open>num_device\<close> is.
\<close>

definition outer_traffic :: "system_config \<Rightarrow> model_config \<Rightarrow> int \<Rightarrow> int \<Rightarrow> batched_sequence \<Rightarrow> (int \<times> int) res" where
  "outer_traffic c m tp rank seqs =
     (let group = irange (cdiv rank tp * tp) (cdiv rank tp * tp + tp); total_num_device = num_device c * num_node c in
      rfold (\<lambda>dev t. if dev \<in> set group then Inr t else
          rbind (count_tokens (Inr (bs_local_num_token_in_expert seqs)) (expert_range m total_num_device dev)) (\<lambda>n.
          Inr (add_traffic (cdiv dev 8 = cdiv rank (num_device c)) n t)))
        (irange 0 total_num_device) (0, 0))"

text \<open>Tokens of the other data-parallel replicas for the experts of this device.\<close>

definition replica_traffic :: "system_config \<Rightarrow> model_config \<Rightarrow> int \<Rightarrow> batched_sequence list \<Rightarrow> (int \<times> int) res" where
  "replica_traffic c m rank running =
     (let total_num_device = num_device c * num_node c in
      rfold (\<lambda>dp t. if dp = cdiv rank (ne_tp_dg m) then Inr t else
          rbind (count_tokens (rbind (vec_ix running dp) (\<lambda>b. Inr (bs_local_num_token_in_expert b)))
              (expert_range m total_num_device rank)) (\<lambda>n.
          Inr (add_traffic (cdiv (dp * ne_tp_dg m) (num_device c) = cdiv rank (num_device c)) n t)))
        (irange 0 (cdiv total_num_device (ne_tp_dg m))) (0, 0))"

definition traffic_size :: "int \<Rightarrow> int \<Rightarrow> int \<Rightarrow> int \<Rightarrow> real" where
  "traffic_size token k precision degree = fdiv (of_int token * of_int k * of_int precision) (of_int degree)"

text \<open>
  Prompts use both links at once; generation uses the link between nodes, or the one inside the
  node when there is only one node; an idle batch takes no time.
\<close>

definition traffic_time :: "system_config \<Rightarrow> batched_sequence \<Rightarrow> real \<Rightarrow> real \<Rightarrow> real" where
  "traffic_time c seqs intra across =
     (if get_sum_process_token seqs > 0 then
        max (ns_of intra (device_ict_bandwidth c) + device_ict_latency c) (ns_of across (node_ict_bandwidth c) + node_ict_latency c)
      else if get_gen_process_token seqs > 0 then
        (if num_node c = 1 then ns_of (intra + across) (device_ict_bandwidth c) + device_ict_latency c
         else ns_of (intra + across) (node_ict_bandwidth c) + node_ict_latency c)
      else 0)"

text \<open>
  \<^verbatim>\<open>MoEScatter\<close>: tokens go to the experts of the other devices and arrive from the
  other replicas. Without tokens to send, or to receive, nothing is charged at all.
\<close>

definition MoEScatter_forward ::
  "model_config \<Rightarrow> batched_sequence list \<Rightarrow> batched_sequence \<Rightarrow> tensor \<Rightarrow> mmap_ctl \<Rightarrow> (string \<times> tensor) list \<Rightarrow> device \<Rightarrow> leaf_result" where
  "MoEScatter_forward m running seqs input ctl tbl d =
     (let c = dv_config d; rank = dv_total_rank d; pb = t_precision_byte input in
      rbind (vec_ix (t_shape input) 0) (\<lambda>_. rbind (vec_ix (t_shape input) 1) (\<lambda>k.
      rbind (get_activation ctl tbl ''moe_scatter_output'' (t_shape input) True) (\<lambda>(ctl, tbl, output).
      if \<not> dv_perform_execution d then Inr (output, ctl, tbl, d) else
      rbind (outer_traffic c m (ne_tp_dg m) rank seqs) (\<lambda>(intra, across).
      let intra = traffic_size intra k pb (ne_tp_dg m); across = traffic_size across k pb (ne_tp_dg m) in
      if intra = 0 \<and> across = 0 then Inr (output, ctl, tbl, d) else
      let send_time = traffic_time c seqs intra across in
      rbind (replica_traffic c m rank running) (\<lambda>(intra, across).
      let intra = traffic_size intra k pb (ne_tp_dg m); across = traffic_size across k pb (ne_tp_dg m) in
      if intra = 0 \<and> across = 0 then Inr (output, ctl, tbl, d) else
      let receive_time = traffic_time c seqs intra across in
      Inr (output, ctl, tbl, add_leaf_time (t_parallel_execution input \<and> \<not> communication_hiding c) input
        (max send_time receive_time) d)))))))"

text \<open>
  \<^verbatim>\<open>MoEGather\<close>: the results come back. What is received is divided by both degrees
  and, for DeepSeek-V3 in eight-bit precision, doubled; what is sent is not doubled.
\<close>

definition MoEGather_forward ::
  "model_config \<Rightarrow> batched_sequence list \<Rightarrow> batched_sequence \<Rightarrow> tensor list \<Rightarrow> mmap_ctl \<Rightarrow> (string \<times> tensor) list \<Rightarrow> device \<Rightarrow>
     (tensor list \<times> mmap_ctl \<times> (string \<times> tensor) list \<times> device) res" where
  "MoEGather_forward m running seqs input_vec ctl tbl d =
     (let c = dv_config d; rank = dv_total_rank d in
      rbind (vec_at input_vec 0) (\<lambda>input.
      rbind (vec_ix (t_shape input) 0) (\<lambda>_. rbind (vec_ix (t_shape input) 1) (\<lambda>k.
      rbind (get_activation ctl tbl ''moe_gather_output'' (t_shape input) True) (\<lambda>(ctl, tbl, output).
      let pb = t_precision_byte input in
      if \<not> dv_perform_execution d then Inr (input_vec, ctl, tbl, d) else
      rbind (outer_traffic c m (e_tp_dg m) rank seqs) (\<lambda>(intra, across).
      let scale = (if model_name m = ''deepseekV3'' \<and> precision_byte m = 1 then 2 else 1);
          intra = fdiv (traffic_size intra k pb (e_tp_dg m)) (of_int (ne_tp_dg m)) * scale;
          across = fdiv (traffic_size across k pb (e_tp_dg m)) (of_int (ne_tp_dg m)) * scale in
      if intra = 0 \<and> across = 0 then Inr (input_vec, ctl, tbl, d) else
      let receive_time = traffic_time c seqs intra across in
      rbind (replica_traffic c m rank running) (\<lambda>(intra, across).
      let intra = traffic_size intra k pb (ne_tp_dg m); across = traffic_size across k pb (ne_tp_dg m) in
      if intra = 0 \<and> across = 0 then Inr (input_vec, ctl, tbl, d) else
      let send_time = traffic_time c seqs intra across in
      Inr (input_vec, ctl, tbl, add_leaf_time (t_parallel_execution input \<and> \<not> communication_hiding c) input
        (max send_time receive_time) d))))))))"

section \<open>Time of an all-reduce\<close>

lemma comm_ns_of_linear: "0 < rate \<Longrightarrow> ns_of x rate = x / rate * 10 ^ 9"
  by (simp add: ns_of_def)

lemma allreduce_chunk:
  assumes "0 < n" "0 \<le> bytes"
  shows "0 \<le> cdiv bytes n" "n * cdiv bytes n \<le> bytes"
proof -
  have c: "cdiv bytes n = bytes div n" using assms by simp
  show "0 \<le> cdiv bytes n" unfolding c using assms by (simp add: div_int_pos_iff)
  show "n * cdiv bytes n \<le> bytes"
    unfolding c using pos_mod_sign [of n bytes] mult_div_mod_eq [of n bytes] assms(1) by linarith
qed

lemma allreduce_time_bounds:
  assumes "1 \<le> n" "0 \<le> bytes" "0 \<le> device_ict_latency c" "0 < device_ict_bandwidth c"
  shows "2 * of_int (n - 1) * device_ict_latency c \<le> allreduce_time c n bytes"
    "allreduce_time c n bytes \<le> 2 * of_int (n - 1) * device_ict_latency c + 2 * ns_of (of_int bytes) (device_ict_bandwidth c)"
proof -
  define h x b where "h = real_of_int (n - 1)" and "x = real_of_int (cdiv bytes n)" and "b = device_ict_bandwidth c"
  have t: "allreduce_time c n bytes = 2 * h * device_ict_latency c + 2 * (h * x / b * 10 ^ 9)"
    using assms(4) by (simp add: allreduce_time_def Let_def comm_ns_of_linear h_def x_def b_def algebra_simps)
  have x: "0 \<le> x" "0 \<le> h" using allreduce_chunk(1) [of n bytes] assms(1,2) by (simp_all add: x_def h_def)
  have "(n - 1) * cdiv bytes n \<le> n * cdiv bytes n" using allreduce_chunk(1) [of n bytes] assms(1,2) by (intro mult_right_mono) auto
  then have "(n - 1) * cdiv bytes n \<le> bytes" using allreduce_chunk(2) [of n bytes] assms(1,2) by linarith
  then have hx: "h * x \<le> of_int bytes" unfolding h_def x_def of_int_mult [symmetric] of_int_le_iff .
  show "2 * of_int (n - 1) * device_ict_latency c \<le> allreduce_time c n bytes"
    unfolding t h_def [symmetric] using x assms(4) by (simp add: b_def)
  have "h * x / b \<le> of_int bytes / b" using hx assms(4) by (intro divide_right_mono) (simp_all add: b_def)
  then show "allreduce_time c n bytes \<le> 2 * of_int (n - 1) * device_ict_latency c + 2 * ns_of (of_int bytes) (device_ict_bandwidth c)"
    unfolding t h_def [symmetric] using assms(4) by (simp add: comm_ns_of_linear b_def)
qed

text \<open>
  an all-reduce of a non-empty tensor over \<open>n\<close> devices moves the device clock by at
  least the latency of its \<open>2 (n - 1)\<close> hops and by at most that plus twice the time of the whole
  tensor on the link; alone it is free. The clock of the input's side moves with it exactly when the input
  runs in parallel and communication is not hidden; the other side never does.
\<close>

theorem AllReduce_forward_time:
  assumes "AllReduce_forward devs input ctl tbl d = Inr (output, ctl', tbl', d')" "0 < getSize input" "devs \<noteq> []"
    and "0 \<le> device_ict_latency (dv_config d)" "0 < device_ict_bandwidth (dv_config d)"
  shows "\<exists>t. sb_device_time (dv_status d') = sb_device_time (dv_status d) + t \<and>
    2 * of_int (int (length devs) - 1) * device_ict_latency (dv_config d) \<le> t \<and>
    t \<le> 2 * of_int (int (length devs) - 1) * device_ict_latency (dv_config d) +
      2 * ns_of (of_int (getSize input)) (device_ict_bandwidth (dv_config d)) \<and>
    (length devs = 1 \<longrightarrow> t = 0) \<and>
    sb_high_time (dv_status d') = sb_high_time (dv_status d) +
      (if t_parallel_execution input \<and> \<not> communication_hiding (dv_config d) \<and> isPerformHigh input then t else 0) \<and>
    sb_low_time (dv_status d') = sb_low_time (dv_status d) +
      (if t_parallel_execution input \<and> \<not> communication_hiding (dv_config d) \<and> \<not> isPerformHigh input then t else 0)"
proof -
  let ?t = "allreduce_time (dv_config d) (int (length devs)) (getSize input)"
  have d': "d' = add_leaf_time (t_parallel_execution input \<and> \<not> communication_hiding (dv_config d)) input ?t d"
    using assms(1,2) by (auto simp: AllReduce_forward_def rbind_eq_Inr)
  have n: "1 \<le> int (length devs)" using assms(3) by (cases devs) simp_all
  have "length devs = 1 \<longrightarrow> ?t = 0" by (simp add: allreduce_time_def Let_def)
  with allreduce_time_bounds [OF n _ assms(4,5), of "getSize input"] assms(2) show ?thesis
    by (intro exI [of _ ?t]) (simp add: d' add_leaf_time_clocks)
qed

theorem AllReduce_forward_time_witness:
  "\<exists>output ctl' tbl' d' t. AllReduce_forward [0, 1] linear_input (MMapController_ctor hbm3_80GB)
      [(''allreduce_output'', Tensor_ctor ''allreduce_output'' [1, 1] ''act'' (Some 0) 2 ALL_CHANNEL)] example_device
      = Inr (output, ctl', tbl', d') \<and> sb_device_time (dv_status d') = sb_device_time (dv_status example_device) + t \<and>
    2 * device_ict_latency H100 \<le> t"
proof -
  let ?tbl = "[(''allreduce_output'', Tensor_ctor ''allreduce_output'' [1, 1] ''act'' (Some 0) 2 ALL_CHANNEL)]"
  have c: "dv_config example_device = H100" "0 \<le> device_ict_latency H100" "0 < device_ict_bandwidth H100"
    by (simp_all add: example_device_def Device_ctor_def device_memory_def H100_def SystemConfig_ctor_def)
  have x: "t_shape linear_input = [16, 4096]" "0 < getSize linear_input"
    by (simp_all add: linear_input_def setPerformHigh_def Tensor_ctor_def getSize_def)
  obtain outp ctl' tbl' d' where run: "AllReduce_forward [0, 1] linear_input (MMapController_ctor hbm3_80GB) ?tbl example_device
      = Inr (outp, ctl', tbl', d')"
    using x(2) by (simp add: AllReduce_forward_def x(1) vec_ix_def get_activation_def Tensor_ctor_def tensor_setMemoryObject_def
        assertFalse_def ctl_setMemoryObject_def setNormal_def tensor_set_def Let_def)
  from AllReduce_forward_time [OF run x(2)] c run show ?thesis by auto
qed

section \<open>Every token is sent once\<close>

lemma count_tokens_sum:
  assumes "\<forall>e\<in>set es. 0 \<le> e \<and> e < int (length counts)"
  shows "count_tokens (Inr counts) es = Inr (sum_list (map (\<lambda>e. counts ! nat e) es))"
proof -
  have "rfold (\<lambda>e t. rbind (Inr counts) (\<lambda>counts. rbind (vec_ix counts e) (\<lambda>n. Inr (t + n)))) es t =
      Inr (t + sum_list (map (\<lambda>e. counts ! nat e) es))" for t
    using assms by (induction es arbitrary: t) (auto simp: vec_ix_def)
  from this [of 0] show ?thesis by (simp add: count_tokens_def)
qed

lemma add_traffic_total: "fst (add_traffic i n t) + snd (add_traffic i n t) = fst t + snd t + n"
  by (simp add: add_traffic_def)

lemma traffic_loop_total:
  assumes "\<And>dev. dev \<in> set devs \<Longrightarrow> dev \<notin> G \<Longrightarrow> f dev = Inr (g dev)"
  shows "\<exists>t'. rfold (\<lambda>dev t. if dev \<in> G then Inr t else rbind (f dev) (\<lambda>n. Inr (add_traffic (near dev) n t))) devs t = Inr t' \<and>
    fst t' + snd t' = fst t + snd t + sum_list (map g (filter (\<lambda>dev. dev \<notin> G) devs))"
  using assms
proof (induction devs arbitrary: t)
  case (Cons dev devs)
  show ?case
  proof (cases "dev \<in> G")
    case True
    then show ?thesis using Cons.IH [of t] Cons.prems by simp
  next
    case False
    then have "f dev = Inr (g dev)" using Cons.prems [of dev] by simp
    moreover obtain t' where "rfold (\<lambda>dev t. if dev \<in> G then Inr t else rbind (f dev) (\<lambda>n. Inr (add_traffic (near dev) n t))) devs
        (add_traffic (near dev) (g dev) t) = Inr t'"
      "fst t' + snd t' = fst t + snd t + g dev + sum_list (map g (filter (\<lambda>dev. dev \<notin> G) devs))"
      using Cons.IH [of "add_traffic (near dev) (g dev) t"] Cons.prems add_traffic_total [of "near dev" "g dev" t] by auto
    ultimately show ?thesis using False by auto
  qed
qed simp

text \<open>Splitting the experts over the devices.\<close>

lemma sum_device_blocks:
  fixes f :: "int \<Rightarrow> int"
  assumes "0 \<le> q"
  shows "(\<Sum>dev\<in>{0..<int n}. \<Sum>e\<in>{q * dev..<q * dev + q}. f e) = (\<Sum>e\<in>{0..<q * int n}. f e)"
proof (induction n)
  case (Suc n)
  have "{0..<int (Suc n)} = insert (int n) {0..<int n}" by auto
  then have "(\<Sum>dev\<in>{0..<int (Suc n)}. \<Sum>e\<in>{q * dev..<q * dev + q}. f e) =
      (\<Sum>e\<in>{q * int n..<q * int n + q}. f e) + (\<Sum>e\<in>{0..<q * int n}. f e)"
    using Suc by simp
  also have "\<dots> = (\<Sum>e\<in>{0..<q * int n} \<union> {q * int n..<q * int n + q}. f e)"
    by (subst sum.union_disjoint) auto
  also have "{0..<q * int n} \<union> {q * int n..<q * int n + q} = {0..<q * int (Suc n)}"
  proof -
    have e: "q * int (Suc n) = q * int n + q" by (simp add: algebra_simps)
    show ?thesis unfolding e using assms by (intro ivl_disj_un_two(3)) simp_all
  qed
  finally show ?case .
qed simp

lemma sum_list_counts: "sum_list (xs :: int list) = (\<Sum>e\<in>{0..<int (length xs)}. xs ! nat e)"
proof -
  have "(\<Sum>e\<in>{0..<int (length xs)}. xs ! nat e) = sum_list (map (\<lambda>e. xs ! nat e) (irange 0 (int (length xs))))"
    by (simp add: sum_list_distinct_conv_sum_set)
  also have "map (\<lambda>e. xs ! nat e) (irange 0 (int (length xs))) = xs" by (intro nth_equalityI) simp_all
  finally show ?thesis by simp
qed

definition device_tokens :: "int list \<Rightarrow> int \<Rightarrow> int \<Rightarrow> int" where
  "device_tokens counts q dev = (\<Sum>e\<in>{q * dev..<q * dev + q}. counts ! nat e)"

lemma device_tokens_block:
  assumes "0 \<le> b" "0 \<le> k" "k < g" "int (length counts) = b * g"
  shows "count_tokens (Inr counts) (irange (b * k) (b * k + b)) = Inr (device_tokens counts b k)"
proof -
  have "b * k + b \<le> b * g" using assms(1,3) mult_left_mono [of "k + 1" g b] by (simp add: algebra_simps)
  moreover have "0 \<le> b * k" using assms(1,2) by simp
  ultimately have "\<forall>e\<in>set (irange (b * k) (b * k + b)). 0 \<le> e \<and> e < int (length counts)"
    using assms(4) by auto
  then show ?thesis
    by (simp add: count_tokens_sum device_tokens_def sum_list_distinct_conv_sum_set)
qed

lemma sum_expert_groups:
  fixes f :: "int \<Rightarrow> int"
  assumes "0 < e" "0 \<le> g"
  shows "(\<Sum>dev\<in>{0..<e * g}. f (dev div e)) = e * (\<Sum>k\<in>{0..<g}. f k)"
proof -
  have "(\<Sum>dev\<in>{e * k..<e * k + e}. f (dev div e)) = e * f k" for k
  proof -
    have "dev div e = k" if "dev \<in> {e * k..<e * k + e}" for dev
      using that assms(1) by (intro int_div_pos_eq [of _ _ _ "dev - e * k"]) auto
    then have "(\<Sum>dev\<in>{e * k..<e * k + e}. f (dev div e)) = (\<Sum>dev\<in>{e * k..<e * k + e}. f k)"
      by (intro sum.cong) auto
    then show ?thesis using assms(1) by simp
  qed
  then show ?thesis
    using sum_device_blocks [of e "\<lambda>dev. f (dev div e)" "nat g"] assms by (simp add: sum_distrib_left)
qed

text \<open>
  C18: with the experts divided evenly over the devices, \<open>e\<close> devices sharing each block of
  experts, the tokens a device sends, inside its node and across nodes together, and those that stay in
  its tensor-parallel group are the tokens of its batch, each counted once per device of the
  expert group it is routed to.
\<close>

theorem outer_traffic_conserves:
  assumes "e_tp_dg m = e" "0 < e" "num_device c * num_node c = e * g" "0 < g" "num_routed_expert m = q * (e * g)" "0 \<le> q"
    and "int (length (bs_local_num_token_in_expert seqs)) = num_routed_expert m"
  shows "\<exists>intra across. outer_traffic c m tp rank seqs = Inr (intra, across) \<and>
    intra + across + (\<Sum>dev\<in>{0..<e * g} \<inter> {cdiv rank tp * tp..<cdiv rank tp * tp + tp}.
        device_tokens (bs_local_num_token_in_expert seqs) (q * e) (dev div e)) =
      e * sum_list (bs_local_num_token_in_expert seqs)"
proof -
  let ?counts = "bs_local_num_token_in_expert seqs" and ?G = "{cdiv rank tp * tp..<cdiv rank tp * tp + tp}"
  let ?tok = "\<lambda>dev. device_tokens ?counts (q * e) (dev div e)"
  have tot: "0 < e * g" and qe: "0 \<le> q * e" using assms(2,4,6) by simp_all
  have len: "int (length ?counts) = (q * e) * g" using assms(5,7) by simp
  have per: "cdiv (num_routed_expert m) (e * g) = q" using assms(2,4-6) tot by auto
  have rng: "expert_range m (e * g) dev = irange ((q * e) * (dev div e)) ((q * e) * (dev div e) + q * e)" if "0 \<le> dev" for dev
    using that assms(1,2) by (simp add: expert_range_def Let_def per algebra_simps)
  have cnt: "count_tokens (Inr ?counts) (expert_range m (e * g) dev) = Inr (?tok dev)"
    if "dev \<in> set (irange 0 (e * g))" for dev
  proof -
    have "0 \<le> dev div e" using that assms(2) by (simp add: pos_imp_zdiv_nonneg_iff)
    moreover have "dev div e < g"
    proof -
      have "e * (dev div e) \<le> dev" using assms(2) by (simp add: minus_mod_eq_mult_div [symmetric])
      then have "e * (dev div e) < e * g" using that by auto
      then show ?thesis using assms(2) by simp
    qed
    ultimately show ?thesis using that len qe by (auto simp: rng intro!: device_tokens_block)
  qed
  obtain t where t: "outer_traffic c m tp rank seqs = Inr t"
    "fst t + snd t = sum_list (map ?tok (filter (\<lambda>dev. dev \<notin> ?G) (irange 0 (e * g))))"
    using traffic_loop_total [of "irange 0 (e * g)" ?G "\<lambda>dev. count_tokens (Inr ?counts) (expert_range m (e * g) dev)"
        ?tok "\<lambda>dev. cdiv dev 8 = cdiv rank (num_device c)" "(0, 0)"] cnt
    by (auto simp: outer_traffic_def Let_def assms(3))
  have "sum_list (map ?tok (filter (\<lambda>dev. dev \<notin> ?G) (irange 0 (e * g)))) = (\<Sum>dev\<in>{0..<e * g} - ?G. ?tok dev)"
    by (simp add: sum_list_distinct_conv_sum_set set_diff_eq)
  moreover have "(\<Sum>dev\<in>{0..<e * g} - ?G. ?tok dev) + (\<Sum>dev\<in>{0..<e * g} \<inter> ?G. ?tok dev) = (\<Sum>dev\<in>{0..<e * g}. ?tok dev)"
    using sum.Int_Diff [of "{0..<e * g}" ?tok ?G] by (simp add: add.commute)
  moreover have "(\<Sum>dev\<in>{0..<e * g}. ?tok dev) = e * sum_list ?counts"
    using sum_expert_groups [of e g "device_tokens ?counts (q * e)"] assms(2,4)
      sum_device_blocks [OF qe, where n = "nat g" and f = "\<lambda>e. ?counts ! nat e"] len
    by (simp add: device_tokens_def sum_list_counts [of ?counts])
  ultimately show ?thesis using t by (cases t) auto
qed

definition moe_model :: model_config where
  "moe_model = example_model\<lparr>ne_tp_dg := 1, e_tp_dg := 1\<rparr>"

definition moe_batch :: batched_sequence where
  "moe_batch = (BatchedSequence_Create 4 2)\<lparr>bs_local_num_token_in_expert := [5, 1, 2, 3], bs_sequence := [example_sequence]\<rparr>"

lemma moe_example_facts:
  "e_tp_dg moe_model = 1" "ne_tp_dg moe_model = 1" "num_routed_expert moe_model = 4" "num_device H100 = 2" "num_node H100 = 1"
  "bs_local_num_token_in_expert moe_batch = [5, 1, 2, 3]"
  by (simp_all add: moe_model_def moe_batch_def example_model_def ModelConfig_ctor_def H100_def SystemConfig_ctor_def)

theorem outer_traffic_conserves_witness:
  "\<exists>intra across. outer_traffic H100 (moe_model\<lparr>e_tp_dg := 2\<rparr>) 1 0 moe_batch = Inr (intra, across) \<and>
    intra + across + (5 + 1 + 2 + 3) = 2 * (5 + 1 + 2 + 3)"
proof -
  have tok: "device_tokens [5, 1, 2, 3] 4 0 = 11"
  proof -
    have "{0..<4} = {0, 1, 2, 3 :: int}" by auto
    then show ?thesis by (simp add: device_tokens_def)
  qed
  have g: "{0..<1} = {0 :: int}" by auto
  show ?thesis
    using outer_traffic_conserves [of "moe_model\<lparr>e_tp_dg := 2\<rparr>" 2 H100 1 2 moe_batch 1 0] by (simp add: moe_example_facts g tok)
qed

section \<open>Time of a scatter\<close>

lemma traffic_size_zero:
  assumes "0 < k" "0 < pb" "0 < deg"
  shows "traffic_size token k pb deg = 0 \<longleftrightarrow> token = 0"
  using assms by (simp add: traffic_size_def)

text \<open>
  an executed scatter moves the device clock by the longer of its sending and its receiving
  time when it has both to send and to receive; when one of the two is empty it charges nothing at all,
  not even the time of the other direction.
\<close>

theorem MoEScatter_forward_time:
  assumes "MoEScatter_forward m running seqs input ctl tbl d = Inr (outp, ctl', tbl', d')" "dv_perform_execution d"
    and "outer_traffic (dv_config d) m (ne_tp_dg m) (dv_total_rank d) seqs = Inr (si, sa)"
    and "replica_traffic (dv_config d) m (dv_total_rank d) running = Inr (ri, ra)"
    and "vec_ix (t_shape input) 1 = Inr k" "0 < k" "0 < t_precision_byte input" "0 < ne_tp_dg m"
  shows "sb_device_time (dv_status d') = sb_device_time (dv_status d) +
    (if si = 0 \<and> sa = 0 \<or> ri = 0 \<and> ra = 0 then 0
     else max (traffic_time (dv_config d) seqs (traffic_size si k (t_precision_byte input) (ne_tp_dg m))
                 (traffic_size sa k (t_precision_byte input) (ne_tp_dg m)))
              (traffic_time (dv_config d) seqs (traffic_size ri k (t_precision_byte input) (ne_tp_dg m))
                 (traffic_size ra k (t_precision_byte input) (ne_tp_dg m))))"
proof -
  note z = traffic_size_zero [OF assms(6-8)]
  obtain m0 where "vec_ix (t_shape input) 0 = Inr m0" using assms(1) by (auto simp: MoEScatter_forward_def Let_def rbind_eq_Inr)
  moreover obtain c1 t1 y where "get_activation ctl tbl ''moe_scatter_output'' (t_shape input) True = Inr (c1, t1, y)"
    using assms(1) by (auto simp: MoEScatter_forward_def Let_def rbind_eq_Inr)
  ultimately show ?thesis
    using assms(1-5) by (auto simp: MoEScatter_forward_def Let_def z add_leaf_time_clocks split: if_splits)
qed

theorem MoEScatter_forward_time_witness:
  "\<exists>outp ctl' tbl' d'. MoEScatter_forward moe_model [moe_batch, moe_batch\<lparr>bs_local_num_token_in_expert := [0, 0, 4, 4]\<rparr>] moe_batch
      linear_input (MMapController_ctor hbm3_80GB)
      [(''moe_scatter_output'', Tensor_ctor ''moe_scatter_output'' [1, 1] ''act'' (Some 0) 2 ALL_CHANNEL)]
      (setPerformExecution True example_device) = Inr (outp, ctl', tbl', d') \<and>
    sb_device_time (dv_status d') = sb_device_time (dv_status (setPerformExecution True example_device))"
proof -
  let ?r = "[moe_batch, moe_batch\<lparr>bs_local_num_token_in_expert := [0, 0, 4, 4]\<rparr>]" and ?d = "setPerformExecution True example_device"
  let ?tbl = "[(''moe_scatter_output'', Tensor_ctor ''moe_scatter_output'' [1, 1] ''act'' (Some 0) 2 ALL_CHANNEL)]"
  have c: "dv_config ?d = H100" "dv_perform_execution ?d" "dv_total_rank ?d = 0"
    by (simp_all add: setPerformExecution_def example_device_def Device_ctor_def device_memory_def H100_def SystemConfig_ctor_def)
  have x: "t_shape linear_input = [16, 4096]" "t_precision_byte linear_input = 2"
    by (simp_all add: linear_input_def setPerformHigh_def Tensor_ctor_def)
  have r: "irange 0 2 = [0, 1]" "irange 2 4 = [2, 3]" "irange 0 1 = [0]" by (simp_all add: irange_def upt_rec)
  have s: "outer_traffic H100 moe_model 1 0 moe_batch = Inr (5, 0)"
    by (simp add: outer_traffic_def moe_example_facts r expert_range_def count_tokens_def vec_ix_def add_traffic_def Let_def)
  have p: "replica_traffic H100 moe_model 0 ?r = Inr (0, 0)"
    by (simp add: replica_traffic_def moe_example_facts r expert_range_def count_tokens_def vec_ix_def add_traffic_def Let_def)
  have "\<exists>outp ctl' tbl' d'. MoEScatter_forward moe_model ?r moe_batch linear_input (MMapController_ctor hbm3_80GB) ?tbl ?d = Inr (outp, ctl', tbl', d')"
    by (simp add: MoEScatter_forward_def c x s p moe_example_facts vec_ix_def Let_def traffic_size_def get_activation_def Tensor_ctor_def
        tensor_setMemoryObject_def assertFalse_def ctl_setMemoryObject_def setNormal_def tensor_set_def)
  then obtain outp ctl' tbl' d' where run: "MoEScatter_forward moe_model ?r moe_batch linear_input (MMapController_ctor hbm3_80GB) ?tbl ?d
      = Inr (outp, ctl', tbl', d')" by blast
  from MoEScatter_forward_time [OF run c(2), of 5 0 0 0 4096] run show ?thesis
    by (simp add: c s p x moe_example_facts vec_ix_def)
qed

end
