(* ===== verification/Expert_Route.thy ===== *)
theory Expert_Route
  imports Batch_Scheduler Tensor_Model
begin

text \<open>
  Mixture-of-experts routing: \<^verbatim>\<open>src/module/route.cpp\<close>. The split of the experts of a
  device between the GPU (high) and the near-memory unit (low), the aggregation of the token counters
  over the data-parallel batches, and the marks \<^verbatim>\<open>Route::forward\<close> puts on the expert
  inputs. \<^verbatim>\<open>std::sort\<close> fixes no order between equal elements: it is the parameter
  \<open>srt\<close>, of which only the contract of the C++ standard is used.
\<close>

section \<open>Time of an expert on each side\<close>

definition high_opb :: "system_config \<Rightarrow> real" where
  "high_opb c = fdiv (compute_peak_flops c) (memory_bandwidth c * 0.75)"

definition high_cost :: "system_config \<Rightarrow> int \<Rightarrow> real" where
  "high_cost c num_token = max 1 (fdiv (of_int num_token) (high_opb c))"

definition low_cost :: "system_config \<Rightarrow> int \<Rightarrow> real" where
  "low_cost c num_token = fdiv (max 1 (fdiv (of_int num_token) (logic_op_b c) * 0.75)) (of_int (logic_x c))"

text \<open>
  The loop of both functions, over entries of ids with their high and low times: take entries while
  the longer side gets shorter.
\<close>

fun move_high :: "(int list \<times> real \<times> real) list \<Rightarrow> real \<Rightarrow> real \<Rightarrow> real \<Rightarrow> int list \<Rightarrow> int list" where
  "move_high [] high_time low_time best high_list = high_list"
| "move_high ((ids, h, l) # es) high_time low_time best high_list =
     (let high_time = high_time + h; low_time = low_time - l; temp = max high_time low_time
      in if best > temp then move_high es high_time low_time temp (high_list @ ids) else high_list)"

definition single_entry :: "system_config \<Rightarrow> int \<times> int \<Rightarrow> int list \<times> real \<times> real" where
  "single_entry c e = ([fst e], high_cost c (snd e), low_cost c (snd e))"

definition getIdxHighOptimal :: "((int \<times> int) list \<Rightarrow> (int \<times> int) list) \<Rightarrow> system_config \<Rightarrow> int list \<Rightarrow> int list" where
  "getIdxHighOptimal srt c xs =
     (let low_time = fold (\<lambda>element t. t + low_cost c element) xs 0;
          expert_list = srt (zip (irange 0 (int (length xs))) xs)
      in move_high (map (single_entry c) expert_list) 0 low_time (max 0 low_time) [])"

definition group_entry :: "system_config \<Rightarrow> int list \<times> int list \<Rightarrow> int list \<times> real \<times> real" where
  "group_entry c g = (fst g, fold (\<lambda>n t. t + high_cost c n) (snd g) 0, fold (\<lambda>n t. t + low_cost c n) (snd g) 0)"

text \<open>More than four experts are moved in four groups of neighbours.\<close>

definition expert_groups :: "int list \<Rightarrow> (int list \<times> int list) list" where
  "expert_groups xs = (let group_size = length xs div 4 in
     map (\<lambda>g. (map int [g * group_size..<g * group_size + group_size],
               map (\<lambda>id. xs ! (g * group_size + id)) [0..<group_size])) [0..<4])"

definition getIdxHigh ::
  "((int \<times> int) list \<Rightarrow> (int \<times> int) list) \<Rightarrow> ((int list \<times> int list) list \<Rightarrow> (int list \<times> int list) list) \<Rightarrow>
     system_config \<Rightarrow> int list \<Rightarrow> int list res" where
  "getIdxHigh srt srt_vec c xs =
     (if length xs \<le> 4 then Inr (getIdxHighOptimal srt c xs) else
      rbind (assertTrue (length xs mod 4 = 0) ''Expert group size is not mached'') (\<lambda>_.
      let low_time = fold (\<lambda>element t. t + low_cost c element) xs 0
      in Inr (move_high (map (group_entry c) (srt_vec (expert_groups xs))) 0 low_time (max 0 low_time) [])))"

text \<open>The comparisons \<^verbatim>\<open>cmp\<close> and \<^verbatim>\<open>cmp_vec\<close>, and what a sort by them returns.\<close>

definition cmp :: "int \<times> int \<Rightarrow> int \<times> int \<Rightarrow> bool" where
  "cmp a b \<longleftrightarrow> snd a > snd b"

definition cmp_vec :: "int list \<times> int list \<Rightarrow> int list \<times> int list \<Rightarrow> bool" where
  "cmp_vec a b \<longleftrightarrow> fold (\<lambda>i t. t + i) (snd a) 0 > fold (\<lambda>i t. t + i) (snd b) 0"

definition sorts_by :: "('a \<Rightarrow> 'a \<Rightarrow> bool) \<Rightarrow> ('a list \<Rightarrow> 'a list) \<Rightarrow> bool" where
  "sorts_by before srt \<longleftrightarrow> (\<forall>xs. mset (srt xs) = mset xs \<and> sorted_wrt (\<lambda>a b. \<not> before b a) (srt xs))"

section \<open>The greedy choice\<close>

definition high_sum :: "(int list \<times> real \<times> real) list \<Rightarrow> real" where
  "high_sum es = sum_list (map (fst \<circ> snd) es)"

definition low_sum :: "(int list \<times> real \<times> real) list \<Rightarrow> real" where
  "low_sum es = sum_list (map (snd \<circ> snd) es)"

lemma high_low_sum_simps [simp]:
  "high_sum [] = 0" "low_sum [] = 0" "high_sum (e # es) = fst (snd e) + high_sum es"
  "low_sum (e # es) = snd (snd e) + low_sum es"
  "high_sum (xs @ ys) = high_sum xs + high_sum ys" "low_sum (xs @ ys) = low_sum xs + low_sum ys"
  by (simp_all add: high_sum_def low_sum_def)

text \<open>
  The longer side falls and then rises along the prefixes, so the first prefix that does not improve
  ends the search: the loop stops at a best prefix.
\<close>

lemma high_sum_nonneg: "\<forall>e\<in>set es. 0 \<le> fst (snd e) \<Longrightarrow> 0 \<le> high_sum es"
  by (induction es) auto

lemma move_high_best_prefix:
  assumes "\<forall>e\<in>set es. 0 \<le> fst (snd e) \<and> 0 < snd (snd e)"
  shows "\<exists>k \<le> length es. move_high es h l (max h l) acc = acc @ concat (map fst (take k es)) \<and>
    (\<forall>j \<le> length es. max (h + high_sum (take k es)) (l - low_sum (take k es)) \<le>
       max (h + high_sum (take j es)) (l - low_sum (take j es)))"
  using assms
proof (induction es arbitrary: h l acc)
  case Nil
  show ?case by simp
next
  case (Cons e es)
  obtain ids a b where e: "e = (ids, a, b)" by (cases e) auto
  have ab: "0 \<le> a" "0 < b" using Cons.prems by (simp_all add: e)
  show ?case
  proof (cases "max h l > max (h + a) (l - b)")
    case True
    obtain k where k: "k \<le> length es"
      "move_high es (h + a) (l - b) (max (h + a) (l - b)) (acc @ ids) = (acc @ ids) @ concat (map fst (take k es))"
      and best: "\<forall>j \<le> length es. max (h + a + high_sum (take k es)) (l - b - low_sum (take k es)) \<le>
        max (h + a + high_sum (take j es)) (l - b - low_sum (take j es))"
      using Cons.IH [of "h + a" "l - b" "acc @ ids"] Cons.prems by auto
    have le: "max (h + a + high_sum (take k es)) (l - b - low_sum (take k es)) \<le> max h l"
      using best True by (auto dest: spec [of _ 0])
    have "max (h + high_sum (take (Suc k) (e # es))) (l - low_sum (take (Suc k) (e # es))) \<le>
        max (h + high_sum (take j (e # es))) (l - low_sum (take j (e # es)))" if "j \<le> length (e # es)" for j
      using that best le by (cases j) (auto simp: e algebra_simps)
    then show ?thesis using k True by (intro exI [of _ "Suc k"]) (simp add: e Let_def)
  next
    case False
    have high: "max h l \<le> h + a" using False ab by (auto simp: max_def split: if_splits)
    have "max h l \<le> max (h + high_sum (take j (e # es))) (l - low_sum (take j (e # es)))" for j
    proof (cases j)
      case (Suc i)
      have "0 \<le> high_sum (take i es)"
        using Cons.prems by (intro high_sum_nonneg) (auto dest: in_set_takeD)
      with high Suc show ?thesis by (simp add: e le_max_iff_disj)
    qed simp
    moreover have "move_high (e # es) h l (max h l) acc = acc" using False by (auto simp: e Let_def)
    ultimately show ?thesis by (intro exI [of _ 0]) auto
  qed
qed

lemma cost_positive: "0 < logic_x c \<Longrightarrow> 0 < low_cost c n" "0 \<le> high_cost c n" "1 \<le> high_cost c n"
  by (simp_all add: low_cost_def high_cost_def less_max_iff_disj le_max_iff_disj)

text \<open>Time of a split: what the GPU and the near-memory unit take on their shares.\<close>

definition split_time :: "system_config \<Rightarrow> (int \<times> int) list \<Rightarrow> (int \<times> int) list \<Rightarrow> real" where
  "split_time c hi lo = max (sum_list (map (high_cost c \<circ> snd) hi)) (sum_list (map (low_cost c \<circ> snd) lo))"

lemma single_entry_sums:
  "high_sum (map (single_entry c) es) = sum_list (map (high_cost c \<circ> snd) es)"
  "low_sum (map (single_entry c) es) = sum_list (map (low_cost c \<circ> snd) es)"
  by (induction es) (simp_all add: single_entry_def)

lemma concat_single_entry: "concat (map fst (map (single_entry c) es)) = map fst es"
  by (induction es) (simp_all add: single_entry_def)

lemma sum_list_take_drop: "sum_list (map f es) - sum_list (map f (take k es)) = (sum_list (map f (drop k es)) :: real)"
  by (subst append_take_drop_id [of k es, symmetric], subst map_append, subst sum_list_append) simp

lemma sorts_by_facts:
  assumes "sorts_by before srt"
  shows "mset (srt xs) = mset xs" "length (srt xs) = length xs" "set (srt xs) = set xs"
    "sorted_wrt (\<lambda>a b. \<not> before b a) (srt xs)"
  using assms by (auto simp: sorts_by_def dest: mset_eq_length mset_eq_setD)

lemma numbered_facts:
  fixes xs :: "int list"
  shows "map fst (zip (irange 0 (int (length xs))) xs) = irange 0 (int (length xs))"
    "map snd (zip (irange 0 (int (length xs))) xs) = xs" "length (zip (irange 0 (int (length xs))) xs) = length xs"
    "(i, n) \<in> set (zip (irange 0 (int (length xs))) xs) \<longleftrightarrow> 0 \<le> i \<and> i < int (length xs) \<and> n = xs ! nat i"
  by (auto simp: set_zip) (rule exI [of _ "nat i"]; simp)

lemma low_total:
  assumes "mset es = mset (zip (irange 0 (int (length xs))) xs)"
  shows "sum_list (map (low_cost c \<circ> snd) es) = fold (\<lambda>element t. t + low_cost c element) xs 0"
proof -
  have "sum_list (map (low_cost c \<circ> snd) es) = sum_list (map (low_cost c \<circ> snd) (zip (irange 0 (int (length xs))) xs))"
    using assms by (metis mset_map sum_mset_sum_list)
  also have "\<dots> = sum_list (map (low_cost c) xs)"
    by (metis map_map numbered_facts(2))
  finally show ?thesis by (simp add: fold_plus_sum_list)
qed

lemma in_map_fst_iff: "i \<in> set (map fst xs) \<longleftrightarrow> (\<exists>n. (i, n) \<in> set xs)"
  by (induction xs) auto

lemma busier_first:
  assumes "sorted_wrt (\<lambda>a b. \<not> cmp b a) es" "set es = set (zip (irange 0 (int (length xs))) xs)"
    and "i \<in> set (map fst (take k es))" "j \<in> {0..<int (length xs)} - set (map fst (take k es))"
  shows "xs ! nat j \<le> xs ! nat i"
proof -
  obtain m where m: "(i, m) \<in> set (take k es)" using assms(3) unfolding in_map_fst_iff by blast
  then have "(i, m) \<in> set es" by (rule in_set_takeD)
  then have im: "m = xs ! nat i" by (simp add: assms(2) numbered_facts(4))
  have "(j, xs ! nat j) \<in> set es" using assms(4) by (simp add: assms(2) numbered_facts(4))
  then have "(j, xs ! nat j) \<in> set (take k es) \<union> set (drop k es)"
    by (metis append_take_drop_id set_append)
  moreover have "(j, xs ! nat j) \<notin> set (take k es)" using assms(4) in_map_fst_iff [of j "take k es"] by blast
  ultimately have j: "(j, xs ! nat j) \<in> set (drop k es)" by blast
  have "sorted_wrt (\<lambda>a b. \<not> cmp b a) (take k es @ drop k es)" using assms(1) by simp
  with m j have "\<not> cmp (j, xs ! nat j) (i, m)" unfolding sorted_wrt_append by blast
  then show ?thesis by (simp add: cmp_def im)
qed

text \<open>
  C10: however the sort orders equal experts, the experts sent to the GPU are the first ones of an
  order by load, and no other prefix of that order finishes earlier; no expert left to the near-memory
  unit has more tokens than one sent to the GPU, and no expert is sent twice.
\<close>

theorem getIdxHighOptimal_best_prefix:
  assumes "sorts_by cmp srt" "0 < logic_x c"
  shows "\<exists>es k. mset es = mset (zip (irange 0 (int (length xs))) xs) \<and> k \<le> length es \<and>
    getIdxHighOptimal srt c xs = map fst (take k es) \<and>
    (\<forall>j \<le> length es. split_time c (take k es) (drop k es) \<le> split_time c (take j es) (drop j es)) \<and>
    distinct (getIdxHighOptimal srt c xs) \<and>
    (\<forall>i j. i \<in> set (getIdxHighOptimal srt c xs) \<and> j \<in> {0..<int (length xs)} - set (getIdxHighOptimal srt c xs) \<longrightarrow>
       xs ! nat j \<le> xs ! nat i)"
proof -
  define nl where "nl = zip (irange 0 (int (length xs))) xs"
  define es where "es = srt nl"
  note es = sorts_by_facts [OF assms(1), of nl, folded es_def]
  let ?L = "fold (\<lambda>element t. t + low_cost c element) xs 0"
  have tot: "?L = sum_list (map (low_cost c \<circ> snd) es)"
    using low_total [of es xs c] es(1) by (simp add: nl_def)
  have "\<forall>e\<in>set (map (single_entry c) es). 0 \<le> fst (snd e) \<and> 0 < snd (snd e)"
    using assms(2) by (auto simp: single_entry_def cost_positive)
  from move_high_best_prefix [OF this, of 0 ?L "[]"] obtain k where k: "k \<le> length es"
    and mv: "move_high (map (single_entry c) es) 0 ?L (max 0 ?L) [] = concat (map fst (take k (map (single_entry c) es)))"
    and best: "\<forall>j \<le> length es. max (high_sum (take k (map (single_entry c) es))) (?L - low_sum (take k (map (single_entry c) es))) \<le>
      max (high_sum (take j (map (single_entry c) es))) (?L - low_sum (take j (map (single_entry c) es)))"
    by (simp only: length_map append_Nil add_0) blast
  have run: "getIdxHighOptimal srt c xs = map fst (take k es)"
    unfolding getIdxHighOptimal_def Let_def nl_def [symmetric] es_def [symmetric] mv take_map
    by (rule concat_single_entry)
  have "split_time c (take k es) (drop k es) \<le> split_time c (take j es) (drop j es)" if "j \<le> length es" for j
    using best that by (simp add: split_time_def take_map single_entry_sums tot sum_list_take_drop)
  moreover have ids: "distinct (map fst es)" "set es = set nl"
    using es(1) numbered_facts(1) [of xs] by (metis distinct_irange mset_eq_imp_distinct_iff mset_map nl_def, simp add: es(3))
  then have "distinct (getIdxHighOptimal srt c xs)" by (simp add: run take_map [symmetric] distinct_take)
  moreover have "xs ! nat j \<le> xs ! nat i"
    if "i \<in> set (map fst (take k es))" "j \<in> {0..<int (length xs)} - set (map fst (take k es))" for i j
    using busier_first [OF es(4) ids(2) [unfolded nl_def] that] .
  ultimately show ?thesis
    using k es(1) run by (intro exI [of _ es] exI [of _ k]) (auto simp: nl_def)
qed

lemma sort_key_sorts_by:
  assumes "\<And>a b. before a b \<longleftrightarrow> key a > key b"
  shows "sorts_by before (sort_key (\<lambda>x. - (key x :: int)))"
proof -
  have "sorted_wrt (\<lambda>a b. \<not> before b a) (sort_key (\<lambda>x. - key x) xs)" for xs
  proof -
    have "sorted_wrt (\<lambda>a b. - key a \<le> - key b) (sort_key (\<lambda>x. - key x) xs)"
      using sorted_sort_key [of "\<lambda>x. - key x" xs] by (simp add: sorted_wrt_map)
    then show ?thesis by (rule sorted_wrt_mono_rel [rotated]) (simp add: assms)
  qed
  then show ?thesis by (simp add: sorts_by_def)
qed

theorem getIdxHighOptimal_best_prefix_witness:
  "distinct (getIdxHighOptimal (sort_key (\<lambda>e. - snd e)) H100 [4000, 3, 90]) \<and>
   (\<exists>es k. mset es = mset [(0, 4000), (1, 3), (2, 90)] \<and>
     getIdxHighOptimal (sort_key (\<lambda>e. - snd e)) H100 [4000, 3, 90] = map fst (take k es) \<and>
     split_time H100 (take k es) (drop k es) \<le> split_time H100 [] es)"
proof -
  have s: "sorts_by cmp (sort_key (\<lambda>e. - snd e))" by (rule sort_key_sorts_by) (simp add: cmp_def)
  have x: "0 < logic_x H100" by (simp add: H100_def SystemConfig_ctor_def)
  have z: "zip (irange 0 (int (length [4000, 3, 90 :: int]))) [4000, 3, 90 :: int] = [(0, 4000), (1, 3), (2, 90)]"
    by (simp add: irange_def upt_rec)
  from getIdxHighOptimal_best_prefix [OF s x, of "[4000, 3, 90]"] show ?thesis
    unfolding z by (metis drop0 le0 take0)
qed

section \<open>The split of \<^verbatim>\<open>getIdxHigh\<close>\<close>

lemma sum_list_pos: "xs \<noteq> [] \<Longrightarrow> \<forall>i. 0 < f i \<Longrightarrow> 0 < sum_list (map f xs :: real list)"
proof (induction xs)
  case (Cons x xs)
  then show ?case by (cases "xs = []") (auto intro: add_pos_pos)
qed simp

lemma entry_sums:
  assumes "\<forall>e\<in>set es. fst (snd e) = sum_list (map H (fst e)) \<and> snd (snd e) = sum_list (map L (fst e))"
  shows "high_sum es = sum_list (map H (concat (map fst es)))" "low_sum es = sum_list (map L (concat (map fst es)))"
  using assms by (induction es) auto

lemma move_high_sides:
  assumes ent: "\<forall>e\<in>set es. fst e \<noteq> [] \<and> fst (snd e) = sum_list (map H (fst e)) \<and> snd (snd e) = sum_list (map L (fst e))"
    and ids: "distinct (concat (map fst es))" "set (concat (map fst es)) = A"
    and pos: "\<forall>i. 0 \<le> H i" "\<forall>i. 0 < (L i :: real)"
  shows "distinct (move_high es 0 (sum L A) (max 0 (sum L A)) []) \<and> set (move_high es 0 (sum L A) (max 0 (sum L A)) []) \<subseteq> A \<and>
    max (sum H (set (move_high es 0 (sum L A) (max 0 (sum L A)) [])))
      (sum L (A - set (move_high es 0 (sum L A) (max 0 (sum L A)) []))) \<le> sum L A"
proof -
  have "\<forall>e\<in>set es. 0 \<le> fst (snd e) \<and> 0 < snd (snd e)"
  proof
    fix e assume "e \<in> set es"
    with ent have e: "fst e \<noteq> []" "fst (snd e) = sum_list (map H (fst e))" "snd (snd e) = sum_list (map L (fst e))"
      by blast+
    show "0 \<le> fst (snd e) \<and> 0 < snd (snd e)"
      using e sum_list_pos [OF e(1) pos(2)] pos(1) by (auto intro!: sum_list_nonneg)
  qed
  from move_high_best_prefix [OF this, of 0 "sum L A" "[]"] obtain k
    where run: "move_high es 0 (sum L A) (max 0 (sum L A)) [] = concat (map fst (take k es))"
    and best: "\<forall>j \<le> length es. max (high_sum (take k es)) (sum L A - low_sum (take k es)) \<le>
      max (high_sum (take j es)) (sum L A - low_sum (take j es))"
    by (simp only: append_Nil add_0) blast
  define R where "R = concat (map fst (take k es))"
  have "concat (map fst es) = R @ concat (map fst (drop k es))"
    unfolding R_def by (metis append_take_drop_id concat_append map_append)
  then have R: "distinct R" "set R \<subseteq> A" "finite A" using ids by auto
  have "high_sum (take k es) = sum_list (map H R)" "low_sum (take k es) = sum_list (map L R)"
    unfolding R_def using ent by (intro entry_sums; auto dest: in_set_takeD)+
  then have "high_sum (take k es) = sum H (set R)" "low_sum (take k es) = sum L (set R)"
    using R(1) by (simp_all add: sum_list_distinct_conv_sum_set)
  moreover have "sum L (A - set R) = sum L A - sum L (set R)" using R by (simp add: sum_diff)
  moreover have "max (high_sum (take k es)) (sum L A - low_sum (take k es)) \<le> max 0 (sum L A)"
    using best by (auto dest: spec [of _ 0])
  moreover have "0 \<le> sum L A" using pos(2) by (intro sum_nonneg) (simp add: less_imp_le)
  ultimately show ?thesis using R unfolding run R_def [symmetric] by simp
qed

lemma expert_groups_facts:
  assumes "4 < length xs" "length xs mod 4 = 0"
  shows "concat (map fst (expert_groups xs)) = irange 0 (int (length xs))"
    "\<forall>g\<in>set (expert_groups xs). fst g \<noteq> [] \<and> snd g = map (\<lambda>i. xs ! nat i) (fst g)"
proof -
  define q where "q = length xs div 4"
  have len: "length xs = q + q + q + q" and q: "0 < q" using assms by (auto simp: q_def)
  have seg: "[0..<length xs] = [0..<q] @ [q..<q + q] @ [q + q..<q + q + q] @ [q + q + q..<q + q + q + q]"
    using upt_add_eq_append [of 0 q q] upt_add_eq_append [of 0 "q + q" q] upt_add_eq_append [of 0 "q + q + q" q]
    by (simp only: len zero_le append_assoc simp_thms)
  have four: "[0..<4] = [0, 1, 2, 3 :: nat]" by (simp add: upt_rec)
  have "concat (map fst (expert_groups xs)) = map int [0..<length xs]"
    unfolding expert_groups_def Let_def q_def [symmetric] four seg by (simp add: add.assoc mult_2 numeral_3_eq_3)
  then show "concat (map fst (expert_groups xs)) = irange 0 (int (length xs))" by (simp add: irange_def)
  show "\<forall>g\<in>set (expert_groups xs). fst g \<noteq> [] \<and> snd g = map (\<lambda>i. xs ! nat i) (fst g)"
    using q unfolding expert_groups_def Let_def q_def [symmetric]
    by (auto simp: o_def intro!: nth_equalityI)
qed

lemma fold_low_total: "fold (\<lambda>element t. t + low_cost c element) xs 0 = (\<Sum>i\<in>{0..<int (length xs)}. low_cost c (xs ! nat i))"
proof -
  have "(\<Sum>i\<in>{0..<int (length xs)}. low_cost c (xs ! nat i)) = sum_list (map (\<lambda>i. low_cost c (xs ! nat i)) (irange 0 (int (length xs))))"
    by (simp add: sum_list_distinct_conv_sum_set)
  also have "map (\<lambda>i. low_cost c (xs ! nat i)) (irange 0 (int (length xs))) = map (low_cost c) xs"
    by (intro nth_equalityI) simp_all
  finally show ?thesis by (simp add: fold_plus_sum_list)
qed

lemma mset_concat_cong: "mset xs = mset ys \<Longrightarrow> mset (concat (map f xs)) = mset (concat (map f ys))"
  by (metis mset_concat mset_map sum_mset_sum_list map_map)

text \<open>What routing relies on: a set of expert numbers that does not make the layer slower.\<close>

definition good_split :: "system_config \<Rightarrow> int list \<Rightarrow> int list \<Rightarrow> bool" where
  "good_split c xs H \<longleftrightarrow> distinct H \<and> set H \<subseteq> {0..<int (length xs)} \<and>
     max (\<Sum>i\<in>set H. high_cost c (xs ! nat i)) (\<Sum>i\<in>{0..<int (length xs)} - set H. low_cost c (xs ! nat i))
       \<le> (\<Sum>i\<in>{0..<int (length xs)}. low_cost c (xs ! nat i))"

lemma good_split_entries:
  assumes "\<forall>e\<in>set es. fst e \<noteq> [] \<and> fst (snd e) = sum_list (map (\<lambda>i. high_cost c (xs ! nat i)) (fst e)) \<and>
      snd (snd e) = sum_list (map (\<lambda>i. low_cost c (xs ! nat i)) (fst e))"
    and "mset (concat (map fst es)) = mset (irange 0 (int (length xs)))" "0 < logic_x c"
    and "t = fold (\<lambda>element t. t + low_cost c element) xs 0"
  shows "good_split c xs (move_high es 0 t (max 0 t) [])"
proof -
  have d: "distinct (concat (map fst es))" using assms(2) by (metis distinct_irange mset_eq_imp_distinct_iff)
  have a: "set (concat (map fst es)) = {0..<int (length xs)}" using assms(2) by (metis mset_eq_setD set_irange)
  have "\<forall>i. 0 \<le> high_cost c (xs ! nat i)" "\<forall>i. 0 < low_cost c (xs ! nat i)" using assms(3) by (simp_all add: cost_positive)
  from move_high_sides [OF assms(1) d a this] show ?thesis
    unfolding good_split_def assms(4) fold_low_total by blast
qed

lemma getIdxHigh_good:
  assumes "sorts_by cmp srt" "sorts_by cmp_vec srt_vec" "0 < logic_x c" "getIdxHigh srt srt_vec c xs = Inr H"
  shows "good_split c xs H"
proof (cases "length xs \<le> 4")
  case True
  define es where "es = srt (zip (irange 0 (int (length xs))) xs)"
  have m: "mset es = mset (zip (irange 0 (int (length xs))) xs)"
    using assms(1) by (simp add: es_def sorts_by_facts)
  have "\<forall>e\<in>set (map (single_entry c) es). fst e \<noteq> [] \<and>
      fst (snd e) = sum_list (map (\<lambda>i. high_cost c (xs ! nat i)) (fst e)) \<and>
      snd (snd e) = sum_list (map (\<lambda>i. low_cost c (xs ! nat i)) (fst e))"
    using mset_eq_setD [OF m] by (auto simp: single_entry_def numbered_facts(4))
  moreover have "mset (concat (map fst (map (single_entry c) es))) = mset (irange 0 (int (length xs)))"
    unfolding concat_single_entry using m by (metis mset_map numbered_facts(1))
  ultimately have "good_split c xs (getIdxHighOptimal srt c xs)"
    unfolding getIdxHighOptimal_def Let_def es_def [symmetric] using assms(3) by (intro good_split_entries) auto
  then show ?thesis using assms(4) True by (simp add: getIdxHigh_def)
next
  case False
  then have len: "4 < length xs" "length xs mod 4 = 0" and H: "H = move_high (map (group_entry c) (srt_vec (expert_groups xs))) 0
      (fold (\<lambda>element t. t + low_cost c element) xs 0) (max 0 (fold (\<lambda>element t. t + low_cost c element) xs 0)) []"
    using assms(4) by (auto simp: getIdxHigh_def rbind_eq_Inr Let_def)
  note g = expert_groups_facts [OF len] and srt = sorts_by_facts [OF assms(2), of "expert_groups xs"]
  have "\<forall>e\<in>set (map (group_entry c) (srt_vec (expert_groups xs))). fst e \<noteq> [] \<and>
      fst (snd e) = sum_list (map (\<lambda>i. high_cost c (xs ! nat i)) (fst e)) \<and>
      snd (snd e) = sum_list (map (\<lambda>i. low_cost c (xs ! nat i)) (fst e))"
    using g(2) srt(3) by (auto simp: group_entry_def fold_plus_sum_list o_def)
  moreover have "mset (concat (map fst (map (group_entry c) (srt_vec (expert_groups xs))))) = mset (irange 0 (int (length xs)))"
    using mset_concat_cong [OF srt(1), of fst] g(1) by (simp add: group_entry_def o_def)
  ultimately show ?thesis unfolding H by (intro good_split_entries [OF _ _ assms(3)]) auto
qed

text \<open>
  C36: with four experts or fewer, or a multiple of four, the split names each expert at most once
  and finishes no later than leaving every expert to the near-memory unit; any other number of
  experts fails the group-size assertion.
\<close>

theorem getIdxHigh_sound:
  assumes "sorts_by cmp srt" "sorts_by cmp_vec srt_vec" "0 < logic_x c"
  shows "if length xs \<le> 4 \<or> length xs mod 4 = 0
    then \<exists>H. getIdxHigh srt srt_vec c xs = Inr H \<and> good_split c xs H
    else getIdxHigh srt srt_vec c xs = Inl (Fail ''Expert group size is not mached'')"
proof (cases "length xs \<le> 4 \<or> length xs mod 4 = 0")
  case True
  then have "\<exists>H. getIdxHigh srt srt_vec c xs = Inr H"
    by (cases "length xs \<le> 4") (simp_all add: getIdxHigh_def Let_def)
  then obtain H where "getIdxHigh srt srt_vec c xs = Inr H" by blast
  with getIdxHigh_good [OF assms this] True show ?thesis by auto
qed (simp add: getIdxHigh_def)

abbreviation std_sort :: "(int \<times> int) list \<Rightarrow> (int \<times> int) list" where
  "std_sort \<equiv> sort_key (\<lambda>e. - snd e)"

abbreviation std_sort_vec :: "(int list \<times> int list) list \<Rightarrow> (int list \<times> int list) list" where
  "std_sort_vec \<equiv> sort_key (\<lambda>g. - fold (\<lambda>i t. t + i) (snd g) 0)"

lemma std_sort_sorts: "sorts_by cmp std_sort" "sorts_by cmp_vec std_sort_vec"
  by (rule sort_key_sorts_by; simp add: cmp_def cmp_vec_def)+

lemma H100_logic_x: "0 < logic_x H100"
  by (simp add: H100_def SystemConfig_ctor_def)

theorem getIdxHigh_sound_witness:
  "(\<exists>H. getIdxHigh std_sort std_sort_vec H100 [900, 800, 1, 2, 3, 4, 5, 6] = Inr H \<and>
      good_split H100 [900, 800, 1, 2, 3, 4, 5, 6] H) \<and>
   getIdxHigh std_sort std_sort_vec H100 [1, 2, 3, 4, 5] = Inl (Fail ''Expert group size is not mached'')"
  using getIdxHigh_sound [OF std_sort_sorts H100_logic_x, of "[900, 800, 1, 2, 3, 4, 5, 6]"]
    getIdxHigh_sound [OF std_sort_sorts H100_logic_x, of "[1, 2, 3, 4, 5]"] by simp

section \<open>\<^verbatim>\<open>Route::forward\<close>\<close>

definition route_mark ::
  "(system_config \<Rightarrow> int list \<Rightarrow> int list res) \<Rightarrow> system_config \<Rightarrow> int list \<Rightarrow> int \<Rightarrow> int \<Rightarrow> tensor \<Rightarrow> tensor res" where
  "route_mark split c tokens expert_offset expert_idx t =
     (if hetero_subbatch c then Inr (setPerformLow t)
      else if parallel_execution c then
        rbind (split c tokens) (\<lambda>high.
        Inr (if expert_idx - expert_offset \<in> set high then setPerformHigh t else setPerformLow t))
      else if use_low_unit_moe_only c then Inr (setPerformLow t)
      else Inr (t\<lparr>t_perform_with_optimal := True\<rparr>))"

definition route_one ::
  "(system_config \<Rightarrow> int list \<Rightarrow> int list res) \<Rightarrow> system_config \<Rightarrow> int list \<Rightarrow> int list \<Rightarrow> int list \<Rightarrow> int \<Rightarrow> int \<Rightarrow>
     mmap_ctl \<times> (string \<times> tensor) list \<times> tensor list \<Rightarrow> (mmap_ctl \<times> (string \<times> tensor) list \<times> tensor list) res" where
  "route_one split c counts tokens input_shape expert_offset expert_idx st =
     (let (ctl, tbl, output_vec) = st; nm = ''expert_input_'' @ to_string expert_idx in
      rbind (vec_ix counts expert_idx) (\<lambda>n. rbind (vec_ix input_shape 1) (\<lambda>k.
      rbind (get_activation ctl tbl nm [n, k] True) (\<lambda>(ctl, tbl, t).
      rbind (route_mark split c tokens expert_offset expert_idx t) (\<lambda>t.
      Inr (ctl, AList.update nm t tbl, output_vec @ [t]))))))"

definition route_forward ::
  "(system_config \<Rightarrow> int list \<Rightarrow> int list res) \<Rightarrow> system_config \<Rightarrow> int \<Rightarrow> int \<Rightarrow> int \<Rightarrow> int list \<Rightarrow> int list \<Rightarrow>
     mmap_ctl \<Rightarrow> (string \<times> tensor) list \<Rightarrow> (mmap_ctl \<times> (string \<times> tensor) list \<times> tensor list) res" where
  "route_forward split c num_expert expert_offset num_expert_per_device counts input_shape ctl tbl =
     rbind (rfold (\<lambda>i acc. rbind (vec_ix counts i) (\<lambda>n. Inr (acc @ [n])))
       (irange expert_offset (expert_offset + num_expert_per_device)) []) (\<lambda>expert_token_list.
     rfold (route_one split c counts expert_token_list input_shape expert_offset) (irange 0 num_expert) (ctl, tbl, []))"

text \<open>What routing relies on in a split, and what its marks then mean.\<close>

lemma rfold_slice:
  assumes "rfold (\<lambda>i acc. rbind (vec_ix counts i) (\<lambda>n. Inr (acc @ [n]))) is acc = Inr out"
  shows "out = acc @ map (\<lambda>i. counts ! nat i) is \<and> (\<forall>i\<in>set is. 0 \<le> i \<and> i < int (length counts))"
  using assms
proof (induction "is" arbitrary: acc)
  case (Cons i "is")
  then have i: "0 \<le> i \<and> i < int (length counts)"
    and "rfold (\<lambda>i acc. rbind (vec_ix counts i) (\<lambda>n. Inr (acc @ [n]))) is (acc @ [counts ! nat i]) = Inr out"
    by (auto simp: rbind_eq_Inr vec_ix_Inr_iff)
  with Cons.IH [of "acc @ [counts ! nat i]"] show ?case by simp
qed simp

lemma get_activation_shape: "get_activation ctl tbl nm shp r = Inr (ctl', tbl', t) \<Longrightarrow> t_shape t = shp"
  by (auto simp: get_activation_def rbind_eq_Inr tensor_setMemoryObject_def ctl_setMemoryObject_def setNormal_def
      tensor_set_def Let_def fail_def split: option.splits if_splits)

definition marked :: "int list \<Rightarrow> int \<Rightarrow> int list \<Rightarrow> int \<Rightarrow> int \<Rightarrow> tensor \<Rightarrow> bool" where
  "marked counts k H expert_offset i t \<longleftrightarrow> t_shape t = [counts ! nat i, k] \<and> t_parallel_execution t \<and>
     (isPerformHigh t \<longleftrightarrow> i - expert_offset \<in> set H)"

locale load_split =
  fixes split :: "system_config \<Rightarrow> int list \<Rightarrow> int list res"
  assumes split_good: "0 < logic_x c \<Longrightarrow> split c xs = Inr H \<Longrightarrow> good_split c xs H"
begin

lemma route_mark_parallel:
  assumes "route_mark split c tokens expert_offset i t = Inr t'" "parallel_execution c" "\<not> hetero_subbatch c"
  shows "\<exists>H. split c tokens = Inr H \<and> t_shape t' = t_shape t \<and> t_parallel_execution t' \<and>
    (isPerformHigh t' \<longleftrightarrow> i - expert_offset \<in> set H)"
  using assms
  by (auto simp: route_mark_def rbind_eq_Inr setPerformHigh_def setPerformLow_def isPerformHigh_def)

lemma route_one_marks:
  assumes "route_one split c counts tokens shp expert_offset i (ctl, tbl, outs) = Inr (ctl', tbl', outs')"
    "parallel_execution c" "\<not> hetero_subbatch c"
  shows "\<exists>H t. split c tokens = Inr H \<and> outs' = outs @ [t] \<and> marked counts (shp ! 1) H expert_offset i t"
  using assms(1)
  by (auto simp: route_one_def Let_def rbind_eq_Inr vec_ix_Inr_iff marked_def
      dest!: get_activation_shape route_mark_parallel [OF _ assms(2,3)])

lemma route_loop_marks:
  assumes "rfold (route_one split c counts tokens shp expert_offset) is (ctl, tbl, outs) = Inr (ctl', tbl', outs')"
    "parallel_execution c" "\<not> hetero_subbatch c" "split c tokens = Inr H"
  shows "\<exists>ts. outs' = outs @ ts \<and> list_all2 (marked counts (shp ! 1) H expert_offset) is ts"
  using assms(1)
proof (induction "is" arbitrary: ctl tbl outs)
  case (Cons i "is")
  then obtain ctl1 tbl1 outs1 where one: "route_one split c counts tokens shp expert_offset i (ctl, tbl, outs) = Inr (ctl1, tbl1, outs1)"
    and rest: "rfold (route_one split c counts tokens shp expert_offset) is (ctl1, tbl1, outs1) = Inr (ctl', tbl', outs')"
    by (auto simp: rbind_eq_Inr)
  obtain t where "outs1 = outs @ [t]" "marked counts (shp ! 1) H expert_offset i t"
    using route_one_marks [OF one assms(2,3)] assms(4) by auto
  with Cons.IH [OF rest] show ?case by auto
qed simp

text \<open>Every expert input is marked for one side, and the shares of this device's experts are balanced.\<close>

lemma route_forward_balanced:
  assumes run: "route_forward split c num_expert expert_offset per_device counts shp ctl tbl = Inr (ctl', tbl', outs)"
    and par: "parallel_execution c" "\<not> hetero_subbatch c" and "0 < logic_x c" "0 < num_expert"
  shows "\<exists>H. split c (map (\<lambda>i. counts ! nat i) (irange expert_offset (expert_offset + per_device))) = Inr H \<and>
    good_split c (map (\<lambda>i. counts ! nat i) (irange expert_offset (expert_offset + per_device))) H \<and>
    list_all2 (marked counts (shp ! 1) H expert_offset) (irange 0 num_expert) outs"
proof -
  let ?tokens = "map (\<lambda>i. counts ! nat i) (irange expert_offset (expert_offset + per_device))"
  have loop: "rfold (route_one split c counts ?tokens shp expert_offset) (irange 0 num_expert) (ctl, tbl, []) = Inr (ctl', tbl', outs)"
    using run rfold_slice by (fastforce simp: route_forward_def rbind_eq_Inr)
  then obtain st where "route_one split c counts ?tokens shp expert_offset 0 (ctl, tbl, []) = Inr st"
    using assms(5) by (auto simp: irange_Cons rbind_eq_Inr)
  then obtain H where H: "split c ?tokens = Inr H"
    using route_one_marks [OF _ par] by (metis prod_cases3)
  from route_loop_marks [OF loop par H] split_good [OF assms(4) H] H show ?thesis by auto
qed

end

text \<open>Two sorts with the contract of \<^verbatim>\<open>std::sort\<close> give such a split.\<close>

locale expert_sorts =
  fixes srt :: "(int \<times> int) list \<Rightarrow> (int \<times> int) list"
    and srt_vec :: "(int list \<times> int list) list \<Rightarrow> (int list \<times> int list) list"
  assumes srt: "sorts_by cmp srt" and srt_vec: "sorts_by cmp_vec srt_vec"

sublocale expert_sorts \<subseteq> load_split "getIdxHigh srt srt_vec"
  by unfold_locales (rule getIdxHigh_good [OF srt srt_vec])

interpretation std_sorts: expert_sorts std_sort std_sort_vec
  by unfold_locales (rule std_sort_sorts)+

text \<open>
  C35: with parallel execution and no heterogeneous sub-batches, whatever the ordering of ties in
  \<^verbatim>\<open>std::sort\<close>, and with a near-memory unit of positive speed, a returning \<^verbatim>\<open>Route::forward\<close> gives every expert an
  input of its token count and marks it for exactly one side, the GPU exactly for the experts that
  \<^verbatim>\<open>getIdxHigh\<close> names for the token counts of this device's experts; that split finishes no later
  than leaving them all to the near-memory unit.
\<close>

theorem route_forward_splits:
  assumes "sorts_by cmp srt" "sorts_by cmp_vec srt_vec" "0 < logic_x c" "0 < num_expert"
    and "route_forward (getIdxHigh srt srt_vec) c num_expert expert_offset per_device counts shp ctl tbl = Inr (ctl', tbl', outs)"
    and "parallel_execution c" "\<not> hetero_subbatch c"
  shows "\<exists>H. getIdxHigh srt srt_vec c (map (\<lambda>i. counts ! nat i) (irange expert_offset (expert_offset + per_device))) = Inr H \<and>
    good_split c (map (\<lambda>i. counts ! nat i) (irange expert_offset (expert_offset + per_device))) H \<and>
    list_all2 (marked counts (shp ! 1) H expert_offset) (irange 0 num_expert) outs"
proof -
  have "load_split (getIdxHigh srt srt_vec)"
    by unfold_locales (rule getIdxHigh_good [OF assms(1,2)])
  from load_split.route_forward_balanced [OF this assms(5-7) assms(3,4)] show ?thesis .
qed

text \<open>
  With more than four experts on a device, in a number that is no multiple of four, the group-size assertion of the
  split fails as soon as the first expert is marked: such a device never gets through \<^verbatim>\<open>Route::forward\<close>.
\<close>

lemma route_forward_group_size:
  assumes "parallel_execution c" "\<not> hetero_subbatch c" "0 < num_expert" "4 < per_device" "per_device mod 4 \<noteq> 0"
  shows "\<exists>e. route_forward (getIdxHigh srt srt_vec) c num_expert expert_offset per_device counts shp ctl tbl = Inl e"
proof (cases "rfold (\<lambda>i acc. rbind (vec_ix counts i) (\<lambda>n. Inr (acc @ [n])))
    (irange expert_offset (expert_offset + per_device)) []")
  case (Inl e)
  then show ?thesis by (simp add: route_forward_def)
next
  case (Inr tokens)
  have "length tokens = nat per_device"
    using rfold_slice [OF Inr] by simp
  moreover from this have "length tokens mod 4 = nat (per_device mod 4)" using assms(4) by (simp add: nat_mod_distrib)
  ultimately have "getIdxHigh srt srt_vec c tokens = Inl (Fail ''Expert group size is not mached'')"
    using assms(4,5) by (auto simp: getIdxHigh_def fail_def)
  then have "route_mark (getIdxHigh srt srt_vec) c tokens expert_offset i t = Inl (Fail ''Expert group size is not mached'')" for i t
    using assms(1,2) by (simp add: route_mark_def)
  then have "\<exists>e. route_one (getIdxHigh srt srt_vec) c counts tokens shp expert_offset i st = Inl e" for i st
    by (cases "route_one (getIdxHigh srt srt_vec) c counts tokens shp expert_offset i st")
      (auto simp: route_one_def Let_def rbind_eq_Inr split: prod.splits)
  then show ?thesis using assms(3) Inr by (auto simp: route_forward_def irange_Cons rbind_simps) (metis rbind_simps(1))
qed

definition example_inputs :: "(string \<times> tensor) list" where
  "example_inputs = [(''expert_input_0'', Tensor_ctor ''expert_input_0'' [1, 1] ''act'' (Some 0) 2 ALL_CHANNEL),
     (''expert_input_1'', Tensor_ctor ''expert_input_1'' [1, 1] ''act'' (Some 0) 2 ALL_CHANNEL)]"

lemma example_route:
  "\<exists>ctl' tbl' outs. route_forward (getIdxHigh std_sort std_sort_vec) (H100\<lparr>parallel_execution := True\<rparr>) 2 0 2 [900, 1] [64, 4096]
     (MMapController_ctor hbm3_80GB) example_inputs = Inr (ctl', tbl', outs)"
proof -
  have two: "irange 0 2 = [0, 1]" by (simp add: irange_def upt_rec)
  have s: "to_string 0 = ''0''" "to_string 1 = ''1''" by code_simp+
  have c: "\<not> hetero_subbatch H100" by (simp add: H100_def SystemConfig_ctor_def)
  show ?thesis
    by (simp add: route_forward_def route_one_def route_mark_def getIdxHigh_def two s c vec_ix_def Let_def
        get_activation_def example_inputs_def Tensor_ctor_def tensor_setMemoryObject_def assertFalse_def
        ctl_setMemoryObject_def setNormal_def tensor_set_def)
qed

theorem route_forward_splits_witness:
  "\<exists>ctl' tbl' outs H. route_forward (getIdxHigh std_sort std_sort_vec) (H100\<lparr>parallel_execution := True\<rparr>) 2 0 2 [900, 1] [64, 4096]
     (MMapController_ctor hbm3_80GB) example_inputs = Inr (ctl', tbl', outs) \<and>
   getIdxHigh std_sort std_sort_vec (H100\<lparr>parallel_execution := True\<rparr>) [900, 1] = Inr H \<and>
   list_all2 (marked [900, 1] 4096 H 0) [0, 1] outs"
proof -
  obtain ctl' tbl' outs where run: "route_forward (getIdxHigh std_sort std_sort_vec) (H100\<lparr>parallel_execution := True\<rparr>) 2 0 2
      [900, 1] [64, 4096] (MMapController_ctor hbm3_80GB) example_inputs = Inr (ctl', tbl', outs)"
    using example_route by blast
  have c: "0 < logic_x (H100\<lparr>parallel_execution := True\<rparr>)" "parallel_execution (H100\<lparr>parallel_execution := True\<rparr>)"
    "\<not> hetero_subbatch (H100\<lparr>parallel_execution := True\<rparr>)"
    by (simp_all add: H100_def SystemConfig_ctor_def)
  have two: "irange 0 2 = [0, 1]" by (simp add: irange_def upt_rec)
  from route_forward_splits [OF std_sort_sorts c(1) _ run c(2,3)] run two show ?thesis by auto
qed

section \<open>\<^verbatim>\<open>aggregate_expert\<close>\<close>

text \<open>
  The first device updates every batch, adds the counters up and gives every batch the totals; the
  batch's own counters are kept as the local ones. The pointer to the scheduler may be null.
\<close>

definition update_batches ::
  "model_config \<Rightarrow> model_config \<Rightarrow> sequence_info list \<Rightarrow> batched_sequence list \<Rightarrow> rng \<Rightarrow> (batched_sequence list \<times> rng) res" where
  "update_batches dm m infos bs g =
     rfold (\<lambda>b (bs, g). rbind (update_expert m infos (num_routed_expert dm) (top_k dm) b g) (\<lambda>(b, g). Inr (bs @ [b], g)))
       bs ([], g)"

definition set_local :: "int \<Rightarrow> batched_sequence \<Rightarrow> batched_sequence res" where
  "set_local num_expert b =
     (if num_expert \<le> int (length (bs_local_num_token_in_expert b)) \<and> num_expert \<le> int (length (bs_num_token_in_expert b))
      then Inr (b\<lparr>bs_local_num_token_in_expert := take (nat num_expert) (bs_num_token_in_expert b) @
        drop (nat num_expert) (bs_local_num_token_in_expert b)\<rparr>)
      else Inl UndefinedAccess)"

definition total_counts :: "int \<Rightarrow> batched_sequence list \<Rightarrow> int list" where
  "total_counts num_expert bs =
     map (\<lambda>j. fold (\<lambda>b t. t + bs_num_token_in_expert b ! nat j) bs 0) (irange 0 num_expert)"

definition set_counts :: "int \<Rightarrow> int list \<Rightarrow> batched_sequence \<Rightarrow> batched_sequence" where
  "set_counts num_expert temp b = b\<lparr>bs_num_token_in_expert := temp @ drop (nat num_expert) (bs_num_token_in_expert b)\<rparr>"

definition aggregate_expert :: "int \<Rightarrow> model_config \<Rightarrow> scheduler option \<Rightarrow> scheduler option res" where
  "aggregate_expert device_total_rank dm sch =
     (if device_total_rank \<noteq> 0 then Inr sch else
      case sch of None \<Rightarrow> Inr None | Some s \<Rightarrow>
        (let num_expert = num_routed_expert dm; num_batch = int (length (sch_running_queue s)) in
         rbind (update_batches dm (sch_model_config s) (sch_sequences_info s) (sch_running_queue s) (sch_rng s)) (\<lambda>(bs, g).
         rbind (rfold (\<lambda>b acc. rbind (set_local num_expert b) (\<lambda>b. Inr (acc @ [b]))) bs []) (\<lambda>bs.
         let temp = total_counts num_expert bs;
             bs = map (set_counts num_expert temp) bs;
             test_token = num_batch * fold (\<lambda>x t. t + x) temp 0;
             s = s\<lparr>sch_running_queue := bs, sch_rng := g\<rparr>
         in rbind (assertTrue (test_token = getNumProcessToken s * top_k dm * num_batch)
              ''Number of tokens in experts is not macthed'') (\<lambda>_. Inr (Some s))))))"

lemma update_batches_facts:
  assumes "rfold (\<lambda>b (bs, g). rbind (update_expert m infos n k b g) (\<lambda>(b, g). Inr (bs @ [b], g))) bs (acc, g) = Inr (out, g')"
    and "0 \<le> k" "0 \<le> n" "\<forall>b\<in>set bs. list_all (\<lambda>s. 0 \<le> sq_num_process_token s) (bs_sequence b)"
  shows "\<exists>bs'. out = acc @ bs' \<and> list_all2 (\<lambda>b b'. bs_sequence b' = bs_sequence b \<and>
    bs_local_num_token_in_expert b' = bs_local_num_token_in_expert b \<and>
    int (length (bs_num_token_in_expert b')) = n \<and> sum_list (bs_num_token_in_expert b') = k * get_process_token b) bs bs'"
  using assms(1,4)
proof (induction bs arbitrary: acc g)
  case (Cons b bs)
  obtain b1 g1 where u: "update_expert m infos n k b g = Inr (b1, g1)"
    and r: "rfold (\<lambda>b (bs, g). rbind (update_expert m infos n k b g) (\<lambda>(b, g). Inr (bs @ [b], g))) bs (acc @ [b1], g1) = Inr (out, g')"
    using Cons.prems(1) by (auto simp: rbind_eq_Inr)
  have l: "bs_local_num_token_in_expert b1 = bs_local_num_token_in_expert b"
    using u by (auto simp: update_expert_def Let_def rbind_eq_Inr)
  from update_expert_counts [OF u assms(2,3)] Cons.prems(2) l Cons.IH [OF r] show ?case by force
qed simp

lemma set_local_all:
  assumes "\<forall>b\<in>set bs. int (length (bs_num_token_in_expert b)) = n \<and> int (length (bs_local_num_token_in_expert b)) = n"
  shows "rfold (\<lambda>b acc. rbind (set_local n b) (\<lambda>b. Inr (acc @ [b]))) bs acc =
    Inr (acc @ map (\<lambda>b. b\<lparr>bs_local_num_token_in_expert := bs_num_token_in_expert b\<rparr>) bs)"
  using assms by (induction bs arbitrary: acc) (auto simp: set_local_def)

lemma sum_list_columns:
  assumes "\<forall>b\<in>set bs. int (length (f b)) = n"
  shows "sum_list (map (\<lambda>j. sum_list (map (\<lambda>b. f b ! nat j) bs)) (irange 0 n)) = sum_list (map (\<lambda>b. sum_list (f b :: int list)) bs)"
  using assms
proof (induction bs)
  case Nil
  then show ?case by (simp add: sum_list_0)
next
  case (Cons b bs)
  have "map (\<lambda>j. f b ! nat j) (irange 0 n) = f b"
    using Cons.prems by (intro nth_equalityI) auto
  then have "sum_list (map (\<lambda>j. f b ! nat j) (irange 0 n)) = sum_list (f b)" by simp
  with Cons show ?case by (simp add: sum_list_addf)
qed

text \<open>
  C25: when the batches can be updated, aggregation passes its own assertion: afterwards every
  batch has the same totals, a total is the sum of the local counters of that expert, and the totals
  add up to \<^verbatim>\<open>top_k\<close> slots per processed token of the whole system.
\<close>

theorem aggregate_expert_consistent:
  assumes "update_batches dm (sch_model_config s) (sch_sequences_info s) (sch_running_queue s) (sch_rng s) = Inr (bs, g)"
    and "0 \<le> top_k dm" "0 \<le> num_routed_expert dm"
    and "\<forall>b\<in>set (sch_running_queue s). list_all (\<lambda>q. 0 \<le> sq_num_process_token q) (bs_sequence b)"
    and "\<forall>b\<in>set (sch_running_queue s). int (length (bs_local_num_token_in_expert b)) = num_routed_expert dm"
  shows "\<exists>s' temp. aggregate_expert 0 dm (Some s) = Inr (Some s') \<and>
    map bs_sequence (sch_running_queue s') = map bs_sequence (sch_running_queue s) \<and>
    (\<forall>b\<in>set (sch_running_queue s'). bs_num_token_in_expert b = temp) \<and>
    temp = map (\<lambda>j. sum_list (map (\<lambda>b. bs_local_num_token_in_expert b ! nat j) (sch_running_queue s')))
      (irange 0 (num_routed_expert dm)) \<and>
    sum_list temp = getNumProcessToken s * top_k dm"
proof -
  let ?n = "num_routed_expert dm" and ?loc = "\<lambda>b. b\<lparr>bs_local_num_token_in_expert := bs_num_token_in_expert b\<rparr>"
  have up: "list_all2 (\<lambda>b b'. bs_sequence b' = bs_sequence b \<and>
      bs_local_num_token_in_expert b' = bs_local_num_token_in_expert b \<and> int (length (bs_num_token_in_expert b')) = ?n \<and>
      sum_list (bs_num_token_in_expert b') = top_k dm * get_process_token b) (sch_running_queue s) bs"
    using update_batches_facts [of _ _ ?n "top_k dm" _ "[]", OF _ assms(2,3,4)] assms(1) by (fastforce simp: update_batches_def)
  have seqs: "map bs_sequence bs = map bs_sequence (sch_running_queue s)"
    and tot: "map (\<lambda>b. sum_list (bs_num_token_in_expert b)) bs = map (\<lambda>b. top_k dm * get_process_token b) (sch_running_queue s)"
    using up by (induction rule: list_all2_induct) auto
  have len: "\<forall>b\<in>set bs. int (length (bs_num_token_in_expert b)) = ?n \<and> int (length (bs_local_num_token_in_expert b)) = ?n"
    using up assms(5) by (induction rule: list_all2_induct) auto
  define temp where "temp = total_counts ?n (map ?loc bs)"
  define s' where "s' = s\<lparr>sch_running_queue := map (set_counts ?n temp) (map ?loc bs), sch_rng := g\<rparr>"
  have temp: "temp = map (\<lambda>j. sum_list (map (\<lambda>b. bs_num_token_in_expert b ! nat j) bs)) (irange 0 ?n)"
    by (simp add: temp_def total_counts_def fold_plus_sum_list o_def)
  have tokens: "getNumProcessToken s' = getNumProcessToken s"
  proof -
    have eq: "getNumProcessToken t = sum_list (map sum_tokens (map bs_sequence (sch_running_queue t)))" for t
      by (simp add: getNumProcessToken_def fold_plus_sum_list get_process_token_def o_def)
    have "map bs_sequence (sch_running_queue s') = map bs_sequence bs" by (simp add: s'_def set_counts_def o_def)
    then show ?thesis unfolding eq seqs by (rule arg_cong)
  qed
  have sum: "sum_list temp = getNumProcessToken s * top_k dm"
    using sum_list_columns [of bs bs_num_token_in_expert ?n] len tot
    by (simp add: temp getNumProcessToken_def fold_plus_sum_list mult.commute [of "top_k dm"] sum_list_mult_const)
  have "aggregate_expert 0 dm (Some s) = Inr (Some s')"
    using assms(1) set_local_all [OF len, of "[]"] sum tokens
    by (simp add: aggregate_expert_def Let_def temp_def [symmetric] s'_def [symmetric] fold_plus_sum_list
        mult.commute del: map_map)
  moreover have "\<forall>b\<in>set (sch_running_queue s'). bs_num_token_in_expert b = temp"
    using len by (auto simp: s'_def set_counts_def)
  moreover have "map bs_sequence (sch_running_queue s') = map bs_sequence (sch_running_queue s)"
    using seqs by (simp add: s'_def set_counts_def o_def)
  moreover have "temp = map (\<lambda>j. sum_list (map (\<lambda>b. bs_local_num_token_in_expert b ! nat j) (sch_running_queue s'))) (irange 0 ?n)"
    unfolding temp by (simp add: s'_def set_counts_def o_def)
  ultimately show ?thesis using sum by blast
qed

text \<open>Two batches of one traced sequence each, on four experts.\<close>

definition aggregate_example :: scheduler where
  "aggregate_example = (Scheduler_ctor (H100\<lparr>num_device := 2\<rparr>) (example_model\<lparr>ne_tp_dg := 1\<rparr>) True [example_trace_info] 1 4 64 64 example_rng)
     \<lparr>sch_running_queue := [bs_add example_sequence (BatchedSequence_Create 4 2), bs_add example_sequence (BatchedSequence_Create 4 2)]\<rparr>"

lemma aggregate_example_fields:
  "sch_running_queue aggregate_example = [bs_add example_sequence (BatchedSequence_Create 4 2), bs_add example_sequence (BatchedSequence_Create 4 2)]"
  "sch_model_config aggregate_example = example_model\<lparr>ne_tp_dg := 1\<rparr>" "sch_sequences_info aggregate_example = [example_trace_info]"
  "sch_rng aggregate_example = example_rng" "top_k example_model = 2" "num_routed_expert example_model = 4"
  by (simp_all add: aggregate_example_def Scheduler_ctor_def initRunningQueue_def Let_def example_model_def ModelConfig_ctor_def)

lemma update_expert_ne_tp: "update_expert (m\<lparr>ne_tp_dg := x\<rparr>) infos n k b g = update_expert m infos n k b g"
proof -
  have "token_experts (m\<lparr>ne_tp_dg := x\<rparr>) = token_experts m"
    by (intro ext) (simp add: token_experts_def getZipfianRandomExpert_def getRandomExpert_def)
  then have "seq_step (m\<lparr>ne_tp_dg := x\<rparr>) = seq_step m"
    by (intro ext) (simp add: seq_step_def token_step_def [abs_def])
  then show ?thesis by (simp add: update_expert_def skewness_weight_def)
qed

theorem aggregate_expert_consistent_witness:
  "\<exists>s' temp. aggregate_expert 0 example_model (Some aggregate_example) = Inr (Some s') \<and>
    (\<forall>b\<in>set (sch_running_queue s'). bs_num_token_in_expert b = temp) \<and>
    sum_list temp = getNumProcessToken aggregate_example * 2"
proof -
  let ?b = "bs_add example_sequence (BatchedSequence_Create 4 2)"
  obtain b' where "update_expert example_model [example_trace_info] 4 2 ?b example_rng = Inr (b', example_rng)"
    using example_update_expert by blast
  then have u: "update_batches example_model (sch_model_config aggregate_example) (sch_sequences_info aggregate_example)
      (sch_running_queue aggregate_example) (sch_rng aggregate_example) = Inr ([b', b'], example_rng)"
    by (simp add: update_batches_def aggregate_example_fields update_expert_ne_tp)
  have "\<forall>b\<in>set (sch_running_queue aggregate_example). list_all (\<lambda>q. 0 \<le> sq_num_process_token q) (bs_sequence b)"
    "\<forall>b\<in>set (sch_running_queue aggregate_example). int (length (bs_local_num_token_in_expert b)) = num_routed_expert example_model"
    by (simp_all add: aggregate_example_fields bs_add_def BatchedSequence_Create_def example_sequence_def Sequence_Create_def)
  from aggregate_expert_consistent [OF u _ _ this] show ?thesis by (auto simp: aggregate_example_fields)
qed

end
