(* ===== verification/Module_State.thy ===== *)
theory Module_State
  imports Comm_Model Expert_Route
begin

text \<open>
  How the modules of \<^verbatim>\<open>src/module\<close> are put together and called: the tensor tables of
  all modules of a device by their path (\<^verbatim>\<open>Module::module_map_name\<close>), the lookup of
  submodules, the call operator, and the constructors of the leaf modules, which only allocate
  tensors.
\<close>

section \<open>State\<close>

type_synonym mpath = "string list"
type_synonym table = "(string \<times> tensor) list"
type_synonym mtables = "(mpath \<times> table) list"

datatype graph_event = Push mpath | Pop

text \<open>
  The batch a forward pass is given is either a loose one, without a scheduler, or the batch of a
  data-parallel rank in the scheduler's running queue. Tensors are handed on by value: no module
  changes a tensor of another one.
\<close>

record mstate =
  ms_ctl :: mmap_ctl
  ms_modules :: "mpath \<rightharpoonup> table"
  ms_device :: device
  ms_scheduler :: "(scheduler \<times> nat) option"
  ms_batch :: batched_sequence
  ms_graph :: "graph_event list"

text \<open>
  What a module is built from and reads while it runs: the models of the code outside \<^verbatim>\<open>src\<close>
  or in other components (Ramulator, the split of experts over the two sides), the device's model
  configuration and system configuration, the scheduler's, and the rank of the device.
\<close>

record module_env =
  me_ram :: ramulator
  me_split :: "system_config \<Rightarrow> int list \<Rightarrow> int list res"
  me_model :: model_config
  me_config :: system_config
  me_sched_config :: system_config
  me_batch_size_per_dp :: int
  me_rank :: int

definition module_map_name :: "mpath \<Rightarrow> string" where
  "module_map_name p = concat (map (\<lambda>s. ''::'' @ s) p)"

definition current_batch :: "mstate \<Rightarrow> batched_sequence" where
  "current_batch st = (case ms_scheduler st of None \<Rightarrow> ms_batch st | Some (s, i) \<Rightarrow> sch_running_queue s ! i)"

definition running_batches :: "mstate \<Rightarrow> batched_sequence list" where
  "running_batches st = (case ms_scheduler st of None \<Rightarrow> [] | Some (s, i) \<Rightarrow> sch_running_queue s)"

section \<open>Calls\<close>

text \<open>\<^verbatim>\<open>get_module\<close>, for all the submodules a \<^verbatim>\<open>forward\<close> looks up first.\<close>

definition get_modules :: "mpath \<Rightarrow> string list \<Rightarrow> mstate \<Rightarrow> unit res" where
  "get_modules p nms st = (if list_all (\<lambda>nm. ms_modules st (p @ [nm]) \<noteq> None) nms then Inr () else Inl OutOfRange)"

text \<open>\<^verbatim>\<open>Module::operator()\<close>: the call is pushed on the device's graph, and its result popped.\<close>

definition invoke :: "mpath \<Rightarrow> string \<Rightarrow> (mpath \<Rightarrow> 'i \<Rightarrow> mstate \<Rightarrow> ('o \<times> mstate) res) \<Rightarrow> 'i \<Rightarrow> mstate \<Rightarrow> ('o \<times> mstate) res" where
  "invoke p nm forward input st =
     (let q = p @ [nm] in
      rbind (forward q input (st\<lparr>ms_graph := ms_graph st @ [Push q]\<rparr>)) (\<lambda>(output, st).
      Inr (output, st\<lparr>ms_graph := ms_graph st @ [Pop]\<rparr>)))"

text \<open>A leaf module works on its own table.\<close>

definition on_table ::
  "(mmap_ctl \<Rightarrow> table \<Rightarrow> device \<Rightarrow> ('o \<times> mmap_ctl \<times> table \<times> device) res) \<Rightarrow> mpath \<Rightarrow> mstate \<Rightarrow> ('o \<times> mstate) res" where
  "on_table f p st =
     (case ms_modules st p of None \<Rightarrow> Inl OutOfRange
      | Some tbl \<Rightarrow> rbind (f (ms_ctl st) tbl (ms_device st)) (\<lambda>(output, ctl, tbl, d).
          Inr (output, st\<lparr>ms_ctl := ctl, ms_modules := (ms_modules st)(p \<mapsto> tbl), ms_device := d\<rparr>)))"

section \<open>Constructing modules\<close>

text \<open>
  A constructor gives the tables of a module and of its submodules, in the order in which they are
  created. \<^verbatim>\<open>Tensor::Create\<close> takes the precision of the device's model.
\<close>

definition module_node :: "mpath \<Rightarrow> table \<Rightarrow> mtables list \<Rightarrow> mtables" where
  "module_node p tbl subs = (p, tbl) # concat subs"

definition make_tensor :: "module_env \<Rightarrow> string \<Rightarrow> int list \<Rightarrow> string \<Rightarrow> string \<times> tensor" where
  "make_tensor e nm shp tg = (nm, Tensor_ctor nm shp tg (Some (nat (me_rank e))) (precision_byte (me_model e)) ALL_CHANNEL)"

definition Linear_ctor :: "module_env \<Rightarrow> int \<Rightarrow> int \<Rightarrow> mpath \<Rightarrow> mtables" where
  "Linear_ctor e input_size output_size p = module_node p
     [make_tensor e ''A'' [input_size, output_size] ''weight'', make_tensor e ''Y'' [input_size, output_size] ''act''] []"

definition BatchedLinear_ctor :: "module_env \<Rightarrow> int \<Rightarrow> int \<Rightarrow> int \<Rightarrow> bool \<Rightarrow> mpath \<Rightarrow> mtables" where
  "BatchedLinear_ctor e num_batched_gemm input_size output_size use_plain_linear p =
     (if \<not> use_plain_linear then
        (let shape = [num_batched_gemm, input_size, output_size] in module_node p
           [make_tensor e ''batched_linear_input'' shape ''act'', make_tensor e ''batched_linear_output'' shape ''act'',
            make_tensor e ''weight'' shape ''weight'', make_tensor e ''output'' [input_size, output_size] ''act''] [])
      else
        (let shape = [input_size, output_size] in module_node p
           [make_tensor e ''plain_linear_input'' shape ''act'', make_tensor e ''plain_linear_output'' shape ''act'',
            make_tensor e ''weight'' shape ''weight''] []))"

definition LayerNorm_ctor :: "module_env \<Rightarrow> int \<Rightarrow> mpath \<Rightarrow> mtables" where
  "LayerNorm_ctor e hid p = module_node p
     [make_tensor e ''layer_norm_weight'' [hid, 1] ''weight'', make_tensor e ''layer_norm_output'' [hid, 1] ''act''] []"

definition Residual_ctor :: "module_env \<Rightarrow> mpath \<Rightarrow> mtables" where
  "Residual_ctor e p = module_node p [make_tensor e ''residual_out'' [1, 1] ''act''] []"

definition AllReduce_ctor :: "module_env \<Rightarrow> mpath \<Rightarrow> mtables" where
  "AllReduce_ctor e p = module_node p [make_tensor e ''allreduce_output'' [1, 1] ''act''] []"

definition AllGather_ctor :: "module_env \<Rightarrow> mpath \<Rightarrow> mtables" where
  "AllGather_ctor e p = module_node p [make_tensor e ''allgather_output'' [1, 1] ''act''] []"

definition AllScatter_ctor :: "module_env \<Rightarrow> mpath \<Rightarrow> mtables" where
  "AllScatter_ctor e p = module_node p [make_tensor e ''allscatter_output'' [1, 1] ''act''] []"

definition MoEScatter_ctor :: "module_env \<Rightarrow> mpath \<Rightarrow> mtables" where
  "MoEScatter_ctor e p = module_node p [make_tensor e ''moe_scatter_output'' [1, 1] ''act''] []"

definition MoEGather_ctor :: "module_env \<Rightarrow> mpath \<Rightarrow> mtables" where
  "MoEGather_ctor e p = module_node p [make_tensor e ''moe_gather_output'' [1, 1] ''act''] []"

definition Sync_Set_ctor :: "module_env \<Rightarrow> mpath \<Rightarrow> mtables" where
  "Sync_Set_ctor e p = module_node p [make_tensor e ''sync'' [1, 1] ''act''] []"

definition Sync_ctor :: "module_env \<Rightarrow> mpath \<Rightarrow> mtables" where
  "Sync_ctor e p = module_node p [] [Sync_Set_ctor e (p @ [''sync__set'']), module_node (p @ [''sync__'']) [] []]"

definition GateUpdate_ctor :: "module_env \<Rightarrow> mpath \<Rightarrow> mtables" where
  "GateUpdate_ctor e p = module_node p [make_tensor e ''gate_update_output'' [1, 1] ''act''] []"

definition Route_ctor :: "module_env \<Rightarrow> mpath \<Rightarrow> mtables" where
  "Route_ctor e p = (let num_expert = num_routed_expert (me_model e) in module_node p
     (make_tensor e ''route_weight'' [hidden_dim (me_model e), num_expert] ''weight'' #
      map (\<lambda>i. make_tensor e (''expert_input_'' @ to_string i) [1, 1] ''act'') (irange 0 num_expert)) [])"

text \<open>Allocating the tensors of the tables, in order.\<close>

fun alloc_table :: "mmap_ctl \<Rightarrow> table \<Rightarrow> mmap_ctl \<times> table" where
  "alloc_table ctl [] = (ctl, [])"
| "alloc_table ctl ((nm, t) # tbl) =
     (let (ctl, t) = ctl_setMemoryObject ctl t; (ctl, tbl) = alloc_table ctl tbl in (ctl, (nm, t) # tbl))"

fun alloc_tables :: "mmap_ctl \<Rightarrow> mtables \<Rightarrow> mmap_ctl \<times> mtables" where
  "alloc_tables ctl [] = (ctl, [])"
| "alloc_tables ctl ((p, tbl) # ms) =
     (let (ctl, tbl) = alloc_table ctl tbl; (ctl, ms) = alloc_tables ctl ms in (ctl, (p, tbl) # ms))"

section \<open>Leaf modules as callable modules\<close>

definition Linear_call :: "module_env \<Rightarrow> mpath \<Rightarrow> tensor \<Rightarrow> mstate \<Rightarrow> (tensor \<times> mstate) res" where
  "Linear_call e p input st = on_table (Linear_forward (me_ram e) (module_map_name p) (current_batch st) input) p st"

definition BatchedLinear_call ::
  "module_env \<Rightarrow> bool \<Rightarrow> bool \<Rightarrow> mpath \<Rightarrow> tensor list \<Rightarrow> mstate \<Rightarrow> (tensor list \<times> mstate) res" where
  "BatchedLinear_call e dup use_plain p input st =
     on_table (BatchedLinear_forward (me_ram e) (module_map_name p) dup use_plain (current_batch st) input) p st"

definition LayerNorm_call :: "mpath \<Rightarrow> tensor \<Rightarrow> mstate \<Rightarrow> (tensor \<times> mstate) res" where
  "LayerNorm_call p input st = on_table (LayerNorm_forward input) p st"

definition Residual_call :: "mpath \<Rightarrow> tensor \<Rightarrow> mstate \<Rightarrow> (tensor \<times> mstate) res" where
  "Residual_call p input st = on_table (Residual_forward input) p st"

definition AllReduce_call :: "int list \<Rightarrow> mpath \<Rightarrow> tensor \<Rightarrow> mstate \<Rightarrow> (tensor \<times> mstate) res" where
  "AllReduce_call device_list p input st = on_table (AllReduce_forward device_list input) p st"

definition MoEScatter_call :: "module_env \<Rightarrow> mpath \<Rightarrow> tensor \<Rightarrow> mstate \<Rightarrow> (tensor \<times> mstate) res" where
  "MoEScatter_call e p input st =
     on_table (MoEScatter_forward (me_model e) (running_batches st) (current_batch st) input) p st"

definition MoEGather_call :: "module_env \<Rightarrow> mpath \<Rightarrow> tensor list \<Rightarrow> mstate \<Rightarrow> (tensor list \<times> mstate) res" where
  "MoEGather_call e p input st =
     on_table (MoEGather_forward (me_model e) (running_batches st) (current_batch st) input) p st"

definition Sync_Set_call :: "mpath \<Rightarrow> tensor \<Rightarrow> mstate \<Rightarrow> (tensor \<times> mstate) res" where
  "Sync_Set_call p input st = on_table Sync_Set_forward p st"

text \<open>\<^verbatim>\<open>Sync\<close>: join the clocks of the device, then meet the other devices, in \<^verbatim>\<open>Sync__\<close>.\<close>

definition Sync_forward :: "mpath \<Rightarrow> tensor \<Rightarrow> mstate \<Rightarrow> (tensor \<times> mstate) res" where
  "Sync_forward p input st =
     rbind (get_modules p [''sync__set'', ''sync__''] st) (\<lambda>_.
     rbind (invoke p ''sync__set'' Sync_Set_call input st) (\<lambda>(temp, st).
     invoke p ''sync__'' (\<lambda>_ input st. Inr (input, st)) temp st))"

text \<open>\<^verbatim>\<open>GateUpdate\<close>: the scheduler's batches get their expert counters.\<close>

definition GateUpdate_call :: "module_env \<Rightarrow> mpath \<Rightarrow> tensor \<Rightarrow> mstate \<Rightarrow> (tensor \<times> mstate) res" where
  "GateUpdate_call e p input st =
     rbind (on_table (\<lambda>ctl tbl d. rbind (get_activation ctl tbl ''gate_update_output'' (t_shape input) True)
       (\<lambda>(ctl, tbl, output). Inr (output, ctl, tbl, d))) p st) (\<lambda>(output, st).
     rbind (aggregate_expert (dv_total_rank (ms_device st)) (me_model e) (map_option fst (ms_scheduler st))) (\<lambda>s.
     Inr (output, st\<lparr>ms_scheduler := (case (s, ms_scheduler st) of (Some s, Some (_, i)) \<Rightarrow> Some (s, i) | _ \<Rightarrow> None)\<rparr>)))"

definition Route_call :: "module_env \<Rightarrow> int \<Rightarrow> int \<Rightarrow> mpath \<Rightarrow> tensor list \<Rightarrow> mstate \<Rightarrow> (tensor list \<times> mstate) res" where
  "Route_call e num_expert_per_device expert_offset p input st =
     rbind (vec_ix input 0) (\<lambda>x.
     on_table (\<lambda>ctl tbl d. rbind (route_forward (me_split e) (dv_config d) (num_routed_expert (me_model e)) expert_offset
         num_expert_per_device (bs_num_token_in_expert (current_batch st)) (t_shape x) ctl tbl)
       (\<lambda>(ctl, tbl, output_vec). Inr (output_vec, ctl, tbl, d))) p st)"

end
