(* ===== verification/Build_Rules.thy ===== *)
theory Build_Rules
  imports Module_State
begin

text \<open>
  The rules with which a model is shown to build. While a model is built nothing is executed: the
  modules are called once with the largest batch to record the graph. A preorder between states says
  that the tables keep what callers rely on, the activations and caches they request and the shapes of
  their weights; \<open>yields\<close> says that a computation returns, moves along that preorder, records
  nested calls and gives a result with a property. One rule per construct, collected in \<open>build\<close>, carries the proofs.
\<close>

named_theorems build \<open>computations that return while a model is built\<close>

section \<open>What a table offers\<close>

definition act_in :: "table \<Rightarrow> string \<Rightarrow> bool" where
  "act_in tbl nm \<longleftrightarrow> (\<exists>t. map_of tbl nm = Some t \<and> \<not> is_weight t \<and> t_device t \<noteq> None \<and> t_mmap t = ALL_CHANNEL)"

definition weight_in :: "table \<Rightarrow> string \<Rightarrow> int list \<Rightarrow> bool" where
  "weight_in tbl nm shp \<longleftrightarrow> (\<exists>t. map_of tbl nm = Some t \<and> t_tag t = ''weight'' \<and> t_shape t = shp)"

definition offers :: "table \<Rightarrow> table \<Rightarrow> bool" where
  "offers tbl tbl' \<longleftrightarrow> (\<forall>nm. act_in tbl nm \<longrightarrow> act_in tbl' nm) \<and> (\<forall>nm shp. weight_in tbl nm shp \<longrightarrow> weight_in tbl' nm shp)"

lemma offers_refl [simp]: "offers tbl tbl"
  by (simp add: offers_def)

lemma offers_trans: "offers a b \<Longrightarrow> offers b c \<Longrightarrow> offers a c"
  by (simp add: offers_def)

lemma offers_update: "act_in tbl nm \<Longrightarrow> \<not> is_weight t \<Longrightarrow> t_device t \<noteq> None \<Longrightarrow> t_mmap t = ALL_CHANNEL \<Longrightarrow>
    offers tbl (AList.update nm t tbl)"
  by (auto simp: offers_def act_in_def weight_in_def update_conv' is_weight_def)

lemma get_activation_act:
  assumes "act_in tbl nm"
  shows "\<exists>ctl' tbl' t. get_activation ctl tbl nm shp True = Inr (ctl', tbl', t) \<and> offers tbl tbl' \<and> t_shape t = shp \<and>
    \<not> is_weight t \<and> t_device t \<noteq> None \<and> t_mmap t = ALL_CHANNEL"
proof -
  obtain t where t: "map_of tbl nm = Some t" "\<not> is_weight t" "t_device t \<noteq> None" "t_mmap t = ALL_CHANNEL"
    using assms by (auto simp: act_in_def)
  have sh: "t_tag (t\<lparr>t_shape := shp\<rparr>) = t_tag t" by simp
  show ?thesis using t assms
    by (auto simp: get_activation_def tensor_setMemoryObject_def assertFalse_def ctl_setMemoryObject_def setNormal_def
        is_weight_def Let_def tensor_set_def intro!: offers_update)
qed

lemma get_cache_act:
  assumes "act_in tbl (cache_name nm i j c)"
  shows "\<exists>ctl' tbl' t. get_cache ctl tbl nm i j c = Inr (ctl', tbl', t) \<and> offers tbl tbl' \<and>
    \<not> is_weight t \<and> t_device t \<noteq> None \<and> t_mmap t = ALL_CHANNEL"
proof -
  obtain t where t: "map_of tbl (cache_name nm i j c) = Some t" "\<not> is_weight t" "t_device t \<noteq> None" "t_mmap t = ALL_CHANNEL"
    using assms by (auto simp: act_in_def)
  show ?thesis using t assms
    by (auto simp: get_cache_def tensor_setMemoryObject_def assertFalse_def ctl_setMemoryObject_def setNormal_def
        is_weight_def Let_def intro!: offers_update)
qed

section \<open>Leaf computations\<close>

definition same_device :: "device \<Rightarrow> device \<Rightarrow> bool" where
  "same_device d d' \<longleftrightarrow> dv_config d' = dv_config d \<and> dv_total_rank d' = dv_total_rank d \<and>
     dv_perform_execution d' = dv_perform_execution d"

lemma same_device_refl [simp]: "same_device d d"
  by (simp add: same_device_def)

lemma same_device_trans: "same_device a b \<Longrightarrow> same_device b c \<Longrightarrow> same_device a c"
  by (simp add: same_device_def)

lemma same_device_time [simp]: "same_device d (add_leaf_time s x t d)" "same_device d (d\<lparr>dv_status := st\<rparr>)"
  by (simp_all add: same_device_def add_leaf_time_def Let_def)

definition leaf_yields :: "table \<Rightarrow> device \<Rightarrow> ('o \<times> mmap_ctl \<times> table \<times> device) res \<Rightarrow> ('o \<Rightarrow> bool) \<Rightarrow> bool" where
  "leaf_yields tbl d r Q \<longleftrightarrow>
     (\<exists>y ctl tbl' d'. r = Inr (y, ctl, tbl', d') \<and> offers tbl tbl' \<and> same_device d d' \<and> Q y)"

lemma leaf_return [build]: "offers tbl tbl' \<Longrightarrow> same_device d d' \<Longrightarrow> Q y \<Longrightarrow> leaf_yields tbl d (Inr (y, ctl, tbl', d')) Q"
  by (auto simp: leaf_yields_def)

lemma leaf_activation:
  assumes "act_in tbl nm"
    and "\<And>ctl' tbl' t. offers tbl tbl' \<Longrightarrow> t_shape t = shp \<Longrightarrow> \<not> is_weight t \<Longrightarrow> t_device t \<noteq> None \<Longrightarrow>
      t_mmap t = ALL_CHANNEL \<Longrightarrow> leaf_yields tbl d (g ctl' tbl' t) Q"
  shows "leaf_yields tbl d (rbind (get_activation ctl tbl nm shp True) (\<lambda>(ctl, tbl, t). g ctl tbl t)) Q"
  using get_activation_act [OF assms(1), of ctl shp] assms(2) by auto

text \<open>A second request, on a table that came out of the first.\<close>

lemma act_in_offers: "offers tbl tbl' \<Longrightarrow> act_in tbl nm \<Longrightarrow> act_in tbl' nm"
  by (simp add: offers_def)

lemma weight_in_offers: "offers tbl tbl' \<Longrightarrow> weight_in tbl nm shp \<Longrightarrow> weight_in tbl' nm shp"
  by (simp add: offers_def)

lemma leaf_more:
  assumes "offers tbl tbl1" "leaf_yields tbl1 d r Q"
  shows "leaf_yields tbl d r Q"
  using assms by (auto simp: leaf_yields_def intro: offers_trans)

lemma device_execution_building: "\<not> dv_perform_execution d \<Longrightarrow> device_execution ram l ts b info d = Inr (d, ts)"
  by (simp add: device_execution_def)

section \<open>Module computations\<close>

definition kept :: "mstate \<Rightarrow> mstate \<Rightarrow> bool" where
  "kept st st' \<longleftrightarrow> (\<forall>q tbl. ms_modules st q = Some tbl \<longrightarrow> (\<exists>tbl'. ms_modules st' q = Some tbl' \<and> offers tbl tbl')) \<and>
     same_device (ms_device st) (ms_device st') \<and> ms_scheduler st' = ms_scheduler st \<and> ms_batch st' = ms_batch st"

lemma kept_refl [simp]: "kept st st"
  by (auto simp: kept_def)

lemma kept_trans: "kept a b \<Longrightarrow> kept b c \<Longrightarrow> kept a c"
  unfolding kept_def using offers_trans same_device_trans by fastforce

lemma kept_graph [simp]: "kept (st\<lparr>ms_graph := g\<rparr>) st' = kept st st'" "kept st (st'\<lparr>ms_graph := g\<rparr>) = kept st st'"
  by (simp_all add: kept_def)

text \<open>The state in which modules with given tables are built: nothing is executed and the batch has no scheduler.\<close>

definition has_table :: "mstate \<Rightarrow> mpath \<Rightarrow> table \<Rightarrow> bool" where
  "has_table st q tbl \<longleftrightarrow> (\<exists>tbl'. ms_modules st q = Some tbl' \<and> offers tbl tbl')"

definition ready :: "batched_sequence \<Rightarrow> mtables \<Rightarrow> mstate \<Rightarrow> bool" where
  "ready b ms st \<longleftrightarrow> (\<forall>x \<in> set ms. has_table st (fst x) (snd x)) \<and>
     \<not> dv_perform_execution (ms_device st) \<and> ms_scheduler st = None \<and> ms_batch st = b"

lemma has_table_kept: "has_table st q tbl \<Longrightarrow> kept st st' \<Longrightarrow> has_table st' q tbl"
  unfolding has_table_def kept_def by (meson offers_trans)

lemma ready_kept: "ready b ms st \<Longrightarrow> kept st st' \<Longrightarrow> ready b ms st'"
  unfolding ready_def by (auto simp: has_table_kept) (auto simp: kept_def same_device_def)

lemma has_table_graph [simp]: "has_table (st\<lparr>ms_graph := g\<rparr>) q tbl = has_table st q tbl"
  by (simp add: has_table_def)

lemma ready_graph [simp]: "ready b ms (st\<lparr>ms_graph := g\<rparr>) = ready b ms st"
  by (simp add: ready_def)

lemma ready_sub: "ready b ms st \<Longrightarrow> set ms' \<subseteq> set ms \<Longrightarrow> ready b ms' st"
  by (auto simp: ready_def)

lemma ready_append [simp]: "ready b (xs @ ys) st \<longleftrightarrow> ready b xs st \<and> ready b ys st"
  by (auto simp: ready_def)

lemma ready_concat: "ready b (concat mss) st \<Longrightarrow> ms \<in> set mss \<Longrightarrow> ready b ms st"
  by (erule ready_sub) auto

lemma ready_node [simp]:
  "ready b (module_node p tbl subs) st \<longleftrightarrow> ready b [(p, tbl)] st \<and> ready b (concat subs) st"
  by (auto simp: module_node_def ready_def)

lemma ready_table: "ready b [(p, tbl)] st \<Longrightarrow> \<exists>tbl'. ms_modules st p = Some tbl' \<and> offers tbl tbl'"
  by (simp add: ready_def has_table_def)

text \<open>
  The calls a computation of the module at \<open>p\<close> records form a forest: each is the call of a
  submodule of \<open>p\<close>, and holds the calls made during it.
\<close>

datatype call = Called (called: mpath) (inner: "call list")

fun events :: "call \<Rightarrow> graph_event list" where
  "events (Called q cs) = Push q # concat (map events cs) @ [Pop]"

fun nested_in :: "mpath \<Rightarrow> call \<Rightarrow> bool" where
  "nested_in p (Called q cs) \<longleftrightarrow> (\<exists>nm. q = p @ [nm]) \<and> list_all (nested_in q) cs"

definition records :: "mpath \<Rightarrow> mstate \<Rightarrow> mstate \<Rightarrow> bool" where
  "records p st st' \<longleftrightarrow> (\<exists>cs. list_all (nested_in p) cs \<and> ms_graph st' = ms_graph st @ concat (map events cs))"

lemma records_same: "ms_graph st' = ms_graph st \<Longrightarrow> records p st st'"
  unfolding records_def by (rule exI [of _ "[]"]) simp

lemma records_trans:
  assumes "records p a b" "records p b c"
  shows "records p a c"
proof -
  obtain cs ds where "list_all (nested_in p) cs" "ms_graph b = ms_graph a @ concat (map events cs)"
    "list_all (nested_in p) ds" "ms_graph c = ms_graph b @ concat (map events ds)"
    using assms unfolding records_def by blast
  then show ?thesis unfolding records_def by (intro exI [of _ "cs @ ds"]) simp
qed

lemma records_call:
  assumes "records (p @ [nm]) (st\<lparr>ms_graph := ms_graph st @ [Push (p @ [nm])]\<rparr>) st'"
  shows "records p st (st'\<lparr>ms_graph := ms_graph st' @ [Pop]\<rparr>)"
proof -
  obtain cs where "list_all (nested_in (p @ [nm])) cs" "ms_graph st' = ms_graph st @ [Push (p @ [nm])] @ concat (map events cs)"
    using assms unfolding records_def by auto
  then show ?thesis unfolding records_def by (intro exI [of _ "[Called (p @ [nm]) cs]"]) simp
qed

definition yields :: "mpath \<Rightarrow> mstate \<Rightarrow> ('o \<times> mstate) res \<Rightarrow> ('o \<Rightarrow> bool) \<Rightarrow> bool" where
  "yields p st r Q \<longleftrightarrow> (\<exists>y st'. r = Inr (y, st') \<and> kept st st' \<and> records p st st' \<and> Q y)"

lemma yields_return: "kept st st' \<Longrightarrow> ms_graph st' = ms_graph st \<Longrightarrow> Q y \<Longrightarrow> yields p st (Inr (y, st')) Q"
  by (auto simp: yields_def intro: records_same)

lemma yields_bind:
  assumes "yields p st r Q" "\<And>y st'. kept st st' \<Longrightarrow> Q y \<Longrightarrow> yields p st' (g y st') R"
  shows "yields p st (rbind r (\<lambda>(y, st). g y st)) R"
proof -
  obtain y st' where 1: "r = Inr (y, st')" "kept st st'" "records p st st'" "Q y" using assms(1) by (auto simp: yields_def)
  obtain z st'' where 2: "g y st' = Inr (z, st'')" "kept st' st''" "records p st' st''" "R z"
    using assms(2) [OF 1(2,4)] by (auto simp: yields_def)
  have "kept st st''" "records p st st''" using 1 2 kept_trans records_trans by blast+
  with 1(1) 2(1,4) show ?thesis by (simp add: yields_def)
qed

lemma yields_weaken: "yields p st r Q \<Longrightarrow> (\<And>y. Q y \<Longrightarrow> R y) \<Longrightarrow> yields p st r R"
  by (auto simp: yields_def)

lemma yields_invoke:
  assumes "\<And>st'. kept st st' \<Longrightarrow> yields (p @ [nm]) st' (f (p @ [nm]) x st') Q"
  shows "yields p st (invoke p nm f x st) Q"
  using assms [of "st\<lparr>ms_graph := ms_graph st @ [Push (p @ [nm])]\<rparr>"]
  by (auto simp: yields_def invoke_def Let_def intro: records_call)

lemma yields_call:
  assumes "ready b ms st" "\<And>st'. ready b ms st' \<Longrightarrow> yields (p @ [nm]) st' (f (p @ [nm]) x st') Q"
  shows "yields p st (invoke p nm f x st) Q"
  using assms ready_kept by (blast intro: yields_invoke)

lemma yields_table:
  assumes "ready b [(p, tbl)] st"
    and "\<And>tbl'. offers tbl tbl' \<Longrightarrow> \<not> dv_perform_execution (ms_device st) \<Longrightarrow>
      leaf_yields tbl' (ms_device st) (f (ms_ctl st) tbl' (ms_device st)) Q"
  shows "yields p st (on_table f p st) Q"
proof -
  obtain tbl' where t: "ms_modules st p = Some tbl'" "offers tbl tbl'" using ready_table [OF assms(1)] by blast
  from assms(2) [OF t(2)] assms(1) show ?thesis
    by (fastforce simp: ready_def leaf_yields_def on_table_def t(1) yields_def kept_def records_same)
qed

lemma get_modules_ready:
  assumes "\<And>nm. nm \<in> set nms \<Longrightarrow> \<exists>tbl. ready b [(p @ [nm], tbl)] st"
  shows "get_modules p nms st = Inr ()"
  using assms by (fastforce simp: get_modules_def list_all_iff ready_def has_table_def)

section \<open>Leaf modules\<close>

lemma act_in_Cons [simp]:
  "act_in (make_tensor e n shp tg # tbl) nm \<longleftrightarrow> (if n = nm then tg = ''act'' \<or> tg = ''cache'' else act_in tbl nm)"
  by (auto simp: act_in_def make_tensor_def Tensor_ctor_def is_weight_def)

lemma weight_in_Cons [simp]:
  "weight_in (make_tensor e n s tg # tbl) nm shp \<longleftrightarrow> (if n = nm then tg = ''weight'' \<and> s = shp else weight_in tbl nm shp)"
  by (auto simp: weight_in_def make_tensor_def Tensor_ctor_def)

lemma act_in_append [simp]: "act_in tbl nm \<Longrightarrow> act_in (tbl @ tbl') nm"
  by (auto simp: act_in_def)

lemma vec_ix_simps [simp]: "vec_ix (x # xs) 0 = Inr x" "vec_ix (x # y # xs) 1 = Inr y" "vec_ix (x # y # z # xs) 2 = Inr z"
  by (simp_all add: vec_ix_def)

text \<open>The marks a module puts on its output leave its place in the table.\<close>

lemma act_marks [simp]:
  "is_weight (setPerformHigh t) = is_weight t" "is_weight (setPerformLow t) = is_weight t"
  "t_device (setPerformHigh t) = t_device t" "t_device (setPerformLow t) = t_device t"
  "t_mmap (setPerformHigh t) = t_mmap t" "t_mmap (setPerformLow t) = t_mmap t"
  "t_shape (setPerformHigh t) = t_shape t" "t_shape (setPerformLow t) = t_shape t"
  "is_weight (pass_side x t) = is_weight t" "t_device (pass_side x t) = t_device t" "t_mmap (pass_side x t) = t_mmap t"
  "t_shape (pass_side x t) = t_shape t" "is_weight (t\<lparr>t_perform_with_optimal := b\<rparr>) = is_weight t"
  by (simp_all add: setPerformHigh_def setPerformLow_def pass_side_def is_weight_def)

lemma leaf_step:
  assumes "offers tbl tbl0" "act_in tbl nm"
    and "\<And>ctl' tbl' t. offers tbl tbl' \<Longrightarrow> act_in tbl' nm \<Longrightarrow> t_shape t = shp \<Longrightarrow> \<not> is_weight t \<Longrightarrow> t_device t \<noteq> None \<Longrightarrow>
      t_mmap t = ALL_CHANNEL \<Longrightarrow> leaf_yields tbl d (g ctl' tbl' t) Q"
  shows "leaf_yields tbl d (rbind (get_activation ctl tbl0 nm shp True) (\<lambda>(ctl, tbl, t). g ctl tbl t)) Q"
  using get_activation_act [OF act_in_offers [OF assms(1,2)], of ctl shp] assms(3) offers_trans [OF assms(1)]
    act_in_offers assms(2) by fastforce

lemma offers_update_after:
  "offers tbl tbl' \<Longrightarrow> act_in tbl' nm \<Longrightarrow> \<not> is_weight t \<Longrightarrow> t_device t \<noteq> None \<Longrightarrow> t_mmap t = ALL_CHANNEL \<Longrightarrow>
    offers tbl (AList.update nm t tbl')"
  by (blast intro: offers_update offers_trans)

lemma Linear_yields [build]:
  assumes "ready b (Linear_ctor e k n p) st" "t_shape x = [m, k]"
  shows "yields p st (Linear_call e p x st) (\<lambda>y. t_shape y = [m, n])"
  unfolding Linear_call_def
proof (rule yields_table)
  show "ready b [(p, [make_tensor e ''A'' [k, n] ''weight'', make_tensor e ''Y'' [k, n] ''act''])] st"
    using assms(1) by (simp add: Linear_ctor_def)
  fix tbl assume o: "offers [make_tensor e ''A'' [k, n] ''weight'', make_tensor e ''Y'' [k, n] ''act''] tbl"
    and b: "\<not> dv_perform_execution (ms_device st)"
  have "weight_in tbl ''A'' [k, n]" "act_in tbl ''Y''"
    using weight_in_offers [OF o, of "''A''"] act_in_offers [OF o, of "''Y''"] by simp_all
  then show "leaf_yields tbl (ms_device st) (Linear_forward (me_ram e) (module_map_name p) (current_batch st) x
      (ms_ctl st) tbl (ms_device st)) (\<lambda>y. t_shape y = [m, n])"
    by (auto simp: Linear_forward_def weight_in_def assms(2) device_execution_building [OF b] Let_def
        intro!: leaf_step leaf_return offers_update_after)
qed

lemma LayerNorm_yields [build]:
  assumes "ready b (LayerNorm_ctor e k p) st" "t_shape x = [m, k]"
  shows "yields p st (LayerNorm_call p x st) (\<lambda>y. t_shape y = [m, k])"
  unfolding LayerNorm_call_def
proof (rule yields_table)
  let ?tbl = "[make_tensor e ''layer_norm_weight'' [k, 1] ''weight'', make_tensor e ''layer_norm_output'' [k, 1] ''act'']"
  show "ready b [(p, ?tbl)] st" using assms(1) by (simp add: LayerNorm_ctor_def)
  fix tbl assume o: "offers ?tbl tbl" and b: "\<not> dv_perform_execution (ms_device st)"
  have "weight_in tbl ''layer_norm_weight'' [k, 1]" "act_in tbl ''layer_norm_output''"
    using weight_in_offers [OF o, of "''layer_norm_weight''"] act_in_offers [OF o, of "''layer_norm_output''"] by simp_all
  then show "leaf_yields tbl (ms_device st) (LayerNorm_forward x (ms_ctl st) tbl (ms_device st)) (\<lambda>y. t_shape y = [m, k])"
    by (auto simp: LayerNorm_forward_def weight_in_def assms(2) Let_def intro!: leaf_step leaf_return)
qed

text \<open>A leaf module with one activation that it returns in a given shape.\<close>

lemma one_act_table:
  assumes "ready b [(p, [make_tensor e nm shp ''act''])] st"
    and "\<And>tbl. act_in tbl nm \<Longrightarrow> \<not> dv_perform_execution (ms_device st) \<Longrightarrow>
      leaf_yields tbl (ms_device st) (f (ms_ctl st) tbl (ms_device st)) Q"
  shows "yields p st (on_table f p st) Q"
  using assms(1)
proof (rule yields_table)
  fix tbl assume "offers [make_tensor e nm shp ''act''] tbl" "\<not> dv_perform_execution (ms_device st)"
  then show "leaf_yields tbl (ms_device st) (f (ms_ctl st) tbl (ms_device st)) Q"
    using assms(2) [OF act_in_offers, of "[make_tensor e nm shp ''act'']" tbl] by simp
qed

lemma Residual_yields [build]:
  assumes "ready b (Residual_ctor e p) st" "t_shape x = [m, k]"
  shows "yields p st (Residual_call p x st) (\<lambda>y. t_shape y = [m, k])"
  unfolding Residual_call_def
  by (rule one_act_table [where nm = "''residual_out''"])
    (use assms in \<open>auto simp: Residual_ctor_def Residual_forward_def Let_def module_node_def intro!: leaf_step leaf_return\<close>)

lemma AllReduce_yields [build]:
  assumes "ready b (AllReduce_ctor e p) st" "t_shape x = [m, k]"
  shows "yields p st (AllReduce_call dl p x st) (\<lambda>y. t_shape y = [m, k])"
  unfolding AllReduce_call_def
  by (rule one_act_table [where nm = "''allreduce_output''"])
    (use assms in \<open>auto simp: AllReduce_ctor_def AllReduce_forward_def Let_def module_node_def intro!: leaf_step leaf_return\<close>)

lemma MoEScatter_yields [build]:
  assumes "ready b (MoEScatter_ctor e p) st" "t_shape x = [m, k]"
  shows "yields p st (MoEScatter_call e p x st) (\<lambda>y. t_shape y = [m, k])"
  unfolding MoEScatter_call_def
  by (rule one_act_table [where nm = "''moe_scatter_output''"])
    (use assms in \<open>auto simp: MoEScatter_ctor_def MoEScatter_forward_def Let_def module_node_def intro!: leaf_step leaf_return\<close>)

lemma MoEGather_yields [build]:
  assumes "ready b (MoEGather_ctor e p) st" "xs \<noteq> []" "\<forall>x \<in> set xs. \<exists>m. t_shape x = [m, k]"
  shows "yields p st (MoEGather_call e p xs st) (\<lambda>ys. ys = xs)"
proof -
  obtain x xs' m where x: "xs = x # xs'" "t_shape x = [m, k]" using assms(2,3) by (cases xs) auto
  then have "vec_at xs 0 = Inr x" by (simp add: vec_at_def)
  then show ?thesis unfolding MoEGather_call_def
    by (intro one_act_table [where nm = "''moe_gather_output''"])
      (use assms(1) x(2) in \<open>auto simp: MoEGather_ctor_def MoEGather_forward_def Let_def module_node_def intro!: leaf_step leaf_return\<close>)
qed

lemma Sync_Set_yields [build]:
  assumes "ready b (Sync_Set_ctor e p) st"
  shows "yields p st (Sync_Set_call p x st) (\<lambda>_. True)"
  unfolding Sync_Set_call_def
  by (rule one_act_table [where nm = "''sync''"])
    (use assms in \<open>auto simp: Sync_Set_ctor_def Sync_Set_forward_def Let_def module_node_def intro!: leaf_step leaf_return\<close>)

lemma Sync_yields [build]:
  assumes "ready b (Sync_ctor e p) st"
  shows "yields p st (Sync_forward p x st) (\<lambda>_. True)"
proof -
  have r: "ready b (Sync_Set_ctor e (p @ [''sync__set''])) st" "ready b [(p @ [''sync__''], [])] st"
    using assms by (simp_all add: Sync_ctor_def module_node_def ready_def)
  have "get_modules p [''sync__set'', ''sync__''] st = Inr ()"
    using r by (intro get_modules_ready) (auto simp: Sync_Set_ctor_def module_node_def)
  moreover have "yields p st (rbind (invoke p ''sync__set'' Sync_Set_call x st) (\<lambda>(temp, st).
      invoke p ''sync__'' (\<lambda>_ input st. Inr (input, st)) temp st)) (\<lambda>_. True)"
  proof (rule yields_bind)
    show "yields p st (invoke p ''sync__set'' Sync_Set_call x st) (\<lambda>_. True)"
      by (rule yields_call [OF r(1)], rule Sync_Set_yields)
  qed (auto intro!: yields_invoke yields_return)
  ultimately show ?thesis by (simp add: Sync_forward_def)
qed

lemma GateUpdate_yields [build]:
  assumes "ready b (GateUpdate_ctor e p) st" "t_shape x = [m, k]"
  shows "yields p st (GateUpdate_call e p x st) (\<lambda>y. t_shape y = [m, k])"
  unfolding GateUpdate_call_def
proof (rule yields_bind)
  show "yields p st (on_table (\<lambda>ctl tbl d. rbind (get_activation ctl tbl ''gate_update_output'' (t_shape x) True)
       (\<lambda>(ctl, tbl, output). Inr (output, ctl, tbl, d))) p st) (\<lambda>y. t_shape y = [m, k])"
    by (rule one_act_table [where nm = "''gate_update_output''"])
      (use assms in \<open>auto simp: GateUpdate_ctor_def module_node_def intro!: leaf_step leaf_return\<close>)
  fix y st' assume "kept st st'" "t_shape y = [m, k]"
  moreover from this have "ms_scheduler st' = None" using assms(1) by (simp add: kept_def ready_def)
  moreover from this have "kept st' (st'\<lparr>ms_scheduler := None\<rparr>)" by (simp add: kept_def)
  ultimately show "yields p st' (rbind (aggregate_expert (dv_total_rank (ms_device st')) (me_model e) (map_option fst (ms_scheduler st')))
      (\<lambda>s. Inr (y, st'\<lparr>ms_scheduler := (case (s, ms_scheduler st') of (Some s, Some (_, i)) \<Rightarrow> Some (s, i) | _ \<Rightarrow> None)\<rparr>)))
      (\<lambda>y. t_shape y = [m, k])"
    by (auto simp: aggregate_expert_def yields_return)
qed

text \<open>Weights come back from an execution as they were.\<close>

lemma offers_update_weight:
  assumes "offers tbl tbl'" "weight_in tbl' nm shp" "t_tag t = ''weight''" "t_shape t = shp"
  shows "offers tbl (AList.update nm t tbl')"
proof (rule offers_trans [OF assms(1)])
  show "offers tbl' (AList.update nm t tbl')"
    using assms(2-4) by (auto simp: offers_def act_in_def weight_in_def update_conv' is_weight_def)
qed

lemma BatchedLinear_yields [build]:
  assumes "ready b (BatchedLinear_ctor e g k n False p) st" "xs \<noteq> []" "\<forall>x \<in> set xs. t_shape x = [m, k]"
  shows "yields p st (BatchedLinear_call e dup False p xs st) (\<lambda>ys. length ys = length xs \<and> (\<forall>y \<in> set ys. t_shape y = [m, n]))"
  unfolding BatchedLinear_call_def
proof (rule yields_table)
  let ?tbl = "[make_tensor e ''batched_linear_input'' [g, k, n] ''act'', make_tensor e ''batched_linear_output'' [g, k, n] ''act'',
    make_tensor e ''weight'' [g, k, n] ''weight'', make_tensor e ''output'' [k, n] ''act'']"
  show "ready b [(p, ?tbl)] st" using assms(1) by (simp add: BatchedLinear_ctor_def Let_def)
  fix tbl assume o: "offers ?tbl tbl" and nb: "\<not> dv_perform_execution (ms_device st)"
  obtain x xs' where x: "xs = x # xs'" "t_shape x = [m, k]" using assms(2,3) by (cases xs) auto
  have "weight_in tbl ''weight'' [g, k, n]" using weight_in_offers [OF o, of "''weight''"] by simp
  then obtain w where w: "map_of tbl ''weight'' = Some w" "t_tag w = ''weight''" "t_shape w = [g, k, n]"
    by (auto simp: weight_in_def)
  have a: "act_in tbl ''batched_linear_input''" "act_in tbl ''batched_linear_output''" "act_in tbl ''output''" "weight_in tbl ''weight'' [g, k, n]"
    using act_in_offers [OF o] weight_in_offers [OF o] by simp_all
  have upd: "offers tbl (AList.update ''batched_linear_output'' y2 (AList.update ''batched_linear_input'' x2
      (AList.update ''weight'' w (AList.update ''output'' o2 tbl'))))"
    if "offers tbl tbl'" "\<not> is_weight y2" "\<not> is_weight x2" "\<not> is_weight o2" "t_device y2 \<noteq> None" "t_device x2 \<noteq> None" "t_device o2 \<noteq> None"
      "t_mmap y2 = ALL_CHANNEL" "t_mmap x2 = ALL_CHANNEL" "t_mmap o2 = ALL_CHANNEL" for tbl' y2 x2 o2
  proof -
    have s1: "offers tbl (AList.update ''output'' o2 tbl')"
      using that act_in_offers [OF that(1) a(3)] by (rule_tac offers_update_after)
    have s2: "offers tbl (AList.update ''weight'' w (AList.update ''output'' o2 tbl'))"
      using w weight_in_offers [OF s1 a(4)] by (intro offers_update_weight [OF s1])
    have s3: "offers tbl (AList.update ''batched_linear_input'' x2 (AList.update ''weight'' w (AList.update ''output'' o2 tbl')))"
      using that act_in_offers [OF s2 a(1)] s2 by (rule_tac offers_update_after)
    show ?thesis using that act_in_offers [OF s3 a(2)] s3 by (rule_tac offers_update_after)
  qed
  show "leaf_yields tbl (ms_device st) (BatchedLinear_forward (me_ram e) (module_map_name p) dup False (current_batch st) xs
      (ms_ctl st) tbl (ms_device st)) (\<lambda>ys. length ys = length xs \<and> (\<forall>y \<in> set ys. t_shape y = [m, n]))"
    unfolding BatchedLinear_forward_def
    by (simp add: w x Let_def device_execution_building [OF nb])
      (intro leaf_step leaf_return upd offers_refl a; simp)
qed

lemma BatchedLinear_plain_yields [build]:
  assumes "ready b (BatchedLinear_ctor e g k n True p) st" "xs \<noteq> []" "\<forall>x \<in> set xs. t_shape x = [m, c]" "c * int (length xs) = k"
  shows "yields p st (BatchedLinear_call e dup True p xs st) (\<lambda>ys. \<exists>y. ys = [y] \<and> t_shape y = [m, n])"
  unfolding BatchedLinear_call_def
proof (rule yields_table)
  let ?tbl = "[make_tensor e ''plain_linear_input'' [k, n] ''act'', make_tensor e ''plain_linear_output'' [k, n] ''act'',
    make_tensor e ''weight'' [k, n] ''weight'']"
  show "ready b [(p, ?tbl)] st" using assms(1) by (simp add: BatchedLinear_ctor_def Let_def)
  fix tbl assume o: "offers ?tbl tbl" and nb: "\<not> dv_perform_execution (ms_device st)"
  obtain x xs' where x: "xs = x # xs'" "t_shape x = [m, c]" using assms(2,3) by (cases xs) auto
  have "weight_in tbl ''weight'' [k, n]" using weight_in_offers [OF o, of "''weight''"] by simp
  then obtain w where w: "map_of tbl ''weight'' = Some w" "t_tag w = ''weight''" "t_shape w = [k, n]"
    by (auto simp: weight_in_def)
  have a: "act_in tbl ''plain_linear_input''" "act_in tbl ''plain_linear_output''" using act_in_offers [OF o] by simp_all
  show "leaf_yields tbl (ms_device st) (BatchedLinear_forward (me_ram e) (module_map_name p) dup True (current_batch st) xs
      (ms_ctl st) tbl (ms_device st)) (\<lambda>ys. \<exists>y. ys = [y] \<and> t_shape y = [m, n])"
    unfolding BatchedLinear_forward_def using assms(4)
    by (simp add: w x Let_def device_execution_building [OF nb])
      (intro leaf_step leaf_return offers_refl a offers_update_after; simp)
qed

text \<open>Routing: every expert gets an input, whatever the split of the experts.\<close>

lemma rfold_slice_returns:
  assumes "\<forall>i \<in> set is. 0 \<le> i \<and> i < int (length counts)"
  shows "rfold (\<lambda>i acc. rbind (vec_ix counts i) (\<lambda>n. Inr (acc @ [n]))) is acc = Inr (acc @ map (\<lambda>i. counts ! nat i) is)"
  using assms by (induction "is" arbitrary: acc) (auto simp: vec_ix_def)

lemma route_mark_returns:
  assumes "\<exists>H. split c tokens = Inr H"
  shows "\<exists>t'. route_mark split c tokens off i t = Inr t' \<and> t_shape t' = t_shape t \<and> is_weight t' = is_weight t \<and>
    t_device t' = t_device t \<and> t_mmap t' = t_mmap t"
  using assms by (auto simp: route_mark_def is_weight_def setPerformHigh_def setPerformLow_def)

lemma route_one_returns:
  assumes "act_in tbl (''expert_input_'' @ to_string i)" "0 \<le> i" "i < int (length counts)" "\<exists>H. split c tokens = Inr H"
  shows "\<exists>ctl' tbl' t. route_one split c counts tokens [m, k] off i (ctl, tbl, acc) = Inr (ctl', tbl', acc @ [t]) \<and>
    offers tbl tbl' \<and> t_shape t = [counts ! nat i, k]"
proof -
  let ?nm = "''expert_input_'' @ to_string i"
  obtain ctl' tbl' t where g: "get_activation ctl tbl ?nm [counts ! nat i, k] True = Inr (ctl', tbl', t)" "offers tbl tbl'"
    "t_shape t = [counts ! nat i, k]" "\<not> is_weight t" "t_device t \<noteq> None" "t_mmap t = ALL_CHANNEL"
    using get_activation_act [OF assms(1)] by blast
  obtain t' where t': "route_mark split c tokens off i t = Inr t'" "t_shape t' = t_shape t" "is_weight t' = is_weight t"
    "t_device t' = t_device t" "t_mmap t' = t_mmap t" using route_mark_returns [of split c tokens off i t] assms(4) by blast
  have "offers tbl (AList.update ?nm t' tbl')"
    using g t' act_in_offers [OF g(2) assms(1)] by (intro offers_update_after) simp_all
  moreover have "vec_ix counts i = Inr (counts ! nat i)" using assms(2,3) by (simp add: vec_ix_def)
  ultimately show ?thesis using g t' by (simp add: route_one_def Let_def)
qed

lemma route_loop_returns:
  assumes "\<forall>i \<in> set is. act_in tbl (''expert_input_'' @ to_string i) \<and> 0 \<le> i \<and> i < int (length counts)" "\<exists>H. split c tokens = Inr H"
  shows "\<exists>ctl' tbl' ts. rfold (route_one split c counts tokens [m, k] off) is (ctl, tbl, acc) = Inr (ctl', tbl', acc @ ts) \<and>
    offers tbl tbl' \<and> length ts = length is \<and> (\<forall>t \<in> set ts. \<exists>n. t_shape t = [n, k])"
  using assms(1)
proof (induction "is" arbitrary: ctl tbl acc)
  case (Cons i "is")
  obtain ctl1 tbl1 t where s: "route_one split c counts tokens [m, k] off i (ctl, tbl, acc) = Inr (ctl1, tbl1, acc @ [t])"
    "offers tbl tbl1" "t_shape t = [counts ! nat i, k]"
    using route_one_returns [where split = split and c = c and tokens = tokens and i = i] Cons.prems assms(2) by fastforce
  have "\<forall>j \<in> set is. act_in tbl1 (''expert_input_'' @ to_string j) \<and> 0 \<le> j \<and> j < int (length counts)"
    using Cons.prems act_in_offers [OF s(2)] by simp
  from Cons.IH [OF this, of ctl1 "acc @ [t]"] obtain ctl2 tbl2 ts where
    "rfold (route_one split c counts tokens [m, k] off) is (ctl1, tbl1, acc @ [t]) = Inr (ctl2, tbl2, (acc @ [t]) @ ts)"
    "offers tbl1 tbl2" "length ts = length is" "\<forall>t \<in> set ts. \<exists>n. t_shape t = [n, k]" by blast
  then show ?case using s offers_trans [OF s(2)] by (intro exI [of _ ctl2] exI [of _ tbl2] exI [of _ "t # ts"]) simp
qed simp

lemma expert_inputs_act: "i \<in> set is \<Longrightarrow>
    act_in (map (\<lambda>i. make_tensor e (''expert_input_'' @ to_string i) [1, 1] ''act'') is) (''expert_input_'' @ to_string i)"
  by (induction "is") auto

lemma Route_yields [build]:
  assumes "ready b (Route_ctor e p) st" "xs = [x]" "t_shape x = [m, k]"
    and "num_routed_expert (me_model e) \<le> int (length (bs_num_token_in_expert b))"
    and "0 \<le> off" "off + n \<le> num_routed_expert (me_model e)"
    and "\<And>c ns. length ns = nat n \<Longrightarrow> \<exists>H. me_split e c ns = Inr H"
  shows "yields p st (Route_call e n off p xs st)
    (\<lambda>ys. int (length ys) = max 0 (num_routed_expert (me_model e)) \<and> (\<forall>y \<in> set ys. \<exists>j. t_shape y = [j, k]))"
proof -
  let ?E = "num_routed_expert (me_model e)" and ?counts = "bs_num_token_in_expert b"
  let ?tbl = "make_tensor e ''route_weight'' [hidden_dim (me_model e), ?E] ''weight'' #
    map (\<lambda>i. make_tensor e (''expert_input_'' @ to_string i) [1, 1] ''act'') (irange 0 ?E)"
  have cur: "current_batch st = b" using assms(1) by (simp add: current_batch_def ready_def)
  have slice: "rfold (\<lambda>i acc. rbind (vec_ix ?counts i) (\<lambda>n. Inr (acc @ [n]))) (irange off (off + n)) [] =
      Inr (map (\<lambda>i. ?counts ! nat i) (irange off (off + n)))"
    using rfold_slice_returns [of "irange off (off + n)" ?counts "[]"] assms(4-6) by simp
  have tok: "\<exists>H. me_split e c (map (\<lambda>i. ?counts ! nat i) (irange off (off + n))) = Inr H" for c
    by (rule assms(7)) simp
  have "yields p st (on_table (\<lambda>ctl tbl d. rbind (route_forward (me_split e) (dv_config d) ?E off n ?counts [m, k] ctl tbl)
       (\<lambda>(ctl, tbl, output_vec). Inr (output_vec, ctl, tbl, d))) p st)
      (\<lambda>ys. int (length ys) = max 0 ?E \<and> (\<forall>y \<in> set ys. \<exists>j. t_shape y = [j, k]))"
  proof (rule yields_table)
    show "ready b [(p, ?tbl)] st" using assms(1) by (simp add: Route_ctor_def Let_def)
    fix tbl assume o: "offers ?tbl tbl"
    have act: "\<forall>i \<in> set (irange 0 ?E). act_in tbl (''expert_input_'' @ to_string i) \<and> 0 \<le> i \<and> i < int (length ?counts)"
      using act_in_offers [OF o] expert_inputs_act assms(4) by simp
    from route_loop_returns [of "irange 0 ?E" tbl ?counts "me_split e" "dv_config (ms_device st)" _ m k off "ms_ctl st" "[]", OF act tok] show "leaf_yields tbl (ms_device st)
        (rbind (route_forward (me_split e) (dv_config (ms_device st)) ?E off n ?counts [m, k] (ms_ctl st) tbl)
          (\<lambda>(ctl, tbl, output_vec). Inr (output_vec, ctl, tbl, ms_device st)))
        (\<lambda>ys. int (length ys) = max 0 ?E \<and> (\<forall>y \<in> set ys. \<exists>j. t_shape y = [j, k]))"
      by (fastforce simp: route_forward_def slice intro!: leaf_return)
  qed
  then show ?thesis by (simp add: Route_call_def assms(2,3) cur)
qed

end
