(* ===== verification/Attention_Modules.thy ===== *)
theory Attention_Modules
  imports Build_Rules
begin

text \<open>
  The leaf modules of attention, \<^verbatim>\<open>src/module/attention.cpp\<close> and
  \<^verbatim>\<open>attention.h\<close>: their constructors, which allocate a cache for every sequence
  of the largest batch, and what their \<^verbatim>\<open>forward\<close> does to their tensors and the device.
  The other leaf modules are in \<^theory_text>\<open>Plain_Modules\<close>.
\<close>

text \<open>The data members of the attention modules, which their constructors copy.\<close>

record attn_args =
  aa_head_dim :: int
  aa_num_heads :: int
  aa_num_kv_heads :: int
  aa_max_seq_len :: int
  aa_batch_size :: int
  aa_qk_rope_head_dim :: int
  aa_kv_lora_rank :: int
  aa_use_absorb :: bool
  aa_compressed_kv :: bool
  aa_use_flash_mla :: bool
  aa_use_flash_attention :: bool

text \<open>
  The side an attention layer runs on: a marked input fixes it; otherwise some layers prefer the high
  side when the device has several processors.
\<close>

definition mark_side ::
  "(tensor \<Rightarrow> tensor) \<Rightarrow> ProcessorType \<Rightarrow> bool \<Rightarrow> system_config \<Rightarrow> tensor \<Rightarrow> layer_info \<Rightarrow> tensor \<Rightarrow> layer_info \<times> tensor" where
  "mark_side set_side pt prefer_high c input info output =
     (if t_parallel_execution input then
        (info\<lparr>li_processor_type := [pt], li_parallel_execution := True\<rparr>, set_side output)
      else if prefer_high \<and> length (processor_type c) \<noteq> 1 then
        (info\<lparr>li_processor_type := [high_processor_type c]\<rparr>, setPerformHigh output)
      else (info, output))"

text \<open>Calling a leaf module with the current batch.\<close>

definition leaf_call ::
  "(batched_sequence \<Rightarrow> 'i \<Rightarrow> mmap_ctl \<Rightarrow> table \<Rightarrow> device \<Rightarrow> ('o \<times> mmap_ctl \<times> table \<times> device) res) \<Rightarrow> mpath \<Rightarrow> 'i \<Rightarrow> mstate \<Rightarrow> ('o \<times> mstate) res" where
  "leaf_call f p input st = on_table (f (current_batch st) input) p st"

section \<open>Grouped-query attention\<close>

text \<open>One key and one value cache per sequence and key-value head.\<close>

definition kv_caches :: "module_env \<Rightarrow> int list \<Rightarrow> int \<Rightarrow> int \<Rightarrow> table" where
  "kv_caches e shape batch_size n =
     concat (map (\<lambda>seq_idx. concat (map (\<lambda>kv_idx.
       [make_tensor e (''k_cache_'' @ to_string seq_idx @ ''_'' @ to_string kv_idx) shape ''cache'',
        make_tensor e (''v_cache_'' @ to_string seq_idx @ ''_'' @ to_string kv_idx) shape ''cache''])
       (irange 0 n))) (irange 0 batch_size))"

definition SelfAttentionGen_ctor :: "module_env \<Rightarrow> attn_args \<Rightarrow> mpath \<Rightarrow> mtables" where
  "SelfAttentionGen_ctor e a p =
     (let shape = [aa_max_seq_len a, aa_head_dim a] in
      module_node p (kv_caches e shape (aa_batch_size a) (aa_num_kv_heads a) @ [make_tensor e ''attn_output'' shape ''act'']) [])"

definition attn_info :: "system_config \<Rightarrow> attn_args \<Rightarrow> int \<Rightarrow> layer_info" where
  "attn_info c a gs = LayerInfo_default\<lparr>li_processor_type := processor_type c, li_attention_group_size := gs,
     li_num_heads := aa_num_heads a, li_num_kv_heads := aa_num_kv_heads a, li_head_dim := aa_head_dim a,
     li_qk_rope_head_dim := aa_qk_rope_head_dim a\<rparr>"

text \<open>The first key and value cache stand for all of them; they are in the table, so the execution may reshape them.\<close>

definition SelfAttentionGen_forward ::
  "ramulator \<Rightarrow> attn_args \<Rightarrow> batched_sequence \<Rightarrow> tensor \<Rightarrow> mmap_ctl \<Rightarrow> table \<Rightarrow> device \<Rightarrow> leaf_result" where
  "SelfAttentionGen_forward ram a seqs input ctl tbl d =
     rbind (vec_ix (t_shape input) 0) (\<lambda>m.
     rbind (get_activation ctl tbl ''attn_output'' [m, aa_num_heads a * aa_head_dim a] True) (\<lambda>(ctl, tbl, output).
     let (info, output) = mark_side setPerformLow (low_processor_type (dv_config d)) False (dv_config d) input
           (attn_info (dv_config d) a (cdiv (aa_num_heads a) (aa_num_kv_heads a))) output;
         tbl = AList.update ''attn_output'' output tbl
     in rbind (get_cache ctl tbl ''k_cache'' 0 0 False) (\<lambda>(ctl, tbl, k).
        rbind (get_cache ctl tbl ''v_cache'' 0 0 False) (\<lambda>(ctl, tbl, v).
        rbind (device_execution ram ATTENTION_GEN [input, k, v] seqs info d) (\<lambda>(d, ts).
        Inr (output, ctl, AList.update (cache_name ''v_cache'' 0 0 False) (ts ! 2)
          (AList.update (cache_name ''k_cache'' 0 0 False) (ts ! 1) tbl), d))))))"

definition SelfAttentionSum_ctor :: "module_env \<Rightarrow> attn_args \<Rightarrow> mpath \<Rightarrow> mtables" where
  "SelfAttentionSum_ctor e a p = module_node p
     [make_tensor e ''attn_output'' [aa_batch_size a, aa_max_seq_len a, aa_num_kv_heads a, aa_head_dim a] ''act''] []"

text \<open>The group size given here is head dimension over heads, not heads over key-value heads.\<close>

definition SelfAttentionSum_forward ::
  "ramulator \<Rightarrow> attn_args \<Rightarrow> batched_sequence \<Rightarrow> tensor \<Rightarrow> mmap_ctl \<Rightarrow> table \<Rightarrow> device \<Rightarrow> leaf_result" where
  "SelfAttentionSum_forward ram a seqs input ctl tbl d =
     rbind (vec_ix (t_shape input) 0) (\<lambda>m.
     rbind (get_activation ctl tbl ''attn_output'' [m, aa_num_heads a * aa_head_dim a] True) (\<lambda>(ctl, tbl, output).
     let (info, output) = mark_side setPerformHigh (high_processor_type (dv_config d)) False (dv_config d) input
           (attn_info (dv_config d) a (cdiv (aa_head_dim a) (aa_num_heads a))) output
     in rbind (device_execution ram ATTENTION_SUM [input, output] seqs info d) (\<lambda>(d, ts).
        Inr (ts ! 1, ctl, AList.update ''attn_output'' (ts ! 1) tbl, d))))"

definition SelfAttentionMixed_ctor :: "module_env \<Rightarrow> attn_args \<Rightarrow> mpath \<Rightarrow> mtables" where
  "SelfAttentionMixed_ctor e a p = module_node p
     [make_tensor e ''attn_output'' [aa_batch_size a, aa_max_seq_len a, aa_num_kv_heads a, aa_head_dim a] ''act''] []"

definition SelfAttentionMixed_forward ::
  "ramulator \<Rightarrow> attn_args \<Rightarrow> batched_sequence \<Rightarrow> tensor \<Rightarrow> mmap_ctl \<Rightarrow> table \<Rightarrow> device \<Rightarrow> leaf_result" where
  "SelfAttentionMixed_forward ram a seqs input ctl tbl d =
     rbind (vec_ix (t_shape input) 0) (\<lambda>m.
     rbind (device_execution ram ATTENTION_MIXED [input, input] seqs
       (attn_info (dv_config d) a (cdiv (aa_head_dim a) (aa_num_heads a))) d) (\<lambda>(d, ts).
     rbind (get_activation ctl tbl ''attn_output'' [m, aa_num_heads a * aa_head_dim a] True) (\<lambda>(ctl, tbl, output).
     Inr (output, ctl, tbl, d))))"

section \<open>Splitting a batch into prompts and generation\<close>

definition AttentionSplit_ctor :: "module_env \<Rightarrow> mpath \<Rightarrow> mtables" where
  "AttentionSplit_ctor e p = module_node p
     [make_tensor e ''sum_tensor'' [1, 1] ''act'', make_tensor e ''gen_tensor'' [1, 1] ''act''] []"

definition split_shape :: "attn_args \<Rightarrow> int \<Rightarrow> int \<Rightarrow> int list" where
  "split_shape a num_heads_per_device token =
     (if aa_qk_rope_head_dim a = 0 then [token, (aa_num_heads a + aa_num_kv_heads a * 2) * aa_head_dim a]
      else if aa_use_absorb a then [num_heads_per_device, token, aa_kv_lora_rank a]
      else [token, aa_num_heads a * (2 * (aa_head_dim a + aa_qk_rope_head_dim a) + aa_head_dim a)])"

text \<open>Both clocks of the device are joined before the two parts run; prompts are high, generation is low.\<close>

definition AttentionSplit_forward ::
  "attn_args \<Rightarrow> batched_sequence \<Rightarrow> tensor list \<Rightarrow> mmap_ctl \<Rightarrow> table \<Rightarrow> device \<Rightarrow> (tensor list \<times> mmap_ctl \<times> table \<times> device) res" where
  "AttentionSplit_forward a seqs input ctl tbl d =
     (let heads = int (length input) in
      rbind (get_activation ctl tbl ''sum_tensor'' (split_shape a heads (get_sum_process_token seqs)) True) (\<lambda>(ctl, tbl, sum_tensor).
      rbind (get_activation ctl tbl ''gen_tensor'' (split_shape a heads (get_gen_process_token seqs)) True) (\<lambda>(ctl, tbl, gen_tensor).
      let d = d\<lparr>dv_status := sync_set_status (dv_status d)\<rparr>;
          par = parallel_execution (dv_config d);
          sum_tensor = (if par then setPerformHigh sum_tensor else sum_tensor);
          gen_tensor = (if par then setPerformLow gen_tensor else gen_tensor)
      in Inr ([sum_tensor, gen_tensor], ctl,
           AList.update ''gen_tensor'' gen_tensor (AList.update ''sum_tensor'' sum_tensor tbl), d))))"

definition AttentionMerge_ctor :: "module_env \<Rightarrow> mpath \<Rightarrow> mtables" where
  "AttentionMerge_ctor e p = module_node p [make_tensor e ''output_tensor'' [1, 1] ''act''] []"

text \<open>The absorbed variant hands the merged tensor to every head of the device.\<close>

definition merge_rows :: "int \<Rightarrow> tensor list \<Rightarrow> int \<Rightarrow> unit res" where
  "merge_rows i input token =
     rbind (vec_ix input i) (\<lambda>x. rbind (tensor_dim x 0) (\<lambda>n.
     assertTrue (n = token) ''Dimenison of input tensor of AttentionMerge is not matched''))"

definition AttentionMerge_forward ::
  "attn_args \<Rightarrow> batched_sequence \<Rightarrow> tensor list \<Rightarrow> mmap_ctl \<Rightarrow> table \<Rightarrow> device \<Rightarrow> (tensor list \<times> mmap_ctl \<times> table \<times> device) res" where
  "AttentionMerge_forward a seqs input ctl tbl d =
     (let sum_token = get_sum_process_token seqs; gen_token = get_gen_process_token seqs in
      if aa_use_absorb a then
        rbind (get_activation ctl tbl ''output_tensor'' [sum_token + gen_token, aa_kv_lora_rank a] True) (\<lambda>(ctl, tbl, output).
        Inr (map (\<lambda>_. output) (irange 0 (aa_num_heads a)), ctl, tbl, d\<lparr>dv_status := sync_set_status (dv_status d)\<rparr>))
      else
        rbind (merge_rows 0 input sum_token) (\<lambda>_. rbind (merge_rows 1 input gen_token) (\<lambda>_.
        rbind (get_activation ctl tbl ''output_tensor'' [sum_token + gen_token, aa_num_heads a * aa_head_dim a] True)
          (\<lambda>(ctl, tbl, output).
        Inr ([output], ctl, tbl, d\<lparr>dv_status := sync_set_status (dv_status d)\<rparr>)))))"

section \<open>Latent attention\<close>

definition MultiLatentAttentionGen_ctor :: "module_env \<Rightarrow> attn_args \<Rightarrow> mpath \<Rightarrow> mtables" where
  "MultiLatentAttentionGen_ctor e a p =
     (let shape = [aa_max_seq_len a, aa_head_dim a] in
      module_node p ((if \<not> aa_compressed_kv a then kv_caches e shape (aa_batch_size a) (aa_num_kv_heads a) else []) @
        [make_tensor e ''attn_output'' shape ''act'']) [])"

definition MultiLatentAttentionGen_forward ::
  "ramulator \<Rightarrow> attn_args \<Rightarrow> batched_sequence \<Rightarrow> tensor \<Rightarrow> mmap_ctl \<Rightarrow> table \<Rightarrow> device \<Rightarrow> leaf_result" where
  "MultiLatentAttentionGen_forward ram a seqs input ctl tbl d =
     rbind (vec_ix (t_shape input) 0) (\<lambda>m.
     rbind (get_activation ctl tbl ''attn_output'' [m, aa_num_heads a * aa_head_dim a] True) (\<lambda>(ctl, tbl, output).
     let c = dv_config d;
         (info, output) = mark_side setPerformLow (low_processor_type c) True c input
           (LayerInfo_default\<lparr>li_processor_type := processor_type c\<rparr>) output;
         info = info\<lparr>li_num_heads := aa_num_heads a, li_head_dim := aa_head_dim a,
           li_qk_rope_head_dim := aa_qk_rope_head_dim a, li_use_flash_mla := aa_use_flash_mla a\<rparr>;
         tbl = AList.update ''attn_output'' output tbl
     in if aa_compressed_kv a then
          rbind (device_execution ram MLA_GEN [input] seqs info d) (\<lambda>(d, _). Inr (output, ctl, tbl, d))
        else
          rbind (get_cache ctl tbl ''k_cache'' 0 0 False) (\<lambda>(ctl, tbl, k).
          rbind (get_cache ctl tbl ''v_cache'' 0 0 False) (\<lambda>(ctl, tbl, v).
          rbind (device_execution ram MLA_GEN [input, k, v] seqs info d) (\<lambda>(d, ts).
          Inr (output, ctl, AList.update (cache_name ''v_cache'' 0 0 False) (ts ! 2)
            (AList.update (cache_name ''k_cache'' 0 0 False) (ts ! 1) tbl), d))))))"

definition MultiLatentAttentionSum_ctor :: "module_env \<Rightarrow> attn_args \<Rightarrow> mpath \<Rightarrow> mtables" where
  "MultiLatentAttentionSum_ctor e a p = module_node p
     [make_tensor e ''attn_output'' [aa_batch_size a, aa_max_seq_len a, aa_num_kv_heads a, aa_head_dim a] ''act''] []"

definition latent_sum_info :: "system_config \<Rightarrow> attn_args \<Rightarrow> layer_info" where
  "latent_sum_info c a = attn_info c a (cdiv (aa_head_dim a) (aa_num_heads a))"

text \<open>The output of the prompts keeps the shape of the input, queries, keys and values included.\<close>

definition MultiLatentAttentionSum_forward ::
  "ramulator \<Rightarrow> attn_args \<Rightarrow> batched_sequence \<Rightarrow> tensor \<Rightarrow> mmap_ctl \<Rightarrow> table \<Rightarrow> device \<Rightarrow> leaf_result" where
  "MultiLatentAttentionSum_forward ram a seqs input ctl tbl d =
     rbind (get_activation ctl tbl ''attn_output'' (t_shape input) True) (\<lambda>(ctl, tbl, output).
     let c = dv_config d;
         (info, output) = mark_side setPerformHigh (high_processor_type c) True c input
           ((latent_sum_info c a)\<lparr>li_use_flash_attention := aa_use_flash_attention a\<rparr>) output
     in rbind (device_execution ram MLA_SUM [input, output] seqs info d) (\<lambda>(d, ts).
        Inr (ts ! 1, ctl, AList.update ''attn_output'' (ts ! 1) tbl, d)))"

section \<open>Absorbed latent attention\<close>

definition latent_caches :: "module_env \<Rightarrow> string \<Rightarrow> string \<Rightarrow> attn_args \<Rightarrow> table" where
  "latent_caches e kv pe a = concat (map (\<lambda>seq_idx.
     [make_tensor e (kv @ to_string seq_idx) [aa_max_seq_len a, aa_kv_lora_rank a] ''cache'',
      make_tensor e (pe @ to_string seq_idx) [aa_max_seq_len a, aa_qk_rope_head_dim a] ''cache'']) (irange 0 (aa_batch_size a)))"

definition AbsorbMLAGen_ctor :: "module_env \<Rightarrow> attn_args \<Rightarrow> int \<Rightarrow> mpath \<Rightarrow> mtables" where
  "AbsorbMLAGen_ctor e a parallel_num p = module_node p
     (latent_caches e ''latent_kv_cache_'' ''latent_pe_cache_'' a @
      [make_tensor e ''attn_output'' [cdiv (aa_num_kv_heads a) parallel_num, aa_max_seq_len a, aa_kv_lora_rank a] ''act'']) []"

text \<open>Every generating sequence needs its caches. A marked input runs on the high side, generation or not.\<close>

definition touch_caches :: "int \<Rightarrow> mmap_ctl \<times> table \<Rightarrow> (mmap_ctl \<times> table) res" where
  "touch_caches seq_idx = (\<lambda>(ctl, tbl).
     rbind (get_cache ctl tbl ''latent_kv_cache'' seq_idx 0 True) (\<lambda>(ctl, tbl, _).
     rbind (get_cache ctl tbl ''latent_pe_cache'' seq_idx 0 True) (\<lambda>(ctl, tbl, _). Inr (ctl, tbl))))"

definition AbsorbMLAGen_forward ::
  "ramulator \<Rightarrow> attn_args \<Rightarrow> batched_sequence \<Rightarrow> tensor \<Rightarrow> mmap_ctl \<Rightarrow> table \<Rightarrow> device \<Rightarrow> leaf_result" where
  "AbsorbMLAGen_forward ram a seqs input ctl tbl d =
     rbind (get_activation ctl tbl ''attn_output'' (t_shape input) True) (\<lambda>(ctl, tbl, output).
     let c = dv_config d;
         (info, output) = mark_side setPerformHigh (high_processor_type c) True c input
           (LayerInfo_default\<lparr>li_processor_type := processor_type c\<rparr>) output;
         info = info\<lparr>li_num_heads := aa_num_heads a, li_head_dim := aa_head_dim a,
           li_qk_rope_head_dim := aa_qk_rope_head_dim a, li_kv_lora_rank := aa_kv_lora_rank a,
           li_use_flash_mla := aa_use_flash_mla a\<rparr>;
         tbl = AList.update ''attn_output'' output tbl
     in rbind (rfold touch_caches (irange 0 (int (length (get_gen seqs)))) (ctl, tbl)) (\<lambda>(ctl, tbl).
        rbind (device_execution ram ABSORBED_MLA_GEN [input] seqs info d) (\<lambda>(d, _).
        Inr (output, ctl, tbl, d))))"

definition AbsorbMLASum_ctor :: "module_env \<Rightarrow> attn_args \<Rightarrow> int \<Rightarrow> mpath \<Rightarrow> mtables" where
  "AbsorbMLASum_ctor e a parallel_num p = module_node p
     [make_tensor e ''attn_output'' [cdiv (aa_num_kv_heads a) parallel_num, aa_max_seq_len a, aa_kv_lora_rank a] ''act''] []"

definition AbsorbMLASum_forward ::
  "ramulator \<Rightarrow> attn_args \<Rightarrow> batched_sequence \<Rightarrow> tensor \<Rightarrow> mmap_ctl \<Rightarrow> table \<Rightarrow> device \<Rightarrow> leaf_result" where
  "AbsorbMLASum_forward ram a seqs input ctl tbl d =
     rbind (get_activation ctl tbl ''attn_output'' (t_shape input) True) (\<lambda>(ctl, tbl, output).
     let c = dv_config d;
         (info, output) = mark_side setPerformHigh (high_processor_type c) True c input
           ((latent_sum_info c a)\<lparr>li_kv_lora_rank := aa_kv_lora_rank a\<rparr>) output
     in rbind (device_execution ram ABSORBED_MLA_SUM [input, output] seqs info d) (\<lambda>(d, ts).
        Inr (ts ! 1, ctl, AList.update ''attn_output'' (ts ! 1) tbl, d)))"

end
