(* ===== verification/Plain_Modules.thy ===== *)
theory Plain_Modules
  imports Attention_Modules
begin

text \<open>
  The remaining leaf modules: \<^verbatim>\<open>src/module/activation.cpp\<close>,
  \<^verbatim>\<open>rope.cpp\<close>, \<^verbatim>\<open>compressed_kv_restore.cpp\<close>,
  \<^verbatim>\<open>embedding.cpp\<close> and \<^verbatim>\<open>lm_head.cpp\<close>, and the rules that say that
  they, and the attention modules, return while a model is built.
\<close>

section \<open>Activation functions\<close>

definition SiluAndMul_ctor :: "module_env \<Rightarrow> mpath \<Rightarrow> mtables" where
  "SiluAndMul_ctor e p = module_node p [make_tensor e ''SiluOut'' [1, 1] ''act''] []"

definition SiluAndMul_forward :: "tensor \<Rightarrow> mmap_ctl \<Rightarrow> table \<Rightarrow> device \<Rightarrow> leaf_result" where
  "SiluAndMul_forward input ctl tbl d =
     rbind (vec_ix (t_shape input) 1) (\<lambda>k. rbind (vec_ix (t_shape input) 0) (\<lambda>m.
     rbind (assertTrue (cmod k 1 = 0) ''input.dim(1) % this->activation_factor != 0'') (\<lambda>_.
     rbind (get_activation ctl tbl ''SiluOut'' [m, cdiv k 1] True) (\<lambda>(ctl, tbl, output).
     Inr (output, ctl, tbl, d)))))"

definition Activation_ctor :: "module_env \<Rightarrow> mpath \<Rightarrow> mtables" where
  "Activation_ctor e p = module_node p [make_tensor e ''ActOut'' [1, 1] ''act'', make_tensor e ''GateOut'' [1, 1] ''act''] []"

text \<open>The processors are chosen as for a linear layer.\<close>

definition Activation_forward ::
  "ramulator \<Rightarrow> int \<Rightarrow> batched_sequence \<Rightarrow> tensor \<Rightarrow> mmap_ctl \<Rightarrow> table \<Rightarrow> device \<Rightarrow> leaf_result" where
  "Activation_forward ram factor seqs input ctl tbl d =
     rbind (vec_ix (t_shape input) 1) (\<lambda>k. rbind (vec_ix (t_shape input) 0) (\<lambda>m.
     rbind (assertTrue (cmod k factor = 0) ''input.dim(1) % this->activation_factor != 0'') (\<lambda>_.
     rbind (get_activation ctl tbl ''ActOut'' [m, cdiv k factor] True) (\<lambda>(ctl, tbl, output).
     rbind (get_activation ctl tbl ''GateOut'' [m, cdiv k factor] True) (\<lambda>(ctl, tbl, gate_output).
     let output = pass_side input (output\<lparr>t_perform_with_optimal := t_perform_with_optimal input\<rparr>);
         tbl = AList.update ''ActOut'' output tbl
     in rbind (device_execution ram ACTIVATION [gate_output, input, output] seqs (linear_info (dv_config d) input) d)
       (\<lambda>(d, _). Inr (output, ctl, tbl, d)))))))"

section \<open>Rotary embeddings\<close>

definition RoPE_ctor :: "module_env \<Rightarrow> mpath \<Rightarrow> mtables" where
  "RoPE_ctor e p = module_node p [make_tensor e ''sin_cos'' [1, 1] ''act'', make_tensor e ''rope_out'' [1, 1] ''act''] []"

text \<open>The maximum is taken with zero, not with the lengths seen so far: the last sequence decides.\<close>

definition rope_max_len :: "batched_sequence \<Rightarrow> int" where
  "rope_max_len seqs = fold (\<lambda>s max_len. max (sq_current_len s + sq_num_process_token s) 0) (get_seq seqs) 0"

definition rope_time :: "system_config \<Rightarrow> int \<Rightarrow> int \<Rightarrow> int \<Rightarrow> int \<Rightarrow> real" where
  "rope_time c elements rows cols precision =
     elementwise_time c (of_int (elements * 6)) ((2 * of_int elements + of_int rows * of_int cols) * of_int precision)"

definition RoPE_forward ::
  "int \<Rightarrow> batched_sequence \<Rightarrow> tensor \<Rightarrow> mmap_ctl \<Rightarrow> table \<Rightarrow> device \<Rightarrow> leaf_result" where
  "RoPE_forward qk_rope seqs input ctl tbl d =
     rbind (vec_ix (t_shape input) 0) (\<lambda>m. rbind (vec_ix (t_shape input) 1) (\<lambda>k.
     let rows = 2 * rope_max_len seqs in
     rbind (get_activation ctl tbl ''sin_cos'' [rows, qk_rope] True) (\<lambda>(ctl, tbl, _).
     rbind (get_activation ctl tbl ''rope_out'' (t_shape input) True) (\<lambda>(ctl, tbl, output).
     if getSize input = 0 then Inr (output, ctl, tbl, d)
     else Inr (output, ctl, tbl, add_leaf_time (t_parallel_execution input \<and> \<not> communication_hiding (dv_config d)) input
       (rope_time (dv_config d) (m * k) rows qk_rope (t_precision_byte input)) d)))))"

text \<open>The batched variant charges for all heads and hands its input on.\<close>

definition BatchedRoPE_forward ::
  "int \<Rightarrow> batched_sequence \<Rightarrow> tensor list \<Rightarrow> mmap_ctl \<Rightarrow> table \<Rightarrow> device \<Rightarrow> (tensor list \<times> mmap_ctl \<times> table \<times> device) res" where
  "BatchedRoPE_forward qk_rope seqs input ctl tbl d =
     rbind (vec_ix input 0) (\<lambda>x. rbind (vec_ix (t_shape x) 0) (\<lambda>k. rbind (vec_ix (t_shape x) 1) (\<lambda>n.
     let m = int (length input); rows = 2 * rope_max_len seqs in
     rbind (get_activation ctl tbl ''sin_cos'' [rows, qk_rope] True) (\<lambda>(ctl, tbl, _).
     rbind (get_activation ctl tbl ''rope_out'' (t_shape x) True) (\<lambda>(ctl, tbl, _).
     if getSize x = 0 then Inr (input, ctl, tbl, d)
     else Inr (input, ctl, tbl, add_leaf_time (t_parallel_execution x \<and> \<not> communication_hiding (dv_config d)) x
       (rope_time (dv_config d) (m * k * n) rows qk_rope (t_precision_byte x)) d))))))"

section \<open>Compressed keys and values\<close>

definition CompressedKVRestore_ctor :: "module_env \<Rightarrow> attn_args \<Rightarrow> mpath \<Rightarrow> mtables" where
  "CompressedKVRestore_ctor e a p = module_node p
     ((if aa_compressed_kv a then latent_caches e ''c_kv_cache_'' ''c_pe_cache_'' a else []) @
      [make_tensor e ''concated_latent_kv'' [1, 1] ''act'', make_tensor e ''concated_k_rope'' [1, 1] ''act'']) []"

definition CompressedKVRestore_forward ::
  "attn_args \<Rightarrow> batched_sequence \<Rightarrow> tensor list \<Rightarrow> mmap_ctl \<Rightarrow> table \<Rightarrow> device \<Rightarrow> (tensor list \<times> mmap_ctl \<times> table \<times> device) res" where
  "CompressedKVRestore_forward a seqs input ctl tbl d =
     rbind (if aa_compressed_kv a then
              (let rows = get_sum_process_token seqs + get_total_sequence_length seqs + int (length (get_gen seqs)) in
               rbind (get_cache ctl tbl ''c_kv_cache'' 0 0 True) (\<lambda>(ctl, tbl, _).
               rbind (get_cache ctl tbl ''c_pe_cache'' 0 0 True) (\<lambda>(ctl, tbl, _).
               Inr (ctl, tbl, [rows, aa_kv_lora_rank a], [rows, aa_qk_rope_head_dim a]))))
            else rbind (vec_ix input 0) (\<lambda>x. rbind (vec_ix input 1) (\<lambda>y. Inr (ctl, tbl, t_shape x, t_shape y))))
       (\<lambda>(ctl, tbl, kv_shape, rope_shape).
     rbind (get_activation ctl tbl ''concated_latent_kv'' kv_shape True) (\<lambda>(ctl, tbl, kv).
     rbind (get_activation ctl tbl ''concated_k_rope'' rope_shape True) (\<lambda>(ctl, tbl, rope).
     Inr ([kv, rope], ctl, tbl, d))))"

section \<open>The ends of the model\<close>

definition Embedding_ctor :: "module_env \<Rightarrow> mpath \<Rightarrow> mtables" where
  "Embedding_ctor e p = (let m = me_model e in module_node p
     [make_tensor e ''Embedding'' [n_vocab m, hidden_dim m] ''weight'',
      make_tensor e ''Hidden vector'' [1, hidden_dim m] ''act''] [])"

definition Embedding_forward :: "model_config \<Rightarrow> batched_sequence \<Rightarrow> mmap_ctl \<Rightarrow> table \<Rightarrow> device \<Rightarrow> leaf_result" where
  "Embedding_forward m seqs ctl tbl d =
     rbind (get_activation ctl tbl ''Hidden vector'' [get_process_token seqs, hidden_dim m] True) (\<lambda>(ctl, tbl, output).
     Inr (output, ctl, tbl, d))"

definition LmHead_ctor :: "module_env \<Rightarrow> mpath \<Rightarrow> mtables" where
  "LmHead_ctor e p = (let m = me_model e in module_node p
     [make_tensor e ''lm_head_wgt'' [hidden_dim m, n_vocab m] ''weight'',
      make_tensor e ''Hidden vector'' [1, hidden_dim m] ''act''] [])"

definition LmHead_forward :: "model_config \<Rightarrow> batched_sequence \<Rightarrow> mmap_ctl \<Rightarrow> table \<Rightarrow> device \<Rightarrow> leaf_result" where
  "LmHead_forward m seqs ctl tbl d =
     rbind (get_activation ctl tbl ''Hidden vector'' [get_process_token seqs, n_vocab m] True) (\<lambda>(ctl, tbl, output).
     Inr (output, ctl, tbl, d))"

section \<open>Building with these modules\<close>

text \<open>A table whose tensors all are activations and caches of a device.\<close>

definition all_acts :: "table \<Rightarrow> bool" where
  "all_acts tbl \<longleftrightarrow> list_all (\<lambda>x. \<not> is_weight (snd x) \<and> t_device (snd x) \<noteq> None \<and> t_mmap (snd x) = ALL_CHANNEL) tbl"

lemma act_in_all_acts: "all_acts tbl \<Longrightarrow> nm \<in> fst ` set tbl \<Longrightarrow> act_in tbl nm"
  by (induction tbl) (auto simp: all_acts_def act_in_def split: if_splits)

lemma all_acts_simps [simp]:
  "all_acts []" "all_acts (make_tensor e nm shp tg # tbl) \<longleftrightarrow> (tg = ''act'' \<or> tg = ''cache'') \<and> all_acts tbl"
  "all_acts (xs @ ys) \<longleftrightarrow> all_acts xs \<and> all_acts ys"
  "all_acts (concat tbls) \<longleftrightarrow> (\<forall>tbl \<in> set tbls. all_acts tbl)"
  by (auto simp: all_acts_def make_tensor_def Tensor_ctor_def is_weight_def list_all_iff)

lemma caches_all_acts [simp]: "all_acts (kv_caches e shp bs n)" "all_acts (latent_caches e kv pe a)"
  by (simp_all add: kv_caches_def latent_caches_def)

lemma fst_make_tensor [simp]: "fst (make_tensor e nm shp tg) = nm"
  by (simp add: make_tensor_def)

lemma kv_caches_act:
  assumes "0 < bs" "0 < n"
  shows "act_in (kv_caches e shp bs n @ tbl) (cache_name ''k_cache'' 0 0 False)"
    "act_in (kv_caches e shp bs n @ tbl) (cache_name ''v_cache'' 0 0 False)"
  using assms by (simp_all add: kv_caches_def irange_Cons cache_name_def)

lemma latent_caches_act:
  assumes "0 \<le> i" "i < aa_batch_size a"
  shows "act_in (latent_caches e kv pe a @ tbl) (kv @ to_string i)" "act_in (latent_caches e kv pe a @ tbl) (pe @ to_string i)"
  using assms by (auto intro!: act_in_append act_in_all_acts bexI [of _ i] simp: latent_caches_def image_iff)

lemma latent_caches_named:
  assumes "0 \<le> i" "i < aa_batch_size a"
  shows "act_in (latent_caches e ''latent_kv_cache_'' ''latent_pe_cache_'' a @ tbl) (cache_name ''latent_kv_cache'' i 0 True)"
    "act_in (latent_caches e ''latent_kv_cache_'' ''latent_pe_cache_'' a @ tbl) (cache_name ''latent_pe_cache'' i 0 True)"
    "act_in (latent_caches e ''c_kv_cache_'' ''c_pe_cache_'' a @ tbl) (cache_name ''c_kv_cache'' i 0 True)"
    "act_in (latent_caches e ''c_kv_cache_'' ''c_pe_cache_'' a @ tbl) (cache_name ''c_pe_cache'' i 0 True)"
  using latent_caches_act [OF assms, of e "''latent_kv_cache_''" "''latent_pe_cache_''" tbl]
    latent_caches_act [OF assms, of e "''c_kv_cache_''" "''c_pe_cache_''" tbl] by (simp_all add: cache_name_def)

text \<open>What stays true of an activation that is marked, and of the table it is put back into.\<close>

definition good_act :: "tensor \<Rightarrow> bool" where
  "good_act t \<longleftrightarrow> \<not> is_weight t \<and> t_device t \<noteq> None \<and> t_mmap t = ALL_CHANNEL"

lemma good_act_marks [simp]:
  "good_act (setPerformHigh t) = good_act t" "good_act (setPerformLow t) = good_act t" "good_act (pass_side x t) = good_act t"
  "good_act (t\<lparr>t_perform_with_optimal := b\<rparr>) = good_act t"
  by (simp_all add: good_act_def)

lemma mark_side_output:
  assumes "set_side = setPerformHigh \<or> set_side = setPerformLow"
  shows "t_shape (snd (mark_side set_side pt h c x i t)) = t_shape t" "good_act (snd (mark_side set_side pt h c x i t)) = good_act t"
  using assms by (auto simp: mark_side_def)

lemmas mark_side_outputs [simp] =
  mark_side_output [of setPerformHigh, simplified] mark_side_output [of setPerformLow, simplified]

lemma offers_set: "offers tbl tbl' \<Longrightarrow> act_in tbl nm \<Longrightarrow> good_act t \<Longrightarrow> offers tbl (AList.update nm t tbl')"
  unfolding good_act_def by (blast intro: offers_update_after act_in_offers)

lemma act_step:
  assumes "offers tbl tbl0" "act_in tbl nm"
    and "\<And>ctl' tbl' t. offers tbl tbl' \<Longrightarrow> t_shape t = shp \<Longrightarrow> good_act t \<Longrightarrow> leaf_yields tbl d (g ctl' tbl' t) Q"
  shows "leaf_yields tbl d (rbind (get_activation ctl tbl0 nm shp True) (\<lambda>(ctl, tbl, t). g ctl tbl t)) Q"
  by (rule leaf_step [OF assms(1,2)]) (simp add: assms(3) good_act_def)

lemma cache_step:
  assumes "offers tbl tbl0" "act_in tbl (cache_name nm i j c)"
    and "\<And>ctl' tbl' t. offers tbl tbl' \<Longrightarrow> good_act t \<Longrightarrow> leaf_yields tbl d (g ctl' tbl' t) Q"
  shows "leaf_yields tbl d (rbind (get_cache ctl tbl0 nm i j c) (\<lambda>(ctl, tbl, t). g ctl tbl t)) Q"
  using get_cache_act [OF act_in_offers [OF assms(1,2)], of ctl] assms(3) offers_trans [OF assms(1)]
  by (fastforce simp: good_act_def)

lemma rbind_assoc3: "rbind (rbind m (\<lambda>(a, b, c). f a b c)) g = rbind m (\<lambda>(a, b, c). rbind (f a b c) g)"
  by (cases m) (simp_all add: case_prod_beta)

lemmas leaf_intros = act_step cache_step leaf_return offers_set

lemma yields_leaf_call:
  assumes "ready b [(p, tbl)] st"
    and "\<And>tbl' d ctl. offers tbl tbl' \<Longrightarrow> \<not> dv_perform_execution d \<Longrightarrow> leaf_yields tbl' d (f b x ctl tbl' d) Q"
  shows "yields p st (leaf_call f p x st) Q"
proof -
  have "current_batch st = b" using assms(1) by (simp add: current_batch_def ready_def)
  then show ?thesis unfolding leaf_call_def using assms by (auto intro: yields_table)
qed

lemma SelfAttentionSum_yields [build]:
  assumes "ready b (SelfAttentionSum_ctor e a p) st" "t_shape x = [m, k]"
  shows "yields p st (leaf_call (SelfAttentionSum_forward ram a) p x st) (\<lambda>y. t_shape y = [m, aa_num_heads a * aa_head_dim a])"
proof (rule yields_leaf_call)
  let ?tbl = "[make_tensor e ''attn_output'' [aa_batch_size a, aa_max_seq_len a, aa_num_kv_heads a, aa_head_dim a] ''act'']"
  show "ready b [(p, ?tbl)] st" using assms(1) by (simp add: SelfAttentionSum_ctor_def)
  fix tbl ctl and d :: device assume o: "offers ?tbl tbl" and nb: "\<not> dv_perform_execution d"
  have "act_in tbl ''attn_output''" using act_in_offers [OF o] by simp
  then show "leaf_yields tbl d (SelfAttentionSum_forward ram a b x ctl tbl d) (\<lambda>y. t_shape y = [m, aa_num_heads a * aa_head_dim a])"
    by (auto simp: SelfAttentionSum_forward_def assms(2) device_execution_building [OF nb] Let_def case_prod_beta
        intro!: leaf_intros)
qed

lemma SelfAttentionGen_yields [build]:
  assumes "ready b (SelfAttentionGen_ctor e a p) st" "t_shape x = [m, k]" "0 < aa_batch_size a" "0 < aa_num_kv_heads a"
  shows "yields p st (leaf_call (SelfAttentionGen_forward ram a) p x st) (\<lambda>y. t_shape y = [m, aa_num_heads a * aa_head_dim a])"
proof (rule yields_leaf_call)
  let ?tbl = "kv_caches e [aa_max_seq_len a, aa_head_dim a] (aa_batch_size a) (aa_num_kv_heads a) @ [make_tensor e ''attn_output'' [aa_max_seq_len a, aa_head_dim a] ''act'']"
  show "ready b [(p, ?tbl)] st" using assms(1) by (simp add: SelfAttentionGen_ctor_def Let_def)
  fix tbl ctl and d :: device assume o: "offers ?tbl tbl" and nb: "\<not> dv_perform_execution d"
  have "act_in tbl ''attn_output''" "act_in tbl (cache_name ''k_cache'' 0 0 False)" "act_in tbl (cache_name ''v_cache'' 0 0 False)" using act_in_offers [OF o] kv_caches_act [OF assms(3,4)] act_in_all_acts by simp_all
  then show "leaf_yields tbl d (SelfAttentionGen_forward ram a b x ctl tbl d) (\<lambda>y. t_shape y = [m, aa_num_heads a * aa_head_dim a])"
    by (auto simp: SelfAttentionGen_forward_def assms(2) device_execution_building [OF nb] Let_def case_prod_beta
        intro!: leaf_intros)
qed

lemma SelfAttentionMixed_yields [build]:
  assumes "ready b (SelfAttentionMixed_ctor e a p) st" "t_shape x = [m, k]"
  shows "yields p st (leaf_call (SelfAttentionMixed_forward ram a) p x st) (\<lambda>y. t_shape y = [m, aa_num_heads a * aa_head_dim a])"
proof (rule yields_leaf_call)
  let ?tbl = "[make_tensor e ''attn_output'' [aa_batch_size a, aa_max_seq_len a, aa_num_kv_heads a, aa_head_dim a] ''act'']"
  show "ready b [(p, ?tbl)] st" using assms(1) by (simp add: SelfAttentionMixed_ctor_def)
  fix tbl ctl and d :: device assume o: "offers ?tbl tbl" and nb: "\<not> dv_perform_execution d"
  have "act_in tbl ''attn_output''" using act_in_offers [OF o] by simp_all
  then show "leaf_yields tbl d (SelfAttentionMixed_forward ram a b x ctl tbl d) (\<lambda>y. t_shape y = [m, aa_num_heads a * aa_head_dim a])"
    by (auto simp: SelfAttentionMixed_forward_def assms(2) device_execution_building [OF nb] Let_def case_prod_beta
        intro!: leaf_intros)
qed

lemma AttentionSplit_yields [build]:
  assumes "ready b (AttentionSplit_ctor e p) st"
  shows "yields p st (leaf_call (AttentionSplit_forward a) p x st) (\<lambda>ys. \<exists>s g. ys = [s, g] \<and> t_shape s = split_shape a (int (length x)) (get_sum_process_token b) \<and> t_shape g = split_shape a (int (length x)) (get_gen_process_token b))"
proof (rule yields_leaf_call)
  let ?tbl = "[make_tensor e ''sum_tensor'' [1, 1] ''act'', make_tensor e ''gen_tensor'' [1, 1] ''act'']"
  show "ready b [(p, ?tbl)] st" using assms(1) by (simp add: AttentionSplit_ctor_def)
  fix tbl ctl and d :: device assume o: "offers ?tbl tbl" and nb: "\<not> dv_perform_execution d"
  have "act_in tbl ''sum_tensor''" "act_in tbl ''gen_tensor''" using act_in_offers [OF o] by simp_all
  then show "leaf_yields tbl d (AttentionSplit_forward a b x ctl tbl d) (\<lambda>ys. \<exists>s g. ys = [s, g] \<and> t_shape s = split_shape a (int (length x)) (get_sum_process_token b) \<and> t_shape g = split_shape a (int (length x)) (get_gen_process_token b))"
    by (auto simp: AttentionSplit_forward_def device_execution_building [OF nb] Let_def case_prod_beta
        intro!: leaf_intros)
qed

lemma AttentionMerge_yields [build]:
  assumes "ready b (AttentionMerge_ctor e p) st" "\<not> aa_use_absorb a" "x = [s, g]" "t_shape s = get_sum_process_token b # s'" "t_shape g = get_gen_process_token b # g'"
  shows "yields p st (leaf_call (AttentionMerge_forward a) p x st) (\<lambda>ys. \<exists>y. ys = [y] \<and> t_shape y = [get_sum_process_token b + get_gen_process_token b, aa_num_heads a * aa_head_dim a])"
proof (rule yields_leaf_call)
  let ?tbl = "[make_tensor e ''output_tensor'' [1, 1] ''act'']"
  show "ready b [(p, ?tbl)] st" using assms(1) by (simp add: AttentionMerge_ctor_def)
  fix tbl ctl and d :: device assume o: "offers ?tbl tbl" and nb: "\<not> dv_perform_execution d"
  have "act_in tbl ''output_tensor''" using act_in_offers [OF o] by simp_all
  then show "leaf_yields tbl d (AttentionMerge_forward a b x ctl tbl d) (\<lambda>ys. \<exists>y. ys = [y] \<and> t_shape y = [get_sum_process_token b + get_gen_process_token b, aa_num_heads a * aa_head_dim a])"
    by (auto simp: AttentionMerge_forward_def merge_rows_def tensor_dim_def assms(2-) device_execution_building [OF nb] Let_def case_prod_beta
        intro!: leaf_intros)
qed

lemma AttentionMerge_absorb_yields [build]:
  assumes "ready b (AttentionMerge_ctor e p) st" "aa_use_absorb a"
  shows "yields p st (leaf_call (AttentionMerge_forward a) p x st) (\<lambda>ys. length ys = nat (aa_num_heads a) \<and> (\<forall>y \<in> set ys. t_shape y = [get_sum_process_token b + get_gen_process_token b, aa_kv_lora_rank a]))"
proof (rule yields_leaf_call)
  let ?tbl = "[make_tensor e ''output_tensor'' [1, 1] ''act'']"
  show "ready b [(p, ?tbl)] st" using assms(1) by (simp add: AttentionMerge_ctor_def)
  fix tbl ctl and d :: device assume o: "offers ?tbl tbl" and nb: "\<not> dv_perform_execution d"
  have "act_in tbl ''output_tensor''" using act_in_offers [OF o] by simp_all
  then show "leaf_yields tbl d (AttentionMerge_forward a b x ctl tbl d) (\<lambda>ys. length ys = nat (aa_num_heads a) \<and> (\<forall>y \<in> set ys. t_shape y = [get_sum_process_token b + get_gen_process_token b, aa_kv_lora_rank a]))"
    by (auto simp: AttentionMerge_forward_def assms(2-) device_execution_building [OF nb] Let_def case_prod_beta
        intro!: leaf_intros)
qed

lemma MultiLatentAttentionSum_yields [build]:
  assumes "ready b (MultiLatentAttentionSum_ctor e a p) st"
  shows "yields p st (leaf_call (MultiLatentAttentionSum_forward ram a) p x st) (\<lambda>y. t_shape y = t_shape x)"
proof (rule yields_leaf_call)
  let ?tbl = "[make_tensor e ''attn_output'' [aa_batch_size a, aa_max_seq_len a, aa_num_kv_heads a, aa_head_dim a] ''act'']"
  show "ready b [(p, ?tbl)] st" using assms(1) by (simp add: MultiLatentAttentionSum_ctor_def)
  fix tbl ctl and d :: device assume o: "offers ?tbl tbl" and nb: "\<not> dv_perform_execution d"
  have "act_in tbl ''attn_output''" using act_in_offers [OF o] by simp_all
  then show "leaf_yields tbl d (MultiLatentAttentionSum_forward ram a b x ctl tbl d) (\<lambda>y. t_shape y = t_shape x)"
    by (auto simp: MultiLatentAttentionSum_forward_def device_execution_building [OF nb] Let_def case_prod_beta
        intro!: leaf_intros)
qed

lemma MultiLatentAttentionGen_yields [build]:
  assumes "ready b (MultiLatentAttentionGen_ctor e a p) st" "t_shape x = [m, k]" "\<not> aa_compressed_kv a \<Longrightarrow> 0 < aa_batch_size a \<and> 0 < aa_num_kv_heads a"
  shows "yields p st (leaf_call (MultiLatentAttentionGen_forward ram a) p x st) (\<lambda>y. t_shape y = [m, aa_num_heads a * aa_head_dim a])"
proof (rule yields_leaf_call)
  let ?tbl = "(if \<not> aa_compressed_kv a then kv_caches e [aa_max_seq_len a, aa_head_dim a] (aa_batch_size a) (aa_num_kv_heads a) else []) @ [make_tensor e ''attn_output'' [aa_max_seq_len a, aa_head_dim a] ''act'']"
  show "ready b [(p, ?tbl)] st" using assms(1) by (simp add: MultiLatentAttentionGen_ctor_def Let_def)
  fix tbl ctl and d :: device assume o: "offers ?tbl tbl" and nb: "\<not> dv_perform_execution d"
  have "act_in tbl ''attn_output''" using act_in_offers [OF o] act_in_all_acts by simp
  moreover have "\<not> aa_compressed_kv a \<Longrightarrow> act_in tbl (cache_name ''k_cache'' 0 0 False)" "\<not> aa_compressed_kv a \<Longrightarrow> act_in tbl (cache_name ''v_cache'' 0 0 False)"
    using act_in_offers [OF o] kv_caches_act assms(3) by simp_all
  ultimately show "leaf_yields tbl d (MultiLatentAttentionGen_forward ram a b x ctl tbl d) (\<lambda>y. t_shape y = [m, aa_num_heads a * aa_head_dim a])"
    by (auto simp: MultiLatentAttentionGen_forward_def assms(2) device_execution_building [OF nb] Let_def case_prod_beta
        intro!: leaf_intros)
qed

lemma AbsorbMLASum_yields [build]:
  assumes "ready b (AbsorbMLASum_ctor e a pn p) st"
  shows "yields p st (leaf_call (AbsorbMLASum_forward ram a) p x st) (\<lambda>y. t_shape y = t_shape x)"
proof (rule yields_leaf_call)
  let ?tbl = "[make_tensor e ''attn_output'' [cdiv (aa_num_kv_heads a) pn, aa_max_seq_len a, aa_kv_lora_rank a] ''act'']"
  show "ready b [(p, ?tbl)] st" using assms(1) by (simp add: AbsorbMLASum_ctor_def)
  fix tbl ctl and d :: device assume o: "offers ?tbl tbl" and nb: "\<not> dv_perform_execution d"
  have "act_in tbl ''attn_output''" using act_in_offers [OF o] by simp_all
  then show "leaf_yields tbl d (AbsorbMLASum_forward ram a b x ctl tbl d) (\<lambda>y. t_shape y = t_shape x)"
    by (auto simp: AbsorbMLASum_forward_def device_execution_building [OF nb] Let_def case_prod_beta
        intro!: leaf_intros)
qed

lemma Activation_yields [build]:
  assumes "ready b (Activation_ctor e p) st" "t_shape x = [m, k]" "cmod k f = 0"
  shows "yields p st (leaf_call (Activation_forward ram f) p x st) (\<lambda>y. t_shape y = [m, cdiv k f])"
proof (rule yields_leaf_call)
  let ?tbl = "[make_tensor e ''ActOut'' [1, 1] ''act'', make_tensor e ''GateOut'' [1, 1] ''act'']"
  show "ready b [(p, ?tbl)] st" using assms(1) by (simp add: Activation_ctor_def)
  fix tbl ctl and d :: device assume o: "offers ?tbl tbl" and nb: "\<not> dv_perform_execution d"
  have "act_in tbl ''ActOut''" "act_in tbl ''GateOut''" using act_in_offers [OF o] by simp_all
  then show "leaf_yields tbl d (Activation_forward ram f b x ctl tbl d) (\<lambda>y. t_shape y = [m, cdiv k f])"
    by (auto simp: Activation_forward_def assms(2-) device_execution_building [OF nb] Let_def case_prod_beta
        intro!: leaf_intros)
qed

lemma RoPE_yields [build]:
  assumes "ready b (RoPE_ctor e p) st" "t_shape x = [m, k]"
  shows "yields p st (leaf_call (RoPE_forward q) p x st) (\<lambda>y. t_shape y = [m, k])"
proof (rule yields_leaf_call)
  let ?tbl = "[make_tensor e ''sin_cos'' [1, 1] ''act'', make_tensor e ''rope_out'' [1, 1] ''act'']"
  show "ready b [(p, ?tbl)] st" using assms(1) by (simp add: RoPE_ctor_def)
  fix tbl ctl and d :: device assume o: "offers ?tbl tbl" and nb: "\<not> dv_perform_execution d"
  have "act_in tbl ''sin_cos''" "act_in tbl ''rope_out''" using act_in_offers [OF o] by simp_all
  then show "leaf_yields tbl d (RoPE_forward q b x ctl tbl d) (\<lambda>y. t_shape y = [m, k])"
    by (auto simp: RoPE_forward_def assms(2-) device_execution_building [OF nb] Let_def case_prod_beta
        intro!: leaf_intros)
qed

lemma BatchedRoPE_yields [build]:
  assumes "ready b (RoPE_ctor e p) st" "x = y # ys" "t_shape y = [m, k]"
  shows "yields p st (leaf_call (BatchedRoPE_forward q) p x st) (\<lambda>zs. zs = x)"
proof (rule yields_leaf_call)
  let ?tbl = "[make_tensor e ''sin_cos'' [1, 1] ''act'', make_tensor e ''rope_out'' [1, 1] ''act'']"
  show "ready b [(p, ?tbl)] st" using assms(1) by (simp add: RoPE_ctor_def)
  fix tbl ctl and d :: device assume o: "offers ?tbl tbl" and nb: "\<not> dv_perform_execution d"
  have "act_in tbl ''sin_cos''" "act_in tbl ''rope_out''" using act_in_offers [OF o] by simp_all
  then show "leaf_yields tbl d (BatchedRoPE_forward q b x ctl tbl d) (\<lambda>zs. zs = x)"
    by (auto simp: BatchedRoPE_forward_def assms(2-) device_execution_building [OF nb] Let_def case_prod_beta
        intro!: leaf_intros)
qed

lemma CompressedKVRestore_yields [build]:
  assumes "ready b (CompressedKVRestore_ctor e a p) st" "0 < aa_batch_size a" "x = [u, v]" "t_shape u = [m, aa_kv_lora_rank a]" "t_shape v = [m, aa_qk_rope_head_dim a]"
  shows "yields p st (leaf_call (CompressedKVRestore_forward a) p x st) (\<lambda>ys. \<exists>y z r. ys = [y, z] \<and> t_shape y = [r, aa_kv_lora_rank a])"
proof (rule yields_leaf_call)
  let ?tbl = "(if aa_compressed_kv a then latent_caches e ''c_kv_cache_'' ''c_pe_cache_'' a else []) @ [make_tensor e ''concated_latent_kv'' [1, 1] ''act'', make_tensor e ''concated_k_rope'' [1, 1] ''act'']"
  show "ready b [(p, ?tbl)] st" using assms(1) by (simp add: CompressedKVRestore_ctor_def)
  fix tbl ctl and d :: device assume o: "offers ?tbl tbl" and nb: "\<not> dv_perform_execution d"
  have "act_in tbl ''concated_latent_kv''" "act_in tbl ''concated_k_rope''" using act_in_offers [OF o] act_in_all_acts by simp_all
  moreover have "aa_compressed_kv a \<Longrightarrow> act_in tbl (cache_name ''c_kv_cache'' 0 0 True)" "aa_compressed_kv a \<Longrightarrow> act_in tbl (cache_name ''c_pe_cache'' 0 0 True)"
    using act_in_offers [OF o] latent_caches_named [of 0 a] assms(2) by simp_all
  ultimately show "leaf_yields tbl d (CompressedKVRestore_forward a b x ctl tbl d) (\<lambda>ys. \<exists>y z r. ys = [y, z] \<and> t_shape y = [r, aa_kv_lora_rank a])"
    by (auto simp: CompressedKVRestore_forward_def rbind_assoc3 assms(3-) device_execution_building [OF nb] Let_def case_prod_beta
        intro!: leaf_intros)
qed

lemma Embedding_yields [build]:
  assumes "ready b (Embedding_ctor e p) st"
  shows "yields p st (leaf_call (\<lambda>b _. Embedding_forward m b) p x st) (\<lambda>y. t_shape y = [get_process_token b, hidden_dim m])"
proof (rule yields_leaf_call)
  let ?tbl = "[make_tensor e ''Embedding'' [n_vocab (me_model e), hidden_dim (me_model e)] ''weight'', make_tensor e ''Hidden vector'' [1, hidden_dim (me_model e)] ''act'']"
  show "ready b [(p, ?tbl)] st" using assms(1) by (simp add: Embedding_ctor_def Let_def)
  fix tbl ctl and d :: device assume o: "offers ?tbl tbl" and nb: "\<not> dv_perform_execution d"
  have "act_in tbl ''Hidden vector''" using act_in_offers [OF o] by simp_all
  then show "leaf_yields tbl d (Embedding_forward m b ctl tbl d) (\<lambda>y. t_shape y = [get_process_token b, hidden_dim m])"
    by (auto simp: Embedding_forward_def device_execution_building [OF nb] Let_def case_prod_beta
        intro!: leaf_intros)
qed

lemma LmHead_yields [build]:
  assumes "ready b (LmHead_ctor e p) st"
  shows "yields p st (leaf_call (\<lambda>b _. LmHead_forward m b) p x st) (\<lambda>y. t_shape y = [get_process_token b, n_vocab m])"
proof (rule yields_leaf_call)
  let ?tbl = "[make_tensor e ''lm_head_wgt'' [hidden_dim (me_model e), n_vocab (me_model e)] ''weight'', make_tensor e ''Hidden vector'' [1, hidden_dim (me_model e)] ''act'']"
  show "ready b [(p, ?tbl)] st" using assms(1) by (simp add: LmHead_ctor_def Let_def)
  fix tbl ctl and d :: device assume o: "offers ?tbl tbl" and nb: "\<not> dv_perform_execution d"
  have "act_in tbl ''Hidden vector''" using act_in_offers [OF o] by simp_all
  then show "leaf_yields tbl d (LmHead_forward m b ctl tbl d) (\<lambda>y. t_shape y = [get_process_token b, n_vocab m])"
    by (auto simp: LmHead_forward_def device_execution_building [OF nb] Let_def case_prod_beta
        intro!: leaf_intros)
qed

text \<open>The caches an absorbed layer touches exist for as many sequences as the batch may hold.\<close>

lemma touch_caches_returns:
  assumes "\<forall>i \<in> set is. act_in tbl (cache_name ''latent_kv_cache'' i 0 True) \<and> act_in tbl (cache_name ''latent_pe_cache'' i 0 True)"
    and "offers tbl tbl0"
  shows "\<exists>ctl' tbl'. rfold touch_caches is (ctl, tbl0) = Inr (ctl', tbl') \<and> offers tbl tbl'"
  using assms
proof (induction "is" arbitrary: ctl tbl0)
  case (Cons i "is")
  obtain ctl1 tbl1 t where 1: "get_cache ctl tbl0 ''latent_kv_cache'' i 0 True = Inr (ctl1, tbl1, t)" "offers tbl0 tbl1"
    using get_cache_act [OF act_in_offers [OF Cons.prems(2)]] Cons.prems(1) by (metis list.set_intros(1))
  obtain ctl2 tbl2 t' where 2: "get_cache ctl1 tbl1 ''latent_pe_cache'' i 0 True = Inr (ctl2, tbl2, t')" "offers tbl1 tbl2"
    using get_cache_act [OF act_in_offers [OF offers_trans [OF Cons.prems(2) 1(2)]]] Cons.prems(1) by (metis list.set_intros(1))
  have "offers tbl tbl2" by (rule offers_trans [OF offers_trans [OF Cons.prems(2) 1(2)] 2(2)])
  then show ?case using Cons.IH [of tbl2 ctl2] Cons.prems(1) 1 2 by (simp add: touch_caches_def)
qed simp

lemma AbsorbMLAGen_yields [build]:
  assumes "ready b (AbsorbMLAGen_ctor e a pn p) st" "int (length (get_gen b)) \<le> aa_batch_size a"
  shows "yields p st (leaf_call (AbsorbMLAGen_forward ram a) p x st) (\<lambda>y. t_shape y = t_shape x)"
proof (rule yields_leaf_call)
  let ?tbl = "latent_caches e ''latent_kv_cache_'' ''latent_pe_cache_'' a @
    [make_tensor e ''attn_output'' [cdiv (aa_num_kv_heads a) pn, aa_max_seq_len a, aa_kv_lora_rank a] ''act'']"
  show "ready b [(p, ?tbl)] st" using assms(1) by (simp add: AbsorbMLAGen_ctor_def)
  fix tbl ctl and d :: device assume o: "offers ?tbl tbl" and nb: "\<not> dv_perform_execution d"
  have a: "act_in tbl ''attn_output''" using act_in_offers [OF o] act_in_all_acts by simp
  have c: "\<forall>i \<in> set (irange 0 (int (length (get_gen b)))).
      act_in tbl (cache_name ''latent_kv_cache'' i 0 True) \<and> act_in tbl (cache_name ''latent_pe_cache'' i 0 True)"
    using act_in_offers [OF o] latent_caches_named [of _ a] assms(2) by simp
  have loop: "leaf_yields tbl d (rbind (rfold touch_caches (irange 0 (int (length (get_gen b)))) (ctl, tbl'))
      (\<lambda>(ctl, tbl). rbind (Inr (d, ts)) (\<lambda>(d, _). Inr (y, ctl, tbl, d)))) (\<lambda>y. t_shape y = t_shape x)"
    if "offers tbl tbl'" "t_shape y = t_shape x" for tbl' y ctl ts
    using touch_caches_returns [OF c that(1), of ctl] that(2) by (auto intro!: leaf_return)
  show "leaf_yields tbl d (AbsorbMLAGen_forward ram a b x ctl tbl d) (\<lambda>y. t_shape y = t_shape x)"
    using a unfolding AbsorbMLAGen_forward_def device_execution_building [OF nb] Let_def case_prod_beta [of _ "mark_side _ _ _ _ _ _ _"]
    by (intro act_step offers_refl loop offers_set) simp_all
qed

end
