(* ===== verification/Parallel_Modules.thy ===== *)
theory Parallel_Modules
  imports Plain_Modules
begin

text \<open>
  The tensor-parallel modules, attention and the feed-forward layers:
  \<^verbatim>\<open>src/module/parallel.cpp\<close> and \<^verbatim>\<open>layer.cpp\<close>. A constructor
  checks its divisions and creates its submodules in order; a \<^verbatim>\<open>forward\<close> looks its
  submodules up and calls them. The list of the devices that share a module is its argument
  \<open>dl\<close>; the data members are the arguments the constructor got.
\<close>

definition parallel_num :: "int list \<Rightarrow> int" where
  "parallel_num dl = int (length dl)"

section \<open>Linear layers over several devices\<close>

definition ColumnParallelLinear_ctor :: "module_env \<Rightarrow> int \<Rightarrow> int \<Rightarrow> int list \<Rightarrow> mpath \<Rightarrow> mtables res" where
  "ColumnParallelLinear_ctor e input_size output_size dl p =
     rbind (assertTrue (cmod output_size (parallel_num dl) = 0) ''output_size mod parallel_num != 0'') (\<lambda>_.
     Inr (module_node p [] [Linear_ctor e input_size (cdiv output_size (parallel_num dl)) (p @ [''Linear''])]))"

definition ParallelLinear_forward :: "module_env \<Rightarrow> mpath \<Rightarrow> tensor \<Rightarrow> mstate \<Rightarrow> (tensor \<times> mstate) res" where
  "ParallelLinear_forward e p input st =
     rbind (get_modules p [''Linear''] st) (\<lambda>_. invoke p ''Linear'' (Linear_call e) input st)"

text \<open>The rows are divided, but it is the number of columns that is checked.\<close>

definition RowParallelLinear_ctor :: "module_env \<Rightarrow> int \<Rightarrow> int \<Rightarrow> int list \<Rightarrow> mpath \<Rightarrow> mtables res" where
  "RowParallelLinear_ctor e input_size output_size dl p =
     rbind (assertTrue (cmod output_size (parallel_num dl) = 0) ''output_size mod parallel_num != 0'') (\<lambda>_.
     Inr (module_node p [] [Linear_ctor e (cdiv input_size (parallel_num dl)) output_size (p @ [''Linear''])]))"

definition BatchedColumnParallelLinear_ctor ::
  "module_env \<Rightarrow> int \<Rightarrow> int \<Rightarrow> int \<Rightarrow> bool \<Rightarrow> int list \<Rightarrow> mpath \<Rightarrow> mtables res" where
  "BatchedColumnParallelLinear_ctor e input_size output_size heads use_plain_linear dl p =
     rbind (assertTrue (cmod output_size (parallel_num dl) = 0) ''output_size mod parallel_num != 0'') (\<lambda>_.
     Inr (module_node p [] [BatchedLinear_ctor e (cdiv heads (parallel_num dl)) input_size
       (if \<not> use_plain_linear then cdiv output_size heads else cdiv output_size (parallel_num dl))
       use_plain_linear (p @ [''Batched_Linear''])]))"

definition BatchedRowParallelLinear_ctor ::
  "module_env \<Rightarrow> int \<Rightarrow> int \<Rightarrow> int \<Rightarrow> bool \<Rightarrow> int list \<Rightarrow> mpath \<Rightarrow> mtables res" where
  "BatchedRowParallelLinear_ctor e input_size output_size heads use_plain_linear dl p =
     rbind (assertTrue (cmod input_size (parallel_num dl) = 0) ''input_size mod parallel_num != 0'') (\<lambda>_.
     Inr (module_node p [] [BatchedLinear_ctor e (cdiv heads (parallel_num dl))
       (if \<not> use_plain_linear then cdiv input_size heads else cdiv input_size (parallel_num dl)) output_size
       use_plain_linear (p @ [''Batched_Linear''])]))"

definition BatchedParallelLinear_forward ::
  "module_env \<Rightarrow> bool \<Rightarrow> bool \<Rightarrow> mpath \<Rightarrow> tensor list \<Rightarrow> mstate \<Rightarrow> (tensor list \<times> mstate) res" where
  "BatchedParallelLinear_forward e dup use_plain p input st =
     rbind (get_modules p [''Batched_Linear''] st) (\<lambda>_. invoke p ''Batched_Linear'' (BatchedLinear_call e dup use_plain) input st)"

section \<open>Attention over several devices\<close>

text \<open>What one device gets of the heads.\<close>

definition shard :: "int list \<Rightarrow> attn_args \<Rightarrow> attn_args" where
  "shard dl a = a\<lparr>aa_num_heads := cdiv (aa_num_heads a) (parallel_num dl), aa_num_kv_heads := cdiv (aa_num_kv_heads a) (parallel_num dl)\<rparr>"

definition plain_split :: "attn_args \<Rightarrow> attn_args" where
  "plain_split a = a\<lparr>aa_kv_lora_rank := 0, aa_use_absorb := False\<rparr>"

definition absorb_split :: "attn_args \<Rightarrow> attn_args" where
  "absorb_split a = a\<lparr>aa_use_absorb := True\<rparr>"

definition SelfAttentionParallel_ctor :: "module_env \<Rightarrow> attn_args \<Rightarrow> int list \<Rightarrow> mpath \<Rightarrow> mtables res" where
  "SelfAttentionParallel_ctor e a dl p =
     rbind (assertTrue (cmod (aa_num_heads a) (parallel_num dl) = 0) ''num_head mod parallel_num == 0'') (\<lambda>_.
     rbind (assertTrue (cmod (aa_num_kv_heads a) (parallel_num dl) = 0) ''num_kv_head mod parallel_num == 0'') (\<lambda>_.
     let a = shard dl a in
     Inr (module_node p [] [AttentionSplit_ctor e (p @ [''AttentionSplit'']), SelfAttentionSum_ctor e a (p @ [''AttentionSum'']),
       SelfAttentionGen_ctor e a (p @ [''AttentionGen'']), AttentionMerge_ctor e (p @ [''AttentionMerge''])])))"

definition attention_parts :: "string list" where
  "attention_parts = [''AttentionSplit'', ''AttentionGen'', ''AttentionSum'', ''AttentionMerge'']"

definition SelfAttentionParallel_forward ::
  "module_env \<Rightarrow> attn_args \<Rightarrow> int list \<Rightarrow> mpath \<Rightarrow> tensor \<Rightarrow> mstate \<Rightarrow> (tensor \<times> mstate) res" where
  "SelfAttentionParallel_forward e a dl p input st =
     (let a = shard dl a in
      rbind (get_modules p attention_parts st) (\<lambda>_.
      rbind (invoke p ''AttentionSplit'' (leaf_call (AttentionSplit_forward (plain_split a))) [input] st) (\<lambda>(tensor_vec, st).
      rbind (vec_ix tensor_vec 0) (\<lambda>x.
      rbind (invoke p ''AttentionSum'' (leaf_call (SelfAttentionSum_forward (me_ram e) a)) x st) (\<lambda>(sum_out, st).
      rbind (vec_ix tensor_vec 1) (\<lambda>y.
      rbind (invoke p ''AttentionGen'' (leaf_call (SelfAttentionGen_forward (me_ram e) a)) y st) (\<lambda>(gen_out, st).
      rbind (invoke p ''AttentionMerge'' (leaf_call (AttentionMerge_forward (plain_split a))) [sum_out, gen_out] st) (\<lambda>(outs, st).
      rbind (vec_at outs 0) (\<lambda>output. Inr (output, st))))))))))"

definition MultiLatentAttentionParallel_ctor :: "module_env \<Rightarrow> attn_args \<Rightarrow> int list \<Rightarrow> mpath \<Rightarrow> mtables res" where
  "MultiLatentAttentionParallel_ctor e a dl p =
     rbind (assertTrue (cmod (aa_num_heads a) (parallel_num dl) = 0) ''num_head mod parallel_num == 0'') (\<lambda>_.
     let a = shard dl a in
     Inr (module_node p [] [AttentionSplit_ctor e (p @ [''AttentionSplit'']), MultiLatentAttentionSum_ctor e a (p @ [''AttentionSum'']),
       MultiLatentAttentionGen_ctor e a (p @ [''AttentionGen'']), AttentionMerge_ctor e (p @ [''AttentionMerge''])]))"

definition MultiLatentAttentionParallel_forward ::
  "module_env \<Rightarrow> attn_args \<Rightarrow> int list \<Rightarrow> mpath \<Rightarrow> tensor list \<Rightarrow> mstate \<Rightarrow> (tensor list \<times> mstate) res" where
  "MultiLatentAttentionParallel_forward e a dl p input st =
     (let a = shard dl a in
      rbind (get_modules p attention_parts st) (\<lambda>_.
      rbind (vec_ix input 0) (\<lambda>x.
      rbind (invoke p ''AttentionSplit'' (leaf_call (AttentionSplit_forward (plain_split a))) [x] st) (\<lambda>(tensor_vec, st).
      rbind (vec_ix tensor_vec 0) (\<lambda>x.
      rbind (invoke p ''AttentionSum'' (leaf_call (MultiLatentAttentionSum_forward (me_ram e) a)) x st) (\<lambda>(sum_out, st).
      rbind (vec_ix tensor_vec 1) (\<lambda>y.
      rbind (invoke p ''AttentionGen'' (leaf_call (MultiLatentAttentionGen_forward (me_ram e) a)) y st) (\<lambda>(gen_out, st).
      invoke p ''AttentionMerge'' (leaf_call (AttentionMerge_forward (plain_split a))) [sum_out, gen_out] st))))))))"

text \<open>
  The split returns two tensors, so half their number is one: the second one is the generation part.
  The key-value heads are divided here and once more in the constructors of the two kernels.
\<close>

definition AbsorbMLAParallel_ctor :: "module_env \<Rightarrow> attn_args \<Rightarrow> int list \<Rightarrow> mpath \<Rightarrow> mtables res" where
  "AbsorbMLAParallel_ctor e a dl p =
     rbind (assertTrue (cmod (aa_num_heads a) (parallel_num dl) = 0) ''num_head mod parallel_num == 0'') (\<lambda>_.
     let a = shard dl a in
     Inr (module_node p [] [AttentionSplit_ctor e (p @ [''AttentionSplit'']),
       AbsorbMLASum_ctor e a (parallel_num dl) (p @ [''AttentionSum'']),
       AbsorbMLAGen_ctor e a (parallel_num dl) (p @ [''AttentionGen'']), AttentionMerge_ctor e (p @ [''AttentionMerge''])]))"

definition AbsorbMLAParallel_forward ::
  "module_env \<Rightarrow> attn_args \<Rightarrow> int list \<Rightarrow> mpath \<Rightarrow> tensor list \<Rightarrow> mstate \<Rightarrow> (tensor list \<times> mstate) res" where
  "AbsorbMLAParallel_forward e a dl p input st =
     (let a = shard dl a in
      rbind (get_modules p attention_parts st) (\<lambda>_.
      rbind (invoke p ''AttentionSplit'' (leaf_call (AttentionSplit_forward (absorb_split a))) input st) (\<lambda>(tensor_vec, st).
      let num_heads_per_device = int (length tensor_vec) div 2 in
      rbind (vec_ix tensor_vec 0) (\<lambda>sum_tensor.
      rbind (vec_ix tensor_vec num_heads_per_device) (\<lambda>gen_tensor.
      rbind (invoke p ''AttentionSum'' (leaf_call (AbsorbMLASum_forward (me_ram e) a)) sum_tensor st) (\<lambda>(sum_out, st).
      rbind (invoke p ''AttentionGen'' (leaf_call (AbsorbMLAGen_forward (me_ram e) a)) gen_tensor st) (\<lambda>(gen_out, st).
      invoke p ''AttentionMerge'' (leaf_call (AttentionMerge_forward (absorb_split a))) [sum_out, gen_out] st)))))))"

section \<open>Attention blocks\<close>

definition attention_args :: "module_env \<Rightarrow> attn_args" where
  "attention_args e = (let m = me_model e in
     \<lparr>aa_head_dim = head_dim m, aa_num_heads = num_heads m, aa_num_kv_heads = num_kv_heads m,
      aa_max_seq_len = mc_input_len m + mc_output_len m, aa_batch_size = me_batch_size_per_dp e,
      aa_qk_rope_head_dim = qk_rope_head_dim m, aa_kv_lora_rank = kv_lora_rank m, aa_use_absorb = use_absorb m,
      aa_compressed_kv = compressed_kv m, aa_use_flash_mla = use_flash_mla (me_sched_config e),
      aa_use_flash_attention = use_flash_attention (me_sched_config e)\<rparr>)"

definition Attention_ctor :: "module_env \<Rightarrow> int list \<Rightarrow> mpath \<Rightarrow> mtables res" where
  "Attention_ctor e dl p =
     (let m = me_model e in
      rbind (ColumnParallelLinear_ctor e (hidden_dim m) (head_dim m * (num_heads m + 2 * num_kv_heads m)) dl
        (p @ [''attn_qkv_proj''])) (\<lambda>qkv.
      rbind (SelfAttentionParallel_ctor e (attention_args e) dl (p @ [''self_attention''])) (\<lambda>attn.
      rbind (RowParallelLinear_ctor e (head_dim m * num_heads m) (hidden_dim m) dl (p @ [''attn_o_proj''])) (\<lambda>o_proj.
      Inr (module_node p [] [qkv, attn, o_proj, AllReduce_ctor e (p @ [''all_reduce''])])))))"

definition Attention_forward :: "module_env \<Rightarrow> int list \<Rightarrow> mpath \<Rightarrow> tensor \<Rightarrow> mstate \<Rightarrow> (tensor \<times> mstate) res" where
  "Attention_forward e dl p input st =
     rbind (get_modules p [''attn_qkv_proj'', ''self_attention'', ''attn_o_proj'', ''all_reduce''] st) (\<lambda>_.
     rbind (invoke p ''attn_qkv_proj'' (ParallelLinear_forward e) input st) (\<lambda>(qkv, st).
     rbind (invoke p ''self_attention'' (SelfAttentionParallel_forward e (attention_args e) dl) qkv st) (\<lambda>(attn_out, st).
     rbind (invoke p ''attn_o_proj'' (ParallelLinear_forward e) attn_out st) (\<lambda>(o_proj, st).
     invoke p ''all_reduce'' (AllReduce_call dl) o_proj st))))"

text \<open>Latent attention: the projections both variants share, then the absorbed or the plain ones.\<close>

definition latent_projections :: "module_env \<Rightarrow> mpath \<Rightarrow> mtables list" where
  "latent_projections e p = (let m = me_model e in
     [Linear_ctor e (hidden_dim m) (q_lora_rank m) (p @ [''attn_q_down_proj'']),
      Linear_ctor e (hidden_dim m) (kv_lora_rank m) (p @ [''attn_kv_down_proj'']),
      Linear_ctor e (hidden_dim m) (qk_rope_head_dim m) (p @ [''attn_kr_proj'']),
      RoPE_ctor e (p @ [''k_rope'']),
      LayerNorm_ctor e (q_lora_rank m) (p @ [''latent_q_layer_norm'']),
      LayerNorm_ctor e (kv_lora_rank m) (p @ [''latent_kv_layer_norm''])])"

definition absorbed_ctor :: "module_env \<Rightarrow> int list \<Rightarrow> mpath \<Rightarrow> mtables res" where
  "absorbed_ctor e dl p =
     (let m = me_model e; heads = num_heads m in
      rbind (BatchedColumnParallelLinear_ctor e (q_lora_rank m) (heads * qk_nope_head_dim m) heads False dl (p @ [''attn_q_up_proj''])) (\<lambda>q_up.
      rbind (BatchedColumnParallelLinear_ctor e (q_lora_rank m) (heads * qk_rope_head_dim m) heads False dl (p @ [''attn_qr_proj''])) (\<lambda>qr.
      rbind (BatchedRowParallelLinear_ctor e (head_dim m * heads) (kv_lora_rank m) heads False dl (p @ [''attn_tr_k_up_proj''])) (\<lambda>tr_k.
      rbind (AbsorbMLAParallel_ctor e (attention_args e) dl (p @ [''attn_mla_absorbed''])) (\<lambda>mla.
      rbind (BatchedColumnParallelLinear_ctor e (kv_lora_rank m) (heads * head_dim m) heads False dl (p @ [''attn_v_up_proj''])) (\<lambda>v_up.
      rbind (BatchedRowParallelLinear_ctor e (heads * qk_nope_head_dim m) (hidden_dim m) heads True dl (p @ [''attn_o_proj''])) (\<lambda>o_proj.
      Inr (module_node p [] (latent_projections e p @
        [q_up, qr, RoPE_ctor e (p @ [''q_rope'']), tr_k, mla, v_up, o_proj, AllReduce_ctor e (p @ [''all_reduce''])])))))))))"

definition baseline_ctor :: "module_env \<Rightarrow> int list \<Rightarrow> mpath \<Rightarrow> mtables res" where
  "baseline_ctor e dl p =
     (let m = me_model e; heads = num_heads m in
      rbind (ColumnParallelLinear_ctor e (q_lora_rank m) (heads * qk_nope_head_dim m) dl (p @ [''attn_q_up_proj''])) (\<lambda>q_up.
      rbind (ColumnParallelLinear_ctor e (q_lora_rank m) (heads * qk_rope_head_dim m) dl (p @ [''attn_qr_proj''])) (\<lambda>qr.
      rbind (ColumnParallelLinear_ctor e (kv_lora_rank m) (heads * 2 * head_dim m) dl (p @ [''attn_kv_up_proj''])) (\<lambda>kv_up.
      rbind (MultiLatentAttentionParallel_ctor e (attention_args e) dl (p @ [''multi_latent_attention''])) (\<lambda>mla.
      rbind (RowParallelLinear_ctor e (head_dim m * heads) (hidden_dim m) dl (p @ [''attn_o_proj''])) (\<lambda>o_proj.
      Inr (module_node p [] (latent_projections e p @
        [q_up, qr, RoPE_ctor e (p @ [''q_rope'']), CompressedKVRestore_ctor e (attention_args e) (p @ [''c_kv_restore'']),
         kv_up, mla, o_proj, AllReduce_ctor e (p @ [''all_reduce''])]))))))))"

definition MultiLatentAttention_ctor :: "module_env \<Rightarrow> int list \<Rightarrow> mpath \<Rightarrow> mtables res" where
  "MultiLatentAttention_ctor e dl p = (if use_absorb (me_model e) then absorbed_ctor e dl p else baseline_ctor e dl p)"

definition latent_names :: "string list" where
  "latent_names = [''attn_q_down_proj'', ''attn_kv_down_proj'', ''attn_kr_proj'', ''k_rope'', ''latent_q_layer_norm'', ''latent_kv_layer_norm'']"

text \<open>The down projections, the rotary embedding of the key and the two normalisations: query, latent key-value and key part.\<close>

definition latent_inputs :: "module_env \<Rightarrow> mpath \<Rightarrow> tensor \<Rightarrow> mstate \<Rightarrow> ((tensor \<times> tensor \<times> tensor) \<times> mstate) res" where
  "latent_inputs e p input st =
     rbind (invoke p ''attn_q_down_proj'' (Linear_call e) input st) (\<lambda>(latent_q, st).
     rbind (invoke p ''attn_kv_down_proj'' (Linear_call e) input st) (\<lambda>(latent_kv, st).
     rbind (invoke p ''attn_kr_proj'' (Linear_call e) input st) (\<lambda>(kr_out, st).
     rbind (invoke p ''k_rope'' (leaf_call (RoPE_forward (qk_rope_head_dim (me_model e)))) kr_out st) (\<lambda>(k_rope_out, st).
     rbind (invoke p ''latent_q_layer_norm'' LayerNorm_call latent_q st) (\<lambda>(q_ln_out, st).
     rbind (invoke p ''latent_kv_layer_norm'' LayerNorm_call latent_kv st) (\<lambda>(kv_ln_out, st).
     Inr ((q_ln_out, kv_ln_out, k_rope_out), st)))))))"

definition absorbed_forward :: "module_env \<Rightarrow> int list \<Rightarrow> mpath \<Rightarrow> tensor \<Rightarrow> mstate \<Rightarrow> (tensor \<times> mstate) res" where
  "absorbed_forward e dl p input st =
     (let m = me_model e in
      rbind (get_modules p (latent_names @ [''attn_q_up_proj'', ''attn_qr_proj'', ''q_rope'', ''attn_tr_k_up_proj'',
        ''attn_mla_absorbed'', ''attn_v_up_proj'', ''attn_o_proj'', ''all_reduce'']) st) (\<lambda>_.
      rbind (latent_inputs e p input st) (\<lambda>((q_ln_out, kv_ln_out, k_rope_out), st).
      let latent_query_vec = map (\<lambda>_. q_ln_out) (irange 0 (cdiv (num_heads m) (parallel_num dl))) in
      rbind (invoke p ''attn_q_up_proj'' (BatchedParallelLinear_forward e True False) latent_query_vec st) (\<lambda>(query, st).
      rbind (invoke p ''attn_qr_proj'' (BatchedParallelLinear_forward e True False) latent_query_vec st) (\<lambda>(qr_out, st).
      rbind (invoke p ''q_rope'' (leaf_call (BatchedRoPE_forward (qk_rope_head_dim m))) qr_out st) (\<lambda>(q_rope_out, st).
      rbind (invoke p ''attn_tr_k_up_proj'' (BatchedParallelLinear_forward e False False) query st) (\<lambda>(query_x_W_UK, st).
      rbind (invoke p ''attn_mla_absorbed'' (AbsorbMLAParallel_forward e (attention_args e) dl) query_x_W_UK st) (\<lambda>(attn_mla_out, st).
      rbind (invoke p ''attn_v_up_proj'' (BatchedParallelLinear_forward e False False) attn_mla_out st) (\<lambda>(v_up_out, st).
      rbind (invoke p ''attn_o_proj'' (BatchedParallelLinear_forward e False True) v_up_out st) (\<lambda>(attn_out, st).
      rbind (vec_ix attn_out 0) (\<lambda>output.
      invoke p ''all_reduce'' (AllReduce_call dl) output st)))))))))))"

definition baseline_forward :: "module_env \<Rightarrow> int list \<Rightarrow> mpath \<Rightarrow> tensor \<Rightarrow> mstate \<Rightarrow> (tensor \<times> mstate) res" where
  "baseline_forward e dl p input st =
     rbind (get_modules p (latent_names @ [''c_kv_restore'', ''attn_q_up_proj'', ''attn_qr_proj'', ''q_rope'', ''attn_kv_up_proj'',
       ''multi_latent_attention'', ''attn_o_proj'', ''all_reduce'']) st) (\<lambda>_.
     rbind (latent_inputs e p input st) (\<lambda>((q_ln_out, kv_ln_out, k_rope_out), st).
     rbind (invoke p ''c_kv_restore'' (leaf_call (CompressedKVRestore_forward (attention_args e))) [kv_ln_out, k_rope_out] st) (\<lambda>(restored_kv, st).
     rbind (vec_ix restored_kv 0) (\<lambda>restored_latent_kv.
     rbind (vec_ix restored_kv 1) (\<lambda>restored_k_rope.
     rbind (invoke p ''attn_q_up_proj'' (ParallelLinear_forward e) q_ln_out st) (\<lambda>(query, st).
     rbind (invoke p ''attn_qr_proj'' (ParallelLinear_forward e) q_ln_out st) (\<lambda>(q_rope_out, st).
     rbind (invoke p ''attn_kv_up_proj'' (ParallelLinear_forward e) restored_latent_kv st) (\<lambda>(key_value, st).
     rbind (invoke p ''multi_latent_attention'' (MultiLatentAttentionParallel_forward e (attention_args e) dl)
       [query, key_value, q_rope_out, k_rope_out] st) (\<lambda>(attn_out, st).
     rbind (vec_at attn_out 0) (\<lambda>x.
     rbind (invoke p ''attn_o_proj'' (ParallelLinear_forward e) x st) (\<lambda>(o_proj, st).
     invoke p ''all_reduce'' (AllReduce_call dl) o_proj st)))))))))))"

definition MultiLatentAttention_forward :: "module_env \<Rightarrow> int list \<Rightarrow> mpath \<Rightarrow> tensor \<Rightarrow> mstate \<Rightarrow> (tensor \<times> mstate) res" where
  "MultiLatentAttention_forward e dl p input st =
     (if use_absorb (me_model e) then absorbed_forward e dl p input st else baseline_forward e dl p input st)"

section \<open>Feed-forward layers\<close>

definition ffn_dim :: "model_config \<Rightarrow> bool \<Rightarrow> int" where
  "ffn_dim m is_expert = (if is_expert then expert_intermediate_dim m else intermediate_dim m)"

definition FeedForward2Way_ctor :: "module_env \<Rightarrow> bool \<Rightarrow> bool \<Rightarrow> int list \<Rightarrow> mpath \<Rightarrow> mtables res" where
  "FeedForward2Way_ctor e perform_all_reduce is_expert dl p =
     (let m = me_model e; w = ffn_dim m is_expert in
      rbind (ColumnParallelLinear_ctor e (hidden_dim m) (w * activation_factor m) dl (p @ [''ffn_up_proj''])) (\<lambda>up.
      rbind (RowParallelLinear_ctor e w (hidden_dim m) dl (p @ [''ffn_down_proj''])) (\<lambda>down.
      Inr (module_node p [] ([up, Activation_ctor e (p @ [''activation'']), down] @
        (if perform_all_reduce then [AllReduce_ctor e (p @ [''all_reduce''])] else []))))))"

text \<open>The reduction at the end of a feed-forward layer, when the layer performs one.\<close>

definition ffn_reduce :: "bool \<Rightarrow> int list \<Rightarrow> mpath \<Rightarrow> tensor \<Rightarrow> mstate \<Rightarrow> (tensor \<times> mstate) res" where
  "ffn_reduce perform_all_reduce dl p x st =
     (if perform_all_reduce then
        rbind (get_modules p [''all_reduce''] st) (\<lambda>_. invoke p ''all_reduce'' (AllReduce_call dl) x st)
      else Inr (x, st))"

definition FeedForward2Way_forward :: "module_env \<Rightarrow> bool \<Rightarrow> int list \<Rightarrow> mpath \<Rightarrow> tensor \<Rightarrow> mstate \<Rightarrow> (tensor \<times> mstate) res" where
  "FeedForward2Way_forward e perform_all_reduce dl p input st =
     rbind (get_modules p [''ffn_up_proj'', ''activation'', ''ffn_down_proj''] st) (\<lambda>_.
     rbind (invoke p ''ffn_up_proj'' (ParallelLinear_forward e) input st) (\<lambda>(ffn_up, st).
     rbind (invoke p ''activation'' (leaf_call (Activation_forward (me_ram e) (activation_factor (me_model e)))) ffn_up st) (\<lambda>(act_out, st).
     rbind (invoke p ''ffn_down_proj'' (ParallelLinear_forward e) act_out st) (\<lambda>(ffn_down, st).
     ffn_reduce perform_all_reduce dl p ffn_down st))))"

text \<open>A layer whose weights every device holds in full, the shared experts, uses plain linear layers.\<close>

definition FeedForward3Way_ctor :: "module_env \<Rightarrow> bool \<Rightarrow> bool \<Rightarrow> bool \<Rightarrow> int list \<Rightarrow> mpath \<Rightarrow> mtables res" where
  "FeedForward3Way_ctor e perform_all_reduce is_expert use_dp dl p =
     (let m = me_model e; w = ffn_dim m is_expert in
      rbind (assertTrue (\<not> (perform_all_reduce \<and> use_dp)) ''duplicated weight doesn't need all-reduce'') (\<lambda>_.
      if \<not> use_dp then
        rbind (ColumnParallelLinear_ctor e (hidden_dim m) (w * activation_factor m) dl (p @ [''gate_proj''])) (\<lambda>w1.
        rbind (RowParallelLinear_ctor e w (hidden_dim m) dl (p @ [''down_proj''])) (\<lambda>w2.
        rbind (ColumnParallelLinear_ctor e (hidden_dim m) w dl (p @ [''up_proj''])) (\<lambda>w3.
        Inr (module_node p [] ([w1, Activation_ctor e (p @ [''activation'']), w2, w3] @
          (if perform_all_reduce then [AllReduce_ctor e (p @ [''all_reduce''])] else []))))))
      else Inr (module_node p []
        [Linear_ctor e (hidden_dim m) (w * activation_factor m) (p @ [''gate_proj'']),
         Activation_ctor e (p @ [''activation'']),
         Linear_ctor e w (hidden_dim m) (p @ [''down_proj'']),
         Linear_ctor e (hidden_dim m) w (p @ [''up_proj''])])))"

text \<open>
  The down projection takes the up projection, the gate's activation is computed and dropped. The call
  is the same for a sharded and a full linear layer.
\<close>

definition FeedForward3Way_forward :: "module_env \<Rightarrow> bool \<Rightarrow> bool \<Rightarrow> int list \<Rightarrow> mpath \<Rightarrow> tensor \<Rightarrow> mstate \<Rightarrow> (tensor \<times> mstate) res" where
  "FeedForward3Way_forward e perform_all_reduce use_dp dl p input st =
     (let proj = (if use_dp then Linear_call e else ParallelLinear_forward e) in
      rbind (get_modules p [''gate_proj'', ''up_proj'', ''down_proj'', ''activation''] st) (\<lambda>_.
      rbind (invoke p ''gate_proj'' proj input st) (\<lambda>(gate_out, st).
      rbind (invoke p ''activation'' (leaf_call (Activation_forward (me_ram e) (activation_factor (me_model e)))) gate_out st) (\<lambda>(act_out, st).
      rbind (invoke p ''up_proj'' proj input st) (\<lambda>(up_proj_out, st).
      rbind (invoke p ''down_proj'' proj up_proj_out st) (\<lambda>(ffn_out, st).
      ffn_reduce perform_all_reduce dl p ffn_out st))))))"

end
