(* ===== verification/Model_Assembly.thy ===== *)
theory Model_Assembly
  imports Parallel_Modules
begin

text \<open>
  Experts, decoders and the whole model: \<^verbatim>\<open>src/module/expert.cpp\<close>,
  \<^verbatim>\<open>decoder.cpp\<close>, \<^verbatim>\<open>src/model/llm.cpp\<close> and
  \<^verbatim>\<open>model.h\<close>. Building the model on a device constructs its modules, registers their
  names with the cluster and calls the top module once with the largest batch.
\<close>

section \<open>The expert layer\<close>

text \<open>Constructors that are run in a loop.\<close>

definition ctor_all :: "('i \<Rightarrow> mtables res) \<Rightarrow> 'i list \<Rightarrow> mtables list res" where
  "ctor_all f xs = rfold (\<lambda>x acc. rbind (f x) (\<lambda>ms. Inr (acc @ [ms]))) xs []"

text \<open>The devices that share the weights outside the experts with this one, and those that share its experts.\<close>

definition non_moe_list :: "module_env \<Rightarrow> int list" where
  "non_moe_list e = (let n = ne_tp_dg (me_model e) in set_device_list (cdiv (me_rank e) n * n) n)"

definition expert_list :: "module_env \<Rightarrow> int list" where
  "expert_list e = (let n = e_tp_dg (me_model e) in set_device_list (cdiv (me_rank e) n * n) n)"

definition num_expert_per_device :: "module_env \<Rightarrow> int list \<Rightarrow> int" where
  "num_expert_per_device e dl = cdiv (num_routed_expert (me_model e)) (cdiv (parallel_num dl) (e_tp_dg (me_model e)))"

definition expert_offset :: "module_env \<Rightarrow> int list \<Rightarrow> int" where
  "expert_offset e dl = num_expert_per_device e dl * cdiv (me_rank e) (e_tp_dg (me_model e))"

definition expert_ids :: "module_env \<Rightarrow> int list \<Rightarrow> int list" where
  "expert_ids e dl = irange (expert_offset e dl) (expert_offset e dl + num_expert_per_device e dl)"

definition expert_name :: "int \<Rightarrow> string" where
  "expert_name i = ''expert_FFN_'' @ to_string i"

definition shared_name :: "int \<Rightarrow> string" where
  "shared_name i = ''shared_expert_FFN_'' @ to_string i"

text \<open>No feed-forward layer is built when \<^verbatim>\<open>ffn_way\<close> is neither two nor three.\<close>

definition expert_ffn_ctor :: "module_env \<Rightarrow> bool \<Rightarrow> int list \<Rightarrow> mpath \<Rightarrow> mtables res" where
  "expert_ffn_ctor e use_dp dl p =
     (if ffn_way (me_model e) = 2 then FeedForward2Way_ctor e False True dl p
      else if ffn_way (me_model e) = 3 then FeedForward3Way_ctor e False True use_dp dl p
      else Inr [])"

definition expert_ffn_forward :: "module_env \<Rightarrow> bool \<Rightarrow> int list \<Rightarrow> mpath \<Rightarrow> tensor \<Rightarrow> mstate \<Rightarrow> (tensor \<times> mstate) res" where
  "expert_ffn_forward e use_dp dl p input st =
     (if ffn_way (me_model e) = 2 then FeedForward2Way_forward e False dl p input st
      else FeedForward3Way_forward e False use_dp dl p input st)"

definition sync_names :: "string list" where
  "sync_names = [''sync_0'', ''sync_for_moe_scatter'', ''sync_2'', ''sync_3'', ''sync_for_moe_gather'', ''sync_5'', ''sync_6'']"

definition expert_checks :: "module_env \<Rightarrow> int list \<Rightarrow> unit res" where
  "expert_checks e dl =
     (let m = me_model e; msg = ''Expert tensor parallel degree is not supported'' in
      rbind (assertTrue (cmod (num_routed_expert m) (e_tp_dg m) = 0) msg) (\<lambda>_.
      rbind (assertTrue (cmod (parallel_num dl) (e_tp_dg m) = 0 \<and> parallel_num dl \<ge> e_tp_dg m) msg) (\<lambda>_.
      assertTrue (cdiv (parallel_num dl) (e_tp_dg m) \<le> num_routed_expert m) msg)))"

definition ExpertFFN_ctor :: "module_env \<Rightarrow> int list \<Rightarrow> mpath \<Rightarrow> mtables res" where
  "ExpertFFN_ctor e dl p =
     (let m = me_model e; ndl = non_moe_list e in
      rbind (assertTrue (cmod (num_routed_expert m) (int (length ndl)) = 0) ''Non-expert tensor parallel degree is not supported'') (\<lambda>_.
      rbind (assertTrue (num_routed_expert m \<ge> int (length ndl)) ''Num_Expert is smaller than num_device'') (\<lambda>_.
      rbind (ColumnParallelLinear_ctor e (hidden_dim m) (num_routed_expert m) [me_rank e] (p @ [''gate_fn''])) (\<lambda>gate_fn.
      rbind (expert_checks e dl) (\<lambda>_.
      rbind (ctor_all (\<lambda>i. expert_ffn_ctor e False (expert_list e) (p @ [expert_name i])) (expert_ids e dl)) (\<lambda>experts.
      rbind (ctor_all (\<lambda>i. expert_ffn_ctor e True ndl (p @ [shared_name i])) (irange 0 (num_shared_expert m))) (\<lambda>shared.
      Inr (module_node p [] ([gate_fn, GateUpdate_ctor e (p @ [''gate_update'']), MoEScatter_ctor e (p @ [''moe_scatter'']),
          Route_ctor e (p @ [''moe_route''])] @ experts @ shared @
        [AllReduce_ctor e (p @ [''moe_all_reduce_for_e_tp'']), MoEGather_ctor e (p @ [''moe_gather'']),
         AllReduce_ctor e (p @ [''moe_all_reduce_for_gather''])] @ map (\<lambda>nm. Sync_ctor e (p @ [nm])) sync_names)))))))))"

text \<open>A loop that calls one submodule per index and collects the results.\<close>

definition call_expert ::
  "module_env \<Rightarrow> int list \<Rightarrow> mpath \<Rightarrow> tensor list \<Rightarrow> int \<Rightarrow> tensor list \<times> mstate \<Rightarrow> (tensor list \<times> mstate) res" where
  "call_expert e dl p route_out i = (\<lambda>(expert_out, st).
     rbind (get_modules p [expert_name i] st) (\<lambda>_.
     rbind (vec_at route_out i) (\<lambda>x.
     rbind (invoke p (expert_name i) (expert_ffn_forward e False dl) x st) (\<lambda>(result, st).
     Inr (expert_out @ [result], st)))))"

definition call_shared :: "module_env \<Rightarrow> int list \<Rightarrow> mpath \<Rightarrow> tensor \<Rightarrow> int \<Rightarrow> tensor \<times> mstate \<Rightarrow> (tensor \<times> mstate) res" where
  "call_shared e dl p input i = (\<lambda>(result, st).
     rbind (get_modules p [shared_name i] st) (\<lambda>_.
     invoke p (shared_name i) (expert_ffn_forward e True dl) input st))"

text \<open>
  The outputs of the experts only reach \<^verbatim>\<open>moe_gather\<close>; both reductions and the shared
  experts work on the layer's input, and the result is that of the last of them.
\<close>

definition ExpertFFN_forward :: "module_env \<Rightarrow> int list \<Rightarrow> mpath \<Rightarrow> tensor \<Rightarrow> mstate \<Rightarrow> (tensor \<times> mstate) res" where
  "ExpertFFN_forward e dl p input st =
     rbind (get_modules p (sync_names @ [''gate_fn'', ''gate_update'', ''moe_scatter'', ''moe_route'',
       ''moe_all_reduce_for_e_tp'', ''moe_all_reduce_for_gather'', ''moe_gather'']) st) (\<lambda>_.
     rbind (invoke p ''sync_0'' Sync_forward input st) (\<lambda>(_, st).
     rbind (invoke p ''gate_fn'' (ParallelLinear_forward e) input st) (\<lambda>(gate_out, st).
     rbind (invoke p ''gate_update'' (GateUpdate_call e) input st) (\<lambda>(gate_update_out, st).
     rbind (invoke p ''moe_scatter'' (MoEScatter_call e) gate_update_out st) (\<lambda>(scatter_out, st).
     rbind (invoke p ''sync_for_moe_scatter'' Sync_forward input st) (\<lambda>(_, st).
     rbind (invoke p ''moe_route'' (Route_call e (num_expert_per_device e dl) (expert_offset e dl)) [scatter_out] st) (\<lambda>(route_out, st).
     rbind (rfold (call_expert e (expert_list e) p route_out) (expert_ids e dl) ([], st)) (\<lambda>(expert_out, st).
     rbind (invoke p ''sync_2'' Sync_forward input st) (\<lambda>(_, st).
     rbind (invoke p ''moe_all_reduce_for_e_tp'' (AllReduce_call (expert_list e)) input st) (\<lambda>(_, st).
     rbind (invoke p ''sync_3'' Sync_forward input st) (\<lambda>(_, st).
     rbind (invoke p ''moe_gather'' (MoEGather_call e) expert_out st) (\<lambda>(moe_gather_out, st).
     rbind (invoke p ''sync_for_moe_gather'' Sync_forward input st) (\<lambda>(_, st).
     rbind (invoke p ''moe_all_reduce_for_gather'' (AllReduce_call (non_moe_list e)) input st) (\<lambda>(result, st).
     rbind (invoke p ''sync_5'' Sync_forward input st) (\<lambda>(_, st).
     rbind (rfold (call_shared e (non_moe_list e) p input) (irange 0 (num_shared_expert (me_model e))) (result, st)) (\<lambda>(result, st).
     rbind (invoke p ''sync_6'' Sync_forward input st) (\<lambda>(_, st).
     Inr (result, st))))))))))))))))))"

section \<open>Decoders\<close>

definition attention_block_ctor :: "module_env \<Rightarrow> int list \<Rightarrow> mpath \<Rightarrow> mtables res" where
  "attention_block_ctor e dl p = (if qk_rope_head_dim (me_model e) = 0 then Attention_ctor e dl p else MultiLatentAttention_ctor e dl p)"

definition attention_block_forward :: "module_env \<Rightarrow> int list \<Rightarrow> mpath \<Rightarrow> tensor \<Rightarrow> mstate \<Rightarrow> (tensor \<times> mstate) res" where
  "attention_block_forward e dl p input st =
     (if qk_rope_head_dim (me_model e) = 0 then Attention_forward e dl p input st else MultiLatentAttention_forward e dl p input st)"

definition decoder_ffn_ctor :: "module_env \<Rightarrow> int list \<Rightarrow> mpath \<Rightarrow> mtables list res" where
  "decoder_ffn_ctor e dl p =
     (if ffn_way (me_model e) = 2 then rbind (FeedForward2Way_ctor e False False dl p) (\<lambda>ms. Inr [ms])
      else if ffn_way (me_model e) = 3 then rbind (FeedForward3Way_ctor e False False False dl p) (\<lambda>ms. Inr [ms])
      else Inr [])"

definition Decoder_ctor :: "module_env \<Rightarrow> int list \<Rightarrow> mpath \<Rightarrow> mtables res" where
  "Decoder_ctor e dl p =
     (let m = me_model e; ndl = non_moe_list e in
      rbind (assertTrue (parallel_num dl \<ge> ne_tp_dg m) ''None expert tensor parallel degree is not supported'') (\<lambda>_.
      rbind (attention_block_ctor e ndl (p @ [''attention''])) (\<lambda>attention.
      rbind (decoder_ffn_ctor e ndl (p @ [''feedforward''])) (\<lambda>feedforward.
      Inr (module_node p [] ([LayerNorm_ctor e (hidden_dim m) (p @ [''input_layer_norm'']), attention,
          Residual_ctor e (p @ [''residual_1'']), LayerNorm_ctor e (hidden_dim m) (p @ [''post_attn_layer_norm''])] @
        feedforward @ [AllReduce_ctor e (p @ [''all_reduce'']), Residual_ctor e (p @ [''residual_2''])]))))))"

text \<open>The second residual addition calls the first residual module again.\<close>

definition decoder_ffn_forward :: "module_env \<Rightarrow> int list \<Rightarrow> mpath \<Rightarrow> tensor \<Rightarrow> mstate \<Rightarrow> (tensor \<times> mstate) res" where
  "decoder_ffn_forward e dl p input st =
     (if ffn_way (me_model e) = 2 then FeedForward2Way_forward e False dl p input st
      else FeedForward3Way_forward e False False dl p input st)"

definition Decoder_forward :: "module_env \<Rightarrow> mpath \<Rightarrow> tensor \<Rightarrow> mstate \<Rightarrow> (tensor \<times> mstate) res" where
  "Decoder_forward e p input st =
     (let ndl = non_moe_list e in
      rbind (get_modules p [''input_layer_norm'', ''attention'', ''residual_1'', ''post_attn_layer_norm'', ''feedforward'',
        ''all_reduce'', ''residual_2''] st) (\<lambda>_.
      rbind (invoke p ''input_layer_norm'' LayerNorm_call input st) (\<lambda>(input_ln_out, st).
      rbind (invoke p ''attention'' (attention_block_forward e ndl) input_ln_out st) (\<lambda>(attention_out, st).
      rbind (invoke p ''residual_1'' Residual_call attention_out st) (\<lambda>(res_1_out, st).
      rbind (invoke p ''post_attn_layer_norm'' LayerNorm_call attention_out st) (\<lambda>(post_attn_ln_out, st).
      rbind (invoke p ''feedforward'' (decoder_ffn_forward e ndl) post_attn_ln_out st) (\<lambda>(ffn_out, st).
      rbind (invoke p ''all_reduce'' (AllReduce_call ndl) ffn_out st) (\<lambda>(result, st).
      invoke p ''residual_1'' Residual_call result st))))))))"

text \<open>Both residual modules of a decoder with experts are layer normalisations.\<close>

definition MoEDecoder_ctor :: "module_env \<Rightarrow> int list \<Rightarrow> mpath \<Rightarrow> mtables res" where
  "MoEDecoder_ctor e dl p =
     (let m = me_model e; ndl = non_moe_list e; norm = (\<lambda>nm. LayerNorm_ctor e (hidden_dim m) (p @ [nm])) in
      rbind (assertTrue (parallel_num dl \<ge> ne_tp_dg m) ''None expert tensor parallel degree is not supported'') (\<lambda>_.
      rbind (attention_block_ctor e ndl (p @ [''attention''])) (\<lambda>attention.
      rbind (ExpertFFN_ctor e (set_device_list 0 (parallel_num dl)) (p @ [''expertFFN''])) (\<lambda>expert_ffn.
      Inr (module_node p [] [norm ''input_layer_norm'', attention, norm ''residual_1'', norm ''post_attn_layer_norm'',
        expert_ffn, norm ''residual_2''])))))"

definition MoEDecoder_forward :: "module_env \<Rightarrow> int list \<Rightarrow> mpath \<Rightarrow> tensor \<Rightarrow> mstate \<Rightarrow> (tensor \<times> mstate) res" where
  "MoEDecoder_forward e dl p input st =
     rbind (get_modules p [''input_layer_norm'', ''attention'', ''residual_1'', ''post_attn_layer_norm'', ''expertFFN'', ''residual_2''] st) (\<lambda>_.
     rbind (invoke p ''input_layer_norm'' LayerNorm_call input st) (\<lambda>(input_ln_out, st).
     rbind (invoke p ''attention'' (attention_block_forward e (non_moe_list e)) input_ln_out st) (\<lambda>(attention_out, st).
     rbind (invoke p ''residual_1'' LayerNorm_call attention_out st) (\<lambda>(res_1_out, st).
     rbind (invoke p ''post_attn_layer_norm'' LayerNorm_call attention_out st) (\<lambda>(post_attn_ln_out, st).
     rbind (invoke p ''expertFFN'' (ExpertFFN_forward e (set_device_list 0 (parallel_num dl))) post_attn_ln_out st) (\<lambda>(result, st).
     invoke p ''residual_2'' LayerNorm_call result st))))))"

section \<open>The model\<close>

text \<open>The decoders of a model: name, and whether it has experts.\<close>

definition dense_layer :: "int \<Rightarrow> string \<times> bool" where
  "dense_layer layer = (''decoder_'' @ to_string layer, False)"

definition moe_layer :: "int \<Rightarrow> string \<times> bool" where
  "moe_layer layer = (''MoE_decoder_'' @ to_string layer, True)"

definition llm_layers :: "model_config \<Rightarrow> (string \<times> bool) list" where
  "llm_layers m =
     (if model_name m \<noteq> ''deepseekV3'' then
        map (\<lambda>layer. if expert_freq m \<noteq> 0 \<and> cmod layer (expert_freq m) = 0 then moe_layer layer else dense_layer layer)
          (irange 0 (num_layers m))
      else map dense_layer (irange 0 (first_k_dense m)) @ map moe_layer (irange (first_k_dense m) (num_layers m)))"

definition layer_ctor :: "module_env \<Rightarrow> int list \<Rightarrow> mpath \<Rightarrow> string \<times> bool \<Rightarrow> mtables res" where
  "layer_ctor e dl p l = (if snd l then MoEDecoder_ctor e dl (p @ [fst l]) else Decoder_ctor e dl (p @ [fst l]))"

definition LLM_ctor :: "module_env \<Rightarrow> int \<Rightarrow> mpath \<Rightarrow> mtables res" where
  "LLM_ctor e num_total_device p =
     (let dl = set_device_list 0 num_total_device in
      rbind (ctor_all (layer_ctor e dl p) (llm_layers (me_model e))) (\<lambda>layers.
      Inr (module_node p [] (Embedding_ctor e (p @ [''Embedding_layer'']) # layers @ [LmHead_ctor e (p @ [''lm_head''])]))))"

text \<open>
  Every decoder is given the embedding, not the output of the one before it. The output pointer is
  null when there are no layers.
\<close>

definition call_layer ::
  "module_env \<Rightarrow> int list \<Rightarrow> mpath \<Rightarrow> tensor \<Rightarrow> string \<times> bool \<Rightarrow> tensor option \<times> mstate \<Rightarrow> (tensor option \<times> mstate) res" where
  "call_layer e dl p temp l = (\<lambda>(out, st).
     rbind (get_modules p [fst l] st) (\<lambda>_.
     rbind (if snd l then invoke p (fst l) (MoEDecoder_forward e dl) temp st
            else invoke p (fst l) (Decoder_forward e) temp st) (\<lambda>(out, st).
     Inr (Some out, st))))"

definition LLM_forward :: "module_env \<Rightarrow> int \<Rightarrow> mpath \<Rightarrow> tensor \<Rightarrow> mstate \<Rightarrow> (tensor \<times> mstate) res" where
  "LLM_forward e num_total_device p input st =
     (let m = me_model e in
      rbind (get_modules p [''Embedding_layer''] st) (\<lambda>_.
      rbind (invoke p ''Embedding_layer'' (leaf_call (\<lambda>b _. Embedding_forward m b)) input st) (\<lambda>(temp, st).
      rbind (rfold (call_layer e (set_device_list 0 num_total_device) p temp) (llm_layers m) (None, st)) (\<lambda>(out, st).
      rbind (get_modules p [''lm_head''] st) (\<lambda>_.
      invoke p ''lm_head'' (leaf_call (\<lambda>b _. LmHead_forward m b)) out st)))))"

text \<open>
  \<^verbatim>\<open>Model\<close> on one device: construct, register every module under its name, which must be
  new, run the top module once, reset the device.
\<close>

definition register_names :: "string list \<Rightarrow> (string \<rightharpoonup> unit) res" where
  "register_names nms = rfold (\<lambda>nm tbl. if tbl nm = None then Inr (tbl(nm \<mapsto> ())) else fail ''Cluster::add_module, same module name'')
     nms Map.empty"

definition model_distribute :: "module_env \<Rightarrow> int \<Rightarrow> scheduler \<Rightarrow> mstate \<Rightarrow> (tensor \<times> mstate \<times> scheduler) res" where
  "model_distribute e num_total_device sch st =
     rbind (getMaxMetadata (num_routed_expert (me_model e)) (top_k (me_model e)) sch) (\<lambda>(b, sch).
     rbind (Tensor_Create (ms_ctl st) ''EmbeddingVector'' [1, n_vocab (sch_model_config sch)] ''act'' (Some (nat (me_rank e)))
       (precision_byte (sch_model_config sch)) ALL_CHANNEL) (\<lambda>(ctl, input).
     rbind (invoke [] ''LLM'' (LLM_forward e num_total_device) input (st\<lparr>ms_ctl := ctl, ms_batch := b\<rparr>)) (\<lambda>(output, st).
     Inr (output, st, sch))))"

definition build_device ::
  "module_env \<Rightarrow> int \<Rightarrow> scheduler \<Rightarrow> mmap_ctl \<Rightarrow> device \<Rightarrow> (tensor \<times> mstate \<times> scheduler) res" where
  "build_device e num_total_device sch ctl d =
     rbind (LLM_ctor e num_total_device [''LLM'']) (\<lambda>ms.
     rbind (register_names (map (\<lambda>x. module_map_name (fst x)) ms)) (\<lambda>_.
     let (ctl, ms) = alloc_tables ctl ms;
         st = \<lparr>ms_ctl = ctl, ms_modules = map_of ms, ms_device = d, ms_scheduler = None,
           ms_batch = BatchedSequence_Create 0 0, ms_graph = []\<rparr>
     in rbind (model_distribute e num_total_device sch st) (\<lambda>(output, st, sch).
        Inr (output, st\<lparr>ms_device := reset_status (ms_device st)\<rparr>, sch))))"

definition Model_ctor ::
  "module_env \<Rightarrow> (mmap_ctl \<times> device) list \<Rightarrow> scheduler \<Rightarrow> (mstate list \<times> scheduler) res" where
  "Model_ctor e devices sch =
     rfold (\<lambda>i (sts, sch). rbind (vec_at devices i) (\<lambda>(ctl, d).
         rbind (build_device (e\<lparr>me_rank := i\<rparr>) (int (length devices)) sch ctl d) (\<lambda>(_, st, sch).
         Inr (sts @ [st], sch))))
       (irange 0 (int (length devices))) ([], sch)"

end
