(* ===== verification/Build_Props.thy ===== *)
theory Build_Props
  imports Model_Assembly
begin

text \<open>
  A model whose constructors succeed can be called: every module finds the submodules it looks up, every
  activation and cache it requests exists, and every dimension check of a linear layer holds.
\<close>

section \<open>Composite modules\<close>

text \<open>One call of a sequence, with the tables of all the submodules ready before and after it.\<close>

lemma yields_seq:
  assumes "ready b ms st" "\<And>st'. ready b ms st' \<Longrightarrow> yields (p @ [nm]) st' (f (p @ [nm]) x st') Q"
    and "\<And>y st'. ready b ms st' \<Longrightarrow> Q y \<Longrightarrow> yields p st' (g y st') R"
  shows "yields p st (rbind (invoke p nm f x st) (\<lambda>(y, st). g y st)) R"
proof (rule yields_bind)
  show "yields p st (invoke p nm f x st) Q" by (rule yields_call) (fact assms)+
  show "yields p st' (g y st') R" if "kept st st'" "Q y" for y st' using assms(3) ready_kept [OF assms(1)] that by blast
qed

lemma yields_last:
  assumes "ready b ms st" "\<And>st'. ready b ms st' \<Longrightarrow> yields (p @ [nm]) st' (f (p @ [nm]) x st') Q" "\<And>y. Q y \<Longrightarrow> R y"
  shows "yields p st (invoke p nm f x st) R"
proof (rule yields_weaken)
  show "yields p st (invoke p nm f x st) Q" by (rule yields_call) (fact assms)+
qed (fact assms(3))

text \<open>A constructor creates the table of its own module.\<close>

definition root :: "mpath \<Rightarrow> mtables \<Rightarrow> bool" where
  "root p ms \<longleftrightarrow> p \<in> fst ` set ms"

named_theorems roots \<open>the module a constructor creates\<close>

lemma root_node [simp]: "root p (module_node p tbl subs)"
  by (simp add: root_def module_node_def)

lemma root_append: "root p (xs @ ys) \<longleftrightarrow> root p xs \<or> root p ys"
  by (auto simp: root_def)

lemma root_leaf [roots]:
  "root p (Linear_ctor e k n p)" "root p (BatchedLinear_ctor e g k n pl p)" "root p (LayerNorm_ctor e k p)"
  "root p (Residual_ctor e p)" "root p (AllReduce_ctor e p)" "root p (MoEScatter_ctor e p)" "root p (MoEGather_ctor e p)"
  "root p (Sync_ctor e p)" "root p (GateUpdate_ctor e p)" "root p (Route_ctor e p)" "root p (AttentionSplit_ctor e p)"
  "root p (AttentionMerge_ctor e p)" "root p (SelfAttentionSum_ctor e a p)" "root p (SelfAttentionGen_ctor e a p)"
  "root p (MultiLatentAttentionSum_ctor e a p)" "root p (MultiLatentAttentionGen_ctor e a p)"
  "root p (AbsorbMLASum_ctor e a pn p)" "root p (AbsorbMLAGen_ctor e a pn p)" "root p (Activation_ctor e p)"
  "root p (RoPE_ctor e p)" "root p (CompressedKVRestore_ctor e a p)" "root p (Embedding_ctor e p)" "root p (LmHead_ctor e p)"
  by (simp_all add: Linear_ctor_def BatchedLinear_ctor_def LayerNorm_ctor_def Residual_ctor_def AllReduce_ctor_def
      MoEScatter_ctor_def MoEGather_ctor_def Sync_ctor_def GateUpdate_ctor_def Route_ctor_def AttentionSplit_ctor_def
      AttentionMerge_ctor_def SelfAttentionSum_ctor_def SelfAttentionGen_ctor_def MultiLatentAttentionSum_ctor_def
      MultiLatentAttentionGen_ctor_def AbsorbMLASum_ctor_def AbsorbMLAGen_ctor_def Activation_ctor_def RoPE_ctor_def
      CompressedKVRestore_ctor_def Embedding_ctor_def LmHead_ctor_def Let_def)

lemma root_ctor [roots]:
  "ColumnParallelLinear_ctor e k n dl p = Inr ms \<Longrightarrow> root p ms" "RowParallelLinear_ctor e k n dl p = Inr ms \<Longrightarrow> root p ms"
  "BatchedColumnParallelLinear_ctor e k n h pl dl p = Inr ms \<Longrightarrow> root p ms"
  "BatchedRowParallelLinear_ctor e k n h pl dl p = Inr ms \<Longrightarrow> root p ms"
  "SelfAttentionParallel_ctor e a dl p = Inr ms \<Longrightarrow> root p ms" "MultiLatentAttentionParallel_ctor e a dl p = Inr ms \<Longrightarrow> root p ms"
  "AbsorbMLAParallel_ctor e a dl p = Inr ms \<Longrightarrow> root p ms" "Attention_ctor e dl p = Inr ms \<Longrightarrow> root p ms"
  "MultiLatentAttention_ctor e dl p = Inr ms \<Longrightarrow> root p ms" "FeedForward2Way_ctor e ar ex dl p = Inr ms \<Longrightarrow> root p ms"
  "FeedForward3Way_ctor e ar ex dp dl p = Inr ms \<Longrightarrow> root p ms" "ExpertFFN_ctor e dl p = Inr ms \<Longrightarrow> root p ms"
  "Decoder_ctor e dl p = Inr ms \<Longrightarrow> root p ms" "MoEDecoder_ctor e dl p = Inr ms \<Longrightarrow> root p ms"
  by (auto simp: ColumnParallelLinear_ctor_def RowParallelLinear_ctor_def BatchedColumnParallelLinear_ctor_def
      BatchedRowParallelLinear_ctor_def SelfAttentionParallel_ctor_def MultiLatentAttentionParallel_ctor_def
      AbsorbMLAParallel_ctor_def Attention_ctor_def MultiLatentAttention_ctor_def absorbed_ctor_def baseline_ctor_def
      FeedForward2Way_ctor_def FeedForward3Way_ctor_def ExpertFFN_ctor_def Decoder_ctor_def MoEDecoder_ctor_def
      Let_def rbind_eq_Inr split: if_splits)

lemma lookup_roots:
  assumes "ready b ms st" "\<And>nm. nm \<in> set nms \<Longrightarrow> root (p @ [nm]) ms"
  shows "get_modules p nms st = Inr ()"
proof (rule get_modules_ready)
  fix nm assume "nm \<in> set nms"
  then obtain tbl where "(p @ [nm], tbl) \<in> set ms" using assms(2) by (fastforce simp: root_def)
  then show "\<exists>tbl. ready b [(p @ [nm], tbl)] st" using ready_sub [OF assms(1), of "[(p @ [nm], tbl)]"] by auto
qed

lemma ColumnParallelLinear_yields:
  assumes "ColumnParallelLinear_ctor e k n dl p = Inr ms" "ready b ms st" "t_shape x = [m, k]"
  shows "yields p st (ParallelLinear_forward e p x st) (\<lambda>y. t_shape y = [m, cdiv n (parallel_num dl)])"
proof -
  have r: "ready b (Linear_ctor e k (cdiv n (parallel_num dl)) (p @ [''Linear''])) st"
    using assms(1,2) by (auto simp: ColumnParallelLinear_ctor_def rbind_eq_Inr)
  have "get_modules p [''Linear''] st = Inr ()" by (rule lookup_roots [OF r]) (simp add: root_leaf)
  then show ?thesis unfolding ParallelLinear_forward_def using assms(3)
    by simp (rule yields_call [OF r], rule Linear_yields [of b e], simp_all)
qed

lemma RowParallelLinear_yields:
  assumes "RowParallelLinear_ctor e k n dl p = Inr ms" "ready b ms st" "t_shape x = [m, cdiv k (parallel_num dl)]"
  shows "yields p st (ParallelLinear_forward e p x st) (\<lambda>y. t_shape y = [m, n])"
proof -
  have r: "ready b (Linear_ctor e (cdiv k (parallel_num dl)) n (p @ [''Linear''])) st"
    using assms(1,2) by (auto simp: RowParallelLinear_ctor_def rbind_eq_Inr)
  have "get_modules p [''Linear''] st = Inr ()" by (rule lookup_roots [OF r]) (simp add: root_leaf)
  then show ?thesis unfolding ParallelLinear_forward_def using assms(3)
    by simp (rule yields_call [OF r], rule Linear_yields [of b e], simp_all)
qed

lemma SelfAttentionParallel_yields:
  assumes "SelfAttentionParallel_ctor e a dl p = Inr ms" "ready b ms st" "0 < aa_batch_size a" "0 < aa_num_kv_heads a"
    "0 < parallel_num dl" "aa_qk_rope_head_dim a = 0"
  shows "yields p st (SelfAttentionParallel_forward e a dl p x st) (\<lambda>y. t_shape y =
    [get_sum_process_token b + get_gen_process_token b, cdiv (aa_num_heads a) (parallel_num dl) * aa_head_dim a])"
proof -
  let ?a = "shard dl a"
  let ?ms = "AttentionSplit_ctor e (p @ [''AttentionSplit'']) @ SelfAttentionSum_ctor e ?a (p @ [''AttentionSum'']) @
    SelfAttentionGen_ctor e ?a (p @ [''AttentionGen'']) @ AttentionMerge_ctor e (p @ [''AttentionMerge''])"
  have r: "ready b ?ms st" and kv: "cmod (aa_num_kv_heads a) (parallel_num dl) = 0"
    using assms(1,2) by (auto simp: SelfAttentionParallel_ctor_def rbind_eq_Inr Let_def)
  have kv1: "0 < aa_num_kv_heads ?a" using kv assms(4,5)
    by (simp add: shard_def pos_imp_zdiv_pos_iff) (meson dvd_imp_le_int mod_0_imp_dvd zdvd_imp_le)
  have look: "get_modules p attention_parts st = Inr ()"
    by (rule lookup_roots [OF r]) (auto simp: attention_parts_def root_append root_leaf)
  have sp: "split_shape (plain_split ?a) n t = [t, (aa_num_heads ?a + aa_num_kv_heads ?a * 2) * aa_head_dim ?a]" for n t
    using assms(6) by (simp add: split_shape_def plain_split_def shard_def)
  show ?thesis unfolding SelfAttentionParallel_forward_def Let_def look
    apply simp
    apply (rule yields_seq [OF r], rule AttentionSplit_yields [of b e], simp)
    apply (clarsimp simp: sp simp del: ready_append)
    apply (rule yields_seq, assumption, rule SelfAttentionSum_yields [of b e], simp, assumption)
    apply (rule yields_seq, assumption, rule SelfAttentionGen_yields [of b e], simp, assumption)
    apply (use assms(3) kv1 in \<open>simp add: shard_def\<close>, simp add: kv1)
    apply (rule yields_seq, assumption, rule AttentionMerge_yields [of b e], simp, simp add: plain_split_def, rule refl, simp, simp)
    apply (clarsimp simp: plain_split_def shard_def vec_at_def)
    apply (rule yields_return, simp_all)
    done
qed

section \<open>What the constructors do not check\<close>

text \<open>
  Sizes are not negative, the batch and the devices exist, and the divisions that no constructor checks
  are exact: those of the key-value heads and the head dimension of latent attention, and that of the
  intermediate dimension of a two-way layer.
\<close>

definition fit :: "module_env \<Rightarrow> int list \<Rightarrow> bool" where
  "fit e dl \<longleftrightarrow> (let m = me_model e in 0 < parallel_num dl \<and> 0 < me_batch_size_per_dp e \<and>
     0 < num_heads m \<and> 0 < num_kv_heads m \<and> 0 \<le> head_dim m \<and> 0 < activation_factor m \<and>
     0 \<le> intermediate_dim m \<and> 0 \<le> expert_intermediate_dim m \<and>
     (qk_rope_head_dim m \<noteq> 0 \<longrightarrow> cmod (num_kv_heads m) (parallel_num dl) = 0 \<and> (use_absorb m \<longrightarrow> qk_nope_head_dim m = head_dim m)) \<and>
     (ffn_way m = 2 \<or> ffn_way m = 3) \<and>
     (ffn_way m = 2 \<longrightarrow> cmod (intermediate_dim m) (parallel_num dl) = 0 \<and> cmod (expert_intermediate_dim m) (parallel_num dl) = 0))"

lemma fitD:
  assumes "fit e dl"
  shows "0 < parallel_num dl" "0 < me_batch_size_per_dp e" "0 < num_heads (me_model e)" "0 < num_kv_heads (me_model e)"
    "0 \<le> head_dim (me_model e)" "0 < activation_factor (me_model e)" "\<And>x. 0 \<le> ffn_dim (me_model e) x"
    "qk_rope_head_dim (me_model e) \<noteq> 0 \<Longrightarrow> cmod (num_kv_heads (me_model e)) (parallel_num dl) = 0"
    "qk_rope_head_dim (me_model e) \<noteq> 0 \<Longrightarrow> use_absorb (me_model e) \<Longrightarrow> qk_nope_head_dim (me_model e) = head_dim (me_model e)"
    "ffn_way (me_model e) = 2 \<or> ffn_way (me_model e) = 3"
    "\<And>x. ffn_way (me_model e) = 2 \<Longrightarrow> cmod (ffn_dim (me_model e) x) (parallel_num dl) = 0"
  using assms by (auto simp: fit_def Let_def ffn_dim_def)

lemma shard_product:
  assumes "0 < n" "0 \<le> a" "0 \<le> b" "cmod a n = 0"
  shows "cdiv (b * a) n = cdiv a n * b" "cdiv (a * b) n = cdiv a n * b"
proof -
  have "n dvd a" using assms by auto
  then have "b * a div n = a div n * b" by (simp add: div_mult_swap mult.commute)
  then show "cdiv (b * a) n = cdiv a n * b" using assms by simp
  then show "cdiv (a * b) n = cdiv a n * b" by (simp add: mult.commute)
qed

lemma shard_positive:
  assumes "0 < n" "0 < a" "cmod a n = 0"
  shows "0 < cdiv a n"
proof -
  have "n dvd a" using assms by auto
  then have "n \<le> a" using assms by (simp add: zdvd_imp_le)
  then show ?thesis using assms by (simp add: pos_imp_zdiv_pos_iff)
qed

section \<open>Attention blocks\<close>

lemma Attention_yields:
  assumes "Attention_ctor e dl p = Inr ms" "ready b ms st" "t_shape x = [m, hidden_dim (me_model e)]" "fit e dl"
    "qk_rope_head_dim (me_model e) = 0"
  shows "yields p st (Attention_forward e dl p x st)
    (\<lambda>y. t_shape y = [get_sum_process_token b + get_gen_process_token b, hidden_dim (me_model e)])"
proof -
  let ?m = "me_model e"
  obtain qkv attn oproj where c: "ColumnParallelLinear_ctor e (hidden_dim ?m) (head_dim ?m * (num_heads ?m + 2 * num_kv_heads ?m)) dl
      (p @ [''attn_qkv_proj'']) = Inr qkv"
    "SelfAttentionParallel_ctor e (attention_args e) dl (p @ [''self_attention'']) = Inr attn"
    "RowParallelLinear_ctor e (head_dim ?m * num_heads ?m) (hidden_dim ?m) dl (p @ [''attn_o_proj'']) = Inr oproj"
    and r: "ready b (qkv @ attn @ oproj @ AllReduce_ctor e (p @ [''all_reduce''])) st"
    using assms(1,2) by (auto simp: Attention_ctor_def rbind_eq_Inr Let_def)
  have h: "cmod (num_heads ?m) (parallel_num dl) = 0"
    using c(2) by (auto simp: SelfAttentionParallel_ctor_def rbind_eq_Inr attention_args_def Let_def)
  have cols: "cdiv (head_dim ?m * num_heads ?m) (parallel_num dl) = cdiv (num_heads ?m) (parallel_num dl) * head_dim ?m"
    using shard_product(1) [OF fitD(1) [OF assms(4)] _ fitD(5) [OF assms(4)] h] fitD(3) [OF assms(4)] by simp
  have look: "get_modules p [''attn_qkv_proj'', ''self_attention'', ''attn_o_proj'', ''all_reduce''] st = Inr ()"
    by (rule lookup_roots [OF r]) (auto simp: root_append root_leaf root_ctor(1) [OF c(1)] root_ctor(5) [OF c(2)] root_ctor(2) [OF c(3)])
  have attention: "yields p st (SelfAttentionParallel_forward e (attention_args e) dl p x st) (\<lambda>y. t_shape y =
      [get_sum_process_token b + get_gen_process_token b, cdiv (num_heads ?m) (parallel_num dl) * head_dim ?m])"
    if "SelfAttentionParallel_ctor e (attention_args e) dl p = Inr ms" "ready b ms st" for p ms x st
    using SelfAttentionParallel_yields [OF that] fitD [OF assms(4)] assms(5) by (simp add: attention_args_def Let_def)
  show ?thesis unfolding Attention_forward_def look
    apply simp
    apply (rule yields_seq [OF r], rule ColumnParallelLinear_yields [OF c(1), of b], simp, rule assms(3))
    apply (rule yields_seq, assumption, rule attention [OF c(2)], simp)
    apply (rule yields_seq, assumption, rule RowParallelLinear_yields [OF c(3), of b], simp, simp add: cols)
    apply (rule yields_call, assumption, rule AllReduce_yields [of b e], simp_all)
    done
qed

text \<open>Latent attention: the shared projections.\<close>

lemma latent_inputs_yields:
  assumes "ready b (concat (latent_projections e p)) st" "t_shape x = [m, hidden_dim (me_model e)]"
  shows "yields p st (latent_inputs e p x st) (\<lambda>y. \<exists>q kv kr. y = (q, kv, kr) \<and> t_shape q = [m, q_lora_rank (me_model e)] \<and>
    t_shape kv = [m, kv_lora_rank (me_model e)] \<and> t_shape kr = [m, qk_rope_head_dim (me_model e)])"
proof -
  note seq = yields_seq [where ms = "concat (latent_projections e p)" and b = b]
  have l: "ready b (Linear_ctor e (hidden_dim (me_model e)) (q_lora_rank (me_model e)) (p @ [''attn_q_down_proj''])) st"
    "ready b (Linear_ctor e (hidden_dim (me_model e)) (kv_lora_rank (me_model e)) (p @ [''attn_kv_down_proj''])) st"
    "ready b (Linear_ctor e (hidden_dim (me_model e)) (qk_rope_head_dim (me_model e)) (p @ [''attn_kr_proj''])) st"
    "ready b (RoPE_ctor e (p @ [''k_rope''])) st"
    "ready b (LayerNorm_ctor e (q_lora_rank (me_model e)) (p @ [''latent_q_layer_norm''])) st"
    "ready b (LayerNorm_ctor e (kv_lora_rank (me_model e)) (p @ [''latent_kv_layer_norm''])) st"
    if "ready b (concat (latent_projections e p)) st" for st
    using that by (simp_all add: latent_projections_def Let_def)
  show ?thesis unfolding latent_inputs_def
    apply (rule seq, rule assms(1), rule Linear_yields [of b e], erule l, rule assms(2))
    apply (rule seq, assumption, rule Linear_yields [of b e], erule l, rule assms(2))
    apply (rule seq, assumption, rule Linear_yields [of b e], erule l, rule assms(2))
    apply (rule seq, assumption, rule RoPE_yields [of b e], erule l, assumption)
    apply (rule seq, assumption, rule LayerNorm_yields [of b e], erule l, assumption)
    apply (rule seq, assumption, rule LayerNorm_yields [of b e], erule l, assumption)
    apply (rule yields_return, simp_all)
    done
qed

lemma MultiLatentAttentionParallel_yields:
  assumes "MultiLatentAttentionParallel_ctor e a dl p = Inr ms" "ready b ms st" "0 < aa_batch_size a" "0 < cdiv (aa_num_kv_heads a) (parallel_num dl)"
    "aa_qk_rope_head_dim a \<noteq> 0" "xs \<noteq> []"
  shows "yields p st (MultiLatentAttentionParallel_forward e a dl p xs st) (\<lambda>ys. \<exists>y. ys = [y] \<and> t_shape y =
    [get_sum_process_token b + get_gen_process_token b, cdiv (aa_num_heads a) (parallel_num dl) * aa_head_dim a])"
proof -
  let ?a = "shard dl a"
  have r: "ready b (AttentionSplit_ctor e (p @ [''AttentionSplit'']) @ MultiLatentAttentionSum_ctor e ?a (p @ [''AttentionSum'']) @
    MultiLatentAttentionGen_ctor e ?a (p @ [''AttentionGen'']) @ AttentionMerge_ctor e (p @ [''AttentionMerge''])) st"
    using assms(1,2) by (auto simp: MultiLatentAttentionParallel_ctor_def rbind_eq_Inr Let_def)
  have look: "get_modules p attention_parts st = Inr ()"
    by (rule lookup_roots [OF r]) (auto simp: attention_parts_def root_append root_leaf)
  obtain n where sp: "split_shape (plain_split ?a) k t = [t, n]" for k t
    using assms(5) by (simp add: split_shape_def plain_split_def shard_def)
  obtain x xs' where x: "xs = x # xs'" using assms(6) by (cases xs) auto
  show ?thesis unfolding MultiLatentAttentionParallel_forward_def Let_def look x
    apply simp
    apply (rule yields_seq [OF r], rule AttentionSplit_yields [of b e], simp)
    apply (clarsimp simp: sp simp del: ready_append)
    apply (rule yields_seq, assumption, rule MultiLatentAttentionSum_yields [of b e], simp)
    apply (rule yields_seq, assumption, rule MultiLatentAttentionGen_yields [of b e], simp, assumption)
    apply (use assms(3,4) in \<open>simp add: shard_def\<close>)
    apply (rule yields_last, assumption, rule AttentionMerge_yields [of b e], simp, simp add: plain_split_def, rule refl, simp, simp)
    apply (simp add: plain_split_def shard_def)
    done
qed

lemma baseline_yields:
  assumes "baseline_ctor e dl p = Inr ms" "ready b ms st" "t_shape x = [m, hidden_dim (me_model e)]" "fit e dl"
    "qk_rope_head_dim (me_model e) \<noteq> 0"
  shows "yields p st (baseline_forward e dl p x st)
    (\<lambda>y. t_shape y = [get_sum_process_token b + get_gen_process_token b, hidden_dim (me_model e)])"
proof -
  let ?m = "me_model e"
  let ?h = "num_heads ?m"
  obtain q_up qr kv_up mla oproj where c:
    "ColumnParallelLinear_ctor e (q_lora_rank ?m) (?h * qk_nope_head_dim ?m) dl (p @ [''attn_q_up_proj'']) = Inr q_up"
    "ColumnParallelLinear_ctor e (q_lora_rank ?m) (?h * qk_rope_head_dim ?m) dl (p @ [''attn_qr_proj'']) = Inr qr"
    "ColumnParallelLinear_ctor e (kv_lora_rank ?m) (?h * 2 * head_dim ?m) dl (p @ [''attn_kv_up_proj'']) = Inr kv_up"
    "MultiLatentAttentionParallel_ctor e (attention_args e) dl (p @ [''multi_latent_attention'']) = Inr mla"
    "RowParallelLinear_ctor e (head_dim ?m * ?h) (hidden_dim ?m) dl (p @ [''attn_o_proj'']) = Inr oproj"
    and r: "ready b (concat (latent_projections e p) @ q_up @ qr @ RoPE_ctor e (p @ [''q_rope'']) @
      CompressedKVRestore_ctor e (attention_args e) (p @ [''c_kv_restore'']) @ kv_up @ mla @ oproj @ AllReduce_ctor e (p @ [''all_reduce''])) st"
    using assms(1,2) by (auto simp: baseline_ctor_def rbind_eq_Inr Let_def)
  have h: "cmod ?h (parallel_num dl) = 0"
    using c(4) by (auto simp: MultiLatentAttentionParallel_ctor_def rbind_eq_Inr attention_args_def Let_def)
  have cols: "cdiv (head_dim ?m * ?h) (parallel_num dl) = cdiv ?h (parallel_num dl) * head_dim ?m"
    using shard_product(1) [OF fitD(1) [OF assms(4)] _ fitD(5) [OF assms(4)] h] fitD(3) [OF assms(4)] by simp
  have kv: "0 < cdiv (num_kv_heads ?m) (parallel_num dl)"
    by (rule shard_positive) (use fitD [OF assms(4)] assms(5) in simp_all)
  have look: "get_modules p (latent_names @ [''c_kv_restore'', ''attn_q_up_proj'', ''attn_qr_proj'', ''q_rope'', ''attn_kv_up_proj'',
       ''multi_latent_attention'', ''attn_o_proj'', ''all_reduce'']) st = Inr ()"
    by (rule lookup_roots [OF r]) (auto simp: root_append latent_names_def latent_projections_def Let_def root_leaf root_ctor(1) [OF c(1)]
      root_ctor(1) [OF c(2)] root_ctor(1) [OF c(3)] root_ctor(6) [OF c(4)] root_ctor(2) [OF c(5)])
  have restore: "yields p st (leaf_call (CompressedKVRestore_forward (attention_args e)) p [u, v] st)
      (\<lambda>ys. \<exists>y z r. ys = [y, z] \<and> t_shape y = [r, kv_lora_rank ?m])"
    if "ready b (CompressedKVRestore_ctor e (attention_args e) p) st" "t_shape u = [m, kv_lora_rank ?m]" "t_shape v = [m, qk_rope_head_dim ?m]" for p u v st
    using CompressedKVRestore_yields [OF that(1), of "[u, v]" u v m] that(2,3) fitD(2) [OF assms(4)]
    by (simp add: attention_args_def Let_def)
  have attention: "yields p st (MultiLatentAttentionParallel_forward e (attention_args e) dl p (x # xs) st) (\<lambda>ys. \<exists>y. ys = [y] \<and> t_shape y =
      [get_sum_process_token b + get_gen_process_token b, cdiv ?h (parallel_num dl) * head_dim ?m])"
    if "MultiLatentAttentionParallel_ctor e (attention_args e) dl p = Inr ms" "ready b ms st" for p ms x xs st
    using MultiLatentAttentionParallel_yields [OF that] fitD [OF assms(4)] assms(5) kv by (simp add: attention_args_def Let_def)
  show ?thesis unfolding baseline_forward_def look
    apply simp
    apply (rule yields_bind [OF latent_inputs_yields [of b e, OF _ assms(3)]])
     apply (use r in simp)
    apply (drule ready_kept [OF r])
    apply (clarsimp simp del: ready_append)
    apply (rule yields_seq, assumption, rule restore, simp, assumption, assumption)
    apply (clarsimp simp del: ready_append)
    apply (rule yields_seq, assumption, rule ColumnParallelLinear_yields [OF c(1), of b], simp, assumption)
    apply (rule yields_seq, assumption, rule ColumnParallelLinear_yields [OF c(2), of b], simp, assumption)
    apply (rule yields_seq, assumption, rule ColumnParallelLinear_yields [OF c(3), of b], simp, assumption)
    apply (rule yields_seq, assumption, rule attention [OF c(4)], simp)
    apply (clarsimp simp: vec_at_def simp del: ready_append)
    apply (rule yields_seq, assumption, rule RowParallelLinear_yields [OF c(5), of b], simp, simp add: cols)
    apply (rule yields_call, assumption, rule AllReduce_yields [of b e], simp_all)
    done
qed

text \<open>Absorbed latent attention: a list with one tensor per head of the device.\<close>

definition head_list :: "int \<Rightarrow> int \<Rightarrow> int \<Rightarrow> tensor list \<Rightarrow> bool" where
  "head_list g m k xs \<longleftrightarrow> 0 < g \<and> int (length xs) = g \<and> (\<forall>x \<in> set xs. t_shape x = [m, k])"

lemma head_listD: "head_list g m k xs \<Longrightarrow> xs \<noteq> [] \<and> (\<forall>x \<in> set xs. t_shape x = [m, k]) \<and> int (length xs) = g"
  by (auto simp: head_list_def)

lemma BatchedColumnParallelLinear_yields:
  assumes "BatchedColumnParallelLinear_ctor e k n h False dl p = Inr ms" "ready b ms st" "head_list g m k xs"
  shows "yields p st (BatchedParallelLinear_forward e dup False p xs st) (head_list g m (cdiv n h))"
proof -
  have r: "ready b (BatchedLinear_ctor e (cdiv h (parallel_num dl)) k (cdiv n h) False (p @ [''Batched_Linear''])) st"
    using assms(1,2) by (auto simp: BatchedColumnParallelLinear_ctor_def rbind_eq_Inr)
  have "get_modules p [''Batched_Linear''] st = Inr ()" by (rule lookup_roots [OF r]) (simp add: root_leaf)
  then show ?thesis unfolding BatchedParallelLinear_forward_def
    using head_listD [OF assms(3)] assms(3)
    by simp (rule yields_weaken, rule yields_call [OF r], rule BatchedLinear_yields [where m = m], assumption, simp_all add: head_list_def)
qed

lemma BatchedRowParallelLinear_yields:
  assumes "BatchedRowParallelLinear_ctor e k n h False dl p = Inr ms" "ready b ms st" "head_list g m (cdiv k h) xs"
  shows "yields p st (BatchedParallelLinear_forward e dup False p xs st) (head_list g m n)"
proof -
  have r: "ready b (BatchedLinear_ctor e (cdiv h (parallel_num dl)) (cdiv k h) n False (p @ [''Batched_Linear''])) st"
    using assms(1,2) by (auto simp: BatchedRowParallelLinear_ctor_def rbind_eq_Inr)
  have "get_modules p [''Batched_Linear''] st = Inr ()" by (rule lookup_roots [OF r]) (simp add: root_leaf)
  then show ?thesis unfolding BatchedParallelLinear_forward_def
    using head_listD [OF assms(3)] assms(3)
    by simp (rule yields_weaken, rule yields_call [OF r], rule BatchedLinear_yields [where m = m], assumption, simp_all add: head_list_def)
qed

lemma BatchedRowPlain_yields:
  assumes "BatchedRowParallelLinear_ctor e k n h True dl p = Inr ms" "ready b ms st" "head_list g m c xs"
    "c * g = cdiv k (parallel_num dl)"
  shows "yields p st (BatchedParallelLinear_forward e dup True p xs st) (\<lambda>ys. \<exists>y. ys = [y] \<and> t_shape y = [m, n])"
proof -
  have r: "ready b (BatchedLinear_ctor e (cdiv h (parallel_num dl)) (cdiv k (parallel_num dl)) n True (p @ [''Batched_Linear''])) st"
    using assms(1,2) by (auto simp: BatchedRowParallelLinear_ctor_def rbind_eq_Inr)
  have "get_modules p [''Batched_Linear''] st = Inr ()" by (rule lookup_roots [OF r]) (simp add: root_leaf)
  then show ?thesis unfolding BatchedParallelLinear_forward_def
    using head_listD [OF assms(3)] assms(4)
    by simp (rule yields_call [OF r], rule BatchedLinear_plain_yields [where m = m and c = c], assumption, simp_all)
qed

lemma AbsorbMLAParallel_yields:
  assumes "AbsorbMLAParallel_ctor e a dl p = Inr ms" "ready b ms st" "int (length (get_gen b)) \<le> aa_batch_size a"
    "0 < cdiv (aa_num_heads a) (parallel_num dl)"
  shows "yields p st (AbsorbMLAParallel_forward e a dl p xs st)
    (head_list (cdiv (aa_num_heads a) (parallel_num dl)) (get_sum_process_token b + get_gen_process_token b) (aa_kv_lora_rank a))"
proof -
  let ?a = "shard dl a"
  have r: "ready b (AttentionSplit_ctor e (p @ [''AttentionSplit'']) @ AbsorbMLASum_ctor e ?a (parallel_num dl) (p @ [''AttentionSum'']) @
    AbsorbMLAGen_ctor e ?a (parallel_num dl) (p @ [''AttentionGen'']) @ AttentionMerge_ctor e (p @ [''AttentionMerge''])) st"
    using assms(1,2) by (auto simp: AbsorbMLAParallel_ctor_def rbind_eq_Inr Let_def)
  have look: "get_modules p attention_parts st = Inr ()"
    by (rule lookup_roots [OF r]) (auto simp: attention_parts_def root_append root_leaf)
  show ?thesis unfolding AbsorbMLAParallel_forward_def Let_def look
    apply simp
    apply (rule yields_seq [OF r], rule AttentionSplit_yields [of b e], simp)
    apply (clarsimp simp del: ready_append)
    apply (rule yields_seq, assumption, rule AbsorbMLASum_yields [of b e "shard dl a" "parallel_num dl"], simp)
    apply (rule yields_seq, assumption, rule AbsorbMLAGen_yields [of b e "shard dl a" "parallel_num dl"], simp)
    apply (use assms(3) in \<open>simp add: shard_def\<close>)
    apply (rule yields_last, assumption, rule AttentionMerge_absorb_yields [of b e], simp, simp add: absorb_split_def)
    apply (use assms(4) in \<open>simp add: head_list_def absorb_split_def shard_def\<close>)
    done
qed

lemma absorbed_yields:
  assumes "absorbed_ctor e dl p = Inr ms" "ready b ms st" "t_shape x = [m, hidden_dim (me_model e)]" "fit e dl"
    "qk_rope_head_dim (me_model e) \<noteq> 0" "use_absorb (me_model e)" "int (length (get_gen b)) \<le> me_batch_size_per_dp e"
  shows "yields p st (absorbed_forward e dl p x st)
    (\<lambda>y. t_shape y = [get_sum_process_token b + get_gen_process_token b, hidden_dim (me_model e)])"
proof -
  let ?m = "me_model e"
  let ?h = "num_heads ?m" and ?tok = "get_sum_process_token b + get_gen_process_token b"
  let ?g = "cdiv ?h (parallel_num dl)"
  obtain q_up qr tr_k mla v_up oproj where c:
    "BatchedColumnParallelLinear_ctor e (q_lora_rank ?m) (?h * qk_nope_head_dim ?m) ?h False dl (p @ [''attn_q_up_proj'']) = Inr q_up"
    "BatchedColumnParallelLinear_ctor e (q_lora_rank ?m) (?h * qk_rope_head_dim ?m) ?h False dl (p @ [''attn_qr_proj'']) = Inr qr"
    "BatchedRowParallelLinear_ctor e (head_dim ?m * ?h) (kv_lora_rank ?m) ?h False dl (p @ [''attn_tr_k_up_proj'']) = Inr tr_k"
    "AbsorbMLAParallel_ctor e (attention_args e) dl (p @ [''attn_mla_absorbed'']) = Inr mla"
    "BatchedColumnParallelLinear_ctor e (kv_lora_rank ?m) (?h * head_dim ?m) ?h False dl (p @ [''attn_v_up_proj'']) = Inr v_up"
    "BatchedRowParallelLinear_ctor e (?h * qk_nope_head_dim ?m) (hidden_dim ?m) ?h True dl (p @ [''attn_o_proj'']) = Inr oproj"
    and r: "ready b (concat (latent_projections e p) @ q_up @ qr @ RoPE_ctor e (p @ [''q_rope'']) @ tr_k @ mla @ v_up @ oproj @
      AllReduce_ctor e (p @ [''all_reduce''])) st"
    using assms(1,2) by (auto simp: absorbed_ctor_def rbind_eq_Inr Let_def)
  note f = fitD [OF assms(4)]
  have h: "cmod ?h (parallel_num dl) = 0"
    using c(4) by (auto simp: AbsorbMLAParallel_ctor_def rbind_eq_Inr attention_args_def Let_def)
  have pos: "0 < cdiv ?h (parallel_num dl)" using shard_positive f h by blast
  have nope: "qk_nope_head_dim ?m = head_dim ?m" using f assms(5,6) by blast
  have div: "cdiv (?h * head_dim ?m) ?h = head_dim ?m" "cdiv (head_dim ?m * ?h) ?h = head_dim ?m"
    using f by simp_all
  have rows: "head_dim ?m * cdiv ?h (parallel_num dl) = cdiv (?h * head_dim ?m) (parallel_num dl)"
    using shard_product(2) [OF f(1) _ f(5) h] f(3) by (simp add: mult.commute)
  have look: "get_modules p (latent_names @ [''attn_q_up_proj'', ''attn_qr_proj'', ''q_rope'', ''attn_tr_k_up_proj'',
        ''attn_mla_absorbed'', ''attn_v_up_proj'', ''attn_o_proj'', ''all_reduce'']) st = Inr ()"
    by (rule lookup_roots [OF r]) (auto simp: root_append latent_names_def latent_projections_def Let_def root_leaf root_ctor(3) [OF c(1)]
      root_ctor(3) [OF c(2)] root_ctor(4) [OF c(3)] root_ctor(7) [OF c(4)] root_ctor(3) [OF c(5)] root_ctor(4) [OF c(6)])
  have attention: "yields p st (AbsorbMLAParallel_forward e (attention_args e) dl p xs st)
      (head_list ?g ?tok (kv_lora_rank ?m))"
    if "AbsorbMLAParallel_ctor e (attention_args e) dl p = Inr ms" "ready b ms st" for p ms xs st
    using AbsorbMLAParallel_yields [OF that] assms(7) pos by (simp add: attention_args_def Let_def)
  have rope: "yields p st (leaf_call (BatchedRoPE_forward n) p xs st) (\<lambda>ys. ys = xs)"
    if "ready b (RoPE_ctor e p) st" "head_list g k j xs" for n p xs st k j g
    using head_listD [OF that(2)] BatchedRoPE_yields [OF that(1), of xs] by (cases xs) auto
  have qv: "head_list ?g m k (map (\<lambda>_. q) (irange 0 ?g))" if "t_shape q = [m, k]" for q k
    using pos that by (simp add: head_list_def)
  show ?thesis unfolding absorbed_forward_def Let_def look
    apply (simp only: rbind_simps)
    apply (rule yields_bind [OF latent_inputs_yields [of b e, OF _ assms(3)]])
     apply (use r in simp)
    apply (drule ready_kept [OF r])
    apply (clarsimp simp del: ready_append cdiv_nonneg)
    apply (rule yields_seq, assumption, rule BatchedColumnParallelLinear_yields [OF c(1), of b], simp, rule qv, assumption)
    apply (rule yields_seq, assumption, rule BatchedColumnParallelLinear_yields [OF c(2), of b], simp, rule qv, assumption)
    apply (rule yields_seq, assumption, rule rope, simp, assumption)
    apply (rule yields_seq, assumption, rule BatchedRowParallelLinear_yields [OF c(3), of b], simp, simp only: div nope)
    apply (rule yields_seq, assumption, rule attention [OF c(4)], simp)
    apply (rule yields_seq, assumption, rule BatchedColumnParallelLinear_yields [OF c(5), of b], simp, assumption)
    apply (rule yields_seq, assumption, rule BatchedRowPlain_yields [OF c(6), of b], simp, simp only: div, simp only: nope rows)
    apply (clarsimp simp del: ready_append)
    apply (rule yields_call, assumption, rule AllReduce_yields [of b e], simp_all)
    done
qed

lemma attention_block_yields:
  assumes "attention_block_ctor e dl p = Inr ms" "ready b ms st" "t_shape x = [m, hidden_dim (me_model e)]" "fit e dl"
    "int (length (get_gen b)) \<le> me_batch_size_per_dp e"
  shows "yields p st (attention_block_forward e dl p x st)
    (\<lambda>y. t_shape y = [get_sum_process_token b + get_gen_process_token b, hidden_dim (me_model e)])"
  using assms Attention_yields [of e dl p ms b st x m] baseline_yields [of e dl p ms b st x m] absorbed_yields [of e dl p ms b st x m]
  by (simp add: attention_block_ctor_def attention_block_forward_def MultiLatentAttention_ctor_def MultiLatentAttention_forward_def split: if_splits)

section \<open>Feed-forward layers\<close>

lemma ffn_columns:
  assumes "0 < n" "0 \<le> w" "0 < f" "cmod w n = 0"
  shows "cmod (cdiv (w * f) n) f = 0" "cdiv (cdiv (w * f) n) f = cdiv w n"
proof -
  have c: "cdiv (w * f) n = cdiv w n * f" using shard_product(2) [OF assms(1,2) _ assms(4)] assms(3) by simp
  have p: "0 \<le> cdiv w n" using assms by (simp add: pos_imp_zdiv_nonneg_iff)
  then have q: "0 \<le> cdiv w n * f" using assms(3) by simp
  show "cmod (cdiv (w * f) n) f = 0" "cdiv (cdiv (w * f) n) f = cdiv w n"
    unfolding c using q assms(3) by (simp_all only: cdiv_nonneg cmod_nonneg) simp_all
qed

lemma ffn_reduce_yields:
  assumes "ar \<Longrightarrow> ready b (AllReduce_ctor e (p @ [''all_reduce''])) st" "t_shape x = [m, k]"
  shows "yields p st (ffn_reduce ar dl p x st) (\<lambda>y. t_shape y = [m, k])"
proof (cases ar)
  case True
  note r = assms(1) [OF True]
  have "get_modules p [''all_reduce''] st = Inr ()" by (rule lookup_roots [OF r]) (simp add: root_leaf)
  then show ?thesis unfolding ffn_reduce_def using True
    by simp (rule yields_call [OF r], rule AllReduce_yields [of b e], assumption, rule assms(2))
next
  case False
  then show ?thesis by (simp add: ffn_reduce_def yields_return assms(2))
qed

lemma FeedForward2Way_yields:
  assumes "FeedForward2Way_ctor e ar ex dl p = Inr ms" "ready b ms st" "t_shape x = [m, hidden_dim (me_model e)]" "fit e dl"
    "ffn_way (me_model e) = 2"
  shows "yields p st (FeedForward2Way_forward e ar dl p x st) (\<lambda>y. t_shape y = [m, hidden_dim (me_model e)])"
proof -
  let ?m = "me_model e" and ?dim = "ffn_dim (me_model e) ex"
  let ?red = "if ar then [AllReduce_ctor e (p @ [''all_reduce''])] else []"
  obtain up down where c: "ColumnParallelLinear_ctor e (hidden_dim ?m) (?dim * activation_factor ?m) dl (p @ [''ffn_up_proj'']) = Inr up"
    "RowParallelLinear_ctor e ?dim (hidden_dim ?m) dl (p @ [''ffn_down_proj'']) = Inr down"
    and r: "ready b (up @ Activation_ctor e (p @ [''activation'']) @ down @ concat ?red) st"
    using assms(1,2) ready_sub [OF assms(2), of "[]"] by (auto simp: FeedForward2Way_ctor_def rbind_eq_Inr Let_def split: if_splits)
  note f = fitD [OF assms(4)]
  note cols = ffn_columns [OF f(1) f(7) [of ex] f(6) f(11) [OF assms(5)]]
  have look: "get_modules p [''ffn_up_proj'', ''activation'', ''ffn_down_proj''] st = Inr ()"
    by (rule lookup_roots [OF r]) (auto simp: root_append root_leaf root_ctor(1) [OF c(1)] root_ctor(2) [OF c(2)])
  show ?thesis unfolding FeedForward2Way_forward_def look
    apply (simp only: rbind_simps)
    apply (rule yields_seq [OF r], rule ColumnParallelLinear_yields [OF c(1), of b], simp, rule assms(3))
    apply (rule yields_seq, assumption, rule Activation_yields [of b e], simp, assumption, rule cols)
    apply (simp only: cols)
    apply (rule yields_seq, assumption, rule RowParallelLinear_yields [OF c(2), of b], simp, assumption)
    apply (rule ffn_reduce_yields [of ar b e], simp, assumption)
    done
qed

lemma FeedForward3Way_yields:
  assumes "FeedForward3Way_ctor e ar ex dp dl p = Inr ms" "ready b ms st" "t_shape x = [m, hidden_dim (me_model e)]" "fit e dl"
  shows "yields p st (FeedForward3Way_forward e ar dp dl p x st) (\<lambda>y. t_shape y = [m, hidden_dim (me_model e)])"
proof (cases dp)
  case True
  let ?m = "me_model e" and ?dim = "ffn_dim (me_model e) ex"
  note f = fitD [OF assms(4)]
  have ar: "\<not> ar" and r: "ready b (Linear_ctor e (hidden_dim ?m) (?dim * activation_factor ?m) (p @ [''gate_proj'']) @
      Activation_ctor e (p @ [''activation'']) @ Linear_ctor e ?dim (hidden_dim ?m) (p @ [''down_proj'']) @
      Linear_ctor e (hidden_dim ?m) ?dim (p @ [''up_proj''])) st"
    using assms(1,2) True by (auto simp: FeedForward3Way_ctor_def rbind_eq_Inr Let_def)
  have m0: "cmod (?dim * activation_factor ?m) (activation_factor ?m) = 0" using f(6) f(7) [of ex] by simp
  have look: "get_modules p [''gate_proj'', ''up_proj'', ''down_proj'', ''activation''] st = Inr ()"
    by (rule lookup_roots [OF r]) (auto simp: root_append root_leaf)
  show ?thesis unfolding FeedForward3Way_forward_def look
    apply (simp only: rbind_simps True if_True Let_def)
    apply (rule yields_seq [OF r], rule Linear_yields [of b e "hidden_dim ?m" "?dim * activation_factor ?m"], simp, rule assms(3))
    apply (rule yields_seq, assumption, rule Activation_yields [of b e], simp, assumption, rule m0)
    apply (rule yields_seq, assumption, rule Linear_yields [of b e "hidden_dim ?m" ?dim], simp, rule assms(3))
    apply (rule yields_seq, assumption, rule Linear_yields [of b e ?dim "hidden_dim ?m"], simp, assumption)
    apply (rule ffn_reduce_yields [of ar b e], simp add: ar, assumption)
    done
next
  case False
  let ?m = "me_model e" and ?dim = "ffn_dim (me_model e) ex"
  let ?red = "if ar then [AllReduce_ctor e (p @ [''all_reduce''])] else []"
  note f = fitD [OF assms(4)]
  obtain gate down up where c: "ColumnParallelLinear_ctor e (hidden_dim ?m) (?dim * activation_factor ?m) dl (p @ [''gate_proj'']) = Inr gate"
    "RowParallelLinear_ctor e ?dim (hidden_dim ?m) dl (p @ [''down_proj'']) = Inr down"
    "ColumnParallelLinear_ctor e (hidden_dim ?m) ?dim dl (p @ [''up_proj'']) = Inr up"
    and r: "ready b (gate @ Activation_ctor e (p @ [''activation'']) @ down @ up @ concat ?red) st"
    using assms(1,2) False ready_sub [OF assms(2), of "[]"] by (auto simp: FeedForward3Way_ctor_def rbind_eq_Inr Let_def split: if_splits)
  have "cmod ?dim (parallel_num dl) = 0" using c(3) by (auto simp: ColumnParallelLinear_ctor_def rbind_eq_Inr)
  note cols = ffn_columns [OF f(1) f(7) [of ex] f(6) this]
  have look: "get_modules p [''gate_proj'', ''up_proj'', ''down_proj'', ''activation''] st = Inr ()"
    by (rule lookup_roots [OF r]) (auto simp: root_append root_leaf root_ctor(1) [OF c(1)] root_ctor(2) [OF c(2)] root_ctor(1) [OF c(3)])
  show ?thesis unfolding FeedForward3Way_forward_def look
    apply (simp only: rbind_simps False if_False Let_def)
    apply (rule yields_seq [OF r], rule ColumnParallelLinear_yields [OF c(1), of b], simp, rule assms(3))
    apply (rule yields_seq, assumption, rule Activation_yields [of b e], simp, assumption, rule cols)
    apply (rule yields_seq, assumption, rule ColumnParallelLinear_yields [OF c(3), of b], simp, rule assms(3))
    apply (rule yields_seq, assumption, rule RowParallelLinear_yields [OF c(2), of b], simp, assumption)
    apply (rule ffn_reduce_yields [of ar b e], simp, assumption)
    done
qed

lemma expert_ffn_yields:
  assumes "expert_ffn_ctor e dp dl p = Inr ms" "ready b ms st" "t_shape x = [m, hidden_dim (me_model e)]" "fit e dl"
  shows "yields p st (expert_ffn_forward e dp dl p x st) (\<lambda>y. t_shape y = [m, hidden_dim (me_model e)])"
  using assms fitD(10) [OF assms(4)] FeedForward2Way_yields [of e False True dl p ms b st x m]
    FeedForward3Way_yields [of e False True dp dl p ms b st x m]
  by (auto simp: expert_ffn_ctor_def expert_ffn_forward_def)

section \<open>The expert layer\<close>

lemma ctor_all_append: "rfold (\<lambda>x acc. rbind (f x) (\<lambda>ms. Inr (acc @ [ms]))) xs acc = Inr mss \<Longrightarrow>
    \<exists>mss'. mss = acc @ mss' \<and> list_all2 (\<lambda>x ms. f x = Inr ms) xs mss'"
proof (induction xs arbitrary: acc)
  case (Cons x xs)
  then obtain ms where f: "f x = Inr ms" and "rfold (\<lambda>x acc. rbind (f x) (\<lambda>ms. Inr (acc @ [ms]))) xs (acc @ [ms]) = Inr mss"
    by (auto simp: rbind_eq_Inr)
  then obtain mss' where "mss = acc @ ms # mss'" "list_all2 (\<lambda>x ms. f x = Inr ms) xs mss'" using Cons.IH by fastforce
  with f show ?case by (intro exI [of _ "ms # mss'"]) simp
qed simp

lemma ctor_all_facts: "ctor_all f xs = Inr mss \<Longrightarrow> list_all2 (\<lambda>x ms. f x = Inr ms) xs mss"
  using ctor_all_append [of f xs "[]" mss] by (simp add: ctor_all_def)

lemma ctor_all_nth:
  assumes "ctor_all f xs = Inr mss" "x \<in> set xs"
  shows "\<exists>ms \<in> set mss. f x = Inr ms"
  using ctor_all_facts [OF assms(1)] assms(2) by (induction rule: list_all2_induct) auto

text \<open>Where the experts of a device lie.\<close>

lemma expert_range_facts:
  assumes "expert_checks e dl = Inr u" "0 < e_tp_dg (me_model e)" "0 \<le> me_rank e" "me_rank e < parallel_num dl"
  shows "0 < num_expert_per_device e dl" "0 \<le> expert_offset e dl"
    "expert_offset e dl + num_expert_per_device e dl \<le> num_routed_expert (me_model e)"
proof -
  let ?E = "num_routed_expert (me_model e)" and ?t = "e_tp_dg (me_model e)" and ?n = "parallel_num dl"
  define g where "g = ?n div ?t"
  have c: "?t dvd ?n" "?t \<le> ?n" "g \<le> ?E"
    using assms by (auto simp: expert_checks_def Let_def rbind_eq_Inr g_def)
  have g: "0 < g" using c(2) assms(2) by (simp add: g_def pos_imp_zdiv_pos_iff)
  have n: "?n = g * ?t" using c(1) by (simp add: g_def)
  have per: "num_expert_per_device e dl = ?E div g" using assms(2) c g
    by (simp add: num_expert_per_device_def g_def pos_imp_zdiv_nonneg_iff)
  then show pos: "0 < num_expert_per_device e dl" using g c by (simp add: pos_imp_zdiv_pos_iff)
  define k where "k = me_rank e div ?t"
  have "?t * k \<le> me_rank e" using assms(2) by (simp add: k_def minus_mod_eq_mult_div [symmetric])
  then have "?t * k < ?t * g" using assms(4) n by (simp add: mult.commute)
  then have k: "0 \<le> k" "k < g" using assms(2,3) by (simp_all add: k_def pos_imp_zdiv_nonneg_iff)
  have off: "expert_offset e dl = ?E div g * k" using assms(2,3) by (simp add: expert_offset_def per k_def)
  show "0 \<le> expert_offset e dl" unfolding off using pos per k by simp
  have "?E div g * (k + 1) \<le> ?E div g * g" using k pos per by (intro mult_left_mono) auto
  also have "\<dots> \<le> ?E" using g by (simp add: minus_mod_eq_div_mult [symmetric])
  finally show "expert_offset e dl + num_expert_per_device e dl \<le> ?E" by (simp add: off per algebra_simps)
qed

lemma call_experts_yields:
  assumes "\<forall>i \<in> set is. (\<exists>ms'. expert_ffn_ctor e False dl (p @ [expert_name i]) = Inr ms' \<and> set ms' \<subseteq> set ms) \<and>
      0 \<le> i \<and> i < int (length route_out)"
    and "\<forall>x \<in> set route_out. \<exists>j. t_shape x = [j, hidden_dim (me_model e)]" "fit e dl" "ready b ms st"
  shows "yields p st (rfold (call_expert e dl p route_out) is (acc, st))
    (\<lambda>ys. \<exists>zs. ys = acc @ zs \<and> length zs = length is \<and> (\<forall>z \<in> set zs. \<exists>j. t_shape z = [j, hidden_dim (me_model e)]))"
  using assms(1,4)
proof (induction "is" arbitrary: acc st)
  case Nil
  then show ?case by (simp add: yields_return)
next
  case (Cons i "is")
  obtain ms' where m: "expert_ffn_ctor e False dl (p @ [expert_name i]) = Inr ms'" "set ms' \<subseteq> set ms" and i: "0 \<le> i" "i < int (length route_out)"
    using Cons.prems(1) by auto
  obtain j where x: "vec_at route_out i = Inr (route_out ! nat i)" "t_shape (route_out ! nat i) = [j, hidden_dim (me_model e)]"
    using i assms(2) by (force simp: vec_at_def)
  have root: "root (p @ [expert_name i]) ms'" using m(1) fitD(10) [OF assms(3)] root_ctor
    by (auto simp: expert_ffn_ctor_def)
  have "root (p @ [expert_name i]) ms" using root m(2) by (auto simp: root_def)
  then have look: "get_modules p [expert_name i] st = Inr ()" by (intro lookup_roots [OF Cons.prems(2)]) simp
  have step: "yields p st (rbind (invoke p (expert_name i) (expert_ffn_forward e False dl) (route_out ! nat i) st) (\<lambda>(result, st).
      rfold (call_expert e dl p route_out) is (acc @ [result], st)))
      (\<lambda>ys. \<exists>zs. ys = acc @ zs \<and> length zs = Suc (length is) \<and> (\<forall>z \<in> set zs. \<exists>j. t_shape z = [j, hidden_dim (me_model e)]))"
  proof (rule yields_seq [OF Cons.prems(2)])
    show "yields (p @ [expert_name i]) st' (expert_ffn_forward e False dl (p @ [expert_name i]) (route_out ! nat i) st')
        (\<lambda>y. t_shape y = [j, hidden_dim (me_model e)])" if "ready b ms st'" for st'
      by (rule expert_ffn_yields [OF m(1) ready_sub [OF that m(2)] x(2) assms(3)])
    fix y :: tensor and st' assume r: "ready b ms st'" and y: "t_shape y = [j, hidden_dim (me_model e)]"
    have "yields p st' (rfold (call_expert e dl p route_out) is (acc @ [y], st'))
      (\<lambda>ys. \<exists>zs. ys = (acc @ [y]) @ zs \<and> length zs = length is \<and> (\<forall>z \<in> set zs. \<exists>j. t_shape z = [j, hidden_dim (me_model e)]))"
      by (rule Cons.IH [OF _ r]) (use Cons.prems(1) in simp)
    then show "yields p st' (rfold (call_expert e dl p route_out) is (acc @ [y], st'))
      (\<lambda>ys. \<exists>zs. ys = acc @ zs \<and> length zs = Suc (length is) \<and> (\<forall>z \<in> set zs. \<exists>j. t_shape z = [j, hidden_dim (me_model e)]))"
    proof (rule yields_weaken)
      fix ys assume "\<exists>zs. ys = (acc @ [y]) @ zs \<and> length zs = length is \<and> (\<forall>z \<in> set zs. \<exists>j. t_shape z = [j, hidden_dim (me_model e)])"
      then obtain zs where "ys = acc @ y # zs" "length zs = length is" "\<forall>z \<in> set zs. \<exists>j. t_shape z = [j, hidden_dim (me_model e)]"
        by auto
      then show "\<exists>zs. ys = acc @ zs \<and> length zs = Suc (length is) \<and> (\<forall>z \<in> set zs. \<exists>j. t_shape z = [j, hidden_dim (me_model e)])"
        using y by (intro exI [of _ "y # zs"]) simp
    qed
  qed
  have "rfold (call_expert e dl p route_out) (i # is) (acc, st) =
      rbind (invoke p (expert_name i) (expert_ffn_forward e False dl) (route_out ! nat i) st) (\<lambda>(result, st).
      rfold (call_expert e dl p route_out) is (acc @ [result], st))"
    by (cases "invoke p (expert_name i) (expert_ffn_forward e False dl) (route_out ! nat i) st")
      (auto simp: call_expert_def look x(1))
  with step show ?case by simp
qed

lemma call_shared_yields:
  assumes "\<forall>i \<in> set is. \<exists>ms'. expert_ffn_ctor e True dl (p @ [shared_name i]) = Inr ms' \<and> set ms' \<subseteq> set ms"
    and "t_shape x = [m, hidden_dim (me_model e)]" "fit e dl" "ready b ms st" "t_shape y = [m, hidden_dim (me_model e)]"
  shows "yields p st (rfold (call_shared e dl p x) is (y, st)) (\<lambda>y. t_shape y = [m, hidden_dim (me_model e)])"
  using assms(1,4,5)
proof (induction "is" arbitrary: y st)
  case Nil
  then show ?case by (simp add: yields_return)
next
  case (Cons i "is")
  obtain ms' where m: "expert_ffn_ctor e True dl (p @ [shared_name i]) = Inr ms'" "set ms' \<subseteq> set ms"
    using Cons.prems(1) by auto
  have "root (p @ [shared_name i]) ms'" using m(1) fitD(10) [OF assms(3)] root_ctor
    by (auto simp: expert_ffn_ctor_def)
  then have "root (p @ [shared_name i]) ms" using m(2) by (auto simp: root_def)
  then have look: "get_modules p [shared_name i] st = Inr ()" by (intro lookup_roots [OF Cons.prems(2)]) simp
  have "yields p st (rbind (invoke p (shared_name i) (expert_ffn_forward e True dl) x st) (\<lambda>(result, st).
      rfold (call_shared e dl p x) is (result, st))) (\<lambda>y. t_shape y = [m, hidden_dim (me_model e)])"
  proof (rule yields_seq [OF Cons.prems(2)])
    show "yields (p @ [shared_name i]) st' (expert_ffn_forward e True dl (p @ [shared_name i]) x st') (\<lambda>y. t_shape y = [m, hidden_dim (me_model e)])"
      if "ready b ms st'" for st' by (rule expert_ffn_yields [OF m(1) ready_sub [OF that m(2)] assms(2,3)])
  qed (use Cons in auto)
  moreover have "rfold (call_shared e dl p x) (i # is) (y, st) = rbind (invoke p (shared_name i) (expert_ffn_forward e True dl) x st)
      (\<lambda>(result, st). rfold (call_shared e dl p x) is (result, st))"
    by (simp add: call_shared_def look case_prod_eta)
  ultimately show ?case by simp
qed

end
