(* ===== verification/Build_Model.thy ===== *)
theory Build_Model
  imports Build_Props
begin

text \<open>
  Expert layers, decoders and the whole model while it is built. A model whose constructors succeed
  gets distinct module names, so that the cluster takes all of them, and the call that records its
  graph returns.
\<close>

section \<open>Expert layers\<close>

text \<open>
  The split of the experts of a device over its two sides is defined for their number. For the split of
  the code these are the numbers up to four and the multiples of four; recording a layer with any other number fails
  in \<^verbatim>\<open>Route::forward\<close> when the system runs experts in parallel (\<open>route_forward_group_size\<close>).
\<close>

definition splits :: "module_env \<Rightarrow> int \<Rightarrow> bool" where
  "splits e n \<longleftrightarrow> (\<forall>c ns. length ns = nat n \<longrightarrow> (\<exists>H. me_split e c ns = Inr H))"

lemma splits_getIdxHigh:
  assumes "me_split e = getIdxHigh srt srt_vec" "0 \<le> n"
  shows "splits e n \<longleftrightarrow> n \<le> 4 \<or> n mod 4 = 0"
proof -
  have len: "length ns \<le> 4 \<or> length ns mod 4 = 0 \<longleftrightarrow> n \<le> 4 \<or> n mod 4 = 0" if "length ns = nat n" for ns :: "int list"
    using that assms(2) by (simp add: nat_le_iff) presburger
  have total: "(\<exists>H. getIdxHigh srt srt_vec c ns = Inr H) \<longleftrightarrow> length ns \<le> 4 \<or> length ns mod 4 = 0" for c ns
    by (cases "length ns mod 4 = 0") (auto simp: getIdxHigh_def Let_def assertTrue_def fail_def)
  have ex: "length (replicate (nat n) (0::int)) = nat n" by simp
  show ?thesis unfolding splits_def assms(1) total using len ex by metis
qed

text \<open>What an expert layer relies on: its weights are shared exactly, and the batch counts tokens for every expert.\<close>

definition moe_fit :: "module_env \<Rightarrow> int list \<Rightarrow> batched_sequence \<Rightarrow> bool" where
  "moe_fit e dl b \<longleftrightarrow> fit e (expert_list e) \<and> fit e (non_moe_list e) \<and> 0 < e_tp_dg (me_model e) \<and>
     0 \<le> me_rank e \<and> me_rank e < parallel_num dl \<and>
     num_routed_expert (me_model e) \<le> int (length (bs_num_token_in_expert b)) \<and> splits e (num_expert_per_device e dl)"

lemma moe_fitD:
  assumes "moe_fit e dl b"
  shows "fit e (expert_list e)" "fit e (non_moe_list e)" "0 < e_tp_dg (me_model e)" "0 \<le> me_rank e"
    "me_rank e < parallel_num dl" "num_routed_expert (me_model e) \<le> int (length (bs_num_token_in_expert b))"
    "\<And>c ns. length ns = nat (num_expert_per_device e dl) \<Longrightarrow> \<exists>H. me_split e c ns = Inr H"
  using assms by (auto simp: moe_fit_def splits_def)

lemma yields_then:
  assumes "ready b ms st" "yields p st r Q" "\<And>y st'. ready b ms st' \<Longrightarrow> Q y \<Longrightarrow> yields p st' (g y st') R"
  shows "yields p st (rbind r (\<lambda>(y, st). g y st)) R"
  by (rule yields_bind [OF assms(2)]) (blast intro: assms(3) ready_kept [OF assms(1)])

lemma Sync_seq:
  assumes "ready b ms st" "set (Sync_ctor e (p @ [nm])) \<subseteq> set ms" "\<And>st'. ready b ms st' \<Longrightarrow> yields p st' (g st') R"
  shows "yields p st (rbind (invoke p nm Sync_forward x st) (\<lambda>(_, st). g st)) R"
proof (rule yields_seq [OF assms(1)])
  show "yields (p @ [nm]) st' (Sync_forward (p @ [nm]) x st') (\<lambda>_. True)" if "ready b ms st'" for st'
    by (rule Sync_yields [OF ready_sub [OF that assms(2)]])
qed (rule assms(3))

lemma ExpertFFN_yields:
  assumes "ExpertFFN_ctor e dl p = Inr ms" "ready b ms st" "t_shape x = [m, hidden_dim (me_model e)]" "moe_fit e dl b"
  shows "yields p st (ExpertFFN_forward e dl p x st) (\<lambda>y. t_shape y = [m, hidden_dim (me_model e)])"
proof -
  let ?M = "me_model e" and ?ndl = "non_moe_list e"
  note f = moe_fitD [OF assms(4)]
  obtain gate_fn experts shared u where c: "ColumnParallelLinear_ctor e (hidden_dim ?M) (num_routed_expert ?M) [me_rank e] (p @ [''gate_fn'']) = Inr gate_fn"
    "expert_checks e dl = Inr u" "ctor_all (\<lambda>i. expert_ffn_ctor e False (expert_list e) (p @ [expert_name i])) (expert_ids e dl) = Inr experts"
    "ctor_all (\<lambda>i. expert_ffn_ctor e True ?ndl (p @ [shared_name i])) (irange 0 (num_shared_expert ?M)) = Inr shared"
    and ms: "ms = module_node p [] ([gate_fn, GateUpdate_ctor e (p @ [''gate_update'']), MoEScatter_ctor e (p @ [''moe_scatter'']),
          Route_ctor e (p @ [''moe_route''])] @ experts @ shared @
        [AllReduce_ctor e (p @ [''moe_all_reduce_for_e_tp'']), MoEGather_ctor e (p @ [''moe_gather'']),
         AllReduce_ctor e (p @ [''moe_all_reduce_for_gather''])] @ map (\<lambda>nm. Sync_ctor e (p @ [nm])) sync_names)"
    using assms(1) by (auto simp: ExpertFFN_ctor_def Let_def rbind_eq_Inr simp del: map_append)
  have sub: "set gate_fn \<subseteq> set ms" "set (GateUpdate_ctor e (p @ [''gate_update''])) \<subseteq> set ms"
    "set (MoEScatter_ctor e (p @ [''moe_scatter''])) \<subseteq> set ms" "set (Route_ctor e (p @ [''moe_route''])) \<subseteq> set ms"
    "set (AllReduce_ctor e (p @ [''moe_all_reduce_for_e_tp''])) \<subseteq> set ms" "set (MoEGather_ctor e (p @ [''moe_gather''])) \<subseteq> set ms"
    "set (AllReduce_ctor e (p @ [''moe_all_reduce_for_gather''])) \<subseteq> set ms"
    by (auto simp: ms module_node_def)
  have sync: "set (Sync_ctor e (p @ [nm])) \<subseteq> set ms" if "nm \<in> set sync_names" for nm
    using that by (auto simp: ms module_node_def)
  have syncs: "set (Sync_ctor e (p @ [''sync_0''])) \<subseteq> set ms" "set (Sync_ctor e (p @ [''sync_for_moe_scatter''])) \<subseteq> set ms"
    "set (Sync_ctor e (p @ [''sync_2''])) \<subseteq> set ms" "set (Sync_ctor e (p @ [''sync_3''])) \<subseteq> set ms"
    "set (Sync_ctor e (p @ [''sync_for_moe_gather''])) \<subseteq> set ms" "set (Sync_ctor e (p @ [''sync_5''])) \<subseteq> set ms"
    "set (Sync_ctor e (p @ [''sync_6''])) \<subseteq> set ms"
    by (simp_all add: sync sync_names_def)
  note at = ready_sub [OF _ sub(1)] ready_sub [OF _ sub(2)] ready_sub [OF _ sub(3)] ready_sub [OF _ sub(4)]
    ready_sub [OF _ sub(5)] ready_sub [OF _ sub(6)] ready_sub [OF _ sub(7)]
  have range: "0 < num_expert_per_device e dl" "0 \<le> expert_offset e dl"
    "expert_offset e dl + num_expert_per_device e dl \<le> num_routed_expert ?M"
    by (rule expert_range_facts [OF c(2) f(3,4,5)])+
  have mono: "set ms' \<subseteq> set ms" if "ms' \<in> set experts \<or> ms' \<in> set shared" for ms'
    using that by (auto simp: ms module_node_def)
  have ex: "\<forall>i \<in> set (expert_ids e dl). (\<exists>ms'. expert_ffn_ctor e False (expert_list e) (p @ [expert_name i]) = Inr ms' \<and> set ms' \<subseteq> set ms) \<and>
      0 \<le> i \<and> i < int (length route_out)" if "int (length route_out) = max 0 (num_routed_expert ?M) \<and> Q route_out"
    for route_out :: "tensor list" and Q
    using ctor_all_nth [OF c(3)] mono range that by (fastforce simp: expert_ids_def)
  have experts_out: "ys \<noteq> []" "\<forall>y \<in> set ys. \<exists>j. t_shape y = [j, hidden_dim ?M]"
    if "\<exists>zs. ys = [] @ zs \<and> length zs = length (expert_ids e dl) \<and> (\<forall>z \<in> set zs. \<exists>j. t_shape z = [j, hidden_dim ?M])"
    for ys :: "tensor list" using that range by (auto simp: expert_ids_def)
  have sh: "\<forall>i \<in> set (irange 0 (num_shared_expert ?M)). \<exists>ms'. expert_ffn_ctor e True ?ndl (p @ [shared_name i]) = Inr ms' \<and> set ms' \<subseteq> set ms"
    using ctor_all_nth [OF c(4)] mono by blast
  have r: "root (p @ [nm]) ms" if "nm \<in> set (sync_names @ [''gate_fn'', ''gate_update'', ''moe_scatter'', ''moe_route'',
       ''moe_all_reduce_for_e_tp'', ''moe_all_reduce_for_gather'', ''moe_gather''])" for nm
  proof -
    have up: "root (p @ [nm]) ms" if "root (p @ [nm]) ms'" "set ms' \<subseteq> set ms" for ms' nm using that by (auto simp: root_def)
    have "root (p @ [nm]) ms" if "nm \<in> set sync_names" for nm by (rule up [OF root_leaf(8) sync [OF that]])
    moreover have "root (p @ [''gate_fn'']) ms" by (rule up [OF root_ctor(1) [OF c(1)] sub(1)])
    moreover have "root (p @ [''gate_update'']) ms" by (rule up [OF root_leaf(9) sub(2)])
    moreover have "root (p @ [''moe_scatter'']) ms" by (rule up [OF root_leaf(6) sub(3)])
    moreover have "root (p @ [''moe_route'']) ms" by (rule up [OF root_leaf(10) sub(4)])
    moreover have "root (p @ [''moe_all_reduce_for_e_tp'']) ms" by (rule up [OF root_leaf(5) sub(5)])
    moreover have "root (p @ [''moe_gather'']) ms" by (rule up [OF root_leaf(7) sub(6)])
    moreover have "root (p @ [''moe_all_reduce_for_gather'']) ms" by (rule up [OF root_leaf(5) sub(7)])
    ultimately show ?thesis using that by auto
  qed
  have look: "get_modules p (sync_names @ [''gate_fn'', ''gate_update'', ''moe_scatter'', ''moe_route'',
       ''moe_all_reduce_for_e_tp'', ''moe_all_reduce_for_gather'', ''moe_gather'']) st = Inr ()"
    by (rule lookup_roots [OF assms(2)]) (rule r)
  show ?thesis unfolding ExpertFFN_forward_def look
    apply simp
    apply (rule Sync_seq [OF assms(2) syncs(1)])
    apply (rule yields_seq, assumption, rule ColumnParallelLinear_yields [OF c(1), of b], erule at(1), rule assms(3))
    apply (rule yields_seq, assumption, rule GateUpdate_yields [of b e], erule at(2), rule assms(3))
    apply (rule yields_seq, assumption, rule MoEScatter_yields [of b e], erule at(3), assumption)
    apply (rule Sync_seq [OF _ syncs(2)], assumption)
    apply (rule yields_seq, assumption, rule Route_yields [of b e], erule at(4), rule refl, assumption, rule f(6), rule range(2), rule range(3), erule f(7))
    apply (rule yields_then, assumption, rule call_experts_yields [where ms = ms and b = b], rule ex, assumption, erule conjunct2, rule f(1), assumption)
    apply (rule Sync_seq [OF _ syncs(3)], assumption)
    apply (rule yields_seq, assumption, rule AllReduce_yields [of b e], erule at(5), rule assms(3))
    apply (rule Sync_seq [OF _ syncs(4)], assumption)
    apply (rule yields_seq, assumption, rule MoEGather_yields [of b e], erule at(6), erule experts_out(1), erule experts_out(2))
    apply (rule Sync_seq [OF _ syncs(5)], assumption)
    apply (rule yields_seq, assumption, rule AllReduce_yields [of b e], erule at(7), rule assms(3))
    apply (rule Sync_seq [OF _ syncs(6)], assumption)
    apply (rule yields_then, assumption, rule call_shared_yields [where ms = ms and b = b], rule sh, rule assms(3), rule f(2), assumption, assumption)
    apply (rule Sync_seq [OF _ syncs(7)], assumption)
    apply (rule yields_return, simp_all)
    done
qed

section \<open>Decoders\<close>

lemma root_up: "root q ms' \<Longrightarrow> set ms' \<subseteq> set ms \<Longrightarrow> root q ms"
  by (auto simp: root_def)

lemma decoder_ffn_yields:
  assumes "decoder_ffn_ctor e dl p = Inr mss" "ready b (concat mss) st" "t_shape x = [m, hidden_dim (me_model e)]" "fit e dl"
  shows "yields p st (decoder_ffn_forward e dl p x st) (\<lambda>y. t_shape y = [m, hidden_dim (me_model e)])" "root p (concat mss)"
  using assms FeedForward2Way_yields [of e False False dl p _ b st x m] FeedForward3Way_yields [of e False False False dl p _ b st x m]
    fitD(10) [OF assms(4)] root_ctor(10) [of e False False dl p] root_ctor(11) [of e False False False dl p]
  by (auto simp: decoder_ffn_ctor_def decoder_ffn_forward_def rbind_eq_Inr split: if_splits)

lemma Decoder_yields:
  assumes "Decoder_ctor e dl p = Inr ms" "ready b ms st" "t_shape x = [m, hidden_dim (me_model e)]" "fit e (non_moe_list e)"
    "int (length (get_gen b)) \<le> me_batch_size_per_dp e"
  shows "yields p st (Decoder_forward e p x st)
    (\<lambda>y. t_shape y = [get_sum_process_token b + get_gen_process_token b, hidden_dim (me_model e)])"
proof -
  let ?M = "me_model e" and ?ndl = "non_moe_list e"
  obtain atn ff where c: "attention_block_ctor e ?ndl (p @ [''attention'']) = Inr atn" "decoder_ffn_ctor e ?ndl (p @ [''feedforward'']) = Inr ff"
    and ms: "ms = module_node p [] ([LayerNorm_ctor e (hidden_dim ?M) (p @ [''input_layer_norm'']), atn,
          Residual_ctor e (p @ [''residual_1'']), LayerNorm_ctor e (hidden_dim ?M) (p @ [''post_attn_layer_norm''])] @
        ff @ [AllReduce_ctor e (p @ [''all_reduce'']), Residual_ctor e (p @ [''residual_2''])])"
    using assms(1) by (auto simp: Decoder_ctor_def Let_def rbind_eq_Inr)
  have sub: "set (LayerNorm_ctor e (hidden_dim ?M) (p @ [''input_layer_norm''])) \<subseteq> set ms" "set atn \<subseteq> set ms"
    "set (Residual_ctor e (p @ [''residual_1''])) \<subseteq> set ms" "set (LayerNorm_ctor e (hidden_dim ?M) (p @ [''post_attn_layer_norm''])) \<subseteq> set ms"
    "set (concat ff) \<subseteq> set ms" "set (AllReduce_ctor e (p @ [''all_reduce''])) \<subseteq> set ms" "set (Residual_ctor e (p @ [''residual_2''])) \<subseteq> set ms"
    by (auto simp: ms module_node_def)
  have "root (p @ [''attention'']) atn" using c(1) root_ctor by (auto simp: attention_block_ctor_def split: if_splits)
  note roots = root_up [OF root_leaf(3) sub(1)] root_up [OF this sub(2)] root_up [OF root_leaf(4) sub(3)] root_up [OF root_leaf(3) sub(4)]
    root_up [OF decoder_ffn_yields(2) [OF c(2) ready_sub [OF assms(2) sub(5)] assms(3,4)] sub(5)] root_up [OF root_leaf(5) sub(6)] root_up [OF root_leaf(4) sub(7)]
  have look: "get_modules p [''input_layer_norm'', ''attention'', ''residual_1'', ''post_attn_layer_norm'', ''feedforward'',
      ''all_reduce'', ''residual_2''] st = Inr ()"
    by (rule lookup_roots [OF assms(2)]) (use roots in auto)
  show ?thesis unfolding Decoder_forward_def Let_def look
    apply simp
    apply (rule yields_seq [OF assms(2)], rule LayerNorm_yields [of b e], erule ready_sub [OF _ sub(1)], rule assms(3))
    apply (rule yields_seq, assumption, rule attention_block_yields [OF c(1), of b], erule ready_sub [OF _ sub(2)], assumption, rule assms(4), rule assms(5))
    apply (rule yields_seq, assumption, rule Residual_yields [of b e], erule ready_sub [OF _ sub(3)], assumption)
    apply (rule yields_seq, assumption, rule LayerNorm_yields [of b e], erule ready_sub [OF _ sub(4)], assumption)
    apply (rule yields_seq, assumption, rule decoder_ffn_yields(1) [OF c(2), of b], erule ready_sub [OF _ sub(5)], assumption, rule assms(4))
    apply (rule yields_seq, assumption, rule AllReduce_yields [of b e], erule ready_sub [OF _ sub(6)], assumption)
    apply (rule yields_call, assumption, rule Residual_yields [of b e], erule ready_sub [OF _ sub(3)], assumption)
    done
qed

lemma MoEDecoder_yields:
  assumes "MoEDecoder_ctor e dl p = Inr ms" "ready b ms st" "t_shape x = [m, hidden_dim (me_model e)]"
    "moe_fit e (set_device_list 0 (parallel_num dl)) b" "int (length (get_gen b)) \<le> me_batch_size_per_dp e"
  shows "yields p st (MoEDecoder_forward e dl p x st)
    (\<lambda>y. t_shape y = [get_sum_process_token b + get_gen_process_token b, hidden_dim (me_model e)])"
proof -
  let ?M = "me_model e" and ?ndl = "non_moe_list e" and ?dl = "set_device_list 0 (parallel_num dl)"
  define norm where "norm nm = LayerNorm_ctor e (hidden_dim ?M) (p @ [nm])" for nm
  obtain atn ff where c: "attention_block_ctor e ?ndl (p @ [''attention'']) = Inr atn" "ExpertFFN_ctor e ?dl (p @ [''expertFFN'']) = Inr ff"
    and ms: "ms = module_node p [] [norm ''input_layer_norm'', atn, norm ''residual_1'', norm ''post_attn_layer_norm'', ff, norm ''residual_2'']"
    using assms(1) by (auto simp: MoEDecoder_ctor_def Let_def rbind_eq_Inr norm_def simp del: set_device_list_def)
  have sub: "set (norm ''input_layer_norm'') \<subseteq> set ms" "set atn \<subseteq> set ms" "set (norm ''residual_1'') \<subseteq> set ms"
    "set (norm ''post_attn_layer_norm'') \<subseteq> set ms" "set ff \<subseteq> set ms" "set (norm ''residual_2'') \<subseteq> set ms"
    by (auto simp: ms module_node_def)
  have "root (p @ [''attention'']) atn" using c(1) root_ctor by (auto simp: attention_block_ctor_def split: if_splits)
  note roots = root_up [OF root_leaf(3) sub(1) [unfolded norm_def]] root_up [OF this sub(2)] root_up [OF root_leaf(3) sub(3) [unfolded norm_def]]
    root_up [OF root_leaf(3) sub(4) [unfolded norm_def]] root_up [OF root_ctor(12) [OF c(2)] sub(5)] root_up [OF root_leaf(3) sub(6) [unfolded norm_def]]
  have look: "get_modules p [''input_layer_norm'', ''attention'', ''residual_1'', ''post_attn_layer_norm'', ''expertFFN'', ''residual_2''] st = Inr ()"
    by (rule lookup_roots [OF assms(2)]) (use roots in auto)
  have norms: "yields (p @ [nm]) st' (LayerNorm_call (p @ [nm]) y st') (\<lambda>y. t_shape y = [j, hidden_dim ?M])"
    if "set (norm nm) \<subseteq> set ms" "ready b ms st'" "t_shape y = [j, hidden_dim ?M]" for nm y j st'
    by (rule LayerNorm_yields [of b e, OF ready_sub [OF that(2) that(1) [unfolded norm_def]] that(3)])
  show ?thesis unfolding MoEDecoder_forward_def Let_def look
    apply simp
    apply (rule yields_seq [OF assms(2)], erule norms [OF sub(1)], rule assms(3))
    apply (rule yields_seq, assumption, rule attention_block_yields [OF c(1), of b], erule ready_sub [OF _ sub(2)], assumption,
        rule moe_fitD(2) [OF assms(4)], rule assms(5))
    apply (rule yields_seq, assumption, erule norms [OF sub(3)], assumption)
    apply (rule yields_seq, assumption, erule norms [OF sub(4)], assumption)
    apply (rule yields_seq, assumption, rule ExpertFFN_yields [OF c(2), of b], erule ready_sub [OF _ sub(5)], assumption, rule assms(4))
    apply (rule yields_call, assumption, erule norms [OF sub(6)], assumption)
    done
qed

section \<open>The model\<close>

text \<open>
  What the constructors of a model do not check but recording its graph relies on: the rank exists,
  the sizes are \<open>fit\<close> for the groups of the layers with and without experts, the group of an expert exists and
  the experts of a device can be split.
\<close>

definition model_fit :: "module_env \<Rightarrow> int \<Rightarrow> bool" where
  "model_fit e n \<longleftrightarrow> (let m = me_model e; dl = set_device_list 0 n in
     0 \<le> me_rank e \<and> me_rank e < n \<and> fit e (non_moe_list e) \<and>
     (list_ex snd (llm_layers m) \<longrightarrow> fit e (expert_list e) \<and> 0 < e_tp_dg m \<and> splits e (num_expert_per_device e dl)))"

text \<open>The batch a model is built with: it counts tokens for every expert and generates for no more sequences than the caches hold.\<close>

definition batch_fit :: "module_env \<Rightarrow> batched_sequence \<Rightarrow> bool" where
  "batch_fit e b \<longleftrightarrow> num_routed_expert (me_model e) \<le> int (length (bs_num_token_in_expert b)) \<and>
     int (length (get_gen b)) \<le> me_batch_size_per_dp e"

lemma parallel_set_device_list: "0 \<le> n \<Longrightarrow> parallel_num (set_device_list 0 n) = n"
  by (simp add: parallel_num_def set_device_list_def)

lemma model_fit_moe:
  assumes "model_fit e n" "batch_fit e b" "l \<in> set (llm_layers (me_model e))" "snd l"
  shows "moe_fit e (set_device_list 0 n) b"
proof -
  have "list_ex snd (llm_layers (me_model e))" using assms(3,4) by (auto simp: list_ex_iff)
  with assms(1,2) show ?thesis
    by (simp add: model_fit_def moe_fit_def batch_fit_def Let_def parallel_set_device_list del: set_device_list_def)
qed

lemma layer_root: "layer_ctor e dl p l = Inr ms \<Longrightarrow> root (p @ [fst l]) ms"
  by (auto simp: layer_ctor_def root_ctor split: if_splits)

lemma call_layers_yields:
  assumes "\<forall>l \<in> set ls. \<exists>ms'. layer_ctor e (set_device_list 0 n) p l = Inr ms' \<and> set ms' \<subseteq> set ms"
    and "set ls \<subseteq> set (llm_layers (me_model e))" "t_shape x = [m, hidden_dim (me_model e)]" "model_fit e n" "batch_fit e b" "ready b ms st"
  shows "yields p st (rfold (call_layer e (set_device_list 0 n) p x) ls (out, st)) (\<lambda>_. True)"
  using assms(1,2,6)
proof (induction ls arbitrary: out st)
  case Nil
  then show ?case by (simp add: yields_return)
next
  case (Cons l ls)
  let ?dl = "set_device_list 0 n"
  have fits: "fit e (non_moe_list e)" "int (length (get_gen b)) \<le> me_batch_size_per_dp e" "parallel_num ?dl = n"
    using assms(4,5) by (simp_all add: model_fit_def batch_fit_def Let_def parallel_set_device_list)
  obtain ms' where m: "layer_ctor e ?dl p l = Inr ms'" "set ms' \<subseteq> set ms" using Cons.prems(1) by auto
  have look: "get_modules p [fst l] st = Inr ()"
    by (rule lookup_roots [OF Cons.prems(3)]) (use root_up [OF layer_root [OF m(1)] m(2)] in simp)
  have layer: "yields (p @ [fst l]) st' (if snd l then MoEDecoder_forward e ?dl (p @ [fst l]) x st' else Decoder_forward e (p @ [fst l]) x st') (\<lambda>_. True)"
    if r: "ready b ms st'" for st'
  proof (cases "snd l")
    case True
    have c: "MoEDecoder_ctor e ?dl (p @ [fst l]) = Inr ms'" using m(1) True by (simp add: layer_ctor_def)
    have "moe_fit e (set_device_list 0 (parallel_num ?dl)) b" unfolding fits(3)
      by (rule model_fit_moe [OF assms(4,5) _ True]) (use Cons.prems(2) in simp)
    from MoEDecoder_yields [OF c ready_sub [OF r m(2)] assms(3) this fits(2)] True show ?thesis by (auto elim: yields_weaken)
  next
    case False
    then have c: "Decoder_ctor e ?dl (p @ [fst l]) = Inr ms'" using m(1) by (simp add: layer_ctor_def)
    from Decoder_yields [OF c ready_sub [OF r m(2)] assms(3) fits(1,2)] False show ?thesis by (auto elim: yields_weaken)
  qed
  have step: "call_layer e ?dl p x l (out, st) = rbind (invoke p (fst l) (\<lambda>q i st. if snd l then MoEDecoder_forward e ?dl q i st
      else Decoder_forward e q i st) x st) (\<lambda>(out, st). Inr (Some out, st))"
    by (cases "snd l") (simp_all add: call_layer_def look)
  have eq: "rfold (call_layer e ?dl p x) (l # ls) (out, st) = rbind (invoke p (fst l) (\<lambda>q i st. if snd l then MoEDecoder_forward e ?dl q i st
      else Decoder_forward e q i st) x st) (\<lambda>(out, st). rfold (call_layer e ?dl p x) ls (Some out, st))"
    unfolding rfold.simps step
    by (cases "invoke p (fst l) (\<lambda>q i st. if snd l then MoEDecoder_forward e ?dl q i st else Decoder_forward e q i st) x st") auto
  show ?case unfolding eq
  proof (rule yields_seq [OF Cons.prems(3)])
    show "yields p st' (rfold (call_layer e ?dl p x) ls (Some y, st')) (\<lambda>_. True)" if "ready b ms st'" for y st'
      by (rule Cons.IH [OF _ _ that]) (use Cons.prems(1,2) in auto)
  qed (rule layer)
qed

lemma LLM_yields:
  assumes "LLM_ctor e n p = Inr ms" "ready b ms st" "model_fit e n" "batch_fit e b"
  shows "yields p st (LLM_forward e n p x st) (\<lambda>y. t_shape y = [get_process_token b, n_vocab (me_model e)])"
proof -
  let ?M = "me_model e" and ?dl = "set_device_list 0 n"
  obtain layers where c: "ctor_all (layer_ctor e ?dl p) (llm_layers ?M) = Inr layers"
    and ms: "ms = module_node p [] (Embedding_ctor e (p @ [''Embedding_layer'']) # layers @ [LmHead_ctor e (p @ [''lm_head''])])"
    using assms(1) by (auto simp: LLM_ctor_def Let_def rbind_eq_Inr)
  have sub: "set (Embedding_ctor e (p @ [''Embedding_layer''])) \<subseteq> set ms" "set (LmHead_ctor e (p @ [''lm_head''])) \<subseteq> set ms"
    by (auto simp: ms module_node_def)
  have "\<exists>ms'. layer_ctor e ?dl p l = Inr ms' \<and> set ms' \<subseteq> set ms" if "l \<in> set (llm_layers ?M)" for l
    using ctor_all_nth [OF c that] by (auto simp: ms module_node_def)
  then have each: "\<forall>l \<in> set (llm_layers ?M). \<exists>ms'. layer_ctor e ?dl p l = Inr ms' \<and> set ms' \<subseteq> set ms" by blast
  have look: "get_modules p [nm] st' = Inr ()" if "nm = ''Embedding_layer'' \<or> nm = ''lm_head''" "ready b ms st'" for nm st'
    by (rule lookup_roots [OF that(2)]) (use that(1) root_up [OF root_leaf(22) sub(1)] root_up [OF root_leaf(23) sub(2)] in auto)
  show ?thesis unfolding LLM_forward_def Let_def look [OF disjI1 [OF refl] assms(2)]
    apply (simp only: rbind_simps)
    apply (rule yields_seq [OF assms(2)], rule Embedding_yields [of b e], erule ready_sub [OF _ sub(1)])
    apply (rule yields_then, assumption, rule call_layers_yields [where ms = ms and b = b], rule each, rule subset_refl, assumption,
        rule assms(3), rule assms(4), assumption)
    apply (simp only: look [OF disjI2 [OF refl]] rbind_simps)
    apply (rule yields_call, assumption, rule LmHead_yields [of b e], erule ready_sub [OF _ sub(2)])
    done
qed

end
