(* ===== verification/Build_Names.thy ===== *)
theory Build_Names
  imports Build_Props
begin

text \<open>
  The cluster keeps the modules of a device by their full names and refuses a name it already has
  (\<^verbatim>\<open>Cluster::add_module\<close>). Every constructor gives the paths of a tree: all of them
  extend the path of the module, they are distinct, and no name contains a colon, so that different
  paths have different full names.
\<close>

section \<open>Names\<close>

definition plain_name :: "string \<Rightarrow> bool" where
  "plain_name s \<longleftrightarrow> CHR '':'' \<notin> set s"

lemma plain_name_simps [simp]:
  "plain_name []" "plain_name (c # s) \<longleftrightarrow> c \<noteq> CHR '':'' \<and> plain_name s" "plain_name (s @ t) \<longleftrightarrow> plain_name s \<and> plain_name t"
  by (auto simp: plain_name_def)

lemma plain_nat_digits: "plain_name (nat_digits n)"
proof (induction n rule: nat_digits.induct)
  case (1 n)
  have digit: "(char_of (48 + k) :: char) \<noteq> CHR '':''" if "k < 10" for k :: nat
  proof
    assume "char_of (48 + k) = CHR '':''"
    then have "(of_char (char_of (48 + k) :: char) :: nat) = 58" by simp
    with that show False by simp
  qed
  then show ?case using 1 by (subst nat_digits.simps) simp
qed

lemma plain_to_string [simp]: "plain_name (to_string i)"
  by (simp add: to_string_def plain_nat_digits)

lemma colon_split:
  assumes "plain_name a" "plain_name b" "a @ x = b @ y" "x = [] \<or> hd x = CHR '':''" "y = [] \<or> hd y = CHR '':''"
  shows "a = b \<and> x = y"
  using assms
proof (induction a arbitrary: b)
  case Nil
  then show ?case by (cases b) auto
next
  case (Cons c a)
  then show ?case by (cases b) auto
qed

lemma module_map_name_inject:
  assumes "list_all plain_name p" "list_all plain_name q" "module_map_name p = module_map_name q"
  shows "p = q"
  using assms
proof (induction p arbitrary: q)
  case Nil
  then show ?case by (cases q) (auto simp: module_map_name_def)
next
  case (Cons a p)
  obtain b q' where q: "q = b # q'" using Cons.prems(3) by (cases q) (auto simp: module_map_name_def)
  have hd: "module_map_name r = [] \<or> hd (module_map_name r) = CHR '':''" for r by (cases r) (simp_all add: module_map_name_def)
  have "a @ module_map_name p = b @ module_map_name q'" using Cons.prems(3) by (simp add: q module_map_name_def)
  then have "a = b" "module_map_name p = module_map_name q'"
    using colon_split [of a b "module_map_name p" "module_map_name q'"] Cons.prems(1,2) hd by (auto simp: q)
  then show ?case using Cons by (simp add: q)
qed

section \<open>Trees of paths\<close>

definition tree :: "mpath \<Rightarrow> mtables \<Rightarrow> bool" where
  "tree p ms \<longleftrightarrow> distinct (map fst ms) \<and> (\<forall>q \<in> fst ` set ms. \<exists>r. q = p @ r \<and> list_all plain_name r)"

lemma tree_paths: "tree p ms \<Longrightarrow> x \<in> set ms \<Longrightarrow> \<exists>r. fst x = p @ r \<and> list_all plain_name r"
  by (auto simp: tree_def)

lemma tree_distinct: "tree p ms \<Longrightarrow> distinct (map fst ms)"
  by (simp add: tree_def)

text \<open>Submodules with distinct plain names, each a tree below its own name.\<close>

fun subtrees :: "mpath \<Rightarrow> string list \<Rightarrow> mtables list \<Rightarrow> bool" where
  "subtrees p [] subs = (subs = [])"
| "subtrees p (nm # nms) subs = (\<exists>ms subs'. subs = ms # subs' \<and> nm \<notin> set nms \<and> plain_name nm \<and> tree (p @ [nm]) ms \<and> subtrees p nms subs')"

lemma subtrees_paths:
  "subtrees p nms subs \<Longrightarrow> x \<in> set (concat subs) \<Longrightarrow> \<exists>nm r. nm \<in> set nms \<and> fst x = p @ nm # r \<and> list_all plain_name (nm # r)"
proof (induction nms arbitrary: subs)
  case (Cons nm nms)
  then obtain ms subs' where s: "subs = ms # subs'" "plain_name nm" "tree (p @ [nm]) ms" "subtrees p nms subs'" by auto
  show ?case
  proof (cases "x \<in> set ms")
    case True
    from tree_paths [OF s(3) this] obtain r where "fst x = (p @ [nm]) @ r" "list_all plain_name r" by blast
    with s(2) show ?thesis by (intro exI [of _ nm] exI [of _ r]) simp
  next
    case False
    then have "x \<in> set (concat subs')" using Cons.prems(2) s(1) by simp
    from Cons.IH [OF s(4) this] show ?thesis by (metis list.set_intros(2))
  qed
qed simp

lemma subtrees_distinct: "subtrees p nms subs \<Longrightarrow> distinct (map fst (concat subs))"
proof (induction nms arbitrary: subs)
  case (Cons nm nms)
  then obtain ms subs' where s: "subs = ms # subs'" "nm \<notin> set nms" "plain_name nm" "tree (p @ [nm]) ms" "subtrees p nms subs'" by auto
  have "fst x \<noteq> fst y" if "x \<in> set ms" "y \<in> set (concat subs')" for x y
    using tree_paths [OF s(4) that(1)] subtrees_paths [OF s(5) that(2)] s(2) by auto
  then have "fst ` set ms \<inter> fst ` set (concat subs') = {}" by blast
  then show ?case using Cons.IH [OF s(5)] tree_distinct [OF s(4)] s(1) by simp
qed simp

lemma tree_node:
  assumes "subtrees p nms subs"
  shows "tree p (module_node p tbl subs)"
proof -
  have paths: "\<exists>nm r. fst x = p @ nm # r \<and> list_all plain_name (nm # r)" if "x \<in> set (concat subs)" for x
    using subtrees_paths [OF assms that] by blast
  have "p \<notin> fst ` set (concat subs)" using paths by fastforce
  moreover have "\<exists>r. fst x = p @ r \<and> list_all plain_name r" if "x \<in> set (concat subs)" for x using paths [OF that] by metis
  ultimately show ?thesis using subtrees_distinct [OF assms] by (auto simp: tree_def module_node_def)
qed

lemma tree_leaf: "tree p (module_node p tbl [])"
  by (rule tree_node [of p "[]"]) simp

lemma subtrees_append:
  "subtrees p xs as \<Longrightarrow> subtrees p ys bs \<Longrightarrow> set xs \<inter> set ys = {} \<Longrightarrow> subtrees p (xs @ ys) (as @ bs)"
  by (induction xs arbitrary: as) auto

lemma subtrees_ctor_all:
  assumes "list_all2 (\<lambda>i ms. f i = Inr ms) is mss" "distinct is" "inj_on nm (set is)" "\<And>i. i \<in> set is \<Longrightarrow> plain_name (nm i)"
    and "\<And>i ms. i \<in> set is \<Longrightarrow> f i = Inr ms \<Longrightarrow> tree (p @ [nm i]) ms"
  shows "subtrees p (map nm is) mss"
  using assms
proof (induction rule: list_all2_induct)
  case (Cons i "is" ms mss)
  have "nm i \<notin> set (map nm is)" using Cons.prems(1,2) by (auto simp: inj_on_def)
  then show ?case using Cons by (simp add: inj_on_def)
qed simp

section \<open>The trees of the constructors\<close>

named_theorems trees \<open>constructors give trees below the path of their module\<close>

lemma tree_leaves [trees]:
  "tree p (Linear_ctor e k n p)" "tree p (BatchedLinear_ctor e g k n pl p)" "tree p (LayerNorm_ctor e k p)"
  "tree p (Residual_ctor e p)" "tree p (AllReduce_ctor e p)" "tree p (MoEScatter_ctor e p)" "tree p (MoEGather_ctor e p)"
  "tree p (Sync_Set_ctor e p)" "tree p (GateUpdate_ctor e p)" "tree p (Route_ctor e p)" "tree p (AttentionSplit_ctor e p)"
  "tree p (AttentionMerge_ctor e p)" "tree p (SelfAttentionSum_ctor e a p)" "tree p (SelfAttentionGen_ctor e a p)"
  "tree p (MultiLatentAttentionSum_ctor e a p)" "tree p (MultiLatentAttentionGen_ctor e a p)"
  "tree p (AbsorbMLASum_ctor e a pn p)" "tree p (AbsorbMLAGen_ctor e a pn p)" "tree p (Activation_ctor e p)"
  "tree p (RoPE_ctor e p)" "tree p (CompressedKVRestore_ctor e a p)" "tree p (Embedding_ctor e p)" "tree p (LmHead_ctor e p)"
  by (simp_all add: Linear_ctor_def BatchedLinear_ctor_def LayerNorm_ctor_def Residual_ctor_def AllReduce_ctor_def
      MoEScatter_ctor_def MoEGather_ctor_def Sync_Set_ctor_def GateUpdate_ctor_def Route_ctor_def AttentionSplit_ctor_def
      AttentionMerge_ctor_def SelfAttentionSum_ctor_def SelfAttentionGen_ctor_def MultiLatentAttentionSum_ctor_def
      MultiLatentAttentionGen_ctor_def AbsorbMLASum_ctor_def AbsorbMLAGen_ctor_def Activation_ctor_def RoPE_ctor_def
      CompressedKVRestore_ctor_def Embedding_ctor_def LmHead_ctor_def Let_def tree_leaf)

lemma tree_Sync [trees]: "tree p (Sync_ctor e p)"
  unfolding Sync_ctor_def by (rule tree_node [of p "[''sync__set'', ''sync__'']"]) (simp add: trees tree_leaf)

lemma tree_parallel [trees]:
  "ColumnParallelLinear_ctor e k n dl p = Inr ms \<Longrightarrow> tree p ms" "RowParallelLinear_ctor e k n dl p = Inr ms \<Longrightarrow> tree p ms"
  by (auto simp: ColumnParallelLinear_ctor_def RowParallelLinear_ctor_def rbind_eq_Inr trees intro!: tree_node [of _ "[''Linear'']"])

lemma tree_batched_parallel [trees]:
  "BatchedColumnParallelLinear_ctor e k n h pl dl p = Inr ms \<Longrightarrow> tree p ms"
  "BatchedRowParallelLinear_ctor e k n h pl dl p = Inr ms \<Longrightarrow> tree p ms"
  by (auto simp: BatchedColumnParallelLinear_ctor_def BatchedRowParallelLinear_ctor_def rbind_eq_Inr trees
      intro!: tree_node [of _ "[''Batched_Linear'']"])

lemma tree_attention_parallel [trees]:
  "SelfAttentionParallel_ctor e a dl p = Inr ms \<Longrightarrow> tree p ms" "MultiLatentAttentionParallel_ctor e a dl p = Inr ms \<Longrightarrow> tree p ms"
  "AbsorbMLAParallel_ctor e a dl p = Inr ms \<Longrightarrow> tree p ms"
  by (auto simp: SelfAttentionParallel_ctor_def MultiLatentAttentionParallel_ctor_def AbsorbMLAParallel_ctor_def rbind_eq_Inr
      Let_def trees intro!: tree_node [of _ "[''AttentionSplit'', ''AttentionSum'', ''AttentionGen'', ''AttentionMerge'']"])

lemma tree_Attention [trees]: "Attention_ctor e dl p = Inr ms \<Longrightarrow> tree p ms"
  by (auto simp: Attention_ctor_def rbind_eq_Inr Let_def trees
      intro!: tree_node [of _ "[''attn_qkv_proj'', ''self_attention'', ''attn_o_proj'', ''all_reduce'']"])

lemma subtrees_latent: "subtrees p [''attn_q_down_proj'', ''attn_kv_down_proj'', ''attn_kr_proj'', ''k_rope'', ''latent_q_layer_norm'',
    ''latent_kv_layer_norm''] (latent_projections e p)"
  by (simp add: latent_projections_def Let_def trees)

lemma tree_absorbed [trees]: "absorbed_ctor e dl p = Inr ms \<Longrightarrow> tree p ms"
  by (auto simp: absorbed_ctor_def rbind_eq_Inr Let_def trees intro!: tree_node subtrees_append [OF subtrees_latent,
      where ys = "[''attn_q_up_proj'', ''attn_qr_proj'', ''q_rope'', ''attn_tr_k_up_proj'', ''attn_mla_absorbed'',
        ''attn_v_up_proj'', ''attn_o_proj'', ''all_reduce'']"])

lemma tree_baseline [trees]: "baseline_ctor e dl p = Inr ms \<Longrightarrow> tree p ms"
  by (auto simp: baseline_ctor_def rbind_eq_Inr Let_def trees intro!: tree_node subtrees_append [OF subtrees_latent,
      where ys = "[''attn_q_up_proj'', ''attn_qr_proj'', ''q_rope'', ''c_kv_restore'', ''attn_kv_up_proj'',
        ''multi_latent_attention'', ''attn_o_proj'', ''all_reduce'']"])

lemma tree_attention_block [trees]: "attention_block_ctor e dl p = Inr ms \<Longrightarrow> tree p ms"
  by (auto simp: attention_block_ctor_def MultiLatentAttention_ctor_def trees split: if_splits)

lemma tree_FeedForward2Way [trees]: "FeedForward2Way_ctor e ar ex dl p = Inr ms \<Longrightarrow> tree p ms"
  by (auto simp: FeedForward2Way_ctor_def rbind_eq_Inr Let_def trees
      intro!: tree_node [of _ "[''ffn_up_proj'', ''activation'', ''ffn_down_proj''] @ (if ar then [''all_reduce''] else [])"])

lemma tree_FeedForward3Way [trees]: "FeedForward3Way_ctor e ar ex dp dl p = Inr ms \<Longrightarrow> tree p ms"
  by (cases dp) (auto simp: FeedForward3Way_ctor_def rbind_eq_Inr Let_def trees
      intro!: tree_node [of _ "[''gate_proj'', ''activation'', ''down_proj'', ''up_proj''] @ (if ar then [''all_reduce''] else [])"])

lemma tree_expert_ffn [trees]: "expert_ffn_ctor e dp dl p = Inr ms \<Longrightarrow> tree p ms"
  by (auto simp: expert_ffn_ctor_def trees tree_def [of p "[]"] split: if_splits)

lemma expert_names:
  "inj_on expert_name S" "inj_on shared_name S" "plain_name (expert_name i)" "plain_name (shared_name i)"
  by (auto simp: expert_name_def shared_name_def inj_on_def)

lemma subtrees_syncs: "subtrees p sync_names (map (\<lambda>nm. Sync_ctor e (p @ [nm])) sync_names)"
  by (simp add: sync_names_def trees)

lemma tree_ExpertFFN [trees]:
  assumes "ExpertFFN_ctor e dl p = Inr ms"
  shows "tree p ms"
proof -
  let ?M = "me_model e" and ?ndl = "non_moe_list e"
  let ?rest = "[AllReduce_ctor e (p @ [''moe_all_reduce_for_e_tp'']), MoEGather_ctor e (p @ [''moe_gather'']),
         AllReduce_ctor e (p @ [''moe_all_reduce_for_gather''])]"
  obtain gate_fn experts shared where c: "ColumnParallelLinear_ctor e (hidden_dim ?M) (num_routed_expert ?M) [me_rank e] (p @ [''gate_fn'']) = Inr gate_fn"
    "ctor_all (\<lambda>i. expert_ffn_ctor e False (expert_list e) (p @ [expert_name i])) (expert_ids e dl) = Inr experts"
    "ctor_all (\<lambda>i. expert_ffn_ctor e True ?ndl (p @ [shared_name i])) (irange 0 (num_shared_expert ?M)) = Inr shared"
    and ms: "ms = module_node p [] ([gate_fn, GateUpdate_ctor e (p @ [''gate_update'']), MoEScatter_ctor e (p @ [''moe_scatter'']),
          Route_ctor e (p @ [''moe_route''])] @ experts @ shared @ ?rest @ map (\<lambda>nm. Sync_ctor e (p @ [nm])) sync_names)"
    using assms by (auto simp: ExpertFFN_ctor_def Let_def rbind_eq_Inr simp del: map_append)
  have first: "subtrees p [''gate_fn'', ''gate_update'', ''moe_scatter'', ''moe_route''] [gate_fn, GateUpdate_ctor e (p @ [''gate_update'']),
      MoEScatter_ctor e (p @ [''moe_scatter'']), Route_ctor e (p @ [''moe_route''])]"
    using c(1) by (simp add: trees)
  have experts: "subtrees p (map expert_name (expert_ids e dl)) experts"
    by (rule subtrees_ctor_all [OF ctor_all_facts [OF c(2)]]) (auto simp: expert_ids_def distinct_irange expert_names trees)
  have shared: "subtrees p (map shared_name (irange 0 (num_shared_expert ?M))) shared"
    by (rule subtrees_ctor_all [OF ctor_all_facts [OF c(3)]]) (auto simp: distinct_irange expert_names trees)
  have rest: "subtrees p [''moe_all_reduce_for_e_tp'', ''moe_gather'', ''moe_all_reduce_for_gather''] ?rest" by (simp add: trees)
  show ?thesis unfolding ms
    by (rule tree_node, rule subtrees_append [OF first subtrees_append [OF experts subtrees_append [OF shared
        subtrees_append [OF rest subtrees_syncs]]]]) (auto simp: expert_name_def shared_name_def sync_names_def)
qed

section \<open>Decoders and the model\<close>

lemma tree_Decoder [trees]:
  assumes "Decoder_ctor e dl p = Inr ms"
  shows "tree p ms"
proof -
  let ?M = "me_model e" and ?ndl = "non_moe_list e"
  let ?front = "\<lambda>atn. [LayerNorm_ctor e (hidden_dim ?M) (p @ [''input_layer_norm'']), atn, Residual_ctor e (p @ [''residual_1'']),
        LayerNorm_ctor e (hidden_dim ?M) (p @ [''post_attn_layer_norm''])]"
  let ?rest = "[AllReduce_ctor e (p @ [''all_reduce'']), Residual_ctor e (p @ [''residual_2''])]"
  obtain atn ff where c: "attention_block_ctor e ?ndl (p @ [''attention'']) = Inr atn" "decoder_ffn_ctor e ?ndl (p @ [''feedforward'']) = Inr ff"
    and ms: "ms = module_node p [] (?front atn @ ff @ ?rest)"
    using assms by (auto simp: Decoder_ctor_def Let_def rbind_eq_Inr)
  have front: "subtrees p [''input_layer_norm'', ''attention'', ''residual_1'', ''post_attn_layer_norm''] (?front atn)"
    using c(1) by (simp add: trees)
  have ffn: "subtrees p (if ff = [] then [] else [''feedforward'']) ff"
    using c(2) by (auto simp: decoder_ffn_ctor_def rbind_eq_Inr trees split: if_splits)
  have rest: "subtrees p [''all_reduce'', ''residual_2''] ?rest" by (simp add: trees)
  show ?thesis unfolding ms by (rule tree_node, rule subtrees_append [OF front subtrees_append [OF ffn rest]]) auto
qed

lemma tree_MoEDecoder [trees]: "MoEDecoder_ctor e dl p = Inr ms \<Longrightarrow> tree p ms"
  by (auto simp: MoEDecoder_ctor_def Let_def rbind_eq_Inr trees
      intro!: tree_node [of _ "[''input_layer_norm'', ''attention'', ''residual_1'', ''post_attn_layer_norm'', ''expertFFN'', ''residual_2'']"])

lemma tree_layer [trees]: "layer_ctor e dl p l = Inr ms \<Longrightarrow> tree (p @ [fst l]) ms"
  by (auto simp: layer_ctor_def trees split: if_splits)

lemma layer_names_facts:
  "distinct (map fst (llm_layers m))" "l \<in> set (llm_layers m) \<Longrightarrow> plain_name (fst l)"
  "''Embedding_layer'' \<notin> fst ` set (llm_layers m)" "''lm_head'' \<notin> fst ` set (llm_layers m)"
  by (auto simp: llm_layers_def dense_layer_def moe_layer_def distinct_map distinct_irange inj_on_def split: if_splits)

lemma tree_LLM:
  assumes "LLM_ctor e n p = Inr ms"
  shows "tree p ms"
proof -
  let ?M = "me_model e" and ?dl = "set_device_list 0 n"
  let ?emb = "[Embedding_ctor e (p @ [''Embedding_layer''])]" and ?head = "[LmHead_ctor e (p @ [''lm_head''])]"
  obtain layers where c: "ctor_all (layer_ctor e ?dl p) (llm_layers ?M) = Inr layers" and ms: "ms = module_node p [] (?emb @ layers @ ?head)"
    using assms by (auto simp: LLM_ctor_def Let_def rbind_eq_Inr)
  have layers: "subtrees p (map fst (llm_layers ?M)) layers"
    by (rule subtrees_ctor_all [OF ctor_all_facts [OF c]]) (use layer_names_facts in \<open>auto simp: distinct_map trees\<close>)
  have ends: "subtrees p [''Embedding_layer''] ?emb" "subtrees p [''lm_head''] ?head" by (simp_all add: trees)
  show ?thesis unfolding ms
    by (rule tree_node, rule subtrees_append [OF ends(1) subtrees_append [OF layers ends(2)]]) (use layer_names_facts in auto)
qed

text \<open>The cluster accepts every module of a model.\<close>

lemma register_names_distinct:
  assumes "distinct nms"
  shows "\<exists>tbl. register_names nms = Inr tbl \<and> dom tbl = set nms"
proof -
  have loop: "\<exists>tbl'. rfold (\<lambda>nm tbl. if tbl nm = None then Inr (tbl(nm \<mapsto> ())) else fail ''Cluster::add_module, same module name'') nms tbl =
      Inr tbl' \<and> dom tbl' = dom tbl \<union> set nms" if "set nms \<inter> dom tbl = {}" for tbl :: "string \<rightharpoonup> unit"
    using assms that
  proof (induction nms arbitrary: tbl)
    case (Cons nm nms)
    have "set nms \<inter> dom (tbl(nm \<mapsto> ())) = {}" using Cons.prems by auto
    moreover have "tbl nm = None" "distinct nms" using Cons.prems by auto
    ultimately obtain tbl' where "rfold (\<lambda>nm tbl. if tbl nm = None then Inr (tbl(nm \<mapsto> ())) else fail ''Cluster::add_module, same module name'')
        nms (tbl(nm \<mapsto> ())) = Inr tbl'" "dom tbl' = dom (tbl(nm \<mapsto> ())) \<union> set nms" using Cons.IH by blast
    then show ?case using \<open>tbl nm = None\<close> by (auto simp del: fun_upd_apply)
  qed simp
  from loop [of Map.empty] show ?thesis by (simp add: register_names_def)
qed

lemma tree_names_distinct:
  assumes "tree p ms" "list_all plain_name p"
  shows "distinct (map (\<lambda>x. module_map_name (fst x)) ms)"
proof -
  have plain: "list_all plain_name q" if "q \<in> set (map fst ms)" for q
    using that assms by (force simp: tree_def)
  have "inj_on module_map_name (set (map fst ms))" by (rule inj_onI) (rule module_map_name_inject, simp_all add: plain del: set_map)
  then have "distinct (map module_map_name (map fst ms))" using tree_distinct [OF assms(1)] by (subst distinct_map) simp
  then show ?thesis by (simp add: comp_def)
qed

end
