(* ===== verification/Build_Device.thy ===== *)
theory Build_Device
  imports Build_Model Build_Names
begin

text \<open>
  Building the model on the devices: allocation keeps what the tables offer, the largest batch of the
  scheduler exists, the names of the modules are new, and the call that records the graph returns.
\<close>

section \<open>The tables after allocation\<close>

lemma alloc_table_offers: "alloc_table ctl tbl = (ctl', tbl') \<Longrightarrow> offers tbl tbl'"
proof (induction tbl arbitrary: ctl ctl' tbl')
  case (Cons x tbl)
  obtain nm t where x: "x = (nm, t)" by (cases x)
  obtain c1 t1 where s: "ctl_setMemoryObject ctl t = (c1, t1)" by (cases "ctl_setMemoryObject ctl t")
  obtain c2 tbl2 where r: "alloc_table c1 tbl = (c2, tbl2)" by (cases "alloc_table c1 tbl")
  have eq: "tbl' = (nm, t1) # tbl2" using Cons.prems by (simp add: x s r)
  have same: "is_weight t1 = is_weight t" "t_device t1 = t_device t" "t_mmap t1 = t_mmap t" "t_tag t1 = t_tag t" "t_shape t1 = t_shape t"
    using s by (auto simp: ctl_setMemoryObject_def setNormal_def Let_def is_weight_def split: if_splits prod.splits)
  show ?case using Cons.IH [OF r] by (auto simp: eq x same offers_def act_in_def weight_in_def)
qed simp

lemma alloc_tables_offers:
  "alloc_tables ctl ms = (ctl', ms') \<Longrightarrow> list_all2 (\<lambda>x y. fst y = fst x \<and> offers (snd x) (snd y)) ms ms'"
proof (induction ms arbitrary: ctl ctl' ms')
  case (Cons x ms)
  obtain p tbl where x: "x = (p, tbl)" by (cases x)
  obtain c1 tbl1 where s: "alloc_table ctl tbl = (c1, tbl1)" by (cases "alloc_table ctl tbl")
  obtain c2 ms2 where r: "alloc_tables c1 ms = (c2, ms2)" by (cases "alloc_tables c1 ms")
  show ?case using Cons.prems Cons.IH [OF r] alloc_table_offers [OF s] by (auto simp: x s r)
qed simp

lemma map_of_offers:
  assumes "list_all2 (\<lambda>x y. fst y = fst x \<and> offers (snd x) (snd y)) ms ms'" "distinct (map fst ms)" "x \<in> set ms"
  shows "\<exists>tbl. map_of ms' (fst x) = Some tbl \<and> offers (snd x) tbl"
  using assms
proof (induction rule: list_all2_induct)
  case (Cons y ys z zs)
  then show ?case by (cases z) (auto simp: image_iff)
qed simp

section \<open>The largest batch\<close>

text \<open>A sequence of the largest batch: a prompt of full length.\<close>

definition full_prompt :: "int \<Rightarrow> int \<Rightarrow> sequence" where
  "full_prompt cid n = \<lparr>sq_id = cid, sq_expert_seq_id = n, sq_input_len = n, sq_output_len = 256, sq_total_len = n + 256 - 1,
     sq_num_process_token = n, sq_current_len = 0, sq_num_sum_iter = 0, sq_gen_start_time = 0, sq_arrival_time = 0,
     sq_first_token_time = 0, sq_end_token_time = 0, sq_queueing_delay = 0, sq_record = False, sq_sum_stage = True,
     sq_get_expert_from_list = True\<rparr>"

lemma max_loop:
  assumes "0 < n"
  shows "rfold (\<lambda>_ (count_id, b). rbind (Sequence_Create count_id n n 256) (\<lambda>(q, count_id).
      Inr (count_id, bs_add (q\<lparr>sq_num_process_token := n\<rparr>) b))) is (cid, b) =
    Inr (cid + int (length is), b\<lparr>bs_sequence := bs_sequence b @ map (\<lambda>i. full_prompt (cid + int i) n) [0..<length is]\<rparr>)"
proof (induction "is" arbitrary: cid b)
  case (Cons i "is")
  have step: "rbind (Sequence_Create cid n n 256) (\<lambda>(q, count_id). Inr (count_id, bs_add (q\<lparr>sq_num_process_token := n\<rparr>) b)) =
      Inr (cid + 1, b\<lparr>bs_sequence := bs_sequence b @ [full_prompt cid n]\<rparr>)"
    using assms by (simp add: Sequence_Create_def bs_add_def full_prompt_def)
  have seqs: "map (\<lambda>i. full_prompt (cid + int i) n) [0..<length (i # is)] =
      full_prompt cid n # map (\<lambda>i. full_prompt (cid + 1 + int i) n) [0..<length is]"
    by (simp add: upt_conv_Cons map_Suc_upt [symmetric] comp_def add.assoc del: upt_Suc)
  show ?case unfolding rfold.simps prod.case step rbind_simps Cons.IH seqs by simp
qed simp

lemma getMaxMetadata_returns:
  assumes "0 < cdiv (sch_num_max_batched_token sch) (sch_batch_size_per_dp sch)"
  shows "\<exists>b sch'. getMaxMetadata num_expert k sch = Inr (b, sch') \<and> length (bs_num_token_in_expert b) = nat num_expert \<and>
    get_gen b = [] \<and> get_process_token b =
      max 0 (sch_batch_size_per_dp sch) * cdiv (sch_num_max_batched_token sch) (sch_batch_size_per_dp sch) \<and>
    sch' = sch\<lparr>sch_count_id := sch_count_id sch'\<rparr>"
proof -
  let ?n = "cdiv (sch_num_max_batched_token sch) (sch_batch_size_per_dp sch)"
  define qs where "qs = map (\<lambda>i. full_prompt (sch_count_id sch + int i) ?n) [0..<nat (sch_batch_size_per_dp sch)]"
  define b' where "b' = (BatchedSequence_Create num_expert k)\<lparr>bs_sequence := qs\<rparr>"
  have l: "rfold (\<lambda>_ (count_id, b). rbind (Sequence_Create count_id ?n ?n 256) (\<lambda>(q, count_id).
      Inr (count_id, bs_add (q\<lparr>sq_num_process_token := ?n\<rparr>) b))) (irange 0 (sch_batch_size_per_dp sch))
      (sch_count_id sch, BatchedSequence_Create num_expert k) = Inr (sch_count_id sch + int (nat (sch_batch_size_per_dp sch)), b')"
    using max_loop [OF assms, of "irange 0 (sch_batch_size_per_dp sch)" "sch_count_id sch" "BatchedSequence_Create num_expert k"]
    by (simp add: b'_def qs_def BatchedSequence_Create_def)
  have b: "bs_num_token_in_expert b' = replicate (nat num_expert) 0" "bs_sequence b' = qs"
      "length qs = nat (sch_batch_size_per_dp sch)" "\<forall>q \<in> set qs. sq_num_process_token q = ?n \<and> \<not> is_gen q"
    using assms by (auto simp: b'_def qs_def BatchedSequence_Create_def full_prompt_def is_sum_def)
  have "map sq_num_process_token qs = replicate (length qs) ?n" using b(4) by (induction qs) auto
  then have "sum_list (map sq_num_process_token qs) = int (length qs) * ?n" by (simp add: sum_list_replicate)
  then have tok: "get_process_token b' = max 0 (sch_batch_size_per_dp sch) * ?n"
    using b(2,3) by (simp add: get_process_token_def sum_tokens_sum_list)
  show ?thesis using b tok by (auto simp: getMaxMetadata_def Let_def l get_gen_def filter_empty_conv)
qed

section \<open>Building one device\<close>

definition max_tokens :: "scheduler \<Rightarrow> int" where
  "max_tokens sch = sch_batch_size_per_dp sch * cdiv (sch_num_max_batched_token sch) (sch_batch_size_per_dp sch)"

text \<open>The call of the top module records one call tree.\<close>

lemma invoke_once:
  assumes "yields (p @ [nm]) (st\<lparr>ms_graph := ms_graph st @ [Push (p @ [nm])]\<rparr>)
      (f (p @ [nm]) x (st\<lparr>ms_graph := ms_graph st @ [Push (p @ [nm])]\<rparr>)) Q"
  shows "\<exists>y st' c. invoke p nm f x st = Inr (y, st') \<and> kept st st' \<and> Q y \<and> called c = p @ [nm] \<and> nested_in p c \<and>
    ms_graph st' = ms_graph st @ events c"
proof -
  obtain y st' cs where "f (p @ [nm]) x (st\<lparr>ms_graph := ms_graph st @ [Push (p @ [nm])]\<rparr>) = Inr (y, st')" "kept st st'" "Q y"
    "list_all (nested_in (p @ [nm])) cs" "ms_graph st' = ms_graph st @ [Push (p @ [nm])] @ concat (map events cs)"
    using assms by (auto simp: yields_def records_def)
  then show ?thesis
    by (intro exI [of _ y] exI [of _ "st'\<lparr>ms_graph := ms_graph st' @ [Pop]\<rparr>"] exI [of _ "Called (p @ [nm]) cs"])
      (simp add: invoke_def)
qed

lemma build_device_facts:
  assumes "LLM_ctor e n [''LLM''] = Inr ms" "model_fit e n" "\<not> dv_perform_execution d"
    "0 < sch_batch_size_per_dp sch" "0 < cdiv (sch_num_max_batched_token sch) (sch_batch_size_per_dp sch)"
  shows "\<exists>y st sch'. build_device e n sch ctl d = Inr (y, st, sch') \<and> t_shape y = [max_tokens sch, n_vocab (me_model e)] \<and>
    fst ` set ms \<subseteq> dom (ms_modules st) \<and> dv_status (ms_device st) = StatusBoard_ctor \<and>
    sch' = sch\<lparr>sch_count_id := sch_count_id sch'\<rparr> \<and>
    (\<exists>c. called c = [''LLM''] \<and> nested_in [] c \<and> ms_graph st = events c)"
proof -
  have tree: "tree [''LLM''] ms" by (rule tree_LLM [OF assms(1)])
  obtain names where names: "register_names (map (\<lambda>x. module_map_name (fst x)) ms) = Inr names"
    using register_names_distinct [OF tree_names_distinct [OF tree]] by auto
  obtain ctl1 ms1 where alloc: "alloc_tables ctl ms = (ctl1, ms1)" by (cases "alloc_tables ctl ms")
  obtain b sch1 where b: "getMaxMetadata (num_routed_expert (me_model e)) (top_k (me_model e)) sch = Inr (b, sch1)"
    "length (bs_num_token_in_expert b) = nat (num_routed_expert (me_model e))" "get_gen b = []" "get_process_token b = max_tokens sch"
    "sch1 = sch\<lparr>sch_count_id := sch_count_id sch1\<rparr>"
    using getMaxMetadata_returns [OF assms(5), of "num_routed_expert (me_model e)" "top_k (me_model e)"] assms(4) by (auto simp: max_tokens_def)
  obtain ctl2 input where inp: "Tensor_Create ctl1 ''EmbeddingVector'' [1, n_vocab (sch_model_config sch1)] ''act'' (Some (nat (me_rank e)))
       (precision_byte (sch_model_config sch1)) ALL_CHANNEL = Inr (ctl2, input)"
    by (auto simp: Tensor_Create_def tensor_setMemoryObject_def Tensor_ctor_def assertFalse_def ctl_setMemoryObject_def setNormal_def Let_def)
  let ?st = "\<lparr>ms_ctl = ctl2, ms_modules = map_of ms1, ms_device = d, ms_scheduler = None, ms_batch = b, ms_graph = []\<rparr>"
  let ?st' = "?st\<lparr>ms_graph := [Push [''LLM'']]\<rparr>"
  have "has_table ?st (fst x) (snd x)" if "x \<in> set ms" for x
    using map_of_offers [OF alloc_tables_offers [OF alloc] tree_distinct [OF tree] that] by (simp add: has_table_def)
  then have ready: "ready b ms ?st" using assms(3) by (simp add: ready_def)
  have ready': "ready b ms ?st'" using ready_graph [of b ms "[Push [''LLM'']]" ?st] ready by simp
  have fits: "batch_fit e b" using assms(2) b(2,3) by (simp add: batch_fit_def model_fit_def fit_def Let_def)
  have "yields ([] @ [''LLM'']) (?st\<lparr>ms_graph := ms_graph ?st @ [Push ([] @ [''LLM''])]\<rparr>)
      (LLM_forward e n ([] @ [''LLM'']) input (?st\<lparr>ms_graph := ms_graph ?st @ [Push ([] @ [''LLM''])]\<rparr>))
      (\<lambda>y. t_shape y = [max_tokens sch, n_vocab (me_model e)])"
    using LLM_yields [OF assms(1) ready' assms(2) fits] b(4) by simp
  from invoke_once [where p = "[]" and nm = "''LLM''" and st = ?st and f = "LLM_forward e n" and x = input, OF this] obtain y st c where r: "invoke [] ''LLM'' (LLM_forward e n) input ?st = Inr (y, st)" "kept ?st st"
    "t_shape y = [max_tokens sch, n_vocab (me_model e)]" and c: "called c = [''LLM'']" "nested_in [] c" "ms_graph st = events c"
    by auto
  have doms: "fst ` set ms \<subseteq> dom (ms_modules st)"
    using ready_kept [OF ready r(2)] by (auto simp: ready_def has_table_def)
  show ?thesis using r(1,3) doms b(5) c
    by (auto simp add: build_device_def assms(1) names alloc model_distribute_def b(1) inp reset_status_def)
qed

end
