(* ===== verification/Time_Board.thy ===== *)
theory Time_Board
  imports Exec_Status "HOL-Library.Sublist"
begin

text \<open>
  The trace of a device: \<^verbatim>\<open>TimeStamp\<close> and \<^verbatim>\<open>TimeBoard\<close> of
  \<^verbatim>\<open>src/module/timeboard.h\<close> and \<^verbatim>\<open>timeboard.cpp\<close>. The
  stamps form a tree; the pointer \<^verbatim>\<open>current_stamp\<close> into it is the path of child
  indices from \<^verbatim>\<open>top\<close>, and \<open>None\<close> is the null pointer that popping
  \<^verbatim>\<open>top\<close> leaves.
\<close>

section \<open>Stamps\<close>

datatype stamp = Stamp
  (ts_name: string)
  (ts_level: int)
  (ts_status: status_board)
  (ts_leaf: "stamp list")

type_synonym shape_store = "nat \<rightharpoonup> int list"

definition shape_of :: "shape_store \<Rightarrow> nat option \<Rightarrow> int list res" where
  "shape_of store ptr =
     (case ptr of None \<Rightarrow> Inl NullPointer
      | Some k \<Rightarrow> (case store k of None \<Rightarrow> Inl NullPointer | Some shp \<Rightarrow> Inr shp))"

definition shapes_of :: "shape_store \<Rightarrow> nat list \<Rightarrow> int list list res" where
  "shapes_of store ks = rfold (\<lambda>k acc. rbind (shape_of store (Some k)) (\<lambda>shp. Inr (acc @ [shp]))) ks []"

text \<open>
  \<^verbatim>\<open>TimeStamp::set_status\<close> in its three parts: the two time stamps, the shapes and
  the quantities of the layer, which are differences of the running totals.
\<close>

definition set_status_times :: "status_board \<Rightarrow> status_board \<Rightarrow> status_board" where
  "set_status_times out st =
     (let st = (if sb_parallel_execution out then
                  (if sb_processor_type out = GPU then
                     st\<lparr>sb_start_time := sb_high_time st, sb_end_time := sb_high_time out\<rparr>
                   else if sb_processor_type out = LOGIC \<or> sb_processor_type out = PIM then
                     st\<lparr>sb_start_time := sb_low_time st, sb_end_time := sb_low_time out\<rparr>
                   else st)
                else
                  (let st = st\<lparr>sb_start_time := sb_device_time st\<rparr> in
                   if sb_processor_type out = GPU then st\<lparr>sb_end_time := sb_high_time out\<rparr>
                   else if sb_processor_type out = LOGIC \<or> sb_processor_type out = PIM then
                     st\<lparr>sb_end_time := sb_low_time out\<rparr>
                   else st\<lparr>sb_end_time := sb_device_time out\<rparr>))
      in st\<lparr>sb_start_time := sb_device_time st, sb_end_time := sb_device_time out\<rparr>)"

definition set_status_shapes :: "shape_store \<Rightarrow> status_board \<Rightarrow> status_board \<Rightarrow> status_board res" where
  "set_status_shapes store out st =
     (if sb_isTensorVec st then
        rbind (shapes_of store (sb_tensor_vec st)) (\<lambda>ins.
        rbind (shapes_of store (sb_tensor_vec out)) (\<lambda>outs.
        Inr (st\<lparr>sb_input_tensor_vec_shape := sb_input_tensor_vec_shape st @ ins,
          sb_output_tensor_vec_shape := sb_output_tensor_vec_shape st @ outs\<rparr>)))
      else
        rbind (shape_of store (sb_tensor st)) (\<lambda>i.
        rbind (shape_of store (sb_tensor out)) (\<lambda>j.
        Inr (st\<lparr>sb_input_tensor_shape := i, sb_output_tensor_shape := j\<rparr>))))"

definition set_status_totals :: "status_board \<Rightarrow> status_board \<Rightarrow> status_board" where
  "set_status_totals out st =
     (let st = st\<lparr>
        sb_act_energy := sb_act_energy out - sb_act_energy st,
        sb_read_energy := sb_read_energy out - sb_read_energy st,
        sb_write_energy := sb_write_energy out - sb_write_energy st,
        sb_all_act_energy := sb_all_act_energy out - sb_all_act_energy st,
        sb_all_read_energy := sb_all_read_energy out - sb_all_read_energy st,
        sb_all_write_energy := sb_all_write_energy out - sb_all_write_energy st,
        sb_mac_energy := sb_mac_energy out - sb_mac_energy st,
        sb_memory_util := sb_memory_util out,
        sb_compute_util := sb_compute_util out,
        sb_processor_type := sb_processor_type out,
        sb_flops := sb_flops out - sb_flops st,
        sb_memory_size := sb_memory_size out - sb_memory_size st,
        sb_qk_duration := sb_qk_duration out - sb_qk_duration st,
        sb_softmax_duration := sb_softmax_duration out - sb_softmax_duration st,
        sb_score_v_duration := sb_score_v_duration out - sb_score_v_duration st,
        sb_kv_quant_duration := sb_kv_quant_duration out - sb_kv_quant_duration st,
        sb_pim_rb_duration := sb_pim_rb_duration out - sb_pim_rb_duration st,
        sb_pim_pe_duration := sb_pim_pe_duration out - sb_pim_pe_duration st,
        sb_pim_rb_qk := sb_pim_rb_qk out - sb_pim_rb_qk st,
        sb_pim_pe_qk := sb_pim_pe_qk out - sb_pim_pe_qk st,
        sb_pim_rb_sv := sb_pim_rb_sv out - sb_pim_rb_sv st,
        sb_pim_pe_sv := sb_pim_pe_sv out - sb_pim_pe_sv st\<rparr>
      in if sb_memory_size st \<noteq> 0 then st\<lparr>sb_opb := fdiv (sb_flops st) (sb_memory_size st)\<rparr> else st)"

definition set_status :: "shape_store \<Rightarrow> status_board \<Rightarrow> status_board \<Rightarrow> status_board res" where
  "set_status store out st =
     rbind (set_status_shapes store out (set_status_times out st)) (\<lambda>st. Inr (set_status_totals out st))"

definition get_duration :: "stamp \<Rightarrow> real" where
  "get_duration t = sb_end_time (ts_status t) - sb_start_time (ts_status t)"

definition sb_dram_energy :: "status_board \<Rightarrow> real" where
  "sb_dram_energy s = sb_act_energy s + sb_read_energy s + sb_write_energy s +
     sb_all_act_energy s + sb_all_read_energy s + sb_all_write_energy s"

definition getDramEnergy :: "stamp \<Rightarrow> real" where
  "getDramEnergy t = sb_dram_energy (ts_status t)"

definition getCompEnergy :: "stamp \<Rightarrow> real" where
  "getCompEnergy t = sb_mac_energy (ts_status t)"

definition getOpb :: "stamp \<Rightarrow> real" where
  "getOpb t = sb_opb (ts_status t)"

text \<open>\<^verbatim>\<open>name.find(pattern) != npos\<close> is \<open>sublist\<close>; a stamp that matches is not descended into.\<close>

fun find_stamp :: "string \<Rightarrow> stamp \<Rightarrow> stamp list" and
    find_stamp_list :: "string \<Rightarrow> stamp list \<Rightarrow> stamp list" where
  "find_stamp pat (Stamp nm lvl st leafs) =
     (if sublist pat nm then [Stamp nm lvl st leafs] else find_stamp_list pat leafs)"
| "find_stamp_list pat [] = []"
| "find_stamp_list pat (t # ts) = find_stamp pat t @ find_stamp_list pat ts"

text \<open>
  The lines \<^verbatim>\<open>TimeStamp::print\<close> writes, one per stamp below \<^verbatim>\<open>top\<close>,
  by indentation and name.
\<close>

fun print_lines :: "stamp \<Rightarrow> (nat \<times> string) list" and
    print_lines_list :: "stamp list \<Rightarrow> (nat \<times> string) list" where
  "print_lines (Stamp nm lvl st leafs) =
     (if lvl \<noteq> -1 then [(nat lvl, nm)] else []) @ print_lines_list leafs"
| "print_lines_list [] = []"
| "print_lines_list (t # ts) = print_lines t @ print_lines_list ts"

section \<open>The board\<close>

record time_board =
  tb_top :: stamp
  tb_current :: "nat list option"

definition TimeBoard_ctor :: time_board where
  "TimeBoard_ctor = \<lparr>tb_top = Stamp [] (-1) StatusBoard_ctor [], tb_current = Some []\<rparr>"

fun stamp_at :: "nat list \<Rightarrow> stamp \<Rightarrow> stamp option" where
  "stamp_at [] t = Some t"
| "stamp_at (i # p) t = (if i < length (ts_leaf t) then stamp_at p (ts_leaf t ! i) else None)"

fun stamp_update :: "(stamp \<Rightarrow> stamp) \<Rightarrow> nat list \<Rightarrow> stamp \<Rightarrow> stamp" where
  "stamp_update f [] t = f t"
| "stamp_update f (i # p) t =
     Stamp (ts_name t) (ts_level t) (ts_status t) ((ts_leaf t)[i := stamp_update f p (ts_leaf t ! i)])"

definition push_timestamp :: "status_board \<Rightarrow> string \<Rightarrow> time_board \<Rightarrow> time_board res" where
  "push_timestamp st nm tb =
     (case tb_current tb of
        None \<Rightarrow> fail ''No stamp in TimeBoard''
      | Some p \<Rightarrow>
          (case stamp_at p (tb_top tb) of
             None \<Rightarrow> Inl NullPointer
           | Some t \<Rightarrow>
               let new = Stamp nm (ts_level t + 1) st [] in
               Inr \<lparr>tb_top = stamp_update (\<lambda>t. Stamp (ts_name t) (ts_level t) (ts_status t) (ts_leaf t @ [new])) p (tb_top tb),
                 tb_current = Some (p @ [length (ts_leaf t)])\<rparr>))"

definition pop_timestamp :: "shape_store \<Rightarrow> status_board \<Rightarrow> time_board \<Rightarrow> time_board res" where
  "pop_timestamp store out tb =
     (case tb_current tb of
        None \<Rightarrow> Inl NullPointer
      | Some p \<Rightarrow>
          (case stamp_at p (tb_top tb) of
             None \<Rightarrow> Inl NullPointer
           | Some t \<Rightarrow>
               rbind (set_status store out (ts_status t)) (\<lambda>st.
               Inr \<lparr>tb_top = stamp_update (\<lambda>t. Stamp (ts_name t) (ts_level t) st (ts_leaf t)) p (tb_top tb),
                 tb_current = (if p = [] then None else Some (butlast p))\<rparr>)))"

definition reset_timeboard :: "time_board \<Rightarrow> time_board" where
  "reset_timeboard tb =
     \<lparr>tb_top = Stamp (ts_name (tb_top tb)) (ts_level (tb_top tb)) (ts_status (tb_top tb)) [],
       tb_current = Some []\<rparr>"

definition board_find_stamp :: "string \<Rightarrow> time_board \<Rightarrow> stamp list" where
  "board_find_stamp pat tb = find_stamp pat (tb_top tb)"

section \<open>What a stamp records\<close>

text \<open>The case distinction on processor and parallel flag is overwritten: the device times win.\<close>

lemma set_status_times_eq:
  "set_status_times out st = st\<lparr>sb_start_time := sb_device_time st, sb_end_time := sb_device_time out\<rparr>"
  unfolding set_status_times_def Let_def by (simp split: if_split)

lemma set_status_shapes_keeps:
  assumes "set_status_shapes store out st = Inr st'"
  shows "sb_start_time st' = sb_start_time st \<and> sb_end_time st' = sb_end_time st \<and>
    sb_dram_energy st' = sb_dram_energy st \<and> sb_mac_energy st' = sb_mac_energy st"
proof (cases "sb_isTensorVec st")
  case True
  with assms show ?thesis
    by (clarsimp simp only: set_status_shapes_def rbind_eq_Inr if_True sum.inject)
      (simp add: sb_dram_energy_def)
next
  case False
  with assms show ?thesis
    by (clarsimp simp only: set_status_shapes_def rbind_eq_Inr if_False sum.inject)
      (simp add: sb_dram_energy_def)
qed

lemma set_status_totals_fields [simp]:
  "sb_start_time (set_status_totals out st) = sb_start_time st"
  "sb_end_time (set_status_totals out st) = sb_end_time st"
  "sb_mac_energy (set_status_totals out st) = sb_mac_energy out - sb_mac_energy st"
  by (simp_all add: set_status_totals_def Let_def)

lemma set_status_totals_energy [simp]:
  "sb_dram_energy (set_status_totals out st) = sb_dram_energy out - sb_dram_energy st"
  by (simp add: set_status_totals_def Let_def sb_dram_energy_def)

text \<open>
  closing a stamp records in it exactly the device time that passed since it was opened,
  whatever the processor and the parallel flag, and the DRAM and compute energy spent meanwhile.
\<close>

theorem set_status_records_difference:
  assumes "set_status store out st = Inr st'"
  shows "get_duration (Stamp nm lvl st' leafs) = sb_device_time out - sb_device_time st \<and>
    getDramEnergy (Stamp nm lvl st' leafs) = sb_dram_energy out - sb_dram_energy st \<and>
    getCompEnergy (Stamp nm lvl st' leafs) = sb_mac_energy out - sb_mac_energy st"
proof -
  obtain st1 where st1: "set_status_shapes store out (set_status_times out st) = Inr st1"
    and st': "st' = set_status_totals out st1"
    using assms by (auto simp: set_status_def rbind_eq_Inr)
  show ?thesis
    using set_status_shapes_keeps [OF st1]
    by (simp add: st' get_duration_def getDramEnergy_def getCompEnergy_def set_status_times_eq)
      (simp add: sb_dram_energy_def)
qed

definition push_point :: status_board where
  "push_point = StatusBoard_ctor\<lparr>sb_device_time := 100, sb_act_energy := 2, sb_tensor := Some 0\<rparr>"

definition pop_point :: status_board where
  "pop_point = StatusBoard_ctor\<lparr>sb_device_time := 350, sb_act_energy := 7, sb_high_time := 900,
     sb_processor_type := GPU, sb_tensor := Some 1\<rparr>"

definition example_shapes :: shape_store where
  "example_shapes = [0 \<mapsto> [4, 8], 1 \<mapsto> [4, 16]]"

lemma set_status_example:
  "set_status example_shapes pop_point push_point = Inr (set_status_totals pop_point
     (push_point\<lparr>sb_start_time := 100, sb_end_time := 350, sb_input_tensor_shape := [4, 8],
       sb_output_tensor_shape := [4, 16]\<rparr>))"
  by (simp add: set_status_def set_status_times_eq set_status_shapes_def shape_of_def example_shapes_def
      push_point_def pop_point_def StatusBoard_ctor_def)

theorem set_status_records_difference_witness:
  "\<exists>st'. set_status example_shapes pop_point push_point = Inr st' \<and>
    get_duration (Stamp ''q'' 0 st' []) = sb_device_time pop_point - sb_device_time push_point \<and>
    getDramEnergy (Stamp ''q'' 0 st' []) = sb_dram_energy pop_point - sb_dram_energy push_point \<and>
    getCompEnergy (Stamp ''q'' 0 st' []) = sb_mac_energy pop_point - sb_mac_energy push_point"
  using set_status_records_difference [OF set_status_example] set_status_example by blast

section \<open>Well-bracketed traces\<close>

datatype trace_event = Push string status_board | Pop status_board

definition run_event :: "shape_store \<Rightarrow> trace_event \<Rightarrow> time_board \<Rightarrow> time_board res" where
  "run_event store e tb =
     (case e of Push nm st \<Rightarrow> push_timestamp st nm tb | Pop st \<Rightarrow> pop_timestamp store st tb)"

inductive bracketed :: "trace_event list \<Rightarrow> bool" where
  bracketed_Nil: "bracketed []"
| bracketed_Cons: "bracketed es \<Longrightarrow> bracketed fs \<Longrightarrow> bracketed (Push nm st # es @ Pop out # fs)"

lemma stamp_at_update:
  "stamp_at p t = Some u \<Longrightarrow> stamp_at (p @ q) (stamp_update f p t) = stamp_at q (f u)"
  by (induction p arbitrary: t) (auto split: if_splits)

lemma stamp_at_append:
  "stamp_at p t = Some u \<Longrightarrow> stamp_at (p @ q) t = stamp_at q u"
  by (induction p arbitrary: t) (auto split: if_splits)

lemma stamp_update_append:
  "stamp_at p t = Some u \<Longrightarrow> stamp_update f (p @ q) t = stamp_update (stamp_update f q) p t"
  by (induction p arbitrary: t) (auto split: if_splits)

lemma stamp_update_update:
  "stamp_at p t = Some u \<Longrightarrow> stamp_update g p (stamp_update f p t) = stamp_update (g \<circ> f) p t"
  by (induction p arbitrary: t) (auto split: if_splits)

lemma stamp_update_cong:
  "stamp_at p t = Some u \<Longrightarrow> f u = g u \<Longrightarrow> stamp_update f p t = stamp_update g p t"
  by (induction p arbitrary: t) (auto split: if_splits)

definition append_leafs :: "stamp list \<Rightarrow> stamp \<Rightarrow> stamp" where
  "append_leafs ls t = Stamp (ts_name t) (ts_level t) (ts_status t) (ts_leaf t @ ls)"

lemma stamp_update_id: "stamp_at p t = Some u \<Longrightarrow> f u = u \<Longrightarrow> stamp_update f p t = t"
proof (induction p arbitrary: t)
  case Nil
  then show ?case by simp
next
  case (Cons i p)
  then show ?case by (cases t) (auto split: if_splits)
qed

text \<open>
  The stamps a bracketed trace leaves below a stamp of level \<open>lvl\<close>: one per outermost
  bracket, named by the push, one level down, with the stamps of the events inside the bracket below
  it, and closed, that is with the status that \<^verbatim>\<open>set_status\<close> makes of the pushed and the popped
  one, which starts at the pushed device time and ends at the popped one.
\<close>

inductive closed_stamps :: "shape_store \<Rightarrow> int \<Rightarrow> trace_event list \<Rightarrow> stamp list \<Rightarrow> bool" for store where
  closed_Nil: "closed_stamps store lvl [] []"
| closed_Cons: "closed_stamps store (lvl + 1) es inner \<Longrightarrow> closed_stamps store lvl fs rest \<Longrightarrow>
    set_status store out st = Inr st' \<Longrightarrow>
    sb_start_time st' = sb_device_time st \<Longrightarrow> sb_end_time st' = sb_device_time out \<Longrightarrow>
    closed_stamps store lvl (Push nm st # es @ Pop out # fs) (Stamp nm (lvl + 1) st' inner # rest)"

lemma set_status_times_set:
  assumes "set_status store out st = Inr st'"
  shows "sb_start_time st' = sb_device_time st \<and> sb_end_time st' = sb_device_time out"
proof -
  obtain st1 where st1: "set_status_shapes store out (set_status_times out st) = Inr st1"
    and st': "st' = set_status_totals out st1"
    using assms by (auto simp: set_status_def rbind_eq_Inr)
  show ?thesis using set_status_shapes_keeps [OF st1] by (simp add: st' set_status_times_eq)
qed

lemma append_leafs_level: "ts_level (append_leafs ls t) = ts_level t"
  by (simp add: append_leafs_def)

text \<open>
  A bracketed trace run below the current stamp \<open>u\<close> at path \<open>p\<close> only appends
  these stamps to \<open>u\<close> and comes back to \<open>p\<close>.
\<close>

lemma bracketed_run:
  assumes "bracketed es"
    and "stamp_at p rt = Some u"
    and "rfold (run_event store) es \<lparr>tb_top = rt, tb_current = Some p\<rparr> = Inr tb'"
  shows "\<exists>ls. closed_stamps store (ts_level u) es ls \<and>
    tb' = \<lparr>tb_top = stamp_update (append_leafs ls) p rt, tb_current = Some p\<rparr>"
  using assms
proof (induction es arbitrary: p rt u tb' rule: bracketed.induct)
  case bracketed_Nil
  then have "tb' = \<lparr>tb_top = stamp_update (append_leafs []) p rt, tb_current = Some p\<rparr>"
    by (simp add: stamp_update_id append_leafs_def)
  then show ?case using closed_Nil by blast
next
  case (bracketed_Cons es fs nm st out)
  let ?new = "Stamp nm (ts_level u + 1) st []"
  let ?q = "p @ [length (ts_leaf u)]"
  let ?top1 = "stamp_update (append_leafs [?new]) p rt"
  have push: "run_event store (Push nm st) \<lparr>tb_top = rt, tb_current = Some p\<rparr>
      = Inr \<lparr>tb_top = ?top1, tb_current = Some ?q\<rparr>"
    using bracketed_Cons.prems(1) by (simp add: run_event_def push_timestamp_def append_leafs_def [abs_def] Let_def)
  have at1: "stamp_at ?q ?top1 = Some ?new"
    using bracketed_Cons.prems(1) by (simp add: stamp_at_update append_leafs_def)
  obtain tb2 tb3 where
    tb2: "rfold (run_event store) es \<lparr>tb_top = ?top1, tb_current = Some ?q\<rparr> = Inr tb2"
    and tb3: "run_event store (Pop out) tb2 = Inr tb3"
    and tb': "rfold (run_event store) fs tb3 = Inr tb'"
    using bracketed_Cons.prems(2) by (auto simp: push rfold_append rbind_eq_Inr)
  obtain ls where inner: "closed_stamps store (ts_level u + 1) es ls"
    and ls: "tb2 = \<lparr>tb_top = stamp_update (append_leafs ls) ?q ?top1, tb_current = Some ?q\<rparr>"
    using bracketed_Cons.IH(1) [OF at1 tb2] by auto
  have at2: "stamp_at ?q (stamp_update (append_leafs ls) ?q ?top1) = Some (append_leafs ls ?new)"
    using stamp_at_update [OF at1, of "[]"] by simp
  obtain st' where st': "set_status store out st = Inr st'" and
    tb3': "tb3 = \<lparr>tb_top = stamp_update (\<lambda>t. Stamp (ts_name t) (ts_level t) st' (ts_leaf t)) ?q
        (stamp_update (append_leafs ls) ?q ?top1), tb_current = Some p\<rparr>"
    using tb3 at2 by (auto simp: ls run_event_def pop_timestamp_def rbind_eq_Inr append_leafs_def)
  let ?new' = "Stamp nm (ts_level u + 1) st' ls"
  have "stamp_update (\<lambda>t. Stamp (ts_name t) (ts_level t) st' (ts_leaf t)) ?q
        (stamp_update (append_leafs ls) ?q ?top1) = stamp_update (append_leafs [?new']) p rt"
  proof -
    let ?g = "(\<lambda>t. Stamp (ts_name t) (ts_level t) st' (ts_leaf t)) \<circ> append_leafs ls"
    have "stamp_at p ?top1 = Some (append_leafs [?new] u)"
      using stamp_at_update [OF bracketed_Cons.prems(1), of "[]"] by simp
    then have "stamp_update ?g ?q ?top1 = stamp_update (stamp_update ?g [length (ts_leaf u)]) p ?top1"
      by (rule stamp_update_append)
    also have "\<dots> = stamp_update (stamp_update ?g [length (ts_leaf u)] \<circ> append_leafs [?new]) p rt"
      by (rule stamp_update_update [OF bracketed_Cons.prems(1)])
    also have "\<dots> = stamp_update (append_leafs [?new']) p rt"
      using bracketed_Cons.prems(1)
      by (rule stamp_update_cong) (simp add: append_leafs_def)
    finally show ?thesis
      by (simp add: stamp_update_update [OF at1])
  qed
  then have tb3'': "tb3 = \<lparr>tb_top = stamp_update (append_leafs [?new']) p rt, tb_current = Some p\<rparr>"
    by (simp add: tb3')
  have "stamp_at p (stamp_update (append_leafs [?new']) p rt) = Some (append_leafs [?new'] u)"
    using stamp_at_update [OF bracketed_Cons.prems(1), of "[]"] by simp
  from bracketed_Cons.IH(2) [OF this tb' [unfolded tb3'']]
  obtain ks where rest: "closed_stamps store (ts_level u) fs ks" and "tb' = \<lparr>tb_top = stamp_update (append_leafs ks) p
      (stamp_update (append_leafs [?new']) p rt), tb_current = Some p\<rparr>"
    unfolding append_leafs_level by blast
  then have "tb' = \<lparr>tb_top = stamp_update (append_leafs (?new' # ks)) p rt, tb_current = Some p\<rparr>"
    using stamp_update_update [OF bracketed_Cons.prems(1)]
      stamp_update_cong [OF bracketed_Cons.prems(1), of "append_leafs ks \<circ> append_leafs [?new']"
        "append_leafs (?new' # ks)"]
    by (simp add: append_leafs_def)
  moreover have "closed_stamps store (ts_level u) (Push nm st # es @ Pop out # fs) (?new' # ks)"
    using closed_Cons [OF inner rest st'] set_status_times_set [OF st'] by blast
  ultimately show ?case by blast
qed

text \<open>
  C34: a trace whose pushes and pops are well bracketed leaves the current stamp where it was and
  only adds stamps behind those the current stamp already had; its name, level and status
  and the rest of the tree are as before. The added stamps mirror the brackets, and every one of them is
  closed: it holds what \<^verbatim>\<open>set_status\<close> makes of the statuses of its push and its pop,
  from the pushed device time to the popped one.
\<close>

theorem bracketed_trace_restores_current:
  assumes "bracketed es"
    and "stamp_at p (tb_top tb) = Some u" "tb_current tb = Some p"
    and "rfold (run_event store) es tb = Inr tb'"
  shows "\<exists>ls. tb_current tb' = tb_current tb \<and> tb_top tb' = stamp_update (append_leafs ls) p (tb_top tb) \<and>
    closed_stamps store (ts_level u) es ls"
proof -
  have "tb = \<lparr>tb_top = tb_top tb, tb_current = Some p\<rparr>" using assms(3) by simp
  with assms(4) have "rfold (run_event store) es \<lparr>tb_top = tb_top tb, tb_current = Some p\<rparr> = Inr tb'" by simp
  from bracketed_run [OF assms(1,2) this] assms(3) show ?thesis by auto
qed

definition example_trace :: "trace_event list" where
  "example_trace = [Push ''q'' push_point, Push ''r'' push_point, Pop pop_point, Pop pop_point]"

lemma example_trace_bracketed: "bracketed example_trace"
  using bracketed_Cons [OF bracketed_Cons [OF bracketed_Nil bracketed_Nil] bracketed_Nil]
  by (simp add: example_trace_def)

lemma example_trace_runs:
  "\<exists>tb'. rfold (run_event example_shapes) example_trace TimeBoard_ctor = Inr tb'"
  by (simp add: example_trace_def run_event_def push_timestamp_def pop_timestamp_def TimeBoard_ctor_def
      set_status_example Let_def)

theorem bracketed_trace_restores_current_witness:
  "\<exists>tb' ls. rfold (run_event example_shapes) example_trace TimeBoard_ctor = Inr tb' \<and>
    tb_current tb' = tb_current TimeBoard_ctor \<and>
    tb_top tb' = stamp_update (append_leafs ls) [] (tb_top TimeBoard_ctor) \<and>
    closed_stamps example_shapes (ts_level (tb_top TimeBoard_ctor)) example_trace ls"
proof -
  obtain tb' where run: "rfold (run_event example_shapes) example_trace TimeBoard_ctor = Inr tb'"
    using example_trace_runs by blast
  have "stamp_at [] (tb_top TimeBoard_ctor) = Some (tb_top TimeBoard_ctor)"
    "tb_current TimeBoard_ctor = Some []" by (simp_all add: TimeBoard_ctor_def)
  from bracketed_trace_restores_current [OF example_trace_bracketed this run] run
  show ?thesis by blast
qed

section \<open>Searching the trace\<close>

fun all_stamps :: "stamp \<Rightarrow> stamp list" and all_stamps_list :: "stamp list \<Rightarrow> stamp list" where
  "all_stamps (Stamp nm lvl st leafs) = Stamp nm lvl st leafs # all_stamps_list leafs"
| "all_stamps_list [] = []"
| "all_stamps_list (t # ts) = all_stamps t @ all_stamps_list ts"

definition stamps_below :: "stamp list \<Rightarrow> stamp list" where
  "stamps_below ts = concat (map all_stamps ts)"

lemma stamps_below_simps [simp]:
  "stamps_below [] = []" "stamps_below (t # ts) = all_stamps t @ stamps_below ts"
  "stamps_below (xs @ ys) = stamps_below xs @ stamps_below ys"
  by (simp_all add: stamps_below_def)

lemma find_stamp_sound_aux:
  "list_all (\<lambda>r. sublist pat (ts_name r)) (find_stamp pat t) \<and> subseq (stamps_below (find_stamp pat t)) (all_stamps t) \<and>
   filter (\<lambda>s. sublist pat (ts_name s)) (stamps_below (find_stamp pat t)) = filter (\<lambda>s. sublist pat (ts_name s)) (all_stamps t)"
  "list_all (\<lambda>r. sublist pat (ts_name r)) (find_stamp_list pat ts) \<and> subseq (stamps_below (find_stamp_list pat ts)) (all_stamps_list ts) \<and>
   filter (\<lambda>s. sublist pat (ts_name s)) (stamps_below (find_stamp_list pat ts)) = filter (\<lambda>s. sublist pat (ts_name s)) (all_stamps_list ts)"
  by (induction pat t and pat ts rule: find_stamp_find_stamp_list.induct)
    (auto simp: list_all_iff intro: list_emb_append_mono)

text \<open>
  \<^verbatim>\<open>find_stamp\<close> returns stamps whose names contain the pattern, in order and
  without overlap (their subtrees together are a subsequence of the trace, so no time is counted
  twice), and every matching stamp of the trace is one of them or below one of them.
\<close>

theorem find_stamp_covers_once:
  "list_all (\<lambda>r. sublist pat (ts_name r)) (find_stamp pat t) \<and>
   subseq (stamps_below (find_stamp pat t)) (all_stamps t) \<and>
   filter (\<lambda>s. sublist pat (ts_name s)) (stamps_below (find_stamp pat t)) =
     filter (\<lambda>s. sublist pat (ts_name s)) (all_stamps t)"
  by (rule find_stamp_sound_aux(1))

end
