(* ===== verification/Module_Graph.thy ===== *)
theory Module_Graph
  imports Time_Board Executor_Model
begin

text \<open>
  The execution graph of a device: \<^verbatim>\<open>src/module/module_graph.h\<close> and
  \<^verbatim>\<open>module_graph.cpp\<close>. Building a model calls every module once and leaves a
  bracketed list of push and pop nodes; a run walks it, keeps the device's clock and trace, runs the
  leaf modules whose inputs are ready and stops at a synchronising module whose inputs on the other
  devices are not. Tensors and the batches of the data-parallel ranks live in a store shared by the
  devices, and a run names its batch by its index; what a leaf module's
  \<^verbatim>\<open>forward\<close> does to the store and the devices is the parameter \<open>fwd\<close>.
\<close>

section \<open>State\<close>

record world =
  w_tensors :: "nat \<rightharpoonup> tensor"
  w_devices :: "device list"
  w_batches :: "batched_sequence list"

record graph_node =
  gn_module :: "nat option"
  gn_name :: string
  gn_execution :: bool
  gn_sync :: bool
  gn_input :: "nat option"
  gn_input_vec :: "nat list"
  gn_isTensorVec :: bool
  gn_level :: int
  gn_pop :: bool
  gn_stamped :: bool
  gn_dependency :: "nat list"
  gn_tree :: "nat list"

record top_graph =
  tg_nodes :: "graph_node list"
  tg_level :: int
  tg_current :: nat
  tg_device :: nat
  tg_powers :: "dram_energy list"
  tg_timeboard :: time_board

type_synonym forward = "nat \<Rightarrow> graph_node \<Rightarrow> nat \<Rightarrow> world \<Rightarrow> world res"

definition TopModuleGraph_ctor :: "nat \<Rightarrow> top_graph" where
  "TopModuleGraph_ctor dev = \<lparr>tg_nodes = [], tg_level = 0, tg_current = 0, tg_device = dev,
     tg_powers = [], tg_timeboard = TimeBoard_ctor\<rparr>"

definition w_shapes :: "world \<Rightarrow> shape_store" where
  "w_shapes w k = map_option t_shape (w_tensors w k)"

definition tensor_of :: "world \<Rightarrow> nat option \<Rightarrow> tensor res" where
  "tensor_of w ptr = (case ptr of None \<Rightarrow> Inl NullPointer
     | Some k \<Rightarrow> (case w_tensors w k of None \<Rightarrow> Inl NullPointer | Some t \<Rightarrow> Inr t))"

definition device_of :: "world \<Rightarrow> nat option \<Rightarrow> nat res" where
  "device_of w dev = (case dev of None \<Rightarrow> Inl NullPointer
     | Some i \<Rightarrow> if i < length (w_devices w) then Inr i else Inl NullPointer)"

definition set_tensor :: "nat \<Rightarrow> tensor \<Rightarrow> world \<Rightarrow> world" where
  "set_tensor k t w = w\<lparr>w_tensors := (w_tensors w)(k \<mapsto> t)\<rparr>"

definition set_device :: "nat \<Rightarrow> device \<Rightarrow> world \<Rightarrow> world" where
  "set_device i d w = w\<lparr>w_devices := (w_devices w)[i := d]\<rparr>"

section \<open>Building the graph\<close>

text \<open>
  \<^verbatim>\<open>push_module_graph\<close> and \<^verbatim>\<open>pop_module_graph\<close>: the two overloads
  differ in the input they store. The level is read before it is incremented or decremented.
\<close>

definition push_module_graph :: "graph_node \<Rightarrow> top_graph \<Rightarrow> top_graph" where
  "push_module_graph node tg = tg\<lparr>tg_nodes := tg_nodes tg @
       [node\<lparr>gn_level := tg_level tg, gn_pop := False, gn_stamped := False\<rparr>], tg_level := tg_level tg + 1\<rparr>"

definition pop_module_graph :: "nat option \<Rightarrow> nat list \<Rightarrow> bool \<Rightarrow> top_graph \<Rightarrow> top_graph" where
  "pop_module_graph inp inps vec tg = tg\<lparr>tg_nodes := tg_nodes tg @
       [\<lparr>gn_module = None, gn_name = [], gn_execution = False, gn_sync = False, gn_input = inp,
         gn_input_vec = inps, gn_isTensorVec = vec, gn_level = tg_level tg, gn_pop = True,
         gn_stamped = False, gn_dependency = [], gn_tree = []\<rparr>], tg_level := tg_level tg - 1\<rparr>"

text \<open>
  \<^verbatim>\<open>Module::operator()\<close>: push, call \<^verbatim>\<open>forward\<close>, which calls the
  submodules, pop. A call tree records the node of every module called and the result.
\<close>

datatype call_tree = Call graph_node "call_tree list" "nat option" "nat list"

fun call_module :: "call_tree \<Rightarrow> top_graph \<Rightarrow> top_graph" and
    call_modules :: "call_tree list \<Rightarrow> top_graph \<Rightarrow> top_graph" where
  "call_module (Call node subs out outs) tg =
     pop_module_graph out outs (gn_isTensorVec node) (call_modules subs (push_module_graph node tg))"
| "call_modules [] tg = tg"
| "call_modules (c # cs) tg = call_modules cs (call_module c tg)"

section \<open>Readiness and synchronisation\<close>

text \<open>\<^verbatim>\<open>checkListReady\<close> ignores its argument: it always looks at the dependency list.\<close>

definition checkListReady :: "graph_node \<Rightarrow> nat list \<Rightarrow> world \<Rightarrow> bool res" where
  "checkListReady node tensor_list w =
     rfold (\<lambda>k ok. if \<not> ok then Inr False else rbind (tensor_of w (Some k)) (\<lambda>t. Inr (t_ready t)))
       (gn_dependency node) True"

definition max_dep_time :: "world \<Rightarrow> nat list \<Rightarrow> real res" where
  "max_dep_time w deps =
     rfold (\<lambda>k time. rbind (tensor_of w (Some k)) (\<lambda>t. rbind (device_of w (t_device t)) (\<lambda>i.
       Inr (max time (get_time (w_devices w ! i)))))) deps 0"

definition sync_dep :: "real \<Rightarrow> nat \<Rightarrow> world \<Rightarrow> world res" where
  "sync_dep time k w =
     rbind (tensor_of w (Some k)) (\<lambda>t. rbind (device_of w (t_device t)) (\<lambda>i.
       Inr (set_device i (set_time time (w_devices w ! i)) (set_tensor k (t\<lparr>t_timeboard_synced := True\<rparr>) w))))"

definition clear_synced :: "nat option \<Rightarrow> world \<Rightarrow> world res" where
  "clear_synced ptr w = rbind (tensor_of w ptr) (\<lambda>t.
     case ptr of Some k \<Rightarrow> Inr (set_tensor k (t\<lparr>t_timeboard_synced := False\<rparr>) w) | None \<Rightarrow> Inl NullPointer)"

definition sync_devices :: "graph_node \<Rightarrow> world \<Rightarrow> world res" where
  "sync_devices node w =
     (if gn_input node \<noteq> None then
        rbind (tensor_of w (gn_input node)) (\<lambda>inp.
        if \<not> t_timeboard_synced inp then
          rbind (max_dep_time w (gn_dependency node)) (\<lambda>time.
          rbind (rfold (sync_dep time) (gn_dependency node) w) (\<lambda>w.
          clear_synced (gn_input node) w))
        else clear_synced (gn_input node) w)
      else fail ''Module cannot be synced when it's inputs are TensorVector'')"

definition check_ready :: "graph_node \<Rightarrow> world \<Rightarrow> (bool \<times> world) res" where
  "check_ready node w =
     (if gn_sync node then
        rbind (checkListReady node (gn_dependency node) w) (\<lambda>ok.
        if \<not> ok then Inr (False, w) else rbind (sync_devices node w) (\<lambda>w. Inr (True, w)))
      else
        rbind (if gn_input node \<noteq> None then rbind (tensor_of w (gn_input node)) (\<lambda>t. Inr (t_ready t)) else Inr False) (\<lambda>r.
        if r then Inr (True, w)
        else if gn_input_vec node \<noteq> [] then
          rbind (checkListReady node (gn_input_vec node) w) (\<lambda>ok. Inr (ok, w))
        else Inr (False, w)))"

definition node_run :: "forward \<Rightarrow> nat \<Rightarrow> nat \<Rightarrow> graph_node \<Rightarrow> world \<Rightarrow> (bool \<times> world) res" where
  "node_run fwd dev seqs node w =
     (if gn_module node = None \<or> \<not> gn_execution node then Inr (True, w)
      else rbind (check_ready node w) (\<lambda>(ready, w).
        if ready then rbind (fwd dev node seqs w) (\<lambda>w. Inr (True, w)) else Inr (False, w)))"

section \<open>The clock of a device\<close>

definition join_times :: "status_board \<Rightarrow> status_board" where
  "join_times st =
     (let t = max (sb_device_time st) (max (sb_low_time st) (sb_high_time st))
      in st\<lparr>sb_device_time := t, sb_low_time := t, sb_high_time := t, sb_parallel_execution := False\<rparr>)"

definition set_push_status :: "world \<Rightarrow> graph_node \<Rightarrow> status_board \<Rightarrow> status_board res" where
  "set_push_status w node st =
     (if gn_isTensorVec node then
        Inr (join_times (st\<lparr>sb_isTensorVec := True, sb_tensor_vec := gn_input_vec node\<rparr>))
      else
        rbind (tensor_of w (gn_input node)) (\<lambda>t.
        let st = st\<lparr>sb_isTensorVec := False, sb_tensor := gn_input node\<rparr> in
        if t_parallel_execution t then
          Inr (st\<lparr>sb_parallel_execution := True,
            sb_device_time := (if isPerformHigh t then sb_high_time st else sb_low_time st)\<rparr>)
        else Inr (join_times st)))"

definition pop_times :: "exec_status \<Rightarrow> status_board \<Rightarrow> status_board" where
  "pop_times es st =
     (if sb_parallel_execution st then
        (if es_processor_type es = LOGIC \<or> es_processor_type es = PIM then
           (let t = sb_low_time st + es_total_duration es in st\<lparr>sb_low_time := t, sb_device_time := t\<rparr>)
         else if es_processor_type es = GPU then
           (let t = sb_high_time st + es_total_duration es in st\<lparr>sb_high_time := t, sb_device_time := t\<rparr>)
         else st)
      else st\<lparr>sb_device_time := sb_device_time st + es_total_duration es\<rparr>)"

definition pop_energy :: "dram_energy \<Rightarrow> exec_status \<Rightarrow> status_board \<Rightarrow> status_board" where
  "pop_energy p es st = st\<lparr>
     sb_act_energy := sb_act_energy st + of_int (es_act_count es) * kACT_energy p,
     sb_read_energy := sb_read_energy st + of_int (es_read_count es) * kREAD_energy p,
     sb_write_energy := sb_write_energy st + of_int (es_write_count es) * kWRITE_energy p,
     sb_all_act_energy := sb_all_act_energy st + of_int (es_all_act_count es) * kALL_ACT_energy p,
     sb_all_read_energy := sb_all_read_energy st + of_int (es_all_read_count es) * kALL_READ_energy p,
     sb_all_write_energy := sb_all_write_energy st + of_int (es_all_write_count es) * kALL_WRITE_energy p,
     sb_mac_energy := sb_mac_energy st + es_flops es * kMAC_energy p\<rparr>"

definition pop_totals :: "exec_status \<Rightarrow> status_board \<Rightarrow> status_board" where
  "pop_totals es st = st\<lparr>
     sb_compute_util := es_compute_util es, sb_memory_util := es_memory_util es,
     sb_processor_type := es_processor_type es,
     sb_flops := sb_flops st + es_flops es, sb_memory_size := sb_memory_size st + es_memory_size es,
     sb_qk_duration := sb_qk_duration st + es_qk_duration es,
     sb_softmax_duration := sb_softmax_duration st + es_softmax_duration es,
     sb_score_v_duration := sb_score_v_duration st + es_score_v_duration es,
     sb_kv_quant_duration := sb_kv_quant_duration st + es_kv_quant_duration es,
     sb_pim_rb_duration := sb_pim_rb_duration st + es_pim_rb_duration es,
     sb_pim_pe_duration := sb_pim_pe_duration st + es_pim_pe_duration es,
     sb_pim_rb_qk := sb_pim_rb_qk st + es_pim_rb_qk es, sb_pim_pe_qk := sb_pim_pe_qk st + es_pim_pe_qk es,
     sb_pim_rb_sv := sb_pim_rb_sv st + es_pim_rb_sv es, sb_pim_pe_sv := sb_pim_pe_sv st + es_pim_pe_sv es,
     sb_opb := es_opb es\<rparr>"

definition runs_on :: "exec_status \<Rightarrow> bool" where
  "runs_on es \<longleftrightarrow> es_processor_type es = PIM \<or> es_processor_type es = LOGIC \<or> es_processor_type es = GPU"

definition set_pop_status ::
  "world \<Rightarrow> graph_node \<Rightarrow> dram_energy list \<Rightarrow> exec_status \<Rightarrow> status_board \<Rightarrow> status_board res" where
  "set_pop_status w node powers es st =
     rbind (if gn_isTensorVec node then
              Inr (st\<lparr>sb_isTensorVec := True, sb_tensor_vec := gn_input_vec node\<rparr>)
            else rbind (tensor_of w (gn_input node)) (\<lambda>t.
              Inr (st\<lparr>sb_isTensorVec := False, sb_tensor := gn_input node,
                sb_parallel_execution := t_parallel_execution t\<rparr>))) (\<lambda>st.
     let st = pop_times es st in
     rbind (if runs_on es then
              rbind (vec_ix powers (ptype_int (es_processor_type es))) (\<lambda>p. Inr (pop_energy p es st))
            else Inr st) (\<lambda>st.
     Inr (pop_totals es st)))"

definition set_stamp :: "top_graph \<Rightarrow> world \<Rightarrow> (top_graph \<times> world) res" where
  "set_stamp tg w =
     (let node = tg_nodes tg ! tg_current tg; dev = tg_device tg; d = w_devices w ! dev in
      if gn_stamped node then Inr (tg, w) else
      rbind (if gn_pop node then
               (let (es, d) = getExecStatus d in
                rbind (set_pop_status w node (tg_powers tg) es (dv_status d)) (\<lambda>st.
                rbind (pop_timestamp (w_shapes w) st (tg_timeboard tg)) (\<lambda>tb.
                Inr (tb, d\<lparr>dv_status := st\<rparr>))))
             else
               rbind (set_push_status w node (dv_status d)) (\<lambda>st.
               rbind (push_timestamp st (gn_name node) (tg_timeboard tg)) (\<lambda>tb.
               Inr (tb, d\<lparr>dv_status := st\<rparr>)))) (\<lambda>(tb, d).
      Inr (tg\<lparr>tg_timeboard := tb, tg_nodes := (tg_nodes tg)[tg_current tg := node\<lparr>gn_stamped := True\<rparr>]\<rparr>,
        set_device dev d w)))"

section \<open>Running the graph\<close>

text \<open>The loop to the end of the list; the fuel is the number of nodes left.\<close>

fun graph_loop :: "nat \<Rightarrow> forward \<Rightarrow> nat \<Rightarrow> top_graph \<Rightarrow> world \<Rightarrow> (top_graph \<times> world) res" where
  "graph_loop 0 fwd seqs tg w = Inr (tg, w)"
| "graph_loop (Suc n) fwd seqs tg w =
     rbind (set_stamp tg w) (\<lambda>(tg, w).
     rbind (node_run fwd (tg_device tg) seqs (tg_nodes tg ! tg_current tg) w) (\<lambda>(ok, w).
     if ok then graph_loop n fwd seqs (tg\<lparr>tg_current := Suc (tg_current tg)\<rparr>) w else Inr (tg, w)))"

definition graph_run :: "forward \<Rightarrow> nat \<Rightarrow> top_graph \<Rightarrow> world \<Rightarrow> (top_graph \<times> world) res" where
  "graph_run fwd seqs tg w = graph_loop (length (tg_nodes tg) - tg_current tg) fwd seqs tg w"

definition check_module_graph_remain :: "top_graph \<Rightarrow> bool" where
  "check_module_graph_remain tg \<longleftrightarrow> tg_current tg \<noteq> length (tg_nodes tg)"

text \<open>\<^verbatim>\<open>restart_graph\<close>: the first input becomes ready, then every module's tensors are unset.\<close>

definition restart_graph :: "top_graph \<Rightarrow> world \<Rightarrow> (top_graph \<times> world) res" where
  "restart_graph tg w =
     rbind (assertTrue (tg_nodes tg \<noteq> []) ''No module in TopModuleGraph'') (\<lambda>_.
     let first = hd (tg_nodes tg) in
     rbind (tensor_of w (gn_input first)) (\<lambda>t.
     rbind (tensor_set (dv_mc (w_devices w ! tg_device tg)) t) (\<lambda>t.
     let w = set_tensor (the (gn_input first)) t w;
         w = fold (\<lambda>node w. if gn_module node = None then w
               else fold (\<lambda>k w. w\<lparr>w_tensors := (w_tensors w)(k := map_option tensor_unset (w_tensors w k))\<rparr>) (gn_tree node) w)
             (tg_nodes tg) w
     in Inr (tg\<lparr>tg_current := 0, tg_nodes := map (\<lambda>node. node\<lparr>gn_stamped := False\<rparr>) (tg_nodes tg)\<rparr>, w))))"

definition graph_initializeDRAM :: "ProcessorType \<Rightarrow> dram_energy \<Rightarrow> top_graph \<Rightarrow> top_graph" where
  "graph_initializeDRAM pt e tg =
     (let zero = \<lparr>kACT_energy = 0, kREAD_energy = 0, kWRITE_energy = 0, kALL_ACT_energy = 0,
            kALL_READ_energy = 0, kALL_WRITE_energy = 0, kMAC_energy = 0\<rparr>;
          powers = (if tg_powers tg = [] then replicate (nat (ptype_int PT_MAX)) zero else tg_powers tg)
      in tg\<lparr>tg_powers := powers[nat (ptype_int pt) := e]\<rparr>)"

definition getDeviceEnergy :: "status_board \<Rightarrow> real list" where
  "getDeviceEnergy st = [sb_act_energy st, sb_read_energy st, sb_write_energy st, sb_all_act_energy st,
     sb_all_read_energy st, sb_all_write_energy st, sb_mac_energy st,
     sb_act_energy st + sb_read_energy st + sb_write_energy st + sb_all_act_energy st +
       sb_all_read_energy st + sb_all_write_energy st + sb_mac_energy st]"

end
