(* ===== verification/Cluster_Model.thy ===== *)
theory Cluster_Model
  imports Module_Graph Batch_Scheduler
begin

text \<open>
  The cluster: \<^verbatim>\<open>src/hardware/cluster.h\<close>, \<^verbatim>\<open>cluster.cpp\<close>,
  \<^verbatim>\<open>node.cpp\<close> and \<^verbatim>\<open>stat.h\<close>. It owns the nodes and their devices,
  the execution graph of every device, the table of modules by device and name, and the scheduler;
  it runs the graphs until every device is at the end of its graph, checks the memory footprint of
  the model and shrinks the batch to it, and drives the iterations that produce the statistics rows.
  A device is an index into the world, a tensor a key of its store. The execution cache, which the
  cluster owns, is kept equal in all devices. Writing a row to the output file is appending it to a
  list; formatting, progress output and wall-clock measurements are not modelled.
\<close>

section \<open>State\<close>

text \<open>A module as the cluster sees it: its tensors by name and its submodules.\<close>

datatype module_ref = MRef
  (mr_name: string)
  (mr_tensors: "(string \<times> nat) list")
  (mr_modules: "(string \<times> module_ref) list")

record node =
  nd_rank :: int
  nd_config :: system_config
  nd_ict_latency :: real
  nd_ict_bandwidth :: real
  nd_device :: "nat list"

record cluster =
  cl_config :: system_config
  cl_ict_latency :: real
  cl_ict_bandwidth :: real
  cl_num_device :: int
  cl_num_node :: int
  cl_num_total_device :: int
  cl_node :: "node list"
  cl_out_of_memory :: bool
  cl_module_map :: "(string \<rightharpoonup> module_ref) list"
  cl_tensor_module :: "nat \<rightharpoonup> string"
  cl_device_list :: "nat \<Rightarrow> int list"
  cl_mmap :: "mmap_ctl list"
  cl_graphs :: "top_graph list"
  cl_world :: world
  cl_scheduler :: scheduler
  cl_model_config :: model_config

section \<open>Construction\<close>

text \<open>
  \<^verbatim>\<open>Node::Node\<close> and \<^verbatim>\<open>CreateDevice\<close>; a new device's index is
  the number of devices so far. Its graph is empty and its memory controller fresh.
\<close>

definition CreateDevice :: "system_config \<Rightarrow> int \<Rightarrow> cluster \<Rightarrow> (nat list \<times> cluster) res" where
  "CreateDevice c node_rank cl =
     rfold (\<lambda>device_rank (ids, cl).
       rbind (Device_ctor c (device_rank + node_rank * num_device c)) (\<lambda>d.
       let i = length (w_devices (cl_world cl)) in
       Inr (ids @ [i], cl\<lparr>cl_world := (cl_world cl)\<lparr>w_devices := w_devices (cl_world cl) @ [d]\<rparr>,
         cl_graphs := cl_graphs cl @ [TopModuleGraph_ctor i],
         cl_mmap := cl_mmap cl @ [MMapController_ctor (dv_mc d)]\<rparr>)))
     (irange 0 (num_device c)) ([], cl)"

definition Node_Create :: "system_config \<Rightarrow> int \<Rightarrow> cluster \<Rightarrow> (node \<times> cluster) res" where
  "Node_Create c node_rank cl =
     rbind (CreateDevice c node_rank cl) (\<lambda>(ids, cl).
     Inr (\<lparr>nd_rank = node_rank, nd_config = c, nd_ict_latency = device_ict_latency c,
       nd_ict_bandwidth = device_ict_bandwidth c, nd_device = ids\<rparr>, cl))"

definition CreateNode :: "system_config \<Rightarrow> cluster \<Rightarrow> cluster res" where
  "CreateNode c cl =
     rfold (\<lambda>node_rank cl. rbind (Node_Create c node_rank cl) (\<lambda>(n, cl).
       Inr (cl\<lparr>cl_node := cl_node cl @ [n]\<rparr>))) (irange 0 (num_node c)) cl"

definition Cluster_ctor :: "system_config \<Rightarrow> model_config \<Rightarrow> scheduler \<Rightarrow> cluster" where
  "Cluster_ctor c m s = \<lparr>cl_config = c, cl_ict_latency = node_ict_latency c,
     cl_ict_bandwidth = node_ict_bandwidth c, cl_num_device = num_device c, cl_num_node = num_node c,
     cl_num_total_device = num_device c * num_node c, cl_node = [], cl_out_of_memory = False,
     cl_module_map = [], cl_tensor_module = Map.empty, cl_device_list = (\<lambda>_. []), cl_mmap = [],
     cl_graphs = [], cl_world = \<lparr>w_tensors = Map.empty, w_devices = [], w_batches = []\<rparr>,
     cl_scheduler = s, cl_model_config = m\<rparr>"

text \<open>\<^verbatim>\<open>set\<close>: the nodes, then one empty module table per device.\<close>

definition cluster_set :: "system_config \<Rightarrow> cluster \<Rightarrow> cluster res" where
  "cluster_set c cl = rbind (CreateNode c cl) (\<lambda>cl.
     Inr (cl\<lparr>cl_module_map := replicate (nat (cl_num_total_device cl)) Map.empty\<rparr>))"

definition node_get_device :: "node \<Rightarrow> int \<Rightarrow> nat res" where
  "node_get_device n rank = vec_at (nd_device n) (cmod rank (num_device (nd_config n)))"

definition get_device :: "cluster \<Rightarrow> int \<Rightarrow> nat res" where
  "get_device cl rank =
     rbind (vec_at (cl_node cl) (cdiv rank (cl_num_device cl))) (\<lambda>n. node_get_device n rank)"

text \<open>A loop over all ranks that updates the graph and the devices of each.\<close>

definition for_ranks :: "(nat \<Rightarrow> cluster \<Rightarrow> cluster res) \<Rightarrow> cluster \<Rightarrow> cluster res" where
  "for_ranks f cl = rfold (\<lambda>rank cl. rbind (get_device cl rank) (\<lambda>i. f i cl)) (irange 0 (cl_num_total_device cl)) cl"

definition device_initializeDRAM :: "ProcessorType \<Rightarrow> dram_energy \<Rightarrow> nat \<Rightarrow> cluster \<Rightarrow> cluster res" where
  "device_initializeDRAM pt e i cl =
     (let mc = dv_mc (w_devices (cl_world cl) ! i); tg = cl_graphs cl ! i
      in Inr (cl\<lparr>cl_graphs := (cl_graphs cl)[i := graph_initializeDRAM pt (initializeDRAM mc pt e) tg]\<rparr>))"

definition cluster_initializeDRAM :: "ProcessorType \<Rightarrow> dram_energy \<Rightarrow> cluster \<Rightarrow> cluster res" where
  "cluster_initializeDRAM pt e cl = for_ranks (device_initializeDRAM pt e) cl"

definition Cluster_Create :: "system_config \<Rightarrow> model_config \<Rightarrow> scheduler \<Rightarrow> cluster res" where
  "Cluster_Create c m s =
     rbind (cluster_set c (Cluster_ctor c m s)) (\<lambda>cl.
     rbind (cluster_initializeDRAM GPU gpuEnergy cl) (\<lambda>cl.
     rbind (cluster_initializeDRAM LOGIC logicEnergy cl) (\<lambda>cl.
     cluster_initializeDRAM PIM pimEnergy cl)))"

section \<open>Modules and dependencies\<close>

definition cluster_add_module :: "int \<Rightarrow> string \<Rightarrow> module_ref \<Rightarrow> cluster \<Rightarrow> cluster res" where
  "cluster_add_module device_rank nm m cl =
     rbind (vec_at (cl_module_map cl) device_rank) (\<lambda>tbl.
     if tbl nm = None then
       Inr (cl\<lparr>cl_module_map := (cl_module_map cl)[nat device_rank := tbl(nm \<mapsto> m)]\<rparr>)
     else fail ''Cluster::add_module, same module name'')"

definition map_at :: "('k \<rightharpoonup> 'v) \<Rightarrow> 'k \<Rightarrow> 'v res" where
  "map_at m k = (case m k of Some v \<Rightarrow> Inr v | None \<Rightarrow> Inl OutOfRange)"

text \<open>
  \<^verbatim>\<open>get_activation\<close> of a module whose tensors live in the store: the tensor takes the
  shape, its memory object is allocated anew on its device, and its key is returned.
\<close>

definition store_activation ::
  "module_ref \<Rightarrow> string \<Rightarrow> int list \<Rightarrow> bool \<Rightarrow> mmap_ctl list \<Rightarrow> world \<Rightarrow> (nat \<times> mmap_ctl list \<times> world) res" where
  "store_activation m nm shp ready ctls w =
     (case map_of (mr_tensors m) nm of
        None \<Rightarrow> fail ''Unvalid activation tensor request''
      | Some k \<Rightarrow>
          rbind (tensor_of w (Some k)) (\<lambda>t.
          rbind (assertFalse (t_device t = None) ''Tensor is not allocated in device'') (\<lambda>_.
          rbind (device_of w (t_device t)) (\<lambda>i.
          rbind (tensor_setMemoryObject (ctls ! i) (t\<lparr>t_shape := shp\<rparr>)) (\<lambda>(ctl, t).
          rbind (if ready then tensor_set (ctl_config ctl) t else Inr t) (\<lambda>t.
          Inr (k, ctls[i := ctl], set_tensor k t w)))))))"

text \<open>
  \<^verbatim>\<open>Cluster::set_dependency_tensor\<close>: the tensor of the same name in the module of the
  same name on every device of the list.
\<close>

definition set_dependency_tensor :: "nat \<Rightarrow> int list \<Rightarrow> cluster \<Rightarrow> (nat list \<times> cluster) res" where
  "set_dependency_tensor key device_list cl =
     rfold (\<lambda>device_rank (deps, cl).
       rbind (vec_at (cl_module_map cl) device_rank) (\<lambda>tbl.
       rbind (case cl_tensor_module cl key of None \<Rightarrow> Inl NullPointer | Some nm \<Rightarrow> map_at tbl nm) (\<lambda>m.
       rbind (tensor_of (cl_world cl) (Some key)) (\<lambda>tensor.
       rbind (store_activation m (t_name tensor) [] False (cl_mmap cl) (cl_world cl)) (\<lambda>(k, ctls, w).
       Inr (deps @ [k], cl\<lparr>cl_mmap := ctls, cl_world := w\<rparr>))))))
     device_list ([], cl)"

definition node_set_dependency :: "nat \<Rightarrow> nat \<Rightarrow> cluster \<Rightarrow> cluster res" where
  "node_set_dependency i j cl =
     (let tg = cl_graphs cl ! i; n = tg_nodes tg ! j in
      case (gn_input n, gn_module n) of
        (Some key, Some md) \<Rightarrow>
          if gn_sync n then
            rbind (set_dependency_tensor key (cl_device_list cl md) cl) (\<lambda>(deps, cl).
            Inr (cl\<lparr>cl_graphs := (cl_graphs cl)[i := tg\<lparr>tg_nodes := (tg_nodes tg)[j := n\<lparr>gn_dependency := deps\<rparr>]\<rparr>]\<rparr>))
          else Inr cl
      | _ \<Rightarrow> Inr cl)"

definition device_restartGraph :: "nat \<Rightarrow> cluster \<Rightarrow> cluster res" where
  "device_restartGraph i cl =
     rbind (restart_graph (cl_graphs cl ! i) (cl_world cl)) (\<lambda>(tg, w).
     Inr (cl\<lparr>cl_graphs := (cl_graphs cl)[i := tg], cl_world := w\<rparr>))"

definition device_set_dependency :: "nat \<Rightarrow> cluster \<Rightarrow> cluster res" where
  "device_set_dependency i cl =
     rbind (rfold (node_set_dependency i) [0..<length (tg_nodes (cl_graphs cl ! i))] cl) (device_restartGraph i)"

text \<open>The devices of the cluster in the order of its loops over nodes and their devices.\<close>

definition cluster_devices :: "cluster \<Rightarrow> nat list" where
  "cluster_devices cl = concat (map nd_device (cl_node cl))"

definition cluster_set_dependency :: "cluster \<Rightarrow> cluster res" where
  "cluster_set_dependency cl = rfold device_set_dependency (cluster_devices cl) cl"

section \<open>Running the graphs\<close>

definition device_reset_status :: "nat \<Rightarrow> cluster \<Rightarrow> cluster" where
  "device_reset_status i cl =
     cl\<lparr>cl_world := set_device i (reset_status (w_devices (cl_world cl) ! i)) (cl_world cl)\<rparr>"

definition device_reset_timeboard :: "nat \<Rightarrow> cluster \<Rightarrow> cluster" where
  "device_reset_timeboard i cl =
     (let tg = cl_graphs cl ! i
      in cl\<lparr>cl_graphs := (cl_graphs cl)[i := tg\<lparr>tg_timeboard := reset_timeboard (tg_timeboard tg)\<rparr>]\<rparr>)"

definition restartModuleGraph :: "cluster \<Rightarrow> cluster res" where
  "restartModuleGraph cl =
     for_ranks (\<lambda>i cl. rbind (device_restartGraph i cl) (\<lambda>cl.
       Inr (device_reset_timeboard i (device_reset_status i cl)))) cl"

definition cluster_setPerformExecution :: "bool \<Rightarrow> cluster \<Rightarrow> cluster" where
  "cluster_setPerformExecution p cl =
     cl\<lparr>cl_world := fold (\<lambda>i w. set_device i (setPerformExecution p (w_devices w ! i)) w) (cluster_devices cl) (cl_world cl)\<rparr>"

text \<open>What device \<open>i\<close> added to the cluster's execution cache is seen by every device.\<close>

definition share_cache :: "nat \<Rightarrow> world \<Rightarrow> world" where
  "share_cache i w = w\<lparr>w_devices := map (\<lambda>d. d\<lparr>dv_cache := dv_cache (w_devices w ! i)\<rparr>) (w_devices w)\<rparr>"

definition device_run :: "forward \<Rightarrow> nat \<Rightarrow> cluster \<Rightarrow> cluster res" where
  "device_run fwd i cl =
     rbind (device_of (cl_world cl) (Some i)) (\<lambda>i.
     let w = cl_world cl; dp_rank = cdiv (dv_total_rank (w_devices w ! i)) (ne_tp_dg (cl_model_config cl)) in
     rbind (vec_at (w_batches w) dp_rank) (\<lambda>_.
     rbind (graph_run fwd (nat dp_rank) (cl_graphs cl ! i) w) (\<lambda>(tg, w).
     Inr (cl\<lparr>cl_graphs := (cl_graphs cl)[i := tg], cl_world := share_cache i w\<rparr>))))"

definition cluster_remain :: "cluster \<Rightarrow> bool" where
  "cluster_remain cl \<longleftrightarrow> list_ex (\<lambda>i. check_module_graph_remain (cl_graphs cl ! i)) (cluster_devices cl)"

definition cluster_round :: "forward \<Rightarrow> cluster \<Rightarrow> cluster res" where
  "cluster_round fwd cl = rfold (device_run fwd) (cluster_devices cl) cl"

fun cluster_loop :: "nat \<Rightarrow> forward \<Rightarrow> cluster \<Rightarrow> cluster res" where
  "cluster_loop 0 fwd cl = (if cluster_remain cl then Inl OutOfFuel else Inr cl)"
| "cluster_loop (Suc n) fwd cl =
     (if cluster_remain cl then rbind (cluster_round fwd cl) (cluster_loop n fwd) else Inr cl)"

definition remaining_nodes :: "cluster \<Rightarrow> nat" where
  "remaining_nodes cl = sum_list (map (\<lambda>tg. length (tg_nodes tg) - tg_current tg) (cl_graphs cl))"

text \<open>
  \<^verbatim>\<open>Cluster::run\<close>: the batches are the scheduler's running queue, shared by pointer,
  so what the modules write to them is seen there afterwards.
\<close>

definition cluster_run :: "forward \<Rightarrow> cluster \<Rightarrow> cluster res" where
  "cluster_run fwd cl =
     (let cl = cl\<lparr>cl_world := (cl_world cl)\<lparr>w_batches := sch_running_queue (cl_scheduler cl)\<rparr>\<rparr> in
      rbind (restartModuleGraph (cluster_setPerformExecution True cl)) (\<lambda>cl.
      rbind (cluster_loop (remaining_nodes cl + 2) fwd cl) (\<lambda>cl.
      Inr (cl\<lparr>cl_scheduler := (cl_scheduler cl)\<lparr>sch_running_queue := w_batches (cl_world cl)\<rparr>\<rparr>))))"

end
