(* ===== verification/Graph_Props.thy ===== *)
theory Graph_Props
  imports Module_Graph
begin

text \<open>
  What the execution graph guarantees: building it yields a well-bracketed list, a run stops only at
  the end or at a module that is not ready, every node is stamped once, synchronisation brings the
  devices of a group to the latest clock of the group, and the clock and the energy of a device
  advance by what was executed.
\<close>

section \<open>Brackets\<close>

inductive brackets :: "bool list \<Rightarrow> bool" where
  brackets_Nil: "brackets []"
| brackets_Cons: "brackets xs \<Longrightarrow> brackets ys \<Longrightarrow> brackets (False # xs @ True # ys)"

inductive_cases brackets_ConsE: "brackets (x # xs)"

lemma brackets_append: "brackets xs \<Longrightarrow> brackets ys \<Longrightarrow> brackets (xs @ ys)"
  by (induction xs rule: brackets.induct) (auto intro: brackets.intros)

definition is_pop_event :: "trace_event \<Rightarrow> bool" where
  "is_pop_event e = (case e of Push nm st \<Rightarrow> False | Pop st \<Rightarrow> True)"

lemma is_pop_event_cases:
  "is_pop_event e = True \<Longrightarrow> \<exists>st. e = Pop st" "is_pop_event e = False \<Longrightarrow> \<exists>nm st. e = Push nm st"
  by (auto simp: is_pop_event_def split: trace_event.splits)

text \<open>Events with the shape of a bracketed graph are a bracketed trace.\<close>

lemma brackets_trace: "brackets bs \<Longrightarrow> map is_pop_event es = bs \<Longrightarrow> bracketed es"
proof (induction bs arbitrary: es rule: brackets.induct)
  case brackets_Nil
  then show ?case by (simp add: bracketed.intros(1))
next
  case (brackets_Cons xs ys)
  from brackets_Cons.prems obtain e as f cs where es: "es = e # as @ f # cs"
    and m: "is_pop_event e = False" "map is_pop_event as = xs" "is_pop_event f = True" "map is_pop_event cs = ys"
    by (auto simp: map_eq_Cons_conv map_eq_append_conv)
  from is_pop_event_cases m(1,3) obtain nm st out where "e = Push nm st" "f = Pop out" by metis
  with brackets_Cons.IH(1) [OF m(2)] brackets_Cons.IH(2) [OF m(4)] show ?case
    by (simp add: es bracketed.intros(2))
qed

lemma call_module_nodes:
  "\<exists>new. tg_nodes (call_module c tg) = tg_nodes tg @ new \<and> brackets (map gn_pop new) \<and>
     tg_level (call_module c tg) = tg_level tg \<and> tg_timeboard (call_module c tg) = tg_timeboard tg"
  "\<exists>new. tg_nodes (call_modules cs tg) = tg_nodes tg @ new \<and> brackets (map gn_pop new) \<and>
     tg_level (call_modules cs tg) = tg_level tg \<and> tg_timeboard (call_modules cs tg) = tg_timeboard tg"
proof (induction c tg and cs tg rule: call_module_call_modules.induct)
  case (1 node subs out outs tg)
  then obtain new where new: "tg_nodes (call_modules subs (push_module_graph node tg)) = tg_nodes (push_module_graph node tg) @ new"
    "brackets (map gn_pop new)" "tg_level (call_modules subs (push_module_graph node tg)) = tg_level (push_module_graph node tg)"
    "tg_timeboard (call_modules subs (push_module_graph node tg)) = tg_timeboard (push_module_graph node tg)" by blast
  let ?n = "node\<lparr>gn_level := tg_level tg, gn_pop := False, gn_stamped := False\<rparr>"
  have "brackets (False # map gn_pop new @ [True])"
    using brackets_Cons [OF new(2) brackets_Nil] by simp
  then show ?case
    using new by (auto simp: pop_module_graph_def push_module_graph_def)
next
  case (2 tg)
  then show ?case by (auto intro: brackets_Nil)
next
  case (3 c cs tg)
  then show ?case using brackets_append by fastforce
qed

text \<open>
  C30: calling a module appends a well-bracketed block of nodes and restores the nesting level, so
  that the trace a complete walk of the block writes is one for which the stamp pointer of the
  time board comes back to where it was.
\<close>

theorem call_module_bracketed:
  assumes "map is_pop_event es = map gn_pop (drop (length (tg_nodes tg)) (tg_nodes (call_module c tg)))"
  shows "bracketed es \<and> take (length (tg_nodes tg)) (tg_nodes (call_module c tg)) = tg_nodes tg \<and>
    tg_level (call_module c tg) = tg_level tg"
proof -
  obtain new where "tg_nodes (call_module c tg) = tg_nodes tg @ new" "brackets (map gn_pop new)"
    "tg_level (call_module c tg) = tg_level tg" using call_module_nodes(1) by blast
  with assms brackets_trace show ?thesis by simp
qed

definition leaf_node :: graph_node where
  "leaf_node = \<lparr>gn_module = Some 0, gn_name = ''linear'', gn_execution = True, gn_sync = False, gn_input = Some 0,
     gn_input_vec = [], gn_isTensorVec = False, gn_level = 0, gn_pop = False, gn_stamped = False,
     gn_dependency = [], gn_tree = []\<rparr>"

theorem call_module_bracketed_witness:
  "bracketed [Push ''ffn'' push_point, Push ''linear'' push_point, Pop pop_point, Pop pop_point] \<and>
    tg_level (call_module (Call leaf_node [Call leaf_node [] (Some 1) []] (Some 1) []) (TopModuleGraph_ctor 0)) = 0"
  using call_module_bracketed [of "[Push ''ffn'' push_point, Push ''linear'' push_point, Pop pop_point, Pop pop_point]"
      "TopModuleGraph_ctor 0" "Call leaf_node [Call leaf_node [] (Some 1) []] (Some 1) []"]
  by (simp add: TopModuleGraph_ctor_def push_module_graph_def pop_module_graph_def is_pop_event_def)

section \<open>A run\<close>

definition same_graph :: "top_graph \<Rightarrow> top_graph \<Rightarrow> bool" where
  "same_graph tg tg' \<longleftrightarrow> map (\<lambda>n. n\<lparr>gn_stamped := True\<rparr>) (tg_nodes tg') = map (\<lambda>n. n\<lparr>gn_stamped := True\<rparr>) (tg_nodes tg) \<and>
     tg_device tg' = tg_device tg \<and> tg_powers tg' = tg_powers tg \<and> tg_level tg' = tg_level tg"

lemma same_graph_length: "same_graph tg tg' \<Longrightarrow> length (tg_nodes tg') = length (tg_nodes tg)"
  by (auto simp: same_graph_def dest: map_eq_imp_length_eq)

lemma same_graph_device: "same_graph tg tg' \<Longrightarrow> tg_device tg' = tg_device tg"
  by (simp add: same_graph_def)

lemma set_stamp_facts:
  assumes "set_stamp tg w = Inr (tg', w')" "tg_current tg < length (tg_nodes tg)"
  shows "same_graph tg tg' \<and> tg_current tg' = tg_current tg \<and> gn_stamped (tg_nodes tg' ! tg_current tg) \<and>
    (\<forall>i. gn_stamped (tg_nodes tg ! i) \<longrightarrow> i < length (tg_nodes tg) \<longrightarrow> gn_stamped (tg_nodes tg' ! i)) \<and>
    (gn_stamped (tg_nodes tg ! tg_current tg) \<longrightarrow> tg' = tg \<and> w' = w)"
proof (cases "gn_stamped (tg_nodes tg ! tg_current tg)")
  case True
  with assms(1) show ?thesis by (simp add: set_stamp_def same_graph_def Let_def)
next
  case False
  let ?node = "tg_nodes tg ! tg_current tg"
  have "\<exists>tb. tg' = tg\<lparr>tg_timeboard := tb, tg_nodes := (tg_nodes tg)[tg_current tg := ?node\<lparr>gn_stamped := True\<rparr>]\<rparr>"
    using assms(1) False unfolding set_stamp_def Let_def by (auto simp: rbind_eq_Inr)
  then obtain tb where tg': "tg' = tg\<lparr>tg_timeboard := tb, tg_nodes := (tg_nodes tg)[tg_current tg := ?node\<lparr>gn_stamped := True\<rparr>]\<rparr>"
    by blast
  have "map (\<lambda>n. n\<lparr>gn_stamped := True\<rparr>) ((tg_nodes tg)[tg_current tg := ?node\<lparr>gn_stamped := True\<rparr>])
      = map (\<lambda>n. n\<lparr>gn_stamped := True\<rparr>) (tg_nodes tg)"
    using assms(2) by (simp add: map_update list_update_same_conv)
  with False assms(2) show ?thesis
    by (simp add: tg' same_graph_def) (auto simp: nth_list_update)
qed

lemma node_run_blocked:
  "node_run fwd dev seqs node w = Inr (False, w') \<Longrightarrow> w' = w \<and> gn_module node \<noteq> None \<and> gn_execution node"
  by (auto simp: node_run_def check_ready_def rbind_eq_Inr split: if_splits)

lemma same_graph_trans: "same_graph a b \<Longrightarrow> same_graph b c \<Longrightarrow> same_graph a c"
  by (simp add: same_graph_def)

definition stamped_upto :: "nat \<Rightarrow> top_graph \<Rightarrow> bool" where
  "stamped_upto n tg \<longleftrightarrow> (\<forall>i < n. gn_stamped (tg_nodes tg ! i))"

lemma graph_loop_facts:
  assumes "graph_loop n fwd seqs tg w = Inr (tg', w')" "tg_current tg + n = length (tg_nodes tg)"
    "stamped_upto (tg_current tg) tg"
  shows "same_graph tg tg' \<and> tg_current tg \<le> tg_current tg' \<and> tg_current tg' \<le> length (tg_nodes tg) \<and>
    stamped_upto (tg_current tg') tg' \<and>
    (tg_current tg' < length (tg_nodes tg) \<longrightarrow> gn_stamped (tg_nodes tg' ! tg_current tg') \<and>
      node_run fwd (tg_device tg) seqs (tg_nodes tg' ! tg_current tg') w' = Inr (False, w'))"
  using assms
proof (induction n arbitrary: tg w)
  case 0
  then show ?case by (simp add: same_graph_def)
next
  case (Suc n)
  have lt: "tg_current tg < length (tg_nodes tg)" using Suc.prems(2) by simp
  obtain tg1 w1 where st: "set_stamp tg w = Inr (tg1, w1)"
    and rest: "rbind (node_run fwd (tg_device tg1) seqs (tg_nodes tg1 ! tg_current tg1) w1) (\<lambda>(ok, w).
      if ok then graph_loop n fwd seqs (tg1\<lparr>tg_current := Suc (tg_current tg1)\<rparr>) w else Inr (tg1, w)) = Inr (tg', w')"
    using Suc.prems(1) by (auto simp: rbind_eq_Inr)
  note f = set_stamp_facts [OF st lt]
  have sg: "same_graph tg tg1" and cur: "tg_current tg1 = tg_current tg" using f by simp_all
  note dev = same_graph_device [OF sg] and len = same_graph_length [OF sg]
  have up: "stamped_upto (Suc (tg_current tg)) tg1"
    using Suc.prems(3) f lt by (auto simp: stamped_upto_def less_Suc_eq)
  obtain ok w2 where run: "node_run fwd (tg_device tg1) seqs (tg_nodes tg1 ! tg_current tg1) w1 = Inr (ok, w2)"
    using rest by (auto simp: rbind_eq_Inr)
  show ?case
  proof (cases ok)
    case True
    let ?tg2 = "tg1\<lparr>tg_current := Suc (tg_current tg1)\<rparr>"
    have "graph_loop n fwd seqs ?tg2 w2 = Inr (tg', w')" using rest run True by simp
    from Suc.IH [OF this] up Suc.prems(2)
    have "same_graph ?tg2 tg' \<and> Suc (tg_current tg) \<le> tg_current tg' \<and> tg_current tg' \<le> length (tg_nodes tg) \<and>
      stamped_upto (tg_current tg') tg' \<and> (tg_current tg' < length (tg_nodes tg) \<longrightarrow> gn_stamped (tg_nodes tg' ! tg_current tg') \<and>
      node_run fwd (tg_device tg) seqs (tg_nodes tg' ! tg_current tg') w' = Inr (False, w'))"
      by (simp add: cur len dev stamped_upto_def)
    moreover have "same_graph tg ?tg2" using sg by (simp add: same_graph_def)
    ultimately show ?thesis using same_graph_trans by fastforce
  next
    case False
    then have "tg' = tg1" "w' = w2" using rest run by simp_all
    moreover have "w2 = w1" using node_run_blocked [of fwd "tg_device tg1" seqs "tg_nodes tg1 ! tg_current tg1" w1 w2]
      run False by simp
    ultimately show ?thesis
      using sg cur lt up f run False dev by (auto simp: stamped_upto_def)
  qed
qed

text \<open>
  C32: a run of the graph always ends; it ends either behind the last node or at a leaf module
  that is not ready and is still not ready in the final state; up to there every node is stamped
  exactly once, since stamping a node again, as a resumed run does, changes nothing; and it never
  changes the graph but for the stamps.
\<close>

theorem graph_run_stops_when_blocked:
  assumes "graph_run fwd seqs tg w = Inr (tg', w')" "tg_current tg \<le> length (tg_nodes tg)"
    "stamped_upto (tg_current tg) tg"
  shows "same_graph tg tg' \<and> tg_current tg \<le> tg_current tg' \<and> stamped_upto (tg_current tg') tg' \<and>
    (check_module_graph_remain tg' \<longrightarrow>
      gn_execution (tg_nodes tg' ! tg_current tg') \<and>
      node_run fwd (tg_device tg') seqs (tg_nodes tg' ! tg_current tg') w' = Inr (False, w') \<and>
      set_stamp tg' w' = Inr (tg', w'))"
proof -
  have "tg_current tg + (length (tg_nodes tg) - tg_current tg) = length (tg_nodes tg)" using assms(2) by simp
  note f = graph_loop_facts [OF assms(1) [unfolded graph_run_def] this assms(3)]
  have sg: "same_graph tg tg'" using f by simp
  note dev = same_graph_device [OF sg] and len = same_graph_length [OF sg]
  have "gn_execution (tg_nodes tg' ! tg_current tg') \<and>
      node_run fwd (tg_device tg') seqs (tg_nodes tg' ! tg_current tg') w' = Inr (False, w') \<and>
      set_stamp tg' w' = Inr (tg', w')" if "check_module_graph_remain tg'"
  proof -
    have "tg_current tg' < length (tg_nodes tg)" using that f len by (simp add: check_module_graph_remain_def)
    with f dev have "gn_stamped (tg_nodes tg' ! tg_current tg')"
      "node_run fwd (tg_device tg') seqs (tg_nodes tg' ! tg_current tg') w' = Inr (False, w')" by simp_all
    with node_run_blocked show ?thesis by (simp add: set_stamp_def Let_def)
  qed
  with f show ?thesis by blast
qed

definition idle_forward :: forward where
  "idle_forward dev node seqs w = Inr w"

definition example_graph :: top_graph where
  "example_graph = (TopModuleGraph_ctor 0)\<lparr>tg_nodes := [leaf_node]\<rparr>"

definition example_world :: "bool \<Rightarrow> world" where
  "example_world ready = \<lparr>w_tensors = [0 \<mapsto> example_x\<lparr>t_ready := ready\<rparr>], w_devices = [example_device],
     w_batches = [example_batch]\<rparr>"

lemma example_graph_runs: "\<exists>tg' w'. graph_run idle_forward 0 example_graph (example_world r) = Inr (tg', w')"
proof -
  have t: "tensor_of (example_world r) (Some 0) = Inr (example_x\<lparr>t_ready := r\<rparr>)"
    by (simp add: tensor_of_def example_world_def)
  have par: "\<not> t_parallel_execution example_x" by (simp add: example_x_def Tensor_ctor_def)
  have "\<exists>tb w1. set_stamp example_graph (example_world r) = Inr (example_graph\<lparr>tg_timeboard := tb,
      tg_nodes := [leaf_node\<lparr>gn_stamped := True\<rparr>]\<rparr>, w1) \<and> w_tensors w1 = w_tensors (example_world r)"
    by (simp add: set_stamp_def example_graph_def TopModuleGraph_ctor_def leaf_node_def Let_def set_push_status_def t par
        push_timestamp_def TimeBoard_ctor_def set_device_def)
  then obtain tb w1 where st: "set_stamp example_graph (example_world r) = Inr (example_graph\<lparr>tg_timeboard := tb,
      tg_nodes := [leaf_node\<lparr>gn_stamped := True\<rparr>]\<rparr>, w1)" and w1: "w_tensors w1 = w_tensors (example_world r)" by blast
  have "tensor_of w1 (Some 0) = Inr (example_x\<lparr>t_ready := r\<rparr>)"
    using t by (simp add: tensor_of_def w1)
  then have "\<exists>ok. node_run idle_forward 0 0 (leaf_node\<lparr>gn_stamped := True\<rparr>) w1 = Inr (ok, w1)"
    by (cases r) (auto simp: node_run_def check_ready_def leaf_node_def idle_forward_def)
  moreover have "length (tg_nodes example_graph) - tg_current example_graph = Suc 0" "tg_current example_graph = 0"
    "tg_device example_graph = 0"
    by (simp_all add: example_graph_def TopModuleGraph_ctor_def)
  ultimately show ?thesis by (auto simp: graph_run_def st)
qed

theorem graph_run_stops_when_blocked_witness:
  "\<exists>tg' w'. graph_run idle_forward 0 example_graph (example_world False) = Inr (tg', w') \<and>
    same_graph example_graph tg' \<and> (check_module_graph_remain tg' \<longrightarrow> set_stamp tg' w' = Inr (tg', w'))"
proof -
  obtain tg' w' where run: "graph_run idle_forward 0 example_graph (example_world False) = Inr (tg', w')"
    using example_graph_runs by blast
  have "tg_current example_graph \<le> length (tg_nodes example_graph)" "stamped_upto (tg_current example_graph) example_graph"
    by (simp_all add: example_graph_def TopModuleGraph_ctor_def stamped_upto_def)
  from graph_run_stops_when_blocked [OF run this] run show ?thesis by blast
qed

section \<open>Synchronisation\<close>

text \<open>The device of a tensor and the time of a device, where the tensor is on a device.\<close>

definition dep_device :: "world \<Rightarrow> nat \<Rightarrow> nat option" where
  "dep_device w k = (case w_tensors w k of None \<Rightarrow> None
     | Some t \<Rightarrow> (case t_device t of None \<Rightarrow> None | Some i \<Rightarrow> if i < length (w_devices w) then Some i else None))"

definition clock :: "world \<Rightarrow> nat \<Rightarrow> real" where
  "clock w i = get_time (w_devices w ! i)"

text \<open>Whether a tensor is marked as synchronised.\<close>

definition synced :: "world \<Rightarrow> nat \<Rightarrow> bool option" where
  "synced w k = map_option t_timeboard_synced (w_tensors w k)"

lemma dep_lookup:
  "rbind (tensor_of w (Some k)) (\<lambda>t. rbind (device_of w (t_device t)) f) =
     (case dep_device w k of None \<Rightarrow> Inl NullPointer | Some i \<Rightarrow> f i)"
  by (auto simp: tensor_of_def device_of_def dep_device_def split: option.splits)

lemma max_dep_time_Inr:
  assumes "max_dep_time w deps = Inr time"
  shows "\<forall>k \<in> set deps. \<exists>i. dep_device w k = Some i \<and> clock w i \<le> time" "0 \<le> time"
    "time = 0 \<or> (\<exists>k \<in> set deps. \<exists>i. dep_device w k = Some i \<and> time = clock w i)"
proof -
  have "rfold (\<lambda>k time. rbind (tensor_of w (Some k)) (\<lambda>t. rbind (device_of w (t_device t)) (\<lambda>i.
       Inr (max time (get_time (w_devices w ! i)))))) ks t0 = Inr time \<Longrightarrow> 0 \<le> t0 \<Longrightarrow> t0 \<le> time \<and>
      (\<forall>k \<in> set ks. \<exists>i. dep_device w k = Some i \<and> clock w i \<le> time) \<and>
      (time = t0 \<or> (\<exists>k \<in> set ks. \<exists>i. dep_device w k = Some i \<and> time = clock w i))" for ks t0
  proof (induction ks arbitrary: t0)
    case (Cons k ks)
    obtain i where i: "dep_device w k = Some i"
      using Cons.prems(1) by (simp only: rfold.simps dep_lookup) (cases "dep_device w k", auto)
    have "rfold (\<lambda>k time. rbind (tensor_of w (Some k)) (\<lambda>t. rbind (device_of w (t_device t)) (\<lambda>i.
       Inr (max time (get_time (w_devices w ! i)))))) ks (max t0 (clock w i)) = Inr time"
      using Cons.prems(1) by (simp only: rfold.simps dep_lookup) (simp add: i dep_lookup clock_def)
    from Cons.IH [OF this] Cons.prems(2) have ih: "max t0 (clock w i) \<le> time"
      "\<forall>k \<in> set ks. \<exists>i. dep_device w k = Some i \<and> clock w i \<le> time"
      "time = max t0 (clock w i) \<or> (\<exists>k \<in> set ks. \<exists>i. dep_device w k = Some i \<and> time = clock w i)"
      by (simp_all add: le_max_iff_disj)
    have "time = t0 \<or> (\<exists>k \<in> set (k # ks). \<exists>i. dep_device w k = Some i \<and> time = clock w i)"
      using ih(3) i by (auto simp: max_def split: if_splits)
    with ih(1,2) i show ?case by simp
  qed simp
  from this [of deps 0] assms show "\<forall>k \<in> set deps. \<exists>i. dep_device w k = Some i \<and> clock w i \<le> time" "0 \<le> time"
    "time = 0 \<or> (\<exists>k \<in> set deps. \<exists>i. dep_device w k = Some i \<and> time = clock w i)"
    by (auto simp: max_dep_time_def)
qed

lemma sync_dep_facts:
  assumes "sync_dep time k w = Inr w'"
  shows "\<exists>i. dep_device w k = Some i \<and> clock w' i = time \<and> (\<forall>j. j \<noteq> i \<longrightarrow> clock w' j = clock w j) \<and>
    (\<forall>m. dep_device w' m = dep_device w m) \<and> synced w' = (synced w)(k := Some True)"
proof -
  obtain t i where t: "w_tensors w k = Some t" and i: "t_device t = Some i" "i < length (w_devices w)"
    and w': "w' = set_device i (set_time time (w_devices w ! i)) (set_tensor k (t\<lparr>t_timeboard_synced := True\<rparr>) w)"
    using assms by (auto simp: sync_dep_def tensor_of_def device_of_def rbind_eq_Inr split: option.splits if_splits)
  have wt: "w_tensors w' = (w_tensors w)(k \<mapsto> t\<lparr>t_timeboard_synced := True\<rparr>)"
    and wd: "w_devices w' = (w_devices w)[i := set_time time (w_devices w ! i)]"
    by (simp_all add: w' set_device_def set_tensor_def)
  have "dep_device w' m = dep_device w m" for m
    using t i by (simp add: dep_device_def wt wd cong: option.case_cong)
  moreover have "clock w' i = time" "j \<noteq> i \<Longrightarrow> clock w' j = clock w j" for j
    using i(2) by (simp_all add: clock_def wd get_time_def set_time_def)
  moreover have "dep_device w k = Some i" using t i by (simp add: dep_device_def)
  moreover have "synced w' = (synced w)(k := Some True)" by (auto simp: synced_def wt)
  ultimately show ?thesis by blast
qed

lemma rfold_sync_dep:
  assumes "rfold (sync_dep time) ks w = Inr w'"
  shows "(\<forall>m. dep_device w' m = dep_device w m) \<and> (\<forall>k \<in> set ks. \<exists>i. dep_device w k = Some i \<and> clock w' i = time) \<and>
    (\<forall>j. (\<forall>k \<in> set ks. dep_device w k \<noteq> Some j) \<longrightarrow> clock w' j = clock w j) \<and>
    (\<forall>j. clock w j = time \<longrightarrow> clock w' j = time) \<and>
    (\<forall>k. synced w' k = (if k \<in> set ks then Some True else synced w k))"
  using assms
proof (induction ks arbitrary: w)
  case (Cons k ks)
  then obtain w1 where one: "sync_dep time k w = Inr w1" and rest: "rfold (sync_dep time) ks w1 = Inr w'"
    by (auto simp: rbind_eq_Inr)
  obtain i where i: "dep_device w k = Some i" "clock w1 i = time" "\<forall>j. j \<noteq> i \<longrightarrow> clock w1 j = clock w j"
    "\<forall>m. dep_device w1 m = dep_device w m" "synced w1 = (synced w)(k := Some True)"
    using sync_dep_facts [OF one] by blast
  have "clock w1 j = time" if "clock w j = time" for j using that i by metis
  with Cons.IH [OF rest] i show ?case by auto
qed simp

lemma clear_synced_facts:
  "clear_synced ptr w = Inr w' \<Longrightarrow> clock w' i = clock w i"
  "clear_synced ptr w = Inr w' \<Longrightarrow> synced w' m = (if ptr = Some m then Some False else synced w m)"
  by (auto simp: clear_synced_def rbind_eq_Inr clock_def synced_def set_tensor_def split: option.splits if_splits)

lemma sync_marked_moves_nothing:
  assumes "sync_devices node w = Inr w'" "gn_input node = Some k" "synced w k = Some True"
  shows "clock w' j = clock w j \<and> synced w' m = (if m = k then Some False else synced w m)"
proof -
  obtain t where "w_tensors w k = Some t" "t_timeboard_synced t" using assms(3) by (auto simp: synced_def)
  with assms(1,2) have "clear_synced (Some k) w = Inr w'" by (simp add: sync_devices_def tensor_of_def)
  from clear_synced_facts [OF this] show ?thesis by auto
qed

text \<open>
  C17: when a synchronising module starts on the first device of its group, so that its input is not
  marked yet, the clocks of all
  devices that hold its dependencies are set to the latest of them (no clock of the group runs
  backwards), the clock of every other device stays, and every dependency is marked as synchronised,
  except the module's own input, whose mark is taken away. A later module of the group, whose input is another of these
  dependencies and still carries its mark, then moves no clock, whatever the clocks have become meanwhile,
  and only takes its own mark away.
\<close>

theorem sync_devices_to_latest:
  assumes "sync_devices node w = Inr w'" "gn_input node = Some k" "synced w k = Some False"
  shows "(\<exists>time.
      (\<forall>k \<in> set (gn_dependency node). \<exists>i. dep_device w k = Some i \<and> clock w i \<le> time \<and> clock w' i = time) \<and>
      (time = 0 \<or> (\<exists>k \<in> set (gn_dependency node). \<exists>i. dep_device w k = Some i \<and> time = clock w i)) \<and>
      (\<forall>j. (\<forall>k \<in> set (gn_dependency node). dep_device w k \<noteq> Some j) \<longrightarrow> clock w' j = clock w j)) \<and>
    (\<forall>m. synced w' m = (if m = k then Some False else if m \<in> set (gn_dependency node) then Some True else synced w m)) \<and>
    (\<forall>later m w1 w2. gn_input later = Some m \<and> m \<in> set (gn_dependency node) \<and> m \<noteq> k \<and> synced w1 m = synced w' m \<and>
       sync_devices later w1 = Inr w2 \<longrightarrow>
       (\<forall>j. clock w2 j = clock w1 j) \<and> (\<forall>n. synced w2 n = (if n = m then Some False else synced w1 n)))"
proof -
  obtain inp where inp: "w_tensors w k = Some inp" "\<not> t_timeboard_synced inp" using assms(3) by (auto simp: synced_def)
  with assms(1,2) obtain time w1 where m: "max_dep_time w (gn_dependency node) = Inr time"
    and r: "rfold (sync_dep time) (gn_dependency node) w = Inr w1" and c: "clear_synced (Some k) w1 = Inr w'"
    by (auto simp: sync_devices_def tensor_of_def rbind_eq_Inr)
  note cl = clear_synced_facts(1) [OF c] and dep = rfold_sync_dep [OF r]
  have "\<exists>i. dep_device w k = Some i \<and> clock w i \<le> time \<and> clock w' i = time" if "k \<in> set (gn_dependency node)" for k
    using max_dep_time_Inr(1) [OF m] dep that cl by fastforce
  moreover have "clock w' j = clock w j" if "\<forall>k \<in> set (gn_dependency node). dep_device w k \<noteq> Some j" for j
    using dep that cl by simp
  moreover have marks: "\<forall>m. synced w' m = (if m = k then Some False else if m \<in> set (gn_dependency node) then Some True else synced w m)"
    using clear_synced_facts(2) [OF c] dep by auto
  moreover have "(\<forall>j. clock w2 j = clock w1 j) \<and> (\<forall>n. synced w2 n = (if n = m then Some False else synced w1 n))"
    if "gn_input later = Some m \<and> m \<in> set (gn_dependency node) \<and> m \<noteq> k \<and> synced w1 m = synced w' m \<and> sync_devices later w1 = Inr w2"
    for later m w1 w2
    using sync_marked_moves_nothing [of later w1 w2 m] that marks by simp
  ultimately show ?thesis using max_dep_time_Inr(3) [OF m] by blast
qed

definition sync_world :: world where
  "sync_world = \<lparr>w_tensors = [0 \<mapsto> example_x\<lparr>t_device := Some 0\<rparr>, 1 \<mapsto> example_x\<lparr>t_device := Some 1\<rparr>],
     w_devices = [set_time 5 example_device, set_time 9 example_device],
     w_batches = [example_batch]\<rparr>"

definition sync_node :: graph_node where
  "sync_node = leaf_node\<lparr>gn_sync := True, gn_dependency := [0, 1]\<rparr>"

lemma sync_example_runs:
  "\<exists>w' w''. sync_devices sync_node sync_world = Inr w' \<and> sync_devices (sync_node\<lparr>gn_input := Some 1\<rparr>) w' = Inr w''"
  by (simp add: sync_devices_def sync_node_def leaf_node_def sync_world_def tensor_of_def device_of_def
      max_dep_time_def sync_dep_def clear_synced_def set_tensor_def set_device_def example_x_def Tensor_ctor_def)

theorem sync_devices_to_latest_witness:
  "\<exists>w' w'' time. sync_devices sync_node sync_world = Inr w' \<and> clock w' 0 = time \<and> clock w' 1 = time \<and>
    clock sync_world 0 \<le> time \<and> clock sync_world 1 \<le> time \<and> synced w' 0 = Some False \<and> synced w' 1 = Some True \<and>
    sync_devices (sync_node\<lparr>gn_input := Some 1\<rparr>) w' = Inr w'' \<and> clock w'' 0 = time \<and> clock w'' 1 = time \<and> synced w'' 1 = Some False"
proof -
  obtain w' w'' where run: "sync_devices sync_node sync_world = Inr w'"
    and later: "sync_devices (sync_node\<lparr>gn_input := Some 1\<rparr>) w' = Inr w''" using sync_example_runs by blast
  have inp: "gn_input sync_node = Some 0" "synced sync_world 0 = Some False"
    by (simp_all add: synced_def sync_world_def sync_node_def leaf_node_def example_x_def Tensor_ctor_def)
  have deps: "gn_dependency sync_node = [0, 1]" by (simp add: sync_node_def)
  note first = sync_devices_to_latest [OF run inp, unfolded deps]
  obtain time where t: "\<forall>k \<in> set [0, 1]. \<exists>i. dep_device sync_world k = Some i \<and>
      clock sync_world i \<le> time \<and> clock w' i = time"
    using first by blast
  have d: "dep_device sync_world 0 = Some 0" "dep_device sync_world 1 = Some 1"
    by (simp_all add: dep_device_def sync_world_def)
  have k0: "\<exists>i. dep_device sync_world 0 = Some i \<and> clock sync_world i \<le> time \<and> clock w' i = time"
    and k1: "\<exists>i. dep_device sync_world 1 = Some i \<and> clock sync_world i \<le> time \<and> clock w' i = time"
    using t by simp_all
  have marks: "synced w' 0 = Some False" "synced w' 1 = Some True" using first by simp_all
  have "(\<forall>j. clock w'' j = clock w' j) \<and> (\<forall>n. synced w'' n = (if n = 1 then Some False else synced w' n))"
    using conjunct2 [OF conjunct2 [OF first], rule_format, of "sync_node\<lparr>gn_input := Some 1\<rparr>" 1 w' w''] later by simp
  with run later k0 k1 marks show ?thesis unfolding d by auto
qed

section \<open>Time and energy of a leaf\<close>

lemma pop_totals_keeps:
  "sb_device_time (pop_totals es st) = sb_device_time st" "sb_high_time (pop_totals es st) = sb_high_time st"
  "sb_low_time (pop_totals es st) = sb_low_time st" "sb_dram_energy (pop_totals es st) = sb_dram_energy st"
  "sb_mac_energy (pop_totals es st) = sb_mac_energy st"
  by (simp_all add: pop_totals_def sb_dram_energy_def)

definition spent_energy :: "dram_energy \<Rightarrow> exec_status \<Rightarrow> real" where
  "spent_energy p es = of_int (es_act_count es) * kACT_energy p + of_int (es_read_count es) * kREAD_energy p +
     of_int (es_write_count es) * kWRITE_energy p + of_int (es_all_act_count es) * kALL_ACT_energy p +
     of_int (es_all_read_count es) * kALL_READ_energy p + of_int (es_all_write_count es) * kALL_WRITE_energy p"

lemma pop_energy_facts:
  "sb_device_time (pop_energy p es st) = sb_device_time st" "sb_high_time (pop_energy p es st) = sb_high_time st"
  "sb_low_time (pop_energy p es st) = sb_low_time st"
  "sb_dram_energy (pop_energy p es st) = sb_dram_energy st + spent_energy p es"
  "sb_mac_energy (pop_energy p es st) = sb_mac_energy st + es_flops es * kMAC_energy p"
  by (simp_all add: pop_energy_def sb_dram_energy_def spent_energy_def)

lemma pop_times_keeps:
  "sb_dram_energy (pop_times es st) = sb_dram_energy st" "sb_mac_energy (pop_times es st) = sb_mac_energy st"
  by (simp_all add: pop_times_def Let_def sb_dram_energy_def)

lemma pop_times_alone:
  assumes "\<not> sb_parallel_execution st"
  shows "sb_device_time (pop_times es st) = sb_device_time st + es_total_duration es"
    "sb_high_time (pop_times es st) = sb_high_time st" "sb_low_time (pop_times es st) = sb_low_time st"
  using assms by (simp_all add: pop_times_def)

lemma pop_times_high:
  assumes "sb_parallel_execution st" "es_processor_type es = GPU"
  shows "sb_high_time (pop_times es st) = sb_high_time st + es_total_duration es"
    "sb_device_time (pop_times es st) = sb_high_time st + es_total_duration es"
    "sb_low_time (pop_times es st) = sb_low_time st"
  using assms by (simp_all add: pop_times_def Let_def)

lemma pop_times_low:
  assumes "sb_parallel_execution st" "es_processor_type es \<noteq> GPU" "runs_on es"
  shows "sb_low_time (pop_times es st) = sb_low_time st + es_total_duration es"
    "sb_device_time (pop_times es st) = sb_low_time st + es_total_duration es"
    "sb_high_time (pop_times es st) = sb_high_time st"
  using assms by (auto simp: pop_times_def runs_on_def Let_def)

text \<open>The status with the result recorded, before the clock advances.\<close>

definition pop_input :: "graph_node \<Rightarrow> bool \<Rightarrow> status_board \<Rightarrow> status_board" where
  "pop_input node par st = (if gn_isTensorVec node then st\<lparr>sb_isTensorVec := True, sb_tensor_vec := gn_input_vec node\<rparr>
     else st\<lparr>sb_isTensorVec := False, sb_tensor := gn_input node, sb_parallel_execution := par\<rparr>)"

lemma pop_input_keeps:
  "sb_device_time (pop_input node par st) = sb_device_time st" "sb_high_time (pop_input node par st) = sb_high_time st"
  "sb_low_time (pop_input node par st) = sb_low_time st" "sb_dram_energy (pop_input node par st) = sb_dram_energy st"
  "sb_mac_energy (pop_input node par st) = sb_mac_energy st"
  "\<not> gn_isTensorVec node \<Longrightarrow> sb_parallel_execution (pop_input node par st) = par"
  by (simp_all add: pop_input_def sb_dram_energy_def)

lemma set_pop_status_shape:
  assumes "set_pop_status w node powers es st = Inr st'" "runs_on es" "tensor_of w (gn_input node) = Inr t"
  shows "\<exists>p. vec_ix powers (ptype_int (es_processor_type es)) = Inr p \<and>
    st' = pop_totals es (pop_energy p es (pop_times es (pop_input node (t_parallel_execution t) st)))"
  using assms unfolding set_pop_status_def pop_input_def
  by (cases "gn_isTensorVec node") (auto simp: rbind_eq_Inr Let_def)

text \<open>
  closing a leaf that ran on a processor advances the clock by its duration: the device clock
  when it ran alone, and the clock of its side (GPU or near memory), which the device clock follows,
  when the two sides run in parallel; the DRAM energy grows by the commands counted times the
  energy per command of that processor, and the compute energy by its operations.
\<close>

theorem set_pop_status_accounts:
  assumes "set_pop_status w node powers es st = Inr st'" "runs_on es" "tensor_of w (gn_input node) = Inr t"
    "\<not> gn_isTensorVec node"
  shows "\<exists>p. vec_ix powers (ptype_int (es_processor_type es)) = Inr p \<and>
    sb_dram_energy st' = sb_dram_energy st + spent_energy p es \<and>
    sb_mac_energy st' = sb_mac_energy st + es_flops es * kMAC_energy p \<and>
    (\<not> t_parallel_execution t \<longrightarrow> sb_device_time st' = sb_device_time st + es_total_duration es \<and>
      sb_high_time st' = sb_high_time st \<and> sb_low_time st' = sb_low_time st) \<and>
    (t_parallel_execution t \<longrightarrow> (if es_processor_type es = GPU
      then sb_high_time st' = sb_high_time st + es_total_duration es \<and> sb_device_time st' = sb_high_time st' \<and>
        sb_low_time st' = sb_low_time st
      else sb_low_time st' = sb_low_time st + es_total_duration es \<and> sb_device_time st' = sb_low_time st' \<and>
        sb_high_time st' = sb_high_time st))"
proof -
  obtain p where p: "vec_ix powers (ptype_int (es_processor_type es)) = Inr p"
    and st': "st' = pop_totals es (pop_energy p es (pop_times es (pop_input node (t_parallel_execution t) st)))"
    using set_pop_status_shape [OF assms(1-3)] by blast
  define s where "s = pop_input node (t_parallel_execution t) st"
  note k = pop_input_keeps [of node "t_parallel_execution t" st, folded s_def]
  note st' = st' [folded s_def]
  have energy: "sb_dram_energy st' = sb_dram_energy st + spent_energy p es"
    "sb_mac_energy st' = sb_mac_energy st + es_flops es * kMAC_energy p"
    by (simp_all add: st' pop_totals_keeps pop_energy_facts pop_times_keeps k)
  have times: "sb_device_time st' = sb_device_time (pop_times es s)" "sb_high_time st' = sb_high_time (pop_times es s)"
    "sb_low_time st' = sb_low_time (pop_times es s)"
    by (simp_all add: st' pop_totals_keeps pop_energy_facts)
  have par: "sb_parallel_execution s = t_parallel_execution t" using k(6) assms(4) by simp
  show ?thesis
  proof (intro exI conjI, rule p, rule energy(1), rule energy(2))
    show "\<not> t_parallel_execution t \<longrightarrow> sb_device_time st' = sb_device_time st + es_total_duration es \<and>
        sb_high_time st' = sb_high_time st \<and> sb_low_time st' = sb_low_time st"
      using pop_times_alone [of s es] par by (simp add: times k)
    show "t_parallel_execution t \<longrightarrow> (if es_processor_type es = GPU
      then sb_high_time st' = sb_high_time st + es_total_duration es \<and> sb_device_time st' = sb_high_time st' \<and>
        sb_low_time st' = sb_low_time st
      else sb_low_time st' = sb_low_time st + es_total_duration es \<and> sb_device_time st' = sb_low_time st' \<and>
        sb_high_time st' = sb_high_time st)"
      using pop_times_high [of s es] pop_times_low [of s es] par assms(2) by (simp add: times k)
  qed
qed

theorem set_pop_status_accounts_witness:
  "\<exists>st' p. set_pop_status (example_world True) leaf_node [gpuEnergy, pimEnergy, logicEnergy, gpuEnergy]
      (ExecStatus_ctor\<lparr>es_processor_type := GPU, es_total_duration := 40, es_read_count := 3\<rparr>) push_point = Inr st' \<and>
    sb_device_time st' = 140 \<and> sb_dram_energy st' = sb_dram_energy push_point + spent_energy p
      (ExecStatus_ctor\<lparr>es_processor_type := GPU, es_total_duration := 40, es_read_count := 3\<rparr>)"
proof -
  let ?es = "ExecStatus_ctor\<lparr>es_processor_type := GPU, es_total_duration := 40, es_read_count := 3\<rparr>"
  let ?pw = "[gpuEnergy, pimEnergy, logicEnergy, gpuEnergy]"
  have t: "tensor_of (example_world True) (gn_input leaf_node) = Inr (example_x\<lparr>t_ready := True\<rparr>)"
    by (simp add: tensor_of_def example_world_def leaf_node_def)
  have nv: "\<not> gn_isTensorVec leaf_node" "runs_on ?es" "\<not> t_parallel_execution (example_x\<lparr>t_ready := True\<rparr>)"
    by (simp_all add: leaf_node_def runs_on_def example_x_def Tensor_ctor_def)
  obtain st' where run: "set_pop_status (example_world True) leaf_node ?pw ?es push_point = Inr st'"
    using nv(1) t by (simp add: set_pop_status_def Let_def runs_on_def vec_ix_def)
  from set_pop_status_accounts [OF run nv(2) t nv(1)] run nv(3) show ?thesis
    by (auto simp: push_point_def)
qed

end
