(* ===== verification/Cluster_Props.thy ===== *)
theory Cluster_Props
  imports Cluster_Model Graph_Props
begin

text \<open>
  Properties of the cluster's construction and of its run loop. A round that advances no device
  leaves the cluster as it is, so the loop either ends within as many rounds as there are nodes left
  (and two more) or never ends.
\<close>

section \<open>Progress of a device\<close>

definition graph_ok :: "top_graph \<Rightarrow> bool" where
  "graph_ok tg \<longleftrightarrow> tg_current tg \<le> length (tg_nodes tg) \<and> stamped_upto (tg_current tg) tg"

text \<open>A graph that has stopped: at the end, or at a node that has its stamp.\<close>

definition settled :: "top_graph \<Rightarrow> bool" where
  "settled tg \<longleftrightarrow> graph_ok tg \<and> (check_module_graph_remain tg \<longrightarrow> gn_stamped (tg_nodes tg ! tg_current tg))"

lemma graph_run_facts:
  assumes "graph_run fwd b tg w = Inr (tg', w')" "graph_ok tg"
  shows "settled tg'" "same_graph tg tg'" "tg_current tg \<le> tg_current tg'"
    "check_module_graph_remain tg' \<longrightarrow> node_run fwd (tg_device tg') b (tg_nodes tg' ! tg_current tg') w' = Inr (False, w')"
proof -
  have "tg_current tg + (length (tg_nodes tg) - tg_current tg) = length (tg_nodes tg)"
    using assms(2) by (simp add: graph_ok_def)
  note f = graph_loop_facts [OF assms(1) [unfolded graph_run_def] this] assms(2) [unfolded graph_ok_def]
  have sg: "same_graph tg tg'" using f by blast
  note len = same_graph_length [OF sg]
  show "same_graph tg tg'" by (rule sg)
  show "tg_current tg \<le> tg_current tg'" using f by blast
  show "settled tg'"
    using f len by (auto simp: settled_def graph_ok_def check_module_graph_remain_def)
  show "check_module_graph_remain tg' \<longrightarrow> node_run fwd (tg_device tg') b (tg_nodes tg' ! tg_current tg') w' = Inr (False, w')"
    using f len same_graph_device [OF sg] by (auto simp: check_module_graph_remain_def)
qed

text \<open>A settled graph that does not advance leaves everything as it was.\<close>

lemma graph_run_idle:
  assumes "graph_run fwd b tg w = Inr (tg', w')" "settled tg" "tg_current tg' = tg_current tg"
  shows "tg' = tg \<and> w' = w"
proof (cases "check_module_graph_remain tg")
  case False
  then show ?thesis
    using assms(1) by (simp add: graph_run_def check_module_graph_remain_def)
next
  case True
  then have lt: "tg_current tg < length (tg_nodes tg)"
    using assms(2) by (simp add: settled_def graph_ok_def check_module_graph_remain_def)
  then obtain n where n: "length (tg_nodes tg) - tg_current tg = Suc n" by (metis Suc_diff_Suc)
  have st: "set_stamp tg w = Inr (tg, w)"
    using True assms(2) by (simp add: settled_def set_stamp_def Let_def)
  obtain ok w1 where run: "node_run fwd (tg_device tg) b (tg_nodes tg ! tg_current tg) w = Inr (ok, w1)"
    and rest: "(if ok then graph_loop n fwd b (tg\<lparr>tg_current := Suc (tg_current tg)\<rparr>) w1 else Inr (tg, w1)) = Inr (tg', w')"
    using assms(1) by (auto simp: graph_run_def n st rbind_eq_Inr)
  have "\<not> ok"
  proof
    assume ok
    let ?tg = "tg\<lparr>tg_current := Suc (tg_current tg)\<rparr>"
    have "graph_loop n fwd b ?tg w1 = Inr (tg', w')" using rest \<open>ok\<close> by simp
    moreover have "tg_current ?tg + n = length (tg_nodes ?tg)" using n lt by simp
    moreover have "stamped_upto (tg_current ?tg) ?tg"
      using assms(2) True by (auto simp: settled_def graph_ok_def stamped_upto_def less_Suc_eq)
    ultimately have "tg_current ?tg \<le> tg_current tg'" by (meson graph_loop_facts)
    with assms(3) show False by simp
  qed
  with rest run node_run_blocked [of fwd "tg_device tg" b "tg_nodes tg ! tg_current tg" w w1]
  show ?thesis by auto
qed

section \<open>Progress of a round\<close>

definition cluster_ok :: "cluster \<Rightarrow> bool" where
  "cluster_ok cl \<longleftrightarrow> (\<forall>tg \<in> set (cl_graphs cl). graph_ok tg) \<and>
     (\<forall>i \<in> set (cluster_devices cl). i < length (cl_graphs cl))"

definition shared_cache :: "world \<Rightarrow> bool" where
  "shared_cache w \<longleftrightarrow> (\<forall>i < length (w_devices w). \<forall>j < length (w_devices w).
     dv_cache (w_devices w ! i) = dv_cache (w_devices w ! j))"

definition cluster_settled :: "cluster \<Rightarrow> bool" where
  "cluster_settled cl \<longleftrightarrow> cluster_ok cl \<and> (\<forall>i \<in> set (cluster_devices cl). settled (cl_graphs cl ! i)) \<and>
     shared_cache (cl_world cl)"

text \<open>Positions only move forward: the graphs of a later cluster are those of the earlier one, further on.\<close>

definition moved_on :: "cluster \<Rightarrow> cluster \<Rightarrow> bool" where
  "moved_on cl cl' \<longleftrightarrow> cl_node cl' = cl_node cl \<and>
     list_all2 (\<lambda>tg tg'. same_graph tg tg' \<and> tg_current tg \<le> tg_current tg') (cl_graphs cl) (cl_graphs cl')"

lemma same_graph_refl [simp]: "same_graph tg tg"
  by (simp add: same_graph_def)

lemma moved_on_refl [simp]: "moved_on cl cl"
  by (simp add: moved_on_def list_all2_refl)

lemma moved_on_trans:
  assumes "moved_on a b" "moved_on b c"
  shows "moved_on a c"
proof -
  let ?R = "\<lambda>tg tg'. same_graph tg tg' \<and> tg_current tg \<le> tg_current tg'"
  have "list_all2 ?R (cl_graphs a) (cl_graphs c)"
    by (rule list_all2_trans [of ?R ?R ?R "cl_graphs a" "cl_graphs b"])
      (use assms in \<open>auto simp: moved_on_def intro: same_graph_trans\<close>)
  with assms show ?thesis by (simp add: moved_on_def)
qed

lemma moved_on_devices: "moved_on cl cl' \<Longrightarrow> cluster_devices cl' = cluster_devices cl"
  by (simp add: moved_on_def cluster_devices_def)

lemma moved_on_nth:
  assumes "moved_on cl cl'" "i < length (cl_graphs cl)"
  shows "same_graph (cl_graphs cl ! i) (cl_graphs cl' ! i)"
    "tg_current (cl_graphs cl ! i) \<le> tg_current (cl_graphs cl' ! i)"
  using assms by (auto simp: moved_on_def dest: list_all2_nthD)

lemma moved_on_length: "moved_on cl cl' \<Longrightarrow> length (cl_graphs cl') = length (cl_graphs cl)"
  by (auto simp: moved_on_def dest: list_all2_lengthD)

lemma shared_share_cache: "shared_cache (share_cache i w)"
  by (simp add: shared_cache_def share_cache_def)

lemma share_cache_idle:
  assumes "shared_cache w" "i < length (w_devices w)"
  shows "share_cache i w = w"
proof -
  have "d\<lparr>dv_cache := dv_cache (w_devices w ! i)\<rparr> = d" if "d \<in> set (w_devices w)" for d
  proof -
    have "dv_cache (w_devices w ! i) = dv_cache d"
      using assms that by (metis in_set_conv_nth shared_cache_def)
    then show ?thesis by (cases d) simp
  qed
  then have "map (\<lambda>d. d\<lparr>dv_cache := dv_cache (w_devices w ! i)\<rparr>) (w_devices w) = w_devices w"
    by (rule map_idI)
  then show ?thesis unfolding share_cache_def by simp
qed

lemma device_run_cases:
  assumes "device_run fwd i cl = Inr cl'"
  obtains dp tg w where "i < length (w_devices (cl_world cl))"
    "graph_run fwd dp (cl_graphs cl ! i) (cl_world cl) = Inr (tg, w)"
    "cl' = cl\<lparr>cl_graphs := (cl_graphs cl)[i := tg], cl_world := share_cache i w\<rparr>"
  using assms by (auto simp: device_run_def device_of_def Let_def rbind_eq_Inr split: if_splits)

lemma device_run_step:
  assumes "device_run fwd i cl = Inr cl'" "cluster_ok cl" "i < length (cl_graphs cl)"
  shows "cluster_ok cl'" "moved_on cl cl'" "settled (cl_graphs cl' ! i)" "shared_cache (cl_world cl')"
    "\<forall>j < length (cl_graphs cl). settled (cl_graphs cl ! j) \<longrightarrow> settled (cl_graphs cl' ! j)"
proof -
  obtain dp tg w where run: "graph_run fwd dp (cl_graphs cl ! i) (cl_world cl) = Inr (tg, w)"
    and cl': "cl' = cl\<lparr>cl_graphs := (cl_graphs cl)[i := tg], cl_world := share_cache i w\<rparr>"
    using assms(1) by (rule device_run_cases)
  have ok: "graph_ok (cl_graphs cl ! i)" using assms(2,3) by (simp add: cluster_ok_def)
  note f = graph_run_facts [OF run ok]
  show "settled (cl_graphs cl' ! i)" using f(1) assms(3) by (simp add: cl')
  show "shared_cache (cl_world cl')" by (simp add: cl' shared_share_cache)
  show "\<forall>j < length (cl_graphs cl). settled (cl_graphs cl ! j) \<longrightarrow> settled (cl_graphs cl' ! j)"
    using f(1) assms(3) by (simp add: cl' nth_list_update)
  show "moved_on cl cl'"
    using f(2,3) assms(3) by (auto simp: cl' moved_on_def list_all2_conv_all_nth nth_list_update)
  show "cluster_ok cl'"
    using f(1) assms(2) set_update_subset_insert [of "cl_graphs cl" i tg]
    by (auto simp: cl' cluster_ok_def cluster_devices_def settled_def)
qed

lemma devices_run:
  assumes "rfold (device_run fwd) is cl = Inr cl'" "cluster_ok cl" "set is \<subseteq> {..<length (cl_graphs cl)}"
  shows "cluster_ok cl' \<and> moved_on cl cl' \<and> (\<forall>i \<in> set is. settled (cl_graphs cl' ! i)) \<and>
    (is \<noteq> [] \<longrightarrow> shared_cache (cl_world cl')) \<and>
    (\<forall>j < length (cl_graphs cl). settled (cl_graphs cl ! j) \<longrightarrow> settled (cl_graphs cl' ! j))"
  using assms
proof (induction "is" arbitrary: cl)
  case Nil
  then show ?case by simp
next
  case (Cons i xs)
  obtain c1 where c1: "device_run fwd i cl = Inr c1" and rest: "rfold (device_run fwd) xs c1 = Inr cl'"
    using Cons.prems(1) by (auto simp: rbind_eq_Inr)
  have i: "i < length (cl_graphs cl)" using Cons.prems(3) by simp
  note s = device_run_step [OF c1 Cons.prems(2) i]
  note len = moved_on_length [OF s(2)]
  have "set xs \<subseteq> {..<length (cl_graphs c1)}" using Cons.prems(3) len by simp
  note ih = Cons.IH [OF rest s(1) this]
  have "shared_cache (cl_world cl')"
    using ih s(4) rest by (cases "xs = []") auto
  moreover have "moved_on cl cl'" using ih moved_on_trans [OF s(2)] by blast
  ultimately show ?case using ih s(3,5) i len by simp
qed

lemma round_settles:
  assumes "cluster_round fwd cl = Inr cl'" "cluster_ok cl" "cluster_devices cl \<noteq> []"
  shows "cluster_settled cl' \<and> moved_on cl cl'"
proof -
  have "set (cluster_devices cl) \<subseteq> {..<length (cl_graphs cl)}" using assms(2) by (auto simp: cluster_ok_def)
  note f = devices_run [OF assms(1) [unfolded cluster_round_def] assms(2) this]
  with assms(3) moved_on_devices [of cl cl'] show ?thesis by (simp add: cluster_settled_def)
qed

text \<open>The measure: nodes that are still ahead.\<close>

lemma remaining_moved:
  assumes "moved_on cl cl'"
  shows "remaining_nodes cl' \<le> remaining_nodes cl"
    "remaining_nodes cl' = remaining_nodes cl \<Longrightarrow> cluster_ok cl \<Longrightarrow> cluster_ok cl' \<Longrightarrow>
      \<forall>i < length (cl_graphs cl). tg_current (cl_graphs cl' ! i) = tg_current (cl_graphs cl ! i)"
proof -
  let ?m = "\<lambda>tg. length (tg_nodes tg) - tg_current tg"
  have all2: "list_all2 (\<lambda>tg tg'. same_graph tg tg' \<and> tg_current tg \<le> tg_current tg') (cl_graphs cl) (cl_graphs cl')"
    using assms by (simp add: moved_on_def)
  then have "sum_list (map ?m (cl_graphs cl')) \<le> sum_list (map ?m (cl_graphs cl))"
    by (induction rule: list_all2_induct) (auto dest!: same_graph_length)
  then show "remaining_nodes cl' \<le> remaining_nodes cl" by (simp add: remaining_nodes_def)
  assume eq: "remaining_nodes cl' = remaining_nodes cl" and ok: "cluster_ok cl" "cluster_ok cl'"
  have le: "sum_list (map ?m ys) \<le> sum_list (map ?m xs)"
    if "list_all2 (\<lambda>tg tg'. same_graph tg tg' \<and> tg_current tg \<le> tg_current tg') xs ys" for xs ys
    using that by (induction rule: list_all2_induct) (auto dest!: same_graph_length)
  have "list_all2 (\<lambda>tg tg'. tg_current tg' = tg_current tg) xs ys"
    if "list_all2 (\<lambda>tg tg'. same_graph tg tg' \<and> tg_current tg \<le> tg_current tg') xs ys"
      "sum_list (map ?m ys) = sum_list (map ?m xs)" "\<forall>tg \<in> set xs. graph_ok tg" "\<forall>tg \<in> set ys. graph_ok tg" for xs ys
    using that
  proof (induction rule: list_all2_induct)
    case Nil
    then show ?case by simp
  next
    case (Cons x xs y ys)
    have len: "length (tg_nodes y) = length (tg_nodes x)" using Cons.hyps(1) same_graph_length by blast
    have "?m y \<le> ?m x" using Cons.hyps(1) len by (simp add: diff_le_mono2)
    moreover have "sum_list (map ?m ys) \<le> sum_list (map ?m xs)" by (rule le [OF Cons.hyps(2)])
    ultimately have eqs: "?m y = ?m x" "sum_list (map ?m ys) = sum_list (map ?m xs)"
      using Cons.prems(1) by simp_all
    have "graph_ok x" "graph_ok y" using Cons.prems(2,3) by simp_all
    then have "tg_current x \<le> length (tg_nodes x)" "tg_current y \<le> length (tg_nodes x)"
      using len by (simp_all add: graph_ok_def)
    then have "tg_current y = tg_current x" using eqs(1) len by linarith
    with Cons.IH eqs(2) Cons.prems(2,3) show ?case by simp
  qed
  from this [OF all2] eq ok
  show "\<forall>i < length (cl_graphs cl). tg_current (cl_graphs cl' ! i) = tg_current (cl_graphs cl ! i)"
    by (auto simp: remaining_nodes_def cluster_ok_def dest: list_all2_nthD)
qed

text \<open>A round that advances no device of a settled cluster does nothing.\<close>

lemma devices_idle:
  assumes "rfold (device_run fwd) is cl = Inr cl'" "cluster_settled cl" "set is \<subseteq> set (cluster_devices cl)"
    "\<forall>i < length (cl_graphs cl). tg_current (cl_graphs cl' ! i) = tg_current (cl_graphs cl ! i)"
  shows "cl' = cl"
  using assms
proof (induction "is")
  case Nil
  then show ?case by simp
next
  case (Cons i xs)
  have ok: "cluster_ok cl" and set: "settled (cl_graphs cl ! i)" and sh: "shared_cache (cl_world cl)"
    using Cons.prems(2,3) by (simp_all add: cluster_settled_def)
  have bounds: "\<forall>j \<in> set (cluster_devices cl). j < length (cl_graphs cl)" using ok by (simp add: cluster_ok_def)
  then have i: "i < length (cl_graphs cl)" using Cons.prems(3) by simp
  obtain c1 where c1: "device_run fwd i cl = Inr c1" and rest: "rfold (device_run fwd) xs c1 = Inr cl'"
    using Cons.prems(1) by (auto simp: rbind_eq_Inr)
  note s = device_run_step [OF c1 ok i]
  obtain dp tg w where lt: "i < length (w_devices (cl_world cl))"
    and run: "graph_run fwd dp (cl_graphs cl ! i) (cl_world cl) = Inr (tg, w)"
    and c1': "c1 = cl\<lparr>cl_graphs := (cl_graphs cl)[i := tg], cl_world := share_cache i w\<rparr>"
    using c1 by (rule device_run_cases)
  have "set xs \<subseteq> {..<length (cl_graphs c1)}" using Cons.prems(3) bounds moved_on_length [OF s(2)] by auto
  with devices_run [OF rest s(1)] have m: "moved_on c1 cl'" by simp
  have "tg_current tg \<le> tg_current (cl_graphs cl' ! i)"
    using moved_on_nth(2) [OF m, of i] i moved_on_length [OF s(2)] by (simp add: c1')
  moreover have "tg_current (cl_graphs cl ! i) \<le> tg_current tg"
    using graph_run_facts(3) [OF run] set by (simp add: settled_def)
  ultimately have "tg_current tg = tg_current (cl_graphs cl ! i)" using Cons.prems(4) i by simp
  from graph_run_idle [OF run set this] have "tg = cl_graphs cl ! i" "w = cl_world cl" by simp_all
  then have "c1 = cl" using share_cache_idle [OF sh lt] by (simp add: c1')
  with Cons.IH rest Cons.prems show ?case by simp
qed

section \<open>The run loop\<close>

lemma remain_devices: "cluster_remain cl \<Longrightarrow> cluster_devices cl \<noteq> []"
  by (auto simp: cluster_remain_def)

lemma stuck_loop:
  "cluster_round fwd cl = Inr cl \<Longrightarrow> cluster_remain cl \<Longrightarrow> cluster_loop n fwd cl = Inl OutOfFuel"
  by (induction n) simp_all

lemma settled_loop:
  assumes "cluster_settled cl" "remaining_nodes cl < n"
  shows "cluster_loop n fwd cl = cluster_loop (Suc (remaining_nodes cl)) fwd cl"
  using assms
proof (induction "remaining_nodes cl" arbitrary: cl n rule: less_induct)
  case less
  obtain m where n: "n = Suc m" using less.prems(2) by (cases n) auto
  show ?case
  proof (cases "cluster_remain cl")
    case False
    then show ?thesis by (simp add: n)
  next
    case True
    show ?thesis
    proof (cases "cluster_round fwd cl")
      case (Inl e)
      with True show ?thesis by (simp add: n)
    next
      case (Inr c1)
      have ok: "cluster_ok cl" using less.prems(1) by (simp add: cluster_settled_def)
      have s: "cluster_settled c1" and m: "moved_on cl c1"
        using round_settles [OF Inr ok remain_devices [OF True]] by simp_all
      show ?thesis
      proof (cases "remaining_nodes c1 = remaining_nodes cl")
        case True
        have "cluster_ok c1" using s by (simp add: cluster_settled_def)
        from remaining_moved(2) [OF m True ok this]
        have "c1 = cl" by (rule devices_idle [OF Inr [unfolded cluster_round_def] less.prems(1) subset_refl])
        with stuck_loop Inr \<open>cluster_remain cl\<close> show ?thesis by metis
      next
        case False
        then have lt: "remaining_nodes c1 < remaining_nodes cl"
          using remaining_moved(1) [OF m] by simp
        have "cluster_loop m fwd c1 = cluster_loop (Suc (remaining_nodes c1)) fwd c1"
          using less.prems(2) lt by (intro less.hyps [OF lt s]) (simp add: n)
        moreover have "cluster_loop (remaining_nodes cl) fwd c1 = cluster_loop (Suc (remaining_nodes c1)) fwd c1"
          by (intro less.hyps [OF lt s] lt)
        ultimately show ?thesis using True Inr by (simp add: n)
      qed
    qed
  qed
qed

lemma loop_done: "cluster_loop n fwd cl = Inr cl' \<Longrightarrow> \<not> cluster_remain cl'"
  by (induction n arbitrary: cl) (auto simp: rbind_eq_Inr split: if_splits)

lemma loop_moved:
  assumes "cluster_loop n fwd cl = Inr cl'" "cluster_ok cl"
  shows "cluster_ok cl' \<and> moved_on cl cl'"
  using assms
proof (induction n arbitrary: cl)
  case 0
  then show ?case by (simp split: if_splits)
next
  case (Suc n)
  show ?case
  proof (cases "cluster_remain cl")
    case False
    with Suc.prems show ?thesis by simp
  next
    case True
    then obtain c1 where c1: "cluster_round fwd cl = Inr c1" and rest: "cluster_loop n fwd c1 = Inr cl'"
      using Suc.prems(1) by (auto simp: rbind_eq_Inr)
    have f: "cluster_settled c1" "moved_on cl c1"
      using round_settles [OF c1 Suc.prems(2) remain_devices [OF True]] by simp_all
    then have "cluster_ok c1" by (simp add: cluster_settled_def)
    from Suc.IH [OF rest this] moved_on_trans [OF f(2)] show ?thesis by blast
  qed
qed

text \<open>
  C8: the loop of \<^verbatim>\<open>Cluster::run\<close>: whatever the modules do, two more rounds than there are
  nodes left decide it, more fuel never changes the outcome; so it returns within that many rounds
  or never does. When it returns, every device is behind the last node of an unchanged graph all of
  whose nodes are stamped.
\<close>

theorem cluster_loop_decided:
  assumes "cluster_ok cl" "remaining_nodes cl + 2 \<le> n"
  shows "cluster_loop n fwd cl = cluster_loop (remaining_nodes cl + 2) fwd cl \<and>
    (\<forall>cl' i. cluster_loop n fwd cl = Inr cl' \<longrightarrow> i \<in> set (cluster_devices cl) \<longrightarrow>
       same_graph (cl_graphs cl ! i) (cl_graphs cl' ! i) \<and>
       list_all gn_stamped (tg_nodes (cl_graphs cl' ! i)))"
proof
  obtain m where n: "n = Suc m" using assms(2) by (cases n) auto
  show "cluster_loop n fwd cl = cluster_loop (remaining_nodes cl + 2) fwd cl"
  proof (cases "cluster_remain cl")
    case False
    then show ?thesis by (simp add: n)
  next
    case True
    show ?thesis
    proof (cases "cluster_round fwd cl")
      case (Inl e)
      with True show ?thesis by (simp add: n)
    next
      case (Inr c1)
      have s: "cluster_settled c1" and m: "moved_on cl c1"
        using round_settles [OF Inr assms(1) remain_devices [OF True]] by simp_all
      have "remaining_nodes c1 \<le> remaining_nodes cl" by (rule remaining_moved(1) [OF m])
      then have "cluster_loop m fwd c1 = cluster_loop (Suc (remaining_nodes c1)) fwd c1"
        "cluster_loop (Suc (remaining_nodes cl)) fwd c1 = cluster_loop (Suc (remaining_nodes c1)) fwd c1"
        using assms(2) by (auto intro!: settled_loop [OF s] simp: n simp del: cluster_loop.simps)
      with True Inr show ?thesis by (simp add: n)
    qed
  qed
next
  show "\<forall>cl' i. cluster_loop n fwd cl = Inr cl' \<longrightarrow> i \<in> set (cluster_devices cl) \<longrightarrow>
       same_graph (cl_graphs cl ! i) (cl_graphs cl' ! i) \<and> list_all gn_stamped (tg_nodes (cl_graphs cl' ! i))"
  proof (intro allI impI)
    fix cl' i
    assume run: "cluster_loop n fwd cl = Inr cl'" and i: "i \<in> set (cluster_devices cl)"
    have f: "cluster_ok cl'" "moved_on cl cl'" using loop_moved [OF run assms(1)] by simp_all
    have lt: "i < length (cl_graphs cl)" using assms(1) i by (simp add: cluster_ok_def)
    have "\<not> check_module_graph_remain (cl_graphs cl' ! i)"
      using loop_done [OF run] i moved_on_devices [OF f(2)] by (auto simp: cluster_remain_def list_ex_iff)
    moreover have "graph_ok (cl_graphs cl' ! i)"
      using f lt moved_on_length [OF f(2)] by (simp add: cluster_ok_def)
    ultimately show "same_graph (cl_graphs cl ! i) (cl_graphs cl' ! i) \<and>
        list_all gn_stamped (tg_nodes (cl_graphs cl' ! i))"
      using moved_on_nth(1) [OF f(2) lt]
      by (auto simp: check_module_graph_remain_def graph_ok_def stamped_upto_def list_all_length)
  qed
qed

definition small_scheduler :: scheduler where
  "small_scheduler = Scheduler_ctor H100 (example_model\<lparr>ne_tp_dg := 1\<rparr>) False [] 0 4 64 2 example_rng"

definition example_cluster :: cluster where
  "example_cluster = (Cluster_ctor H100 (example_model\<lparr>ne_tp_dg := 1\<rparr>) small_scheduler)
     \<lparr>cl_node := [\<lparr>nd_rank = 0, nd_config = H100, nd_ict_latency = 0, nd_ict_bandwidth = 1, nd_device = [0]\<rparr>],
       cl_graphs := [example_graph], cl_world := example_world True\<rparr>"

lemma example_cluster_simps:
  "cluster_devices example_cluster = [0]" "cl_graphs example_cluster = [example_graph]"
  "cl_world example_cluster = example_world True" "ne_tp_dg (cl_model_config example_cluster) = 1"
  by (simp_all add: example_cluster_def cluster_devices_def Cluster_ctor_def)

lemma example_cluster_ok: "cluster_ok example_cluster" "remaining_nodes example_cluster = 1" "cluster_remain example_cluster"
  by (simp_all add: cluster_ok_def example_cluster_simps remaining_nodes_def cluster_remain_def graph_ok_def
      check_module_graph_remain_def example_graph_def TopModuleGraph_ctor_def stamped_upto_def)

lemma example_graph_finishes:
  "\<exists>tg' w'. graph_run idle_forward 0 example_graph (example_world True) = Inr (tg', w') \<and> \<not> check_module_graph_remain tg'"
proof -
  have t: "tensor_of (example_world True) (Some 0) = Inr (example_x\<lparr>t_ready := True\<rparr>)"
    by (simp add: tensor_of_def example_world_def)
  have par: "\<not> t_parallel_execution example_x" by (simp add: example_x_def Tensor_ctor_def)
  have "\<exists>tb w1. set_stamp example_graph (example_world True) = Inr (example_graph\<lparr>tg_timeboard := tb,
      tg_nodes := [leaf_node\<lparr>gn_stamped := True\<rparr>]\<rparr>, w1) \<and> w_tensors w1 = w_tensors (example_world True)"
    by (simp add: set_stamp_def example_graph_def TopModuleGraph_ctor_def leaf_node_def Let_def set_push_status_def t par
        push_timestamp_def TimeBoard_ctor_def set_device_def)
  then obtain tb w1 where st: "set_stamp example_graph (example_world True) = Inr (example_graph\<lparr>tg_timeboard := tb,
      tg_nodes := [leaf_node\<lparr>gn_stamped := True\<rparr>]\<rparr>, w1)" and w1: "w_tensors w1 = w_tensors (example_world True)" by blast
  have "tensor_of w1 (Some 0) = Inr (example_x\<lparr>t_ready := True\<rparr>)"
    using t by (simp add: tensor_of_def w1)
  then have "node_run idle_forward 0 0 (leaf_node\<lparr>gn_stamped := True\<rparr>) w1 = Inr (True, w1)"
    by (simp add: node_run_def check_ready_def leaf_node_def idle_forward_def)
  moreover have "length (tg_nodes example_graph) - tg_current example_graph = Suc 0" "tg_current example_graph = 0"
    "tg_device example_graph = 0"
    by (simp_all add: example_graph_def TopModuleGraph_ctor_def)
  ultimately show ?thesis by (simp add: graph_run_def st check_module_graph_remain_def)
qed

lemma example_cluster_returns: "\<exists>cl'. cluster_loop 4 idle_forward example_cluster = Inr cl'"
proof -
  obtain tg' w' where run: "graph_run idle_forward 0 example_graph (example_world True) = Inr (tg', w')"
    and fin: "\<not> check_module_graph_remain tg'"
    using example_graph_finishes by blast
  let ?c1 = "example_cluster\<lparr>cl_graphs := [tg'], cl_world := share_cache 0 w'\<rparr>"
  have "dv_total_rank example_device = 0"
    by (simp add: example_device_def Device_ctor_def device_memory_def H100_def SystemConfig_ctor_def)
  then have "device_run idle_forward 0 example_cluster = Inr ?c1"
    using run by (simp add: device_run_def device_of_def example_cluster_simps Let_def)
      (simp add: example_world_def vec_at_def cdiv_def)
  then have "cluster_round idle_forward example_cluster = Inr ?c1"
    by (simp add: cluster_round_def example_cluster_simps)
  moreover have "\<not> cluster_remain ?c1"
    using fin by (simp add: cluster_remain_def cluster_devices_def example_cluster_def Cluster_ctor_def)
  ultimately show ?thesis
    using example_cluster_ok(3) by (simp add: numeral_eq_Suc)
qed

theorem cluster_loop_decided_witness:
  "\<exists>cl'. cluster_loop 4 idle_forward example_cluster = Inr cl' \<and>
    cluster_loop (remaining_nodes example_cluster + 2) idle_forward example_cluster = Inr cl' \<and>
    list_all gn_stamped (tg_nodes (cl_graphs cl' ! 0))"
proof -
  obtain cl' where run: "cluster_loop 4 idle_forward example_cluster = Inr cl'"
    using example_cluster_returns by blast
  have le: "remaining_nodes example_cluster + 2 \<le> 4" by (simp add: example_cluster_ok)
  note d = cluster_loop_decided [OF example_cluster_ok(1) le, of idle_forward]
  have "0 \<in> set (cluster_devices example_cluster)" by (simp add: example_cluster_simps)
  with d run have "list_all gn_stamped (tg_nodes (cl_graphs cl' ! 0))" by blast
  with d run show ?thesis by metis
qed

section \<open>Construction\<close>

abbreviation no_powers :: "top_graph \<Rightarrow> top_graph" where
  "no_powers tg \<equiv> tg\<lparr>tg_powers := []\<rparr>"

lemma fresh_ctor [simp]: "no_powers (TopModuleGraph_ctor i) = TopModuleGraph_ctor i"
  by (simp add: TopModuleGraph_ctor_def)

lemma fresh_graphs:
  assumes "map no_powers tgs = map TopModuleGraph_ctor is"
  shows "map tg_nodes tgs = replicate (length is) []" "map tg_device tgs = is" "\<forall>tg \<in> set tgs. graph_ok tg"
proof -
  have len: "length tgs = length is" using assms by (rule map_eq_imp_length_eq)
  have nth: "no_powers (tgs ! i) = TopModuleGraph_ctor (is ! i)" if "i < length is" for i
    using arg_cong [OF assms, of "\<lambda>xs. xs ! i"] that len by simp
  have "tg_nodes (tgs ! i) = [] \<and> tg_device (tgs ! i) = is ! i \<and> tg_current (tgs ! i) = 0" if "i < length is" for i
    using arg_cong [OF nth [OF that], of tg_nodes] arg_cong [OF nth [OF that], of tg_device]
      arg_cong [OF nth [OF that], of tg_current] by (simp add: TopModuleGraph_ctor_def)
  with len show "map tg_nodes tgs = replicate (length is) []" "map tg_device tgs = is" "\<forall>tg \<in> set tgs. graph_ok tg"
    by (auto simp: graph_ok_def stamped_upto_def in_set_conv_nth intro!: nth_equalityI)
qed

text \<open>
  The layout after \<open>k\<close> nodes of \<open>n\<close> devices: device \<open>i\<close> has total rank
  \<open>i\<close>, node \<open>j\<close> holds the devices of its block, and the graphs are empty.
\<close>

definition laid_out :: "system_config \<Rightarrow> nat \<Rightarrow> nat \<Rightarrow> cluster \<Rightarrow> bool" where
  "laid_out c n k cl \<longleftrightarrow>
     map dv_total_rank (w_devices (cl_world cl)) = map int [0..<k * n] \<and>
     map no_powers (cl_graphs cl) = map TopModuleGraph_ctor [0..<k * n] \<and>
     length (cl_node cl) = k \<and>
     (\<forall>j < k. nd_config (cl_node cl ! j) = c \<and> nd_device (cl_node cl ! j) = [j * n..<Suc j * n])"

definition same_shape :: "cluster \<Rightarrow> cluster \<Rightarrow> bool" where
  "same_shape cl cl' \<longleftrightarrow> cl_node cl' = cl_node cl \<and> cl_num_device cl' = cl_num_device cl \<and>
     cl_num_total_device cl' = cl_num_total_device cl"

lemma create_devices:
  assumes "rfold (\<lambda>device_rank (ids, cl).
       rbind (Device_ctor c (device_rank + off)) (\<lambda>d.
       let i = length (w_devices (cl_world cl)) in
       Inr (ids @ [i], cl\<lparr>cl_world := (cl_world cl)\<lparr>w_devices := w_devices (cl_world cl) @ [d]\<rparr>,
         cl_graphs := cl_graphs cl @ [TopModuleGraph_ctor i],
         cl_mmap := cl_mmap cl @ [MMapController_ctor (dv_mc d)]\<rparr>))) ranks (ids, cl) = Inr (ids', cl')"
  shows "same_shape cl cl' \<and>
    ids' = ids @ [length (w_devices (cl_world cl))..<length (w_devices (cl_world cl)) + length ranks] \<and>
    map dv_total_rank (w_devices (cl_world cl')) = map dv_total_rank (w_devices (cl_world cl)) @ map (\<lambda>r. r + off) ranks \<and>
    map no_powers (cl_graphs cl') = map no_powers (cl_graphs cl) @
      map TopModuleGraph_ctor [length (w_devices (cl_world cl))..<length (w_devices (cl_world cl)) + length ranks]"
  using assms
proof (induction ranks arbitrary: ids cl)
  case Nil
  then show ?case by (simp add: same_shape_def)
next
  case (Cons r ranks)
  let ?i = "length (w_devices (cl_world cl))"
  obtain d where d: "Device_ctor c (r + off) = Inr d"
    using Cons.prems by (auto simp: rbind_eq_Inr)
  let ?c1 = "cl\<lparr>cl_world := (cl_world cl)\<lparr>w_devices := w_devices (cl_world cl) @ [d]\<rparr>,
         cl_graphs := cl_graphs cl @ [TopModuleGraph_ctor ?i],
         cl_mmap := cl_mmap cl @ [MMapController_ctor (dv_mc d)]\<rparr>"
  have rank: "dv_total_rank d = r + off"
    using d by (auto simp: Device_ctor_def fail_def split: option.splits)
  have up: "[?i..<?i + length (r # ranks)] = ?i # [Suc ?i..<Suc ?i + length ranks]"
    by (simp add: upt_conv_Cons del: upt_Suc)
  have len: "length (w_devices (cl_world ?c1)) = Suc ?i" by simp
  have rest: "rfold (\<lambda>device_rank (ids, cl).
       rbind (Device_ctor c (device_rank + off)) (\<lambda>d.
       let i = length (w_devices (cl_world cl)) in
       Inr (ids @ [i], cl\<lparr>cl_world := (cl_world cl)\<lparr>w_devices := w_devices (cl_world cl) @ [d]\<rparr>,
         cl_graphs := cl_graphs cl @ [TopModuleGraph_ctor i],
         cl_mmap := cl_mmap cl @ [MMapController_ctor (dv_mc d)]\<rparr>))) ranks (ids @ [?i], ?c1) = Inr (ids', cl')"
    using Cons.prems by (simp add: d Let_def)
  note ih = Cons.IH [OF rest, unfolded len]
  have "same_shape cl cl'" using ih by (simp add: same_shape_def)
  moreover have "ids' = ids @ [?i..<?i + length (r # ranks)]" using ih up by simp
  moreover have "map dv_total_rank (w_devices (cl_world cl')) =
      map dv_total_rank (w_devices (cl_world cl)) @ map (\<lambda>r. r + off) (r # ranks)" using ih rank by simp
  moreover have "map no_powers (cl_graphs cl') = map no_powers (cl_graphs cl) @
      map TopModuleGraph_ctor [?i..<?i + length (r # ranks)]" using ih up by (simp del: upt_Suc)
  ultimately show ?case by blast
qed

lemma create_node:
  assumes "Node_Create c (int k) cl = Inr (nd, cl')" "laid_out c (nat (num_device c)) k cl" "0 \<le> num_device c"
  shows "laid_out c (nat (num_device c)) (Suc k) (cl'\<lparr>cl_node := cl_node cl' @ [nd]\<rparr>) \<and>
    cl_num_device cl' = cl_num_device cl \<and> cl_num_total_device cl' = cl_num_total_device cl"
proof -
  let ?n = "nat (num_device c)"
  obtain ids where ids: "CreateDevice c (int k) cl = Inr (ids, cl')"
    and nd: "nd_config nd = c" "nd_device nd = ids"
    using assms(1) by (auto simp: Node_Create_def rbind_eq_Inr)
  have len: "length (w_devices (cl_world cl)) = k * ?n"
    using assms(2) by (auto simp: laid_out_def dest: map_eq_imp_length_eq)
  note f = create_devices [OF ids [unfolded CreateDevice_def], unfolded len]
  have ids': "ids = [k * ?n..<Suc k * ?n]" using f by (simp add: add.commute del: upt_Suc)
  have ranks: "map (\<lambda>r. r + int k * num_device c) (irange 0 (num_device c)) = map int [k * ?n..<Suc k * ?n]"
  proof -
    have "map (\<lambda>r. r + int k * num_device c) (irange 0 (num_device c)) = map int (map (\<lambda>i. i + k * ?n) [0..<?n])"
      using assms(3) by (simp add: irange_def)
    then show ?thesis by (simp only: map_add_upt) simp
  qed
  have "map dv_total_rank (w_devices (cl_world cl')) = map int ([0..<k * ?n] @ [k * ?n..<Suc k * ?n])"
    using f assms(2) unfolding ranks laid_out_def map_append by metis
  moreover have block: "[0..<k * ?n] @ [k * ?n..<Suc k * ?n] = [0..<Suc k * ?n]"
    using upt_add_eq_append [of 0 "k * ?n" ?n] by (simp add: add.commute del: upt_Suc)
  ultimately have dv: "map dv_total_rank (w_devices (cl_world cl')) = map int [0..<Suc k * ?n]" by metis
  have "map no_powers (cl_graphs cl') = map TopModuleGraph_ctor ([0..<k * ?n] @ [k * ?n..<Suc k * ?n])"
    using f assms(2) unfolding laid_out_def map_append by (simp add: add.commute del: upt_Suc)
  with block have ge: "map no_powers (cl_graphs cl') = map TopModuleGraph_ctor [0..<Suc k * ?n]" by metis
  have sh: "same_shape cl cl'" using f by simp
  have "nd_config ((cl_node cl' @ [nd]) ! j) = c \<and> nd_device ((cl_node cl' @ [nd]) ! j) = [j * ?n..<Suc j * ?n]"
    if "j < Suc k" for j
    using that sh nd ids' assms(2) by (cases "j = k") (simp_all add: laid_out_def same_shape_def nth_append del: upt_Suc mult_Suc)
  with dv sh ge assms(2) show ?thesis
    by (simp add: laid_out_def same_shape_def del: upt_Suc)
qed

lemma create_nodes:
  assumes "rfold (\<lambda>node_rank cl. rbind (Node_Create c node_rank cl) (\<lambda>(n, cl).
       Inr (cl\<lparr>cl_node := cl_node cl @ [n]\<rparr>))) (map int [k..<k + m]) cl = Inr cl'"
    "laid_out c (nat (num_device c)) k cl" "0 \<le> num_device c"
  shows "laid_out c (nat (num_device c)) (k + m) cl' \<and>
    cl_num_device cl' = cl_num_device cl \<and> cl_num_total_device cl' = cl_num_total_device cl"
  using assms(1,2)
proof (induction m arbitrary: k cl)
  case 0
  then show ?case by simp
next
  case (Suc m)
  have up: "map int [k..<k + Suc m] = int k # map int [Suc k..<Suc k + m]"
    by (simp add: upt_conv_Cons del: upt_Suc)
  obtain nd c1 where nd: "Node_Create c (int k) cl = Inr (nd, c1)"
    and rest: "rfold (\<lambda>node_rank cl. rbind (Node_Create c node_rank cl) (\<lambda>(n, cl).
       Inr (cl\<lparr>cl_node := cl_node cl @ [n]\<rparr>))) (map int [Suc k..<Suc k + m]) (c1\<lparr>cl_node := cl_node c1 @ [nd]\<rparr>) = Inr cl'"
    using Suc.prems(1) unfolding up by (auto simp: rbind_eq_Inr)
  note n = create_node [OF nd Suc.prems(2) assms(3)]
  then have "laid_out c (nat (num_device c)) (Suc k) (c1\<lparr>cl_node := cl_node c1 @ [nd]\<rparr>)" by blast
  from Suc.IH [OF rest this] n show ?case by simp
qed

lemma graph_init_fresh: "no_powers (graph_initializeDRAM pt e tg) = no_powers tg"
  by (simp add: graph_initializeDRAM_def Let_def)

lemma init_keeps_layout:
  assumes "cluster_initializeDRAM pt e cl = Inr cl'" "laid_out c n k cl"
  shows "laid_out c n k cl' \<and> cl_num_device cl' = cl_num_device cl \<and> cl_num_total_device cl' = cl_num_total_device cl"
proof -
  let ?P = "\<lambda>x. laid_out c n k x \<and> cl_num_device x = cl_num_device cl \<and> cl_num_total_device x = cl_num_total_device cl"
  have "?P cl'"
  proof (rule rfold_invariant [OF assms(1) [unfolded cluster_initializeDRAM_def for_ranks_def]])
    show "?P cl" using assms(2) by simp
  next
    fix r s t
    assume P: "?P s" and st: "rbind (get_device s r) (\<lambda>i. device_initializeDRAM pt e i s) = Inr t"
    then obtain i where t: "t = s\<lparr>cl_graphs := (cl_graphs s)[i := graph_initializeDRAM pt
        (initializeDRAM (dv_mc (w_devices (cl_world s) ! i)) pt e) (cl_graphs s ! i)]\<rparr>"
      by (auto simp: rbind_eq_Inr device_initializeDRAM_def Let_def)
    have "map no_powers (cl_graphs t) = map no_powers (cl_graphs s)"
      by (simp add: t map_update graph_init_fresh) (metis list_update_id list_update_beyond map_update not_less nth_map)
    with P t show "?P t" by (simp add: laid_out_def)
  qed
  then show ?thesis .
qed

lemma init_module_map: "cluster_initializeDRAM pt e cl = Inr cl' \<Longrightarrow> cl_module_map cl' = cl_module_map cl"
  unfolding cluster_initializeDRAM_def for_ranks_def
  by (erule rfold_invariant) (auto simp: rbind_eq_Inr device_initializeDRAM_def Let_def)

lemma concat_blocks: "concat (map (\<lambda>j. [j * n..<Suc j * n]) [0..<k]) = [0..<k * n]"
proof (induction k)
  case (Suc k)
  have "[0..<k * n] @ [k * n..<Suc k * n] = [0..<Suc k * n]"
    using upt_add_eq_append [of 0 "k * n" n] by (simp add: add.commute del: upt_Suc)
  then show ?case using Suc by (simp del: mult_Suc)
qed simp

lemma layout_get_device:
  assumes "laid_out c (nat (num_device c)) (nat (num_node c)) cl" "cl_num_device cl = num_device c"
    "0 < num_device c" "0 \<le> num_node c"
  shows "get_device cl rank = (if 0 \<le> rank \<and> rank < num_device c * num_node c then Inr (nat rank) else Inl OutOfRange)"
proof -
  let ?n = "num_device c"
  have len: "length (cl_node cl) = nat (num_node c)" using assms(1) by (simp add: laid_out_def)
  show ?thesis
  proof (cases "0 \<le> rank")
    case True
    then have d: "cdiv rank ?n = rank div ?n" "cmod rank ?n = rank mod ?n" using assms(3) by simp_all
    have pos: "0 \<le> rank div ?n" "0 \<le> rank mod ?n" "rank mod ?n < ?n" using assms(3) True by (simp_all add: pos_imp_zdiv_nonneg_iff)
    have lt: "rank div ?n < num_node c \<longleftrightarrow> rank < ?n * num_node c"
    proof -
      have eq: "rank = ?n * (rank div ?n) + rank mod ?n" by simp
      show ?thesis
      proof
        assume "rank div ?n < num_node c"
        then have "?n * (rank div ?n + 1) \<le> ?n * num_node c" using assms(3) by (intro mult_left_mono) auto
        then have "?n * (rank div ?n) + ?n \<le> ?n * num_node c" by (simp add: distrib_left)
        with eq pos(3) show "rank < ?n * num_node c" by linarith
      next
        assume lt: "rank < ?n * num_node c"
        show "rank div ?n < num_node c"
        proof (rule ccontr)
          assume "\<not> rank div ?n < num_node c"
          then have "?n * num_node c \<le> ?n * (rank div ?n)" using assms(3) by (intro mult_left_mono) auto
          with eq pos(2) lt show False by linarith
        qed
      qed
    qed
    show ?thesis
    proof (cases "rank < ?n * num_node c")
      case False
      with True lt pos len show ?thesis
        by (simp add: get_device_def assms(2) d vec_at_def)
    next
      case less: True
      let ?j = "nat (rank div ?n)"
      have j: "?j < nat (num_node c)" using lt less pos by simp
      then have nd: "nd_config (cl_node cl ! ?j) = c" "nd_device (cl_node cl ! ?j) = [?j * nat ?n..<Suc ?j * nat ?n]"
        using assms(1) by (simp_all add: laid_out_def del: upt_Suc mult_Suc)
      have "int (?j * nat ?n + nat (rank mod ?n)) = rank div ?n * ?n + rank mod ?n"
        using pos assms(3) by simp
      then have "int (?j * nat ?n + nat (rank mod ?n)) = int (nat rank)" using True by simp
      then have idx: "?j * nat ?n + nat (rank mod ?n) = nat rank" by (rule int_int_eq [THEN iffD1])
      have "nat (rank mod ?n) < nat ?n" using pos by simp
      then have "?j * nat ?n + nat (rank mod ?n) < Suc ?j * nat ?n" by simp
      from nth_upt [OF this] have "[?j * nat ?n..<Suc ?j * nat ?n] ! nat (rank mod ?n) = nat rank"
        unfolding idx .
      with True less lt pos len j nd show ?thesis
        by (simp add: get_device_def assms(2) d vec_at_def node_get_device_def del: upt_Suc)
    qed
  next
    case False
    have "cdiv rank ?n < 0 \<or> cdiv rank ?n = 0 \<and> cmod rank ?n < 0"
    proof (cases "rank \<le> - ?n")
      case True
      then have "0 < (- rank) div ?n" using assms(3) by (simp add: pos_imp_zdiv_pos_iff)
      with False assms(3) show ?thesis by (simp add: cdiv_def signed_divide_int_def)
    next
      case neg: False
      then have "(- rank) div ?n = 0" "(- rank) mod ?n = - rank" using assms(3) False by simp_all
      with False assms(3) show ?thesis
        by (simp add: cdiv_def cmod_def signed_divide_int_def signed_modulo_int_def)
    qed
    moreover have "nd_config (cl_node cl ! 0) = c" if "0 < nat (num_node c)"
      using assms(1) that by (simp add: laid_out_def del: upt_Suc)
    ultimately show ?thesis
      using False len by (auto simp: get_device_def assms(2) vec_at_def node_get_device_def)
  qed
qed

text \<open>
  C29: a created cluster, of nodes with at least one device, has one device per rank: \<^verbatim>\<open>get_device\<close> finds the device whose
  total rank it was asked for and throws on every other rank, the loops over nodes visit the devices
  in rank order, and every rank has a module table of its own, which is empty, and a graph of its own, which has no
  nodes and is, but for its energy tables, as \<^verbatim>\<open>TopModuleGraph\<close> constructs it for that device.
\<close>

theorem Cluster_Create_ranks:
  assumes "Cluster_Create c m s = Inr cl" "0 < num_device c" "0 \<le> num_node c"
  shows "cluster_ok cl \<and> cluster_devices cl = [0..<nat (num_device c * num_node c)] \<and>
    length (cl_graphs cl) = nat (num_device c * num_node c) \<and>
    map (\<lambda>tg. tg\<lparr>tg_powers := []\<rparr>) (cl_graphs cl) = map TopModuleGraph_ctor [0..<nat (num_device c * num_node c)] \<and>
    map tg_nodes (cl_graphs cl) = replicate (nat (num_device c * num_node c)) [] \<and>
    map tg_device (cl_graphs cl) = [0..<nat (num_device c * num_node c)] \<and>
    cl_module_map cl = replicate (nat (num_device c * num_node c)) Map.empty \<and>
    get_device cl rank = (if 0 \<le> rank \<and> rank < num_device c * num_node c then Inr (nat rank) else Inl OutOfRange) \<and>
    map dv_total_rank (w_devices (cl_world cl)) = irange 0 (num_device c * num_node c)"
proof -
  let ?n = "nat (num_device c)" and ?k = "nat (num_node c)"
  have tot: "?k * ?n = nat (num_device c * num_node c)"
    using assms(2,3) by (simp add: nat_mult_distrib mult.commute)
  obtain c0 c1 c2 where nodes: "CreateNode c (Cluster_ctor c m s) = Inr c0"
    and c1: "cluster_initializeDRAM GPU gpuEnergy (c0\<lparr>cl_module_map := replicate (nat (cl_num_total_device c0)) Map.empty\<rparr>) = Inr c1"
    and c2: "cluster_initializeDRAM LOGIC logicEnergy c1 = Inr c2"
    and c3: "cluster_initializeDRAM PIM pimEnergy c2 = Inr cl"
    using assms(1) by (auto simp: Cluster_Create_def cluster_set_def rbind_eq_Inr)
  have "irange 0 (num_node c) = map int [0..<0 + ?k]" by (simp add: irange_def)
  moreover have "laid_out c ?n 0 (Cluster_ctor c m s)" by (simp add: laid_out_def Cluster_ctor_def)
  ultimately have l0: "laid_out c ?n ?k c0" "cl_num_device c0 = num_device c" "cl_num_total_device c0 = num_device c * num_node c"
    using create_nodes [of c 0 ?k "Cluster_ctor c m s" c0] nodes assms(2)
    by (simp_all add: CreateNode_def Cluster_ctor_def)
  let ?c0 = "c0\<lparr>cl_module_map := replicate (nat (cl_num_total_device c0)) Map.empty\<rparr>"
  have "laid_out c ?n ?k ?c0" using l0(1) by (simp add: laid_out_def)
  note l1 = init_keeps_layout [OF c1 this]
  note l2 = init_keeps_layout [OF c2 conjunct1 [OF l1]]
  note l3 = init_keeps_layout [OF c3 conjunct1 [OF l2]]
  have lay: "laid_out c ?n ?k cl" using l3 by blast
  have nd: "cl_num_device cl = num_device c" using l1 l2 l3 l0(2) by simp
  have "map nd_device (cl_node cl) = map (\<lambda>j. [j * ?n..<Suc j * ?n]) [0..<?k]"
    using lay by (intro nth_equalityI) (auto simp: laid_out_def simp del: upt_Suc mult_Suc)
  then have devs: "cluster_devices cl = [0..<?k * ?n]"
    by (simp add: cluster_devices_def concat_blocks del: upt_Suc mult_Suc)
  have gr: "map no_powers (cl_graphs cl) = map TopModuleGraph_ctor [0..<?k * ?n]"
    and wl: "length (w_devices (cl_world cl)) = ?k * ?n"
    using lay by (auto simp: laid_out_def dest: map_eq_imp_length_eq)
  note fresh = fresh_graphs [OF gr]
  have gl: "length (cl_graphs cl) = ?k * ?n" using map_eq_imp_length_eq [OF gr] by simp
  have "cluster_ok cl" using fresh(3) wl gl devs by (auto simp: cluster_ok_def)
  moreover have "cl_module_map cl = replicate (nat (num_device c * num_node c)) Map.empty"
    using init_module_map [OF c1] init_module_map [OF c2] init_module_map [OF c3] l0(3) by simp
  moreover have "map dv_total_rank (w_devices (cl_world cl)) = irange 0 (num_device c * num_node c)"
    using lay tot by (simp add: laid_out_def irange_def)
  ultimately show ?thesis
    using layout_get_device [OF lay nd assms(2,3)] devs tot gl gr fresh(1,2) by simp
qed

lemma replicate_two: "replicate 2 x = [x, x]"
  by (simp add: numeral_2_eq_2)

definition two_devices :: system_config where
  "two_devices = H100\<lparr>num_node := 1, num_device := 2\<rparr>"

lemma two_devices_created: "\<exists>cl. Cluster_Create two_devices example_model small_scheduler = Inr cl"
proof -
  have c: "num_device two_devices = 2" "num_node two_devices = 1" by (simp_all add: two_devices_def)
  have dev: "\<exists>d. Device_ctor two_devices r = Inr d" for r
    by (simp add: Device_ctor_def device_memory_def two_devices_def H100_def SystemConfig_ctor_def)
  obtain d0 d1 where d: "Device_ctor two_devices 0 = Inr d0" "Device_ctor two_devices 1 = Inr d1" using dev by metis
  let ?w = "\<lparr>w_tensors = Map.empty, w_devices = [d0, d1], w_batches = []\<rparr>"
  have "\<exists>cl. cluster_set two_devices (Cluster_ctor two_devices example_model small_scheduler) = Inr cl \<and>
      (\<exists>n. cl_node cl = [n] \<and> nd_device n = [0, 1] \<and> nd_config n = two_devices) \<and>
      cl_num_device cl = 2 \<and> cl_num_total_device cl = 2"
    by (simp add: cluster_set_def CreateNode_def Node_Create_def CreateDevice_def c d irange_Cons Cluster_ctor_def Let_def)
  then obtain c0 where c0: "cluster_set two_devices (Cluster_ctor two_devices example_model small_scheduler) = Inr c0"
    and shape: "\<exists>n. cl_node c0 = [n] \<and> nd_device n = [0, 1] \<and> nd_config n = two_devices"
      "cl_num_device c0 = 2" "cl_num_total_device c0 = 2" by blast
  have init: "\<exists>y. cluster_initializeDRAM pt e x = Inr y \<and> cl_node y = cl_node x \<and> cl_num_device y = 2 \<and> cl_num_total_device y = 2"
    if "\<exists>n. cl_node x = [n] \<and> nd_device n = [0, 1] \<and> nd_config n = two_devices" "cl_num_device x = 2" "cl_num_total_device x = 2"
    for x pt e
    using that by (auto simp: cluster_initializeDRAM_def for_ranks_def irange_Cons get_device_def node_get_device_def c
        vec_at_def device_initializeDRAM_def Let_def)
  obtain c1 where c1: "cluster_initializeDRAM GPU gpuEnergy c0 = Inr c1" "cl_node c1 = cl_node c0" "cl_num_device c1 = 2"
    "cl_num_total_device c1 = 2" using init shape by blast
  obtain c2 where c2: "cluster_initializeDRAM LOGIC logicEnergy c1 = Inr c2" "cl_node c2 = cl_node c0" "cl_num_device c2 = 2"
    "cl_num_total_device c2 = 2" using init [of c1 LOGIC logicEnergy] shape c1 by auto
  obtain c3 where "cluster_initializeDRAM PIM pimEnergy c2 = Inr c3" using init [of c2 PIM pimEnergy] shape c2 by auto
  with c0 c1 c2 show ?thesis by (simp add: Cluster_Create_def)
qed

theorem Cluster_Create_ranks_witness:
  "\<exists>cl. Cluster_Create two_devices example_model small_scheduler = Inr cl \<and> cluster_devices cl = [0, 1] \<and>
    map tg_nodes (cl_graphs cl) = [[], []] \<and> map tg_device (cl_graphs cl) = [0, 1] \<and>
    cl_module_map cl = [Map.empty, Map.empty] \<and> get_device cl 1 = Inr 1 \<and> get_device cl 2 = Inl OutOfRange"
proof -
  obtain cl where cl: "Cluster_Create two_devices example_model small_scheduler = Inr cl"
    using two_devices_created by blast
  have c: "num_device two_devices = 2" "num_node two_devices = 1" by (simp_all add: two_devices_def)
  have "[0..<nat 2] = [0, 1]" by (simp add: upt_rec numeral_2_eq_2)
  with Cluster_Create_ranks [OF cl, of 1] Cluster_Create_ranks [OF cl, of 2] cl c show ?thesis by (simp add: replicate_two)
qed

end
