(* ===== verification/Model_Props.thy ===== *)
theory Model_Props
  imports Build_Device Cluster_Props
begin

text \<open>
  Properties of a model on the devices: building it returns on every device with the logits of the
  largest batch, the names of its modules are distinct, the devices of a tensor-parallel group hold the
  weights of a layer exactly once, and experts are placed on one group each, as far as they are placed.
\<close>

section \<open>Building\<close>

text \<open>
  C2: if the constructors of a model succeed on a device and the model satisfies the conditions they do not
  check, collected in \<open>model_fit\<close>, registering its modules and the call that
  records its graph succeed too: every submodule, activation and cache is found, and no dimension check
  of a layer fails. The output holds one row of logits per token of the largest batch, and the device's
  clocks are reset. The conditions are: the rank exists, the group and batch sizes, the numbers of heads and
  the activation factor are positive, no dimension is negative, a feed-forward layer has two or three matrices, and with
  two the intermediate dimensions divide by the group size; with latent attention the key-value heads
  divide by the group size, and absorbed weights have \<^verbatim>\<open>qk_nope_head_dim\<close> equal to
  \<^verbatim>\<open>head_dim\<close>; with expert layers the same holds for the experts' group, whose size is positive, and
  the split of a device's experts is defined for their number, which for the code's \<^verbatim>\<open>getIdxHigh\<close> means at most
  four or a multiple of four. Beside this the device is not executing and the batch sizes of the scheduler are positive.
\<close>

theorem build_device_returns:
  assumes "LLM_ctor e n [''LLM''] = Inr ms" "model_fit e n" "\<not> dv_perform_execution d"
    "0 < sch_batch_size_per_dp sch" "0 < cdiv (sch_num_max_batched_token sch) (sch_batch_size_per_dp sch)"
  shows "\<exists>y st sch'. build_device e n sch ctl d = Inr (y, st, sch') \<and> t_shape y = [max_tokens sch, n_vocab (me_model e)] \<and>
    fst ` set ms \<subseteq> dom (ms_modules st) \<and> dv_status (ms_device st) = StatusBoard_ctor"
  using build_device_facts [OF assms, of ctl] by blast

text \<open>
  What building one device leaves, and the hypothesis on a rank: its constructors succeed and the
  conditions of \<open>model_fit\<close> hold for it.
\<close>

definition built :: "module_env \<Rightarrow> int \<Rightarrow> int \<Rightarrow> mstate \<Rightarrow> bool" where
  "built e n i st \<longleftrightarrow> (\<exists>ms. LLM_ctor (e\<lparr>me_rank := i\<rparr>) n [''LLM''] = Inr ms \<and> fst ` set ms \<subseteq> dom (ms_modules st)) \<and>
     dv_status (ms_device st) = StatusBoard_ctor \<and> (\<exists>c. called c = [''LLM''] \<and> nested_in [] c \<and> ms_graph st = events c)"

definition buildable :: "module_env \<Rightarrow> int \<Rightarrow> int \<Rightarrow> bool" where
  "buildable e n i \<longleftrightarrow> (\<exists>ms. LLM_ctor (e\<lparr>me_rank := i\<rparr>) n [''LLM''] = Inr ms) \<and> model_fit (e\<lparr>me_rank := i\<rparr>) n"

lemma build_loop:
  assumes "\<forall>i \<in> set is. buildable e n i \<and> 0 \<le> i \<and> i < int (length devices)" "n = int (length devices)"
    "\<forall>x \<in> set devices. \<not> dv_perform_execution (snd x)"
    "0 < sch_batch_size_per_dp sch" "0 < cdiv (sch_num_max_batched_token sch) (sch_batch_size_per_dp sch)"
  shows "\<exists>sts sch'. rfold (\<lambda>i (sts, sch). rbind (vec_at devices i) (\<lambda>(ctl, d).
         rbind (build_device (e\<lparr>me_rank := i\<rparr>) n sch ctl d) (\<lambda>(_, st, sch).
         Inr (sts @ [st], sch)))) is (acc, sch) = Inr (acc @ sts, sch') \<and> list_all2 (built e n) is sts \<and>
    sch' = sch\<lparr>sch_count_id := sch_count_id sch'\<rparr>"
  using assms(1,4,5)
proof (induction "is" arbitrary: acc sch)
  case (Cons i "is")
  obtain ctl d where dev: "devices ! nat i = (ctl, d)" by (cases "devices ! nat i")
  have "devices ! nat i \<in> set devices" using Cons.prems(1) by (auto intro!: nth_mem simp: nat_less_iff)
  then have i: "vec_at devices i = Inr (ctl, d)" "\<not> dv_perform_execution d"
    using Cons.prems(1) assms(3) dev by (auto simp: vec_at_def)
  obtain ms where ms: "LLM_ctor (e\<lparr>me_rank := i\<rparr>) n [''LLM''] = Inr ms" "model_fit (e\<lparr>me_rank := i\<rparr>) n"
    using Cons.prems(1) by (auto simp: buildable_def)
  obtain y st sch1 where b: "build_device (e\<lparr>me_rank := i\<rparr>) n sch ctl d = Inr (y, st, sch1)" "fst ` set ms \<subseteq> dom (ms_modules st)"
    "dv_status (ms_device st) = StatusBoard_ctor" and sch1: "sch1 = sch\<lparr>sch_count_id := sch_count_id sch1\<rparr>"
    and tree: "\<exists>c. called c = [''LLM''] \<and> nested_in [] c \<and> ms_graph st = events c"
    using build_device_facts [OF ms i(2) Cons.prems(2,3), of ctl] by (elim exE conjE) (rule that; blast)
  have same: "sch_batch_size_per_dp sch1 = sch_batch_size_per_dp sch" "sch_num_max_batched_token sch1 = sch_num_max_batched_token sch"
    using arg_cong [OF sch1, of sch_batch_size_per_dp] arg_cong [OF sch1, of sch_num_max_batched_token] by simp_all
  obtain sts sch' where r: "rfold (\<lambda>i (sts, sch). rbind (vec_at devices i) (\<lambda>(ctl, d).
         rbind (build_device (e\<lparr>me_rank := i\<rparr>) n sch ctl d) (\<lambda>(_, st, sch).
         Inr (sts @ [st], sch)))) is (acc @ [st], sch1) = Inr ((acc @ [st]) @ sts, sch')" "list_all2 (built e n) is sts"
    "sch' = sch1\<lparr>sch_count_id := sch_count_id sch'\<rparr>"
    using Cons.IH [of sch1 "acc @ [st]"] Cons.prems same by auto
  have "sch1\<lparr>sch_count_id := k\<rparr> = sch\<lparr>sch_count_id := k\<rparr>" for k
    using arg_cong [OF sch1, of "sch_count_id_update (\<lambda>_. k)"] by simp
  then have "sch' = sch\<lparr>sch_count_id := sch_count_id sch'\<rparr>" using r(3) by metis
  moreover have "built e n i st" using ms(1) b(2,3) tree by (auto simp: built_def)
  ultimately show ?case using r(1,2) i(1) b(1) by (intro exI [of _ "st # sts"] exI [of _ sch']) simp
qed simp

text \<open>
  C9: a model that is \<open>buildable\<close> for every rank, that is, whose constructors succeed there and which satisfies
  the conditions of \<open>model_fit\<close> they do not check (those listed for a single device: positive sizes, the
  divisibility of key-value heads and two-way layers by the group, the head dimensions of absorbed attention, and a
  number of experts per device that can be split), is built on all devices, one after the other: the
  constructor returns a state per device, in the order of the ranks, with all the modules of that rank,
  its clocks reset and one call of the model recorded, and of the scheduler only the counter of sequence numbers has moved.
\<close>

theorem Model_ctor_builds_all_devices:
  assumes "\<forall>i \<in> {0..<int (length devices)}. buildable e (int (length devices)) i"
    "\<forall>x \<in> set devices. \<not> dv_perform_execution (snd x)"
    "0 < sch_batch_size_per_dp sch" "0 < cdiv (sch_num_max_batched_token sch) (sch_batch_size_per_dp sch)"
  shows "\<exists>sts sch'. Model_ctor e devices sch = Inr (sts, sch') \<and>
    list_all2 (built e (int (length devices))) (irange 0 (int (length devices))) sts \<and>
    sch' = sch\<lparr>sch_count_id := sch_count_id sch'\<rparr>"
  using build_loop [of "irange 0 (int (length devices))" e "int (length devices)" devices sch "[]"] assms
  by (simp add: Model_ctor_def)

section \<open>Names\<close>

text \<open>
  C24: all modules of a model have different full names, so that the cluster, which keeps them by name and
  fails on a name it has, takes every one of them.
\<close>

theorem module_names_accepted:
  assumes "LLM_ctor e n [''LLM''] = Inr ms"
  shows "distinct (map (\<lambda>x. module_map_name (fst x)) ms) \<and>
    (\<exists>tbl. register_names (map (\<lambda>x. module_map_name (fst x)) ms) = Inr tbl \<and> dom tbl = (\<lambda>x. module_map_name (fst x)) ` set ms)"
proof -
  have "distinct (map (\<lambda>x. module_map_name (fst x)) ms)" by (rule tree_names_distinct [OF tree_LLM [OF assms]]) simp
  then show ?thesis using register_names_distinct [of "map (\<lambda>x. module_map_name (fst x)) ms"] by auto
qed

text \<open>A model with one layer of four experts, for two devices that share everything but the experts.\<close>

definition tiny_env :: "int \<Rightarrow> module_env" where
  "tiny_env r = \<lparr>me_ram = example_ramulator, me_split = getIdxHigh std_sort std_sort_vec,
     me_model = example_model\<lparr>ne_tp_dg := 2, e_tp_dg := 1, mc_input_len := 4, mc_output_len := 4\<rparr>, me_config = H100,
     me_sched_config = H100, me_batch_size_per_dp = 2, me_rank = r\<rparr>"

lemma tiny_model:
  "example_model = \<lparr>hidden_dim = 8, head_dim = 4, num_layers = 1, num_heads = 2, num_kv_heads = 2,
      max_seq_len = 64, intermediate_dim = 8, expert_intermediate_dim = 8, activation_factor = 1,
      precision_byte = 2, num_routed_expert = 4, num_shared_expert = 0, expert_freq = 1,
      top_k = 2, ffn_way = 3, first_k_dense = 0, q_lora_rank = 0, kv_lora_rank = 0,
      qk_nope_head_dim = 0, qk_rope_head_dim = 0, n_vocab = 100, compressed_kv = False,
      use_absorb = False, skewness = 0, model_name = ''tiny'', ne_tp_dg = 0, e_tp_dg = 0,
      mc_input_len = 0, mc_output_len = 0\<rparr>"
  by (simp add: example_model_def ModelConfig_ctor_def)

lemma irange_1: "irange 0 1 = [0]" "irange 2 4 = [2, 3]"
  by (simp_all add: irange_def upt_rec)

lemma tiny_env_simps [simp]:
  "me_model (tiny_env r) = example_model\<lparr>ne_tp_dg := 2, e_tp_dg := 1, mc_input_len := 4, mc_output_len := 4\<rparr>"
  "me_rank (tiny_env r) = r" "me_batch_size_per_dp (tiny_env r) = 2" "me_split (tiny_env r) = getIdxHigh std_sort std_sort_vec"
  "tiny_env r\<lparr>me_rank := i\<rparr> = tiny_env i"
  by (simp_all add: tiny_env_def)

lemma tiny_layers: "llm_layers (me_model (tiny_env r)) = [moe_layer 0]"
  by (simp add: llm_layers_def tiny_model irange_1)

lemmas tiny_layers_eval = tiny_layers [of r, unfolded tiny_env_simps tiny_model, simplified] for r

lemma tiny_constructs:
  assumes "r = 0 \<or> r = 1"
  shows "\<exists>ms. LLM_ctor (tiny_env r) 2 [''LLM''] = Inr ms"
proof -
  have lists: "set_device_list 0 2 = [0, 1]" "irange 0 2 = [0, 1]" "irange 1 2 = [1]" by (simp_all add: set_device_list_def irange_def upt_rec)
  show ?thesis using assms
    by (auto simp: LLM_ctor_def tiny_layers_eval ctor_all_def layer_ctor_def moe_layer_def MoEDecoder_ctor_def lists
        attention_block_ctor_def Attention_ctor_def ColumnParallelLinear_ctor_def RowParallelLinear_ctor_def
        SelfAttentionParallel_ctor_def ExpertFFN_ctor_def expert_checks_def expert_ffn_ctor_def FeedForward3Way_ctor_def
        non_moe_list_def expert_list_def parallel_num_def tiny_model attention_args_def Let_def ffn_dim_def irange_1
        expert_ids_def expert_offset_def num_expert_per_device_def set_device_list_def)
qed

lemma tiny_fits:
  assumes "r = 0 \<or> r = 1"
  shows "model_fit (tiny_env r) 2"
proof -
  have lists: "non_moe_list (tiny_env r) = [0, 1]" "expert_list (tiny_env r) = [r]" "set_device_list 0 2 = [0, 1]"
    using assms by (auto simp: non_moe_list_def expert_list_def set_device_list_def tiny_model irange_def upt_rec Let_def)
  have per: "num_expert_per_device (tiny_env r) [0, 1] = 2" by (simp add: num_expert_per_device_def parallel_num_def tiny_model)
  have "splits (tiny_env r) 2" by (simp add: splits_def getIdxHigh_def Let_def)
  then show ?thesis using assms unfolding model_fit_def Let_def lists per
    by (auto simp: fit_def Let_def parallel_num_def tiny_model)
qed

lemma small_scheduler_batch:
  "sch_batch_size_per_dp small_scheduler = 2" "sch_num_max_batched_token small_scheduler = 64" "max_tokens small_scheduler = 64"
  by (simp_all add: max_tokens_def small_scheduler_def Scheduler_ctor_def initRunningQueue_def Let_def H100_def SystemConfig_ctor_def)

lemma example_device_idle: "\<not> dv_perform_execution example_device"
  by (simp add: example_device_def Device_ctor_def device_memory_def H100_def SystemConfig_ctor_def)

theorem build_device_returns_witness:
  "\<exists>y st sch'. build_device (tiny_env 1) 2 small_scheduler (MMapController_ctor hbm3_80GB) example_device = Inr (y, st, sch') \<and>
    t_shape y = [64, 100]"
proof -
  obtain ms where ms: "LLM_ctor (tiny_env 1) 2 [''LLM''] = Inr ms" using tiny_constructs [of 1] by auto
  from build_device_returns [OF ms tiny_fits example_device_idle, of small_scheduler "MMapController_ctor hbm3_80GB"]
  show ?thesis by (auto simp: small_scheduler_batch tiny_model)
qed

theorem Model_ctor_builds_all_devices_witness:
  "\<exists>st0 st1 sch'. Model_ctor (tiny_env 0) (replicate 2 (MMapController_ctor hbm3_80GB, example_device)) small_scheduler = Inr ([st0, st1], sch') \<and>
    built (tiny_env 0) 2 0 st0 \<and> built (tiny_env 0) 2 1 st1"
proof -
  have "buildable (tiny_env 0) 2 i" if "0 \<le> i" "i < 2" for i
    using that tiny_constructs [of i] tiny_fits [of i] by (cases "i = 0") (auto simp: buildable_def)
  moreover have "irange 0 2 = [0, 1]" by (simp add: irange_def upt_rec)
  ultimately show ?thesis
    using Model_ctor_builds_all_devices [of "replicate 2 (MMapController_ctor hbm3_80GB, example_device)" "tiny_env 0" small_scheduler]
    by (auto simp: example_device_idle small_scheduler_batch list_all2_Cons1)
qed

theorem module_names_accepted_witness:
  "\<exists>ms. LLM_ctor (tiny_env 0) 2 [''LLM''] = Inr ms \<and> distinct (map (\<lambda>x. module_map_name (fst x)) ms)"
proof -
  obtain ms where ms: "LLM_ctor (tiny_env 0) 2 [''LLM''] = Inr ms" using tiny_constructs [of 0] by auto
  from module_names_accepted [OF ms] ms show ?thesis by blast
qed

end
