(* ===== verification/Model_Weights.thy ===== *)
theory Model_Weights
  imports Model_Props
begin

text \<open>
  What is shared between devices: the weights of the attention and feed-forward layers over a
  tensor-parallel group, and the experts over the groups.
\<close>

section \<open>Weights\<close>

text \<open>The weight bytes of a module and its submodules, what \<^verbatim>\<open>Module::get_size\<close> counts as weight.\<close>

definition weight_bytes :: "mtables \<Rightarrow> int" where
  "weight_bytes ms = tag_bytes ''weight'' (concat (map (\<lambda>x. map snd (snd x)) ms))"

named_theorems weights \<open>weight bytes of modules\<close>

lemma weight_bytes_append [simp]: "weight_bytes (xs @ ys) = weight_bytes xs + weight_bytes ys"
  by (simp add: weight_bytes_def)

lemma weight_bytes_node [weights]:
  "weight_bytes (module_node p tbl subs) = tag_bytes ''weight'' (map snd tbl) + sum_list (map weight_bytes subs)"
proof -
  have "weight_bytes (concat subs) = sum_list (map weight_bytes subs)" by (induction subs) (simp_all add: weight_bytes_def tag_bytes_def)
  moreover have "weight_bytes ((p, tbl) # concat subs) = tag_bytes ''weight'' (map snd tbl) + weight_bytes (concat subs)"
    by (simp add: weight_bytes_def)
  ultimately show ?thesis by (simp add: module_node_def)
qed

lemma make_tensor_fields [weights]:
  "t_tag (snd (make_tensor e nm shp tg)) = tg" "getSize (snd (make_tensor e nm shp tg)) = precision_byte (me_model e) * prod_list shp"
  by (simp_all add: make_tensor_def Tensor_ctor_def getSize_prod)

lemma kv_caches_weightless [weights]: "tag_bytes ''weight'' (map snd (kv_caches e shp n m)) = 0"
proof -
  have "t_tag t = ''cache''" if "t \<in> set (map snd (kv_caches e shp n m))" for t
    using that by (auto simp: kv_caches_def make_tensor_def Tensor_ctor_def)
  then have none: "filter (\<lambda>t. t_tag t = ''weight'') (map snd (kv_caches e shp n m)) = []" by (auto simp: filter_empty_conv)
  show ?thesis unfolding tag_bytes_def none by simp
qed

lemma leaf_weights [weights]:
  "weight_bytes (Linear_ctor e k n p) = precision_byte (me_model e) * (k * n)" "weight_bytes (AllReduce_ctor e p) = 0"
  "weight_bytes (Activation_ctor e p) = 0" "weight_bytes (AttentionSplit_ctor e p) = 0" "weight_bytes (AttentionMerge_ctor e p) = 0"
  "weight_bytes (SelfAttentionSum_ctor e a p) = 0" "weight_bytes (SelfAttentionGen_ctor e a p) = 0"
  by (simp_all add: Linear_ctor_def AllReduce_ctor_def Activation_ctor_def AttentionSplit_ctor_def AttentionMerge_ctor_def
      SelfAttentionSum_ctor_def SelfAttentionGen_ctor_def Let_def weights)

lemma parallel_weights:
  "ColumnParallelLinear_ctor e k n dl p = Inr ms \<Longrightarrow> weight_bytes ms = precision_byte (me_model e) * (k * cdiv n (parallel_num dl))"
  "ColumnParallelLinear_ctor e k n dl p = Inr ms \<Longrightarrow> cmod n (parallel_num dl) = 0"
  "RowParallelLinear_ctor e k n dl p = Inr ms \<Longrightarrow> weight_bytes ms = precision_byte (me_model e) * (cdiv k (parallel_num dl) * n)"
  "SelfAttentionParallel_ctor e a dl p = Inr ms \<Longrightarrow> weight_bytes ms = 0"
  "SelfAttentionParallel_ctor e a dl p = Inr ms \<Longrightarrow> cmod (aa_num_heads a) (parallel_num dl) = 0"
  by (auto simp: ColumnParallelLinear_ctor_def RowParallelLinear_ctor_def SelfAttentionParallel_ctor_def rbind_eq_Inr Let_def weights)

lemma cdiv_exact: "0 < n \<Longrightarrow> 0 \<le> k \<Longrightarrow> cmod k n = 0 \<Longrightarrow> n * cdiv k n = k"
  by (simp add: minus_mod_eq_mult_div [symmetric])

lemma cmod_times: "0 < n \<Longrightarrow> 0 \<le> a \<Longrightarrow> 0 \<le> b \<Longrightarrow> cmod b n = 0 \<Longrightarrow> cmod (a * b) n = 0"
  by (simp add: mod_eq_0_iff_dvd)

text \<open>Sizes of a model are not negative.\<close>

definition sized :: "model_config \<Rightarrow> bool" where
  "sized m \<longleftrightarrow> 0 \<le> hidden_dim m \<and> 0 \<le> head_dim m \<and> 0 \<le> num_heads m \<and> 0 \<le> num_kv_heads m \<and>
     0 \<le> intermediate_dim m \<and> 0 \<le> expert_intermediate_dim m \<and> 0 \<le> activation_factor m"

text \<open>A matrix that is split over the devices of a group, in columns or in rows.\<close>

lemma split_matrix:
  assumes "0 < n" "0 \<le> k" "cmod k n = 0"
  shows "n * (b * (m * cdiv k n)) = b * (m * k)" "n * (b * (cdiv k n * m)) = b * (k * m)"
proof -
  have "n * (b * (m * cdiv k n)) = b * (m * (n * cdiv k n))" "n * (b * (cdiv k n * m)) = b * ((n * cdiv k n) * m)"
    by (simp_all only: ac_simps)
  then show "n * (b * (m * cdiv k n)) = b * (m * k)" "n * (b * (cdiv k n * m)) = b * (k * m)" unfolding cdiv_exact [OF assms] .
qed

lemma attention_weights:
  assumes "sized (me_model e)" "0 < parallel_num dl" "Attention_ctor e dl p = Inr ms"
  shows "parallel_num dl * weight_bytes ms = (let m = me_model e in precision_byte m *
    (hidden_dim m * (head_dim m * (num_heads m + 2 * num_kv_heads m)) + head_dim m * num_heads m * hidden_dim m))"
proof -
  let ?M = "me_model e" and ?n = "parallel_num dl"
  obtain qkv atn proj where c: "ColumnParallelLinear_ctor e (hidden_dim ?M) (head_dim ?M * (num_heads ?M + 2 * num_kv_heads ?M)) dl
      (p @ [''attn_qkv_proj'']) = Inr qkv" "SelfAttentionParallel_ctor e (attention_args e) dl (p @ [''self_attention'']) = Inr atn"
    "RowParallelLinear_ctor e (head_dim ?M * num_heads ?M) (hidden_dim ?M) dl (p @ [''attn_o_proj'']) = Inr proj"
    and ms: "ms = module_node p [] [qkv, atn, proj, AllReduce_ctor e (p @ [''all_reduce''])]"
    using assms(3) by (auto simp: Attention_ctor_def Let_def rbind_eq_Inr)
  have pos: "0 \<le> head_dim ?M" "0 \<le> num_heads ?M" "0 \<le> num_kv_heads ?M" using assms(1) by (simp_all add: sized_def)
  have heads: "cmod (num_heads ?M) ?n = 0" using parallel_weights(5) [OF c(2)] by (simp add: attention_args_def Let_def)
  have "?n * weight_bytes qkv = precision_byte ?M * (hidden_dim ?M * (head_dim ?M * (num_heads ?M + 2 * num_kv_heads ?M)))"
    unfolding parallel_weights(1) [OF c(1)] by (rule split_matrix(1) [OF assms(2) _ parallel_weights(2) [OF c(1)]]) (use pos in simp)
  moreover have "?n * weight_bytes proj = precision_byte ?M * (head_dim ?M * num_heads ?M * hidden_dim ?M)"
    unfolding parallel_weights(3) [OF c(3)] by (rule split_matrix(2) [OF assms(2) _ cmod_times [OF assms(2) pos(1,2) heads]]) (use pos in simp)
  ultimately show ?thesis by (simp add: ms weights parallel_weights(4) [OF c(2)] distrib_left Let_def)
qed

lemma ffn_weights:
  assumes "sized (me_model e)" "0 < parallel_num dl" "FeedForward3Way_ctor e ar ex False dl p = Inr ms"
  shows "parallel_num dl * weight_bytes ms = (let m = me_model e; w = ffn_dim m ex in precision_byte m *
    (hidden_dim m * (w * activation_factor m) + w * hidden_dim m + hidden_dim m * w))"
proof -
  let ?M = "me_model e" and ?n = "parallel_num dl" and ?w = "ffn_dim (me_model e) ex"
  obtain w1 w2 w3 where c: "ColumnParallelLinear_ctor e (hidden_dim ?M) (?w * activation_factor ?M) dl (p @ [''gate_proj'']) = Inr w1"
    "RowParallelLinear_ctor e ?w (hidden_dim ?M) dl (p @ [''down_proj'']) = Inr w2"
    "ColumnParallelLinear_ctor e (hidden_dim ?M) ?w dl (p @ [''up_proj'']) = Inr w3"
    and ms: "weight_bytes ms = weight_bytes w1 + weight_bytes w2 + weight_bytes w3"
    using assms(3) by (auto simp: FeedForward3Way_ctor_def Let_def rbind_eq_Inr weights)
  have pos: "0 \<le> ?w" "0 \<le> ?w * activation_factor ?M" using assms(1) by (simp_all add: sized_def ffn_dim_def)
  have "?n * weight_bytes w1 = precision_byte ?M * (hidden_dim ?M * (?w * activation_factor ?M))"
    unfolding parallel_weights(1) [OF c(1)] by (rule split_matrix(1) [OF assms(2) pos(2) parallel_weights(2) [OF c(1)]])
  moreover have "?n * weight_bytes w2 = precision_byte ?M * (?w * hidden_dim ?M)"
    unfolding parallel_weights(3) [OF c(2)] by (rule split_matrix(2) [OF assms(2) pos(1) parallel_weights(2) [OF c(3)]])
  moreover have "?n * weight_bytes w3 = precision_byte ?M * (hidden_dim ?M * ?w)"
    unfolding parallel_weights(1) [OF c(3)] by (rule split_matrix(1) [OF assms(2) pos(1) parallel_weights(2) [OF c(3)]])
  ultimately show ?thesis by (simp add: ms distrib_left Let_def)
qed

lemma replicated_ffn_weights:
  assumes "FeedForward3Way_ctor e ar ex True dl p = Inr ms"
  shows "weight_bytes ms = (let m = me_model e; w = ffn_dim m ex in precision_byte m *
    (hidden_dim m * (w * activation_factor m) + w * hidden_dim m + hidden_dim m * w))"
  using assms by (auto simp: FeedForward3Way_ctor_def Let_def rbind_eq_Inr weights distrib_left)

text \<open>
  C14: the devices of a tensor-parallel group hold the weights of an attention layer exactly once
  between them, and so those of a three-matrix feed-forward layer, whatever the size of the group: the
  bytes of one device times the number of devices are the bytes of the layer on a single device. A
  data-parallel feed-forward layer, as the shared experts use, is held in full by every device.
\<close>

theorem layer_weights_sharded:
  assumes "sized (me_model e)" "0 < parallel_num dl" "Attention_ctor e dl p = Inr attn" "Attention_ctor e [r] q = Inr attn1"
    "FeedForward3Way_ctor e ar ex False dl p' = Inr ffn" "FeedForward3Way_ctor e ar' ex False [r] q' = Inr ffn1"
    "FeedForward3Way_ctor e False ex True dl p'' = Inr shared"
  shows "parallel_num dl * weight_bytes attn = weight_bytes attn1 \<and> parallel_num dl * weight_bytes ffn = weight_bytes ffn1 \<and>
    weight_bytes shared = weight_bytes ffn1"
proof -
  have one: "0 < parallel_num [r]" "parallel_num [r] = 1" by (simp_all add: parallel_num_def)
  show ?thesis
    using attention_weights [OF assms(1,2,3)] attention_weights [OF assms(1) one(1) assms(4)] ffn_weights [OF assms(1,2,5)]
      ffn_weights [OF assms(1) one(1) assms(6)] replicated_ffn_weights [OF assms(7)] by (simp add: one(2))
qed

text \<open>Rows that do not divide are dropped without a check: it is the number of columns that is tested.\<close>

lemma row_split_drops_weights:
  assumes "RowParallelLinear_ctor e k n dl p = Inr ms" "0 < parallel_num dl" "0 \<le> k" "0 < n" "0 < precision_byte (me_model e)"
    "cmod k (parallel_num dl) \<noteq> 0"
  shows "parallel_num dl * weight_bytes ms < precision_byte (me_model e) * (k * n)"
proof -
  have "0 < k mod parallel_num dl" using assms(2,3,6) pos_mod_sign [OF assms(2), of k] by (simp add: order_le_less)
  then have "parallel_num dl * cdiv k (parallel_num dl) < k" using assms(2,3) by (simp add: minus_mod_eq_mult_div [symmetric])
  then have "parallel_num dl * cdiv k (parallel_num dl) * n < k * n" using assms(4) by simp
  then have "precision_byte (me_model e) * (parallel_num dl * cdiv k (parallel_num dl) * n) < precision_byte (me_model e) * (k * n)"
    using assms(5) by simp
  then show ?thesis unfolding parallel_weights(3) [OF assms(1)] by (simp only: ac_simps)
qed

text \<open>A layer on two devices and the same layer on one.\<close>

lemma tiny_layers_construct:
  "\<exists>ms. Attention_ctor (tiny_env 0) dl p = Inr ms" "\<exists>ms. FeedForward3Way_ctor (tiny_env 0) False ex False dl p = Inr ms"
  if "dl = [0, 1] \<or> dl = [0]" for dl
  using that by (auto simp: Attention_ctor_def FeedForward3Way_ctor_def ColumnParallelLinear_ctor_def RowParallelLinear_ctor_def
      SelfAttentionParallel_ctor_def parallel_num_def tiny_model attention_args_def Let_def ffn_dim_def)

theorem layer_weights_sharded_witness:
  "\<exists>attn attn1 ffn ffn1. Attention_ctor (tiny_env 0) [0, 1] [''two''] = Inr attn \<and> Attention_ctor (tiny_env 0) [0] [''one''] = Inr attn1 \<and>
    2 * weight_bytes attn = weight_bytes attn1 \<and> FeedForward3Way_ctor (tiny_env 0) False True False [0, 1] [''two''] = Inr ffn \<and>
    FeedForward3Way_ctor (tiny_env 0) False True False [0] [''one''] = Inr ffn1 \<and> 2 * weight_bytes ffn = weight_bytes ffn1"
proof -
  obtain attn attn1 where a: "Attention_ctor (tiny_env 0) [0, 1] [''two''] = Inr attn" "Attention_ctor (tiny_env 0) [0] [''one''] = Inr attn1"
    using tiny_layers_construct(1) by metis
  obtain ffn ffn1 where f: "FeedForward3Way_ctor (tiny_env 0) False True False [0, 1] [''two''] = Inr ffn"
    "FeedForward3Way_ctor (tiny_env 0) False True False [0] [''one''] = Inr ffn1"
    using tiny_layers_construct(2) by metis
  obtain sh where sh: "FeedForward3Way_ctor (tiny_env 0) False True True [0, 1] [''shared''] = Inr sh"
    by (simp add: FeedForward3Way_ctor_def Let_def)
  have "sized (me_model (tiny_env 0))" "parallel_num [0, 1] = 2" by (simp_all add: sized_def tiny_model parallel_num_def)
  with layer_weights_sharded [OF _ _ a f sh] a f show ?thesis by simp
qed

section \<open>Experts\<close>

lemma div_less:
  fixes t r g :: int
  assumes "0 < t"
  shows "r div t < g \<longleftrightarrow> r < t * g"
proof -
  have r: "t * (r div t) + r mod t = r" "0 \<le> r mod t" "r mod t < t" using assms by simp_all
  have "t * (r div t) + t \<le> t * g" if "r div t < g"
    using that assms mult_left_mono [of "r div t + 1" g t] by (simp add: distrib_left)
  moreover have "t * g \<le> t * (r div t)" if "\<not> r div t < g" using that assms by simp
  ultimately show ?thesis using r by linarith
qed

lemma div_block:
  fixes t r k :: int
  assumes "0 < t"
  shows "r div t = k \<longleftrightarrow> t * k \<le> r \<and> r < t * k + t"
  using div_less [OF assms, of r k] div_less [OF assms, of r "k + 1"] by (auto simp: distrib_left)

text \<open>
  C11: an expert the constructor accepts is placed on one group of \<^verbatim>\<open>e_tp_dg\<close> neighbouring
  devices, the same ones its weights are divided over, and on no other, except that the experts beyond the
  share of the last group, which are left over when their number is not a multiple of the number of groups,
  are placed nowhere.
\<close>

theorem experts_placed:
  assumes "expert_checks e dl = Inr u" "0 < e_tp_dg (me_model e)" "0 < parallel_num dl" "0 \<le> i"
  shows "{r \<in> {0..<parallel_num dl}. i \<in> set (expert_ids (e\<lparr>me_rank := r\<rparr>) dl)} =
      (let t = e_tp_dg (me_model e); per = num_expert_per_device e dl in
       if i < per * (parallel_num dl div t) then {t * (i div per)..<t * (i div per) + t} else {}) \<and>
    (\<forall>r \<in> {0..<parallel_num dl}. i \<in> set (expert_ids (e\<lparr>me_rank := r\<rparr>) dl) \<longrightarrow>
      set (expert_list (e\<lparr>me_rank := r\<rparr>)) = {r' \<in> {0..<parallel_num dl}. i \<in> set (expert_ids (e\<lparr>me_rank := r'\<rparr>) dl)})"
proof -
  let ?t = "e_tp_dg (me_model e)" and ?n = "parallel_num dl" and ?per = "num_expert_per_device e dl"
  have checks: "expert_checks (e\<lparr>me_rank := 0\<rparr>) dl = Inr u" and per: "num_expert_per_device (e\<lparr>me_rank := r\<rparr>) dl = ?per" for r
    using assms(1) by (simp_all add: expert_checks_def num_expert_per_device_def)
  have pos: "0 < ?per" using expert_range_facts(1) [OF checks] assms(2,3) per by simp
  have t: "?t dvd ?n" using assms(1,2,3) by (auto simp: expert_checks_def Let_def rbind_eq_Inr)
  have ids: "i \<in> set (expert_ids (e\<lparr>me_rank := r\<rparr>) dl) \<longleftrightarrow> r div ?t = i div ?per" if "0 \<le> r" for r
  proof -
    have "expert_offset (e\<lparr>me_rank := r\<rparr>) dl = ?per * (r div ?t)" using assms(2) that by (simp add: expert_offset_def per)
    then have "i \<in> set (expert_ids (e\<lparr>me_rank := r\<rparr>) dl) \<longleftrightarrow> i div ?per = r div ?t"
      by (simp add: expert_ids_def per div_block [OF pos])
    then show ?thesis by auto
  qed
  have groups: "i < ?per * (?n div ?t) \<longleftrightarrow> i div ?per < ?n div ?t"
    by (simp add: div_less [OF pos])
  have holders: "{r \<in> {0..<?n}. i \<in> set (expert_ids (e\<lparr>me_rank := r\<rparr>) dl)} =
      (if i < ?per * (?n div ?t) then {?t * (i div ?per)..<?t * (i div ?per) + ?t} else {})"
  proof (cases "i div ?per < ?n div ?t")
    case True
    have k: "0 \<le> i div ?per" using pos assms(4) by (simp add: pos_imp_zdiv_nonneg_iff)
    have "?t * (i div ?per) + ?t \<le> ?t * (?n div ?t)" using True assms(2) mult_left_mono [of "i div ?per + 1" "?n div ?t" ?t] by (simp add: distrib_left)
    then have fits: "?t * (i div ?per) + ?t \<le> ?n" using t by simp
    have low: "0 \<le> ?t * (i div ?per)" using k assms(2) by simp
    have "r \<in> {0..<?n} \<and> i \<in> set (expert_ids (e\<lparr>me_rank := r\<rparr>) dl) \<longleftrightarrow> r \<in> {?t * (i div ?per)..<?t * (i div ?per) + ?t}" for r
      using ids [of r] fits low by (auto simp: div_block [OF assms(2)])
    then have "{r \<in> {0..<?n}. i \<in> set (expert_ids (e\<lparr>me_rank := r\<rparr>) dl)} = {?t * (i div ?per)..<?t * (i div ?per) + ?t}" by blast
    with True show ?thesis by (simp only: groups if_True)
  next
    case False
    have "r div ?t < ?n div ?t" if "r < ?n" for r
      unfolding div_less [OF assms(2)] using that t by simp
    then have "{r \<in> {0..<?n}. i \<in> set (expert_ids (e\<lparr>me_rank := r\<rparr>) dl)} = {}" using False ids by fastforce
    with False show ?thesis by (simp only: groups if_False)
  qed
  have list: "set (expert_list (e\<lparr>me_rank := r\<rparr>)) = {?t * (r div ?t)..<?t * (r div ?t) + ?t}" if "0 \<le> r" for r
    using assms(2) that by (simp add: expert_list_def set_device_list_def Let_def mult.commute)
  have "set (expert_list (e\<lparr>me_rank := r\<rparr>)) = {r' \<in> {0..<?n}. i \<in> set (expert_ids (e\<lparr>me_rank := r'\<rparr>) dl)}"
    if r: "r \<in> {0..<?n}" "i \<in> set (expert_ids (e\<lparr>me_rank := r\<rparr>) dl)" for r
  proof -
    have k: "r div ?t = i div ?per" using ids r by simp
    moreover have "r div ?t < ?n div ?t" unfolding div_less [OF assms(2)] using r t by simp
    ultimately show ?thesis using list [of r] r(1) by (simp only: holders groups if_True) simp
  qed
  with holders show ?thesis by (simp only: Let_def) blast
qed

theorem experts_placed_witness:
  "expert_checks (tiny_env 0) [0, 1] = Inr () \<and> {r \<in> {0..<2}. 3 \<in> set (expert_ids (tiny_env r) [0, 1])} = {1}"
proof -
  have c: "expert_checks (tiny_env 0) [0, 1] = Inr ()" by (simp add: expert_checks_def Let_def parallel_num_def tiny_model)
  have n: "parallel_num [0, 1] = 2" "num_expert_per_device (tiny_env 0) [0, 1] = 2" "e_tp_dg (me_model (tiny_env 0)) = 1"
    by (simp_all add: parallel_num_def num_expert_per_device_def tiny_model)
  have "{1..<1 + (1::int)} = {1}" by auto
  with experts_placed [OF c, of 3] c show ?thesis unfolding n by (simp add: n Let_def)
qed

text \<open>Five experts on two devices: the constructor's checks pass, and nobody holds the fifth.\<close>

definition odd_env :: module_env where
  "odd_env = (tiny_env 0)\<lparr>me_model := (me_model (tiny_env 0))\<lparr>num_routed_expert := 5, ne_tp_dg := 1\<rparr>\<rparr>"

lemma odd_env_simps:
  "me_model odd_env = (me_model (tiny_env 0))\<lparr>num_routed_expert := 5, ne_tp_dg := 1\<rparr>" "me_rank odd_env = 0"
  "irange 0 2 = [0, 1]" "irange 0 (0::int) = []"
  by (simp_all add: odd_env_def irange_def upt_rec)

lemma fifth_expert_dropped:
  "\<exists>ms. ExpertFFN_ctor odd_env [0, 1] p = Inr ms"
  "4 \<notin> set (expert_ids odd_env [0, 1])" "4 \<notin> set (expert_ids (odd_env\<lparr>me_rank := 1\<rparr>) [0, 1])"
  by (simp_all add: ExpertFFN_ctor_def expert_checks_def expert_ffn_ctor_def FeedForward3Way_ctor_def ColumnParallelLinear_ctor_def
      RowParallelLinear_ctor_def non_moe_list_def expert_list_def parallel_num_def ffn_dim_def expert_ids_def expert_offset_def
      num_expert_per_device_def set_device_list_def odd_env_simps tiny_model Let_def ctor_all_def)

end
