(* ===== verification/Graph_Build.thy ===== *)
theory Graph_Build
  imports Model_Props
begin

text \<open>
  The graph that building a model records, and the execution graph of \<open>Module_Graph\<close>. Building
  records the events of one call tree, in which every call is that of a submodule of the caller; the
  nodes that \<^verbatim>\<open>push_module_graph\<close> and \<^verbatim>\<open>pop_module_graph\<close> append for
  that tree are these events, and the level of a node is the depth of its module.
\<close>

text \<open>The nodes of a call tree, where \<open>node\<close> gives the node of a module and \<open>out\<close> its result.\<close>

fun tree_of :: "(mpath \<Rightarrow> graph_node) \<Rightarrow> (mpath \<Rightarrow> nat option) \<Rightarrow> call \<Rightarrow> call_tree" where
  "tree_of node out (Called q cs) = Call (node q) (map (tree_of node out) cs) (out q) []"

definition node_event :: "(mpath \<Rightarrow> graph_node) \<Rightarrow> graph_node \<Rightarrow> graph_event \<Rightarrow> bool" where
  "node_event node n ev \<longleftrightarrow> (case ev of
      graph_event.Push q \<Rightarrow> n = (node q)\<lparr>gn_level := int (length q) - 1, gn_pop := False, gn_stamped := False\<rparr>
    | graph_event.Pop \<Rightarrow> gn_pop n \<and> gn_module n = None)"

text \<open>Calls below a module append their events and give the level back.\<close>

definition appends :: "(mpath \<Rightarrow> graph_node) \<Rightarrow> top_graph \<Rightarrow> top_graph \<Rightarrow> graph_event list \<Rightarrow> bool" where
  "appends node tg tg' evs \<longleftrightarrow> tg_level tg' = tg_level tg \<and>
     (\<exists>ns. tg_nodes tg' = tg_nodes tg @ ns \<and> list_all2 (node_event node) ns evs)"

lemma appends_trans:
  assumes "appends node a b evs" "appends node b c evs'"
  shows "appends node a c (evs @ evs')"
proof -
  obtain ns ns' where "tg_nodes b = tg_nodes a @ ns" "list_all2 (node_event node) ns evs"
    "tg_nodes c = tg_nodes b @ ns'" "list_all2 (node_event node) ns' evs'"
    using assms by (auto simp: appends_def)
  then show ?thesis using assms
    by (auto simp: appends_def intro!: exI [of _ "ns @ ns'"] list_all2_appendI)
qed

lemma call_modules_append: "call_modules (cs @ ds) tg = call_modules ds (call_modules cs tg)"
  by (induction cs arbitrary: tg) simp_all

lemma call_modules_appends:
  assumes "\<And>c tg. c \<in> set cs \<Longrightarrow> tg_level tg = k \<Longrightarrow> appends node tg (call_module (tree_of node out c) tg) (events c)"
    and "tg_level tg = k"
  shows "appends node tg (call_modules (map (tree_of node out) cs) tg) (concat (map events cs))"
  using assms
proof (induction cs arbitrary: tg)
  case Nil
  then show ?case by (simp add: appends_def)
next
  case (Cons c cs)
  have c: "appends node tg (call_module (tree_of node out c) tg) (events c)" using Cons.prems by simp
  then have "tg_level (call_module (tree_of node out c) tg) = k" using Cons.prems(2) by (simp add: appends_def)
  then have "appends node (call_module (tree_of node out c) tg)
      (call_modules (map (tree_of node out) cs) (call_module (tree_of node out c) tg)) (concat (map events cs))"
    using Cons.prems(1) by (intro Cons.IH) simp_all
  with c show ?case by (simp add: appends_trans)
qed

lemma call_module_appends:
  assumes "nested_in p c" "tg_level tg = int (length p)"
  shows "appends node tg (call_module (tree_of node out c) tg) (events c)"
  using assms
proof (induction c arbitrary: p tg)
  case (Called q cs)
  obtain nm where q: "q = p @ [nm]" and sub: "list_all (nested_in q) cs" using Called.prems(1) by auto
  let ?tg = "push_module_graph (node q) tg"
  have lvl: "tg_level ?tg = int (length q)" using Called.prems(2) by (simp add: push_module_graph_def q)
  have "appends node ?tg (call_modules (map (tree_of node out) cs) ?tg) (concat (map events cs))"
  proof (rule call_modules_appends [OF _ lvl])
    fix c and tg' :: top_graph assume "c \<in> set cs" "tg_level tg' = int (length q)"
    then show "appends node tg' (call_module (tree_of node out c) tg') (events c)"
      using Called.IH [of c q tg'] sub by (auto simp: list_all_iff)
  qed
  then obtain ns where ns: "tg_nodes (call_modules (map (tree_of node out) cs) ?tg) = tg_nodes ?tg @ ns"
    "list_all2 (node_event node) ns (concat (map events cs))"
    "tg_level (call_modules (map (tree_of node out) cs) ?tg) = tg_level ?tg" by (auto simp: appends_def)
  have push: "tg_nodes ?tg = tg_nodes tg @ [(node q)\<lparr>gn_level := int (length q) - 1, gn_pop := False, gn_stamped := False\<rparr>]"
    "tg_level ?tg = tg_level tg + 1"
    using Called.prems(2) by (simp_all add: push_module_graph_def q)
  show ?case
    using ns push by (auto simp: appends_def pop_module_graph_def node_event_def intro!: list_all2_appendI)
qed

text \<open>
  C6: building a model on a device, under the conditions of \<open>model_fit\<close> that its constructors do not
  check, records the execution graph of exactly one call of the model: there
  is a call tree with the model at its root, every other call made by the module that contains the
  called one, and the nodes that \<^verbatim>\<open>push_module_graph\<close> and \<^verbatim>\<open>pop_module_graph\<close>
  put into an empty graph for this tree are, one by one, the recorded events. The graph is closed, and
  the level of every node is the depth of its module in the model.
\<close>

theorem built_graph_is_one_call:
  assumes "LLM_ctor e n [''LLM''] = Inr ms" "model_fit e n" "\<not> dv_perform_execution d"
    "0 < sch_batch_size_per_dp sch" "0 < cdiv (sch_num_max_batched_token sch) (sch_batch_size_per_dp sch)"
  shows "\<exists>y st sch' c. build_device e n sch ctl d = Inr (y, st, sch') \<and> called c = [''LLM''] \<and> nested_in [] c \<and>
    list_all2 (node_event node) (tg_nodes (call_module (tree_of node out c) (TopModuleGraph_ctor dev))) (ms_graph st) \<and>
    tg_level (call_module (tree_of node out c) (TopModuleGraph_ctor dev)) = 0"
proof -
  obtain y st sch' c where b: "build_device e n sch ctl d = Inr (y, st, sch')" "called c = [''LLM'']" "nested_in [] c"
    "ms_graph st = events c"
    using build_device_facts [OF assms, of ctl] by blast
  have "appends node (TopModuleGraph_ctor dev) (call_module (tree_of node out c) (TopModuleGraph_ctor dev)) (events c)"
    by (rule call_module_appends [OF b(3)]) (simp add: TopModuleGraph_ctor_def)
  then show ?thesis using b by (auto simp: appends_def TopModuleGraph_ctor_def)
qed

theorem built_graph_is_one_call_witness:
  "\<exists>st c. called c = [''LLM''] \<and> nested_in [] c \<and>
    (\<exists>y sch'. build_device (tiny_env 1) 2 small_scheduler (MMapController_ctor hbm3_80GB) example_device = Inr (y, st, sch')) \<and>
    list_all2 (node_event (\<lambda>_. leaf_node)) (tg_nodes (call_module (tree_of (\<lambda>_. leaf_node) (\<lambda>_. None) c) (TopModuleGraph_ctor 0)))
      (ms_graph st)"
proof -
  obtain ms where ms: "LLM_ctor (tiny_env 1) 2 [''LLM''] = Inr ms" using tiny_constructs [of 1] by auto
  from built_graph_is_one_call [OF ms tiny_fits example_device_idle, of small_scheduler "MMapController_ctor hbm3_80GB"
      "\<lambda>_. leaf_node" "\<lambda>_. None" 0]
  show ?thesis by (auto simp: small_scheduler_batch)
qed

end
