(* ===== verification/Cluster_Memory.thy ===== *)
theory Cluster_Memory
  imports Cluster_Props
begin

text \<open>
  The memory checks of the cluster, \<^verbatim>\<open>checkMemorySize\<close> and
  \<^verbatim>\<open>checkHeteroMemorySize\<close> of \<^verbatim>\<open>src/hardware/cluster.cpp\<close>:
  the footprint of the model on device 0, and the batch that still fits when it is too large.
  Products of \<^verbatim>\<open>int\<close> are exact here; where the code computes them in 32 bits is
  written next to them.
\<close>

section \<open>The footprint of the modules\<close>

fun module_tree_of :: "world \<Rightarrow> module_ref \<Rightarrow> module_tree" and
    module_trees_of :: "world \<Rightarrow> (string \<times> module_ref) list \<Rightarrow> (string \<times> module_tree) list" where
  "module_tree_of w (MRef nm ts ms) =
     Mod nm (List.map_filter (\<lambda>(n, k). map_option (Pair n) (w_tensors w k)) ts) (module_trees_of w ms)"
| "module_trees_of w [] = []"
| "module_trees_of w ((n, m) # ms) = (n, module_tree_of w m) # module_trees_of w ms"

definition model_footprint :: "cluster \<Rightarrow> (int \<times> int \<times> int) res" where
  "model_footprint cl =
     rbind (vec_at (cl_module_map cl) 0) (\<lambda>tbl.
     rbind (map_at tbl ''::LLM'') (\<lambda>m.
     Inr (get_size (module_tree_of (cl_world cl) m))))"

section \<open>The activations of a decoder with latent attention\<close>

text \<open>
  The five estimates share their first four terms and the queries, taken over the tokens in flight,
  and the feed-forward part over the tokens an expert gets. \<^verbatim>\<open>ne_tp_dg\<close> divides an
  \<^verbatim>\<open>int\<close> product in some terms and a \<^verbatim>\<open>double\<close> in others.
\<close>

definition act_projections :: "model_config \<Rightarrow> int \<Rightarrow> real" where
  "act_projections m tokens =
     of_int (tokens * hidden_dim m) + of_int (tokens * q_lora_rank m) + of_int (tokens * kv_lora_rank m) +
     of_int (tokens * qk_rope_head_dim m) +
     fdiv (of_int tokens * (3 * of_int (qk_rope_head_dim m) + of_int (head_dim m)) * of_int (num_heads m)) (of_int (ne_tp_dg m))"

definition act_experts :: "model_config \<Rightarrow> int \<Rightarrow> int \<Rightarrow> real" where
  "act_experts m experts tokens =
     of_int experts * (2 * of_int (tokens * expert_intermediate_dim m) + of_int (tokens * expert_intermediate_dim m) +
       of_int (tokens * hidden_dim m))"

definition act_decode_absorb :: "model_config \<Rightarrow> int \<Rightarrow> int \<Rightarrow> int \<Rightarrow> real" where
  "act_decode_absorb m b experts expert_tokens =
     (let tp = ne_tp_dg m; total_len = mc_input_len m + mc_output_len m in
      act_projections m b + of_int (cdiv (b * num_heads m * kv_lora_rank m) tp) +
      fdiv (of_int b * 2 * of_int (num_heads m) * of_int total_len) (of_int tp) +
      of_int (cdiv (b * num_heads m * kv_lora_rank m) tp) + of_int (cdiv (b * num_heads m * head_dim m) tp) +
      of_int (b * hidden_dim m) + act_experts m experts expert_tokens)"

definition act_decode_base :: "model_config \<Rightarrow> int \<Rightarrow> int \<Rightarrow> int \<Rightarrow> int \<Rightarrow> real" where
  "act_decode_base m kv_len b experts expert_tokens =
     (let tp = ne_tp_dg m; total_len = mc_input_len m + mc_output_len m in
      act_projections m b +
      fdiv (of_int b * 2 * of_int kv_len * of_int (head_dim m) * of_int (num_heads m)) (of_int tp) +
      fdiv (of_int b * 2 * of_int total_len * of_int (num_heads m)) (of_int tp) +
      of_int (cdiv (b * num_heads m * head_dim m) tp) + of_int (b * hidden_dim m) + act_experts m experts expert_tokens)"

text \<open>The prompt: the score matrix is the square of the prompt in every head.\<close>

definition score_elements :: "model_config \<Rightarrow> int \<Rightarrow> int" where
  "score_elements m b = b * mc_input_len m * num_heads m * mc_input_len m"

definition act_prefill_absorb :: "model_config \<Rightarrow> int \<Rightarrow> int \<Rightarrow> int \<Rightarrow> real" where
  "act_prefill_absorb m b experts expert_tokens =
     (let tp = ne_tp_dg m; t = b * mc_input_len m in
      act_projections m t + of_int (cdiv (t * num_heads m * kv_lora_rank m) tp) +
      2 * of_int (cdiv (score_elements m b) tp) +
      of_int (cdiv (t * num_heads m * kv_lora_rank m) tp) + of_int (cdiv (t * num_heads m * head_dim m) tp) +
      of_int (t * hidden_dim m) + act_experts m experts (expert_tokens * mc_input_len m))"

definition act_prefill_base :: "model_config \<Rightarrow> int \<Rightarrow> int \<Rightarrow> int \<Rightarrow> real" where
  "act_prefill_base m b experts expert_tokens =
     (let tp = ne_tp_dg m; t = b * mc_input_len m in
      act_projections m t + fdiv (of_int t * 2 * of_int (head_dim m) * of_int (num_heads m)) (of_int tp) +
      2 * of_int (cdiv (score_elements m b) tp) +
      of_int (cdiv (t * num_heads m * head_dim m) tp) +
      of_int (t * hidden_dim m) + act_experts m experts (expert_tokens * mc_input_len m))"

definition activation_size :: "cluster \<Rightarrow> int" where
  "activation_size cl =
     (let m = cl_model_config cl; c = cl_config cl; s = cl_scheduler cl;
          total_device = num_device c * num_node c;
          experts = cdiv (num_routed_expert m * e_tp_dg m) total_device + num_shared_expert m;
          b = sch_batch_size_per_dp s;
          expert_tokens = (if expert_freq m \<noteq> 0 then cdiv (sch_total_batch_size s * top_k m) (num_routed_expert m) else 0);
          elements =
            (if decode_mode c then
               (if use_absorb m then act_decode_absorb m b experts expert_tokens
                else if compressed_kv m then act_decode_base m (mc_input_len m + mc_output_len m) b experts expert_tokens
                else act_decode_base m 1 b experts expert_tokens)
             else
               (if use_absorb m then act_prefill_absorb m b experts expert_tokens
                else act_prefill_base m b experts expert_tokens))
      in ctrunc (elements * of_int (precision_byte m)))"

section \<open>Shrinking the batch\<close>

definition kv_cache_size_per_seq :: "model_config \<Rightarrow> int" where
  "kv_cache_size_per_seq m =
     (if qk_rope_head_dim m \<noteq> 0 \<and> compressed_kv m then
        ctrunc (1 * of_int (mc_input_len m + mc_output_len m) * of_int (kv_lora_rank m + qk_rope_head_dim m) *
          of_int (num_layers m) * of_int (precision_byte m))
      else
        ctrunc (fdiv (2 * of_int (mc_input_len m + mc_output_len m) * of_int (num_layers m) * of_int (head_dim m) *
          of_int (num_kv_heads m)) (of_int (ne_tp_dg m)) * of_int (precision_byte m)))"

definition clear_queues :: "cluster \<Rightarrow> cluster" where
  "clear_queues cl = cl\<lparr>cl_scheduler := initRunningQueue (scheduler_clear (cl_scheduler cl))\<rparr>"

definition set_batch_size :: "int \<Rightarrow> cluster \<Rightarrow> cluster" where
  "set_batch_size max_batch_size cl =
     (let s = cl_scheduler cl
      in clear_queues (cl\<lparr>cl_scheduler := s\<lparr>sch_total_batch_size := max_batch_size - 1,
           sch_batch_size_per_dp := cdiv (max_batch_size - 1) (sch_dp_degree s)\<rparr>\<rparr>))"

text \<open>What both checks do with the capacity that is left beside weights and activations.\<close>

definition limit_batch :: "real \<Rightarrow> int \<Rightarrow> cluster \<Rightarrow> (bool \<times> cluster) res" where
  "limit_batch avail_capacity kv_cache_size cl =
     (if avail_capacity < 0 then fail ''Memory capacity is smaller than model weight''
      else Inr (False, set_batch_size (ctrunc (fdiv avail_capacity (of_int kv_cache_size)) *
        sch_dp_degree (cl_scheduler cl)) cl))"

definition used_memory :: "cluster \<Rightarrow> int \<times> int \<times> int \<Rightarrow> int" where
  "used_memory cl sizes = (case sizes of (act, weight, cache) \<Rightarrow>
     (if q_lora_rank (cl_model_config cl) = 0 then cdiv act (num_layers (cl_model_config cl))
      else activation_size cl))"

definition checkMemorySize :: "cluster \<Rightarrow> (bool \<times> cluster) res" where
  "checkMemorySize cl =
     rbind (model_footprint cl) (\<lambda>(act, weight, cache).
     let used = used_memory cl (act, weight, cache);
         bytes = real_of_int (used + weight + cache)
     in if bytes > memory_capacity (cl_config cl) then
          (let cl = cl\<lparr>cl_out_of_memory := True\<rparr> in
           if exit_out_of_memory (cl_config cl) then Inr (True, cl)
           else if mem_cap_limit (cl_config cl) then
             limit_batch (memory_capacity (cl_config cl) - of_int used - of_int weight)
               (kv_cache_size_per_seq (cl_model_config cl)) cl
           else Inr (False, clear_queues cl))
        else Inr (False, cl))"

text \<open>
  The check for heterogeneous systems: 3.3 GB of weights that are not in the experts are counted
  once per tensor-parallel group, the key-value cache is computed in integers and the flag
  \<^verbatim>\<open>out_of_memory\<close> is left alone.
\<close>

definition hetero_kv_cache_size :: "model_config \<Rightarrow> int" where
  "hetero_kv_cache_size m =
     cdiv (2 * (mc_input_len m + mc_output_len m) * num_layers m * head_dim m * num_kv_heads m) (ne_tp_dg m) *
       precision_byte m"

definition checkHeteroMemorySize :: "cluster \<Rightarrow> (bool \<times> cluster) res" where
  "checkHeteroMemorySize cl =
     rbind (model_footprint cl) (\<lambda>(act, weight, cache).
     let m = cl_model_config cl;
         bytes = of_int (weight + cache) - fdiv (33 / 10 * 1024 * 1024 * 1024) (of_int (ne_tp_dg m))
     in if bytes > memory_capacity (cl_config cl) then
          (if exit_out_of_memory (cl_config cl) then Inr (True, cl)
           else limit_batch (memory_capacity (cl_config cl) - of_int (cdiv act (num_layers m)) - of_int weight)
             (hetero_kv_cache_size m) cl)
        else Inr (False, cl))"

section \<open>The shrunk batch fits\<close>

lemma share_bound:
  assumes "0 \<le> k" "1 \<le> dp"
  shows "cdiv (k * dp - 1) dp \<le> (k::int)"
proof (cases "0 \<le> k * dp - 1")
  case True
  then have "cdiv (k * dp - 1) dp = (k * dp - 1) div dp" using assms(2) by simp
  also have "\<dots> \<le> (k * dp) div dp" using assms(2) by (intro zdiv_mono1) auto
  finally show ?thesis using assms(2) by simp
next
  case False
  moreover have "0 \<le> k * dp" using assms by simp
  ultimately have "k * dp = 0" by linarith
  then show ?thesis using assms
    by (cases "dp = 1") (auto simp: cdiv_def signed_divide_int_def)
qed

lemma cleared [simp]:
  "list_all (\<lambda>b. bs_sequence b = []) (sch_running_queue (initRunningQueue s))"
  "sch_sequence_queue (initRunningQueue (scheduler_clear s)) = []"
  by (simp_all add: initRunningQueue_def list_all_iff BatchedSequence_Create_def scheduler_clear_def)

lemma clear_queues_config [simp]:
  "sch_total_batch_size (initRunningQueue (scheduler_clear s)) = sch_total_batch_size s"
  "sch_batch_size_per_dp (initRunningQueue (scheduler_clear s)) = sch_batch_size_per_dp s"
  by (simp_all add: initRunningQueue_def scheduler_clear_def)

lemma share_negative:
  assumes "0 \<le> k" "1 \<le> dp"
  shows "cdiv (k * dp - 1) dp < (0::int) \<longleftrightarrow> k = 0 \<and> dp = 1"
proof (cases "k = 0")
  case True
  then show ?thesis using assms(2)
    by (cases "dp = 1") (auto simp: cdiv_def signed_divide_int_def)
next
  case False
  then have "1 * 1 \<le> k * dp" using assms by (intro mult_mono) auto
  then have "0 \<le> k * dp - 1" by simp
  then show ?thesis using assms(2) False by (simp add: not_less pos_imp_zdiv_nonneg_iff)
qed

lemma limit_batch_fails: "isl (limit_batch avail kv cl) \<longleftrightarrow> avail < 0"
  by (simp add: limit_batch_def fail_def)

lemma limit_batch_fits:
  assumes "0 < kv" "1 \<le> sch_dp_degree (cl_scheduler cl)" "limit_batch avail kv cl = Inr (stop, cl')"
  shows "\<not> stop \<and> 0 \<le> avail \<and> of_int (sch_batch_size_per_dp (cl_scheduler cl') * kv) \<le> avail \<and>
    sch_total_batch_size (cl_scheduler cl') = \<lfloor>avail / of_int kv\<rfloor> * sch_dp_degree (cl_scheduler cl) - 1 \<and>
    (sch_batch_size_per_dp (cl_scheduler cl') < 0 \<longleftrightarrow> avail < of_int kv \<and> sch_dp_degree (cl_scheduler cl) = 1) \<and>
    cl_out_of_memory cl' = cl_out_of_memory cl \<and> sch_sequence_queue (cl_scheduler cl') = [] \<and>
    list_all (\<lambda>b. bs_sequence b = []) (sch_running_queue (cl_scheduler cl'))"
proof -
  let ?dp = "sch_dp_degree (cl_scheduler cl)" and ?k = "\<lfloor>avail / of_int kv\<rfloor>"
  have avail: "0 \<le> avail" and st: "\<not> stop" "cl' = set_batch_size (ctrunc (fdiv avail (of_int kv)) * ?dp) cl"
    using assms(3) by (auto simp: limit_batch_def fail_def split: if_splits)
  have k: "ctrunc (fdiv avail (of_int kv)) = ?k" using avail assms(1) by (simp add: ctrunc_def)
  have pos: "0 \<le> ?k" using avail assms(1) by simp
  have "?k < 1 \<longleftrightarrow> avail < of_int kv" using assms(1) by (simp only: floor_less_one) (simp add: divide_less_eq)
  with pos have zero: "?k = 0 \<longleftrightarrow> avail < of_int kv" by linarith
  have "cdiv (?k * ?dp - 1) ?dp \<le> ?k" by (rule share_bound [OF pos assms(2)])
  then have "cdiv (?k * ?dp - 1) ?dp * kv \<le> ?k * kv" using assms(1) by (intro mult_right_mono) auto
  then have "real_of_int (cdiv (?k * ?dp - 1) ?dp * kv) \<le> of_int ?k * of_int kv"
    by (simp only: of_int_mult [symmetric] of_int_le_iff)
  also have "\<dots> \<le> avail / of_int kv * of_int kv" using assms(1) by (intro mult_right_mono) auto
  also have "\<dots> = avail" using assms(1) by simp
  finally show ?thesis
    using st k avail share_negative [OF pos assms(2)] zero by (simp add: set_batch_size_def clear_queues_def Let_def)
qed

text \<open>
  C13: when a sequence takes some cache and there is at least one data-parallel rank, \<^verbatim>\<open>checkMemorySize\<close> stops the run exactly when the footprint exceeds the capacity
  and the configuration says so, and it fails exactly when the footprint exceeds the capacity, the
  batch is to be limited instead and the weights together with the activations of the old batch do not fit. A limited
  batch fits: with the new number of sequences per rank, weights, activations and key-value cache are
  within the capacity, and the queues are empty. The new total is one less than the sequences that fit, so
  the number per rank is negative when not even one sequence fits and there is a single data-parallel rank.
\<close>

theorem checkMemorySize_outcome:
  assumes "model_footprint cl = Inr (act, weight, cache)" "used = used_memory cl (act, weight, cache)"
    and "over \<longleftrightarrow> real_of_int (used + weight + cache) > memory_capacity (cl_config cl)"
    and "kv = kv_cache_size_per_seq (cl_model_config cl)" "0 < kv"
    and "dp = sch_dp_degree (cl_scheduler cl)" "1 \<le> dp"
    and "avail = memory_capacity (cl_config cl) - of_int (used + weight)"
  shows "(isl (checkMemorySize cl) \<longleftrightarrow>
      over \<and> \<not> exit_out_of_memory (cl_config cl) \<and> mem_cap_limit (cl_config cl) \<and> avail < 0) \<and>
    (\<forall>stop cl'. checkMemorySize cl = Inr (stop, cl') \<longrightarrow>
      (stop \<longleftrightarrow> over \<and> exit_out_of_memory (cl_config cl)) \<and> (\<not> over \<longrightarrow> cl' = cl) \<and>
      (over \<longrightarrow> cl_out_of_memory cl') \<and>
      (over \<and> \<not> stop \<longrightarrow> sch_sequence_queue (cl_scheduler cl') = [] \<and>
         list_all (\<lambda>b. bs_sequence b = []) (sch_running_queue (cl_scheduler cl'))) \<and>
      (over \<and> \<not> stop \<and> mem_cap_limit (cl_config cl) \<longrightarrow> 0 \<le> avail \<and>
         of_int (used + weight + sch_batch_size_per_dp (cl_scheduler cl') * kv) \<le> memory_capacity (cl_config cl) \<and>
         sch_total_batch_size (cl_scheduler cl') = \<lfloor>avail / of_int kv\<rfloor> * dp - 1 \<and>
         (sch_batch_size_per_dp (cl_scheduler cl') < 0 \<longleftrightarrow> avail < of_int kv \<and> dp = 1)))"
proof -
  let ?cl = "cl\<lparr>cl_out_of_memory := True\<rparr>"
  consider (fits) "\<not> over" | (exit) "over" "exit_out_of_memory (cl_config cl)"
    | (drop) "over" "\<not> exit_out_of_memory (cl_config cl)" "\<not> mem_cap_limit (cl_config cl)"
    | (limit) "over" "\<not> exit_out_of_memory (cl_config cl)" "mem_cap_limit (cl_config cl)" by blast
  then show ?thesis
  proof cases
    case fits
    with assms(3) show ?thesis by (simp add: checkMemorySize_def assms(1,2))
  next
    case exit
    with assms(3) show ?thesis by (simp add: checkMemorySize_def assms(1,2))
  next
    case drop
    with assms(3) show ?thesis by (simp add: checkMemorySize_def assms(1,2) clear_queues_def)
  next
    case limit
    have run: "checkMemorySize cl = limit_batch avail kv ?cl"
      using limit assms(3) by (simp add: checkMemorySize_def assms(1,2,4,8) diff_diff_eq)
    have dp: "1 \<le> sch_dp_degree (cl_scheduler ?cl)" using assms(6,7) by simp
    have fits: "\<not> stop \<and> 0 \<le> avail \<and> cl_out_of_memory cl' \<and> sch_sequence_queue (cl_scheduler cl') = [] \<and>
        list_all (\<lambda>b. bs_sequence b = []) (sch_running_queue (cl_scheduler cl')) \<and>
        of_int (used + weight + sch_batch_size_per_dp (cl_scheduler cl') * kv) \<le> memory_capacity (cl_config cl) \<and>
        sch_total_batch_size (cl_scheduler cl') = \<lfloor>avail / of_int kv\<rfloor> * dp - 1 \<and>
        (sch_batch_size_per_dp (cl_scheduler cl') < 0 \<longleftrightarrow> avail < of_int kv \<and> dp = 1)"
      if "limit_batch avail kv ?cl = Inr (stop, cl')" for stop cl'
      using limit_batch_fits [OF assms(5) dp that] assms(6,8) by simp
    show ?thesis
      using limit fits by (auto simp: run limit_batch_fails)
  qed
qed

definition crowded_cluster :: cluster where
  "crowded_cluster =
     (let m = example_model\<lparr>ne_tp_dg := 1, mc_input_len := 8, mc_output_len := 8\<rparr>;
          c = H100\<lparr>memory_capacity := 2000, mem_cap_limit := True, exit_out_of_memory := False\<rparr>
      in (Cluster_ctor c m (Scheduler_ctor c m False [] 0 64 64 2 example_rng))
        \<lparr>cl_module_map := [[''::LLM'' \<mapsto> MRef ''LLM'' [(''x'', 0), (''w'', 1)] [(''attn'', MRef ''attn'' [(''kv'', 2)] [])]]],
         cl_world := \<lparr>w_tensors =
           [0 \<mapsto> Tensor_ctor ''x'' [100] ''act'' (Some 0) 2 ALL_CHANNEL,
            1 \<mapsto> Tensor_ctor ''w'' [200] ''weight'' (Some 0) 2 ALL_CHANNEL,
            2 \<mapsto> Tensor_ctor ''kv'' [1500] ''cache'' (Some 0) 2 ALL_CHANNEL], w_devices = [], w_batches = []\<rparr>\<rparr>)"

lemma crowded_facts:
  "model_footprint crowded_cluster = Inr (200, 400, 3000)"
  "used_memory crowded_cluster (200, 400, 3000) = 200"
  "kv_cache_size_per_seq (cl_model_config crowded_cluster) = 512"
  "sch_dp_degree (cl_scheduler crowded_cluster) = 2"
  "memory_capacity (cl_config crowded_cluster) = 2000" "mem_cap_limit (cl_config crowded_cluster)"
  "\<not> exit_out_of_memory (cl_config crowded_cluster)"
proof -
  show "model_footprint crowded_cluster = Inr (200, 400, 3000)"
    by (simp add: model_footprint_def crowded_cluster_def Let_def map_at_def vec_at_def Cluster_ctor_def
        map_filter_simps size_vec_def Tensor_ctor_def getSize_def add_vec_def)
  show "used_memory crowded_cluster (200, 400, 3000) = 200"
    by (simp add: used_memory_def crowded_cluster_def Let_def Cluster_ctor_def example_model_def ModelConfig_ctor_def)
  show "kv_cache_size_per_seq (cl_model_config crowded_cluster) = 512"
    by (simp add: kv_cache_size_per_seq_def crowded_cluster_def Let_def Cluster_ctor_def example_model_def
        ModelConfig_ctor_def ctrunc_def)
  show "sch_dp_degree (cl_scheduler crowded_cluster) = 2"
    by (simp add: crowded_cluster_def Let_def Cluster_ctor_def Scheduler_ctor_def initRunningQueue_def H100_def
        SystemConfig_ctor_def)
qed (simp_all add: crowded_cluster_def Let_def Cluster_ctor_def)

theorem checkMemorySize_outcome_witness:
  "\<exists>cl'. checkMemorySize crowded_cluster = Inr (False, cl') \<and> cl_out_of_memory cl' \<and>
    real_of_int (200 + 400 + sch_batch_size_per_dp (cl_scheduler cl') * 512) \<le> 2000 \<and>
    sch_total_batch_size (cl_scheduler cl') = 3 \<and> 0 \<le> sch_batch_size_per_dp (cl_scheduler cl')"
proof -
  have over: "True \<longleftrightarrow> real_of_int (200 + 400 + 3000) > memory_capacity (cl_config crowded_cluster)"
    and avail: "1400 = memory_capacity (cl_config crowded_cluster) - of_int (200 + 400)"
    by (simp_all add: crowded_facts)
  note out = checkMemorySize_outcome [OF crowded_facts(1) crowded_facts(2) [symmetric] over
      crowded_facts(3) [symmetric] _ crowded_facts(4) [symmetric] _ avail]
  have "\<lfloor>1400 / real_of_int 512\<rfloor> = 2" by (simp add: floor_eq_iff)
  moreover obtain cl' where "checkMemorySize crowded_cluster = Inr (False, cl')"
    using out by (cases "checkMemorySize crowded_cluster") (auto simp: crowded_facts)
  ultimately show ?thesis using out by (auto simp: crowded_facts)
qed

text \<open>
  One prompt of 4096 tokens of the largest preset already has too many scores for the
  \<^verbatim>\<open>int\<close> product the estimate computes.
\<close>

lemma score_elements_overflow:
  "\<exists>m. deepseekV3 = Inr m \<and> \<not> int32_range (score_elements (m\<lparr>mc_input_len := 4096\<rparr>) 1)"
  by (simp add: deepseekV3_def ModelConfig_ctor_def score_elements_def int32_range_def)

end
