(* ===== verification/Cluster_Stat.thy ===== *)
theory Cluster_Stat
  imports Cluster_Memory
begin

text \<open>
  The statistics of an iteration: \<^verbatim>\<open>src/hardware/stat.h\<close> and
  \<^verbatim>\<open>setStat\<close>, \<^verbatim>\<open>setTimeBreakDown\<close>, \<^verbatim>\<open>getTotalEnergy\<close>
  and \<^verbatim>\<open>addLatency\<close> of \<^verbatim>\<open>src/hardware/cluster.cpp\<close>. The breakdown
  adds up the stamps of the trace of device 0 by name. The time, the latency and the iteration flag
  of a fresh row are not initialised by the code; they are 0 here, and every row the iterations
  produce has them assigned.
\<close>

section \<open>The row\<close>

record stat =
  st_time :: real
  st_latency :: real
  st_queueing_delay :: real
  st_arrival_time :: real
  st_seq_queue_size :: int
  st_process_token :: int
  st_batchsize :: int
  st_sum_seq :: int
  st_gen_seq :: int
  st_average_seq_len :: int
  st_input_len :: int
  st_output_len :: int
  st_num_sum_iter :: int
  st_sum_attention_opb :: real
  st_end_token :: int
  st_qkv_gen :: real
  st_atten_sum :: real
  st_atten_gen :: real
  st_o_proj :: real
  st_ffn :: real
  st_expert_ffn :: real
  st_communication :: real
  st_q_down_proj :: real
  st_kv_down_proj :: real
  st_kr_proj :: real
  st_q_up_proj :: real
  st_qr_proj :: real
  st_kv_up_proj :: real
  st_tr_k_up_proj :: real
  st_v_up_proj :: real
  st_rope :: real
  st_layernorm :: real
  st_residual :: real
  st_act_energy :: real
  st_read_energy :: real
  st_write_energy :: real
  st_all_act_energy :: real
  st_all_read_energy :: real
  st_all_write_energy :: real
  st_mac_energy :: real
  st_total_energy :: real
  st_FC_DRAM_energy :: real
  st_FC_COMP_energy :: real
  st_Attn_DRAM_energy :: real
  st_Attn_COMP_energy :: real
  st_MoE_DRAM_energy :: real
  st_MoE_COMP_energy :: real
  st_isOOM :: bool
  st_is_mixed :: int
  st_split :: int
  st_type :: string
  st_iter_info :: int

definition Stat_ctor :: stat where
  "Stat_ctor = \<lparr>st_time = 0, st_latency = 0, st_queueing_delay = 0, st_arrival_time = 0,
     st_seq_queue_size = 0, st_process_token = 0, st_batchsize = 0, st_sum_seq = 0, st_gen_seq = 0,
     st_average_seq_len = 0, st_input_len = 0, st_output_len = 0, st_num_sum_iter = 0,
     st_sum_attention_opb = 0, st_end_token = 0, st_qkv_gen = 0, st_atten_sum = 0, st_atten_gen = 0,
     st_o_proj = 0, st_ffn = 0, st_expert_ffn = 0, st_communication = 0, st_q_down_proj = 0,
     st_kv_down_proj = 0, st_kr_proj = 0, st_q_up_proj = 0, st_qr_proj = 0, st_kv_up_proj = 0,
     st_tr_k_up_proj = 0, st_v_up_proj = 0, st_rope = 0, st_layernorm = 0, st_residual = 0,
     st_act_energy = 0, st_read_energy = 0, st_write_energy = 0, st_all_act_energy = 0,
     st_all_read_energy = 0, st_all_write_energy = 0, st_mac_energy = 0, st_total_energy = 0,
     st_FC_DRAM_energy = 0, st_FC_COMP_energy = 0, st_Attn_DRAM_energy = 0, st_Attn_COMP_energy = 0,
     st_MoE_DRAM_energy = 0, st_MoE_COMP_energy = 0, st_isOOM = False, st_is_mixed = 0,
     st_split = 0, st_type = [], st_iter_info = 0\<rparr>"

text \<open>
  The columns of the output file and the line of a row. A cell keeps its value;
  \<^verbatim>\<open>std::to_string\<close> prints a \<^verbatim>\<open>double\<close> with six digits.
\<close>

datatype csv_cell = IntCell int | RealCell real | TextCell string

definition csv_header :: "string list" where
  "csv_header =
     [''iter_info'', ''split'', ''type'', ''time'', ''latency'', ''queueing_delay'', ''arrival_time'', ''seq_queue_size'',
      ''input_len'', ''output_len'', ''num_sum_iter'', ''mixed'', ''batchsize'', ''numtoken'', ''num_sum_seq'',
      ''num_gen_seq'', ''seqlen'', ''sum_attention_opb'', ''qkvgen'', ''q_down_proj'', ''kv_down_proj'', ''kr_proj'',
      ''q_up_proj'', ''qr_proj'', ''kv_up_proj'', ''tr_k_up_proj'', ''v_up_proj'', ''atten_sum'', ''atten_gen'',
      ''o_proj'', ''ffn'', ''expert_ffn'', ''communication'', ''rope'', ''layernorm'', ''residual'', ''act_energy'',
      ''read_energy'', ''write_energy'', ''all_act_energy'', ''all_read_energy'', ''all_write_energy'', ''mac_energy'',
      ''total_energy'', ''fc_dram'', ''fc_comp'', ''attn_dram'', ''attn_comp'', ''moe_dram'', ''moe_comp'', ''OOM'']"

definition csv_row :: "stat \<Rightarrow> csv_cell list" where
  "csv_row st =
     [IntCell (st_iter_info st), IntCell (st_split st), TextCell (st_type st), RealCell (st_time st),
      RealCell (st_latency st), RealCell (st_queueing_delay st), RealCell (st_arrival_time st),
      IntCell (st_seq_queue_size st), IntCell (st_input_len st), IntCell (st_output_len st),
      IntCell (st_num_sum_iter st), IntCell (st_is_mixed st), IntCell (st_batchsize st),
      IntCell (st_process_token st), IntCell (st_sum_seq st), IntCell (st_gen_seq st),
      IntCell (st_average_seq_len st), RealCell (st_sum_attention_opb st), RealCell (st_qkv_gen st),
      RealCell (st_q_down_proj st), RealCell (st_kv_down_proj st), RealCell (st_kr_proj st),
      RealCell (st_q_up_proj st), RealCell (st_qr_proj st), RealCell (st_kv_up_proj st),
      RealCell (st_tr_k_up_proj st), RealCell (st_v_up_proj st), RealCell (st_atten_sum st),
      RealCell (st_atten_gen st), RealCell (st_o_proj st), RealCell (st_ffn st), RealCell (st_expert_ffn st),
      RealCell (st_communication st), RealCell (st_rope st), RealCell (st_layernorm st), RealCell (st_residual st),
      RealCell (st_act_energy st), RealCell (st_read_energy st), RealCell (st_write_energy st),
      RealCell (st_all_act_energy st), RealCell (st_all_read_energy st), RealCell (st_all_write_energy st),
      RealCell (st_mac_energy st), RealCell (st_total_energy st), RealCell (st_FC_DRAM_energy st),
      RealCell (st_FC_COMP_energy st), RealCell (st_Attn_DRAM_energy st), RealCell (st_Attn_COMP_energy st),
      RealCell (st_MoE_DRAM_energy st), RealCell (st_MoE_COMP_energy st),
      IntCell (if st_isOOM st then 1 else 0)]"

lemma csv_row_columns: "length (csv_row st) = length csv_header" "distinct csv_header"
  by (simp_all add: csv_row_def csv_header_def)

section \<open>Energy\<close>

definition getTotalEnergy :: "cluster \<Rightarrow> real list res" where
  "getTotalEnergy cl =
     rfold (\<lambda>rank tot. rbind (get_device cl rank) (\<lambda>i.
       Inr (map2 (+) tot (getDeviceEnergy (dv_status (w_devices (cl_world cl) ! i))))))
     (irange 0 (cl_num_total_device cl)) (replicate 8 0)"

definition set_energy :: "real list \<Rightarrow> stat \<Rightarrow> stat" where
  "set_energy e st = st\<lparr>st_act_energy := e ! 0, st_read_energy := e ! 1, st_write_energy := e ! 2,
     st_all_act_energy := e ! 3, st_all_read_energy := e ! 4, st_all_write_energy := e ! 5,
     st_mac_energy := e ! 6, st_total_energy := e ! 7\<rparr>"

section \<open>The state of the scheduler\<close>

definition device_time :: "cluster \<Rightarrow> real res" where
  "device_time cl = rbind (get_device cl 0) (\<lambda>i. Inr (get_time (w_devices (cl_world cl) ! i)))"

definition setStat :: "cluster \<Rightarrow> stat \<Rightarrow> stat res" where
  "setStat cl st =
     rbind (device_time cl) (\<lambda>time.
     let s = cl_scheduler cl;
         st = st\<lparr>st_batchsize := getBatchSize s, st_average_seq_len := getAverageSeqlen s,
           st_process_token := getNumProcessToken s, st_sum_seq := getSumSize s, st_gen_seq := getGenSize s\<rparr>
     in Inr (if \<not> disagg_system (cl_config cl) then
               (if hasSumSeq s then st\<lparr>st_latency := time, st_is_mixed := 1\<rparr>
                else st\<lparr>st_latency := time, st_is_mixed := 0\<rparr>)
             else if \<not> hasSumSeq s then st\<lparr>st_latency := time, st_is_mixed := 0\<rparr>
             else st))"

section \<open>The time breakdown\<close>

text \<open>The stamps of several patterns, collected into one vector, and what the loops add up.\<close>

definition stamps :: "time_board \<Rightarrow> string list \<Rightarrow> stamp list" where
  "stamps tb pats = concat (map (\<lambda>p. board_find_stamp p tb) pats)"

definition durations :: "stamp list \<Rightarrow> real" where
  "durations ts = sum_list (map get_duration ts)"

definition dram_of :: "int \<Rightarrow> stamp list \<Rightarrow> real" where
  "dram_of n ts = sum_list (map (\<lambda>t. getDramEnergy t * of_int n) ts)"

definition comp_of :: "int \<Rightarrow> stamp list \<Rightarrow> real" where
  "comp_of n ts = sum_list (map (\<lambda>t. getCompEnergy t * of_int n) ts)"

definition expert_comm_patterns :: "string list" where
  "expert_comm_patterns = [''moe_scatter'', ''moe_all_reduce_for_e_tp'', ''moe_all_reduce_for_gather'', ''moe_gather'']"

definition comm_patterns :: "string list" where
  "comm_patterns = [''all_reduce'', ''moe_scatter'', ''moe_gather'']"

text \<open>The expert layers may differ between devices, so their energy is summed over all of them.\<close>

definition expert_stamps :: "cluster \<Rightarrow> stamp list res" where
  "expert_stamps cl =
     rfold (\<lambda>rank acc. rbind (get_device cl rank) (\<lambda>i.
       Inr (acc @ stamps (tg_timeboard (cl_graphs cl ! i)) [''expertFFN''])))
     (irange 0 (cl_num_total_device cl)) []"

definition mean_opb :: "stamp list \<Rightarrow> real" where
  "mean_opb ts = (let opb = sum_list (map getOpb ts) in
     if ts \<noteq> [] then opb / of_int (int (length ts)) else opb)"

text \<open>The part both branches share, from the attention to the end.\<close>

definition break_down_rest :: "cluster \<Rightarrow> time_board \<Rightarrow> stamp list \<Rightarrow> string list \<Rightarrow> stamp list \<Rightarrow> stamp list \<Rightarrow> stat \<Rightarrow> stat" where
  "break_down_rest cl tb experts norms fc attn st =
     (let n = cl_num_total_device cl; AttnSum = stamps tb [''AttentionSum'']
      in st\<lparr>st_atten_sum := durations AttnSum, st_atten_gen := durations (stamps tb [''AttentionGen'']),
        st_o_proj := durations (stamps tb [''attn_o_proj'']), st_ffn := durations (stamps tb [''feedforward'']),
        st_expert_ffn := durations (stamps tb [''expertFFN'']) - durations (stamps tb expert_comm_patterns),
        st_communication := durations (stamps tb comm_patterns),
        st_rope := durations (stamps tb [''k_rope'', ''q_rope'']),
        st_layernorm := durations (stamps tb norms),
        st_residual := durations (stamps tb [''residual_1'', ''residual_2'']),
        st_FC_DRAM_energy := dram_of n fc, st_FC_COMP_energy := comp_of n fc,
        st_Attn_DRAM_energy := dram_of n attn, st_Attn_COMP_energy := comp_of n attn,
        st_MoE_DRAM_energy := dram_of 1 experts, st_MoE_COMP_energy := comp_of 1 experts,
        st_isOOM := cl_out_of_memory cl, st_sum_attention_opb := mean_opb AttnSum\<rparr>)"

definition break_down_plain :: "cluster \<Rightarrow> time_board \<Rightarrow> stamp list \<Rightarrow> stat \<Rightarrow> stat" where
  "break_down_plain cl tb experts st =
     break_down_rest cl tb experts [''input_layer_norm'', ''post_attn_layer_norm'']
       (stamps tb [''attn_qkv_proj'', ''attn_o_proj'', ''feedforward''])
       (stamps tb [''AttentionSum'', ''AttentionGen''])
       (st\<lparr>st_qkv_gen := durations (stamps tb [''attn_qkv_proj''])\<rparr>)"

definition break_down_mla :: "cluster \<Rightarrow> time_board \<Rightarrow> stamp list \<Rightarrow> stat \<Rightarrow> stat" where
  "break_down_mla cl tb experts st =
     break_down_rest cl tb experts
       [''input_layer_norm'', ''latent_q_layer_norm'', ''latent_kv_layer_norm'', ''post_attn_layer_norm'']
       (stamps tb [''attn_o_proj'', ''feedforward''])
       (stamps tb [''attn_q_down_proj'', ''attn_kv_down_proj'', ''attn_kr_proj'', ''attn_q_up_proj'', ''attn_qr_proj'',
          ''attn_kv_up_proj'', ''attn_tr_k_up_proj'', ''attn_v_up_proj'', ''AttentionSum'', ''AttentionGen''])
       (st\<lparr>st_q_down_proj := durations (stamps tb [''attn_q_down_proj'']),
          st_kv_down_proj := durations (stamps tb [''attn_kv_down_proj'']),
          st_kr_proj := durations (stamps tb [''attn_kr_proj'']),
          st_q_up_proj := durations (stamps tb [''attn_q_up_proj'']),
          st_qr_proj := durations (stamps tb [''attn_qr_proj'']),
          st_kv_up_proj := durations (stamps tb [''attn_kv_up_proj'']),
          st_tr_k_up_proj := durations (stamps tb [''attn_tr_k_up_proj'']),
          st_v_up_proj := durations (stamps tb [''attn_v_up_proj''])\<rparr>)"

definition setTimeBreakDown :: "cluster \<Rightarrow> stat \<Rightarrow> stat res" where
  "setTimeBreakDown cl st =
     rbind (get_device cl 0) (\<lambda>i.
     rbind (expert_stamps cl) (\<lambda>experts.
     let tb = tg_timeboard (cl_graphs cl ! i) in
     Inr (if qk_nope_head_dim (sch_model_config (cl_scheduler cl)) = 0
          then break_down_plain cl tb experts st else break_down_mla cl tb experts st)))"

section \<open>Latency rows\<close>

text \<open>
  The row of a sequence that produced its first or its last token. The generation start is written
  through the pointer, so a sequence that is still running has it too.
\<close>

definition latency_row :: "real \<Rightarrow> sequence \<Rightarrow> stat" where
  "latency_row time q =
     (let st = Stat_ctor\<lparr>st_iter_info := 0, st_time := time\<rparr> in
      if sq_current_len q = sq_total_len q then
        st\<lparr>st_type := ''e2e'', st_latency := sq_end_token_time q, st_input_len := sq_input_len q,
          st_output_len := sq_output_len q, st_num_sum_iter := sq_num_sum_iter q,
          st_queueing_delay := sq_queueing_delay q, st_arrival_time := sq_arrival_time q\<rparr>
      else if sq_current_len q = sq_input_len q then
        st\<lparr>st_type := ''t2ft'', st_latency := sq_first_token_time q, st_input_len := sq_input_len q,
          st_num_sum_iter := sq_num_sum_iter q, st_queueing_delay := sq_queueing_delay q,
          st_arrival_time := sq_arrival_time q\<rparr>
      else st)"

definition start_generation :: "real \<Rightarrow> sequence list \<Rightarrow> scheduler \<Rightarrow> scheduler" where
  "start_generation time qs s =
     s\<lparr>sch_running_queue := map (\<lambda>b. fold (\<lambda>q. bs_modify (sq_id q) (setGenStartTime time)) qs b) (sch_running_queue s)\<rparr>"

definition latency_rows :: "real \<Rightarrow> sequence list \<Rightarrow> stat list" where
  "latency_rows time qs =
     map (latency_row time) (filter (\<lambda>q. \<not> (sq_first_token_time q = 0 \<or> sq_arrival_time q = 0)) qs)"

definition addLatency :: "stat list \<Rightarrow> sequence list \<Rightarrow> real \<Rightarrow> cluster \<Rightarrow> stat list \<times> cluster" where
  "addLatency stat_list qs time cl =
     (stat_list @ latency_rows time qs, cl\<lparr>cl_scheduler := start_generation time qs (cl_scheduler cl)\<rparr>)"

end
