(* ===== verification/Cluster_Iterate.thy ===== *)
theory Cluster_Iterate
  imports Cluster_Stat
begin

text \<open>
  The iterations of a simulation: \<^verbatim>\<open>runIteration\<close>,
  \<^verbatim>\<open>runIterationMixed\<close>, \<^verbatim>\<open>runIterationSumGenSplit\<close> and
  \<^verbatim>\<open>exportToCSV\<close> of \<^verbatim>\<open>src/hardware/cluster.cpp\<close>. An iteration
  chooses the tokens, runs the graphs, dates the batch by the clock of device 0, appends its row and
  the latency rows of the sequences it completed, and refills the queues.
\<close>

section \<open>State\<close>

record iteration_state =
  it_cluster :: cluster
  it_total_time :: real
  it_sum_machine_time :: real
  it_stat_list :: "stat list"
  it_csv :: "stat list"

text \<open>\<^verbatim>\<open>exportToCSV\<close> writes the rows collected so far and forgets them.\<close>

definition exportToCSV :: "iteration_state \<Rightarrow> iteration_state" where
  "exportToCSV it = it\<lparr>it_csv := it_csv it @ it_stat_list it, it_stat_list := []\<rparr>"

definition with_scheduler :: "(scheduler \<Rightarrow> scheduler) \<Rightarrow> cluster \<Rightarrow> cluster" where
  "with_scheduler f cl = cl\<lparr>cl_scheduler := f (cl_scheduler cl)\<rparr>"

text \<open>Tokens, graphs, and the clock of device 0.\<close>

definition run_tokens :: "forward \<Rightarrow> cluster \<Rightarrow> (cluster \<times> real) res" where
  "run_tokens fwd cl =
     rbind (cluster_run fwd (with_scheduler setMetadata cl)) (\<lambda>cl.
     rbind (device_time cl) (\<lambda>time. Inr (cl, time)))"

definition iteration_row :: "cluster \<Rightarrow> real \<Rightarrow> bool \<Rightarrow> stat res" where
  "iteration_row cl total_time split =
     (let st = Stat_ctor\<lparr>st_iter_info := 1, st_type := ''t2t'', st_time := total_time\<rparr>;
          st = (if split then st\<lparr>st_split := 1\<rparr> else st) in
      rbind (getTotalEnergy cl) (\<lambda>e.
      let st = (set_energy e st)\<lparr>st_seq_queue_size := int (length (sch_sequence_queue (cl_scheduler cl)))\<rparr> in
      rbind (setStat cl st) (setTimeBreakDown cl)))"

text \<open>Retiring the finished sequences, their latency rows and the refill.\<close>

definition finish_iteration ::
  "(real \<Rightarrow> scheduler \<Rightarrow> scheduler \<times> sequence list) \<Rightarrow> real \<Rightarrow> real \<Rightarrow> cluster \<Rightarrow> stat list \<Rightarrow> stat list \<times> cluster" where
  "finish_iteration upd time date cl rows =
     (let (s, qs) = upd time (cl_scheduler cl) in addLatency rows qs date (cl\<lparr>cl_scheduler := s\<rparr>))"

definition refill :: "real \<Rightarrow> real \<Rightarrow> cluster \<Rightarrow> cluster res" where
  "refill time total_time cl =
     rbind (fillSequenceQueue time total_time (cl_scheduler cl)) (\<lambda>s.
     Inr (cl\<lparr>cl_scheduler := fillRunningQueue s\<rparr>))"

text \<open>The work both loops do for an iteration without a separate prompt machine.\<close>

definition account_iteration :: "cluster \<Rightarrow> real \<Rightarrow> bool \<Rightarrow> iteration_state \<Rightarrow> iteration_state res" where
  "account_iteration cl time split it =
     (let total_time = it_total_time it + time;
          cl = with_scheduler (\<lambda>s. s\<lparr>sch_total_time := total_time\<rparr>) cl in
      rbind (iteration_row cl total_time split) (\<lambda>st.
      let (rows, cl) = finish_iteration updateScheduler time total_time cl (it_stat_list it @ [st]) in
      rbind (refill time total_time cl) (\<lambda>cl.
      Inr (it\<lparr>it_cluster := cl, it_total_time := total_time, it_stat_list := rows\<rparr>))))"

definition csv_lines :: "iteration_state \<Rightarrow> csv_cell list list" where
  "csv_lines it = map TextCell csv_header # map csv_row (it_csv it)"

section \<open>The loops\<close>

text \<open>
  An iteration without tokens is skipped: the 20 ms the code assigns to \<^verbatim>\<open>time\<close> before
  \<^verbatim>\<open>continue\<close> are lost.
\<close>

definition mixed_iteration :: "forward \<Rightarrow> int \<Rightarrow> iteration_state \<Rightarrow> iteration_state res" where
  "mixed_iteration fwd i it =
     (let it = exportToCSV it in
      rbind (run_tokens fwd (it_cluster it)) (\<lambda>(cl, time).
      if getNumProcessToken (cl_scheduler cl) = 0 then Inr (it\<lparr>it_cluster := cl\<rparr>)
      else account_iteration cl time (disagg_system (cl_config cl)) it))"

definition start_iterations :: "cluster \<Rightarrow> iteration_state" where
  "start_iterations cl = \<lparr>it_cluster = cl, it_total_time = 0, it_sum_machine_time = 0, it_stat_list = [], it_csv = []\<rparr>"

definition runIterationMixed :: "forward \<Rightarrow> int \<Rightarrow> cluster \<Rightarrow> iteration_state res" where
  "runIterationMixed fwd iter cl = rfold (mixed_iteration fwd) (irange 0 iter) (start_iterations cl)"

text \<open>
  Disaggregated systems: an iteration with a prompt runs on the prompt machine, whose own time is
  behind neither clock, and leaves the queues and the total time alone.
\<close>

definition prompt_iteration :: "cluster \<Rightarrow> real \<Rightarrow> iteration_state \<Rightarrow> iteration_state" where
  "prompt_iteration cl time it =
     (let t = max (it_total_time it) (it_sum_machine_time it) + time;
          st = Stat_ctor\<lparr>st_iter_info := 1, st_type := ''sum'', st_time := t, st_latency := time\<rparr>;
          (rows, cl) = finish_iteration updateSchedulerSumGenSplit time t cl (it_stat_list it @ [st])
      in it\<lparr>it_cluster := cl, it_sum_machine_time := t, it_stat_list := rows\<rparr>)"

definition split_iteration :: "forward \<Rightarrow> int \<Rightarrow> iteration_state \<Rightarrow> iteration_state res" where
  "split_iteration fwd i it =
     (let it = (if cmod i 25 = 24 then exportToCSV it else it) in
      rbind (run_tokens fwd (it_cluster it)) (\<lambda>(cl, time).
      if getNumProcessToken (cl_scheduler cl) = 0 then Inr (it\<lparr>it_cluster := cl\<rparr>)
      else if \<not> hasSumSeq (cl_scheduler cl) then account_iteration cl time False it
      else Inr (prompt_iteration cl time it)))"

definition runIterationSumGenSplit :: "forward \<Rightarrow> int \<Rightarrow> cluster \<Rightarrow> iteration_state res" where
  "runIterationSumGenSplit fwd iter cl = rfold (split_iteration fwd) (irange 0 iter) (start_iterations cl)"

text \<open>\<^verbatim>\<open>runIteration\<close>: the queues are filled and the batch is warmed up first.\<close>

definition runIteration :: "forward \<Rightarrow> int \<Rightarrow> cluster \<Rightarrow> iteration_state res" where
  "runIteration fwd iter cl =
     rbind (fillSequenceQueue 0 0 (cl_scheduler cl)) (\<lambda>s.
     rbind (hittingQueue 10000 (fillRunningQueue s)) (\<lambda>s.
     let cl = cl\<lparr>cl_scheduler := s\<rparr> in
     if disagg_system (cl_config cl) then runIterationSumGenSplit fwd iter cl else runIterationMixed fwd iter cl))"

end
