(* ===== verification/Scheduler_Props.thy ===== *)
theory Scheduler_Props
  imports Batch_Scheduler
begin

text \<open>
  What continuous batching guarantees: an iteration keeps the running queue well formed, its
  tokens are exactly the work that disappears, a runnable queue drains, a batch with more prompts
  than \<^verbatim>\<open>max_process_token\<close> never moves, filling loses no sequence and wastes no
  slot.
\<close>

section \<open>An iteration\<close>

definition step :: "real \<Rightarrow> scheduler \<Rightarrow> scheduler" where
  "step t s = fst (updateScheduler t (setMetadata s))"

text \<open>
  C1: \<^verbatim>\<open>setMetadata\<close> followed by \<^verbatim>\<open>updateScheduler\<close> keeps the
  running queue well formed (no sequence past its length, none finished left behind, no tokens left
  over), and reports only sequences that are complete or have just finished their prompt.
\<close>

theorem iteration_invariant:
  assumes "sched_inv s" "updateScheduler t (setMetadata s) = (s', out)"
  shows "sched_inv s' \<and>
    list_all (\<lambda>q. sq_current_len q = sq_total_len q \<or> sq_current_len q = sq_input_len q) out"
proof -
  have d: "ids_distinct s" using assms(1) by (simp add: sched_inv_def)
  have "out = concat (map (snd \<circ> iterate_batch s t) (sch_running_queue s))"
    using assms(2) by (simp add: iteration_eq [OF d])
  then have "list_all (\<lambda>q. sq_current_len q = sq_total_len q \<or> sq_current_len q = sq_input_len q) out"
    by (auto simp: list_all_iff iterate_batch_def Let_def finished_def first_token_def)
  with iteration_keeps_inv [OF assms(1), of t] assms(2) show ?thesis by simp
qed

text \<open>One rank with a three-token prompt and one output token, two prompt tokens per iteration.\<close>

definition example_scheduler :: scheduler where
  "example_scheduler = (Scheduler_ctor A100 (example_model\<lparr>ne_tp_dg := 2\<rparr>) False [] 0 4 64 2 example_rng)
     \<lparr>sch_running_queue := [bs_add (example_sequence\<lparr>sq_input_len := 3, sq_total_len := 4, sq_num_process_token := 0\<rparr>)
        (BatchedSequence_Create 4 2)]\<rparr>"

lemma example_scheduler_ok: "sched_inv example_scheduler"
  by (simp add: example_scheduler_def Scheduler_ctor_def Let_def initRunningQueue_def sched_inv_def
      ids_distinct_def seq_ok_def bs_add_def BatchedSequence_Create_def example_sequence_def Sequence_Create_def)

theorem iteration_invariant_witness:
  "\<exists>s' out. updateScheduler 5 (setMetadata example_scheduler) = (s', out) \<and> sched_inv s' \<and>
    list_all (\<lambda>q. sq_current_len q = sq_total_len q \<or> sq_current_len q = sq_input_len q) out"
proof (cases "updateScheduler 5 (setMetadata example_scheduler)")
  case (Pair s' out)
  with iteration_invariant [OF example_scheduler_ok Pair] show ?thesis by blast
qed

definition seq_work :: "sequence \<Rightarrow> int" where
  "seq_work q = sq_total_len q - sq_current_len q"

definition batch_work :: "batched_sequence \<Rightarrow> int" where
  "batch_work b = sum_list (map seq_work (bs_sequence b))"

definition remaining :: "scheduler \<Rightarrow> int" where
  "remaining s = sum_list (map batch_work (sch_running_queue s))"

definition batch_tokens :: "scheduler \<Rightarrow> batched_sequence \<Rightarrow> int" where
  "batch_tokens s b = sum_list (map (\<lambda>q. sq_num_process_token (assign (fst (stages s)) (snd (stages s))
     (sch_total_time s) (batch_share (sch_max_process_token s) b) q)) (bs_sequence b))"

lemma batch_work_iterate:
  "batch_work (fst (iterate_batch s t b)) = batch_work b - batch_tokens s b"
proof -
  have "sum_list (map seq_work (map mark (filter (\<lambda>q. \<not> finished q) (map (advance pg ps tt t sh) qs)))) =
      sum_list (map seq_work qs) - sum_list (map (\<lambda>q. sq_num_process_token (assign pg ps tt sh q)) qs)"
    for pg ps tt sh qs
    by (induction qs) (auto simp: seq_work_def finished_def advance_current)
  then show ?thesis by (simp add: batch_work_def batch_tokens_def iterate_batch_def Let_def)
qed

lemma getNumProcessToken_sum: "getNumProcessToken s = sum_list (map get_process_token (sch_running_queue s))"
  by (simp add: getNumProcessToken_def fold_plus_sum_list)

lemma setMetadata_tokens:
  "getNumProcessToken (setMetadata s) = sum_list (map (batch_tokens s) (sch_running_queue s))"
  by (simp add: getNumProcessToken_sum setMetadata_def Let_def case_prod_beta comp_def batch_metadata_eq
      get_process_token_def sum_tokens_sum_list batch_tokens_def [abs_def])

lemma step_running_queue:
  "ids_distinct s \<Longrightarrow> sch_running_queue (step t s) = map (fst \<circ> iterate_batch s t) (sch_running_queue s)"
  by (simp add: step_def iteration_eq)

lemma remaining_step:
  assumes "ids_distinct s"
  shows "remaining (step t s) = remaining s - getNumProcessToken (setMetadata s)"
proof -
  have "sum_list (map (\<lambda>b. batch_work (fst (iterate_batch s t b))) bs) =
      sum_list (map batch_work bs) - sum_list (map (batch_tokens s) bs)" for bs
    by (induction bs) (auto simp: batch_work_iterate)
  then show ?thesis
    by (simp add: remaining_def step_running_queue [OF assms] setMetadata_tokens comp_def)
qed

section \<open>Progress\<close>

text \<open>
  A runnable queue: no batch holds more prompts than there are tokens to hand out, and every
  generating sequence may start.
\<close>

definition runnable :: "scheduler \<Rightarrow> bool" where
  "runnable s \<longleftrightarrow> list_all (\<lambda>b. int (length (get_sum b)) \<le> sch_max_process_token s \<and>
     list_all (\<lambda>q. sq_gen_start_time q = 0 \<or> sq_gen_start_time q \<le> sch_total_time s) (bs_sequence b))
     (sch_running_queue s)"

lemma batch_tokens_nonneg:
  assumes "sched_inv s" "b \<in> set (sch_running_queue s)"
  shows "q \<in> set (bs_sequence b) \<Longrightarrow> 0 \<le> sq_num_process_token (assign pg ps tt (batch_share (sch_max_process_token s) b) q)"
    and "0 \<le> batch_tokens s b"
proof -
  have ok: "seq_ok q" if "q \<in> set (bs_sequence b)" for q
    using assms that by (auto simp: sched_inv_def list_all_iff)
  have mp: "0 \<le> sch_max_process_token s" using assms(1) by (simp add: sched_inv_def)
  note nn = assign_tokens(1) [OF ok batch_share_nonneg [OF mp]]
  show "q \<in> set (bs_sequence b) \<Longrightarrow> 0 \<le> sq_num_process_token (assign pg ps tt (batch_share (sch_max_process_token s) b) q)"
    by (rule nn)
  show "0 \<le> batch_tokens s b"
    unfolding batch_tokens_def by (rule sum_list_nonneg_int) (rule nn)
qed

lemma tokens_at_least_one:
  assumes "sched_inv s" "b \<in> set (sch_running_queue s)" "q \<in> set (bs_sequence b)"
    "1 \<le> sq_num_process_token (assign (fst (stages s)) (snd (stages s)) (sch_total_time s)
       (batch_share (sch_max_process_token s) b) q)"
  shows "1 \<le> getNumProcessToken (setMetadata s)"
proof -
  let ?f = "\<lambda>q. sq_num_process_token (assign (fst (stages s)) (snd (stages s)) (sch_total_time s)
       (batch_share (sch_max_process_token s) b) q)"
  have member: "f x \<le> sum_list (map f xs)" if "x \<in> set xs" "\<And>y. y \<in> set xs \<Longrightarrow> 0 \<le> f y" for f :: "'x \<Rightarrow> int" and x xs
    using that by (induction xs) (auto intro: add_increasing add_increasing2 sum_list_nonneg_int)
  have "?f q \<le> batch_tokens s b"
    unfolding batch_tokens_def using assms(3) batch_tokens_nonneg(1) [OF assms(1,2)] by (rule member)
  also have "\<dots> \<le> getNumProcessToken (setMetadata s)"
    unfolding setMetadata_tokens using assms(2) batch_tokens_nonneg(2) [OF assms(1)] by (rule member)
  finally show ?thesis using assms(4) by simp
qed

lemma is_sum_tokens [simp]: "is_sum (q\<lparr>sq_num_process_token := n\<rparr>) = is_sum q"
  by (simp add: is_sum_def)

lemma assign_gen_token:
  "\<not> is_sum q \<Longrightarrow> pg \<Longrightarrow> sq_gen_start_time q = 0 \<or> sq_gen_start_time q \<le> tt \<Longrightarrow>
     sq_num_process_token (assign pg ps tt sh q) = 1"
  by (auto simp: assign_def gen_tokens_def sum_share_def)

lemma assign_sum_token:
  "is_sum q \<Longrightarrow> ps \<Longrightarrow> 1 \<le> sh \<Longrightarrow> 1 \<le> sq_num_process_token (assign pg ps tt sh q)"
  by (auto simp: assign_def gen_tokens_def sum_share_def) (simp add: is_sum_def)

lemma batch_share_pos:
  assumes "q \<in> set (bs_sequence b)" "is_sum q" "int (length (get_sum b)) \<le> mp"
  shows "1 \<le> batch_share mp b"
proof -
  have ne: "get_sum b \<noteq> []" using assms(1,2) by (auto simp: get_sum_def filter_empty_conv)
  then have "0 < int (length (get_sum b))" by simp
  with assms(3) have "1 \<le> mp div int (length (get_sum b))"
    by (simp add: pos_imp_zdiv_pos_iff int_one_le_iff_zero_less)
  with ne assms(3) show ?thesis by (simp add: batch_share_def)
qed

lemma getBatchSize_sum: "getBatchSize s = sum_list (map get_num_seq (sch_running_queue s))"
  by (simp add: getBatchSize_def fold_plus_sum_list)

lemma getBatchSize_zero_iff: "getBatchSize s = 0 \<longleftrightarrow> (\<forall>b \<in> set (sch_running_queue s). bs_sequence b = [])"
proof -
  have "sum_list (map get_num_seq bs) = 0 \<longleftrightarrow> (\<forall>b \<in> set bs. bs_sequence b = [])" for bs
  proof (induction bs)
    case (Cons b bs)
    have "0 \<le> sum_list (map get_num_seq bs)" by (rule sum_list_nonneg_int) (simp add: get_num_seq_def)
    moreover have "0 \<le> get_num_seq b" "get_num_seq b = 0 \<longleftrightarrow> bs_sequence b = []" by (simp_all add: get_num_seq_def)
    ultimately show ?case using Cons by auto
  qed simp
  then show ?thesis by (simp add: getBatchSize_sum)
qed

lemma runnable_makes_tokens:
  assumes "sched_inv s" "runnable s" "getBatchSize s \<noteq> 0"
  shows "1 \<le> getNumProcessToken (setMetadata s)"
proof -
  have sum_ok: "1 \<le> getNumProcessToken (setMetadata s)"
    if "b \<in> set (sch_running_queue s)" "q \<in> set (bs_sequence b)" "is_sum q" "snd (stages s)" for b q
    using that assms(1,2)
    by (intro tokens_at_least_one [OF assms(1) that(1,2)] assign_sum_token batch_share_pos [OF that(2)])
      (auto simp: runnable_def list_all_iff)
  have gen_ok: "1 \<le> getNumProcessToken (setMetadata s)"
    if "b \<in> set (sch_running_queue s)" "q \<in> set (bs_sequence b)" "\<not> is_sum q" "fst (stages s)" for b q
    using that assms(2) by (intro tokens_at_least_one [OF assms(1) that(1,2)])
      (auto simp: runnable_def list_all_iff assign_gen_token)
  obtain b q where bq: "b \<in> set (sch_running_queue s)" "q \<in> set (bs_sequence b)"
    using assms(3) by (force simp: getBatchSize_zero_iff neq_Nil_conv)
  consider "sch_disagg_system s" | "\<not> sch_disagg_system s" "hasSumSeq s" | "\<not> sch_disagg_system s" "\<not> hasSumSeq s"
    by blast
  then show ?thesis
  proof cases
    case 1
    then have "fst (stages s)" "snd (stages s)" by (simp_all add: stages_def)
    with sum_ok [OF bq] gen_ok [OF bq] show ?thesis by blast
  next
    case 2
    then have "snd (stages s)" by (simp add: stages_def)
    moreover obtain b q where "b \<in> set (sch_running_queue s)" "q \<in> set (bs_sequence b)" "is_sum q"
      using 2(2) by (auto simp: hasSumSeq_def list_ex_iff get_sum_def filter_empty_conv)
    ultimately show ?thesis using sum_ok by blast
  next
    case 3
    then have "fst (stages s)" by (simp add: stages_def)
    moreover have "\<not> is_sum q"
      using 3(2) bq by (auto simp: hasSumSeq_def list_ex_iff get_sum_def filter_empty_conv)
    ultimately show ?thesis using gen_ok [OF bq] by blast
  qed
qed

lemma step_fields [simp]:
  "sch_max_process_token (step t s) = sch_max_process_token s"
  "sch_total_time (step t s) = sch_total_time s" "sch_disagg_system (step t s) = sch_disagg_system s"
  by (simp_all add: step_def updateScheduler_def setMetadata_def Let_def case_prod_beta)

lemma step_inv: "sched_inv s \<Longrightarrow> sched_inv (step t s)"
  unfolding step_def by (rule iteration_keeps_inv)

lemma get_sum_iterate_batch:
  assumes "list_all seq_ok (bs_sequence b)" "0 \<le> sch_max_process_token s"
  shows "length (get_sum (fst (iterate_batch s t b))) \<le> length (get_sum b)"
proof -
  have "length (filter is_sum (map mark (filter (\<lambda>q. \<not> finished q) (map (advance pg ps tt t sh) qs)))) \<le> length (filter is_sum qs)"
    if "list_all seq_ok qs" "0 \<le> sh" for pg ps tt sh qs
    using that
  proof (induction qs)
    case (Cons q qs)
    have "is_sum (mark (advance pg ps tt t sh q)) \<longrightarrow> is_sum q"
      using assign_tokens(1) [of q sh pg ps tt] Cons.prems by (simp add: is_sum_def advance_current)
    with Cons show ?case by auto
  qed simp
  with assms batch_share_nonneg [OF assms(2)] show ?thesis
    by (simp add: get_sum_def iterate_batch_def Let_def)
qed

lemma step_runnable:
  assumes "sched_inv s" "runnable s"
  shows "runnable (step t s)"
proof -
  have d: "ids_distinct s" and mp: "0 \<le> sch_max_process_token s" using assms(1) by (simp_all add: sched_inv_def)
  have "int (length (get_sum (fst (iterate_batch s t b)))) \<le> sch_max_process_token s"
    if "b \<in> set (sch_running_queue s)" for b
  proof -
    have "list_all seq_ok (bs_sequence b)" using assms(1) that by (simp add: sched_inv_def list_all_iff)
    from get_sum_iterate_batch [OF this mp, of t] show ?thesis
      using assms(2) that by (force simp: runnable_def list_all_iff)
  qed
  moreover have "sq_gen_start_time q = 0 \<or> sq_gen_start_time q \<le> sch_total_time s"
    if "b \<in> set (sch_running_queue s)" "q \<in> set (bs_sequence (fst (iterate_batch s t b)))" for b q
    using assms(2) that by (simp add: set_iterate_batch runnable_def list_all_iff) (metis mark_fields(6) advance_fields(5))
  ultimately show ?thesis
    by (simp add: runnable_def list_all_iff step_running_queue [OF d])
qed

lemma remaining_nonpos_empty:
  assumes "sched_inv s" "remaining s \<le> 0"
  shows "getBatchSize s = 0"
proof -
  have pos: "0 < seq_work q" if "b \<in> set (sch_running_queue s)" "q \<in> set (bs_sequence b)" for b q
    using assms(1) that by (auto simp: sched_inv_def list_all_iff seq_ok_def seq_work_def)
  have zero: "\<forall>x \<in> set xs. f x = 0" if "sum_list (map f xs) \<le> 0" "\<forall>x \<in> set xs. 0 \<le> f x" for f :: "'x \<Rightarrow> int" and xs
    using that
  proof (induction xs)
    case (Cons x xs)
    have "0 \<le> sum_list (map f xs)" using Cons.prems by (intro sum_list_nonneg_int) auto
    with Cons show ?case by auto
  qed simp
  have nn: "0 \<le> batch_work b" if "b \<in> set (sch_running_queue s)" for b
    unfolding batch_work_def using pos [OF that] by (intro sum_list_nonneg_int) (auto intro: less_imp_le)
  have "batch_work b = 0" if "b \<in> set (sch_running_queue s)" for b
    using zero [of batch_work "sch_running_queue s"] assms(2) nn that by (simp add: remaining_def)
  then have "seq_work q = 0" if "b \<in> set (sch_running_queue s)" "q \<in> set (bs_sequence b)" for b q
    using zero [of seq_work "bs_sequence b"] pos that by (fastforce simp: batch_work_def)
  with pos show ?thesis
    by (metis getBatchSize_zero_iff less_irrefl list.set_intros(1) neq_Nil_conv)
qed

text \<open>
  C7: a well-formed runnable queue drains: after as many iterations as there are tokens left to
  process no sequence is running, and every iteration in which something runs processes at least
  one token.
\<close>

theorem runnable_queue_drains:
  assumes "sched_inv s" "runnable s" "nat (remaining s) \<le> n"
  shows "getBatchSize ((step t ^^ n) s) = 0 \<and>
    (getBatchSize s \<noteq> 0 \<longrightarrow> remaining (step t s) < remaining s)"
proof -
  have less: "remaining (step t s) < remaining s" if "sched_inv s" "runnable s" "getBatchSize s \<noteq> 0" for s
    using runnable_makes_tokens [OF that] remaining_step [of s t] that(1) by (simp add: sched_inv_def)
  have "getBatchSize ((step t ^^ n) s) = 0"
    using assms
  proof (induction n arbitrary: s)
    case 0
    then show ?case using remaining_nonpos_empty by simp
  next
    case (Suc n)
    have "nat (remaining (step t s)) \<le> n"
    proof (cases "getBatchSize s = 0")
      case True
      have "ids_distinct s" using Suc.prems(1) by (simp add: sched_inv_def)
      moreover have "batch_work (fst (iterate_batch s t b)) = 0" if "b \<in> set (sch_running_queue s)" for b
        using True that by (simp add: getBatchSize_zero_iff iterate_batch_def batch_work_def Let_def)
      then have "sum_list (map (\<lambda>b. batch_work (fst (iterate_batch s t b))) (sch_running_queue s)) = 0"
        by (simp cong: map_cong)
      ultimately show ?thesis by (simp add: remaining_def step_running_queue comp_def)
    next
      case False
      then show ?thesis using less [OF Suc.prems(1,2)] Suc.prems(3) by linarith
    qed
    then have "getBatchSize ((step t ^^ n) (step t s)) = 0"
      using Suc.prems by (intro Suc.IH step_inv step_runnable)
    then show ?case by (simp add: funpow_swap1)
  qed
  with less assms show ?thesis by blast
qed

lemma example_scheduler_runnable:
  "runnable example_scheduler" "remaining example_scheduler = 4" "getBatchSize example_scheduler \<noteq> 0"
  by (simp_all add: example_scheduler_def Scheduler_ctor_def Let_def initRunningQueue_def runnable_def
      remaining_def batch_work_def seq_work_def getBatchSize_def get_num_seq_def get_sum_def is_sum_def
      bs_add_def BatchedSequence_Create_def example_sequence_def Sequence_Create_def)

theorem runnable_queue_drains_witness:
  "getBatchSize ((step 5 ^^ 4) example_scheduler) = 0 \<and>
    remaining (step 5 example_scheduler) < remaining example_scheduler"
  using runnable_queue_drains [OF example_scheduler_ok example_scheduler_runnable(1), of 4 5]
    example_scheduler_runnable by simp

section \<open>Starvation\<close>

text \<open>Prompts are waiting, and every batch that has prompts has more of them than prompt tokens.\<close>

definition starving :: "scheduler \<Rightarrow> bool" where
  "starving s \<longleftrightarrow> \<not> sch_disagg_system s \<and> hasSumSeq s \<and>
     list_all (\<lambda>b. get_sum b \<noteq> [] \<longrightarrow> sch_max_process_token s < int (length (get_sum b))) (sch_running_queue s)"

lemma starving_tokens:
  assumes "sched_inv s" "starving s" "b \<in> set (sch_running_queue s)" "q \<in> set (bs_sequence b)"
  shows "sq_num_process_token (assign (fst (stages s)) (snd (stages s)) (sch_total_time s)
    (batch_share (sch_max_process_token s) b) q) = 0"
proof -
  have ok: "seq_ok q" and mp: "0 \<le> sch_max_process_token s"
    using assms by (auto simp: sched_inv_def list_all_iff)
  have st: "stages s = (False, True)" using assms(2) by (simp add: starving_def stages_def)
  show ?thesis
  proof (cases "is_sum q")
    case True
    then have ne: "get_sum b \<noteq> []" using assms(4) by (auto simp: get_sum_def filter_empty_conv)
    then have "sch_max_process_token s < int (length (get_sum b))"
      using assms(2,3) by (simp add: starving_def list_all_iff)
    then have "batch_share (sch_max_process_token s) b = 0"
      using ne mp by (simp add: batch_share_def div_pos_pos_trivial)
    with True st show ?thesis by (simp add: assign_def gen_tokens_def sum_share_def is_sum_def)
  next
    case False
    with st ok show ?thesis by (simp add: assign_def gen_tokens_def sum_share_def seq_ok_def)
  qed
qed

lemma starving_batch:
  assumes "sched_inv s" "starving s" "b \<in> set (sch_running_queue s)"
  shows "length (get_sum (fst (iterate_batch s t b))) = length (get_sum b)"
    "map sq_current_len (bs_sequence (fst (iterate_batch s t b))) = map sq_current_len (bs_sequence b)"
proof -
  let ?adv = "advance (fst (stages s)) (snd (stages s)) (sch_total_time s) t (batch_share (sch_max_process_token s) b)"
  have cur: "sq_current_len (?adv q) = sq_current_len q" if "q \<in> set (bs_sequence b)" for q
    using starving_tokens [OF assms that] by (simp add: advance_current)
  have "\<not> finished (?adv q)" if "q \<in> set (bs_sequence b)" for q
  proof -
    have "seq_ok q" using assms(1,3) that by (simp add: sched_inv_def list_all_iff)
    with cur [OF that] show ?thesis by (simp add: seq_ok_def finished_def)
  qed
  then have seqs: "bs_sequence (fst (iterate_batch s t b)) = map (mark \<circ> ?adv) (bs_sequence b)"
    by (simp add: iterate_batch_def Let_def filter_map comp_def cong: filter_cong)
  show "map sq_current_len (bs_sequence (fst (iterate_batch s t b))) = map sq_current_len (bs_sequence b)"
    using cur by (simp add: seqs)
  have "filter (\<lambda>q. is_sum (mark (?adv q))) (bs_sequence b) = filter is_sum (bs_sequence b)"
    using cur by (intro filter_cong) (auto simp: is_sum_def)
  then show "length (get_sum (fst (iterate_batch s t b))) = length (get_sum b)"
    by (simp add: get_sum_def seqs filter_map comp_def)
qed

text \<open>
  C40: with more prompts in every prompt batch than \<^verbatim>\<open>max_process_token\<close>, each prompt's
  share rounds down to no token at all while generation waits for the prompts: no iteration ever
  changes the length of any sequence, so the scheduler stays in that state forever.
\<close>

theorem starving_scheduler_never_moves:
  assumes "sched_inv s" "starving s"
  shows "map (map sq_current_len \<circ> bs_sequence) (sch_running_queue ((step t ^^ n) s)) =
    map (map sq_current_len \<circ> bs_sequence) (sch_running_queue s) \<and> starving ((step t ^^ n) s)"
proof -
  have one: "map (map sq_current_len \<circ> bs_sequence) (sch_running_queue (step t s)) =
      map (map sq_current_len \<circ> bs_sequence) (sch_running_queue s) \<and> starving (step t s)"
    if "sched_inv s" "starving s" for s
  proof
    have d: "ids_distinct s" using that(1) by (simp add: sched_inv_def)
    note sb = starving_batch [OF that]
    show "map (map sq_current_len \<circ> bs_sequence) (sch_running_queue (step t s)) =
        map (map sq_current_len \<circ> bs_sequence) (sch_running_queue s)"
      by (simp add: step_running_queue [OF d] sb(2))
    have ne: "get_sum (fst (iterate_batch s t b)) = [] \<longleftrightarrow> get_sum b = []" if "b \<in> set (sch_running_queue s)" for b
      using sb(1) [OF that, of t] by (metis length_0_conv)
    show "starving (step t s)"
      using that(2) ne sb(1)
      by (auto simp: starving_def hasSumSeq_def step_running_queue [OF d] list_all_iff list_ex_iff)
  qed
  show ?thesis
    using assms
  proof (induction n arbitrary: s)
    case (Suc n)
    have "(step t ^^ Suc n) s = (step t ^^ n) (step t s)" by (simp add: funpow_swap1)
    with Suc.IH [OF step_inv [OF Suc.prems(1)] one [OF Suc.prems, THEN conjunct2]] one [OF Suc.prems]
    show ?case by metis
  qed simp
qed

definition starving_example :: scheduler where
  "starving_example = example_scheduler\<lparr>sch_max_process_token := 0\<rparr>"

theorem starving_scheduler_never_moves_witness:
  "map (map sq_current_len \<circ> bs_sequence) (sch_running_queue ((step 5 ^^ 1000) starving_example)) = [[0]] \<and>
    getBatchSize starving_example = 1"
proof -
  have ok: "sched_inv starving_example" "starving starving_example"
    "map (map sq_current_len \<circ> bs_sequence) (sch_running_queue starving_example) = [[0]]"
    "getBatchSize starving_example = 1"
    by (simp_all add: starving_example_def example_scheduler_def Scheduler_ctor_def Let_def initRunningQueue_def
        sched_inv_def ids_distinct_def seq_ok_def starving_def hasSumSeq_def get_sum_def is_sum_def
        bs_add_def BatchedSequence_Create_def example_sequence_def Sequence_Create_def
        getBatchSize_def get_num_seq_def A100_def SystemConfig_ctor_def)
  then show ?thesis using starving_scheduler_never_moves [OF ok(1,2), of 1000 5] by simp
qed

section \<open>Prefill and decode do not mix\<close>

lemma sum_list_all_zero: "(\<And>x. x \<in> set xs \<Longrightarrow> f x = (0::int)) \<Longrightarrow> sum_list (map f xs) = 0"
  by (induction xs) auto

lemma getSumSize_sum: "getSumSize s = sum_list (map (\<lambda>b. int (length (filter (\<lambda>q. sq_num_process_token q \<noteq> 0) (get_sum b)))) (sch_running_queue s))"
  "getGenSize s = sum_list (map (\<lambda>b. int (length (filter (\<lambda>q. sq_num_process_token q \<noteq> 0) (get_gen b)))) (sch_running_queue s))"
  by (simp_all add: getSumSize_def getGenSize_def fold_plus_sum_list)

lemma sum_share_tokens:
  assumes "list_all seq_ok qs" "0 \<le> sh"
  shows "sum_list (map sq_num_process_token (filter is_sum (map (assign pg ps tt sh) qs))) \<le> sh * int (length (filter is_sum qs))"
  using assms
proof (induction qs)
  case (Cons q qs)
  have "sq_num_process_token (assign pg ps tt sh q) \<le> sh" if "is_sum q"
    using Cons.prems that by (auto simp: assign_def gen_tokens_def sum_share_def seq_ok_def)
  with Cons show ?case by (auto simp: algebra_simps)
qed simp

text \<open>
  in a system that is not disaggregated an iteration processes prompts or generates, never
  both, and the prompt tokens of a batch never exceed \<^verbatim>\<open>max_process_token\<close>.
\<close>

theorem stages_do_not_mix:
  assumes "sched_inv s" "\<not> sch_disagg_system s"
  shows "(getSumSize (setMetadata s) = 0 \<or> getGenSize (setMetadata s) = 0) \<and>
    list_all (\<lambda>b. get_sum_process_token b \<le> sch_max_process_token s) (sch_running_queue (setMetadata s))"
proof
  have ok: "list_all seq_ok (bs_sequence b)" if "b \<in> set (sch_running_queue s)" for b
    using assms(1) that by (simp add: sched_inv_def list_all_iff)
  show "getSumSize (setMetadata s) = 0 \<or> getGenSize (setMetadata s) = 0"
  proof (cases "hasSumSeq s")
    case True
    then have st: "stages s = (False, True)" using assms(2) by (simp add: stages_def)
    have "is_sum q" if "seq_ok q" "sq_num_process_token (assign False True tt sh q) \<noteq> 0" for q tt sh
      using that by (simp add: assign_def gen_tokens_def sum_share_def seq_ok_def split: if_splits)
    then have "getGenSize (setMetadata s) = 0"
      unfolding getSumSize_sum setMetadata_def Let_def st prod.case
      using ok by (auto simp: batch_metadata_eq get_gen_def list_all_iff filter_empty_conv intro!: sum_list_all_zero)
    then show ?thesis by simp
  next
    case False
    then have st: "stages s = (True, False)" using assms(2) by (simp add: stages_def)
    have none: "\<not> is_sum q" if "b \<in> set (sch_running_queue s)" "q \<in> set (bs_sequence b)" for b q
      using False that by (auto simp: hasSumSeq_def list_ex_iff get_sum_def filter_empty_conv)
    then have "getSumSize (setMetadata s) = 0"
      unfolding getSumSize_sum setMetadata_def Let_def st prod.case
      by (auto simp: batch_metadata_eq get_sum_def filter_empty_conv intro!: sum_list_all_zero)
    then show ?thesis by simp
  qed
  have "get_sum_process_token (batch_metadata pg ps tt (sch_max_process_token s) b) \<le> sch_max_process_token s"
    if "b \<in> set (sch_running_queue s)" for b pg ps tt
  proof -
    have mp: "0 \<le> sch_max_process_token s" using assms(1) by (simp add: sched_inv_def)
    let ?n = "int (length (get_sum b))"
    have "get_sum_process_token (batch_metadata pg ps tt (sch_max_process_token s) b) \<le>
        batch_share (sch_max_process_token s) b * ?n"
      using sum_share_tokens [OF ok [OF that] batch_share_nonneg [OF mp]]
      by (simp add: get_sum_process_token_def get_sum_def batch_metadata_eq sum_tokens_sum_list)
    also have "\<dots> \<le> sch_max_process_token s"
    proof (cases "get_sum b = []")
      case False
      then have "0 < ?n" by simp
      with mp have "cdiv (sch_max_process_token s) ?n * ?n \<le> sch_max_process_token s"
        using pos_mod_sign [of ?n "sch_max_process_token s"] by (simp add: minus_mod_eq_div_mult [symmetric])
      with False show ?thesis by (simp add: batch_share_def)
    qed (use mp in simp)
    finally show ?thesis .
  qed
  then show "list_all (\<lambda>b. get_sum_process_token b \<le> sch_max_process_token s) (sch_running_queue (setMetadata s))"
    by (simp add: setMetadata_def Let_def case_prod_beta list_all_iff)
qed

theorem stages_do_not_mix_witness:
  "getSumSize (setMetadata example_scheduler) = 0 \<or> getGenSize (setMetadata example_scheduler) = 0"
proof -
  have "\<not> sch_disagg_system example_scheduler"
    by (simp add: example_scheduler_def Scheduler_ctor_def Let_def initRunningQueue_def A100_def SystemConfig_ctor_def)
  from stages_do_not_mix [OF example_scheduler_ok this] show ?thesis by blast
qed

section \<open>Filling the running queue\<close>

text \<open>The rotation visits every batch once in a round.\<close>

lemma find_slot_Some:
  "find_slot n cap bs r = (Some i, r') \<Longrightarrow> bs \<noteq> [] \<Longrightarrow> i < length bs \<and> get_num_seq (bs ! i) < cap"
  by (induction n arbitrary: r) (auto simp: Let_def split: if_splits)

lemma find_slot_None:
  "find_slot n cap bs r = (None, r') \<Longrightarrow> k < n \<Longrightarrow> cap \<le> get_num_seq (bs ! ((r + k) mod length bs))"
proof (induction n arbitrary: r k)
  case (Suc n)
  then have "cap \<le> get_num_seq (bs ! (r mod length bs))" and none: "find_slot n cap bs (Suc r) = (None, r')"
    by (auto simp: Let_def split: if_splits)
  then show ?case
    using Suc.IH [OF none, of "k - 1"] Suc.prems(2) by (cases k) auto
qed simp

lemma rotation_covers:
  assumes "i < L"
  shows "\<exists>k < L. (r + k) mod L = (i :: nat)"
proof (intro exI conjI)
  let ?k = "(i + (L - r mod L)) mod L"
  show "?k < L" using assms by simp
  have "(r + ?k) mod L = (r mod L + (i + (L - r mod L))) mod L" by (simp add: mod_simps)
  also have "r mod L + (i + (L - r mod L)) = i + L"
    using assms mod_less_divisor [of L r] by linarith
  finally show "(r + ?k) mod L = i" using assms by simp
qed

lemma find_slot_full:
  assumes "find_slot (length bs) cap bs r = (None, r')" "b \<in> set bs"
  shows "cap \<le> get_num_seq b"
proof -
  obtain i where i: "i < length bs" "b = bs ! i" using assms(2) by (metis in_set_conv_nth)
  obtain k where "k < length bs" "(r + k) mod length bs = i" using rotation_covers [OF i(1)] by blast
  with find_slot_None [OF assms(1)] i(2) show ?thesis by blast
qed

text \<open>Where the sequences of a scheduler are, by id.\<close>

definition running_ids :: "scheduler \<Rightarrow> int multiset" where
  "running_ids s = mset (concat (map (\<lambda>b. map sq_id (bs_sequence b)) (sch_running_queue s)))"

definition waiting_ids :: "scheduler \<Rightarrow> int list" where
  "waiting_ids s = map sq_id (sch_sequence_queue s)"

definition all_full :: "scheduler \<Rightarrow> bool" where
  "all_full s \<longleftrightarrow> list_all (\<lambda>b. sch_batch_size_per_dp s \<le> get_num_seq b) (sch_running_queue s)"

definition within_capacity :: "scheduler \<Rightarrow> bool" where
  "within_capacity s \<longleftrightarrow> list_all (\<lambda>b. get_num_seq b \<le> sch_batch_size_per_dp s) (sch_running_queue s)"

text \<open>One round either places the oldest waiting sequence or finds every batch full.\<close>

lemma fill_one_cases:
  assumes "sch_sequence_queue s = q # queue"
  shows "(\<exists>i q'. i < length (sch_running_queue s) \<and> sq_id q' = sq_id q \<and>
      get_num_seq (sch_running_queue s ! i) < sch_batch_size_per_dp s \<and>
      sch_sequence_queue (fill_one s) = queue \<and>
      sch_running_queue (fill_one s) = (sch_running_queue s)[i := bs_add q' (sch_running_queue s ! i)]) \<or>
    (all_full s \<and> sch_sequence_queue (fill_one s) = q # queue \<and>
      sch_running_queue (fill_one s) = sch_running_queue s)"
proof -
  let ?bs = "sch_running_queue s"
  obtain slot r' where fs: "find_slot (length ?bs) (sch_batch_size_per_dp s) ?bs (sch_rotate s) = (slot, r')"
    by fastforce
  show ?thesis
  proof (cases slot)
    case None
    then have "all_full s" using find_slot_full [of ?bs] fs by (auto simp: all_full_def list_all_iff)
    with None fs assms show ?thesis by (simp add: fill_one_def Let_def)
  next
    case (Some i)
    have "?bs \<noteq> []" using fs Some by (cases ?bs) auto
    with find_slot_Some fs Some have "i < length ?bs" "get_num_seq (?bs ! i) < sch_batch_size_per_dp s" by blast+
    with Some fs assms show ?thesis
      by (intro disjI1 exI [of _ i] exI [of _ "if use_inject_rate (sch_system_config s)
           then q\<lparr>sq_queueing_delay := sch_total_time s - sq_arrival_time q\<rparr> else q"])
        (simp add: fill_one_def Let_def)
  qed
qed

lemma fill_one_config [simp]:
  "sch_batch_size_per_dp (fill_one s) = sch_batch_size_per_dp s"
  by (simp add: fill_one_def Let_def case_prod_beta split: list.splits option.splits)

lemma fill_one_empty [simp]: "sch_sequence_queue s = [] \<Longrightarrow> fill_one s = s"
  by (simp add: fill_one_def)

lemma concat_update_mset:
  "i < length bs \<Longrightarrow> mset (concat (map f (bs[i := b]))) + mset (f (bs ! i)) = mset (concat (map f bs)) + mset (f b)"
  by (induction bs arbitrary: i) (auto split: nat.splits simp: ac_simps)

lemma fill_one_conserves:
  "running_ids (fill_one s) + mset (waiting_ids (fill_one s)) = running_ids s + mset (waiting_ids s)"
  "within_capacity s \<Longrightarrow> within_capacity (fill_one s)"
proof -
  show "running_ids (fill_one s) + mset (waiting_ids (fill_one s)) = running_ids s + mset (waiting_ids s)"
  proof (cases "sch_sequence_queue s")
    case (Cons q queue)
    from fill_one_cases [OF Cons] show ?thesis
    proof (elim disjE exE conjE)
      fix i q'
      let ?bs = "sch_running_queue s" and ?f = "\<lambda>b. map sq_id (bs_sequence b)"
      assume "i < length ?bs" "sq_id q' = sq_id q" "sch_sequence_queue (fill_one s) = queue"
        "sch_running_queue (fill_one s) = ?bs[i := bs_add q' (?bs ! i)]"
      with concat_update_mset [of i ?bs ?f "bs_add q' (?bs ! i)"] Cons show ?thesis
        by (simp add: running_ids_def waiting_ids_def bs_add_def)
    qed (simp add: running_ids_def waiting_ids_def Cons)
  qed simp
  assume cap: "within_capacity s"
  show "within_capacity (fill_one s)"
  proof (cases "sch_sequence_queue s")
    case (Cons q queue)
    from fill_one_cases [OF Cons] cap show ?thesis
      by (auto simp: within_capacity_def list_all_iff bs_add_def get_num_seq_def dest!: set_update_subset_insert [THEN subsetD])
  qed (simp add: cap)
qed

lemma getBatchSize_bound:
  assumes "all_full s"
  shows "sch_batch_size_per_dp s * int (length (sch_running_queue s)) \<le> getBatchSize s"
proof -
  have "c * int (length bs) \<le> sum_list (map get_num_seq bs)" if "\<forall>b \<in> set bs. c \<le> get_num_seq b" for c bs
    using that by (induction bs) (auto simp: algebra_simps)
  with assms show ?thesis by (simp add: all_full_def list_all_iff getBatchSize_sum)
qed

lemma fill_iter:
  "all_full ((fill_one ^^ n) s) \<or> sch_sequence_queue ((fill_one ^^ n) s) = drop n (sch_sequence_queue s)"
proof (induction n)
  case (Suc n)
  let ?s = "(fill_one ^^ n) s"
  have keep: "all_full ?s \<Longrightarrow> all_full (fill_one ?s)"
  proof (cases "sch_sequence_queue ?s")
    case (Cons q queue)
    assume full: "all_full ?s"
    then have "\<not> get_num_seq (sch_running_queue ?s ! i) < sch_batch_size_per_dp ?s"
      if "i < length (sch_running_queue ?s)" for i
      using that by (auto simp: all_full_def list_all_iff not_less)
    with fill_one_cases [OF Cons] have "sch_running_queue (fill_one ?s) = sch_running_queue ?s" by blast
    with full show ?thesis by (simp add: all_full_def)
  qed simp
  show ?case
  proof (cases "all_full ?s")
    case True
    then show ?thesis using keep by simp
  next
    case False
    with Suc have q: "sch_sequence_queue ?s = drop n (sch_sequence_queue s)" by simp
    show ?thesis
    proof (cases "sch_sequence_queue ?s")
      case Nil
      then show ?thesis using q by simp
    next
      case (Cons p queue)
      with fill_one_cases [OF Cons] False q show ?thesis
        by (auto simp: drop_Suc tl_drop [symmetric]) (metis list.sel(3))
    qed
  qed
qed simp

text \<open>
  C3: \<^verbatim>\<open>fillRunningQueue\<close> neither loses nor duplicates a sequence, never overfills a
  batch, and is work-conserving: when it returns no sequence waits, every batch is full, or it has
  placed as many sequences as the total batch size had room for.
\<close>

theorem fillRunningQueue_work_conserving:
  "running_ids (fillRunningQueue s) + mset (waiting_ids (fillRunningQueue s)) = running_ids s + mset (waiting_ids s) \<and>
   (within_capacity s \<longrightarrow> within_capacity (fillRunningQueue s)) \<and>
   (all_full (fillRunningQueue s) \<or> waiting_ids (fillRunningQueue s) = [] \<or>
     waiting_ids (fillRunningQueue s) = drop (nat (sch_total_batch_size s - getBatchSize s)) (waiting_ids s))"
proof -
  let ?n = "nat (min (sch_total_batch_size s - getBatchSize s) (int (length (sch_sequence_queue s))))"
  have "running_ids ((fill_one ^^ n) s) + mset (waiting_ids ((fill_one ^^ n) s)) = running_ids s + mset (waiting_ids s)" for n
    by (induction n) (simp_all add: fill_one_conserves(1))
  moreover have "within_capacity s \<Longrightarrow> within_capacity ((fill_one ^^ n) s)" for n
    by (induction n) (simp_all add: fill_one_conserves(2))
  moreover have "all_full ((fill_one ^^ ?n) s) \<or> waiting_ids ((fill_one ^^ ?n) s) = [] \<or>
     waiting_ids ((fill_one ^^ ?n) s) = drop (nat (sch_total_batch_size s - getBatchSize s)) (waiting_ids s)"
    using fill_iter [of ?n s] by (auto simp: waiting_ids_def drop_map min_def split: if_splits)
  ultimately show ?thesis
    by (simp add: fillRunningQueue_def Let_def)
qed

theorem fillRunningQueue_work_conserving_witness:
  "running_ids (fillRunningQueue example_scheduler) + mset (waiting_ids (fillRunningQueue example_scheduler))
     = running_ids example_scheduler + mset (waiting_ids example_scheduler) \<and>
   within_capacity (fillRunningQueue example_scheduler)"
proof -
  have "within_capacity example_scheduler"
    by (simp add: within_capacity_def example_scheduler_def Scheduler_ctor_def Let_def initRunningQueue_def
        A100_def SystemConfig_ctor_def bs_add_def BatchedSequence_Create_def get_num_seq_def)
  with fillRunningQueue_work_conserving [of example_scheduler] show ?thesis by blast
qed

section \<open>Sequences that overshoot\<close>

text \<open>
  the retirement test is an equality, so a generating sequence that is already at its total
  length when an iteration starts (a decode-mode request for a single token is queued that way) is
  given one more token, passes its length and is never retired.
\<close>

theorem overshot_sequence_never_retires:
  assumes "ids_distinct s" "b \<in> set (sch_running_queue s)" "q \<in> set (bs_sequence b)"
    and "\<not> is_sum q" "sq_total_len q \<le> sq_current_len q" "sq_num_process_token q = 0"
    and "\<not> hasSumSeq s" "sq_gen_start_time q = 0"
  shows "\<exists>b' \<in> set (sch_running_queue (step t s)). \<exists>q' \<in> set (bs_sequence b').
    sq_id q' = sq_id q \<and> sq_total_len q' = sq_total_len q \<and> sq_current_len q' = sq_current_len q + 1 \<and>
    \<not> is_sum q' \<and> sq_num_process_token q' = 0 \<and> sq_gen_start_time q' = 0"
proof -
  let ?adv = "advance (fst (stages s)) (snd (stages s)) (sch_total_time s) t (batch_share (sch_max_process_token s) b)"
  have "fst (stages s)" using assms(7) by (simp add: stages_def)
  then have cur: "sq_current_len (?adv q) = sq_current_len q + 1"
    using assms(4,8) by (simp add: advance_current assign_gen_token)
  then have "\<not> finished (?adv q)" using assms(5) by (simp add: finished_def)
  then have "mark (?adv q) \<in> set (bs_sequence (fst (iterate_batch s t b)))"
    using assms(3) by (auto simp: set_iterate_batch)
  moreover have "fst (iterate_batch s t b) \<in> set (sch_running_queue (step t s))"
    using assms(2) by (simp add: step_running_queue [OF assms(1)])
  moreover have "\<not> is_sum (mark (?adv q))" using assms(4) cur by (simp add: is_sum_def)
  ultimately show ?thesis
    using cur assms(8) by (intro bexI [of _ "fst (iterate_batch s t b)"] bexI [of _ "mark (?adv q)"]) simp_all
qed

definition overshoot_example :: scheduler where
  "overshoot_example = example_scheduler\<lparr>sch_running_queue :=
     [bs_add (example_sequence\<lparr>sq_num_process_token := 0, sq_current_len := 2\<rparr>) (BatchedSequence_Create 4 2)]\<rparr>"

theorem overshot_sequence_never_retires_witness:
  "\<exists>b' \<in> set (sch_running_queue (step 5 overshoot_example)). \<exists>q' \<in> set (bs_sequence b').
    sq_total_len q' = 2 \<and> sq_current_len q' = 3"
proof -
  let ?q = "example_sequence\<lparr>sq_num_process_token := 0, sq_current_len := 2\<rparr>"
  have q: "\<not> is_sum ?q" "sq_total_len ?q = 2" "sq_gen_start_time ?q = 0"
    by (simp_all add: is_sum_def example_sequence_def Sequence_Create_def)
  have "ids_distinct overshoot_example" "\<not> hasSumSeq overshoot_example"
    "bs_add ?q (BatchedSequence_Create 4 2) \<in> set (sch_running_queue overshoot_example)"
    "?q \<in> set (bs_sequence (bs_add ?q (BatchedSequence_Create 4 2)))"
    using q(1) by (simp_all add: ids_distinct_def hasSumSeq_def get_sum_def overshoot_example_def bs_add_def
        BatchedSequence_Create_def)
  from overshot_sequence_never_retires [OF this(1,3,4) q(1) _ _ this(2) q(3), of 5] q(2)
  show ?thesis by fastforce
qed

end
