(* ===== verification/Iterate_Props.thy ===== *)
theory Iterate_Props
  imports Cluster_Iterate Scheduler_Props
begin

text \<open>
  Properties of the iterations: the times of the iteration rows are the running sums of their
  latencies and every row is of a known kind; a simulation whose batch is empty never moves again.
\<close>

section \<open>What a run of the graphs keeps\<close>

lemma for_ranks_keeps:
  assumes "for_ranks f cl = Inr cl'" "P cl" "\<And>i x y. P x \<Longrightarrow> f i x = Inr y \<Longrightarrow> P y"
  shows "P cl'"
  by (rule rfold_invariant [where P = P, OF assms(1) [unfolded for_ranks_def] assms(2)])
    (auto simp: rbind_eq_Inr intro: assms(3))

lemma restart_graph_batches: "restart_graph tg w = Inr (tg', w') \<Longrightarrow> w_batches w' = w_batches w"
proof -
  assume run: "restart_graph tg w = Inr (tg', w')"
  have unset: "w_batches (fold (\<lambda>k w. w\<lparr>w_tensors := (w_tensors w)(k := map_option tensor_unset (w_tensors w k))\<rparr>) ks w) =
      w_batches w" for ks w
    by (induction ks arbitrary: w) simp_all
  have all: "w_batches (fold (\<lambda>node w. if gn_module node = None then w
               else fold (\<lambda>k w. w\<lparr>w_tensors := (w_tensors w)(k := map_option tensor_unset (w_tensors w k))\<rparr>) (gn_tree node) w) ns w)
      = w_batches w" for ns w
    by (induction ns arbitrary: w) (simp_all add: unset)
  from run show ?thesis by (auto simp: restart_graph_def rbind_eq_Inr Let_def all set_tensor_def)
qed

definition run_frame :: "cluster \<Rightarrow> cluster \<Rightarrow> bool" where
  "run_frame cl cl' \<longleftrightarrow> cl_config cl' = cl_config cl \<and> cl_scheduler cl' = cl_scheduler cl \<and>
     cl_node cl' = cl_node cl \<and> cl_num_device cl' = cl_num_device cl \<and>
     cl_num_total_device cl' = cl_num_total_device cl"

lemma run_frame_refl [simp]: "run_frame cl cl"
  by (simp add: run_frame_def)

lemma restartModuleGraph_keeps:
  assumes "restartModuleGraph cl = Inr cl'"
  shows "run_frame cl cl' \<and> w_batches (cl_world cl') = w_batches (cl_world cl)"
proof -
  let ?P = "\<lambda>x. run_frame cl x \<and> w_batches (cl_world x) = w_batches (cl_world cl)"
  have st: "?P y" if "?P x" "rbind (device_restartGraph i x) (\<lambda>cl. Inr (device_reset_timeboard i (device_reset_status i cl))) = Inr y"
    for i x y
    using that
    by (auto simp: rbind_eq_Inr device_restartGraph_def device_reset_timeboard_def device_reset_status_def Let_def
        run_frame_def set_device_def dest: restart_graph_batches)
  show ?thesis
    by (rule for_ranks_keeps [where P = ?P, OF assms [unfolded restartModuleGraph_def]]) (simp, rule st)
qed

text \<open>A property of the batches that every module keeps is kept by a run.\<close>

definition keeps_batches :: "(batched_sequence list \<Rightarrow> bool) \<Rightarrow> forward \<Rightarrow> bool" where
  "keeps_batches P fwd \<longleftrightarrow> (\<forall>dev node b w w'. P (w_batches w) \<longrightarrow> fwd dev node b w = Inr w' \<longrightarrow> P (w_batches w'))"

lemma sync_dep_batches: "sync_dep t k w = Inr w' \<Longrightarrow> w_batches w' = w_batches w"
  by (auto simp: sync_dep_def rbind_eq_Inr set_device_def set_tensor_def)

lemma sync_deps_batches: "rfold (sync_dep t) ks w = Inr w' \<Longrightarrow> w_batches w' = w_batches w"
proof -
  assume run: "rfold (sync_dep t) ks w = Inr w'"
  show ?thesis
    by (rule rfold_invariant [OF run]) (auto dest: sync_dep_batches)
qed

lemma clear_synced_batches: "clear_synced p w = Inr w' \<Longrightarrow> w_batches w' = w_batches w"
  by (auto simp: clear_synced_def rbind_eq_Inr set_tensor_def split: option.splits)

lemma check_ready_batches: "check_ready node w = Inr (ok, w') \<Longrightarrow> w_batches w' = w_batches w"
  by (auto simp: check_ready_def sync_devices_def rbind_eq_Inr fail_def split: if_splits
      dest!: sync_deps_batches clear_synced_batches)

lemma set_stamp_batches: "set_stamp tg w = Inr (tg', w') \<Longrightarrow> w_batches w' = w_batches w"
  by (auto simp: set_stamp_def Let_def rbind_eq_Inr set_device_def split: if_splits)

lemma node_run_batches:
  assumes "node_run fwd dev b node w = Inr (ok, w')" "keeps_batches P fwd" "P (w_batches w)"
  shows "P (w_batches w')"
proof -
  have fwd: "P (w_batches y)" if "fwd dev node b x = Inr y" "w_batches x = w_batches w" for x y
    using assms(2,3) that by (metis keeps_batches_def)
  show ?thesis
    using assms(1,3) by (auto simp: node_run_def rbind_eq_Inr split: if_splits dest!: check_ready_batches intro: fwd)
qed

lemma graph_loop_batches:
  assumes "graph_loop n fwd b tg w = Inr (tg', w')" "keeps_batches P fwd" "P (w_batches w)"
  shows "P (w_batches w')"
  using assms(1,3)
proof (induction n arbitrary: tg w)
  case 0
  then show ?case by simp
next
  case (Suc n)
  obtain tg1 w1 ok w2 where st: "set_stamp tg w = Inr (tg1, w1)"
    and run: "node_run fwd (tg_device tg1) b (tg_nodes tg1 ! tg_current tg1) w1 = Inr (ok, w2)"
    and rest: "(if ok then graph_loop n fwd b (tg1\<lparr>tg_current := Suc (tg_current tg1)\<rparr>) w2 else Inr (tg1, w2)) = Inr (tg', w')"
    using Suc.prems(1) by (auto simp: rbind_eq_Inr)
  have "P (w_batches w1)" using set_stamp_batches [OF st] Suc.prems(2) by simp
  from node_run_batches [OF run assms(2) this] Suc.IH rest show ?case by (cases ok) auto
qed

lemma device_run_keeps:
  assumes "device_run fwd i cl = Inr cl'" "keeps_batches P fwd"
  shows "run_frame cl cl' \<and> (P (w_batches (cl_world cl)) \<longrightarrow> P (w_batches (cl_world cl')))"
proof -
  obtain dp tg w where run: "graph_run fwd dp (cl_graphs cl ! i) (cl_world cl) = Inr (tg, w)"
    and cl': "cl' = cl\<lparr>cl_graphs := (cl_graphs cl)[i := tg], cl_world := share_cache i w\<rparr>"
    using assms(1) by (rule device_run_cases)
  have "P (w_batches (cl_world cl)) \<longrightarrow> P (w_batches w)"
    using graph_loop_batches [OF run [unfolded graph_run_def] assms(2)] by simp
  then show ?thesis by (simp add: cl' run_frame_def share_cache_def)
qed

lemma run_frame_trans: "run_frame a b \<Longrightarrow> run_frame b c \<Longrightarrow> run_frame a c"
  by (simp add: run_frame_def)

lemma cluster_loop_keeps:
  assumes "cluster_loop n fwd cl = Inr cl'" "keeps_batches P fwd" "P (w_batches (cl_world cl))"
  shows "run_frame cl cl' \<and> P (w_batches (cl_world cl'))"
proof -
  have round: "run_frame x y \<and> P (w_batches (cl_world y))"
    if "cluster_round fwd x = Inr y" "P (w_batches (cl_world x))" for x y
    by (rule rfold_invariant [OF that(1) [unfolded cluster_round_def]])
      (use that(2) device_run_keeps [OF _ assms(2)] in \<open>auto intro: run_frame_trans\<close>)
  show ?thesis
    using assms(1,3)
  proof (induction n arbitrary: cl)
    case 0
    then show ?case by (simp split: if_splits)
  next
    case (Suc n)
    then show ?case
      by (cases "cluster_remain cl") (auto simp: rbind_eq_Inr dest!: round intro: run_frame_trans)
  qed
qed

lemma cluster_run_keeps:
  assumes "cluster_run fwd cl = Inr cl'" "keeps_batches P fwd" "P (sch_running_queue (cl_scheduler cl))"
  shows "\<exists>bs. P bs \<and> cl_scheduler cl' = (cl_scheduler cl)\<lparr>sch_running_queue := bs\<rparr>"
    "cl_config cl' = cl_config cl"
    "cl_node cl' = cl_node cl \<and> cl_num_device cl' = cl_num_device cl \<and> cl_num_total_device cl' = cl_num_total_device cl"
proof -
  let ?c0 = "cluster_setPerformExecution True (cl\<lparr>cl_world := (cl_world cl)\<lparr>w_batches := sch_running_queue (cl_scheduler cl)\<rparr>\<rparr>)"
  have fold_b: "w_batches (fold (\<lambda>i w. set_device i (setPerformExecution p (w_devices w ! i)) w) is w) = w_batches w" for p "is" w
    by (induction "is" arbitrary: w) (simp_all add: set_device_def)
  have c0: "w_batches (cl_world ?c0) = sch_running_queue (cl_scheduler cl)" "cl_config ?c0 = cl_config cl"
    "cl_scheduler ?c0 = cl_scheduler cl" "cl_node ?c0 = cl_node cl" "cl_num_device ?c0 = cl_num_device cl"
    "cl_num_total_device ?c0 = cl_num_total_device cl"
    by (simp_all add: cluster_setPerformExecution_def fold_b)
  obtain c1 c2 where c1: "restartModuleGraph ?c0 = Inr c1"
    and c2: "cluster_loop (remaining_nodes c1 + 2) fwd c1 = Inr c2"
    and cl': "cl' = c2\<lparr>cl_scheduler := (cl_scheduler c2)\<lparr>sch_running_queue := w_batches (cl_world c2)\<rparr>\<rparr>"
    using assms(1) by (auto simp: cluster_run_def Let_def rbind_eq_Inr)
  note f1 = restartModuleGraph_keeps [OF c1]
  have "P (w_batches (cl_world c1))" using f1 c0 assms(3) by simp
  note f2 = cluster_loop_keeps [OF c2 assms(2) this]
  show "\<exists>bs. P bs \<and> cl_scheduler cl' = (cl_scheduler cl)\<lparr>sch_running_queue := bs\<rparr>" "cl_config cl' = cl_config cl"
    "cl_node cl' = cl_node cl \<and> cl_num_device cl' = cl_num_device cl \<and> cl_num_total_device cl' = cl_num_total_device cl"
    using f1 f2 c0 by (auto simp: cl' run_frame_def)
qed

section \<open>The rows\<close>

text \<open>The clock readings of a list of durations.\<close>

fun clock_readings :: "real \<Rightarrow> real list \<Rightarrow> real list" where
  "clock_readings t [] = []"
| "clock_readings t (d # ds) = (t + d) # clock_readings (t + d) ds"

lemma clock_readings_append:
  "clock_readings t (xs @ ys) = clock_readings t xs @ clock_readings (t + sum_list xs) ys"
  by (induction xs arbitrary: t) (simp_all add: add.assoc)

definition reached :: "sequence \<Rightarrow> bool" where
  "reached q \<longleftrightarrow> sq_current_len q = sq_total_len q \<or> sq_current_len q = sq_input_len q"

lemma retire_reached: "list_all reached (snd st) \<Longrightarrow> list_all reached (snd (retire_step q st))"
  by (cases st) (simp add: retire_step_def reached_def)

lemma updateBatch_reached: "list_all reached (snd (updateBatch t b))"
proof -
  have "list_all reached (snd (fold retire_step qs st))" if "list_all reached (snd st)" for qs st
    using that by (induction qs arbitrary: st) (simp_all add: retire_reached)
  then show ?thesis by (simp add: updateBatch_def Let_def)
qed

lemma updateScheduler_reached: "list_all reached (snd (updateScheduler t s))"
  using updateBatch_reached by (auto simp: updateScheduler_def Let_def list_all_iff)

lemma split_reached: "list_all reached (snd (updateSchedulerSumGenSplit t s))"
proof -
  have "list_all reached (snd (fold (split_step tt t) qs st))" if "list_all reached (snd st)" for qs st tt
    using that by (induction qs arbitrary: st) (simp_all add: split_step_def Let_def retire_reached)
  then have "list_all reached (snd (fold (split_step (sch_total_time s) t) (get_sum b) (b, [])))" for b
    by simp
  then show ?thesis by (force simp: updateSchedulerSumGenSplit_def Let_def list_all_iff)
qed

lemma latency_row_type:
  "reached q \<Longrightarrow> st_type (latency_row t q) = ''e2e'' \<or> st_type (latency_row t q) = ''t2ft''"
  by (auto simp: latency_row_def reached_def Let_def)

lemma latency_rows_types:
  "list_all reached qs \<Longrightarrow> list_all (\<lambda>r. st_type r = ''e2e'' \<or> st_type r = ''t2ft'') (latency_rows t qs)"
  by (auto simp: latency_rows_def list_all_iff latency_row_type)

text \<open>The row of an iteration keeps its kind and its time through all the setters.\<close>

definition same_head :: "stat \<Rightarrow> stat \<Rightarrow> bool" where
  "same_head a b \<longleftrightarrow> st_type b = st_type a \<and> st_time b = st_time a \<and> st_iter_info b = st_iter_info a"

lemma setStat_head:
  assumes "setStat cl st = Inr st'"
  shows "same_head st st'" "\<not> disagg_system (cl_config cl) \<Longrightarrow> device_time cl = Inr (st_latency st')"
    "\<not> hasSumSeq (cl_scheduler cl) \<Longrightarrow> device_time cl = Inr (st_latency st')"
  using assms by (auto simp: setStat_def same_head_def rbind_eq_Inr Let_def)

lemma break_down_keeps:
  "same_head st (break_down_plain cl tb ts st)" "st_latency (break_down_plain cl tb ts st) = st_latency st"
  "same_head st (break_down_mla cl tb ts st)" "st_latency (break_down_mla cl tb ts st) = st_latency st"
  by (simp_all add: break_down_plain_def break_down_mla_def break_down_rest_def same_head_def Let_def)

lemma setTimeBreakDown_head:
  "setTimeBreakDown cl st = Inr st' \<Longrightarrow> same_head st st' \<and> st_latency st' = st_latency st"
  by (auto simp: setTimeBreakDown_def rbind_eq_Inr Let_def break_down_keeps split: if_splits)

lemma iteration_row_head:
  assumes "iteration_row cl tot split = Inr st"
  shows "st_type st = ''t2t''" "st_time st = tot" "st_iter_info st = 1"
    "\<not> disagg_system (cl_config cl) \<or> \<not> hasSumSeq (cl_scheduler cl) \<Longrightarrow> device_time cl = Inr (st_latency st)"
proof -
  obtain e st1 where st1: "setStat cl ((set_energy e
        (if split then Stat_ctor\<lparr>st_iter_info := 1, st_type := ''t2t'', st_time := tot, st_split := 1\<rparr>
         else Stat_ctor\<lparr>st_iter_info := 1, st_type := ''t2t'', st_time := tot\<rparr>))
        \<lparr>st_seq_queue_size := int (length (sch_sequence_queue (cl_scheduler cl)))\<rparr>) = Inr st1"
    and st: "setTimeBreakDown cl st1 = Inr st"
    using assms by (auto simp: iteration_row_def Let_def rbind_eq_Inr split: if_splits)
  note h = setStat_head [OF st1] setTimeBreakDown_head [OF st]
  show "st_type st = ''t2t''" "st_time st = tot" "st_iter_info st = 1"
    using h by (auto simp: same_head_def set_energy_def)
  show "device_time cl = Inr (st_latency st)" if "\<not> disagg_system (cl_config cl) \<or> \<not> hasSumSeq (cl_scheduler cl)"
    using h that by auto
qed

lemma device_time_scheduler [simp]: "device_time (with_scheduler f cl) = device_time cl"
  by (simp add: device_time_def with_scheduler_def get_device_def)

definition rows :: "iteration_state \<Rightarrow> stat list" where
  "rows it = it_csv it @ it_stat_list it"

lemma rows_export [simp]: "rows (exportToCSV it) = rows it"
  by (simp add: rows_def exportToCSV_def)

lemma exportToCSV_fields [simp]:
  "it_cluster (exportToCSV it) = it_cluster it" "it_total_time (exportToCSV it) = it_total_time it"
  "it_sum_machine_time (exportToCSV it) = it_sum_machine_time it"
  by (simp_all add: exportToCSV_def)

text \<open>What an accounted iteration adds: its own row, then latency rows of reached sequences.\<close>

lemma account_iteration_rows:
  assumes "account_iteration cl time split it = Inr it'" "device_time cl = Inr time"
  shows "\<exists>st qs ls. rows it' = rows it @ st # ls \<and> ls = latency_rows (st_time st) qs \<and> list_all reached qs \<and>
    st_type st = ''t2t'' \<and> st_time st = it_total_time it + time \<and>
    (\<not> disagg_system (cl_config cl) \<or> \<not> hasSumSeq (cl_scheduler cl) \<longrightarrow> st_latency st = time) \<and>
    list_all (\<lambda>r. st_type r = ''e2e'' \<or> st_type r = ''t2ft'') ls \<and> it_total_time it' = it_total_time it + time \<and>
    it_sum_machine_time it' = it_sum_machine_time it \<and> cl_config (it_cluster it') = cl_config cl"
proof -
  let ?t = "it_total_time it + time"
  let ?cl = "with_scheduler (\<lambda>s. s\<lparr>sch_total_time := ?t\<rparr>) cl"
  obtain st where st: "iteration_row ?cl ?t split = Inr st"
    using assms(1) by (auto simp: account_iteration_def Let_def rbind_eq_Inr)
  obtain s qs where u: "updateScheduler time (cl_scheduler ?cl) = (s, qs)" by fastforce
  obtain cl2 where cl2: "refill time ?t (snd (addLatency (it_stat_list it @ [st]) qs ?t (?cl\<lparr>cl_scheduler := s\<rparr>))) = Inr cl2"
    and it': "it' = it\<lparr>it_cluster := cl2, it_total_time := ?t, it_stat_list := it_stat_list it @ [st] @ latency_rows ?t qs\<rparr>"
    using assms(1) by (auto simp: account_iteration_def Let_def rbind_eq_Inr st finish_iteration_def u addLatency_def)
  have reach: "list_all reached qs" using updateScheduler_reached [of time "cl_scheduler ?cl"] by (simp add: u)
  have "cl_config cl2 = cl_config cl"
    using cl2 by (auto simp: refill_def rbind_eq_Inr addLatency_def with_scheduler_def)
  moreover have "\<not> disagg_system (cl_config cl) \<or> \<not> hasSumSeq (cl_scheduler cl) \<longrightarrow> st_latency st = time"
  proof -
    have same: "cl_config ?cl = cl_config cl" "hasSumSeq (cl_scheduler ?cl) = hasSumSeq (cl_scheduler cl)"
      by (simp_all add: with_scheduler_def hasSumSeq_def)
    show ?thesis
      using iteration_row_head(4) [OF st] assms(2) unfolding same device_time_scheduler by auto
  qed
  ultimately show ?thesis
    using iteration_row_head(1,2) [OF st] latency_rows_types [OF reach, of ?t]
    by (intro exI [of _ st] exI [of _ qs] exI [of _ "latency_rows ?t qs"]) (simp add: it' rows_def reach)
qed

lemma run_tokens_facts:
  assumes "run_tokens fwd cl = Inr (cl', time)"
  shows "device_time cl' = Inr time" "cl_config cl' = cl_config cl"
proof -
  have run: "cluster_run fwd (with_scheduler setMetadata cl) = Inr cl'" and t: "device_time cl' = Inr time"
    using assms by (auto simp: run_tokens_def rbind_eq_Inr)
  show "device_time cl' = Inr time" by (rule t)
  have "keeps_batches (\<lambda>_. True) fwd" by (simp add: keeps_batches_def)
  from cluster_run_keeps(2) [OF run this] show "cl_config cl' = cl_config cl" by (simp add: with_scheduler_def)
qed

definition of_type :: "string \<Rightarrow> iteration_state \<Rightarrow> stat list" where
  "of_type ty it = filter (\<lambda>r. st_type r = ty) (rows it)"

text \<open>The clock of the rows: what both loops keep.\<close>

definition clocked :: "iteration_state \<Rightarrow> bool" where
  "clocked it \<longleftrightarrow> map st_time (of_type ''t2t'' it) = clock_readings 0 (map st_latency (of_type ''t2t'' it)) \<and>
     it_total_time it = sum_list (map st_latency (of_type ''t2t'' it)) \<and>
     list_all (\<lambda>r. st_type r \<in> {''t2t'', ''sum'', ''e2e'', ''t2ft''}) (rows it)"

definition prompts_serial :: "iteration_state \<Rightarrow> bool" where
  "prompts_serial it \<longleftrightarrow> successively (\<lambda>a b. st_time a \<le> st_time b - st_latency b) (of_type ''sum'' it) \<and>
     it_sum_machine_time it = (if of_type ''sum'' it = [] then 0 else st_time (last (of_type ''sum'' it)))"

lemma latency_rows_filter:
  "list_all (\<lambda>r. st_type r = ''e2e'' \<or> st_type r = ''t2ft'') ls \<Longrightarrow> ty \<noteq> ''e2e'' \<Longrightarrow> ty \<noteq> ''t2ft'' \<Longrightarrow>
    filter (\<lambda>r. st_type r = ty) ls = []"
  by (induction ls) auto

lemma start_clocked [simp]: "clocked (start_iterations cl)" "prompts_serial (start_iterations cl)"
  by (simp_all add: clocked_def prompts_serial_def start_iterations_def of_type_def rows_def)

lemma export_clocked [simp]: "clocked (exportToCSV it) = clocked it" "prompts_serial (exportToCSV it) = prompts_serial it"
  by (simp_all add: clocked_def prompts_serial_def of_type_def)

lemma cluster_clocked [simp]: "clocked (it\<lparr>it_cluster := cl\<rparr>) = clocked it" "prompts_serial (it\<lparr>it_cluster := cl\<rparr>) = prompts_serial it"
  by (simp_all add: clocked_def prompts_serial_def of_type_def rows_def)

lemma account_clocked:
  assumes "account_iteration cl time split it = Inr it'" "device_time cl = Inr time"
    "\<not> disagg_system (cl_config cl) \<or> \<not> hasSumSeq (cl_scheduler cl)" "clocked it"
  shows "clocked it'" "prompts_serial it \<Longrightarrow> prompts_serial it'" "cl_config (it_cluster it') = cl_config cl"
proof -
  obtain st ls where r: "rows it' = rows it @ st # ls" and st: "st_type st = ''t2t''" "st_time st = it_total_time it + time"
    "st_latency st = time" and ls: "list_all (\<lambda>r. st_type r = ''e2e'' \<or> st_type r = ''t2ft'') ls"
    and t: "it_total_time it' = it_total_time it + time" "it_sum_machine_time it' = it_sum_machine_time it"
    "cl_config (it_cluster it') = cl_config cl"
    using account_iteration_rows [OF assms(1,2)] assms(3) by blast
  have f: "of_type ''t2t'' it' = of_type ''t2t'' it @ [st]" "of_type ''sum'' it' = of_type ''sum'' it"
    using latency_rows_filter [OF ls] by (simp_all add: of_type_def r st)
  show "clocked it'"
    using assms(4) ls st t r by (auto simp: clocked_def f clock_readings_append list_all_iff)
  show "prompts_serial it \<Longrightarrow> prompts_serial it'" using t by (simp add: prompts_serial_def f)
  show "cl_config (it_cluster it') = cl_config cl" by (rule t(3))
qed

text \<open>
  The rows of iterations one after the other: an iteration's own row, followed by the rows
  of the sequences it reports, dated by that row and made from sequences that have reached their end or the end of
  their prompt.
\<close>

definition iteration_rows :: "stat \<times> sequence list \<Rightarrow> stat list" where
  "iteration_rows x = fst x # latency_rows (st_time (fst x)) (snd x)"

definition good_iteration :: "stat \<times> sequence list \<Rightarrow> bool" where
  "good_iteration x \<longleftrightarrow> st_type (fst x) = ''t2t'' \<and> list_all reached (snd x)"

definition in_blocks :: "stat list \<Rightarrow> bool" where
  "in_blocks rs \<longleftrightarrow> (\<exists>xs. rs = concat (map iteration_rows xs) \<and> list_all good_iteration xs)"

lemma in_blocks_Nil [simp]: "in_blocks []"
  unfolding in_blocks_def by (intro exI [of _ "[]"]) simp

lemma in_blocks_append:
  assumes "in_blocks rs" "st_type st = ''t2t''" "list_all reached qs"
  shows "in_blocks (rs @ st # latency_rows (st_time st) qs)"
proof -
  obtain xs where "rs = concat (map iteration_rows xs)" "list_all good_iteration xs"
    using assms(1) by (auto simp: in_blocks_def)
  then show ?thesis
    unfolding in_blocks_def
    by (intro exI [of _ "xs @ [(st, qs)]"]) (simp add: iteration_rows_def good_iteration_def assms(2,3))
qed

lemma in_blocks_types: "in_blocks rs \<Longrightarrow> list_all (\<lambda>r. st_type r \<in> {''t2t'', ''e2e'', ''t2ft''}) rs"
  using latency_rows_types
  by (fastforce simp: in_blocks_def iteration_rows_def good_iteration_def list_all_iff)

lemma rows_cluster [simp]: "rows (it\<lparr>it_cluster := cl\<rparr>) = rows it"
  by (simp add: rows_def)

text \<open>
  C12: in a colocated run the row of every iteration is dated by the running sum of the iteration
  latencies, and the total time is their sum. The rows, exported or not, are those of the iterations one
  after the other, each followed by the rows of the sequences it reports, of the same date, which have produced
  their last token (\<open>e2e\<close>) or their first one (\<open>t2ft\<close>); there is no other kind of row.
\<close>

theorem mixed_rows_account:
  assumes "runIterationMixed fwd iter cl = Inr it" "\<not> disagg_system (cl_config cl)"
  shows "map st_time (of_type ''t2t'' it) = clock_readings 0 (map st_latency (of_type ''t2t'' it)) \<and>
     it_total_time it = sum_list (map st_latency (of_type ''t2t'' it)) \<and>
     (\<exists>xs. rows it = concat (map (\<lambda>(st, qs). st # latency_rows (st_time st) qs) xs) \<and>
        list_all (\<lambda>(st, qs). st_type st = ''t2t'' \<and>
          list_all (\<lambda>q. sq_current_len q = sq_total_len q \<or> sq_current_len q = sq_input_len q) qs) xs) \<and>
     list_all (\<lambda>r. st_type r \<in> {''t2t'', ''e2e'', ''t2ft''}) (rows it)"
proof -
  let ?P = "\<lambda>it. clocked it \<and> in_blocks (rows it) \<and> \<not> disagg_system (cl_config (it_cluster it))"
  have "?P it"
  proof (rule rfold_invariant [where P = ?P, OF assms(1) [unfolded runIterationMixed_def]])
    show "?P (start_iterations cl)" using assms(2) by simp (simp add: start_iterations_def rows_def)
  next
    fix i s t
    assume P: "?P s" and step: "mixed_iteration fwd i s = Inr t"
    let ?s = "exportToCSV s"
    obtain cl' time where run: "run_tokens fwd (it_cluster ?s) = Inr (cl', time)"
      and rest: "(if getNumProcessToken (cl_scheduler cl') = 0 then Inr (?s\<lparr>it_cluster := cl'\<rparr>)
        else account_iteration cl' time (disagg_system (cl_config cl')) ?s) = Inr t"
      using step by (auto simp: mixed_iteration_def Let_def rbind_eq_Inr)
    note f = run_tokens_facts [OF run]
    have nd: "\<not> disagg_system (cl_config cl')" using f P by simp
    show "?P t"
    proof (cases "getNumProcessToken (cl_scheduler cl') = 0")
      case True
      with rest P nd have "t = ?s\<lparr>it_cluster := cl'\<rparr>" by simp
      then show ?thesis using P nd by simp
    next
      case False
      then have acc: "account_iteration cl' time (disagg_system (cl_config cl')) ?s = Inr t" using rest by simp
      have "clocked ?s" using P by simp
      moreover have "in_blocks (rows t)"
        using account_iteration_rows [OF acc f(1)] in_blocks_append P by (metis rows_export)
      ultimately show ?thesis using account_clocked(1,3) [OF acc f(1) disjI1 [OF nd]] nd by simp
    qed
  qed
  moreover from this have "\<exists>xs. rows it = concat (map (\<lambda>(st, qs). st # latency_rows (st_time st) qs) xs) \<and>
        list_all (\<lambda>(st, qs). st_type st = ''t2t'' \<and>
          list_all (\<lambda>q. sq_current_len q = sq_total_len q \<or> sq_current_len q = sq_input_len q) qs) xs"
    unfolding in_blocks_def iteration_rows_def [abs_def] good_iteration_def [abs_def] reached_def [abs_def]
    by (simp add: case_prod_unfold)
  ultimately show ?thesis using in_blocks_types unfolding clocked_def by blast
qed

lemma prompt_rows:
  assumes "prompt_iteration cl time it = it'"
  shows "\<exists>st ls. rows it' = rows it @ st # ls \<and> st_type st = ''sum'' \<and> st_latency st = time \<and>
    st_time st = max (it_total_time it) (it_sum_machine_time it) + time \<and>
    list_all (\<lambda>r. st_type r = ''e2e'' \<or> st_type r = ''t2ft'') ls \<and> it_total_time it' = it_total_time it \<and>
    it_sum_machine_time it' = st_time st"
proof -
  let ?t = "max (it_total_time it) (it_sum_machine_time it) + time"
  let ?st = "Stat_ctor\<lparr>st_iter_info := 1, st_type := ''sum'', st_time := ?t, st_latency := time\<rparr>"
  obtain s qs where u: "updateSchedulerSumGenSplit time (cl_scheduler cl) = (s, qs)" by fastforce
  have reach: "list_all reached qs" using split_reached [of time "cl_scheduler cl"] by (simp add: u)
  have "it_stat_list it' = it_stat_list it @ [?st] @ latency_rows ?t qs" "it_csv it' = it_csv it"
    "it_total_time it' = it_total_time it" "it_sum_machine_time it' = ?t"
    using assms by (auto simp: prompt_iteration_def Let_def finish_iteration_def u addLatency_def)
  then show ?thesis
    using latency_rows_types [OF reach, of ?t]
    by (intro exI [of _ ?st] exI [of _ "latency_rows ?t qs"]) (simp add: rows_def)
qed

text \<open>
  C21: in a disaggregated run the prompt machine works on one batch at a time: its rows are in
  order and none starts before the one before it ended; the generating machine's rows are dated by
  the running sum of their own latencies.
\<close>

theorem split_machines_serial:
  assumes "runIterationSumGenSplit fwd iter cl = Inr it"
  shows "successively (\<lambda>a b. st_time a \<le> st_time b - st_latency b) (of_type ''sum'' it) \<and>
     map st_time (of_type ''t2t'' it) = clock_readings 0 (map st_latency (of_type ''t2t'' it)) \<and>
     it_total_time it = sum_list (map st_latency (of_type ''t2t'' it))"
proof -
  let ?P = "\<lambda>it. clocked it \<and> prompts_serial it"
  have "?P it"
  proof (rule rfold_invariant [where P = ?P, OF assms(1) [unfolded runIterationSumGenSplit_def]])
    show "?P (start_iterations cl)" by simp
  next
    fix i s0 t
    assume P0: "?P s0" and step: "split_iteration fwd i s0 = Inr t"
    define sx where "sx = (if cmod i 25 = 24 then exportToCSV s0 else s0)"
    have P: "?P sx" using P0 by (simp add: sx_def)
    obtain cl' time where run: "run_tokens fwd (it_cluster sx) = Inr (cl', time)"
      and rest: "(if getNumProcessToken (cl_scheduler cl') = 0 then Inr (sx\<lparr>it_cluster := cl'\<rparr>)
        else if \<not> hasSumSeq (cl_scheduler cl') then account_iteration cl' time False sx
        else Inr (prompt_iteration cl' time sx)) = Inr t"
      using step unfolding split_iteration_def Let_def sx_def [symmetric] by (auto simp: rbind_eq_Inr)
    note f = run_tokens_facts [OF run]
    consider (idle) "t = sx\<lparr>it_cluster := cl'\<rparr>"
      | (gen) "\<not> hasSumSeq (cl_scheduler cl')" "account_iteration cl' time False sx = Inr t"
      | (prompt) "prompt_iteration cl' time sx = t"
      using rest by (auto split: if_splits)
    then show "?P t"
    proof cases
      case idle
      then show ?thesis using P by (simp only: cluster_clocked)
    next
      case gen
      from account_clocked [OF gen(2) f(1) disjI2 [OF gen(1)]] P show ?thesis by blast
    next
      case prompt
      obtain st ls where r: "rows t = rows sx @ st # ls" "st_type st = ''sum''" "st_latency st = time"
        "st_time st = max (it_total_time sx) (it_sum_machine_time sx) + time"
        and ls: "list_all (\<lambda>r. st_type r = ''e2e'' \<or> st_type r = ''t2ft'') ls"
        and tm: "it_total_time t = it_total_time sx" "it_sum_machine_time t = st_time st"
        using prompt_rows [OF prompt] by blast
      have g: "of_type ''t2t'' t = of_type ''t2t'' sx" "of_type ''sum'' t = of_type ''sum'' sx @ [st]"
        using latency_rows_filter [OF ls] by (simp_all add: of_type_def r)
      have "clocked t" using P ls r(2) tm unfolding clocked_def g r(1) by (auto simp: list_all_iff)
      moreover have "prompts_serial t"
        using P r(3,4) tm unfolding prompts_serial_def g by (auto simp: successively_append_iff)
      ultimately show ?thesis ..
    qed
  qed
  then show ?thesis unfolding clocked_def prompts_serial_def by blast
qed

section \<open>An empty batch\<close>

definition no_sequences :: "batched_sequence list \<Rightarrow> bool" where
  "no_sequences bs \<longleftrightarrow> list_all (\<lambda>b. bs_sequence b = []) bs"

lemma metadata_no_sequences:
  "no_sequences (sch_running_queue s) \<Longrightarrow> no_sequences (sch_running_queue (setMetadata s))"
  by (auto simp: no_sequences_def list_all_iff setMetadata_def batch_metadata_def get_sum_def Let_def split: prod.splits)

lemma no_sequences_tokens: "no_sequences (sch_running_queue s) \<Longrightarrow> getNumProcessToken s = 0"
  by (auto simp: no_sequences_def list_all_iff getNumProcessToken_sum get_process_token_def sum_tokens_def
      intro!: sum_list_all_zero)

definition waiting :: "iteration_state \<Rightarrow> sequence list \<times> real" where
  "waiting it = (let s = cl_scheduler (it_cluster it) in (sch_sequence_queue s, sch_total_time s))"

lemma setMetadata_waiting [simp]:
  "sch_sequence_queue (setMetadata s) = sch_sequence_queue s" "sch_total_time (setMetadata s) = sch_total_time s"
  by (simp_all add: setMetadata_def split: prod.split)

text \<open>
  C19: once no batch holds a sequence, the remaining iterations of a colocated run do nothing: no row
  is produced, the time stands still, nothing waiting is admitted, and the batches stay empty; with
  requests that arrive over time none ever arrives again.
\<close>

theorem empty_batch_stays_empty:
  assumes "rfold (mixed_iteration fwd) is it = Inr it'" "keeps_batches no_sequences fwd"
    and "no_sequences (sch_running_queue (cl_scheduler (it_cluster it)))"
  shows "rows it' = rows it \<and> it_total_time it' = it_total_time it \<and> waiting it' = waiting it \<and>
    no_sequences (sch_running_queue (cl_scheduler (it_cluster it')))"
proof -
  let ?P = "\<lambda>x. rows x = rows it \<and> it_total_time x = it_total_time it \<and> waiting x = waiting it \<and>
    no_sequences (sch_running_queue (cl_scheduler (it_cluster x)))"
  show "?P it'"
  proof (rule rfold_invariant [where P = ?P, OF assms(1)])
    show "?P it" using assms(3) by simp
  next
    fix i s t
    assume P: "?P s" and step: "mixed_iteration fwd i s = Inr t"
    let ?s = "exportToCSV s"
    obtain cl' time where run: "run_tokens fwd (it_cluster s) = Inr (cl', time)"
      and rest: "(if getNumProcessToken (cl_scheduler cl') = 0 then Inr (?s\<lparr>it_cluster := cl'\<rparr>)
        else account_iteration cl' time (disagg_system (cl_config cl')) ?s) = Inr t"
      using step by (auto simp: mixed_iteration_def Let_def rbind_eq_Inr)
    have cr: "cluster_run fwd (with_scheduler setMetadata (it_cluster s)) = Inr cl'"
      using run by (auto simp: run_tokens_def rbind_eq_Inr)
    have "no_sequences (sch_running_queue (cl_scheduler (with_scheduler setMetadata (it_cluster s))))"
      using P metadata_no_sequences by (simp add: with_scheduler_def)
    from cluster_run_keeps(1) [OF cr assms(2) this] obtain bs where bs: "no_sequences bs"
      and sch: "cl_scheduler cl' = (setMetadata (cl_scheduler (it_cluster s)))\<lparr>sch_running_queue := bs\<rparr>"
      by (auto simp: with_scheduler_def)
    have "getNumProcessToken (cl_scheduler cl') = 0" using bs by (simp add: sch no_sequences_tokens)
    with rest have t: "t = ?s\<lparr>it_cluster := cl'\<rparr>" by simp
    then have "rows t = rows ?s" by (simp add: rows_def)
    with t P bs show "?P t" by (simp add: sch waiting_def Let_def)
  qed
qed

section \<open>A simulation that runs\<close>

text \<open>One device with a single leaf module and a batch with one prompt.\<close>

definition one_device :: system_config where
  "one_device = H100\<lparr>num_device := 1\<rparr>"

definition sim_model :: model_config where
  "sim_model = example_model\<lparr>ne_tp_dg := 1, mc_input_len := 3, mc_output_len := 2\<rparr>"

definition sim_cluster :: "batched_sequence list \<Rightarrow> cluster" where
  "sim_cluster bs =
     (Cluster_ctor one_device sim_model ((Scheduler_ctor one_device sim_model False [] 0 1 64 2 example_rng)\<lparr>sch_running_queue := bs\<rparr>))
       \<lparr>cl_node := [\<lparr>nd_rank = 0, nd_config = one_device, nd_ict_latency = 0, nd_ict_bandwidth = 1, nd_device = [0]\<rparr>],
        cl_graphs := [example_graph],
        cl_world := \<lparr>w_tensors = [0 \<mapsto> example_x\<lparr>t_memory_object := Some (MemoryObject_ctor hbm3_80GB ALL_CHANNEL 0 64)\<rparr>],
          w_devices = [example_device], w_batches = []\<rparr>\<rparr>"

lemma sim_facts [simp]:
  "cluster_devices (sim_cluster bs) = [0]" "cl_graphs (sim_cluster bs) = [example_graph]"
  "ne_tp_dg (cl_model_config (sim_cluster bs)) = 1" "cl_num_total_device (sim_cluster bs) = 1"
  "cl_num_device (sim_cluster bs) = 1" "cl_config (sim_cluster bs) = one_device"
  "sch_running_queue (cl_scheduler (sim_cluster bs)) = bs"
  by (simp_all add: sim_cluster_def cluster_devices_def Cluster_ctor_def sim_model_def one_device_def H100_def SystemConfig_ctor_def)

lemma leaf_graph_finishes:
  assumes "tg_nodes tg = [leaf_node]" "tg_current tg = 0" "tg_device tg = 0" "tb_current (tg_timeboard tg) = Some []"
    "tensor_of w (Some 0) = Inr t" "t_ready t" "\<not> t_parallel_execution t"
  shows "\<exists>tg' w'. graph_run idle_forward 0 tg w = Inr (tg', w') \<and> \<not> check_module_graph_remain tg'"
proof -
  have "\<exists>tb w1. set_stamp tg w = Inr (tg\<lparr>tg_timeboard := tb,
      tg_nodes := [leaf_node\<lparr>gn_stamped := True\<rparr>]\<rparr>, w1) \<and> w_tensors w1 = w_tensors w"
    using assms by (simp add: set_stamp_def leaf_node_def Let_def set_push_status_def push_timestamp_def set_device_def) blast
  then obtain tb w1 where st: "set_stamp tg w = Inr (tg\<lparr>tg_timeboard := tb,
      tg_nodes := [leaf_node\<lparr>gn_stamped := True\<rparr>]\<rparr>, w1)" and w1: "w_tensors w1 = w_tensors w" by blast
  have "tensor_of w1 (Some 0) = Inr t" using assms(5) by (simp add: tensor_of_def w1)
  then have "node_run idle_forward 0 0 (leaf_node\<lparr>gn_stamped := True\<rparr>) w1 = Inr (True, w1)"
    using assms(6) by (simp add: node_run_def check_ready_def leaf_node_def idle_forward_def)
  with assms(1-3) show ?thesis by (simp add: graph_run_def st check_module_graph_remain_def)
qed

lemma sim_restarts:
  "\<exists>c1 tg w. restartModuleGraph (cluster_setPerformExecution True ((sim_cluster bs)\<lparr>cl_world := (cl_world (sim_cluster bs))
      \<lparr>w_batches := bs\<rparr>\<rparr>)) = Inr c1 \<and> cl_graphs c1 = [tg] \<and> cl_world c1 = w \<and> cluster_devices c1 = [0] \<and>
    tg_nodes tg = [leaf_node] \<and> tg_current tg = 0 \<and> tg_device tg = 0 \<and> tb_current (tg_timeboard tg) = Some [] \<and>
    (\<exists>t. tensor_of w (Some 0) = Inr t \<and> t_ready t \<and> \<not> t_parallel_execution t) \<and> w_batches w = bs \<and>
    (\<exists>d. w_devices w = [d] \<and> dv_total_rank d = 0) \<and> ne_tp_dg (cl_model_config c1) = 1"
proof -
  have dev: "dv_total_rank example_device = 0" "\<not> t_parallel_execution example_x"
    by (simp_all add: example_device_def Device_ctor_def device_memory_def H100_def SystemConfig_ctor_def
        example_x_def Tensor_ctor_def)
  show ?thesis
    by (simp add: restartModuleGraph_def for_ranks_def cluster_setPerformExecution_def irange_Cons get_device_def
        node_get_device_def vec_at_def sim_cluster_def Cluster_ctor_def one_device_def sim_model_def H100_def SystemConfig_ctor_def
        cluster_devices_def device_restartGraph_def restart_graph_def example_graph_def TopModuleGraph_ctor_def leaf_node_def
        tensor_of_def tensor_set_def set_tensor_def set_device_def device_reset_timeboard_def device_reset_status_def
        reset_timeboard_def reset_status_def setPerformExecution_def Let_def dev)
qed

lemma sim_runs:
  assumes "bs \<noteq> []"
  shows "\<exists>cl'. cluster_run idle_forward (sim_cluster bs) = Inr cl'"
proof -
  obtain c1 tg t d where c1: "restartModuleGraph (cluster_setPerformExecution True ((sim_cluster bs)\<lparr>cl_world := (cl_world (sim_cluster bs))
      \<lparr>w_batches := bs\<rparr>\<rparr>)) = Inr c1" and g: "cl_graphs c1 = [tg]" "cluster_devices c1 = [0]"
    and tg: "tg_nodes tg = [leaf_node]" "tg_current tg = 0" "tg_device tg = 0" "tb_current (tg_timeboard tg) = Some []"
    and t: "tensor_of (cl_world c1) (Some 0) = Inr t" "t_ready t" "\<not> t_parallel_execution t"
    and w: "w_batches (cl_world c1) = bs" "w_devices (cl_world c1) = [d]" "dv_total_rank d = 0" "ne_tp_dg (cl_model_config c1) = 1"
    using sim_restarts [of bs] by auto
  obtain tg' w' where run: "graph_run idle_forward 0 tg (cl_world c1) = Inr (tg', w')" and fin: "\<not> check_module_graph_remain tg'"
    using leaf_graph_finishes [OF tg t] by blast
  let ?c2 = "c1\<lparr>cl_graphs := [tg'], cl_world := share_cache 0 w'\<rparr>"
  have "device_run idle_forward 0 c1 = Inr ?c2"
    using run assms by (simp add: device_run_def device_of_def w g Let_def vec_at_def cdiv_def)
  then have r: "cluster_round idle_forward c1 = Inr ?c2" by (simp add: cluster_round_def g)
  have "\<not> cluster_remain ?c2" using fin g(2) by (simp add: cluster_remain_def cluster_devices_def)
  moreover have "cluster_remain c1" using g tg by (simp add: cluster_remain_def check_module_graph_remain_def)
  ultimately have "cluster_loop (remaining_nodes c1 + 2) idle_forward c1 = Inr ?c2"
    using r by (simp add: remaining_nodes_def g tg numeral_eq_Suc)
  with c1 show ?thesis by (simp add: cluster_run_def Let_def)
qed

definition sim_sequence :: sequence where
  "sim_sequence = example_sequence\<lparr>sq_input_len := 3, sq_total_len := 4, sq_num_process_token := 0\<rparr>"

definition sim_batch :: "int \<Rightarrow> batched_sequence" where
  "sim_batch n = bs_add (sim_sequence\<lparr>sq_num_process_token := n\<rparr>) (BatchedSequence_Create 4 2)"

lemma sim_metadata: "with_scheduler setMetadata (sim_cluster [sim_batch 0]) = sim_cluster [sim_batch 2]"
proof -
  have seq: "bs_sequence (sim_batch n) = [sim_sequence\<lparr>sq_num_process_token := n\<rparr>]" for n
    by (simp add: sim_batch_def bs_add_def BatchedSequence_Create_def)
  have len: "sq_current_len sim_sequence = 0" "sq_input_len sim_sequence = 3"
    by (simp_all add: sim_sequence_def example_sequence_def Sequence_Create_def)
  have s: "cl_scheduler (sim_cluster [b]) =
      (Scheduler_ctor one_device sim_model False [] 0 1 64 2 example_rng)\<lparr>sch_running_queue := [b]\<rparr>" for b
    by (simp add: sim_cluster_def Cluster_ctor_def)
  have "batch_metadata False True 0 2 (sim_batch 0) = sim_batch 2"
    using seq [of 0] len
    by (simp add: batch_metadata_def Let_def get_sum_def is_sum_def is_gen_def gen_tokens_def sum_share_def)
      (simp add: sim_batch_def bs_add_def BatchedSequence_Create_def)
  then have "setMetadata (cl_scheduler (sim_cluster [sim_batch 0])) = cl_scheduler (sim_cluster [sim_batch 2])"
    using seq [of 0] len
    by (simp add: s setMetadata_def stages_def hasSumSeq_def get_sum_def is_sum_def Scheduler_ctor_def initRunningQueue_def
        one_device_def H100_def SystemConfig_ctor_def Let_def)
  then show ?thesis by (simp add: with_scheduler_def) (simp add: sim_cluster_def Cluster_ctor_def)
qed

lemma sim_run_tokens:
  "\<exists>cl' time. run_tokens idle_forward (sim_cluster [sim_batch 0]) = Inr (cl', time) \<and>
    cl_scheduler cl' = cl_scheduler (sim_cluster [sim_batch 2]) \<and> get_device cl' 0 = Inr 0 \<and>
    cl_num_total_device cl' = 1 \<and> cl_config cl' = one_device"
proof -
  obtain cl' where cr: "cluster_run idle_forward (sim_cluster [sim_batch 2]) = Inr cl'"
    using sim_runs [of "[sim_batch 2]"] by auto
  have "keeps_batches (\<lambda>bs. bs = [sim_batch 2]) idle_forward" by (simp add: keeps_batches_def idle_forward_def)
  note k = cluster_run_keeps [OF cr this]
  have sch: "cl_scheduler cl' = cl_scheduler (sim_cluster [sim_batch 2])"
    using k(1) by (auto simp: sim_cluster_def Cluster_ctor_def)
  have dev: "get_device cl' 0 = Inr 0" "cl_num_total_device cl' = 1" "cl_config cl' = one_device"
    using k(2,3) by (simp_all add: get_device_def node_get_device_def vec_at_def
        sim_cluster_def one_device_def Cluster_ctor_def H100_def SystemConfig_ctor_def)
  then have "run_tokens idle_forward (sim_cluster [sim_batch 0]) = Inr (cl', get_time (w_devices (cl_world cl') ! 0))"
    by (simp add: run_tokens_def sim_metadata cr device_time_def)
  with sch dev show ?thesis by blast
qed

lemma sim_scheduler:
  "getNumProcessToken (cl_scheduler (sim_cluster [sim_batch 2])) \<noteq> 0" "hasSumSeq (cl_scheduler (sim_cluster [sim_batch 2]))"
  by (simp_all add: getNumProcessToken_sum get_process_token_def sum_tokens_def hasSumSeq_def get_sum_def is_sum_def
      sim_batch_def bs_add_def BatchedSequence_Create_def sim_sequence_def example_sequence_def Sequence_Create_def)

theorem split_machines_serial_witness:
  "\<exists>it. runIterationSumGenSplit idle_forward 1 (sim_cluster [sim_batch 0]) = Inr it \<and>
    successively (\<lambda>a b. st_time a \<le> st_time b - st_latency b) (of_type ''sum'' it) \<and>
    it_total_time it = sum_list (map st_latency (of_type ''t2t'' it))"
proof -
  obtain cl' time where run: "run_tokens idle_forward (sim_cluster [sim_batch 0]) = Inr (cl', time)"
    and sch: "cl_scheduler cl' = cl_scheduler (sim_cluster [sim_batch 2])"
    using sim_run_tokens by blast
  have "split_iteration idle_forward 0 (start_iterations (sim_cluster [sim_batch 0])) =
      Inr (prompt_iteration cl' time (start_iterations (sim_cluster [sim_batch 0])))"
    using run sim_scheduler by (simp add: split_iteration_def sch start_iterations_def)
  then have it: "runIterationSumGenSplit idle_forward 1 (sim_cluster [sim_batch 0]) =
      Inr (prompt_iteration cl' time (start_iterations (sim_cluster [sim_batch 0])))"
    by (simp add: runIterationSumGenSplit_def irange_Cons)
  from split_machines_serial [OF it] it show ?thesis by blast
qed

theorem mixed_rows_account_witness:
  "\<exists>it. runIterationMixed idle_forward 1 (sim_cluster [sim_batch 0]) = Inr it \<and>
    map st_time (of_type ''t2t'' it) = clock_readings 0 (map st_latency (of_type ''t2t'' it)) \<and>
    it_total_time it = sum_list (map st_latency (of_type ''t2t'' it)) \<and>
    list_all (\<lambda>r. st_type r \<in> {''t2t'', ''e2e'', ''t2ft''}) (rows it)"
proof -
  obtain cl' time where run: "run_tokens idle_forward (sim_cluster [sim_batch 0]) = Inr (cl', time)"
    and sch: "cl_scheduler cl' = cl_scheduler (sim_cluster [sim_batch 2])"
    and dev: "get_device cl' 0 = Inr 0" "cl_num_total_device cl' = 1" "cl_config cl' = one_device"
    using sim_run_tokens by blast
  let ?it = "exportToCSV (start_iterations (sim_cluster [sim_batch 0]))"
  have dev': "get_device (with_scheduler f cl') 0 = Inr 0" "cl_num_total_device (with_scheduler f cl') = 1" for f
    using dev(1,2) by (simp_all add: with_scheduler_def get_device_def)
  have row: "\<exists>st. iteration_row (with_scheduler f cl') t b = Inr st" for f t b
    by (simp add: iteration_row_def getTotalEnergy_def irange_Cons dev' setStat_def device_time_def setTimeBreakDown_def
        expert_stamps_def Let_def)
  have one: "\<exists>q. bs_sequence (fst (updateBatch t (sim_batch 2))) = [q]" for t
    by (simp add: updateBatch_def Let_def bs_update_def get_seq_def retire_step_def sim_batch_def bs_add_def
        BatchedSequence_Create_def sim_sequence_def example_sequence_def Sequence_Create_def)
  have upd: "updateScheduler t ((cl_scheduler (sim_cluster [sim_batch 2]))\<lparr>sch_total_time := x\<rparr>) =
      ((cl_scheduler (sim_cluster [sim_batch 2]))\<lparr>sch_total_time := x, sch_running_queue := [fst (updateBatch t (sim_batch 2))]\<rparr>,
       snd (updateBatch t (sim_batch 2)))" for t x
    by (simp add: updateScheduler_def)
  have fillr: "\<exists>c. refill t x (c0\<lparr>cl_scheduler := (cl_scheduler (sim_cluster [sim_batch 2]))
      \<lparr>sch_total_time := y, sch_running_queue := bs\<rparr>\<rparr>) = Inr c" if "\<exists>b q. bs = [b] \<and> bs_sequence b = [q]" for t x y c0 bs
    using that by (auto simp: refill_def fillSequenceQueue_def getBatchSize_def get_num_seq_def pushSeq_def sim_cluster_def
        Cluster_ctor_def Scheduler_ctor_def initRunningQueue_def Let_def one_device_def H100_def SystemConfig_ctor_def
        sim_model_def example_model_def ModelConfig_ctor_def)
  have modified: "\<exists>q'. bs_sequence (fold (\<lambda>q. bs_modify (sq_id q) (setGenStartTime x)) qs b) = [q']"
    if "bs_sequence b = [q]" for qs x b q
    using that by (induction qs arbitrary: b q) (simp_all add: bs_modify_def)
  have "\<exists>it'. account_iteration cl' time (disagg_system (cl_config cl')) it0 = Inr it'" for it0
  proof -
    let ?s = "cl_scheduler (sim_cluster [sim_batch 2])" and ?t = "it_total_time it0 + time"
    let ?c = "with_scheduler (\<lambda>s. s\<lparr>sch_total_time := ?t\<rparr>) cl'"
    obtain st where st: "iteration_row ?c ?t (disagg_system (cl_config cl')) = Inr st" using row by blast
    have sc: "cl_scheduler ?c = ?s\<lparr>sch_total_time := ?t\<rparr>" by (simp add: with_scheduler_def sch)
    define bs where "bs = [fst (updateBatch time (sim_batch 2))]"
    define qs where "qs = snd (updateBatch time (sim_batch 2))"
    have u: "updateScheduler time (cl_scheduler ?c) = (?s\<lparr>sch_total_time := ?t, sch_running_queue := bs\<rparr>, qs)"
      unfolding sc upd bs_def qs_def ..
    obtain b q where b: "bs = [b]" "bs_sequence b = [q]" using one unfolding bs_def by blast
    let ?bs = "map (\<lambda>b. fold (\<lambda>q. bs_modify (sq_id q) (setGenStartTime ?t)) qs b) bs"
    have "\<exists>b q. ?bs = [b] \<and> bs_sequence b = [q]" using modified [OF b(2)] by (simp add: b(1))
    from fillr [OF this] obtain c2 where c2: "refill time ?t (?c\<lparr>cl_scheduler := ?s\<lparr>sch_total_time := ?t,
        sch_running_queue := ?bs\<rparr>\<rparr>) = Inr c2" by blast
    have lat: "snd (addLatency rs qs ?t (?c\<lparr>cl_scheduler := ?s\<lparr>sch_total_time := ?t, sch_running_queue := bs\<rparr>\<rparr>)) =
        ?c\<lparr>cl_scheduler := ?s\<lparr>sch_total_time := ?t, sch_running_queue := ?bs\<rparr>\<rparr>" for rs
      by (simp add: addLatency_def start_generation_def)
    show ?thesis
      unfolding account_iteration_def finish_iteration_def Let_def st rbind_simps u prod.case case_prod_beta fst_conv snd_conv lat c2 rbind_simps
      by blast
  qed
  then obtain it' where acc: "account_iteration cl' time (disagg_system (cl_config cl')) ?it = Inr it'" by blast
  have "mixed_iteration idle_forward 0 (start_iterations (sim_cluster [sim_batch 0])) = Inr it'"
    using run acc sim_scheduler(1) by (simp add: mixed_iteration_def sch start_iterations_def exportToCSV_def Let_def)
  then have it: "runIterationMixed idle_forward 1 (sim_cluster [sim_batch 0]) = Inr it'"
    by (simp add: runIterationMixed_def irange_Cons)
  have "\<not> disagg_system (cl_config (sim_cluster [sim_batch 0]))"
    by (simp add: one_device_def H100_def SystemConfig_ctor_def)
  from mixed_rows_account [OF it this] it show ?thesis by blast
qed

theorem empty_batch_stays_empty_witness:
  "\<exists>it'. rfold (mixed_iteration idle_forward) [0] (start_iterations (sim_cluster [BatchedSequence_Create 4 2])) = Inr it' \<and>
    rows it' = [] \<and> it_total_time it' = 0"
proof -
  let ?b = "BatchedSequence_Create 4 2" and ?it = "start_iterations (sim_cluster [BatchedSequence_Create 4 2])"
  have "setMetadata (cl_scheduler (sim_cluster [?b])) = cl_scheduler (sim_cluster [?b])"
    by (simp add: setMetadata_def batch_metadata_def get_sum_def BatchedSequence_Create_def sim_cluster_def Cluster_ctor_def
        split: prod.split)
  then have m: "with_scheduler setMetadata (sim_cluster [?b]) = sim_cluster [?b]"
    by (simp add: with_scheduler_def)
  obtain cl' where cr: "cluster_run idle_forward (sim_cluster [?b]) = Inr cl'"
    using sim_runs [of "[?b]"] by auto
  have "keeps_batches (\<lambda>bs. bs = [?b]) idle_forward" by (simp add: keeps_batches_def idle_forward_def)
  note k = cluster_run_keeps [OF cr this]
  have sch: "sch_running_queue (cl_scheduler cl') = [?b]" using k(1) by auto
  have "get_device cl' 0 = Inr 0"
    using k(3) by (simp add: get_device_def node_get_device_def vec_at_def sim_cluster_def one_device_def Cluster_ctor_def
        H100_def SystemConfig_ctor_def)
  moreover have "getNumProcessToken (cl_scheduler cl') = 0"
    using sch by (intro no_sequences_tokens) (simp add: no_sequences_def BatchedSequence_Create_def)
  ultimately have "\<exists>it'. mixed_iteration idle_forward 0 ?it = Inr it'"
    by (simp add: mixed_iteration_def run_tokens_def start_iterations_def exportToCSV_def m cr device_time_def Let_def)
  then obtain it' where it': "rfold (mixed_iteration idle_forward) [0] ?it = Inr it'" by auto
  have "keeps_batches no_sequences idle_forward" by (simp add: keeps_batches_def idle_forward_def)
  moreover have "no_sequences (sch_running_queue (cl_scheduler (it_cluster ?it)))"
    by (simp add: start_iterations_def no_sequences_def BatchedSequence_Create_def)
  ultimately have "rows it' = rows ?it \<and> it_total_time it' = it_total_time ?it"
    using empty_batch_stays_empty [OF it'] by blast
  with it' show ?thesis by (simp add: start_iterations_def rows_def)
qed

end
