(* ===== verification/Trace_Loader.thy ===== *)
theory Trace_Loader
  imports Batch_Scheduler
begin

text \<open>
  Reading a trace of sequences and their experts, \<^verbatim>\<open>initExpertList\<close> of
  \<^verbatim>\<open>src/scheduler/scheduler.cpp\<close>, and drawing the arrival times,
  \<^verbatim>\<open>getActualArrivalTime\<close>. A file is the list of its lines, and the parameter
  \<open>files\<close> says which paths can be opened. Numbers are read as the GNU library reads them in
  the "C" locale: an optional sign and digits, and what follows is ignored. A field that is used or
  stored without ever having been assigned stops the model.
\<close>

section \<open>Formatted input\<close>

definition is_space :: "char \<Rightarrow> bool" where
  "is_space c \<longleftrightarrow> c \<in> {CHR 0x09, CHR 0x0A, CHR 0x0B, CHR 0x0C, CHR 0x0D, CHR 0x20}"

definition is_digit :: "char \<Rightarrow> bool" where
  "is_digit c \<longleftrightarrow> 48 \<le> (of_char c :: nat) \<and> of_char c \<le> (57 :: nat)"

text \<open>\<^verbatim>\<open>iss >> key\<close> on a string; the rest of the line stays in the stream.\<close>

definition read_word :: "string \<Rightarrow> string \<times> string" where
  "read_word s = (let s = dropWhile is_space s in (takeWhile (\<lambda>c. \<not> is_space c) s, dropWhile (\<lambda>c. \<not> is_space c) s))"

definition scan_int :: "string \<Rightarrow> int option" where
  "scan_int s =
     (let (minus, s) = (case s of [] \<Rightarrow> (False, s)
            | c # cs \<Rightarrow> if c = CHR 0x2D then (True, cs) else if c = CHR 0x2B then (False, cs) else (False, s));
          ds = takeWhile is_digit s
      in if ds = [] then None else Some (if minus then - int (digits_value ds) else int (digits_value ds)))"

text \<open>
  \<^verbatim>\<open>iss >> n\<close> on an \<^verbatim>\<open>int\<close>. At the end of the line nothing is
  assigned; otherwise the value assigned, and whether the stream is still good: 0 when there is no
  number, and the nearest \<^verbatim>\<open>int\<close> when it is too large.
\<close>

definition read_int :: "string \<Rightarrow> (int \<times> bool) option" where
  "read_int s =
     (let s = dropWhile is_space s in
      if s = [] then None
      else Some (case scan_int s of
          None \<Rightarrow> (0, False)
        | Some i \<Rightarrow> if int32_range i then (i, True) else (if i < 0 then - 2147483648 else 2147483647, False)))"

definition stoi :: "string \<Rightarrow> int res" where
  "stoi s =
     (case scan_int (dropWhile is_space s) of
        None \<Rightarrow> Inl InvalidArgument
      | Some i \<Rightarrow> if int32_range i then Inr i else Inl OutOfRange)"

section \<open>The trace\<close>

text \<open>The local variables of the loop; the fields of \<^verbatim>\<open>cur_seq\<close> start out unassigned.\<close>

record loader =
  ld_infos :: "sequence_info list"
  ld_total_seq_num :: int
  ld_Lin :: "int option"
  ld_rows :: "int list list"
  ld_process_sum :: bool
  ld_idx :: int

definition resize_rows :: "nat \<Rightarrow> int list list \<Rightarrow> int list list" where
  "resize_rows n rows = take n rows @ replicate (n - length rows) []"

text \<open>The two experts of a token in a layer. Rows of the prompt come layer by layer and are stored token by token.\<close>

definition load_row :: "int \<Rightarrow> string \<Rightarrow> int \<Rightarrow> loader \<Rightarrow> loader res" where
  "load_row num_layer key top_2 ld =
     rbind (stoi key) (\<lambda>top_1.
     if ld_process_sum ld then
       (case ld_Lin ld of
          None \<Rightarrow> Inl UndefinedAccess
        | Some Lin \<Rightarrow>
            let token_id = cmod (ld_idx ld) Lin;
                layer_id = cdiv (ld_idx ld) Lin;
                i = token_id * num_layer + layer_id
            in rbind (vec_at (ld_rows ld) i) (\<lambda>_.
               Inr (ld\<lparr>ld_rows := (ld_rows ld)[nat i := [top_1, top_2]], ld_idx := ld_idx ld + 1\<rparr>)))
     else Inr (ld\<lparr>ld_rows := ld_rows ld @ [[top_1, top_2]]\<rparr>))"

definition load_line :: "bool \<Rightarrow> int \<Rightarrow> string \<Rightarrow> loader \<Rightarrow> loader res" where
  "load_line real_expert_data num_layer line ld =
     (let (key, rest) = read_word line in
      if key = ''Lin'' then Inr (case read_int rest of None \<Rightarrow> ld | Some (v, _) \<Rightarrow> ld\<lparr>ld_Lin := Some v\<rparr>)
      else if key = ''Lout'' then
        (case (ld_Lin ld, read_int rest) of
           (Some Lin, Some (Lout, _)) \<Rightarrow>
             Inr (ld\<lparr>ld_infos := ld_infos ld @ [\<lparr>si_Lin = Lin, si_Lout = Lout, si_expert_list = ld_rows ld\<rparr>],
               ld_Lin := None, ld_rows := []\<rparr>)
         | _ \<Rightarrow> Inl UndefinedAccess)
      else if real_expert_data \<and> key = ''Sum'' then
        (case ld_Lin ld of
           None \<Rightarrow> Inl UndefinedAccess
         | Some Lin \<Rightarrow>
             if Lin * num_layer < 0 then Inl LengthError
             else Inr (ld\<lparr>ld_rows := resize_rows (nat (Lin * num_layer)) (ld_rows ld), ld_process_sum := True, ld_idx := 0\<rparr>))
      else if real_expert_data \<and> key = ''Gen'' then Inr (ld\<lparr>ld_process_sum := False\<rparr>)
      else (case (if real_expert_data then read_int rest else None) of
          Some (top_2, True) \<Rightarrow> load_row num_layer key top_2 ld
        | _ \<Rightarrow> Inr (if take 4 key = ''seq_'' then ld\<lparr>ld_total_seq_num := ld_total_seq_num ld + 1\<rparr> else ld)))"

definition load_trace :: "bool \<Rightarrow> string list \<Rightarrow> scheduler \<Rightarrow> scheduler res" where
  "load_trace real_expert_data lines s =
     (let num_layer = cdiv (num_layers (sch_model_config s)) (expert_freq (sch_model_config s)) in
      rbind (rfold (load_line real_expert_data num_layer) lines
          \<lparr>ld_infos = sch_sequences_info s, ld_total_seq_num = sch_total_seq_num s, ld_Lin = None, ld_rows = [],
           ld_process_sum = False, ld_idx = 0\<rparr>) (\<lambda>ld.
      Inr (s\<lparr>sch_sequences_info := ld_infos ld, sch_total_seq_num := ld_total_seq_num ld\<rparr>)))"

text \<open>Without the experts of a trace they are drawn, in the ascending order of a \<^verbatim>\<open>std::set\<close>.\<close>

definition draw_rows :: "model_config \<Rightarrow> sequence_info \<Rightarrow> rng \<Rightarrow> (sequence_info \<times> rng) res" where
  "draw_rows m info g =
     rbind (rfold (\<lambda>token_id. rfold (\<lambda>layer_id (rows, g).
              rbind (getRandomExpert m (top_k m) g) (\<lambda>(route, g). Inr (rows @ [sort route], g)))
            (irange 0 (num_layers m))) (irange 0 (si_Lin info + si_Lout info)) (si_expert_list info, g)) (\<lambda>(rows, g).
     Inr (info\<lparr>si_expert_list := rows\<rparr>, g))"

definition draw_experts :: "scheduler \<Rightarrow> scheduler res" where
  "draw_experts s =
     rbind (rfold (\<lambda>info (infos, g).
              rbind (draw_rows (sch_model_config s) info g) (\<lambda>(info, g). Inr (infos @ [info], g)))
            (sch_sequences_info s) ([], sch_rng s)) (\<lambda>(infos, g).
     Inr (s\<lparr>sch_sequences_info := infos, sch_rng := g\<rparr>))"

definition initExpertList :: "(string \<Rightarrow> string list option) \<Rightarrow> string \<Rightarrow> string \<Rightarrow> scheduler \<Rightarrow> scheduler res" where
  "initExpertList files dataset expert_file_path s =
     (if expert_file_path = ''none'' then Inr (s\<lparr>sch_real_data := False\<rparr>)
      else (case files expert_file_path of
          Some lines \<Rightarrow> load_trace True lines (s\<lparr>sch_real_data := True\<rparr>)
        | None \<Rightarrow>
            (case files (''../expert_data/experts_mixtral_'' @ dataset @ ''.csv'') of
               None \<Rightarrow> Inr (s\<lparr>sch_real_data := False\<rparr>)
             | Some lines \<Rightarrow> rbind (load_trace False lines (s\<lparr>sch_real_data := True\<rparr>)) draw_experts)))"

text \<open>\<^verbatim>\<open>Scheduler::Create\<close>: the constructor, which reads the trace, and \<^verbatim>\<open>initRunningQueue\<close>.\<close>

definition Scheduler_Create ::
  "(string \<Rightarrow> string list option) \<Rightarrow> string \<Rightarrow> string \<Rightarrow> system_config \<Rightarrow> model_config \<Rightarrow> int \<Rightarrow> int \<Rightarrow> int \<Rightarrow> rng \<Rightarrow> scheduler res" where
  "Scheduler_Create files dataset expert_file_path sc m batch_size max_batched max_process g =
     rbind (initExpertList files dataset expert_file_path (Scheduler_ctor sc m False [] 0 batch_size max_batched max_process g))
       (\<lambda>s. Inr (initRunningQueue s))"

text \<open>
  The arrival times: \<open>poisson mean i\<close> is draw number \<open>i\<close> of the static generator with
  that mean, of which the first \<open>pos\<close> are used up.
\<close>

fun partial_sums :: "real \<Rightarrow> real list \<Rightarrow> real list" where
  "partial_sums a [] = []"
| "partial_sums a (x # xs) = (a + x) # partial_sums (a + x) xs"

definition getActualArrivalTime :: "(int \<Rightarrow> nat \<Rightarrow> int) \<Rightarrow> int \<Rightarrow> nat \<times> scheduler \<Rightarrow> (nat \<times> scheduler) res" where
  "getActualArrivalTime poisson num_iter ps =
     (let (pos, s) = ps; n = num_iter * 100;
          average_ns_per_request = ctrunc (fdiv 1000000000 (of_int (request_per_second (sch_system_config s))))
      in if n < 0 then Inl LengthError
         else Inr (pos + nat n, s\<lparr>sch_actual_arrival_time := sch_actual_arrival_time s @
             partial_sums 0 (map (\<lambda>i. of_int (poisson average_ns_per_request i)) [pos..<pos + nat n]),
           sch_cur_arrival_time_idx := 0\<rparr>))"

end
