(* ===== verification/Trace_Props.thy ===== *)
theory Trace_Props
  imports Trace_Loader
begin

text \<open>
  Properties of the trace reader: what is printed in the format of the traces is read back, the rows of
  a prompt from layer order into token order, and where the experts are drawn every token gets a route
  in every layer.
\<close>

section \<open>Numbers and words\<close>

lemma nat_digits_digits: "list_all is_digit (nat_digits n)"
proof (induction n rule: nat_digits.induct)
  case (1 n)
  have digit: "is_digit (char_of (48 + k))" if "k < (10::nat)" for k
    using that by (simp add: is_digit_def)
  show ?case
    using 1 by (subst nat_digits.simps) (simp add: digit)
qed

lemma nat_digits_not_Nil [simp]: "nat_digits n \<noteq> []"
  using nat_digits_first [of n] by auto

lemma digit_not_space: "is_digit c \<Longrightarrow> \<not> is_space c"
  by (auto simp: is_digit_def is_space_def)

lemma digit_not_sign: "is_digit c \<Longrightarrow> c \<noteq> CHR 0x2D" "is_digit c \<Longrightarrow> c \<noteq> CHR 0x2B"
  by (auto simp: is_digit_def)

definition word :: "string \<Rightarrow> bool" where
  "word w \<longleftrightarrow> w \<noteq> [] \<and> list_all (\<lambda>c. \<not> is_space c) w"

lemma word_to_string [simp]: "word (to_string i)"
proof -
  have "list_all (\<lambda>c. \<not> is_space c) (nat_digits n)" for n
    using nat_digits_digits by (simp add: list_all_iff digit_not_space)
  then show ?thesis by (simp add: word_def to_string_def is_space_def)
qed

lemma word_start: "word w \<Longrightarrow> dropWhile is_space (w @ r) = w @ r"
  by (cases w) (auto simp: word_def)

lemma read_word_word:
  assumes "word w" "r = [] \<or> is_space (hd r)"
  shows "read_word (w @ r) = (w, r)"
proof -
  have "takeWhile (\<lambda>c. \<not> is_space c) (w @ r) = w" "dropWhile (\<lambda>c. \<not> is_space c) (w @ r) = r"
    using assms by (cases r; simp add: word_def list_all_iff takeWhile_append2 dropWhile_append2)+
  then show ?thesis by (simp add: read_word_def word_start [OF assms(1)])
qed

lemma scan_int_to_string [simp]: "scan_int (to_string i) = Some i"
proof -
  have take: "takeWhile is_digit (nat_digits n) = nat_digits n" for n
    using nat_digits_digits [of n] by (simp add: list_all_iff takeWhile_eq_all_conv)
  obtain c cs where c: "nat_digits (nat i) = c # cs" by (cases "nat_digits (nat i)") auto
  then have "is_digit c" using nat_digits_digits [of "nat i"] by simp
  then have "c \<noteq> CHR 0x2D" "c \<noteq> CHR 0x2B" by (rule digit_not_sign)+
  then have pos: "scan_int (nat_digits (nat i)) = Some (int (nat i))"
    using take [of "nat i"] digits_value_nat_digits [of "nat i"] unfolding c by (simp add: scan_int_def)
  have neg: "scan_int (CHR 0x2D # nat_digits n) = Some (- int n)" for n
    by (simp add: scan_int_def take)
  show ?thesis
  proof (cases "i < 0")
    case True
    then show ?thesis using neg [of "nat (- i)"] by (simp add: to_string_def)
  next
    case False
    then show ?thesis using pos by (simp add: to_string_def)
  qed
qed

lemma read_int_to_string:
  assumes "int32_range i"
  shows "read_int (CHR 0x20 # to_string i) = Some (i, True)"
proof -
  have "dropWhile is_space (CHR 0x20 # to_string i) = to_string i"
    using word_start [OF word_to_string [of i], of "[]"] by (simp add: is_space_def)
  moreover have "to_string i \<noteq> []" using word_to_string [of i] by (simp add: word_def)
  ultimately show ?thesis using assms by (simp add: read_int_def)
qed

lemma stoi_to_string: "int32_range i \<Longrightarrow> stoi (to_string i) = Inr i"
  using word_start [OF word_to_string [of i], of "[]"] by (simp add: stoi_def)

section \<open>Printing a trace\<close>

definition entry :: "string \<Rightarrow> int \<Rightarrow> string" where
  "entry key i = key @ CHR 0x20 # to_string i"

definition print_row :: "int list \<Rightarrow> string" where
  "print_row r = entry (to_string (r ! 0)) (r ! 1)"

definition stored_at :: "int \<Rightarrow> int \<Rightarrow> int \<Rightarrow> int" where
  "stored_at L Lin j = j mod Lin * L + j div Lin"

definition print_info :: "int \<Rightarrow> int \<Rightarrow> sequence_info \<Rightarrow> string list" where
  "print_info L k info =
     (let n = si_Lin info * L; rows = si_expert_list info in
      [''seq_'' @ to_string k, entry ''Lin'' (si_Lin info), ''Sum''] @
      map (\<lambda>j. print_row (rows ! nat (stored_at L (si_Lin info) j))) (irange 0 n) @
      [''Gen''] @ map print_row (drop (nat n) rows) @ [entry ''Lout'' (si_Lout info)])"

definition print_trace :: "int \<Rightarrow> sequence_info list \<Rightarrow> string list" where
  "print_trace L infos = concat (map (print_info L 0) infos)"

definition row_ok :: "int list \<Rightarrow> bool" where
  "row_ok r \<longleftrightarrow> length r = 2 \<and> list_all int32_range r"

definition trace_info :: "int \<Rightarrow> sequence_info \<Rightarrow> bool" where
  "trace_info L info \<longleftrightarrow> 0 < si_Lin info \<and> int32_range (si_Lin info) \<and> int32_range (si_Lout info) \<and>
     si_Lin info * L \<le> int (length (si_expert_list info)) \<and> list_all row_ok (si_expert_list info)"

section \<open>Reading a line\<close>

lemma read_word_entry: "word key \<Longrightarrow> read_word (entry key i) = (key, CHR 0x20 # to_string i)"
  unfolding entry_def by (rule read_word_word) (simp_all add: is_space_def)

lemma word_keys: "word ''Lin''" "word ''Lout''" "word ''Sum''" "word ''Gen''"
  by (simp_all add: word_def is_space_def)

lemma read_word_key: "word key \<Longrightarrow> read_word key = (key, [])"
  using read_word_word [of key "[]"] by simp

lemma load_Lin:
  "int32_range n \<Longrightarrow> load_line b L (entry ''Lin'' n) ld = Inr (ld\<lparr>ld_Lin := Some n\<rparr>)"
  by (simp add: load_line_def read_word_entry word_keys read_int_to_string)

lemma load_Lout:
  "int32_range n \<Longrightarrow> ld_Lin ld = Some l \<Longrightarrow> load_line b L (entry ''Lout'' n) ld =
     Inr (ld\<lparr>ld_infos := ld_infos ld @ [\<lparr>si_Lin = l, si_Lout = n, si_expert_list = ld_rows ld\<rparr>], ld_Lin := None, ld_rows := []\<rparr>)"
  by (simp add: load_line_def read_word_entry word_keys read_int_to_string)

lemma load_Sum:
  "ld_Lin ld = Some n \<Longrightarrow> 0 \<le> n * L \<Longrightarrow> load_line True L ''Sum'' ld =
     Inr (ld\<lparr>ld_rows := resize_rows (nat (n * L)) (ld_rows ld), ld_process_sum := True, ld_idx := 0\<rparr>)"
  by (simp add: load_line_def read_word_key word_keys)

lemma load_Gen: "load_line True L ''Gen'' ld = Inr (ld\<lparr>ld_process_sum := False\<rparr>)"
  by (simp add: load_line_def read_word_key word_keys)

lemma load_seq: "load_line b L (''seq_'' @ to_string k) ld = Inr (ld\<lparr>ld_total_seq_num := ld_total_seq_num ld + 1\<rparr>)"
proof -
  have "word (''seq_'' @ to_string k)" using word_to_string [of k] by (simp add: word_def is_space_def)
  then have "read_word (''seq_'' @ to_string k) = (''seq_'' @ to_string k, [])" by (rule read_word_key)
  then show ?thesis by (simp add: load_line_def read_int_def)
qed

lemma to_string_key: "to_string i \<noteq> ''Lin''" "to_string i \<noteq> ''Lout''" "to_string i \<noteq> ''Sum''" "to_string i \<noteq> ''Gen''"
proof -
  have "stoi key = Inl InvalidArgument" if "key \<in> {''Lin'', ''Lout'', ''Sum'', ''Gen''}" for key
    using that by (auto simp: stoi_def scan_int_def is_space_def is_digit_def)
  moreover have "scan_int (dropWhile is_space (to_string i)) = Some i"
    using word_start [OF word_to_string [of i], of "[]"] by simp
  then have "stoi (to_string i) \<noteq> Inl InvalidArgument" by (simp add: stoi_def)
  ultimately show "to_string i \<noteq> ''Lin''" "to_string i \<noteq> ''Lout''" "to_string i \<noteq> ''Sum''" "to_string i \<noteq> ''Gen''" by auto
qed

lemma load_print_row:
  "row_ok r \<Longrightarrow> load_line True L (print_row r) ld = load_row L (to_string (r ! 0)) (r ! 1) ld"
  by (auto simp: row_ok_def list_all_length load_line_def print_row_def read_word_entry to_string_key read_int_to_string)

lemma row_ok_pair: "row_ok r \<Longrightarrow> [r ! 0, r ! Suc 0] = r" "row_ok r \<Longrightarrow> int32_range (r ! 0)"
  by (auto simp: row_ok_def list_all_length length_Suc_conv numeral_2_eq_2)

section \<open>Reading the rows\<close>

lemma quotient_less:
  fixes a b c :: int
  assumes "0 < b" "a < c * b"
  shows "a div b < c"
proof (rule ccontr)
  assume "\<not> a div b < c"
  then have "c * b \<le> a div b * b" using assms(1) by (intro mult_right_mono) simp_all
  also have "\<dots> \<le> a" using assms(1) by (simp add: minus_mod_eq_div_mult [symmetric])
  finally show False using assms(2) by simp
qed

lemma stored_at_bounds:
  assumes "0 < n" "0 \<le> L" "0 \<le> j" "j < n * L"
  shows "0 \<le> stored_at L n j" "stored_at L n j < n * L"
proof -
  have l: "0 \<le> j div n" "j div n < L"
    using assms by (simp_all add: pos_imp_zdiv_nonneg_iff quotient_less mult.commute)
  have t: "0 \<le> j mod n" "j mod n + 1 \<le> n" using assms(1) by simp_all (smt (verit) pos_mod_bound)
  show "0 \<le> stored_at L n j" using l t assms by (simp add: stored_at_def)
  have "(j mod n + 1) * L \<le> n * L" using t(2) assms(2) by (rule mult_right_mono)
  with l show "stored_at L n j < n * L" by (simp add: stored_at_def distrib_right)
qed

lemma stored_at_onto:
  assumes "0 \<le> p" "p < n * L" "0 < n"
  shows "\<exists>j. 0 \<le> j \<and> j < n * L \<and> stored_at L n j = p"
proof -
  have L: "0 < L" using assms by (smt (verit) mult_nonneg_nonpos)
  let ?t = "p div L" and ?l = "p mod L"
  have t: "0 \<le> ?t" "?t < n" using assms L by (simp_all add: pos_imp_zdiv_nonneg_iff quotient_less)
  have l: "0 \<le> ?l" "?l + 1 \<le> L" using L by (simp_all add: zless_imp_add1_zle)
  have j: "(?l * n + ?t) mod n = ?t" "(?l * n + ?t) div n = ?l" using t by simp_all
  have "(?l + 1) * n \<le> L * n" using l(2) assms(3) by (intro mult_right_mono) simp_all
  with t have "?l * n + ?t < n * L" by (simp add: algebra_simps)
  moreover have "stored_at L n (?l * n + ?t) = p" unfolding stored_at_def j by simp
  moreover have "0 \<le> ?l * n + ?t" using l t assms by simp
  ultimately show ?thesis by blast
qed

text \<open>Writing the entries of a list at their places, in any order, gives the list.\<close>

definition put_row :: "int list list \<Rightarrow> int \<Rightarrow> int \<Rightarrow> int \<Rightarrow> int list list \<Rightarrow> int list list" where
  "put_row target L n j rows = rows[nat (stored_at L n j) := target ! nat (stored_at L n j)]"

lemma put_rows_length [simp]: "length (fold (put_row target L n) js rows) = length rows"
  by (induction js arbitrary: rows) (simp_all add: put_row_def)

lemma put_rows_keep:
  "rows ! p = target ! p \<Longrightarrow> fold (put_row target L n) js rows ! p = target ! p"
proof (induction js arbitrary: rows)
  case (Cons j js)
  have "put_row target L n j rows ! p = target ! p"
    using Cons.prems
    by (cases "p < length rows"; cases "nat (stored_at L n j) = p") (simp_all add: put_row_def list_update_beyond)
  then show ?case using Cons.IH by simp
qed simp

lemma put_rows_nth:
  "j \<in> set js \<Longrightarrow> nat (stored_at L n j) < length rows \<Longrightarrow>
     fold (put_row target L n) js rows ! nat (stored_at L n j) = target ! nat (stored_at L n j)"
proof (induction js arbitrary: rows)
  case (Cons i js)
  show ?case
  proof (cases "j = i")
    case True
    have "put_row target L n j rows ! nat (stored_at L n j) = target ! nat (stored_at L n j)"
      using Cons.prems(2) by (simp add: put_row_def)
    then show ?thesis using True by (simp add: put_rows_keep)
  next
    case False
    then show ?thesis using Cons by (simp add: put_row_def)
  qed
qed simp

lemma put_rows_all:
  assumes "0 < n" "0 \<le> L" "length rows = nat (n * L)" "n * L \<le> int (length target)"
  shows "fold (put_row target L n) (irange 0 (n * L)) rows = take (nat (n * L)) target"
proof (rule nth_equalityI)
  show "length (fold (put_row target L n) (irange 0 (n * L)) rows) = length (take (nat (n * L)) target)"
    using assms by simp
next
  fix p
  assume "p < length (fold (put_row target L n) (irange 0 (n * L)) rows)"
  then have p: "int p < n * L" using assms by simp
  then obtain j where j: "0 \<le> j" "j < n * L" "stored_at L n j = int p" using stored_at_onto [of "int p" n L] assms by auto
  have "fold (put_row target L n) (irange 0 (n * L)) rows ! nat (stored_at L n j) = target ! nat (stored_at L n j)"
    using j p assms by (intro put_rows_nth) simp_all
  then show "fold (put_row target L n) (irange 0 (n * L)) rows ! p = take (nat (n * L)) target ! p"
    using j p by simp
qed

lemma load_sum_row:
  assumes "ld_process_sum ld" "ld_Lin ld = Some n" "0 < n" "0 \<le> L" "0 \<le> ld_idx ld" "ld_idx ld < n * L"
    and "length (ld_rows ld) = nat (n * L)" "n * L \<le> int (length target)" "list_all row_ok target"
  shows "load_line True L (print_row (target ! nat (stored_at L n (ld_idx ld)))) ld =
    Inr (ld\<lparr>ld_rows := put_row target L n (ld_idx ld) (ld_rows ld), ld_idx := ld_idx ld + 1\<rparr>)"
proof -
  let ?i = "stored_at L n (ld_idx ld)"
  have i: "0 \<le> ?i" "?i < n * L" using stored_at_bounds assms by simp_all
  then have r: "row_ok (target ! nat ?i)" using assms by (simp add: list_all_length)
  have "vec_at (ld_rows ld) ?i = Inr (ld_rows ld ! nat ?i)" using i assms by (simp add: vec_at_def)
  with assms i show ?thesis
    by (simp add: load_print_row [OF r] load_row_def stoi_to_string row_ok_pair [OF r] Let_def put_row_def
        stored_at_def [of L n "ld_idx ld", symmetric])
qed

lemma load_sum_rows:
  assumes "0 < n" "0 \<le> L" "n * L \<le> int (length target)" "list_all row_ok target"
    and "ld_process_sum ld" "ld_Lin ld = Some n" "length (ld_rows ld) = nat (n * L)" "0 \<le> ld_idx ld"
  shows "ld_idx ld \<le> n * L \<Longrightarrow>
    rfold (load_line True L) (map (\<lambda>j. print_row (target ! nat (stored_at L n j))) (irange (ld_idx ld) (n * L))) ld =
    Inr (ld\<lparr>ld_rows := fold (put_row target L n) (irange (ld_idx ld) (n * L)) (ld_rows ld), ld_idx := n * L\<rparr>)"
  using assms(5-)
proof (induction "nat (n * L - ld_idx ld)" arbitrary: ld)
  case 0
  then have "ld_idx ld = n * L" by simp
  then show ?case by simp
next
  case (Suc k)
  then have lt: "ld_idx ld < n * L" by simp
  let ?ld = "ld\<lparr>ld_rows := put_row target L n (ld_idx ld) (ld_rows ld), ld_idx := ld_idx ld + 1\<rparr>"
  have step: "load_line True L (print_row (target ! nat (stored_at L n (ld_idx ld)))) ld = Inr ?ld"
    using Suc.prems lt assms(1-4) by (intro load_sum_row) simp_all
  have "rfold (load_line True L) (map (\<lambda>j. print_row (target ! nat (stored_at L n j))) (irange (ld_idx ?ld) (n * L))) ?ld =
      Inr (?ld\<lparr>ld_rows := fold (put_row target L n) (irange (ld_idx ?ld) (n * L)) (ld_rows ?ld), ld_idx := n * L\<rparr>)"
    by (rule Suc.hyps(1)) (use Suc.prems Suc.hyps(2) lt in \<open>simp_all add: put_row_def\<close>)
  with step lt show ?case by (simp add: irange_Cons)
qed

lemma load_gen_rows:
  "list_all row_ok rows \<Longrightarrow> \<not> ld_process_sum ld \<Longrightarrow>
     rfold (load_line True L) (map print_row rows) ld = Inr (ld\<lparr>ld_rows := ld_rows ld @ rows\<rparr>)"
  by (induction rows arbitrary: ld) (simp_all add: load_print_row load_row_def stoi_to_string row_ok_pair)

lemma load_info:
  assumes "trace_info L info" "0 \<le> L" "ld_rows ld = []"
  shows "\<exists>b i. rfold (load_line True L) (print_info L k info) ld =
    Inr (ld\<lparr>ld_infos := ld_infos ld @ [info], ld_total_seq_num := ld_total_seq_num ld + 1, ld_Lin := None,
      ld_process_sum := b, ld_idx := i\<rparr>)"
proof -
  let ?n = "si_Lin info" and ?rows = "si_expert_list info"
  have n: "0 < ?n" "int32_range ?n" "int32_range (si_Lout info)" "?n * L \<le> int (length ?rows)" "list_all row_ok ?rows"
    using assms(1) by (simp_all add: trace_info_def)
  have nL: "0 \<le> ?n * L" using n(1) assms(2) by simp
  have gen: "list_all row_ok (drop (nat (?n * L)) ?rows)" using n(5) by (auto simp: list_all_iff dest: in_set_dropD)
  let ?ld = "ld\<lparr>ld_total_seq_num := ld_total_seq_num ld + 1, ld_Lin := Some ?n, ld_rows := replicate (nat (?n * L)) [],
    ld_process_sum := True, ld_idx := 0\<rparr>"
  have rows: "rfold (load_line True L) (map (\<lambda>j. print_row (?rows ! nat (stored_at L ?n j))) (irange 0 (?n * L))) ?ld =
      Inr (?ld\<lparr>ld_rows := take (nat (?n * L)) ?rows, ld_idx := ?n * L\<rparr>)"
    using load_sum_rows [of ?n L ?rows ?ld] put_rows_all [of ?n L "replicate (nat (?n * L)) []" ?rows] n nL assms(2) by simp
  show ?thesis
    by (rule exI [of _ False], rule exI [of _ "?n * L"])
      (simp add: print_info_def Let_def load_seq [simplified] load_Lin n load_Sum nL assms(3) resize_rows_def rfold_append rows load_Gen
        load_gen_rows gen load_Lout)
qed

lemma load_infos:
  assumes "list_all (trace_info L) infos" "0 \<le> L" "ld_rows ld = []"
  shows "\<exists>ld'. rfold (load_line True L) (print_trace L infos) ld = Inr ld' \<and> ld_infos ld' = ld_infos ld @ infos \<and>
    ld_total_seq_num ld' = ld_total_seq_num ld + int (length infos)"
  using assms(1,3)
proof (induction infos arbitrary: ld)
  case Nil
  then show ?case by (simp add: print_trace_def)
next
  case (Cons info infos)
  from Cons.prems have ok: "trace_info L info" "list_all (trace_info L) infos" by simp_all
  from load_info [OF ok(1) assms(2) Cons.prems(2)] obtain ld1 where
    ld1: "rfold (load_line True L) (print_info L 0 info) ld = Inr ld1" "ld_infos ld1 = ld_infos ld @ [info]"
      "ld_total_seq_num ld1 = ld_total_seq_num ld + 1" "ld_rows ld1 = []"
    using Cons.prems(2) by fastforce
  from Cons.IH [OF ok(2) ld1(4)] ld1 show ?case by (auto simp: print_trace_def rfold_append)
qed

text \<open>
  C26: a scheduler created on a printed trace has exactly the printed sequences. Their prompts' experts,
  written layer by layer, end up token by token, the experts of the generated tokens behind them, and
  the number of sequences the requests are drawn from is that of the trace.
\<close>

theorem trace_roundtrip:
  assumes "files path = Some (print_trace (cdiv (num_layers m) (expert_freq m)) infos)" "path \<noteq> ''none''"
    and "list_all (trace_info (cdiv (num_layers m) (expert_freq m))) infos" "0 \<le> cdiv (num_layers m) (expert_freq m)"
  shows "Scheduler_Create files ds path sc m batch_size max_batched max_process g =
    Inr (Scheduler_ctor sc m True infos (int (length infos)) batch_size max_batched max_process g)"
proof -
  let ?L = "cdiv (num_layers m) (expert_freq m)"
  let ?ld = "\<lparr>ld_infos = [], ld_total_seq_num = 0, ld_Lin = None, ld_rows = [], ld_process_sum = False, ld_idx = 0\<rparr>"
  obtain ld where "rfold (load_line True ?L) (print_trace ?L infos) ?ld = Inr ld" "ld_infos ld = infos"
      "ld_total_seq_num ld = int (length infos)"
    using load_infos [OF assms(3,4), of ?ld] by auto
  then show ?thesis
    using assms(1,2)
    by (simp add: Scheduler_Create_def initExpertList_def load_trace_def Let_def Scheduler_ctor_def initRunningQueue_def)
qed

text \<open>Two sequences, on a model with two layers of experts.\<close>

definition two_layers :: model_config where
  "two_layers = example_model\<lparr>num_layers := 2\<rparr>"

definition example_infos :: "sequence_info list" where
  "example_infos = [\<lparr>si_Lin = 2, si_Lout = 1, si_expert_list = [[0, 3], [1, 2], [2, 0], [3, 1], [0, 1], [2, 3]]\<rparr>,
     \<lparr>si_Lin = 1, si_Lout = 5, si_expert_list = [[3, 0], [1, 0]]\<rparr>]"

lemma example_layers: "cdiv (num_layers two_layers) (expert_freq two_layers) = 2"
  by (simp add: two_layers_def example_model_def ModelConfig_ctor_def)

theorem trace_roundtrip_witness:
  "Scheduler_Create (\<lambda>path. if path = ''trace.csv'' then Some (print_trace 2 example_infos) else None) ''mixtral'' ''trace.csv''
     A100 two_layers 4 64 2 example_rng =
   Inr (Scheduler_ctor A100 two_layers True example_infos 2 4 64 2 example_rng)"
  using trace_roundtrip [of "\<lambda>path. if path = ''trace.csv'' then Some (print_trace 2 example_infos) else None" "''trace.csv''"
      two_layers example_infos "''mixtral''" A100 4 64 2 example_rng]
  by (simp add: example_layers trace_info_def row_ok_def int32_range_def example_infos_def)

section \<open>Drawing the experts\<close>

text \<open>Every stretch of draws as long as the fuel holds enough different experts.\<close>

definition fair_draws :: "model_config \<Rightarrow> rng \<Rightarrow> bool" where
  "fair_draws m g \<longleftrightarrow> 0 < num_routed_expert m \<and> 0 \<le> top_k m \<and> (\<forall>i. 0 \<le> rng_expert g i) \<and>
     (\<forall>pos. top_k m \<le> int (card ((\<lambda>i. cmod (rng_expert g i) (num_routed_expert m)) ` {pos..<pos + rng_fuel g})))"

definition route_ok :: "model_config \<Rightarrow> int list \<Rightarrow> bool" where
  "route_ok m route \<longleftrightarrow> int (length route) = top_k m \<and> sorted route \<and> distinct route \<and>
     set route \<subseteq> {0..<num_routed_expert m}"

lemma draw_route_returns:
  assumes "k \<le> int (card (set route \<union> draw ` {pos..<pos + fuel}))" "distinct route"
    and "0 \<le> k"
  shows "\<exists>es pos'. draw_route fuel draw pos k route = Inr (es, pos')"
  using assms(1,2)
proof (induction fuel arbitrary: pos route)
  case 0
  with assms(3) show ?case by (simp add: draw_route.simps [of 0] distinct_card)
next
  case (Suc fuel)
  have "{pos..<pos + Suc fuel} = insert pos {Suc pos..<Suc pos + fuel}" by auto
  then have "set route \<union> draw ` {pos..<pos + Suc fuel} = set (List.insert (draw pos) route) \<union> draw ` {Suc pos..<Suc pos + fuel}"
    by simp
  with Suc assms(3) show ?case by (simp add: draw_route.simps [of "Suc fuel"])
qed

lemma getRandomExpert_fair:
  assumes "fair_draws m g"
  shows "\<exists>route g'. getRandomExpert m (top_k m) g = Inr (route, g') \<and> fair_draws m g' \<and> route_ok m (sort route)"
proof -
  let ?draw = "\<lambda>i. cmod (rng_expert g i) (num_routed_expert m)"
  obtain es pos where r: "draw_route (rng_fuel g) ?draw (rng_expert_pos g) (top_k m) [] = Inr (es, pos)"
    using draw_route_returns [of "top_k m" "[]" ?draw "rng_expert_pos g" "rng_fuel g"] assms by (auto simp: fair_draws_def)
  have "distinct es \<and> int (length es) = top_k m \<and> set es \<subseteq> {0..<num_routed_expert m}"
    using assms by (intro draw_route_inv [OF r]) (auto simp: fair_draws_def)
  with r assms show ?thesis by (auto simp: getRandomExpert_def fair_draws_def route_ok_def)
qed

lemma fold_draws:
  assumes "\<And>x rows g. fair_draws m g \<Longrightarrow> list_all (route_ok m) rows \<Longrightarrow>
      \<exists>rows' g'. f x (rows, g) = Inr (rows', g') \<and> fair_draws m g' \<and> list_all (route_ok m) rows' \<and> length rows' = length rows + n"
    and "fair_draws m g" "list_all (route_ok m) rows"
  shows "\<exists>rows' g'. rfold f xs (rows, g) = Inr (rows', g') \<and> fair_draws m g' \<and> list_all (route_ok m) rows' \<and>
    length rows' = length rows + length xs * n"
  using assms(2,3)
proof (induction xs arbitrary: rows g)
  case (Cons x xs)
  from assms(1) [OF Cons.prems, of x] obtain rows' g' where
    1: "f x (rows, g) = Inr (rows', g')" "fair_draws m g'" "list_all (route_ok m) rows'" "length rows' = length rows + n" by blast
  from Cons.IH [OF 1(2,3)] 1 show ?case by auto
qed simp

lemma draw_rows_fair:
  assumes "fair_draws m g" "si_expert_list info = []"
  shows "\<exists>info' g'. draw_rows m info g = Inr (info', g') \<and> fair_draws m g' \<and>
    si_Lin info' = si_Lin info \<and> si_Lout info' = si_Lout info \<and> list_all (route_ok m) (si_expert_list info') \<and>
    length (si_expert_list info') = nat (si_Lin info + si_Lout info) * nat (num_layers m)"
proof -
  let ?layer = "\<lambda>(layer_id::int) (rows, g). rbind (getRandomExpert m (top_k m) g) (\<lambda>(route, g). Inr (rows @ [sort route], g))"
  have layer: "\<exists>rows' g'. ?layer l (rows, g) = Inr (rows', g') \<and> fair_draws m g' \<and> list_all (route_ok m) rows' \<and>
      length rows' = length rows + 1" if "fair_draws m g" "list_all (route_ok m) rows" for l rows g
    using getRandomExpert_fair [OF that(1)] that(2) by auto
  have token: "\<exists>rows' g'. rfold ?layer (irange 0 (num_layers m)) (rows, g) = Inr (rows', g') \<and> fair_draws m g' \<and>
      list_all (route_ok m) rows' \<and> length rows' = length rows + nat (num_layers m)"
    if "fair_draws m g" "list_all (route_ok m) rows" for t :: int and rows g
    using fold_draws [OF layer that, where xs = "irange 0 (num_layers m)"] by simp
  show ?thesis
    using fold_draws [where f = "\<lambda>t. rfold ?layer (irange 0 (num_layers m))" and rows = "[]" and
        xs = "irange 0 (si_Lin info + si_Lout info)", OF token assms(1)] assms(2)
    by (auto simp: draw_rows_def)
qed

text \<open>
  C31: where a trace gives lengths only, drawing the experts returns as soon as the generator is fair:
  every sequence keeps its lengths and gets, for each of its tokens and each layer, \<^verbatim>\<open>top_k\<close>
  different routed experts in ascending order.
\<close>

theorem drawn_experts_cover:
  assumes "fair_draws (sch_model_config s) (sch_rng s)" "list_all (\<lambda>info. si_expert_list info = []) (sch_sequences_info s)"
  shows "\<exists>infos g. draw_experts s = Inr (s\<lparr>sch_sequences_info := infos, sch_rng := g\<rparr>) \<and>
    list_all2 (\<lambda>info info'. si_Lin info' = si_Lin info \<and> si_Lout info' = si_Lout info \<and>
        length (si_expert_list info') = nat (si_Lin info + si_Lout info) * nat (num_layers (sch_model_config s)) \<and>
        list_all (route_ok (sch_model_config s)) (si_expert_list info'))
      (sch_sequences_info s) infos"
proof -
  let ?m = "sch_model_config s"
  let ?f = "\<lambda>info (infos, g). rbind (draw_rows ?m info g) (\<lambda>(info, g). Inr (infos @ [info], g))"
  let ?P = "\<lambda>info info'. si_Lin info' = si_Lin info \<and> si_Lout info' = si_Lout info \<and>
    length (si_expert_list info') = nat (si_Lin info + si_Lout info) * nat (num_layers ?m) \<and>
    list_all (route_ok ?m) (si_expert_list info')"
  have "\<exists>new g'. rfold ?f infos (acc, g) = Inr (acc @ new, g') \<and> list_all2 ?P infos new"
    if "fair_draws ?m g" "list_all (\<lambda>info. si_expert_list info = []) infos" for infos acc g
    using that
  proof (induction infos arbitrary: acc g)
    case (Cons info infos)
    from draw_rows_fair [OF Cons.prems(1), of info] Cons.prems(2) obtain info' g' where
      1: "draw_rows ?m info g = Inr (info', g')" "fair_draws ?m g'" "?P info info'" by auto
    from Cons.IH [OF 1(2), of "acc @ [info']"] Cons.prems(2) obtain new g'' where
      "rfold ?f infos (acc @ [info'], g') = Inr (acc @ info' # new, g'')" "list_all2 ?P infos new" by auto
    with 1 show ?case by (intro exI [of _ "info' # new"] exI [of _ g'']) simp
  qed simp
  from this [OF assms, of "[]"] obtain new g' where
    "rfold ?f (sch_sequences_info s) ([], sch_rng s) = Inr (new, g')" "list_all2 ?P (sch_sequences_info s) new" by auto
  then show ?thesis by (intro exI [of _ new] exI [of _ g']) (simp add: draw_experts_def)
qed

lemma example_fair: "fair_draws two_layers example_rng"
proof -
  have "2 \<le> card ((\<lambda>i. int i mod 4) ` {pos..<pos + 100})" for pos
  proof -
    have "int pos mod 4 \<noteq> int (Suc pos) mod 4" by presburger
    then have "card {int pos mod 4, int (Suc pos) mod 4} = 2" by simp
    moreover have "(\<lambda>i. int i mod 4) ` {pos, Suc pos} \<subseteq> (\<lambda>i. int i mod 4) ` {pos..<pos + 100}"
      by (rule image_mono) simp
    then have "card ((\<lambda>i. int i mod 4) ` {pos, Suc pos}) \<le> card ((\<lambda>i. int i mod 4) ` {pos..<pos + 100})"
      by (intro card_mono) simp_all
    ultimately show ?thesis by simp
  qed
  then show ?thesis by (simp add: fair_draws_def two_layers_def example_model_def ModelConfig_ctor_def example_rng_def)
qed

definition example_lengths :: scheduler where
  "example_lengths = Scheduler_ctor A100 two_layers True [\<lparr>si_Lin = 2, si_Lout = 1, si_expert_list = []\<rparr>] 1 4 64 2 example_rng"

theorem drawn_experts_cover_witness:
  "\<exists>info g. draw_experts example_lengths = Inr (example_lengths\<lparr>sch_sequences_info := [info], sch_rng := g\<rparr>) \<and>
     si_Lin info = 2 \<and> length (si_expert_list info) = 6 \<and> list_all (route_ok two_layers) (si_expert_list info)"
proof -
  have s: "sch_model_config example_lengths = two_layers" "sch_rng example_lengths = example_rng"
    "sch_sequences_info example_lengths = [\<lparr>si_Lin = 2, si_Lout = 1, si_expert_list = []\<rparr>]"
    by (simp_all add: example_lengths_def Scheduler_ctor_def initRunningQueue_def Let_def)
  have "num_layers two_layers = 2" by (simp add: two_layers_def example_model_def ModelConfig_ctor_def)
  then show ?thesis
    using drawn_experts_cover [of example_lengths] example_fair by (auto simp: s list_all2_Cons1)
qed

section \<open>Arrival times\<close>

text \<open>The arrival times a call adds ascend from zero; a second call starts at zero again.\<close>

lemma partial_sums_ascend:
  "(\<And>x. x \<in> set xs \<Longrightarrow> 0 \<le> x) \<Longrightarrow> sorted (partial_sums a xs) \<and> (\<forall>y \<in> set (partial_sums a xs). a \<le> y)"
proof (induction xs arbitrary: a)
  case (Cons x xs)
  have "0 \<le> x" using Cons.prems by simp
  moreover have "sorted (partial_sums (a + x) xs) \<and> (\<forall>y \<in> set (partial_sums (a + x) xs). a + x \<le> y)"
    using Cons.prems by (intro Cons.IH) simp
  ultimately show ?case by fastforce
qed simp

lemma length_partial_sums [simp]: "length (partial_sums a xs) = length xs"
  by (induction xs arbitrary: a) simp_all

lemma getActualArrivalTime_ascends:
  assumes "0 \<le> num_iter" "\<And>mean i. 0 \<le> poisson mean i" "sch_actual_arrival_time s = []"
  shows "\<exists>times. getActualArrivalTime poisson num_iter (pos, s) =
      Inr (pos + nat (num_iter * 100), s\<lparr>sch_actual_arrival_time := times, sch_cur_arrival_time_idx := 0\<rparr>) \<and>
    length times = nat (num_iter * 100) \<and> sorted times \<and> (\<forall>t \<in> set times. 0 \<le> t)"
proof -
  let ?draws = "map (\<lambda>i. real_of_int (poisson (ctrunc (fdiv 1000000000 (of_int (request_per_second (sch_system_config s))))) i))
    [pos..<pos + nat (num_iter * 100)]"
  have "sorted (partial_sums 0 ?draws) \<and> (\<forall>y \<in> set (partial_sums 0 ?draws). 0 \<le> y)"
    using assms(2) by (intro partial_sums_ascend) auto
  with assms(1,3) show ?thesis
    by (intro exI [of _ "partial_sums 0 ?draws"]) (simp add: getActualArrivalTime_def Let_def)
qed

end
