(* ===== verification/Spec2Isabelle.thy ===== *)
theory Spec2Isabelle
  imports Model_Weights Graph_Build Iterate_Props Comm_Model Expert_Route Graph_Props Leaf_Modules Nearbank_Pim Scheduler_Props Trace_Props
begin

text \<open>
  A model of the LLM inference simulator in \<^verbatim>\<open>src/\<close> (paths below are relative to
  it). The program simulates a cluster of devices, each a GPU with near-memory units (LOGIC dies and
  near-bank PIM), that runs the layers of a transformer over batches of sequences, and accounts for
  the time and the energy.

  \<^bold>\<open>How the program is put together.\<close> A driver creates a \<^verbatim>\<open>Scheduler\<close>, a
  \<^verbatim>\<open>Cluster\<close> with its nodes and devices, and a \<^verbatim>\<open>Model\<close>. Building the
  model constructs a tree of modules on every device and calls it once on the largest batch; the calls
  leave the execution graph of the device, a bracketed list of push and pop nodes. An iteration then
  lets the scheduler choose the tokens, walks the graphs of all devices until each is at its end, and
  adds a row of statistics. Walking a leaf node runs the module, which asks the executor for the
  cheapest processor; the executor tries the cost functions of the layer, which use a roofline or send
  requests to the DRAM simulator. Communication modules wait for the tensors of other devices and move
  all the clocks of a group to the latest one.

  \<^bold>\<open>Conventions.\<close> A class is a record, an enumeration a datatype, a method a function from
  states to states. A \<^verbatim>\<open>double\<close> is a real number (rounding is not modelled); an
  \<^verbatim>\<open>int\<close> or \<^verbatim>\<open>long\<close> is an integer, because signed overflow is
  undefined, and a conversion that changes the value is written out with \<open>to_int32\<close>. A division
  by zero is left unspecified. Every failure is a value of \<open>sim_error\<close>: the assertions of
  \<^verbatim>\<open>common/assert.h\<close>, the exceptions of \<^verbatim>\<open>at\<close>,
  \<^verbatim>\<open>stoi\<close> and \<^verbatim>\<open>resize\<close>, accesses C++ leaves undefined, and
  exhausted fuel. Statics are fields of the state. Random generators are streams of draws with a
  position. Names are strings, paths lists of names. A \<^verbatim>\<open>std::map\<close> is an association
  list or a map, a pointer an index into a store. Tensors are passed by value except in the execution
  graph, where devices wait for each other's tensors and a store holds them.
\<close>

section \<open>The theories\<close>

text \<open>
  \<^bold>\<open>Foundations.\<close>
  \<^item> \<open>LLM_Prelude\<close>: errors, loops that can fail, C++ arithmetic, \<^verbatim>\<open>to_string\<close>
    (\<^verbatim>\<open>common/\<close>).
  \<^item> \<open>Sim_Config\<close>: the enumerations, the system, PIM and model configurations with their presets
    (\<^verbatim>\<open>hardware/base.h\<close>, \<^verbatim>\<open>hardware/hardware_config.h\<close>,
    \<^verbatim>\<open>model/model_config.h\<close>, \<^verbatim>\<open>dram/nearbank/nearbank_config.h\<close>).
  \<^item> \<open>Dram_Map\<close>: addresses to channel, bank, row and column and back
    (\<^verbatim>\<open>dram/memory_config.h\<close>, \<^verbatim>\<open>dram/mmap_controller.cpp\<close>). The locale
    \<open>bundle_decoder\<close> is what the PIM kernels need of a mapping; both mappings interpret it. The
    mapping is total and injective on the addresses of a memory, and the LOGIC mapping has an inverse.
  \<^item> \<open>Tensor_Model\<close>: tensors, memory objects, and the tensor tables of modules
    (\<^verbatim>\<open>module/tensor.cpp\<close>, \<^verbatim>\<open>dram/memory_object.cpp\<close>). Weights never overlap.

  \<^bold>\<open>Memory and hardware.\<close>
  \<^item> \<open>Pim_Kernel\<close>: requests and the kernels that expand them into commands
    (\<^verbatim>\<open>dram/pim_request.cpp\<close>, \<^verbatim>\<open>dram/pimkernel/\<close>). The counters of a request
    are the commands in its queue.
  \<^item> \<open>Exec_Status\<close>, \<open>Time_Board\<close>: the cost of an operation, the clocks of a device, and its trace
    of time stamps (\<^verbatim>\<open>module/status.h\<close>, \<^verbatim>\<open>dram/power.h\<close>,
    \<^verbatim>\<open>module/timeboard.cpp\<close>). A bracketed trace leaves the current stamp where it was
    and adds one closed stamp per bracket.
  \<^item> \<open>Device_Model\<close>: a device, its DRAM interface and the execution cache
    (\<^verbatim>\<open>hardware/device.cpp\<close>, \<^verbatim>\<open>dram/dram_interface.cpp\<close>,
    \<^verbatim>\<open>hardware/layer_impl.cpp\<close>). Through the cache a request is simulated once.
  \<^item> \<open>Nearbank_Pim\<close>: the latency of a matrix-vector product in the banks
    (\<^verbatim>\<open>dram/nearbank/nearbank_pim.cpp\<close>), with bounds from both ends of the pipeline.

  \<^bold>\<open>Cost functions.\<close>
  \<^item> \<open>Layer_Exec\<close>: dense layers and activations (\<^verbatim>\<open>hardware/linear_impl.cpp\<close>,
    \<^verbatim>\<open>hardware/activation_impl.cpp\<close>).
  \<^item> \<open>Attention_Stage\<close>: what the attention functions share; \<open>Attention_Sum\<close> (prompts),
    \<open>Attention_Gen\<close> (decoding), \<open>Attention_Mixed\<close>, \<open>Mla_Exec\<close> and \<open>Absorb_Exec\<close>
    (latent attention, plain and absorbed): all functions of
    \<^verbatim>\<open>hardware/attention_sum_impl.cpp\<close>, \<^verbatim>\<open>attention_gen_impl.cpp\<close> and
    \<^verbatim>\<open>attention_mixed_impl.cpp\<close>. The theorems give the closed form of what a function
    charges, and what it does to the tensors it is given.
  \<^item> \<open>Executor_Model\<close>: the tables of \<^verbatim>\<open>hardware/executor.cpp\<close> and
    \<^verbatim>\<open>Device::execution\<close>. The locale \<open>cost_function\<close> is the contract of a table entry;
    it is interpreted on the entries of all eleven tables. Recorded is the first cheapest of the processors tried
    after the last one that takes no time.

  \<^bold>\<open>Scheduling.\<close>
  \<^item> \<open>Batch_Sequence\<close>: sequences, batches and routes (\<^verbatim>\<open>scheduler/sequence.cpp\<close>).
  \<^item> \<open>Batch_Scheduler\<close>: continuous batching (\<^verbatim>\<open>scheduler/scheduler.cpp\<close>);
    \<open>Scheduler_Props\<close>: the invariant of the running queue, conservation of work, draining, filling.
  \<^item> \<open>Trace_Loader\<close>, \<open>Trace_Props\<close>: reading a trace of sequences and experts, and the arrival
    times. A printed trace is read back; without experts in the trace every token gets a drawn route.

  \<^bold>\<open>Modules.\<close>
  \<^item> \<open>Leaf_Modules\<close>, \<open>Comm_Model\<close>, \<open>Expert_Route\<close>: linear layers, norms and residuals;
    communication between devices; routing and the split of experts over the two sides of a device
    (\<^verbatim>\<open>module/linear.cpp\<close>, \<^verbatim>\<open>layernorm.cpp\<close>, \<^verbatim>\<open>residual.cpp\<close>,
    \<^verbatim>\<open>communication.cpp\<close>, \<^verbatim>\<open>route.cpp\<close>). The locale \<open>load_split\<close> is the
    contract of a split, interpreted on that of \<^verbatim>\<open>getIdxHigh\<close>.
  \<^item> \<open>Module_State\<close>: the tables of all modules of a device by path, the call of a submodule, the
    constructors of leaves (\<^verbatim>\<open>module/module.cpp\<close>).
  \<^item> \<open>Attention_Modules\<close>, \<open>Plain_Modules\<close>: the other leaves (\<^verbatim>\<open>module/attention.cpp\<close>,
    \<^verbatim>\<open>activation.cpp\<close>, \<^verbatim>\<open>rope.cpp\<close>, \<^verbatim>\<open>compressed_kv_restore.cpp\<close>,
    \<^verbatim>\<open>embedding.cpp\<close>, \<^verbatim>\<open>lm_head.cpp\<close>).
  \<^item> \<open>Parallel_Modules\<close>: tensor-parallel layers, attention and feed-forward layers
    (\<^verbatim>\<open>module/parallel.cpp\<close>, \<^verbatim>\<open>layer.cpp\<close>).
  \<^item> \<open>Model_Assembly\<close>: expert layers, decoders, the model and building it on the devices
    (\<^verbatim>\<open>module/expert.cpp\<close>, \<^verbatim>\<open>decoder.cpp\<close>, \<^verbatim>\<open>model/llm.cpp\<close>,
    \<^verbatim>\<open>model/model.h\<close>).
  \<^item> \<open>Build_Rules\<close>, \<open>Build_Props\<close>, \<open>Build_Model\<close>, \<open>Build_Names\<close>, \<open>Build_Device\<close>: a calculus
    for computations that return and keep what the tables offer, and its application to every module:
    constructors establish what the \<^verbatim>\<open>forward\<close> functions look up, and names are distinct.
  \<^item> \<open>Model_Props\<close>, \<open>Model_Weights\<close>: a model that satisfies the conditions of \<open>model_fit\<close>, which its
    constructors do not check, is built on every device; the weights of a layer are
    shared exactly over its group; experts are placed once, as far as they are placed.

  \<^bold>\<open>Cluster.\<close>
  \<^item> \<open>Module_Graph\<close>, \<open>Graph_Props\<close>: recording and walking the execution graph
    (\<^verbatim>\<open>module/module_graph.cpp\<close>). What a leaf does is the parameter \<open>fwd\<close>.
  \<^item> \<open>Graph_Build\<close>: the call that builds a model records the graph of exactly one call of the model, and
    the two ways of recording it, the events of \<open>Module_State\<close> and the nodes of \<open>Module_Graph\<close>, agree.
  \<^item> \<open>Cluster_Model\<close>, \<open>Cluster_Props\<close>: nodes, devices and the run loop
    (\<^verbatim>\<open>hardware/cluster.cpp\<close>, \<^verbatim>\<open>node.cpp\<close>).
  \<^item> \<open>Cluster_Memory\<close>, \<open>Cluster_Stat\<close>, \<open>Cluster_Iterate\<close>, \<open>Iterate_Props\<close>: the memory checks,
    the statistics rows, and the two iteration loops, with the account of the clock over all rows.
\<close>

section \<open>Loops, fuel and bounds\<close>

text \<open>
  A loop over an index range or a container is a fold over the list of its indices or elements. Four
  loops of the code need not end, and have fuel.
  \<^item> \<^verbatim>\<open>ModuleGraph::run\<close> (\<open>graph_loop\<close>): the fuel is the number of nodes left, every
    round passes a node or stops, and \<open>graph_run_stops_when_blocked\<close> shows that it is enough.
  \<^item> \<^verbatim>\<open>Cluster::run\<close> (\<open>cluster_loop\<close>): the fuel is the number of nodes left on all
    devices and two; \<open>cluster_loop_decided\<close> shows that a loop that has not ended by then never
    ends, because a round that passes no node changes nothing.
  \<^item> The draws of a route and of a trace entry (\<open>draw_route\<close>, \<open>draw_real_seq\<close>): the fuel is a
    field of the generator. \<open>draw_route_returns\<close> shows that the loop returns when a stretch of
    draws of that length holds enough different experts, and \<open>draw_route_starves\<close> that it does not
    end when there are fewer experts than the route needs; for a negative length, which the unsigned
    comparison never reaches, \<open>draw_route_negative\<close> says the same.

  The recursion of \<open>find_stamp\<close> and of the printing order is structural on the tree of stamps.
\<close>

section \<open>Parameters and what is not modelled\<close>

text \<open>
  Parameters of the model, because their code is not in the repository: \<open>ram\<close>, the DRAM simulator
  Ramulator, which completes a request from the requests sent before; \<open>srt\<close>, the sorting of
  \<^verbatim>\<open>std::sort\<close>, of which only the contract of the standard is used; the draws of the
  generators; \<open>files\<close>, the files that can be opened.

  Not modelled:
  \<^item> \<^verbatim>\<open>eval/\<close>: the command-line drivers, the reading of YAML options and the tests, which only
    set up a run and print its result.
  \<^item> Output: Gantt charts, \<^verbatim>\<open>printStatus\<close>, the formatting of CSV fields and time
    stamps, progress messages and wall-clock measurements. A row written to the CSV file is an element
    of a list; the text \<^verbatim>\<open>description\<close> of a near-bank result is not built.
  \<^item> \<^verbatim>\<open>ColumnSplit\<close> and \<^verbatim>\<open>RowSplit\<close>, which are declared and never defined.
  \<^item> Rounding of floating-point numbers, and the values of overflowing integer expressions; where a
    preset reaches an overflow, the theory that models the expression says so.
  \<^item> The link between the two uses of a leaf module: \<open>Module_State\<close> runs the \<^verbatim>\<open>forward\<close>
    functions on tensors passed by value, the execution graph on a store shared by the devices, with
    the effect of a leaf on the store as a parameter.
\<close>

end
